(* ===== verification/Klaw_Prelude.thy ===== *)
theory Klaw_Prelude
  imports Main "HOL-Library.Word" "HOL-Library.List_Lexorder" "HOL-Library.Char_ord"
begin

text \<open>
  The vocabulary shared by every component of the klaw development: results as sums, the
  operations of Rust's \<^verbatim>\<open>str\<close> that the sources use (trimming, splitting, joining,
  case folding, decimal printing), saturating machine arithmetic, and ordered maps
  (\<^verbatim>\<open>BTreeMap\<close>) as association lists in ascending key order.

  A Rust string is a sequence of Unicode scalar values. HOL's \<open>char\<close> has 256 values; a
  \<open>char\<close> stands here for the scalar value with its code (U+0000 to U+00FF), so
  \<open>length\<close> is \<^verbatim>\<open>chars().count()\<close>, the lexicographic order on \<open>string\<close> is the
  order on \<^verbatim>\<open>str\<close>, and white space is the \<^verbatim>\<open>White_Space\<close> property restricted to
  that range.
\<close>

named_theorems str_simps "rewriting of string operations"
named_theorems map_simps "lookup after insert, remove and extend on ordered maps"
named_theorems word_simps "readings of saturating word arithmetic as natural numbers"

section \<open>Results\<close>

abbreviation Err :: "'e \<Rightarrow> 'e + 'a" where "Err \<equiv> Inl"
abbreviation Ok :: "'a \<Rightarrow> 'e + 'a" where "Ok \<equiv> Inr"

text \<open>The \<^verbatim>\<open>?\<close> operator.\<close>

definition and_then :: "'e + 'a \<Rightarrow> ('a \<Rightarrow> 'e + 'b) \<Rightarrow> 'e + 'b" where
  "and_then r f = (case r of Inl e \<Rightarrow> Inl e | Inr x \<Rightarrow> f x)"

lemma and_then_simps [simp]:
  "and_then (Inl e) f = Inl e"
  "and_then (Inr x) f = f x"
  by (simp_all add: and_then_def)

lemma and_then_Ok_iff: "and_then r f = Inr y \<longleftrightarrow> (\<exists>x. r = Inr x \<and> f x = Inr y)"
  by (cases r) auto

lemma and_then_Err_iff:
  "and_then r f = Inl e \<longleftrightarrow> r = Inl e \<or> (\<exists>x. r = Inr x \<and> f x = Inl e)"
  by (cases r) auto

definition ok_or :: "'a option \<Rightarrow> 'e \<Rightarrow> 'e + 'a" where
  "ok_or x e = (case x of None \<Rightarrow> Inl e | Some y \<Rightarrow> Inr y)"

lemma ok_or_simps [simp]: "ok_or None e = Inl e" "ok_or (Some y) e = Inr y"
  by (simp_all add: ok_or_def)

text \<open>\<^verbatim>\<open>Option::filter\<close>, \<^verbatim>\<open>Option::or_else\<close> and \<^verbatim>\<open>Option::unwrap_or\<close>.\<close>

definition option_filter :: "('a \<Rightarrow> bool) \<Rightarrow> 'a option \<Rightarrow> 'a option" where
  "option_filter p x = (case x of None \<Rightarrow> None | Some y \<Rightarrow> if p y then Some y else None)"

definition or_else :: "'a option \<Rightarrow> 'a option \<Rightarrow> 'a option" where
  "or_else x y = (case x of None \<Rightarrow> y | Some z \<Rightarrow> Some z)"

definition unwrap_or :: "'a option \<Rightarrow> 'a \<Rightarrow> 'a" where
  "unwrap_or x d = (case x of None \<Rightarrow> d | Some y \<Rightarrow> y)"

lemma option_ops_simps [simp]:
  "option_filter p None = None"
  "option_filter p (Some a) = (if p a then Some a else None)"
  "or_else None b = b"
  "or_else (Some c) b = Some c"
  "unwrap_or None d = d"
  "unwrap_or (Some e) d = e"
  by (simp_all add: option_filter_def or_else_def unwrap_or_def)

lemma option_filter_Some_iff:
  "option_filter p x = Some y \<longleftrightarrow> x = Some y \<and> p y"
  by (cases x) auto

text \<open>Collecting the results of a fallible map, as \<^verbatim>\<open>collect::<Result<Vec<_>, _>>()\<close>:
  the first error wins.\<close>

fun collect_results :: "('e + 'a) list \<Rightarrow> 'e + 'a list" where
  "collect_results [] = Inr []"
| "collect_results (Inl e # rs) = Inl e"
| "collect_results (Inr x # rs) = and_then (collect_results rs) (\<lambda>xs. Inr (x # xs))"

lemma collect_results_Ok_iff:
  "collect_results rs = Inr xs \<longleftrightarrow> rs = map Inr xs"
  by (induction rs arbitrary: xs rule: collect_results.induct)
     (auto simp: and_then_Ok_iff map_eq_Cons_conv Cons_eq_map_conv)

section \<open>Strings\<close>

abbreviation newline :: char where "newline \<equiv> CHR 0x0A"
abbreviation quote :: char where "quote \<equiv> CHR 0x27"

definition is_whitespace :: "char \<Rightarrow> bool" where
  "is_whitespace c \<longleftrightarrow> c \<in> set [CHR 0x09, CHR 0x0A, CHR 0x0B, CHR 0x0C, CHR 0x0D, CHR 0x20,
     CHR 0x85, CHR 0xA0]"

definition trim_start :: "string \<Rightarrow> string" where
  "trim_start s = dropWhile is_whitespace s"

definition trim_end :: "string \<Rightarrow> string" where
  "trim_end s = rev (dropWhile is_whitespace (rev s))"

definition trim :: "string \<Rightarrow> string" where
  "trim s = trim_end (trim_start s)"

lemma trim_Nil [simp]: "trim [] = []"
  by (simp add: trim_def trim_start_def trim_end_def)

lemma dropWhile_idem: "dropWhile P (dropWhile P xs) = dropWhile P xs"
  by (induction xs) auto

lemma trim_end_no_trailing: "trim_end s \<noteq> [] \<Longrightarrow> \<not> is_whitespace (last (trim_end s))"
  by (simp add: trim_end_def last_rev hd_dropWhile)

lemma trim_end_prefix: "\<exists>w. s = trim_end s @ w \<and> (\<forall>c \<in> set w. is_whitespace c)"
proof -
  have "rev s = takeWhile is_whitespace (rev s) @ dropWhile is_whitespace (rev s)" by simp
  then have "s = trim_end s @ rev (takeWhile is_whitespace (rev s))"
    by (metis rev_append rev_rev_ident trim_end_def)
  moreover have "\<forall>c \<in> set (rev (takeWhile is_whitespace (rev s))). is_whitespace c"
    using set_takeWhileD by fastforce
  ultimately show ?thesis by blast
qed

lemma trim_start_idem: "trim_start (trim_start s) = trim_start s"
  by (simp add: trim_start_def dropWhile_idem)

lemma trim_end_idem: "trim_end (trim_end s) = trim_end s"
  by (simp add: trim_end_def dropWhile_idem)

lemma trim_start_trim: "trim_start (trim s) = trim s"
proof (cases "trim s")
  case Nil
  then show ?thesis by (simp add: trim_start_def)
next
  case (Cons c cs)
  obtain w where w: "trim_start s = trim s @ w"
    using trim_end_prefix [of "trim_start s"] by (auto simp: trim_def)
  with Cons have "trim_start s = c # cs @ w" by simp
  then have "\<not> is_whitespace c"
    using hd_dropWhile [of is_whitespace s] by (simp add: trim_start_def)
  with Cons show ?thesis by (simp add: trim_start_def)
qed

lemma trim_idem [simp, str_simps]: "trim (trim s) = trim s"
  by (metis trim_def trim_start_trim trim_end_idem)

lemma trim_empty_iff: "trim s = [] \<longleftrightarrow> (\<forall>c \<in> set s. is_whitespace c)"
proof
  assume "trim s = []"
  then have "\<forall>c \<in> set (trim_start s). is_whitespace c"
    using trim_end_prefix [of "trim_start s"] by (auto simp: trim_def)
  then have "trim_start s = []"
    by (metis hd_dropWhile hd_in_set trim_start_def)
  then show "\<forall>c \<in> set s. is_whitespace c"
    by (simp add: trim_start_def)
next
  assume "\<forall>c \<in> set s. is_whitespace c"
  then have "trim_start s = []" by (simp add: trim_start_def)
  then show "trim s = []" by (simp add: trim_def trim_end_def)
qed

lemma set_trim: "set (trim s) \<subseteq> set s"
proof
  fix c assume "c \<in> set (trim s)"
  then have "c \<in> set (dropWhile is_whitespace (rev (dropWhile is_whitespace s)))"
    by (simp add: trim_def trim_start_def trim_end_def)
  then have "c \<in> set (rev (dropWhile is_whitespace s))" by (rule set_dropWhileD)
  then show "c \<in> set s" unfolding set_rev by (rule set_dropWhileD)
qed

lemma length_trim_le: "length (trim s) \<le> length s"
proof -
  have "length (trim_start s) \<le> length s" by (simp add: trim_start_def length_dropWhile_le)
  moreover have "length (trim_end t) \<le> length t" for t
    by (metis trim_end_def length_rev length_dropWhile_le)
  ultimately show ?thesis unfolding trim_def using order_trans by blast
qed

text \<open>Evaluation of trimming on literals.\<close>

lemmas trim_eval = trim_def trim_start_def trim_end_def is_whitespace_def

text \<open>\<^verbatim>\<open>map(str::trim).filter(|value| !value.is_empty())\<close>, the idiom with which the
  sources read an optional setting.\<close>

definition nonempty_trimmed :: "string option \<Rightarrow> string option" where
  "nonempty_trimmed x = option_filter (\<lambda>v. v \<noteq> []) (map_option trim x)"

lemma nonempty_trimmed_Some_iff:
  "nonempty_trimmed x = Some v \<longleftrightarrow> (\<exists>s. x = Some s \<and> v = trim s \<and> v \<noteq> [])"
  by (cases x) (auto simp: nonempty_trimmed_def)

lemma nonempty_trimmed_simps [simp]:
  "nonempty_trimmed None = None"
  "nonempty_trimmed (Some s) = (if trim s = [] then None else Some (trim s))"
  by (auto simp: nonempty_trimmed_def)

definition starts_with :: "string \<Rightarrow> string \<Rightarrow> bool" where
  "starts_with s p \<longleftrightarrow> take (length p) s = p"

definition ends_with :: "string \<Rightarrow> string \<Rightarrow> bool" where
  "ends_with s p \<longleftrightarrow> length p \<le> length s \<and> drop (length s - length p) s = p"

definition strip_suffix :: "string \<Rightarrow> string \<Rightarrow> string option" where
  "strip_suffix s p = (if ends_with s p then Some (take (length s - length p) s) else None)"

definition is_ascii_digit :: "char \<Rightarrow> bool" where
  "is_ascii_digit c \<longleftrightarrow> CHR ''0'' \<le> c \<and> c \<le> CHR ''9''"

definition is_ascii_alphanumeric :: "char \<Rightarrow> bool" where
  "is_ascii_alphanumeric c \<longleftrightarrow>
     CHR ''A'' \<le> c \<and> c \<le> CHR ''Z'' \<or> CHR ''a'' \<le> c \<and> c \<le> CHR ''z'' \<or> is_ascii_digit c"

fun str_contains :: "string \<Rightarrow> string \<Rightarrow> bool" where
  "str_contains [] p \<longleftrightarrow> p = []"
| "str_contains (c # s) p \<longleftrightarrow> starts_with (c # s) p \<or> str_contains s p"

lemma str_contains_iff: "str_contains s p \<longleftrightarrow> (\<exists>u v. s = u @ p @ v)"
proof (induction s)
  case Nil
  then show ?case by auto
next
  case (Cons c s)
  have "starts_with (c # s) p \<longleftrightarrow> (\<exists>v. c # s = p @ v)"
    by (metis append_eq_conv_conj append_take_drop_id starts_with_def)
  then show ?case unfolding str_contains.simps Cons.IH
    by (metis Cons_eq_append_conv append_Cons append_Nil)
qed

lemma strip_suffix_Some_iff: "strip_suffix s p = Some u \<longleftrightarrow> s = u @ p"
proof -
  have "ends_with (u @ p) p" for u by (simp add: ends_with_def)
  moreover have "ends_with s p \<Longrightarrow> s = take (length s - length p) s @ p"
    by (metis append_take_drop_id ends_with_def)
  ultimately show ?thesis by (auto simp: strip_suffix_def)
qed

text \<open>\<^verbatim>\<open>slice.join(sep)\<close>.\<close>

fun join :: "string \<Rightarrow> string list \<Rightarrow> string" where
  "join sep [] = []"
| "join sep [x] = x"
| "join sep (x # y # zs) = x @ sep @ join sep (y # zs)"

lemma set_join_superset: "w \<in> set ws \<Longrightarrow> set w \<subseteq> set (join sep ws)"
  by (induction sep ws rule: join.induct) auto

lemma length_dropWhile_hd:
  "xs \<noteq> [] \<Longrightarrow> \<not> P (hd xs) \<Longrightarrow> length (dropWhile (\<lambda>c. \<not> P c) xs) < length xs"
  by (cases xs) (auto simp: le_imp_less_Suc length_dropWhile_le)

lemma length_rest_less:
  assumes "dropWhile P xs \<noteq> []"
  shows "length (dropWhile (\<lambda>c. \<not> P c) (dropWhile P xs)) < length xs"
proof -
  have "length (dropWhile (\<lambda>c. \<not> P c) (dropWhile P xs)) < length (dropWhile P xs)"
    using assms hd_dropWhile [OF assms] by (rule length_dropWhile_hd)
  also have "\<dots> \<le> length xs" by (rule length_dropWhile_le)
  finally show ?thesis .
qed

text \<open>\<^verbatim>\<open>str::split_whitespace\<close>: the maximal runs of characters that are not white space.\<close>

function split_whitespace :: "string \<Rightarrow> string list" where
  "split_whitespace s =
     (let t = dropWhile is_whitespace s
      in if t = [] then []
         else takeWhile (\<lambda>c. \<not> is_whitespace c) t
              # split_whitespace (dropWhile (\<lambda>c. \<not> is_whitespace c) t))"
  by pat_completeness auto
termination
  by (relation "measure length") (auto intro: length_rest_less)

declare split_whitespace.simps [simp del]

lemma split_whitespace_blank: "\<forall>c \<in> set s. is_whitespace c \<Longrightarrow> split_whitespace s = []"
  by (simp add: split_whitespace.simps [of s])

lemma split_whitespace_step:
  assumes "dropWhile is_whitespace s = t" "t \<noteq> []"
  shows "split_whitespace s = takeWhile (\<lambda>c. \<not> is_whitespace c) t
           # split_whitespace (dropWhile (\<lambda>c. \<not> is_whitespace c) t)"
  by (subst split_whitespace.simps) (use assms in \<open>simp add: Let_def\<close>)

definition is_word :: "string \<Rightarrow> bool" where
  "is_word w \<longleftrightarrow> w \<noteq> [] \<and> (\<forall>c \<in> set w. \<not> is_whitespace c)"

lemma is_word_takeWhile:
  assumes "t \<noteq> []" "\<not> is_whitespace (hd t)"
  shows "is_word (takeWhile (\<lambda>c. \<not> is_whitespace c) t)"
  using assms by (cases t) (auto simp: is_word_def dest: set_takeWhileD)

lemma split_whitespace_words: "\<forall>w \<in> set (split_whitespace s). is_word w"
proof (induction s rule: split_whitespace.induct)
  case (1 s)
  show ?case
  proof (cases "dropWhile is_whitespace s")
    case Nil
    then show ?thesis by (simp add: split_whitespace_blank)
  next
    case (Cons c cs)
    then have "is_word (takeWhile (\<lambda>c. \<not> is_whitespace c) (c # cs))"
      using hd_dropWhile [of is_whitespace s] by (intro is_word_takeWhile) auto
    with 1 [OF refl] Cons show ?thesis
      by (simp add: split_whitespace_step [OF Cons])
  qed
qed

lemma word_no_leading: "is_word w \<Longrightarrow> dropWhile is_whitespace (w @ s) = w @ s"
  by (cases w) (auto simp: is_word_def)

lemma split_whitespace_word_blank:
  assumes "is_word w"
  shows "split_whitespace (w @ CHR 0x20 # s) = w # split_whitespace s"
proof -
  have sp: "is_whitespace (CHR 0x20)" by (simp add: is_whitespace_def)
  have ne: "w @ CHR 0x20 # s \<noteq> []" by simp
  have tk: "takeWhile (\<lambda>c. \<not> is_whitespace c) (w @ CHR 0x20 # s) = w"
    using assms sp by (simp add: is_word_def takeWhile_append2)
  have dr: "dropWhile (\<lambda>c. \<not> is_whitespace c) (w @ CHR 0x20 # s) = CHR 0x20 # s"
    using assms sp by (simp add: is_word_def dropWhile_append2)
  have "split_whitespace (CHR 0x20 # s) = split_whitespace s"
    using sp by (subst (1 2) split_whitespace.simps) simp
  then show ?thesis
    unfolding split_whitespace_step [OF word_no_leading [OF assms] ne] tk dr by simp
qed

lemma split_whitespace_word:
  assumes "is_word w"
  shows "split_whitespace w = [w]"
proof -
  have ne: "w \<noteq> []" using assms by (simp add: is_word_def)
  have d: "dropWhile is_whitespace w = w"
    using word_no_leading [OF assms, of "[]"] by simp
  have tk: "takeWhile (\<lambda>c. \<not> is_whitespace c) w = w"
    using assms by (simp add: is_word_def takeWhile_eq_all_conv)
  have dr: "dropWhile (\<lambda>c. \<not> is_whitespace c) w = []"
    using assms by (simp add: is_word_def)
  show ?thesis unfolding split_whitespace_step [OF d ne] tk dr
    by (simp add: split_whitespace_blank)
qed

lemma split_whitespace_join:
  "\<forall>w \<in> set ws. is_word w \<Longrightarrow> split_whitespace (join [CHR 0x20] ws) = ws"
proof (induction "[CHR 0x20]" ws rule: join.induct)
  case 1
  then show ?case by (simp add: split_whitespace.simps)
qed (simp_all add: split_whitespace_word split_whitespace_word_blank)

text \<open>\<^verbatim>\<open>str::split(c)\<close>: always at least one part.\<close>

fun split_char :: "char \<Rightarrow> string \<Rightarrow> string list" where
  "split_char c [] = [[]]"
| "split_char c (x # xs) =
     (if x = c then [] # split_char c xs
      else (case split_char c xs of [] \<Rightarrow> [[x]] | p # ps \<Rightarrow> (x # p) # ps))"

lemma split_char_nonempty: "split_char c s \<noteq> []"
  by (induction s) (auto split: list.splits)

lemma split_char_append:
  assumes "c \<notin> set u"
  shows "split_char c (u @ c # v) = u # split_char c v"
  using assms by (induction u) auto

lemma split_char_no_sep: "c \<notin> set u \<Longrightarrow> split_char c u = [u]"
  by (induction u) auto

text \<open>\<^verbatim>\<open>str::lines\<close>: lines end in a newline, a carriage return before it is dropped, and
  nothing after the last newline is no line.\<close>

definition strip_cr :: "string \<Rightarrow> string" where
  "strip_cr l = unwrap_or (strip_suffix l [CHR 0x0D]) l"

definition str_lines :: "string \<Rightarrow> string list" where
  "str_lines s =
     (let ls = split_char newline s
      in map strip_cr (butlast ls) @ (if last ls = [] then [] else [last ls]))"

text \<open>\<^verbatim>\<open>str::find\<close> and \<^verbatim>\<open>str::rfind\<close>, of a character and of a string, as positions in characters.\<close>

definition find_char :: "char \<Rightarrow> string \<Rightarrow> nat option" where
  "find_char c s = (if c \<in> set s then Some (length (takeWhile (\<lambda>x. x \<noteq> c) s)) else None)"

definition rfind_char :: "char \<Rightarrow> string \<Rightarrow> nat option" where
  "rfind_char c s =
     (if c \<in> set s then Some (length s - 1 - length (takeWhile (\<lambda>x. x \<noteq> c) (rev s))) else None)"

fun str_find :: "string \<Rightarrow> string \<Rightarrow> nat option" where
  "str_find [] pat = (if pat = [] then Some 0 else None)"
| "str_find (c # cs) pat =
     (if starts_with (c # cs) pat then Some 0 else map_option Suc (str_find cs pat))"

fun str_rfind :: "string \<Rightarrow> string \<Rightarrow> nat option" where
  "str_rfind [] pat = (if pat = [] then Some 0 else None)"
| "str_rfind (c # cs) pat =
     (case str_rfind cs pat of
        Some i \<Rightarrow> Some (Suc i)
      | None \<Rightarrow> if starts_with (c # cs) pat then Some 0 else None)"

definition to_ascii_lowercase :: "string \<Rightarrow> string" where
  "to_ascii_lowercase s =
     map (\<lambda>c. if CHR ''A'' \<le> c \<and> c \<le> CHR ''Z'' then char_of (of_char c + (32::nat)) else c) s"

text \<open>The same on the bits of a character, for evaluation.\<close>

fun ascii_lower :: "char \<Rightarrow> char" where
  "ascii_lower (Char b0 b1 b2 b3 b4 b5 b6 b7) =
     (if \<not> b7 \<and> b6 \<and> \<not> b5 \<and> (b0 \<or> b1 \<or> b2 \<or> b3 \<or> b4) \<and> \<not> (b4 \<and> b3 \<and> (b2 \<or> b1 \<and> b0))
      then Char b0 b1 b2 b3 b4 True b6 b7 else Char b0 b1 b2 b3 b4 b5 b6 b7)"

lemma ascii_lower_eq:
  "(if CHR ''A'' \<le> c \<and> c \<le> CHR ''Z'' then char_of (of_char c + (32::nat)) else c) = ascii_lower c"
proof (cases c)
  case (Char b0 b1 b2 b3 b4 b5 b6 b7)
  show ?thesis unfolding Char less_eq_char_def
    by (cases b7; cases b6; cases b5; cases b4; cases b3; cases b2; cases b1; cases b0)
       (simp_all add: of_char_Char char_of_def bit_iff_odd)
qed

lemma to_ascii_lowercase_code [code]: "to_ascii_lowercase s = map ascii_lower s"
  by (simp add: to_ascii_lowercase_def ascii_lower_eq)

lemma length_to_ascii_lowercase [simp]: "length (to_ascii_lowercase s) = length s"
  by (simp add: to_ascii_lowercase_def)

text \<open>Decimal notation, as \<^verbatim>\<open>to_string()\<close> prints integers.\<close>

definition digit_char :: "nat \<Rightarrow> char" where
  "digit_char d = char_of (48 + d)"

fun show_nat :: "nat \<Rightarrow> string" where
  "show_nat n = (if n < 10 then [digit_char n] else show_nat (n div 10) @ [digit_char (n mod 10)])"

declare show_nat.simps [simp del]

definition show_int :: "int \<Rightarrow> string" where
  "show_int i = (if i < 0 then ''-'' @ show_nat (nat (- i)) else show_nat (nat i))"

fun read_digits :: "nat \<Rightarrow> string \<Rightarrow> nat" where
  "read_digits acc [] = acc"
| "read_digits acc (c # cs) = read_digits (10 * acc + (of_char c - 48)) cs"

lemma read_digits_append: "read_digits a (s @ t) = read_digits (read_digits a s) t"
  by (induction s arbitrary: a) auto

lemma of_char_digit: "d < 10 \<Longrightarrow> of_char (digit_char d) = 48 + d"
  by (simp add: digit_char_def)

lemma read_show_nat: "read_digits 0 (show_nat n) = n"
proof (induction n rule: show_nat.induct)
  case (1 n)
  show ?case
  proof (cases "n < 10")
    case True
    then show ?thesis by (simp add: show_nat.simps [of n] of_char_digit)
  next
    case False
    with 1 have "read_digits 0 (show_nat (n div 10)) = n div 10" by simp
    with False show ?thesis
      by (simp add: show_nat.simps [of n] read_digits_append of_char_digit)
  qed
qed

lemma show_nat_inj: "show_nat m = show_nat n \<longleftrightarrow> m = n"
  by (metis read_show_nat)

section \<open>Machine integers\<close>

type_synonym u8 = "8 word"
type_synonym u16 = "16 word"
type_synonym u32 = "32 word"
type_synonym u64 = "64 word"

text \<open>Saturating operations on an unsigned width.\<close>

definition sat_add :: "'a::len word \<Rightarrow> 'a word \<Rightarrow> 'a word" where
  "sat_add a b = (if unat a + unat b < 2 ^ LENGTH('a) then a + b else - 1)"

definition sat_sub :: "'a::len word \<Rightarrow> 'a word \<Rightarrow> 'a word" where
  "sat_sub a b = (if a < b then 0 else a - b)"

definition sat_pow :: "'a::len word \<Rightarrow> nat \<Rightarrow> 'a word" where
  "sat_pow b e = of_nat (min (unat b ^ e) (2 ^ LENGTH('a) - 1))"

lemma unat_max: "unat (- 1 :: 'a::len word) = 2 ^ LENGTH('a) - 1"
  by (simp add: unsigned_minus_1_eq_mask mask_eq_exp_minus_1)

lemma unat_sat_add [word_simps]:
  "unat (sat_add a b) = min (unat a + unat b) (2 ^ LENGTH('a) - 1)" for a b :: "'a::len word"
  by (auto simp: sat_add_def unat_max unat_word_ariths min_def)

lemma unat_sat_sub [word_simps]: "unat (sat_sub a b) = unat a - unat b"
  by (simp add: sat_sub_def word_less_nat_alt unat_sub_if')

lemma unat_sat_pow [word_simps]:
  "unat (sat_pow b e) = min (unat b ^ e) (2 ^ LENGTH('a) - 1)" for b :: "'a::len word"
proof -
  have "min (unat b ^ e) (2 ^ LENGTH('a) - 1) < 2 ^ LENGTH('a)"
    by (simp add: min_less_iff_disj)
  then show ?thesis by (simp add: sat_pow_def unat_of_nat)
qed

lemma unat_plus_one: "a < b \<Longrightarrow> unat (a + 1) = unat a + 1" for a b :: "'a::len word"
proof -
  assume "a < b"
  then have "unat a + 1 < 2 ^ LENGTH('a)"
    by (metis Suc_eq_plus1 less_trans_Suc unsigned_less word_less_nat_alt)
  then show ?thesis by (simp add: unat_word_ariths)
qed

lemma unat_less: "unat w < 2 ^ LENGTH('a)" for w :: "'a::len word"
  by simp

lemma unat_of_nat_id: "n < 2 ^ LENGTH('a) \<Longrightarrow> unat (of_nat n :: 'a::len word) = n"
  by (simp add: unat_of_nat)

text \<open>Signed 64-bit values (timestamps in milliseconds) as integers with the range written
  out: wrapping addition and saturating addition and subtraction.\<close>

definition i64_min :: int where "i64_min = - (2 ^ 63)"
definition i64_max :: int where "i64_max = 2 ^ 63 - 1"

definition i64_range :: "int \<Rightarrow> bool" where
  "i64_range x \<longleftrightarrow> i64_min \<le> x \<and> x \<le> i64_max"

definition i64_wrap :: "int \<Rightarrow> int" where
  "i64_wrap x = (x + 2 ^ 63) mod 2 ^ 64 - 2 ^ 63"

definition i64_sat :: "int \<Rightarrow> int" where
  "i64_sat x = max i64_min (min i64_max x)"

definition i64_sat_add :: "int \<Rightarrow> int \<Rightarrow> int" where
  "i64_sat_add a b = i64_sat (a + b)"

definition i64_sat_sub :: "int \<Rightarrow> int \<Rightarrow> int" where
  "i64_sat_sub a b = i64_sat (a - b)"

lemma i64_wrap_id: "i64_range x \<Longrightarrow> i64_wrap x = x"
  by (simp add: i64_wrap_def i64_range_def i64_min_def i64_max_def)

lemma i64_range_wrap: "i64_range (i64_wrap x)"
proof -
  have "0 \<le> (x + 2 ^ 63) mod 2 ^ 64" "(x + 2 ^ 63) mod 2 ^ 64 < (2 ^ 64 :: int)" by simp_all
  then show ?thesis by (simp add: i64_wrap_def i64_range_def i64_min_def i64_max_def)
qed

lemma i64_range_sat: "i64_range (i64_sat x)"
  by (simp add: i64_sat_def i64_range_def i64_min_def i64_max_def)

lemma i64_sat_id: "i64_range x \<Longrightarrow> i64_sat x = x"
  by (simp add: i64_sat_def i64_range_def)

text \<open>\<^verbatim>\<open>std::time::Duration\<close> as a number of nanoseconds, at most \<^verbatim>\<open>Duration::MAX\<close>.\<close>

type_synonym duration = nat

definition duration_max :: duration where
  "duration_max = (2 ^ 64 - 1) * 10 ^ 9 + 999999999"

definition duration_saturating_mul :: "duration \<Rightarrow> u32 \<Rightarrow> duration" where
  "duration_saturating_mul d k = min (d * unat k) duration_max"

definition duration_as_millis :: "duration \<Rightarrow> nat" where
  "duration_as_millis d = d div 10 ^ 6"

section \<open>Ordered maps\<close>

text \<open>A \<^verbatim>\<open>BTreeMap\<close> is its list of entries in ascending key order, which is also the order
  in which the sources iterate over it. \<open>sorted_map\<close> is its invariant.\<close>

type_synonym ('k, 'v) btree_map = "('k \<times> 'v) list"

definition sorted_map :: "('k::linorder, 'v) btree_map \<Rightarrow> bool" where
  "sorted_map m \<longleftrightarrow> sorted_wrt (<) (map fst m)"

definition bt_get :: "('k, 'v) btree_map \<Rightarrow> 'k \<Rightarrow> 'v option" where
  "bt_get m k = map_of m k"

fun bt_insert :: "'k::linorder \<Rightarrow> 'v \<Rightarrow> ('k, 'v) btree_map \<Rightarrow> ('k, 'v) btree_map" where
  "bt_insert k v [] = [(k, v)]"
| "bt_insert k v ((k', v') # m) =
     (if k < k' then (k, v) # (k', v') # m
      else if k = k' then (k, v) # m
      else (k', v') # bt_insert k v m)"

definition bt_remove :: "'k \<Rightarrow> ('k, 'v) btree_map \<Rightarrow> ('k, 'v) btree_map" where
  "bt_remove k m = filter (\<lambda>e. fst e \<noteq> k) m"

definition bt_extend :: "('k::linorder, 'v) btree_map \<Rightarrow> ('k \<times> 'v) list \<Rightarrow> ('k, 'v) btree_map" where
  "bt_extend m es = fold (\<lambda>(k, v). bt_insert k v) es m"

definition bt_contains :: "('k, 'v) btree_map \<Rightarrow> 'k \<Rightarrow> bool" where
  "bt_contains m k \<longleftrightarrow> bt_get m k \<noteq> None"

lemma bt_get_empty [simp, map_simps]: "bt_get [] k = None"
  by (simp add: bt_get_def)

lemma bt_get_insert [simp, map_simps]:
  "bt_get (bt_insert k v m) k' = (if k' = k then Some v else bt_get m k')"
  by (induction k v m rule: bt_insert.induct) (auto simp: bt_get_def)

lemma bt_get_remove [simp, map_simps]:
  "bt_get (bt_remove k m) k' = (if k' = k then None else bt_get m k')"
  by (induction m) (auto simp: bt_get_def bt_remove_def)

lemma bt_get_filter:
  "bt_get (filter (\<lambda>e. P (fst e)) m) k = (if P k then bt_get m k else None)"
  by (induction m) (auto simp: bt_get_def)

lemma bt_get_extend_not_in:
  "k \<notin> fst ` set es \<Longrightarrow> bt_get (bt_extend m es) k = bt_get m k"
  unfolding bt_extend_def
  by (induction es arbitrary: m) (auto split: prod.splits)

lemma bt_get_extend:
  "distinct (map fst es) \<Longrightarrow>
   bt_get (bt_extend m es) k = (case bt_get es k of Some v \<Rightarrow> Some v | None \<Rightarrow> bt_get m k)"
proof (induction es arbitrary: m)
  case Nil
  then show ?case by (simp add: bt_extend_def)
next
  case (Cons e es)
  obtain a b where e: "e = (a, b)" by (cases e)
  have step: "bt_extend m (e # es) = bt_extend (bt_insert a b m) es"
    by (simp add: bt_extend_def e)
  show ?case
  proof (cases "k = a")
    case True
    then have "k \<notin> fst ` set es" using Cons.prems e by auto
    then show ?thesis using True e step bt_get_extend_not_in [of k es "bt_insert a b m"]
      by (simp add: bt_get_def [of "_ # _"])
  next
    case False
    then have "bt_get (e # es) k = bt_get es k" by (simp add: bt_get_def e)
    then show ?thesis using Cons.IH [of "bt_insert a b m"] Cons.prems False e step
      by (simp split: option.split)
  qed
qed

lemma fst_set_bt_insert: "fst ` set (bt_insert k v m) = insert k (fst ` set m)"
  by (induction k v m rule: bt_insert.induct) auto

lemma sorted_map_Cons:
  "sorted_map ((k, v) # m) \<longleftrightarrow> (\<forall>k' \<in> fst ` set m. k < k') \<and> sorted_map m"
  by (auto simp: sorted_map_def)

lemma sorted_map_insert [simp, intro]: "sorted_map m \<Longrightarrow> sorted_map (bt_insert k v m)"
proof (induction k v m rule: bt_insert.induct)
  case (1 k v)
  then show ?case by (simp add: sorted_map_def)
next
  case (2 k v k' v' m)
  then have m: "sorted_map m" and lt: "\<forall>a \<in> fst ` set m. k' < a"
    by (auto simp: sorted_map_Cons)
  consider "k < k'" | "k = k'" | "k' < k" by force
  then show ?case
  proof cases
    case 1
    with m lt show ?thesis by (auto simp: sorted_map_Cons)
  next
    case 2
    with m lt show ?thesis by (auto simp: sorted_map_Cons)
  next
    case 3
    with "2.IH" m lt show ?thesis
      by (auto simp: sorted_map_Cons fst_set_bt_insert)
  qed
qed

lemma sorted_map_filter [simp, intro]: "sorted_map m \<Longrightarrow> sorted_map (filter P m)"
proof (induction m)
  case Nil
  then show ?case by simp
next
  case (Cons e m)
  then show ?case by (cases e) (auto simp: sorted_map_Cons)
qed

lemma sorted_map_remove [simp, intro]: "sorted_map m \<Longrightarrow> sorted_map (bt_remove k m)"
  by (simp add: bt_remove_def)

lemma sorted_map_Nil [simp]: "sorted_map []"
  by (simp add: sorted_map_def)

lemma sorted_map_extend [simp, intro]: "sorted_map m \<Longrightarrow> sorted_map (bt_extend m es)"
  unfolding bt_extend_def by (induction es arbitrary: m) auto

lemma sorted_map_distinct: "sorted_map m \<Longrightarrow> distinct (map fst m)"
  by (auto simp: sorted_map_def strict_sorted_iff)

lemma bt_get_in_set: "bt_get t i = Some r \<Longrightarrow> (i, r) \<in> set t"
  by (simp add: bt_get_def map_of_SomeD)

lemma in_set_bt_get: "sorted_map t \<Longrightarrow> (i, r) \<in> set t \<Longrightarrow> bt_get t i = Some r"
  by (simp add: bt_get_def sorted_map_distinct)

lemma set_bt_insert_subset: "set (bt_insert k v m) \<subseteq> insert (k, v) (set m)"
  by (induction k v m rule: bt_insert.induct) auto

text \<open>Tables: rows under their own key, and a query \<^verbatim>\<open>WHERE .. ORDER BY .. LIMIT\<close> on them.\<close>

definition keyed_by :: "('r \<Rightarrow> 'k::linorder) \<Rightarrow> ('k, 'r) btree_map \<Rightarrow> bool" where
  "keyed_by key t \<longleftrightarrow> sorted_map t \<and> (\<forall>(i, r) \<in> set t. key r = i)"

lemma keyed_by_get: "keyed_by key t \<Longrightarrow> bt_get t i = Some r \<Longrightarrow> key r = i"
  by (auto simp: keyed_by_def dest: bt_get_in_set)

lemma keyed_by_insert: "keyed_by key t \<Longrightarrow> key r = i \<Longrightarrow> keyed_by key (bt_insert i r t)"
  using set_bt_insert_subset [of i r t] by (auto simp: keyed_by_def)

lemma keyed_by_remove: "keyed_by key t \<Longrightarrow> keyed_by key (bt_remove i t)"
  by (auto simp: keyed_by_def bt_remove_def)

lemma keyed_by_row: "keyed_by key t \<Longrightarrow> r \<in> set (map snd t) \<Longrightarrow> bt_get t (key r) = Some r"
  using in_set_bt_get by (fastforce simp: keyed_by_def)

lemma query_in_table:
  "keyed_by key t \<Longrightarrow> r \<in> set (take n (sort_key f (filter P (map snd t)))) \<Longrightarrow> bt_get t (key r) = Some r \<and> P r"
  using keyed_by_row [of key t r] by (auto dest!: in_set_takeD)

lemma query_distinct: "keyed_by key t \<Longrightarrow> distinct (map key (take n (sort_key f (filter P (map snd t)))))"
proof -
  assume keyed: "keyed_by key t"
  have "map key (map snd t) = map fst t" using keyed by (auto simp: keyed_by_def)
  then have "distinct (map key (map snd t))" using keyed sorted_map_distinct by (metis keyed_by_def)
  then have "distinct (map key (filter P (map snd t)))" by (rule distinct_map_filter)
  then have "distinct (map key (sort_key f (filter P (map snd t))))" by (simp add: distinct_map)
  then show ?thesis by (metis distinct_take take_map)
qed

text \<open>The map interface: what the components rely on of \<^verbatim>\<open>BTreeMap\<close> and
  \<^verbatim>\<open>serde_json::Map\<close>.\<close>

locale ordered_map =
  fixes get :: "'m \<Rightarrow> 'k \<Rightarrow> 'v option"
    and insert_key :: "'k \<Rightarrow> 'v \<Rightarrow> 'm \<Rightarrow> 'm"
    and remove_key :: "'k \<Rightarrow> 'm \<Rightarrow> 'm"
    and invar :: "'m \<Rightarrow> bool"
  assumes get_insert: "get (insert_key k v m) k' = (if k' = k then Some v else get m k')"
    and get_remove: "get (remove_key k m) k' = (if k' = k then None else get m k')"
    and invar_insert: "invar m \<Longrightarrow> invar (insert_key k v m)"
    and invar_remove: "invar m \<Longrightarrow> invar (remove_key k m)"
begin

lemma get_insert_insert: "get (insert_key k v (insert_key k w m)) = get (insert_key k v m)"
  by (rule ext) (simp add: get_insert)

lemma get_insert_commute:
  "k \<noteq> l \<Longrightarrow> get (insert_key k v (insert_key l w m)) = get (insert_key l w (insert_key k v m))"
  by (rule ext) (simp add: get_insert)

lemma get_remove_insert: "get (remove_key k (insert_key k v m)) = get (remove_key k m)"
  by (rule ext) (simp add: get_insert get_remove)

end

interpretation btree: ordered_map bt_get bt_insert bt_remove sorted_map
  by unfold_locales auto

end
