(* ===== verification/Json_Value.thy ===== *)
theory Json_Value
  imports Klaw_Prelude
begin

text \<open>
  The JSON values that klaw's messages, metadata and memory records carry: the constructors
  of \<^verbatim>\<open>serde_json::Value\<close> and its accessors. An object is an ordered map from strings
  (the crate is built without its \<^verbatim>\<open>preserve_order\<close> feature, so its \<^verbatim>\<open>Map\<close> is a
  \<^verbatim>\<open>BTreeMap\<close>). A floating-point number is kept as its 64-bit pattern; nothing in the
  modelled code computes with it. Parsing and printing JSON text belong to the crate and are
  parameters wherever the sources call them.
\<close>

datatype json_number = PosInt u64 | NegInt int | Float "64 word"

datatype json =
    JNull
  | JBool bool
  | JNumber json_number
  | JString string
  | JArray "json list"
  | JObject "(string \<times> json) list"

type_synonym json_map = "(string, json) btree_map"

fun as_str :: "json \<Rightarrow> string option" where
  "as_str (JString s) = Some s"
| "as_str _ = None"

fun as_bool :: "json \<Rightarrow> bool option" where
  "as_bool (JBool b) = Some b"
| "as_bool _ = None"

fun as_array :: "json \<Rightarrow> json list option" where
  "as_array (JArray xs) = Some xs"
| "as_array _ = None"

fun as_object :: "json \<Rightarrow> json_map option" where
  "as_object (JObject m) = Some m"
| "as_object _ = None"

lemma flag_set_iff: "unwrap_or (Option.bind x as_bool) False \<longleftrightarrow> x = Some (JBool True)"
proof (cases x)
  case (Some v)
  then show ?thesis by (cases v) auto
qed simp

text \<open>\<^verbatim>\<open>as_i64\<close>: a non-negative number only when it fits.\<close>

fun as_i64 :: "json \<Rightarrow> int option" where
  "as_i64 (JNumber (PosInt n)) = (if unat n < 2 ^ 63 then Some (int (unat n)) else None)"
| "as_i64 (JNumber (NegInt i)) = Some i"
| "as_i64 _ = None"

definition json_get :: "json \<Rightarrow> string \<Rightarrow> json option" where
  "json_get v k = (case v of JObject m \<Rightarrow> bt_get m k | _ \<Rightarrow> None)"

lemma json_get_simps [simp]:
  "json_get (JObject m) k = bt_get m k"
  "json_get JNull k = None"
  "json_get (JBool b) k = None"
  "json_get (JNumber n) k = None"
  "json_get (JString s) k = None"
  "json_get (JArray xs) k = None"
  by (simp_all add: json_get_def)

text \<open>\<^verbatim>\<open>serde_json::Value::from(i64)\<close>.\<close>

definition json_of_i64 :: "int \<Rightarrow> json" where
  "json_of_i64 i = JNumber (if 0 \<le> i then PosInt (of_int i) else NegInt i)"

definition json_of_u64 :: "u64 \<Rightarrow> json" where
  "json_of_u64 n = JNumber (PosInt n)"

lemma as_i64_json_of_i64: "i64_range i \<Longrightarrow> as_i64 (json_of_i64 i) = Some i"
  by (auto simp: json_of_i64_def i64_range_def i64_min_def i64_max_def unsigned_of_int
      take_bit_int_eq_self)

definition json_opt :: "('a \<Rightarrow> json) \<Rightarrow> 'a option \<Rightarrow> json" where
  "json_opt f x = (case x of None \<Rightarrow> JNull | Some y \<Rightarrow> f y)"

text \<open>An object literal \<^verbatim>\<open>json!({...})\<close> or a map built entry by entry.\<close>

definition object_of :: "(string \<times> json) list \<Rightarrow> json_map" where
  "object_of es = bt_extend [] es"

lemma bt_get_object_of:
  "distinct (map fst es) \<Longrightarrow> bt_get (object_of es) k = bt_get es k"
  by (simp add: object_of_def bt_get_extend split: option.split)

lemma sorted_map_object_of [simp]: "sorted_map (object_of es)"
  by (simp add: object_of_def)

text \<open>The string entry of a map, trimmed, when it is not blank: the reading that
  \<^verbatim>\<open>metadata.get(key).and_then(Value::as_str).map(str::trim).filter(..)\<close> gives.\<close>

definition get_trimmed_str :: "json_map \<Rightarrow> string \<Rightarrow> string option" where
  "get_trimmed_str m k = nonempty_trimmed (Option.bind (bt_get m k) as_str)"

lemma get_trimmed_str_nonempty: "get_trimmed_str m k = Some v \<Longrightarrow> v \<noteq> [] \<and> trim v = v"
  by (auto simp: get_trimmed_str_def nonempty_trimmed_Some_iff)

end
