(* ===== verification/Protocol.thy ===== *)
theory Protocol
  imports Json_Value
begin

text \<open>
  The message model of \<^verbatim>\<open>klaw-core\<close>: the envelope and its header, schema versions, topics
  and error codes (\<^verbatim>\<open>protocol.rs\<close>), inbound, outbound and dead-letter messages
  (\<^verbatim>\<open>domain.rs\<close>) and media references (\<^verbatim>\<open>media.rs\<close>). Identifiers made by the
  \<^verbatim>\<open>uuid\<close> crate are kept as their text, times as integers.
\<close>

type_synonym uuid = string
type_synonym session_key = string

record schema_version =
  sv_major :: u16
  sv_minor :: u16

definition V1_0 :: schema_version where
  "V1_0 = \<lparr>sv_major = 1, sv_minor = 0\<rparr>"

datatype message_topic = InboundTopic | OutboundTopic | EventsTopic | DeadLetterTopic

fun topic_as_str :: "message_topic \<Rightarrow> string" where
  "topic_as_str InboundTopic = ''agent.inbound''"
| "topic_as_str OutboundTopic = ''agent.outbound''"
| "topic_as_str EventsTopic = ''agent.events''"
| "topic_as_str DeadLetterTopic = ''agent.dlq''"

record envelope_header =
  message_id :: uuid
  trace_id :: uuid
  hdr_session_key :: string
  timestamp :: int
  attempt :: u32
  hdr_schema_version :: schema_version
  tenant_id :: "string option"
  namespace :: "string option"
  priority :: "u8 option"
  ttl_ms :: "u64 option"
  routing_hints :: json_map

text \<open>\<^verbatim>\<open>EnvelopeHeader::new\<close>: the two fresh identifiers and the clock reading are
  arguments.\<close>

definition new_header :: "uuid \<Rightarrow> uuid \<Rightarrow> int \<Rightarrow> string \<Rightarrow> envelope_header" where
  "new_header mid tid now key =
     \<lparr>message_id = mid, trace_id = tid, hdr_session_key = key, timestamp = now, attempt = 1,
      hdr_schema_version = V1_0, tenant_id = None, namespace = None, priority = None,
      ttl_ms = None, routing_hints = []\<rparr>"

record 'p envelope =
  header :: envelope_header
  env_metadata :: json_map
  payload :: 'p

datatype error_code =
    InvalidSchema | ValidationFailed | DuplicateMessage | SessionBusy | AgentTimeout
  | ToolTimeout | ProviderUnavailable | ProviderResponseInvalid | TransportUnavailable
  | RetryExhausted | BudgetExceeded | SentToDeadLetter

text \<open>\<^verbatim>\<open>SemverEvolutionRule::validate_backward_compatible\<close>.\<close>

definition validate_backward_compatible :: "schema_version \<Rightarrow> schema_version \<Rightarrow> bool" where
  "validate_backward_compatible from to \<longleftrightarrow>
     sv_major from = sv_major to \<and> sv_minor from \<le> sv_minor to"

datatype media_source_kind = UserUpload | ChannelInbound | ModelGenerated

record media_reference =
  source_kind :: media_source_kind
  filename :: "string option"
  mime_type :: "string option"
  remote_url :: "string option"
  media_bytes :: "u8 list option"
  media_message_id :: "string option"
  media_metadata :: json_map

record inbound_message =
  in_channel :: string
  sender_id :: string
  in_chat_id :: string
  in_session_key :: session_key
  in_content :: string
  media_references :: "media_reference list"
  in_metadata :: json_map

record outbound_message =
  out_channel :: string
  out_chat_id :: string
  out_content :: string
  reply_to :: "string option"
  out_metadata :: json_map

record dead_letter_message =
  original_message_id :: string
  dl_session_key :: session_key
  final_error :: string
  dl_attempts :: u32
  dl_reason :: string
  original_payload :: inbound_message

section \<open>Properties\<close>

lemma topic_as_str_inj: "topic_as_str a = topic_as_str b \<longleftrightarrow> a = b"
  by (cases a; cases b) simp_all

lemma backward_compatible_refl: "validate_backward_compatible v v"
  by (simp add: validate_backward_compatible_def)

lemma backward_compatible_trans:
  "validate_backward_compatible a b \<Longrightarrow> validate_backward_compatible b c \<Longrightarrow>
   validate_backward_compatible a c"
  by (auto simp: validate_backward_compatible_def)

lemma backward_compatible_antisym:
  "validate_backward_compatible a b \<Longrightarrow> validate_backward_compatible b a \<Longrightarrow> a = b"
  by (simp add: validate_backward_compatible_def)

end
