(* ===== verification/Reliability.thy ===== *)
theory Reliability
  imports Protocol
begin

text \<open>
  \<^verbatim>\<open>klaw-core/src/reliability.rs\<close>: retry decisions and the exponential backoff policy, the
  idempotency key, and the in-memory circuit breaker with its counter and deadline at their
  machine widths. The traits \<^verbatim>\<open>RetryPolicy\<close> and \<^verbatim>\<open>CircuitBreaker\<close> are locales, interpreted
  on the policy and the breaker of the source.
\<close>

section \<open>Retry policy\<close>

datatype retry_decision = RetryNow | RetryAfter duration | SendToDeadLetter | Abort

record dead_letter_policy =
  dlq_topic :: string
  max_payload_bytes :: nat
  include_error_stack :: bool

record exponential_backoff_retry_policy =
  max_attempts :: u32
  base_delay :: duration
  max_delay :: duration
  jitter_ratio :: "32 word"

definition delay_for :: "exponential_backoff_retry_policy \<Rightarrow> u32 \<Rightarrow> duration" where
  "delay_for p a =
     (let exp = sat_pow (2 :: u32) (unat (sat_sub a 1));
          delay = duration_saturating_mul (base_delay p) exp
      in min delay (max_delay p))"

definition classify :: "exponential_backoff_retry_policy \<Rightarrow> string \<Rightarrow> u32 \<Rightarrow> retry_decision" where
  "classify p error_kind a =
     (if max_attempts p \<le> a then SendToDeadLetter
      else if error_kind \<in> set [''validation'', ''schema'', ''duplicate''] then Abort
      else if error_kind \<in> set [''provider_unavailable'', ''transport_unavailable'', ''tool_timeout'']
      then RetryAfter (delay_for p a)
      else RetryNow)"

definition idempotency_key :: "string \<Rightarrow> string \<Rightarrow> string \<Rightarrow> string" where
  "idempotency_key mid key stage = mid @ '':'' @ key @ '':'' @ stage"

text \<open>A decision that ends the retry loop.\<close>

definition final_decision :: "retry_decision \<Rightarrow> bool" where
  "final_decision d \<longleftrightarrow> d = SendToDeadLetter \<or> d = Abort"

text \<open>What a client of \<^verbatim>\<open>RetryPolicy\<close> relies on: from \<^verbatim>\<open>max_attempts\<close> on, no decision
  asks for another attempt.\<close>

locale retry_policy =
  fixes limit :: u32
    and decide :: "string \<Rightarrow> u32 \<Rightarrow> retry_decision"
  assumes exhausted: "limit \<le> a \<Longrightarrow> final_decision (decide k a)"
begin

lemma retry_below_limit: "\<not> final_decision (decide k a) \<Longrightarrow> a < limit"
  using exhausted by (metis not_le)

lemma retry_attempt_increments:
  "\<not> final_decision (decide k a) \<Longrightarrow> unat (a + 1) = unat a + 1"
  by (rule unat_plus_one [OF retry_below_limit])

lemma retry_measure_decreases:
  "\<not> final_decision (decide k a) \<Longrightarrow> unat limit - unat (a + 1) < unat limit - unat a"
  using retry_below_limit retry_attempt_increments
  by (metis diff_less_mono2 less_add_one word_less_nat_alt)

end

interpretation backoff: retry_policy "max_attempts p" "classify p" for p
  by unfold_locales (simp add: classify_def final_decision_def)

section \<open>Circuit breaker\<close>

record circuit_breaker_policy =
  failure_threshold :: u32
  open_interval :: duration
  half_open_max_requests :: u32

record in_memory_circuit_breaker =
  cb_policy :: circuit_breaker_policy
  consecutive_failures :: u32
  open_until_epoch_ms :: u64

definition new_circuit_breaker :: "circuit_breaker_policy \<Rightarrow> in_memory_circuit_breaker" where
  "new_circuit_breaker p =
     \<lparr>cb_policy = p, consecutive_failures = 0, open_until_epoch_ms = 0\<rparr>"

text \<open>The clock reading \<^verbatim>\<open>now_epoch_ms()\<close> is the argument \<open>now\<close>. The counter is read and
  written as an \<^verbatim>\<open>AtomicU32\<close> (its addition wraps), the deadline as an \<^verbatim>\<open>AtomicU64\<close>.\<close>

definition allow_request :: "u64 \<Rightarrow> in_memory_circuit_breaker \<Rightarrow> bool" where
  "allow_request now b \<longleftrightarrow> open_until_epoch_ms b \<le> now"

definition on_success :: "in_memory_circuit_breaker \<Rightarrow> in_memory_circuit_breaker" where
  "on_success b = b\<lparr>consecutive_failures := 0, open_until_epoch_ms := 0\<rparr>"

definition on_failure :: "u64 \<Rightarrow> in_memory_circuit_breaker \<Rightarrow> in_memory_circuit_breaker" where
  "on_failure now b =
     (let failures = consecutive_failures b + 1
      in if failure_threshold (cb_policy b) \<le> failures
         then b\<lparr>open_until_epoch_ms := now + of_nat (duration_as_millis (open_interval (cb_policy b))),
                consecutive_failures := 0\<rparr>
         else b\<lparr>consecutive_failures := failures\<rparr>)"

datatype breaker_event = BreakerSuccess | BreakerFailure u64

fun breaker_step :: "in_memory_circuit_breaker \<Rightarrow> breaker_event \<Rightarrow> in_memory_circuit_breaker" where
  "breaker_step b BreakerSuccess = on_success b"
| "breaker_step b (BreakerFailure now) = on_failure now b"

definition breaker_run :: "in_memory_circuit_breaker \<Rightarrow> breaker_event list \<Rightarrow> in_memory_circuit_breaker" where
  "breaker_run b es = fold (\<lambda>e b. breaker_step b e) es b"

text \<open>The counter stays below the threshold (at zero when the threshold is zero).\<close>

definition breaker_inv :: "in_memory_circuit_breaker \<Rightarrow> bool" where
  "breaker_inv b \<longleftrightarrow> consecutive_failures b = 0 \<or>
     consecutive_failures b < failure_threshold (cb_policy b)"

text \<open>The trait \<^verbatim>\<open>CircuitBreaker\<close> as its clients see it: reporting a success closes the
  breaker, and no operation changes its policy or breaks its invariant.\<close>

locale circuit_breaker =
  fixes allow :: "u64 \<Rightarrow> 'b \<Rightarrow> bool"
    and success :: "'b \<Rightarrow> 'b"
    and failure :: "u64 \<Rightarrow> 'b \<Rightarrow> 'b"
    and invar :: "'b \<Rightarrow> bool"
  assumes success_closes: "allow now (success b)"
    and invar_success: "invar b \<Longrightarrow> invar (success b)"
    and invar_failure: "invar b \<Longrightarrow> invar (failure now b)"
begin

lemma invar_failures: "invar b \<Longrightarrow> invar (fold failure ts b)"
  by (induction ts arbitrary: b) (auto intro: invar_failure)

lemma closed_after_success: "invar b \<Longrightarrow>
    invar (success (fold failure ts b)) \<and> allow now (success (fold failure ts b))"
  by (simp add: invar_failures invar_success success_closes)

end

lemma on_failure_policy [simp]: "cb_policy (on_failure now b) = cb_policy b"
  by (simp add: on_failure_def Let_def)

lemma on_failure_inv: "breaker_inv b \<Longrightarrow> breaker_inv (on_failure now b)"
  by (auto simp: breaker_inv_def on_failure_def Let_def)

lemma on_success_inv: "breaker_inv (on_success b)"
  by (simp add: breaker_inv_def on_success_def)

lemma on_success_allows: "allow_request now (on_success b)"
  by (simp add: allow_request_def on_success_def)

interpretation memory_breaker: circuit_breaker allow_request on_success on_failure breaker_inv
  by unfold_locales (auto intro: on_success_allows on_success_inv on_failure_inv)

section \<open>Properties of the backoff\<close>

lemma delay_for_nat:
  "delay_for p a =
     min (min (base_delay p * min (2 ^ (unat a - 1)) (2 ^ 32 - 1)) duration_max) (max_delay p)"
  by (simp add: delay_for_def Let_def duration_saturating_mul_def unat_sat_pow unat_sat_sub)

text \<open>Up to attempt 32 and for a cap that \<^verbatim>\<open>Duration\<close> can hold, the delay before
  attempt \<open>a\<close> is retried is exactly \<^verbatim>\<open>base_delay * 2^(attempt-1)\<close> capped at
  \<^verbatim>\<open>max_delay\<close>: neither the 32-bit exponent nor the duration product saturates below the
  cap.\<close>

theorem delay_for_exponential:
  assumes "1 \<le> unat a" and "unat a \<le> 32" and "max_delay p \<le> duration_max"
  shows "delay_for p a = min (base_delay p * 2 ^ (unat a - 1)) (max_delay p)"
proof -
  have "unat a - 1 \<le> 31" using assms(2) by simp
  then have "(2 :: nat) ^ (unat a - 1) \<le> 2 ^ 31" by (rule power_increasing) simp
  then have "min (2 ^ (unat a - 1)) (2 ^ 32 - 1) = (2 :: nat) ^ (unat a - 1)" by simp
  then show ?thesis using assms(3) by (simp add: delay_for_nat min.absorb2 min.assoc)
qed

definition sample_policy :: exponential_backoff_retry_policy where
  "sample_policy = \<lparr>max_attempts = 5, base_delay = 100, max_delay = 1000, jitter_ratio = 0\<rparr>"

theorem delay_for_exponential_witness:
  "delay_for sample_policy 3 = 400 \<and> delay_for sample_policy 6 = 1000"
  using delay_for_exponential [of 3 sample_policy] delay_for_exponential [of 6 sample_policy]
  by (simp add: sample_policy_def duration_max_def)

text \<open>The backoff never shrinks from one attempt to a later one and never exceeds
  \<^verbatim>\<open>max_delay\<close>, over the whole 32-bit range of attempts, saturation included.\<close>

theorem delay_for_monotone:
  assumes "a \<le> b"
  shows "delay_for p a \<le> delay_for p b \<and> delay_for p b \<le> max_delay p"
proof -
  have "unat a - 1 \<le> unat b - 1" using assms by (simp add: word_le_nat_alt diff_le_mono)
  then have "(2 :: nat) ^ (unat a - 1) \<le> 2 ^ (unat b - 1)" by (rule power_increasing) simp
  then have "base_delay p * min (2 ^ (unat a - 1)) (2 ^ 32 - 1)
      \<le> base_delay p * min (2 ^ (unat b - 1)) (2 ^ 32 - 1)"
    by (intro mult_le_mono min.mono) simp_all
  then have "delay_for p a \<le> delay_for p b"
    unfolding delay_for_nat by (intro min.mono order_refl)
  moreover have "delay_for p b \<le> max_delay p" unfolding delay_for_nat by (rule min.cobounded2)
  ultimately show ?thesis ..
qed

theorem delay_for_monotone_witness:
  "delay_for sample_policy 2 \<le> delay_for sample_policy 4 \<and> delay_for sample_policy 4 \<le> 1000"
  using delay_for_monotone [of 2 4 sample_policy] by (simp add: sample_policy_def)

section \<open>Properties of the idempotency key\<close>

text \<open>The key is injective on message identifiers and stages that contain no colon (a UUID
  and the stage names of the runtime have none), whatever the session key contains: two
  deliveries share a key only when they are the same message of the same session at the same
  stage.\<close>

theorem idempotency_key_injective:
  assumes "CHR '':'' \<notin> set m" and "CHR '':'' \<notin> set m'"
    and "CHR '':'' \<notin> set t" and "CHR '':'' \<notin> set t'"
    and "idempotency_key m k t = idempotency_key m' k' t'"
  shows "m = m' \<and> k = k' \<and> t = t'"
proof -
  have split: "x = x' \<and> y = y'"
    if "CHR '':'' \<notin> set x" "CHR '':'' \<notin> set x'" "x @ CHR '':'' # y = x' @ CHR '':'' # y'"
    for x x' y y' :: string
    using that by (auto simp: append_eq_append_conv2 append_eq_Cons_conv Cons_eq_append_conv)
  from assms(5) have "m @ CHR '':'' # (k @ '':'' @ t) = m' @ CHR '':'' # (k' @ '':'' @ t')"
    by (simp add: idempotency_key_def)
  then have m: "m = m'" and rest: "k @ '':'' @ t = k' @ '':'' @ t'"
    using split [OF assms(1,2)] by auto
  from rest have "rev t @ CHR '':'' # rev k = rev t' @ CHR '':'' # rev k'"
    by (metis append.assoc append_Cons append_Nil rev.simps(1,2) rev_append)
  then have "rev t = rev t' \<and> rev k = rev k'"
    using split [of "rev t" "rev t'"] assms(3,4) by auto
  with m show ?thesis by simp
qed

theorem idempotency_key_injective_witness:
  "idempotency_key ''m1'' ''telegram:a:b'' ''agent_run'' \<noteq>
   idempotency_key ''m1'' ''telegram:a'' ''agent_run''"
  using idempotency_key_injective
    [of "''m1''" "''m1''" "''agent_run''" "''agent_run''" "''telegram:a:b''" "''telegram:a''"]
  by auto

section \<open>Properties of the circuit breaker\<close>

lemma breaker_step_inv: "breaker_inv b \<Longrightarrow> breaker_inv (breaker_step b e)"
  by (cases e) (auto intro: on_failure_inv on_success_inv)

lemma breaker_step_policy [simp]: "cb_policy (breaker_step b e) = cb_policy b"
  by (cases e) (simp_all add: on_success_def)

lemma breaker_run_inv: "breaker_inv b \<Longrightarrow> breaker_inv (breaker_run b es)"
  unfolding breaker_run_def by (induction es arbitrary: b) (auto intro: breaker_step_inv)

text \<open>In every state that a run of successes and failures reaches, the failure counter is
  below the threshold (or zero), so the 32-bit increment of the next failure never wraps.\<close>

theorem breaker_counter_bounded:
  "breaker_inv (breaker_run (new_circuit_breaker p) es) \<and>
   unat (consecutive_failures (breaker_run (new_circuit_breaker p) es) + 1) =
     unat (consecutive_failures (breaker_run (new_circuit_breaker p) es)) + 1"
proof
  let ?b = "breaker_run (new_circuit_breaker p) es"
  have "breaker_inv (new_circuit_breaker p)" by (simp add: breaker_inv_def new_circuit_breaker_def)
  then show inv: "breaker_inv ?b" by (rule breaker_run_inv)
  show "unat (consecutive_failures ?b + 1) = unat (consecutive_failures ?b) + 1"
  proof (cases "consecutive_failures ?b = 0")
    case False
    with inv have "consecutive_failures ?b < failure_threshold (cb_policy ?b)"
      by (simp add: breaker_inv_def)
    then show ?thesis by (rule unat_plus_one)
  qed simp
qed

lemma failures_below_threshold:
  assumes "consecutive_failures b = 0"
    and "length ts < unat (failure_threshold (cb_policy b))"
  shows "fold on_failure ts b = b\<lparr>consecutive_failures := of_nat (length ts)\<rparr>"
  using assms(2)
proof (induction ts rule: rev_induct)
  case Nil
  then show ?case using assms(1) by simp
next
  case (snoc t ts)
  let ?th = "failure_threshold (cb_policy b)"
  have "Suc (length ts) < 2 ^ LENGTH(32)" using snoc.prems unat_less [of ?th] by simp
  then have "unat (of_nat (Suc (length ts)) :: u32) = Suc (length ts)"
    by (rule unat_of_nat_id)
  then have "unat (of_nat (length ts) + 1 :: u32) = Suc (length ts)"
    by (simp add: add.commute)
  then have "\<not> ?th \<le> of_nat (length ts) + 1"
    using snoc.prems by (simp add: word_le_nat_alt)
  with snoc show ?case by (simp add: on_failure_def add.commute)
qed

text \<open>From a state with no recorded failure, a streak of failures shorter than the
  threshold leaves the deadline where it was, and the failure that completes the streak sets
  it to the failure's time plus the open interval and starts the count again. So the breaker
  refuses every request made before that deadline.\<close>

theorem breaker_opens_at_threshold:
  assumes "consecutive_failures b = 0"
    and "Suc (length ts) = unat (failure_threshold (cb_policy b))"
  shows "open_until_epoch_ms (fold on_failure ts b) = open_until_epoch_ms b \<and>
    fold on_failure (ts @ [now]) b =
      b\<lparr>open_until_epoch_ms := now + of_nat (duration_as_millis (open_interval (cb_policy b)))\<rparr>"
proof -
  let ?th = "failure_threshold (cb_policy b)"
  have fold: "fold on_failure ts b = b\<lparr>consecutive_failures := of_nat (length ts)\<rparr>"
    using assms by (intro failures_below_threshold) auto
  have "(of_nat (length ts) + 1 :: u32) = of_nat (unat ?th)"
    by (simp add: assms(2) [symmetric] add.commute)
  then have "?th \<le> of_nat (length ts) + 1" by simp
  with fold assms(1) show ?thesis by (simp add: on_failure_def)
qed

definition sample_breaker :: in_memory_circuit_breaker where
  "sample_breaker = new_circuit_breaker
     \<lparr>failure_threshold = 3, open_interval = 5000000000, half_open_max_requests = 1\<rparr>"

theorem breaker_opens_at_threshold_witness:
  "allow_request 30 (fold on_failure [10, 20] sample_breaker) \<and>
   \<not> allow_request 5029 (fold on_failure [10, 20, 30] sample_breaker) \<and>
   allow_request 5030 (fold on_failure [10, 20, 30] sample_breaker)"
  using breaker_opens_at_threshold [of sample_breaker "[10, 20]" 30]
  by (simp add: sample_breaker_def new_circuit_breaker_def allow_request_def duration_as_millis_def)

text \<open>There is no half-open state. Once the deadline of an open breaker has passed, every
  request is let through whatever \<^verbatim>\<open>half_open_max_requests\<close> says, and a failure reported then
  does not open the breaker again when the threshold is above one: opening it takes a whole new
  streak of failures.\<close>

theorem half_open_not_enforced:
  assumes "consecutive_failures b = 0" and "1 < failure_threshold (cb_policy b)"
    and "open_until_epoch_ms b \<le> now"
  shows "allow_request now (b\<lparr>cb_policy := (cb_policy b)\<lparr>half_open_max_requests := n\<rparr>\<rparr>) \<and>
    allow_request now (on_failure now b)"
  using assms by (auto simp: on_failure_def allow_request_def dest: leD)

lemma sample_breaker_opened:
  "fold on_failure [10, 20, 30] sample_breaker = sample_breaker\<lparr>open_until_epoch_ms := 5030\<rparr>"
  by (simp add: sample_breaker_def new_circuit_breaker_def duration_as_millis_def on_failure_def Let_def
      word_le_nat_alt)

theorem half_open_not_enforced_witness:
  "\<not> allow_request 5029 (fold on_failure [10, 20, 30] sample_breaker) \<and>
   allow_request 5030 (on_failure 5030 (fold on_failure [10, 20, 30] sample_breaker))"
  using half_open_not_enforced [of "fold on_failure [10, 20, 30] sample_breaker" 5030 0]
  unfolding sample_breaker_opened
  by (simp add: sample_breaker_def new_circuit_breaker_def allow_request_def)

end
