(* ===== verification/Transport.thy ===== *)
theory Transport
  imports Reliability
begin

text \<open>
  \<^verbatim>\<open>klaw-core/src/transport.rs\<close>, \<^verbatim>\<open>scheduler.rs\<close> and their in-memory implementations in
  \<^verbatim>\<open>mock.rs\<close>: the queue-backed transport, the session scheduler and the idempotency store.
  The traits \<^verbatim>\<open>MessageTransport\<close> and \<^verbatim>\<open>IdempotencyStore\<close> are locales; the in-memory
  implementations interpret them. Each operation runs under the mutex the source takes, so an
  operation is one step on the state.
\<close>

section \<open>Transport\<close>

datatype delivery_mode = AtLeastOnce | AtMostOnce | ExactlyOnce

record subscription =
  sub_topic :: string
  consumer_group :: string
  visibility_timeout :: duration

record transport_ack_handle =
  broker_message_id :: string
  delivery_attempt :: u32

record 'p transport_message =
  tm_payload :: "'p envelope"
  ack_handle :: transport_ack_handle

datatype transport_error =
    Unavailable string | PublishFailed string | ConsumeFailed string
  | AckFailed string | NackFailed string

fun transport_error_to_string :: "transport_error \<Rightarrow> string" where
  "transport_error_to_string (Unavailable m) = ''transport unavailable: '' @ m"
| "transport_error_to_string (PublishFailed m) = ''publish failed: '' @ m"
| "transport_error_to_string (ConsumeFailed m) = ''consume failed: '' @ m"
| "transport_error_to_string (AckFailed m) = ''ack failed: '' @ m"
| "transport_error_to_string (NackFailed m) = ''nack failed: '' @ m"

record 'p in_memory_transport =
  queue :: "'p envelope list"
  published :: "'p envelope list"

definition new_transport :: "'p in_memory_transport" where
  "new_transport = \<lparr>queue = [], published = []\<rparr>"

definition enqueue :: "'p envelope \<Rightarrow> 'p in_memory_transport \<Rightarrow> 'p in_memory_transport" where
  "enqueue m t = t\<lparr>queue := queue t @ [m]\<rparr>"

definition transport_mode :: "'p in_memory_transport \<Rightarrow> delivery_mode" where
  "transport_mode t = AtLeastOnce"

definition publish :: "string \<Rightarrow> 'p envelope \<Rightarrow> 'p in_memory_transport \<Rightarrow>
    (transport_error + unit) \<times> 'p in_memory_transport" where
  "publish topic m t = (Ok (), t\<lparr>published := published t @ [m], queue := queue t @ [m]\<rparr>)"

definition consume :: "subscription \<Rightarrow> 'p in_memory_transport \<Rightarrow>
    (transport_error + 'p transport_message) \<times> 'p in_memory_transport" where
  "consume sub t =
     (case queue t of
        [] \<Rightarrow> (Err (ConsumeFailed ''queue empty''), t)
      | m # q \<Rightarrow>
          (Ok \<lparr>tm_payload = m,
               ack_handle = \<lparr>broker_message_id = message_id (header m),
                             delivery_attempt = attempt (header m)\<rparr>\<rparr>,
           t\<lparr>queue := q\<rparr>))"

definition ack :: "transport_ack_handle \<Rightarrow> 'p in_memory_transport \<Rightarrow>
    (transport_error + unit) \<times> 'p in_memory_transport" where
  "ack h t = (Ok (), t)"

definition nack :: "transport_ack_handle \<Rightarrow> duration option \<Rightarrow> 'p in_memory_transport \<Rightarrow>
    (transport_error + unit) \<times> 'p in_memory_transport" where
  "nack h after t = (Ok (), t)"

definition requeue :: "transport_ack_handle \<Rightarrow> duration \<Rightarrow> 'p in_memory_transport \<Rightarrow>
    (transport_error + unit) \<times> 'p in_memory_transport" where
  "requeue h delay t = nack h (Some delay) t"

text \<open>The interface of a message transport as a first-in first-out queue: \<open>pending\<close> is what
  is still to be delivered.\<close>

locale fifo_transport =
  fixes pub :: "'m \<Rightarrow> 't \<Rightarrow> 't"
    and take_next :: "'t \<Rightarrow> ('m \<times> 't) option"
    and pending :: "'t \<Rightarrow> 'm list"
  assumes pending_pub: "pending (pub m t) = pending t @ [m]"
    and take_none: "take_next t = None \<longleftrightarrow> pending t = []"
    and take_some: "take_next t = Some (m, t') \<Longrightarrow> pending t = m # pending t'"
begin

fun take_n :: "nat \<Rightarrow> 't \<Rightarrow> 'm list \<times> 't" where
  "take_n 0 t = ([], t)"
| "take_n (Suc n) t =
     (case take_next t of
        None \<Rightarrow> ([], t)
      | Some (m, t') \<Rightarrow> (let (ms, t'') = take_n n t' in (m # ms, t'')))"

lemma pending_fold_pub: "pending (fold pub ms t) = pending t @ ms"
  by (induction ms arbitrary: t) (simp_all add: pending_pub)

lemma take_n_takes: "fst (take_n n t) = take n (pending t) \<and> pending (snd (take_n n t)) = drop n (pending t)"
proof (induction n arbitrary: t)
  case 0
  then show ?case by simp
next
  case (Suc n)
  show ?case
  proof (cases "take_next t")
    case None
    then have "pending t = []" by (simp add: take_none)
    with None show ?thesis by simp
  next
    case (Some mt)
    obtain m t' where mt: "mt = (m, t')" by (cases mt)
    have "pending t = m # pending t'" using Some mt by (simp add: take_some)
    with Suc.IH [of t'] show ?thesis by (auto simp: Some mt split: prod.splits)
  qed
qed

lemma delivers_in_order:
  "pending t = [] \<Longrightarrow> fst (take_n (length ms) (fold pub ms t)) = ms \<and>
     pending (snd (take_n (length ms) (fold pub ms t))) = []"
  by (simp add: take_n_takes pending_fold_pub)

end

definition publish_to :: "string \<Rightarrow> 'p envelope \<Rightarrow> 'p in_memory_transport \<Rightarrow> 'p in_memory_transport" where
  "publish_to topic m t = snd (publish topic m t)"

definition consume_next :: "subscription \<Rightarrow> 'p in_memory_transport \<Rightarrow>
    ('p envelope \<times> 'p in_memory_transport) option" where
  "consume_next sub t =
     (case consume sub t of (Inl e, _) \<Rightarrow> None | (Inr m, t') \<Rightarrow> Some (tm_payload m, t'))"

interpretation memory_fifo: fifo_transport "publish_to topic" "consume_next sub" queue
  for topic sub
  by unfold_locales
     (auto simp: publish_to_def publish_def consume_next_def consume_def split: list.splits)

fun consume_all :: "subscription \<Rightarrow> nat \<Rightarrow> 'p in_memory_transport \<Rightarrow>
    'p envelope list \<times> 'p in_memory_transport" where
  "consume_all sub 0 t = ([], t)"
| "consume_all sub (Suc n) t =
     (case consume sub t of
        (Inl e, t') \<Rightarrow> ([], t')
      | (Inr m, t') \<Rightarrow> (let (ms, t'') = consume_all sub n t' in (tm_payload m # ms, t'')))"

lemma consume_next_cases:
  "consume_next sub t =
     (case queue t of [] \<Rightarrow> None | m # q \<Rightarrow> Some (m, t\<lparr>queue := q\<rparr>))"
  by (simp add: consume_next_def consume_def split: list.split)

lemma consume_all_take_n: "consume_all sub n t = memory_fifo.take_n sub n t"
proof (induction n arbitrary: t)
  case (Suc n)
  then show ?case
    by (cases "queue t") (simp_all add: consume_next_cases [of sub t] consume_def)
qed simp

text \<open>The in-memory transport delivers in publication order and loses nothing: on an
  empty queue, publishing any list of messages and consuming as many times returns exactly
  those messages in that order, and every one of them is in the published log, also in that
  order.\<close>

theorem transport_fifo:
  assumes "queue t = []"
  shows "fst (consume_all sub (length ms) (fold (publish_to topic) ms t)) = ms \<and>
    queue (snd (consume_all sub (length ms) (fold (publish_to topic) ms t))) = [] \<and>
    published (fold (publish_to topic) ms t) = published t @ ms"
proof -
  have "published (fold (publish_to topic) ms t) = published t @ ms"
    by (induction ms arbitrary: t) (simp_all add: publish_to_def publish_def)
  with assms show ?thesis
    by (simp add: consume_all_take_n memory_fifo.delivers_in_order)
qed

definition sample_envelope :: "string \<Rightarrow> nat envelope" where
  "sample_envelope mid = \<lparr>header = new_header mid ''trace'' 0 ''s1'', env_metadata = [], payload = 0\<rparr>"

definition sample_subscription :: subscription where
  "sample_subscription =
     \<lparr>sub_topic = ''agent.inbound'', consumer_group = ''g'', visibility_timeout = 0\<rparr>"

theorem transport_fifo_witness:
  "fst (consume_all sample_subscription 2
     (fold (publish_to ''agent.inbound'') [sample_envelope ''a'', sample_envelope ''b''] new_transport))
   = [sample_envelope ''a'', sample_envelope ''b'']"
  using transport_fifo
    [of new_transport sample_subscription "[sample_envelope ''a'', sample_envelope ''b'']"
        "''agent.inbound''"]
  by (simp add: new_transport_def numeral_2_eq_2)

text \<open>A consumed message is gone from the in-memory transport: rejecting it with
  \<^verbatim>\<open>nack\<close> or \<^verbatim>\<open>requeue\<close> succeeds and changes nothing, so it is never delivered again,
  although the transport reports the mode \<^verbatim>\<open>AtLeastOnce\<close>.\<close>

theorem nack_never_redelivers:
  assumes "consume sub t = (Ok m, t')"
  shows "queue t = tm_payload m # queue t' \<and>
    nack (ack_handle m) after t' = (Ok (), t') \<and>
    requeue (ack_handle m) delay t' = (Ok (), t') \<and>
    transport_mode t' = AtLeastOnce"
  using assms
  by (auto simp: consume_def nack_def requeue_def transport_mode_def split: list.splits)

theorem nack_never_redelivers_witness:
  "\<exists>m t'. consume sample_subscription (enqueue (sample_envelope ''a'') new_transport) = (Ok m, t') \<and>
     nack (ack_handle m) None t' = (Ok (), t') \<and> queue t' = []"
proof -
  let ?t = "enqueue (sample_envelope ''a'') new_transport"
  obtain m t' where c: "consume sample_subscription ?t = (Ok m, t')"
    by (auto simp: consume_def enqueue_def new_transport_def)
  have "queue ?t = [sample_envelope ''a'']" by (simp add: enqueue_def new_transport_def)
  with nack_never_redelivers [OF c, of None 0] c show ?thesis by auto
qed

section \<open>Session scheduler\<close>

datatype queue_overflow_policy = Collect | FollowUp | Drop

datatype task_schedule_decision = ExecuteNow | Enqueued nat | Rejected string

record in_memory_session_scheduler =
  max_depth :: nat
  lock_ttl :: duration

definition schedule :: "'task \<Rightarrow> queue_overflow_policy \<Rightarrow> in_memory_session_scheduler \<Rightarrow>
    task_schedule_decision" where
  "schedule task policy s =
     (case policy of
        Collect \<Rightarrow> ExecuteNow
      | FollowUp \<Rightarrow> ExecuteNow
      | Drop \<Rightarrow> Rejected ''drop policy active'')"

definition queue_depth :: "string \<Rightarrow> in_memory_session_scheduler \<Rightarrow> nat" where
  "queue_depth key s = 0"

lemma schedule_never_enqueues: "schedule task policy s \<noteq> Enqueued n"
  by (simp add: schedule_def split: queue_overflow_policy.split)

section \<open>Idempotency store\<close>

record in_memory_idempotency_store =
  seen_keys :: "string set"

definition new_idempotency_store :: in_memory_idempotency_store where
  "new_idempotency_store = \<lparr>seen_keys = {}\<rparr>"

definition seen :: "string \<Rightarrow> in_memory_idempotency_store \<Rightarrow> bool" where
  "seen k s \<longleftrightarrow> k \<in> seen_keys s"

definition mark_seen :: "string \<Rightarrow> duration \<Rightarrow> in_memory_idempotency_store \<Rightarrow> in_memory_idempotency_store" where
  "mark_seen k ttl s = s\<lparr>seen_keys := insert k (seen_keys s)\<rparr>"

definition clear :: "string \<Rightarrow> in_memory_idempotency_store \<Rightarrow> in_memory_idempotency_store" where
  "clear k s = s\<lparr>seen_keys := seen_keys s - {k}\<rparr>"

text \<open>The trait \<^verbatim>\<open>IdempotencyStore\<close>: marking affects one key, clearing undoes it.\<close>

locale idempotency_store =
  fixes is_seen :: "string \<Rightarrow> 's \<Rightarrow> bool"
    and mark :: "string \<Rightarrow> duration \<Rightarrow> 's \<Rightarrow> 's"
    and unmark :: "string \<Rightarrow> 's \<Rightarrow> 's"
  assumes is_seen_mark: "is_seen k (mark k' ttl s) \<longleftrightarrow> k = k' \<or> is_seen k s"
    and is_seen_unmark: "is_seen k (unmark k' s) \<longleftrightarrow> k \<noteq> k' \<and> is_seen k s"
begin

lemma mark_idem: "is_seen k (mark k' ttl (mark k' ttl' s)) = is_seen k (mark k' ttl s)"
  by (simp add: is_seen_mark)

lemma unmark_mark: "\<not> is_seen k s \<Longrightarrow> is_seen l (unmark k (mark k ttl s)) = is_seen l s"
  by (auto simp: is_seen_mark is_seen_unmark)

lemma mark_keeps: "is_seen k s \<Longrightarrow> is_seen k (mark k' ttl s)"
  by (simp add: is_seen_mark)

end

interpretation memory_store: idempotency_store seen mark_seen clear
  by unfold_locales (auto simp: seen_def mark_seen_def clear_def)

end
