(* ===== verification/Llm_Types.thy ===== *)
theory Llm_Types
  imports Json_Value
begin

text \<open>
  The provider boundary (\<^verbatim>\<open>klaw-llm/src/lib.rs\<close>) and the tool boundary
  (\<^verbatim>\<open>klaw-tool/src/lib.rs\<close>): messages, tool calls, responses, usage and audit records,
  provider errors; tool outputs, signals, errors and the tool registry. The two traits
  \<^verbatim>\<open>LlmProvider\<close> and \<^verbatim>\<open>Tool\<close> are records of functions that act on a world \<open>'w\<close>: the
  state of everything outside the modelled code (the network, the disk, the clock).
\<close>

section \<open>Providers\<close>

record llm_media =
  llm_mime_type :: "string option"
  llm_url :: string

record tool_call =
  call_id :: "string option"
  call_name :: string
  call_arguments :: json

record llm_message =
  role :: string
  content :: string
  media :: "llm_media list"
  tool_calls :: "tool_call list option"
  tool_call_id :: "string option"

record tool_definition =
  def_name :: string
  def_description :: string
  def_parameters :: json

record chat_options =
  temperature :: "32 word"
  max_tokens :: "u32 option"
  max_output_tokens :: "u32 option"
  previous_response_id :: "string option"
  instructions :: "string option"
  opt_metadata :: "json_map option"
  opt_include :: "string list option"
  store :: "bool option"
  parallel_tool_calls :: "bool option"
  opt_tool_choice :: "json option"
  opt_text :: "json option"
  opt_reasoning :: "json option"
  truncation :: "string option"
  opt_user :: "string option"
  service_tier :: "string option"

datatype llm_stream_event = ContentDelta string | ReasoningDelta string

record llm_usage =
  input_tokens :: u64
  output_tokens :: u64
  total_tokens :: u64
  cached_input_tokens :: "u64 option"
  reasoning_tokens :: "u64 option"
  usage_provider_request_id :: "string option"
  usage_provider_response_id :: "string option"

datatype llm_usage_source = ProviderReported | EstimatedLocal

fun usage_source_as_str :: "llm_usage_source \<Rightarrow> string" where
  "usage_source_as_str ProviderReported = ''provider_reported''"
| "usage_source_as_str EstimatedLocal = ''estimated_local''"

datatype llm_audit_status = AuditSuccess | AuditFailed

fun audit_status_as_str :: "llm_audit_status \<Rightarrow> string" where
  "audit_status_as_str AuditSuccess = ''success''"
| "audit_status_as_str AuditFailed = ''failed''"

record llm_audit_payload =
  aud_provider :: string
  aud_model :: string
  aud_wire_api :: string
  aud_status :: llm_audit_status
  aud_error_code :: "string option"
  aud_error_message :: "string option"
  aud_provider_request_id :: "string option"
  aud_provider_response_id :: "string option"
  request_body :: json
  response_body :: "json option"
  requested_at_ms :: int
  responded_at_ms :: "int option"

record llm_response =
  resp_content :: string
  resp_reasoning :: "string option"
  resp_tool_calls :: "tool_call list"
  resp_usage :: "llm_usage option"
  resp_usage_source :: "llm_usage_source option"
  resp_audit :: "llm_audit_payload option"

datatype llm_error =
    LlmProviderUnavailable string "llm_audit_payload option"
  | InvalidResponse string "llm_audit_payload option"
  | RequestFailed string "llm_audit_payload option"
  | StreamFailed string "llm_audit_payload option"

fun with_audit :: "llm_error \<Rightarrow> llm_audit_payload \<Rightarrow> llm_error" where
  "with_audit (LlmProviderUnavailable m _) a = LlmProviderUnavailable m (Some a)"
| "with_audit (InvalidResponse m _) a = InvalidResponse m (Some a)"
| "with_audit (RequestFailed m _) a = RequestFailed m (Some a)"
| "with_audit (StreamFailed m _) a = StreamFailed m (Some a)"

fun error_audit :: "llm_error \<Rightarrow> llm_audit_payload option" where
  "error_audit (LlmProviderUnavailable _ a) = a"
| "error_audit (InvalidResponse _ a) = a"
| "error_audit (RequestFailed _ a) = a"
| "error_audit (StreamFailed _ a) = a"

lemma error_audit_with_audit: "error_audit (with_audit e a) = Some a"
  by (cases e) simp_all

fun llm_error_to_string :: "llm_error \<Rightarrow> string" where
  "llm_error_to_string (LlmProviderUnavailable m _) = ''provider unavailable: '' @ m"
| "llm_error_to_string (InvalidResponse m _) = ''invalid response: '' @ m"
| "llm_error_to_string (RequestFailed m _) = ''request failed: '' @ m"
| "llm_error_to_string (StreamFailed m _) = ''stream failed: '' @ m"

record chat_request =
  req_messages :: "llm_message list"
  req_tools :: "tool_definition list"
  req_model :: "string option"
  req_options :: chat_options

record 'w llm_provider =
  provider_name :: string
  provider_default_model :: string
  provider_wire_api :: "string option"
  chat :: "chat_request \<Rightarrow> 'w \<Rightarrow> (llm_error + llm_response) \<times> 'w"
  chat_stream :: "chat_request \<Rightarrow> bool \<Rightarrow> 'w \<Rightarrow>
    (llm_error + llm_response) \<times> llm_stream_event list \<times> 'w"

text \<open>The trait's default \<^verbatim>\<open>chat_stream\<close>: one \<^verbatim>\<open>chat\<close>, then at most one delta of each
  kind when a stream is attached.\<close>

definition default_chat_stream ::
    "(chat_request \<Rightarrow> 'w \<Rightarrow> (llm_error + llm_response) \<times> 'w) \<Rightarrow>
     chat_request \<Rightarrow> bool \<Rightarrow> 'w \<Rightarrow> (llm_error + llm_response) \<times> llm_stream_event list \<times> 'w" where
  "default_chat_stream ch req streaming w =
     (case ch req w of
        (Inl e, w') \<Rightarrow> (Inl e, [], w')
      | (Inr r, w') \<Rightarrow>
          (Inr r,
           (if \<not> streaming then []
            else (if resp_content r = [] then [] else [ContentDelta (resp_content r)])
               @ (case option_filter (\<lambda>v. v \<noteq> []) (resp_reasoning r) of
                    None \<Rightarrow> [] | Some t \<Rightarrow> [ReasoningDelta t])),
           w'))"

section \<open>Tools\<close>

record tool_signal =
  sig_kind :: string
  sig_payload :: json

record tool_context =
  ctx_session_key :: string
  ctx_metadata :: json_map

record tool_output =
  output_for_model :: string
  output_for_user :: "string option"
  output_media :: "llm_media list"
  output_signals :: "tool_signal list"

datatype tool_error =
    InvalidArgs string
  | ExecutionFailed string
  | StructuredExecutionFailed string string "json option" bool "tool_signal list"

fun tool_error_code :: "tool_error \<Rightarrow> string" where
  "tool_error_code (InvalidArgs _) = ''invalid_args''"
| "tool_error_code (ExecutionFailed _) = ''execution_failed''"
| "tool_error_code (StructuredExecutionFailed _ code _ _ _) = code"

fun tool_error_message :: "tool_error \<Rightarrow> string" where
  "tool_error_message (InvalidArgs m) = m"
| "tool_error_message (ExecutionFailed m) = m"
| "tool_error_message (StructuredExecutionFailed m _ _ _ _) = m"

fun tool_error_details :: "tool_error \<Rightarrow> json option" where
  "tool_error_details (StructuredExecutionFailed _ _ d _ _) = d"
| "tool_error_details _ = None"

fun tool_error_retryable :: "tool_error \<Rightarrow> bool" where
  "tool_error_retryable (StructuredExecutionFailed _ _ _ r _) = r"
| "tool_error_retryable _ = False"

fun tool_error_signals :: "tool_error \<Rightarrow> tool_signal list" where
  "tool_error_signals (StructuredExecutionFailed _ _ _ _ s) = s"
| "tool_error_signals _ = []"

fun tool_error_to_string :: "tool_error \<Rightarrow> string" where
  "tool_error_to_string (InvalidArgs m) = ''invalid args: '' @ m"
| "tool_error_to_string (ExecutionFailed m) = ''execution failed: '' @ m"
| "tool_error_to_string (StructuredExecutionFailed m _ _ _ _) = ''execution failed: '' @ m"

text \<open>An optional field set on a JSON object only when it is not blank, as the signal
  constructors do.\<close>

definition set_if_nonblank :: "string \<Rightarrow> string option \<Rightarrow> json_map \<Rightarrow> json_map" where
  "set_if_nonblank k v m =
     (case nonempty_trimmed v of None \<Rightarrow> m | Some s \<Rightarrow> bt_insert k (JString s) m)"

definition approval_required_signal ::
    "string \<Rightarrow> string \<Rightarrow> string \<Rightarrow> string option \<Rightarrow> string option \<Rightarrow> tool_signal" where
  "approval_required_signal approval_id tool session risk preview =
     \<lparr>sig_kind = ''approval_required'',
      sig_payload = JObject
        (set_if_nonblank ''command_preview'' preview
          (set_if_nonblank ''risk_level'' risk
            (object_of [(''approval_id'', JString approval_id), (''tool_name'', JString tool),
                        (''session_key'', JString session)])))\<rparr>"

definition stop_current_turn :: "string option \<Rightarrow> string option \<Rightarrow> tool_signal" where
  "stop_current_turn reason source =
     \<lparr>sig_kind = ''stop'',
      sig_payload = JObject (set_if_nonblank ''source'' source (set_if_nonblank ''reason'' reason []))\<rparr>"

definition channel_attachment_signal ::
    "string \<Rightarrow> string option \<Rightarrow> string option \<Rightarrow> string option \<Rightarrow> string option \<Rightarrow> tool_signal" where
  "channel_attachment_signal kind archive_id path file caption =
     \<lparr>sig_kind = ''channel_attachment'',
      sig_payload = JObject
        (set_if_nonblank ''caption'' caption
          (set_if_nonblank ''filename'' file
            (set_if_nonblank ''path'' path
              (set_if_nonblank ''archive_id'' archive_id
                (object_of [(''kind'', JString (trim kind))])))))\<rparr>"

definition im_card_signal :: "json \<Rightarrow> tool_signal" where
  "im_card_signal p = \<lparr>sig_kind = ''im_card'', sig_payload = p\<rparr>"

record 'w tool =
  tool_name :: string
  tool_description :: string
  tool_parameters :: json
  tool_execute :: "json \<Rightarrow> tool_context \<Rightarrow> 'w \<Rightarrow> (tool_error + tool_output) \<times> 'w"

text \<open>\<^verbatim>\<open>ToolRegistry\<close>: an ordered map from names to tools.\<close>

type_synonym 'w tool_registry = "(string, 'w tool) btree_map"

definition register_shared :: "'w tool \<Rightarrow> 'w tool_registry \<Rightarrow> 'w tool_registry" where
  "register_shared t r = bt_insert (tool_name t) t r"

definition registry_get :: "'w tool_registry \<Rightarrow> string \<Rightarrow> 'w tool option" where
  "registry_get r n = bt_get r n"

definition registry_list :: "'w tool_registry \<Rightarrow> string list" where
  "registry_list r = map fst r"

definition unregister :: "string \<Rightarrow> 'w tool_registry \<Rightarrow> bool \<times> 'w tool_registry" where
  "unregister n r = (bt_contains r n, bt_remove n r)"

fun unregister_many :: "string list \<Rightarrow> 'w tool_registry \<Rightarrow> nat \<times> 'w tool_registry" where
  "unregister_many [] r = (0, r)"
| "unregister_many (n # ns) r =
     (let (removed, r') = unregister n r; (c, r'') = unregister_many ns r'
      in ((if removed then 1 else 0) + c, r''))"

lemma sorted_registry:
  "sorted_map r \<Longrightarrow> sorted_map (register_shared t r)"
  "sorted_map r \<Longrightarrow> sorted_map (snd (unregister n r))"
  by (simp_all add: register_shared_def unregister_def)

lemma registry_list_mem: "n \<in> set (registry_list r) \<longleftrightarrow> registry_get r n \<noteq> None"
  by (force simp: registry_list_def registry_get_def bt_get_def map_of_eq_None_iff)

lemma unregister_many_counts:
  "sorted_map r \<Longrightarrow>
   fst (unregister_many ns r) = card (set ns \<inter> set (registry_list r)) \<and>
   snd (unregister_many ns r) = filter (\<lambda>e. fst e \<notin> set ns) r"
proof (induction ns arbitrary: r)
  case Nil
  then show ?case by simp
next
  case (Cons n ns)
  let ?r' = "bt_remove n r"
  have IH: "fst (unregister_many ns ?r') = card (set ns \<inter> set (registry_list ?r'))"
    "snd (unregister_many ns ?r') = filter (\<lambda>e. fst e \<notin> set ns) ?r'"
    using Cons.IH [of ?r'] Cons.prems by auto
  have keys: "set (registry_list ?r') = set (registry_list r) - {n}"
    by (auto simp: registry_list_def bt_remove_def)
  have mem: "bt_contains r n \<longleftrightarrow> n \<in> set (registry_list r)"
    by (simp add: bt_contains_def registry_list_mem registry_get_def)
  have "set (n # ns) \<inter> set (registry_list r) =
      (if n \<in> set (registry_list r) then insert n (set ns \<inter> set (registry_list ?r'))
       else set ns \<inter> set (registry_list ?r'))"
    unfolding keys by auto
  moreover have "n \<notin> set ns \<inter> set (registry_list ?r')" unfolding keys by simp
  ultimately have "card (set (n # ns) \<inter> set (registry_list r)) =
      (if bt_contains r n then 1 else 0) + card (set ns \<inter> set (registry_list ?r'))"
    unfolding mem by (simp add: card_insert_if)
  then show ?case using IH
    by (simp add: unregister_def bt_remove_def split: prod.splits)
       (metis (no_types, lifting) fst_conv snd_conv)
qed

end
