(* ===== verification/Agent_Execution.thy ===== *)
theory Agent_Execution
  imports Llm_Types "HOL-Library.Sublist"
begin

text \<open>
  \<^verbatim>\<open>klaw-agent/src/lib.rs\<close>: the tool loop. \<open>run_agent_execution\<close> builds the message list,
  asks the provider, runs the tool calls it answers with, and asks again until the model
  answers without tool calls, a tool asks for approval or stops the turn, the token budget is
  exceeded, or a limit is reached. The provider, the tool executor, the clock and the JSON
  printer are parameters (\<open>agent_env\<close>) acting on a world; the loop's mutable variables are
  the record \<open>exec_state\<close>. A limit of zero means unbounded, so the loop is a
  \<^theory_text>\<open>partial_function\<close> whose value \<open>None\<close> means that it never returns.
\<close>

section \<open>Types\<close>

record agent_execution_limits =
  max_tool_iterations :: u32
  max_tool_calls :: u32
  token_budget :: u64

record conversation_message =
  conv_role :: string
  conv_content :: string
  conv_tool_calls :: "tool_call list option"
  conv_tool_call_id :: "string option"

record agent_execution_context =
  system_prompt :: "string option"
  tool_choice :: "json option"
  provider_id :: "string option"
  resolved_model :: "string option"
  parent_session_key :: "string option"
  ctx_message_id :: "string option"
  current_attachments :: "json list"
  tool_metadata :: json_map

record agent_execution_input =
  user_content :: string
  user_media :: "llm_media list"
  conversation_history :: "conversation_message list"
  session_key :: string
  execution_context :: agent_execution_context

datatype agent_execution_disposition = FinalMessage | ApprovalRequired | Stopped

datatype agent_execution_stream_event = Snapshot string "string option" | Clear

record agent_request_usage =
  usage_request_seq :: int
  usage :: llm_usage
  usage_source :: llm_usage_source

record agent_request_audit =
  audit_request_seq :: int
  audit_payload :: llm_audit_payload

record tool_invocation_result =
  ok :: bool
  content_for_model :: string
  error_code :: "string option"
  error_details :: "json option"
  retryable :: "bool option"
  signals :: "tool_signal list"
  result_media :: "llm_media list"

record agent_tool_audit =
  request_seq :: int
  tool_call_seq :: int
  audit_tool_call_id :: "string option"
  audit_tool_name :: string
  audit_arguments :: json
  audit_result :: tool_invocation_result
  started_at_ms :: int
  finished_at_ms :: int

record agent_execution_output =
  exec_content :: string
  exec_reasoning :: "string option"
  disposition :: agent_execution_disposition
  exec_tool_signals :: "tool_signal list"
  exec_request_usages :: "agent_request_usage list"
  exec_request_audits :: "agent_request_audit list"
  exec_tool_audits :: "agent_tool_audit list"

datatype agent_execution_error =
    Provider llm_error
  | ToolLoopExhausted
  | TokenBudgetExceeded u64 u64

section \<open>Tool results and metadata\<close>

definition invocation_success :: "string \<Rightarrow> tool_signal list \<Rightarrow> llm_media list \<Rightarrow> tool_invocation_result" where
  "invocation_success c sigs ms =
     \<lparr>ok = True, content_for_model = c, error_code = None, error_details = None,
      retryable = None, signals = sigs, result_media = ms\<rparr>"

definition invocation_error :: "string \<Rightarrow> string \<Rightarrow> json option \<Rightarrow> bool \<Rightarrow> tool_signal list \<Rightarrow>
    tool_invocation_result" where
  "invocation_error c code details retry sigs =
     \<lparr>ok = False, content_for_model = c, error_code = Some code, error_details = details,
      retryable = Some retry, signals = sigs, result_media = []\<rparr>"

definition signal_to_json :: "tool_signal \<Rightarrow> json" where
  "signal_to_json s = JObject (object_of [(''kind'', JString (sig_kind s)), (''payload'', sig_payload s)])"

definition tool_message_envelope :: "tool_invocation_result \<Rightarrow> string \<Rightarrow> json" where
  "tool_message_envelope r name =
     (let e0 = object_of [(''ok'', JBool (ok r)), (''tool'', JString name),
                          (''content'', JString (content_for_model r))];
          e1 = (case error_code r of
                  None \<Rightarrow> e0
                | Some code \<Rightarrow> bt_insert ''error''
                    (JObject (object_of [(''code'', JString code),
                                         (''details'', json_opt id (error_details r)),
                                         (''retryable'', json_opt JBool (retryable r))])) e0);
          e2 = (if signals r = [] then e1
                else bt_insert ''signals'' (JArray (map signal_to_json (signals r))) e1)
      in JObject e2)"

text \<open>\<open>json_to_string\<close> is \<^verbatim>\<open>serde_json::to_string\<close>; \<open>None\<close> is its error.\<close>

definition to_tool_message_content ::
    "(json \<Rightarrow> string option) \<Rightarrow> tool_invocation_result \<Rightarrow> string \<Rightarrow> string" where
  "to_tool_message_content json_to_string r name =
     unwrap_or (json_to_string (tool_message_envelope r name)) (content_for_model r)"

definition insert_some_str :: "string \<Rightarrow> string option \<Rightarrow> json_map \<Rightarrow> json_map" where
  "insert_some_str k v m = (case v of None \<Rightarrow> m | Some s \<Rightarrow> bt_insert k (JString s) m)"

definition merged_tool_metadata :: "agent_execution_context \<Rightarrow> json_map" where
  "merged_tool_metadata c =
     (let m0 = tool_metadata c;
          m1 = insert_some_str ''agent.system_prompt'' (system_prompt c) m0;
          m2 = (case option_filter (\<lambda>v. v \<noteq> JNull) (tool_choice c) of
                  None \<Rightarrow> m1 | Some v \<Rightarrow> bt_insert ''agent.tool_choice'' v m1);
          m3 = insert_some_str ''agent.provider_id'' (provider_id c) m2;
          m4 = insert_some_str ''agent.model'' (resolved_model c) m3;
          m5 = insert_some_str ''agent.parent_session_key'' (parent_session_key c) m4;
          m6 = insert_some_str ''agent.message_id'' (ctx_message_id c) m5
      in if current_attachments c = [] then m6
         else bt_insert ''agent.current_attachments'' (JArray (current_attachments c)) m6)"

section \<open>The environment and the loop state\<close>

record 'w tool_executor =
  executor_definitions :: "'w \<Rightarrow> tool_definition list"
  executor_execute :: "string \<Rightarrow> json \<Rightarrow> string \<Rightarrow> json_map \<Rightarrow> 'w \<Rightarrow> tool_invocation_result \<times> 'w"

record 'w agent_env =
  env_provider :: "'w llm_provider"
  env_tools :: "'w tool_executor"
  env_now_ms :: "'w \<Rightarrow> int \<times> 'w"
  env_json_to_string :: "json \<Rightarrow> string option"

record 'w exec_state =
  llm_messages :: "llm_message list"
  tool_calls_used :: u32
  tool_signals :: "tool_signal list"
  request_usages :: "agent_request_usage list"
  request_audits :: "agent_request_audit list"
  tool_audits :: "agent_tool_audit list"
  tokens_used :: u64
  iteration :: u32
  stream_log :: "agent_execution_stream_event list"
  world :: 'w

definition is_supported_history_role :: "string \<Rightarrow> bool" where
  "is_supported_history_role r \<longleftrightarrow> r \<in> set [''system'', ''user'', ''assistant'', ''tool'']"

definition plain_message :: "string \<Rightarrow> string \<Rightarrow> llm_message" where
  "plain_message r c = \<lparr>role = r, content = c, media = [], tool_calls = None, tool_call_id = None\<rparr>"

definition history_message :: "conversation_message \<Rightarrow> llm_message" where
  "history_message m =
     \<lparr>role = conv_role m, content = conv_content m, media = [], tool_calls = conv_tool_calls m,
      tool_call_id = conv_tool_call_id m\<rparr>"

definition initial_messages :: "agent_execution_input \<Rightarrow> llm_message list" where
  "initial_messages inp =
     (case system_prompt (execution_context inp) of
        None \<Rightarrow> [] | Some p \<Rightarrow> [plain_message ''system'' p])
     @ map history_message
         (filter (\<lambda>m. is_supported_history_role (conv_role m)) (conversation_history inp))
     @ (if trim (user_content inp) \<noteq> [] \<or> user_media inp \<noteq> []
        then [(plain_message ''user'' (user_content inp))\<lparr>media := user_media inp\<rparr>] else [])"

definition init_state :: "agent_execution_input \<Rightarrow> 'w \<Rightarrow> 'w exec_state" where
  "init_state inp w =
     \<lparr>llm_messages = initial_messages inp, tool_calls_used = 0, tool_signals = [],
      request_usages = [], request_audits = [], tool_audits = [], tokens_used = 0,
      iteration = 0, stream_log = [], world = w\<rparr>"

definition final_iteration_notice :: string where
  "final_iteration_notice = ''You are about to reach the maximum tool call limit''"

definition final_iteration_prompt :: string where
  "final_iteration_prompt = final_iteration_notice @ ''. This is your final iteration. Please respond directly to the user with a summary of what you have accomplished so far, and explain that you have reached the tool call limit. Do NOT call any more tools in this response.''"

text \<open>The message list of one request: the last iteration allowed by a limit of at least three
  carries an extra system message, which is not kept in the history.\<close>

definition should_warn_final_iteration :: "u32 \<Rightarrow> u32 \<Rightarrow> llm_message list \<Rightarrow> bool" where
  "should_warn_final_iteration max_it it msgs \<longleftrightarrow>
     0 < max_it \<and> it = max_it \<and> 3 \<le> max_it \<and>
     \<not> list_ex (\<lambda>m. role m = ''system'' \<and> str_contains (content m) final_iteration_notice) msgs"

definition messages_for_request :: "u32 \<Rightarrow> u32 \<Rightarrow> llm_message list \<Rightarrow> llm_message list" where
  "messages_for_request max_it it msgs =
     (if should_warn_final_iteration max_it it msgs
      then msgs @ [plain_message ''system'' final_iteration_prompt] else msgs)"

text \<open>The 32-bit pattern of the temperature 0.2.\<close>

definition chat_options_for :: "json option \<Rightarrow> chat_options" where
  "chat_options_for choice =
     \<lparr>temperature = 0x3E4CCCCD, max_tokens = None, max_output_tokens = None,
      previous_response_id = None, instructions = None, opt_metadata = None, opt_include = None,
      store = None, parallel_tool_calls = None, opt_tool_choice = choice, opt_text = None,
      opt_reasoning = None, truncation = None, opt_user = None, service_tier = None\<rparr>"

text \<open>The stream forwarder: every delta extends one of two buffers and sends a snapshot of both.\<close>

fun forward_stream :: "string \<Rightarrow> string \<Rightarrow> llm_stream_event list \<Rightarrow> agent_execution_stream_event list" where
  "forward_stream c r [] = []"
| "forward_stream c r (ContentDelta d # es) =
     Snapshot (c @ d) (if trim r \<noteq> [] then Some r else None) # forward_stream (c @ d) r es"
| "forward_stream c r (ReasoningDelta d # es) =
     Snapshot c (if trim (r @ d) \<noteq> [] then Some (r @ d) else None) # forward_stream c (r @ d) es"

definition has_signal :: "string \<Rightarrow> tool_signal list \<Rightarrow> bool" where
  "has_signal k sigs \<longleftrightarrow> list_ex (\<lambda>s. sig_kind s = k) sigs"

definition short_circuits :: "tool_signal list \<Rightarrow> bool" where
  "short_circuits sigs \<longleftrightarrow> has_signal ''approval_required'' sigs \<or> has_signal ''stop'' sigs"

text \<open>One tool call: execution between two clock readings, the audit record, the collected
  signals and the tool message.\<close>

definition apply_tool_call :: "'w agent_env \<Rightarrow> string \<Rightarrow> json_map \<Rightarrow> int \<Rightarrow> nat \<Rightarrow> tool_call \<Rightarrow>
    'w exec_state \<Rightarrow> tool_invocation_result \<times> 'w exec_state" where
  "apply_tool_call env skey meta rseq i call st =
     (let (t0, w0) = env_now_ms env (world st);
          (res, w1) = executor_execute (env_tools env) (call_name call) (call_arguments call) skey meta w0;
          (t1, w2) = env_now_ms env w1
      in (res,
          st\<lparr>tool_audits := tool_audits st @
               [\<lparr>request_seq = rseq, tool_call_seq = int i + 1, audit_tool_call_id = call_id call,
                 audit_tool_name = call_name call, audit_arguments = call_arguments call,
                 audit_result = res, started_at_ms = t0, finished_at_ms = t1\<rparr>],
             tool_signals := tool_signals st @ signals res,
             llm_messages := llm_messages st @
               [\<lparr>role = ''tool'',
                 content = to_tool_message_content (env_json_to_string env) res (call_name call),
                 media = result_media res, tool_calls = None, tool_call_id = call_id call\<rparr>],
             world := w2\<rparr>))"

text \<open>\<^verbatim>\<open>apply_tool_calls\<close>: \<open>i\<close> is the index of the next call. The counter is 32 bits wide and
  incremented before the limit is checked; a signal that needs the user ends the list.\<close>

fun apply_tool_calls :: "'w agent_env \<Rightarrow> string \<Rightarrow> json_map \<Rightarrow> u32 \<Rightarrow> int \<Rightarrow> nat \<Rightarrow> tool_call list \<Rightarrow>
    'w exec_state \<Rightarrow> (agent_execution_error + tool_invocation_result option) \<times> 'w exec_state" where
  "apply_tool_calls env skey meta max_calls rseq i [] st = (Ok None, st)"
| "apply_tool_calls env skey meta max_calls rseq i (call # calls) st =
     (let st1 = st\<lparr>tool_calls_used := tool_calls_used st + 1\<rparr>
      in if 0 < max_calls \<and> max_calls < tool_calls_used st1 then (Err ToolLoopExhausted, st1)
         else
           (let (res, st2) = apply_tool_call env skey meta rseq i call st1
            in if short_circuits (signals res) then (Ok (Some res), st2)
               else apply_tool_calls env skey meta max_calls rseq (Suc i) calls st2))"

definition stopped_turn_message :: string where
  "stopped_turn_message = ''Current turn stopped. No further tool calls were made.''"

definition stopped_turn_content :: "tool_signal list \<Rightarrow> string" where
  "stopped_turn_content sigs =
     (let stop_source = nonempty_trimmed
            (Option.bind (Option.bind (List.find (\<lambda>s. sig_kind s = ''stop'') sigs)
               (\<lambda>s. json_get (sig_payload s) ''source'')) as_str);
          question_card = list_ex (\<lambda>s. sig_kind s = ''im_card'' \<and>
            Option.bind (json_get (sig_payload s) ''kind'') as_str = Some ''question_single_select'') sigs
      in if question_card \<or> stop_source = Some ''ask_question'' then [] else stopped_turn_message)"

definition finish :: "string \<Rightarrow> string option \<Rightarrow> agent_execution_disposition \<Rightarrow> 'w exec_state \<Rightarrow>
    agent_execution_output" where
  "finish c r d st =
     \<lparr>exec_content = c, exec_reasoning = r, disposition = d, exec_tool_signals = tool_signals st,
      exec_request_usages = request_usages st, exec_request_audits = request_audits st,
      exec_tool_audits = tool_audits st\<rparr>"

text \<open>The output of a turn that a tool result ended.\<close>

definition short_circuit_output :: "llm_response \<Rightarrow> tool_invocation_result \<Rightarrow> 'w exec_state \<Rightarrow>
    agent_execution_output" where
  "short_circuit_output resp sc st =
     (let approval = has_signal ''approval_required'' (signals sc);
          stopped = has_signal ''stop'' (signals sc)
      in finish
           (if approval \<and> trim (resp_content resp) \<noteq> [] then resp_content resp
            else if stopped then stopped_turn_content (signals sc)
            else content_for_model sc)
           (resp_reasoning resp)
           (if approval then ApprovalRequired else Stopped) st)"

datatype ('r, 's) loop_step = Return 'r | Continue 's

text \<open>What is done with a response: the usage is added to the token count before anything else
  and may end the run; then the audit is kept, and the tool calls, if any, are applied.\<close>

definition record_usage :: "llm_response \<Rightarrow> 'w exec_state \<Rightarrow> 'w exec_state" where
  "record_usage resp st =
     (case resp_usage resp of
        None \<Rightarrow> st
      | Some u \<Rightarrow>
          st\<lparr>tokens_used := sat_add (tokens_used st) (total_tokens u),
             request_usages := request_usages st @
               [\<lparr>usage_request_seq = int (unat (iteration st)), usage = u,
                 usage_source = unwrap_or (resp_usage_source resp) ProviderReported\<rparr>]\<rparr>)"

definition budget_exceeded :: "u64 \<Rightarrow> llm_response \<Rightarrow> 'w exec_state \<Rightarrow> bool" where
  "budget_exceeded budget resp st \<longleftrightarrow>
     resp_usage resp \<noteq> None \<and> 0 < budget \<and> budget < tokens_used st"

definition record_audit :: "llm_response \<Rightarrow> 'w exec_state \<Rightarrow> 'w exec_state" where
  "record_audit resp st =
     (case resp_audit resp of
        None \<Rightarrow> st
      | Some a \<Rightarrow> st\<lparr>request_audits := request_audits st @
          [\<lparr>audit_request_seq = int (unat (iteration st)), audit_payload = a\<rparr>]\<rparr>)"

definition push_assistant :: "bool \<Rightarrow> llm_response \<Rightarrow> 'w exec_state \<Rightarrow> 'w exec_state" where
  "push_assistant streaming resp st =
     st\<lparr>stream_log := stream_log st @ (if streaming then [Clear] else []),
        llm_messages := llm_messages st @
          [(plain_message ''assistant'' (resp_content resp))\<lparr>tool_calls := Some (resp_tool_calls resp)\<rparr>]\<rparr>"

definition handle_response :: "'w agent_env \<Rightarrow> agent_execution_input \<Rightarrow> agent_execution_limits \<Rightarrow> bool \<Rightarrow>
    llm_response \<Rightarrow> 'w exec_state \<Rightarrow>
    ((agent_execution_error + agent_execution_output) \<times> 'w exec_state, 'w exec_state) loop_step" where
  "handle_response env inp lim streaming resp st =
     (let st1 = record_usage resp st
      in if budget_exceeded (token_budget lim) resp st1
         then Return (Err (TokenBudgetExceeded (tokens_used st1) (token_budget lim)), st1)
         else
           (let st2 = record_audit resp st1
            in if resp_tool_calls resp = []
               then Return (Ok (finish (resp_content resp) (resp_reasoning resp) FinalMessage st2), st2)
               else
                 (case apply_tool_calls env (session_key inp)
                         (merged_tool_metadata (execution_context inp)) (max_tool_calls lim)
                         (int (unat (iteration st))) 0 (resp_tool_calls resp)
                         (push_assistant streaming resp st2) of
                    (Inl e, st3) \<Rightarrow> Return (Err e, st3)
                  | (Inr (Some sc), st3) \<Rightarrow> Return (Ok (short_circuit_output resp sc st3), st3)
                  | (Inr None, st3) \<Rightarrow> Continue st3)))"

definition agent_iteration :: "'w agent_env \<Rightarrow> tool_definition list \<Rightarrow> agent_execution_input \<Rightarrow>
    agent_execution_limits \<Rightarrow> bool \<Rightarrow> 'w exec_state \<Rightarrow>
    ((agent_execution_error + agent_execution_output) \<times> 'w exec_state, 'w exec_state) loop_step" where
  "agent_iteration env defs inp lim streaming st =
     (if 0 < max_tool_iterations lim \<and> max_tool_iterations lim \<le> iteration st
      then Return (Err ToolLoopExhausted, st)
      else
        (let it = sat_add (iteration st) 1;
             req = \<lparr>req_messages = messages_for_request (max_tool_iterations lim) it (llm_messages st),
                    req_tools = defs,
                    req_model = resolved_model (execution_context inp),
                    req_options = chat_options_for (tool_choice (execution_context inp))\<rparr>;
             (r, events, w') = chat_stream (env_provider env) req streaming (world st);
             st1 = st\<lparr>iteration := it, world := w',
                      stream_log := stream_log st @
                        (if streaming then forward_stream [] [] events else [])\<rparr>
         in case r of
              Inl e \<Rightarrow> Return (Err (Provider e), st1)
            | Inr resp \<Rightarrow> handle_response env inp lim streaming resp st1))"

partial_function (option) agent_loop :: "'w agent_env \<Rightarrow> tool_definition list \<Rightarrow> agent_execution_input \<Rightarrow>
    agent_execution_limits \<Rightarrow> bool \<Rightarrow> 'w exec_state \<Rightarrow>
    ((agent_execution_error + agent_execution_output) \<times> 'w exec_state) option" where
  "agent_loop env defs inp lim streaming st =
     (case agent_iteration env defs inp lim streaming st of
        Return r \<Rightarrow> Some r
      | Continue st' \<Rightarrow> agent_loop env defs inp lim streaming st')"

definition run_agent_execution :: "'w agent_env \<Rightarrow> agent_execution_input \<Rightarrow> agent_execution_limits \<Rightarrow>
    bool \<Rightarrow> 'w \<Rightarrow> ((agent_execution_error + agent_execution_output) \<times> 'w exec_state) option" where
  "run_agent_execution env inp lim streaming w =
     agent_loop env (executor_definitions (env_tools env) w) inp lim streaming (init_state inp w)"

end
