(* ===== verification/Agent_Turn.thy ===== *)
theory Agent_Turn
  imports Agent_Execution
begin

text \<open>
  Properties of the tool loop of \<^verbatim>\<open>klaw-agent\<close>: the states it goes through, what a run
  returns, that it returns whenever one of its limits is set, and what the limits guarantee.
\<close>

section \<open>The states of a turn\<close>

text \<open>\<open>agent_steps\<close>: the iterations that the loop completes before the one that returns.\<close>

inductive agent_steps :: "'w agent_env \<Rightarrow> tool_definition list \<Rightarrow> agent_execution_input \<Rightarrow>
    agent_execution_limits \<Rightarrow> bool \<Rightarrow> 'w exec_state \<Rightarrow> 'w exec_state \<Rightarrow> bool"
  for env defs inp lim streaming where
  stay: "agent_steps env defs inp lim streaming st st"
| again: "agent_steps env defs inp lim streaming st st' \<Longrightarrow>
    agent_iteration env defs inp lim streaming st' = Continue st'' \<Longrightarrow>
    agent_steps env defs inp lim streaming st st''"

lemma agent_steps_first:
  "agent_steps env defs inp lim streaming st' st'' \<Longrightarrow>
   agent_iteration env defs inp lim streaming st = Continue st' \<Longrightarrow>
   agent_steps env defs inp lim streaming st st''"
  by (induction rule: agent_steps.induct) (blast intro: agent_steps.intros)+

lemma agent_loop_return:
  "agent_iteration env defs inp lim streaming st = Return r \<Longrightarrow>
   agent_loop env defs inp lim streaming st = Some r"
  by (simp add: agent_loop.simps)

lemma agent_loop_continue:
  "agent_iteration env defs inp lim streaming st = Continue st' \<Longrightarrow>
   agent_loop env defs inp lim streaming st = agent_loop env defs inp lim streaming st'"
  by (simp add: agent_loop.simps [of _ _ _ _ _ st])

text \<open>A run that returns does so from a state it reached.\<close>

lemma agent_loop_Some:
  assumes "agent_loop env defs inp lim streaming st = Some r"
  shows "\<exists>st'. agent_steps env defs inp lim streaming st st' \<and>
    agent_iteration env defs inp lim streaming st' = Return r"
proof (rule agent_loop.raw_induct [OF _ assms, where
      P = "\<lambda>env defs inp lim streaming st r. \<exists>st'. agent_steps env defs inp lim streaming st st' \<and>
        agent_iteration env defs inp lim streaming st' = Return r"])
  fix loop env defs inp lim streaming st r
  assume IH: "\<And>env defs inp lim streaming st r. loop env defs inp lim streaming st = Some r \<Longrightarrow>
      \<exists>st'. agent_steps env defs inp lim streaming st st' \<and>
        agent_iteration env defs inp lim streaming st' = Return r"
    and eq: "(case agent_iteration env defs inp lim streaming st of
        Return r \<Rightarrow> Some r | Continue st' \<Rightarrow> loop env defs inp lim streaming st') = Some r"
  show "\<exists>st'. agent_steps env defs inp lim streaming st st' \<and>
      agent_iteration env defs inp lim streaming st' = Return r"
  proof (cases "agent_iteration env defs inp lim streaming st")
    case (Return q)
    with eq show ?thesis by (auto intro: agent_steps.stay)
  next
    case (Continue st')
    with eq have "loop env defs inp lim streaming st' = Some r" by simp
    from IH [OF this] show ?thesis using agent_steps_first [OF _ Continue] by blast
  qed
qed

section \<open>What one list of tool calls does\<close>

definition audits_signals :: "agent_tool_audit list \<Rightarrow> tool_signal list" where
  "audits_signals as = concat (map (\<lambda>a. signals (audit_result a)) as)"

lemma audits_signals_simps [simp]:
  "audits_signals [] = []"
  "audits_signals (a # as) = signals (audit_result a) @ audits_signals as"
  "audits_signals (as @ bs) = audits_signals as @ audits_signals bs"
  by (simp_all add: audits_signals_def)

definition interrupting :: "agent_tool_audit \<Rightarrow> bool" where
  "interrupting a \<longleftrightarrow> short_circuits (signals (audit_result a))"

lemma apply_tool_call_effect:
  assumes "apply_tool_call env skey meta rseq i call st = (res, st')"
  obtains a m w where
    "st' = st\<lparr>tool_audits := tool_audits st @ [a], tool_signals := tool_signals st @ signals res,
       llm_messages := llm_messages st @ [m], world := w\<rparr>"
    "audit_result a = res" "request_seq a = rseq" "tool_call_seq a = int i + 1"
    "role m = ''tool''" "tool_call_id m = call_id call"
  using assms that by (auto simp: apply_tool_call_def Let_def split: prod.splits)

text \<open>The outcome of \<open>apply_tool_calls\<close>, by case: all calls were made and none interrupts; the
  last call made interrupts; or the call limit was hit.\<close>

definition calls_outcome :: "tool_call list \<Rightarrow> agent_tool_audit list \<Rightarrow>
    (agent_execution_error + tool_invocation_result option) \<Rightarrow> bool" where
  "calls_outcome calls as r =
     (case r of
        Inl e \<Rightarrow> e = ToolLoopExhausted \<and> length as < length calls \<and> (\<forall>a \<in> set as. \<not> interrupting a)
      | Inr None \<Rightarrow> length as = length calls \<and> (\<forall>a \<in> set as. \<not> interrupting a)
      | Inr (Some sc) \<Rightarrow> as \<noteq> [] \<and> length as \<le> length calls \<and> audit_result (last as) = sc \<and>
          interrupting (last as) \<and> (\<forall>a \<in> set (butlast as). \<not> interrupting a))"

lemma calls_outcome_Cons:
  "calls_outcome calls as r \<Longrightarrow> \<not> interrupting a \<Longrightarrow> calls_outcome (c # calls) (a # as) r"
  by (auto simp: calls_outcome_def split: sum.splits option.splits)

lemma apply_tool_calls_effect:
  assumes "apply_tool_calls env skey meta mx rseq i calls st = (r, st')"
  shows "\<exists>as ms w.
    st' = st\<lparr>tool_calls_used := tool_calls_used st' , tool_audits := tool_audits st @ as,
       tool_signals := tool_signals st @ audits_signals as,
       llm_messages := llm_messages st @ ms, world := w\<rparr> \<and>
    length ms = length as \<and> (\<forall>m \<in> set ms. role m = ''tool'') \<and>
    map tool_call_id ms = map call_id (take (length as) calls) \<and>
    (\<forall>a \<in> set as. request_seq a = rseq) \<and>
    map tool_call_seq as = map (\<lambda>k. int k + 1) [i ..< i + length as] \<and>
    calls_outcome calls as r"
  using assms
proof (induction env skey meta mx rseq i calls st arbitrary: st' r rule: apply_tool_calls.induct)
  case (1 env skey meta mx rseq i st)
  then show ?case
    by (intro exI [of _ "[]"] exI [of _ "world st"]) (auto simp: calls_outcome_def)
next
  case (2 env skey meta mx rseq i call calls st)
  let ?st1 = "st\<lparr>tool_calls_used := tool_calls_used st + 1\<rparr>"
  show ?case
  proof (cases "0 < mx \<and> mx < tool_calls_used ?st1")
    case True
    with "2.prems" show ?thesis
      by (intro exI [of _ "[]"] exI [of _ "world st"]) (auto simp: calls_outcome_def)
  next
    case False
    obtain res st2 where call: "apply_tool_call env skey meta rseq i call ?st1 = (res, st2)"
      by (cases "apply_tool_call env skey meta rseq i call ?st1")
    then obtain a m w where st2: "st2 = ?st1\<lparr>tool_audits := tool_audits st @ [a],
          tool_signals := tool_signals st @ signals res,
          llm_messages := llm_messages st @ [m], world := w\<rparr>"
      and a: "audit_result a = res" "request_seq a = rseq" "tool_call_seq a = int i + 1"
      and m: "role m = ''tool''" "tool_call_id m = call_id call"
      by (rule apply_tool_call_effect) auto
    show ?thesis
    proof (cases "short_circuits (signals res)")
      case True
      with False call "2.prems" have "r = Ok (Some res)" "st' = st2" by auto
      with True a m st2 show ?thesis
        by (intro exI [of _ "[a]"] exI [of _ "[m]"] exI [of _ w])
           (auto simp: calls_outcome_def interrupting_def)
    next
      case nosc: False
      with False call "2.prems"
      have rest: "apply_tool_calls env skey meta mx rseq (Suc i) calls st2 = (r, st')"
        by (auto simp: Let_def)
      from "2.IH" [OF refl False call [symmetric] refl nosc rest] obtain as ms w' where
        IH: "st' = st2\<lparr>tool_calls_used := tool_calls_used st', tool_audits := tool_audits st2 @ as,
            tool_signals := tool_signals st2 @ audits_signals as,
            llm_messages := llm_messages st2 @ ms, world := w'\<rparr>"
          "length ms = length as" "\<forall>m \<in> set ms. role m = ''tool''"
          "map tool_call_id ms = map call_id (take (length as) calls)"
          "\<forall>a \<in> set as. request_seq a = rseq"
          "map tool_call_seq as = map (\<lambda>k. int k + 1) [Suc i ..< Suc i + length as]"
          "calls_outcome calls as r"
        by blast
      have "calls_outcome (call # calls) (a # as) r"
        using IH(7) nosc a by (intro calls_outcome_Cons) (simp_all add: interrupting_def)
      moreover have "[i ..< i + length (a # as)] = i # [Suc i ..< Suc i + length as]"
        by (simp add: upt_rec)
      ultimately show ?thesis
        using IH a m st2
        by (intro exI [of _ "a # as"] exI [of _ "m # ms"] exI [of _ w']) auto
    qed
  qed
qed

text \<open>With a call limit that the 32-bit counter can exceed (every positive limit below its
  maximum), the counter agrees with the audit trail and the limit bounds both.\<close>

definition call_limit_set :: "agent_execution_limits \<Rightarrow> bool" where
  "call_limit_set lim \<longleftrightarrow> 0 < max_tool_calls lim \<and> max_tool_calls lim < - 1"

definition calls_counted :: "agent_execution_limits \<Rightarrow> 'w exec_state \<Rightarrow> bool" where
  "calls_counted lim st \<longleftrightarrow> unat (tool_calls_used st) = length (tool_audits st) \<and>
     length (tool_audits st) \<le> unat (max_tool_calls lim)"

lemma apply_tool_calls_counted:
  assumes "apply_tool_calls env skey meta (max_tool_calls lim) rseq i calls st = (r, st')"
    and "call_limit_set lim" and "calls_counted lim st"
  shows "length (tool_audits st') \<le> unat (max_tool_calls lim) \<and>
    (\<forall>x. r = Ok x \<longrightarrow> calls_counted lim st')"
  using assms
proof (induction env skey meta "max_tool_calls lim" rseq i calls st arbitrary: st' r
    rule: apply_tool_calls.induct)
  case (1 env skey meta rseq i st)
  then show ?case by (auto simp: calls_counted_def)
next
  case (2 env skey meta rseq i call calls st)
  let ?mx = "max_tool_calls lim"
  let ?st1 = "st\<lparr>tool_calls_used := tool_calls_used st + 1\<rparr>"
  have used: "unat (tool_calls_used st + 1) = length (tool_audits st) + 1"
  proof -
    have "tool_calls_used st \<le> ?mx" using "2.prems"(3)
      by (simp add: calls_counted_def word_le_nat_alt)
    then have "tool_calls_used st < - 1" using "2.prems"(2) by (auto simp: call_limit_set_def)
    from unat_plus_one [OF this] show ?thesis using "2.prems"(3)
      by (simp add: calls_counted_def)
  qed
  show ?case
  proof (cases "0 < ?mx \<and> ?mx < tool_calls_used ?st1")
    case True
    with "2.prems" show ?thesis by (auto simp: calls_counted_def)
  next
    case False
    then have "tool_calls_used st + 1 \<le> ?mx"
      using "2.prems"(2) by (auto simp: call_limit_set_def not_less)
    then have le: "length (tool_audits st) + 1 \<le> unat ?mx"
      using used by (simp add: word_le_nat_alt)
    obtain res st2 where call: "apply_tool_call env skey meta rseq i call ?st1 = (res, st2)"
      by (cases "apply_tool_call env skey meta rseq i call ?st1")
    then have st2: "calls_counted lim st2"
      using le used by (rule_tac apply_tool_call_effect) (auto simp: calls_counted_def)
    show ?thesis
    proof (cases "short_circuits (signals res)")
      case True
      with False call "2.prems"(1) have "st' = st2" by (auto simp: Let_def)
      with st2 show ?thesis by (simp add: calls_counted_def)
    next
      case nosc: False
      with False call "2.prems"(1)
      have "apply_tool_calls env skey meta ?mx rseq (Suc i) calls st2 = (r, st')"
        by (auto simp: Let_def)
      from "2.hyps" [OF refl False call [symmetric] refl nosc this "2.prems"(2) st2]
      show ?thesis .
    qed
  qed
qed

section \<open>What one iteration does\<close>

lemma record_usage_fields [simp]:
  "llm_messages (record_usage resp st) = llm_messages st"
  "tool_calls_used (record_usage resp st) = tool_calls_used st"
  "tool_signals (record_usage resp st) = tool_signals st"
  "request_audits (record_usage resp st) = request_audits st"
  "tool_audits (record_usage resp st) = tool_audits st"
  "iteration (record_usage resp st) = iteration st"
  "stream_log (record_usage resp st) = stream_log st"
  "world (record_usage resp st) = world st"
  by (simp_all add: record_usage_def split: option.split)

lemma record_audit_fields [simp]:
  "llm_messages (record_audit resp st) = llm_messages st"
  "tool_calls_used (record_audit resp st) = tool_calls_used st"
  "tool_signals (record_audit resp st) = tool_signals st"
  "request_usages (record_audit resp st) = request_usages st"
  "tool_audits (record_audit resp st) = tool_audits st"
  "tokens_used (record_audit resp st) = tokens_used st"
  "iteration (record_audit resp st) = iteration st"
  "stream_log (record_audit resp st) = stream_log st"
  "world (record_audit resp st) = world st"
  by (simp_all add: record_audit_def split: option.split)

lemma push_assistant_fields [simp]:
  "tool_calls_used (push_assistant b resp st) = tool_calls_used st"
  "tool_signals (push_assistant b resp st) = tool_signals st"
  "request_usages (push_assistant b resp st) = request_usages st"
  "request_audits (push_assistant b resp st) = request_audits st"
  "tool_audits (push_assistant b resp st) = tool_audits st"
  "tokens_used (push_assistant b resp st) = tokens_used st"
  "iteration (push_assistant b resp st) = iteration st"
  "world (push_assistant b resp st) = world st"
  by (simp_all add: push_assistant_def)

text \<open>The state in which a response is examined: it has been received and accounted for.\<close>

definition accounted :: "llm_response \<Rightarrow> 'w exec_state \<Rightarrow> 'w exec_state" where
  "accounted resp st = record_audit resp (record_usage resp st)"

text \<open>The calls of a response, as one iteration applies them.\<close>

definition response_calls :: "'w agent_env \<Rightarrow> agent_execution_input \<Rightarrow> agent_execution_limits \<Rightarrow> bool \<Rightarrow>
    llm_response \<Rightarrow> 'w exec_state \<Rightarrow>
    (agent_execution_error + tool_invocation_result option) \<times> 'w exec_state" where
  "response_calls env inp lim streaming resp st =
     apply_tool_calls env (session_key inp) (merged_tool_metadata (execution_context inp))
       (max_tool_calls lim) (int (unat (iteration st))) 0 (resp_tool_calls resp)
       (push_assistant streaming resp (accounted resp st))"

lemma handle_response_eq:
  "handle_response env inp lim streaming resp st =
     (if budget_exceeded (token_budget lim) resp (record_usage resp st)
      then Return (Err (TokenBudgetExceeded (tokens_used (record_usage resp st)) (token_budget lim)),
                   record_usage resp st)
      else if resp_tool_calls resp = []
      then Return (Ok (finish (resp_content resp) (resp_reasoning resp) FinalMessage (accounted resp st)),
                   accounted resp st)
      else (case response_calls env inp lim streaming resp st of
              (Inl e, st3) \<Rightarrow> Return (Err e, st3)
            | (Inr (Some sc), st3) \<Rightarrow> Return (Ok (short_circuit_output resp sc st3), st3)
            | (Inr None, st3) \<Rightarrow> Continue st3))"
  by (simp add: handle_response_def response_calls_def accounted_def Let_def)

text \<open>The state after the provider has been asked.\<close>

definition asked :: "bool \<Rightarrow> llm_stream_event list \<Rightarrow> 'w \<Rightarrow> 'w exec_state \<Rightarrow> 'w exec_state" where
  "asked streaming events w st =
     st\<lparr>iteration := sat_add (iteration st) 1, world := w,
        stream_log := stream_log st @ (if streaming then forward_stream [] [] events else [])\<rparr>"

definition may_iterate :: "agent_execution_limits \<Rightarrow> 'w exec_state \<Rightarrow> bool" where
  "may_iterate lim st \<longleftrightarrow>
     \<not> (0 < max_tool_iterations lim \<and> max_tool_iterations lim \<le> iteration st)"

lemma agent_iteration_cases:
  obtains (limit) "\<not> may_iterate lim st"
      "agent_iteration env defs inp lim streaming st = Return (Err ToolLoopExhausted, st)"
  | (failed) e events w where "may_iterate lim st"
      "agent_iteration env defs inp lim streaming st =
         Return (Err (Provider e), asked streaming events w st)"
  | (answer) resp events w where "may_iterate lim st"
      "agent_iteration env defs inp lim streaming st =
         handle_response env inp lim streaming resp (asked streaming events w st)"
proof (cases "may_iterate lim st")
  case False
  then show ?thesis using limit by (simp add: may_iterate_def agent_iteration_def)
next
  case True
  let ?req = "\<lparr>req_messages = messages_for_request (max_tool_iterations lim)
      (sat_add (iteration st) 1) (llm_messages st), req_tools = defs,
      req_model = resolved_model (execution_context inp),
      req_options = chat_options_for (tool_choice (execution_context inp))\<rparr>"
  obtain r events w where ch: "chat_stream (env_provider env) ?req streaming (world st) = (r, events, w)"
    by (cases "chat_stream (env_provider env) ?req streaming (world st)")
  have eq: "agent_iteration env defs inp lim streaming st =
      (case r of Inl e \<Rightarrow> Return (Err (Provider e), asked streaming events w st)
       | Inr resp \<Rightarrow> handle_response env inp lim streaming resp (asked streaming events w st))"
    using True ch by (cases r) (auto simp: agent_iteration_def may_iterate_def asked_def Let_def)
  show ?thesis
  proof (cases r)
    case (Inl e)
    with eq True show ?thesis by (intro failed) auto
  next
    case (Inr resp)
    with eq True show ?thesis by (intro answer) auto
  qed
qed

lemma agent_iteration_Continue:
  assumes "agent_iteration env defs inp lim streaming st = Continue st'"
  obtains resp events w where "may_iterate lim st"
    "\<not> budget_exceeded (token_budget lim) resp (record_usage resp (asked streaming events w st))"
    "resp_tool_calls resp \<noteq> []"
    "response_calls env inp lim streaming resp (asked streaming events w st) = (Ok None, st')"
proof (cases rule: agent_iteration_cases
    [of lim st env defs inp streaming])
  case (answer resp events w)
  then show ?thesis using assms that
    by (auto simp: handle_response_eq split: if_splits prod.splits sum.splits option.splits)
qed (use assms in auto)

lemma asked_fields [simp]:
  "llm_messages (asked b ev w st) = llm_messages st"
  "tool_calls_used (asked b ev w st) = tool_calls_used st"
  "tool_signals (asked b ev w st) = tool_signals st"
  "request_usages (asked b ev w st) = request_usages st"
  "request_audits (asked b ev w st) = request_audits st"
  "tool_audits (asked b ev w st) = tool_audits st"
  "tokens_used (asked b ev w st) = tokens_used st"
  "iteration (asked b ev w st) = sat_add (iteration st) 1"
  by (simp_all add: asked_def)

lemma accounted_fields [simp]:
  "llm_messages (accounted resp st) = llm_messages st"
  "tool_calls_used (accounted resp st) = tool_calls_used st"
  "tool_signals (accounted resp st) = tool_signals st"
  "tool_audits (accounted resp st) = tool_audits st"
  "iteration (accounted resp st) = iteration st"
  "tokens_used (accounted resp st) = tokens_used (record_usage resp st)"
  "request_usages (accounted resp st) = request_usages (record_usage resp st)"
  "request_audits (accounted resp st) = request_audits (record_audit resp st)"
  by (simp_all add: accounted_def record_audit_def split: option.split)

lemma response_calls_effect:
  assumes "response_calls env inp lim streaming resp st = (r, st')"
  obtains as ms where
    "tool_audits st' = tool_audits st @ as"
    "tool_signals st' = tool_signals st @ audits_signals as"
    "llm_messages st' = llm_messages st @
       (plain_message ''assistant'' (resp_content resp))\<lparr>tool_calls := Some (resp_tool_calls resp)\<rparr> # ms"
    "tokens_used st' = tokens_used (accounted resp st)"
    "request_usages st' = request_usages (accounted resp st)"
    "request_audits st' = request_audits (accounted resp st)"
    "iteration st' = iteration st"
    "length ms = length as" "\<forall>m \<in> set ms. role m = ''tool''"
    "map tool_call_id ms = map call_id (take (length as) (resp_tool_calls resp))"
    "\<forall>a \<in> set as. request_seq a = int (unat (iteration st))"
    "calls_outcome (resp_tool_calls resp) as r"
proof -
  let ?st0 = "push_assistant streaming resp (accounted resp st)"
  from apply_tool_calls_effect [OF assms [unfolded response_calls_def]] obtain as ms w where
    st': "st' = ?st0\<lparr>tool_calls_used := tool_calls_used st', tool_audits := tool_audits ?st0 @ as,
       tool_signals := tool_signals ?st0 @ audits_signals as,
       llm_messages := llm_messages ?st0 @ ms, world := w\<rparr>"
    and rest: "length ms = length as" "\<forall>m \<in> set ms. role m = ''tool''"
      "map tool_call_id ms = map call_id (take (length as) (resp_tool_calls resp))"
      "\<forall>a \<in> set as. request_seq a = int (unat (iteration st))"
      "calls_outcome (resp_tool_calls resp) as r"
    by blast
  have fields: "tool_audits st' = tool_audits ?st0 @ as"
    "tool_signals st' = tool_signals ?st0 @ audits_signals as"
    "llm_messages st' = llm_messages ?st0 @ ms" "tokens_used st' = tokens_used ?st0"
    "request_usages st' = request_usages ?st0" "request_audits st' = request_audits ?st0"
    "iteration st' = iteration ?st0"
    by (subst st', simp)+
  show ?thesis
    by (rule that [of as ms]) (use fields rest in \<open>simp_all add: push_assistant_def\<close>)
qed

section \<open>The invariant of the loop\<close>

definition usage_total :: "agent_request_usage list \<Rightarrow> nat" where
  "usage_total us = sum_list (map (\<lambda>u. unat (total_tokens (usage u))) us)"

definition budget_ok :: "agent_execution_limits \<Rightarrow> 'w exec_state \<Rightarrow> bool" where
  "budget_ok lim st \<longleftrightarrow>
     unat (tokens_used st) = min (usage_total (request_usages st)) (2 ^ 64 - 1) \<and>
     (0 < token_budget lim \<longrightarrow> tokens_used st \<le> token_budget lim)"

definition iterations_ok :: "agent_execution_limits \<Rightarrow> 'w exec_state \<Rightarrow> bool" where
  "iterations_ok lim st \<longleftrightarrow>
     (0 < max_tool_iterations lim \<longrightarrow> iteration st \<le> max_tool_iterations lim \<and>
        length (request_usages st) \<le> unat (iteration st) \<and>
        length (request_audits st) \<le> unat (iteration st))"

definition trail_ok :: "'w exec_state \<Rightarrow> bool" where
  "trail_ok st \<longleftrightarrow> tool_signals st = audits_signals (tool_audits st) \<and>
     (\<forall>a \<in> set (tool_audits st). \<not> interrupting a)"

definition turn_inv :: "agent_execution_limits \<Rightarrow> 'w exec_state \<Rightarrow> bool" where
  "turn_inv lim st \<longleftrightarrow> (call_limit_set lim \<longrightarrow> calls_counted lim st) \<and>
     budget_ok lim st \<and> iterations_ok lim st \<and> trail_ok st"

lemma budget_ok_accounted:
  assumes "budget_ok lim st"
    and "\<not> budget_exceeded (token_budget lim) resp (record_usage resp (asked b ev w st))"
  shows "budget_ok lim (accounted resp (asked b ev w st))"
proof (cases "resp_usage resp")
  case None
  then show ?thesis using assms(1) by (simp add: budget_ok_def record_usage_def)
next
  case (Some u)
  have "unat (sat_add (tokens_used st) (total_tokens u)) =
      min (usage_total (request_usages st) + unat (total_tokens u)) (2 ^ 64 - 1)"
    using assms(1) by (auto simp: unat_sat_add budget_ok_def)
  then show ?thesis using Some assms(2)
    by (auto simp: budget_ok_def record_usage_def usage_total_def budget_exceeded_def not_less)
qed

lemma iteration_advances:
  assumes "0 < max_tool_iterations lim" and "may_iterate lim st"
  shows "unat (sat_add (iteration st) 1) = unat (iteration st) + 1"
    and "sat_add (iteration st) 1 \<le> max_tool_iterations lim"
proof -
  have lt: "iteration st < max_tool_iterations lim" using assms by (simp add: may_iterate_def)
  then have "unat (iteration st) + 1 < 2 ^ 32"
    using unat_less [of "max_tool_iterations lim"] by (simp add: word_less_nat_alt)
  then show u: "unat (sat_add (iteration st) 1) = unat (iteration st) + 1"
    by (simp add: unat_sat_add)
  show "sat_add (iteration st) 1 \<le> max_tool_iterations lim"
    using lt u by (simp add: word_le_nat_alt word_less_nat_alt)
qed

lemma iterations_ok_accounted:
  assumes "iterations_ok lim st" and "may_iterate lim st"
  shows "iterations_ok lim (accounted resp (asked b ev w st))"
  using assms iteration_advances [OF _ assms(2)]
  by (auto simp: iterations_ok_def record_usage_def record_audit_def split: option.splits)

lemma turn_inv_init: "turn_inv lim (init_state inp w)"
  by (simp add: turn_inv_def init_state_def calls_counted_def budget_ok_def iterations_ok_def
      trail_ok_def usage_total_def)

text \<open>Whatever the calls of a response do, the token and iteration accounts stand; the call
  count stands unless the limit was hit.\<close>

lemma response_calls_inv:
  assumes "response_calls env inp lim streaming resp (asked streaming ev w st) = (r, st')"
    and "turn_inv lim st" and "may_iterate lim st"
    and "\<not> budget_exceeded (token_budget lim) resp (record_usage resp (asked streaming ev w st))"
  shows "budget_ok lim st'" and "iterations_ok lim st'"
    and "tool_signals st' = audits_signals (tool_audits st')"
    and "call_limit_set lim \<Longrightarrow> length (tool_audits st') \<le> unat (max_tool_calls lim)"
    and "call_limit_set lim \<Longrightarrow> r = Ok x \<Longrightarrow> calls_counted lim st'"
proof -
  let ?a = "accounted resp (asked streaming ev w st)"
  have a: "budget_ok lim ?a" "iterations_ok lim ?a" "trail_ok st"
    using assms by (simp_all add: turn_inv_def budget_ok_accounted iterations_ok_accounted)
  from assms(1) show "budget_ok lim st'"
    by (rule response_calls_effect) (use a(1) in \<open>simp add: budget_ok_def\<close>)
  from assms(1) show "iterations_ok lim st'"
    by (rule response_calls_effect) (use a(2) in \<open>simp add: iterations_ok_def\<close>)
  from assms(1) show "tool_signals st' = audits_signals (tool_audits st')"
    by (rule response_calls_effect) (use a(3) in \<open>simp add: trail_ok_def\<close>)
  have c: "calls_counted lim (push_assistant streaming resp ?a)" if "call_limit_set lim"
    using assms(2) that by (simp add: turn_inv_def calls_counted_def)
  show "length (tool_audits st') \<le> unat (max_tool_calls lim)" if "call_limit_set lim"
    using apply_tool_calls_counted [OF assms(1) [unfolded response_calls_def] that c [OF that]] ..
  show "calls_counted lim st'" if "call_limit_set lim" "r = Ok x"
    using apply_tool_calls_counted [OF assms(1) [unfolded response_calls_def] that(1) c [OF that(1)]]
      that(2) by blast
qed

lemma turn_inv_step:
  assumes "agent_iteration env defs inp lim streaming st = Continue st'" and "turn_inv lim st"
  shows "turn_inv lim st'"
  using assms(1)
proof (rule agent_iteration_Continue)
  fix resp ev w
  assume it: "may_iterate lim st"
    "\<not> budget_exceeded (token_budget lim) resp (record_usage resp (asked streaming ev w st))"
    and calls: "response_calls env inp lim streaming resp (asked streaming ev w st) = (Ok None, st')"
  have "trail_ok st'" using assms(2) response_calls_inv(3) [OF calls assms(2) it]
    by (rule_tac response_calls_effect [OF calls])
       (auto simp: turn_inv_def trail_ok_def calls_outcome_def)
  with response_calls_inv [OF calls assms(2) it] show ?thesis
    by (auto simp: turn_inv_def)
qed

lemma turn_inv_steps:
  "agent_steps env defs inp lim streaming st st' \<Longrightarrow> turn_inv lim st \<Longrightarrow> turn_inv lim st'"
  by (induction rule: agent_steps.induct) (auto intro: turn_inv_step)

lemma run_return:
  assumes "run_agent_execution env inp lim streaming w = Some r"
  obtains st where
    "agent_steps env (executor_definitions (env_tools env) w) inp lim streaming (init_state inp w) st"
    "turn_inv lim st"
    "agent_iteration env (executor_definitions (env_tools env) w) inp lim streaming st = Return r"
proof -
  from agent_loop_Some [OF assms [unfolded run_agent_execution_def]] obtain st where
    "agent_steps env (executor_definitions (env_tools env) w) inp lim streaming (init_state inp w) st"
    "agent_iteration env (executor_definitions (env_tools env) w) inp lim streaming st = Return r"
    by blast
  then show thesis using turn_inv_steps [OF _ turn_inv_init] by (intro that) auto
qed

section \<open>A scripted environment\<close>

text \<open>The environment of the witnesses: the world is the list of responses still to come and the
  time; the provider plays the list and fails when it is over, a tool named \<^verbatim>\<open>ask\<close> asks for
  approval and every other tool succeeds.\<close>

definition reply :: "string \<Rightarrow> tool_call list \<Rightarrow> u64 \<Rightarrow> llm_response" where
  "reply c calls n =
     \<lparr>resp_content = c, resp_reasoning = None, resp_tool_calls = calls,
      resp_usage = Some \<lparr>input_tokens = n, output_tokens = 0, total_tokens = n,
        cached_input_tokens = None, reasoning_tokens = None, usage_provider_request_id = None,
        usage_provider_response_id = None\<rparr>,
      resp_usage_source = None, resp_audit = None\<rparr>"

definition call_of :: "string \<Rightarrow> string \<Rightarrow> tool_call" where
  "call_of i n = \<lparr>call_id = Some i, call_name = n, call_arguments = JNull\<rparr>"

type_synonym script = "llm_response list \<times> int"

definition script_chat :: "chat_request \<Rightarrow> bool \<Rightarrow> script \<Rightarrow>
    (llm_error + llm_response) \<times> llm_stream_event list \<times> script" where
  "script_chat req streaming w =
     (case w of
        ([], t) \<Rightarrow> (Err (LlmProviderUnavailable ''script over'' None), [], ([], t))
      | (r # rs, t) \<Rightarrow> (Ok r, [], (rs, t)))"

definition script_execute :: "string \<Rightarrow> json \<Rightarrow> string \<Rightarrow> json_map \<Rightarrow> script \<Rightarrow>
    tool_invocation_result \<times> script" where
  "script_execute name args key meta w =
     (if name = ''ask''
      then (invocation_error ''approval requested'' ''approval_required'' None False
              [approval_required_signal ''a1'' ''shell'' key None None], w)
      else (invocation_success ''tool-result'' [] [], w))"

definition script_env :: "script agent_env" where
  "script_env =
     \<lparr>env_provider = \<lparr>provider_name = ''script'', provider_default_model = ''m'', provider_wire_api = None,
        chat = (\<lambda>req w. (case script_chat req False w of (r, _, w') \<Rightarrow> (r, w'))),
        chat_stream = script_chat\<rparr>,
      env_tools = \<lparr>executor_definitions = (\<lambda>_. []), executor_execute = script_execute\<rparr>,
      env_now_ms = (\<lambda>(rs, t). (t, (rs, t + 1))),
      env_json_to_string = (\<lambda>_. None)\<rparr>"

definition script_input :: agent_execution_input where
  "script_input =
     \<lparr>user_content = ''hello'', user_media = [], conversation_history = [], session_key = ''s1'',
      execution_context = \<lparr>system_prompt = None, tool_choice = None, provider_id = None,
        resolved_model = None, parent_session_key = None, ctx_message_id = None,
        current_attachments = [], tool_metadata = []\<rparr>\<rparr>"

definition limits_of :: "u32 \<Rightarrow> u32 \<Rightarrow> u64 \<Rightarrow> agent_execution_limits" where
  "limits_of i c b = \<lparr>max_tool_iterations = i, max_tool_calls = c, token_budget = b\<rparr>"

lemmas script_defs = script_env_def script_chat_def script_execute_def script_input_def
  limits_of_def reply_def call_of_def

lemmas step_eval = run_agent_execution_def init_state_def initial_messages_def
  agent_iteration_def handle_response_def record_usage_def record_audit_def budget_exceeded_def
  push_assistant_def apply_tool_call_def invocation_success_def invocation_error_def
  short_circuits_def has_signal_def approval_required_signal_def Let_def

lemmas turn_eval = script_defs step_eval

section \<open>Properties\<close>

lemma loop_terminates:
  fixes measure_of :: "'w exec_state \<Rightarrow> nat"
  assumes "\<And>st st'. turn_inv lim st \<Longrightarrow>
      agent_iteration env defs inp lim streaming st = Continue st' \<Longrightarrow>
      measure_of st' < measure_of st"
    and "turn_inv lim st"
  shows "\<exists>r. agent_loop env defs inp lim streaming st = Some r"
  using assms(2)
proof (induction "measure_of st" arbitrary: st rule: less_induct)
  case less
  show ?case
  proof (cases "agent_iteration env defs inp lim streaming st")
    case (Return r)
    then show ?thesis by (auto simp: agent_loop_return)
  next
    case (Continue st')
    have "\<exists>r. agent_loop env defs inp lim streaming st' = Some r"
      using less.hyps [OF assms(1) [OF less.prems Continue] turn_inv_step [OF Continue less.prems]] .
    then show ?thesis by (simp add: agent_loop_continue [OF Continue])
  qed
qed

lemma iteration_decreases:
  assumes "agent_iteration env defs inp lim streaming st = Continue st'"
    and "0 < max_tool_iterations lim"
  shows "unat (max_tool_iterations lim) - unat (iteration st') <
    unat (max_tool_iterations lim) - unat (iteration st)"
  using assms(1)
proof (rule agent_iteration_Continue)
  fix resp ev w
  assume it: "may_iterate lim st"
    and calls: "response_calls env inp lim streaming resp (asked streaming ev w st) = (Ok None, st')"
  have "iteration st' = sat_add (iteration st) 1"
    by (rule response_calls_effect [OF calls]) simp
  then show ?thesis using iteration_advances [OF assms(2) it] by (simp add: word_le_nat_alt)
qed

lemma calls_decrease:
  assumes "agent_iteration env defs inp lim streaming st = Continue st'"
    and "call_limit_set lim" and "turn_inv lim st"
  shows "unat (max_tool_calls lim) - length (tool_audits st') <
    unat (max_tool_calls lim) - length (tool_audits st)"
proof -
  have "length (tool_audits st) < length (tool_audits st')"
    using assms(1)
    by (rule agent_iteration_Continue)
       (erule response_calls_effect, simp add: calls_outcome_def)
  moreover have "length (tool_audits st') \<le> unat (max_tool_calls lim)"
    using turn_inv_step [OF assms(1,3)] assms(2) by (simp add: turn_inv_def calls_counted_def)
  ultimately show ?thesis by simp
qed

lemma run_returns:
  assumes "0 < max_tool_iterations lim \<or> call_limit_set lim"
  shows "\<exists>r. run_agent_execution env inp lim streaming w = Some r"
  unfolding run_agent_execution_def
  using assms
proof
  assume "0 < max_tool_iterations lim"
  then show "\<exists>r. agent_loop env (executor_definitions (env_tools env) w) inp lim streaming
      (init_state inp w) = Some r"
    by (intro loop_terminates [where measure_of =
          "\<lambda>st. unat (max_tool_iterations lim) - unat (iteration st)"] turn_inv_init)
       (rule iteration_decreases)
next
  assume "call_limit_set lim"
  then show "\<exists>r. agent_loop env (executor_definitions (env_tools env) w) inp lim streaming
      (init_state inp w) = Some r"
    by (intro loop_terminates [where measure_of =
          "\<lambda>st. unat (max_tool_calls lim) - length (tool_audits st)"] turn_inv_init)
       (rule calls_decrease)
qed

text \<open>C1: The tool loop returns. With an iteration limit, or with a tool-call limit below the
  maximum of its 32-bit counter, \<^verbatim>\<open>run_agent_execution\<close> terminates for every provider and
  every set of tools, however they behave (only with both limits at zero can it run forever).\<close>

theorem run_terminates:
  assumes "0 < max_tool_iterations lim \<or> call_limit_set lim"
  shows "\<exists>r. run_agent_execution env inp lim streaming w = Some r"
  using assms by (rule run_returns)

theorem run_terminates_witness:
  "\<exists>r. run_agent_execution script_env script_input (limits_of 0 4 0) False ([], 0) = Some r"
  by (rule run_terminates) (simp add: call_limit_set_def limits_of_def)


definition script_two :: script where
  "script_two = ([reply ''x'' [call_of ''c1'' ''echo''] 5, reply ''done'' [] 7], 0)"

definition script_ask :: script where
  "script_ask = ([reply ''may I?'' [call_of ''c1'' ''echo'', call_of ''c2'' ''ask'', call_of ''c3'' ''echo''] 5], 0)"

lemma script_two_run:
  "\<exists>out st. run_agent_execution script_env script_input (limits_of 3 2 100) False script_two = Some (Ok out, st) \<and>
     disposition out = FinalMessage \<and> length (tool_audits st) = 1 \<and> length (exec_request_usages out) = 2"
  by (simp add: turn_eval script_two_def agent_loop.simps finish_def word_less_nat_alt word_le_nat_alt
      unat_sat_add messages_for_request_def should_warn_final_iteration_def)

lemma script_ask_run:
  "\<exists>out st. run_agent_execution script_env script_input (limits_of 3 0 0) False script_ask = Some (Ok out, st) \<and>
     length (exec_tool_audits out) = 2 \<and> exec_content out = ''may I?''"
  by (simp add: turn_eval script_ask_def agent_loop.simps finish_def word_less_nat_alt word_le_nat_alt
      unat_sat_add messages_for_request_def should_warn_final_iteration_def short_circuit_output_def trim_empty_iff is_whitespace_def)


lemma run_Ok_cases:
  assumes "run_agent_execution env inp lim streaming w = Some (Ok out, st)"
  obtains (final) resp ev w' s where "turn_inv lim s" "may_iterate lim s"
      "\<not> budget_exceeded (token_budget lim) resp (record_usage resp (asked streaming ev w' s))"
      "st = accounted resp (asked streaming ev w' s)"
      "out = finish (resp_content resp) (resp_reasoning resp) FinalMessage st"
  | (interrupted) resp ev w' s sc where "turn_inv lim s" "may_iterate lim s"
      "\<not> budget_exceeded (token_budget lim) resp (record_usage resp (asked streaming ev w' s))"
      "response_calls env inp lim streaming resp (asked streaming ev w' s) = (Ok (Some sc), st)"
      "out = short_circuit_output resp sc st"
proof -
  obtain s where inv: "turn_inv lim s" and ret: "agent_iteration env
      (executor_definitions (env_tools env) w) inp lim streaming s = Return (Ok out, st)"
    using run_return [OF assms] by blast
  show thesis
  proof (cases rule: agent_iteration_cases
      [of lim s env "executor_definitions (env_tools env) w" inp streaming])
    case (answer resp ev w')
    show thesis
    proof (cases "resp_tool_calls resp = []")
      case True
      with answer ret inv show thesis
        by (intro final [of s resp ev w']) (auto simp: handle_response_eq split: if_splits)
    next
      case False
      with answer(2) ret obtain sc where
        "\<not> budget_exceeded (token_budget lim) resp (record_usage resp (asked streaming ev w' s))"
        "response_calls env inp lim streaming resp (asked streaming ev w' s) = (Ok (Some sc), st)"
        "out = short_circuit_output resp sc st"
        by (auto simp: handle_response_eq split: if_splits prod.splits sum.splits option.splits)
      with inv answer(1) show thesis by (rule interrupted)
    qed
  qed (use ret in auto)
qed

lemma output_fields [simp]:
  "exec_tool_signals (finish c r d st) = tool_signals st"
  "exec_request_usages (finish c r d st) = request_usages st"
  "exec_request_audits (finish c r d st) = request_audits st"
  "exec_tool_audits (finish c r d st) = tool_audits st"
  "disposition (finish c r d st) = d"
  "exec_tool_signals (short_circuit_output resp sc st) = tool_signals st"
  "exec_request_usages (short_circuit_output resp sc st) = request_usages st"
  "exec_request_audits (short_circuit_output resp sc st) = request_audits st"
  "exec_tool_audits (short_circuit_output resp sc st) = tool_audits st"
  by (simp_all add: finish_def short_circuit_output_def Let_def)

lemma run_Ok_budget:
  assumes "run_agent_execution env inp lim streaming w = Some (Ok out, st)"
  shows "budget_ok lim st \<and> exec_request_usages out = request_usages st"
  using assms
proof (cases rule: run_Ok_cases)
  case final
  then show ?thesis by (simp add: turn_inv_def budget_ok_accounted)
next
  case (interrupted resp ev w' s sc)
  then show ?thesis using response_calls_inv(1) by fastforce
qed

text \<open>A run that ends well stayed within its token budget: the sum of the total tokens that
  all the provider's answers reported is at most the budget, for every budget below the
  64-bit maximum, although the running count saturates.\<close>

theorem run_within_token_budget:
  assumes "run_agent_execution env inp lim streaming w = Some (Ok out, st)"
    and "0 < token_budget lim" and "token_budget lim < - 1"
  shows "usage_total (exec_request_usages out) \<le> unat (token_budget lim)"
proof -
  have "unat (tokens_used st) = min (usage_total (request_usages st)) (2 ^ 64 - 1)"
    and "unat (tokens_used st) \<le> unat (token_budget lim)"
    and out: "exec_request_usages out = request_usages st"
    using run_Ok_budget [OF assms(1)] assms(2) by (auto simp: budget_ok_def word_le_nat_alt)
  moreover have "unat (token_budget lim) < 2 ^ 64 - 1"
    using assms(3) by (simp add: word_less_nat_alt unat_max)
  ultimately show ?thesis by (auto simp: min_def split: if_splits)
qed

theorem run_within_token_budget_witness:
  "\<exists>out st. run_agent_execution script_env script_input (limits_of 3 2 100) False script_two = Some (Ok out, st) \<and>
     usage_total (exec_request_usages out) \<le> 100"
proof -
  obtain out st where run:
    "run_agent_execution script_env script_input (limits_of 3 2 100) False script_two = Some (Ok out, st)"
    using script_two_run by blast
  with run_within_token_budget [OF run] show ?thesis
    by (simp add: limits_of_def word_less_nat_alt unat_max)
qed

section \<open>How a turn ends\<close>

lemma has_signal_append [simp]:
  "has_signal k [] = False"
  "has_signal k (a @ b) \<longleftrightarrow> has_signal k a \<or> has_signal k b"
  by (auto simp: has_signal_def)

lemma has_signal_audits:
  "has_signal k (audits_signals as) \<longleftrightarrow> (\<exists>a \<in> set as. has_signal k (signals (audit_result a)))"
  by (induction as) auto

lemma quiet_trail:
  "\<forall>a \<in> set as. \<not> interrupting a \<Longrightarrow>
   \<not> has_signal ''approval_required'' (audits_signals as) \<and> \<not> has_signal ''stop'' (audits_signals as)"
  by (auto simp: has_signal_audits interrupting_def short_circuits_def)

lemma run_signals:
  assumes "run_agent_execution env inp lim streaming w = Some (Ok out, st)"
  shows "exec_tool_signals out = audits_signals (exec_tool_audits out) \<and>
    disposition out =
      (if has_signal ''approval_required'' (exec_tool_signals out) then ApprovalRequired
       else if has_signal ''stop'' (exec_tool_signals out) then Stopped else FinalMessage) \<and>
    (\<forall>a \<in> set (butlast (exec_tool_audits out)). \<not> interrupting a)"
  using assms
proof (cases rule: run_Ok_cases)
  case (final resp ev w' s)
  then have "trail_ok s" by (simp add: turn_inv_def)
  then show ?thesis using final quiet_trail [of "tool_audits s"]
    by (auto simp: trail_ok_def dest: in_set_butlastD)
next
  case (interrupted resp ev w' s sc)
  then have t: "trail_ok s" by (simp add: turn_inv_def)
  from interrupted(4) obtain as where as: "tool_audits st = tool_audits s @ as"
    "tool_signals st = tool_signals s @ audits_signals as"
    "as \<noteq> []" "audit_result (last as) = sc" "interrupting (last as)"
    "\<forall>a \<in> set (butlast as). \<not> interrupting a"
    by (rule response_calls_effect) (auto simp: calls_outcome_def)
  have bl: "\<forall>a \<in> set (tool_audits s @ butlast as). \<not> interrupting a"
    using t as by (auto simp: trail_ok_def)
  have split: "audits_signals (tool_audits st) =
      audits_signals (tool_audits s @ butlast as) @ signals sc"
    using as(1,3,4) by (metis append.assoc append_butlast_last_id audits_signals_simps append_Nil2)
  have sig: "tool_signals st = audits_signals (tool_audits st)"
    using t as by (simp add: trail_ok_def)
  have has: "has_signal k (tool_signals st) = has_signal k (signals sc)"
    if "k = ''approval_required'' \<or> k = ''stop''" for k
    using that quiet_trail [OF bl] unfolding sig split by auto
  have "short_circuits (signals sc)" using as(4,5) by (simp add: interrupting_def)
  moreover have "butlast (tool_audits st) = tool_audits s @ butlast as"
    using as(1,3) by (simp add: butlast_append)
  ultimately show ?thesis using interrupted(5) sig bl has
    by (auto simp: short_circuit_output_def finish_def Let_def short_circuits_def)
qed

text \<open>The output of a run reports exactly the signals of the tools it ran, and its
  disposition is decided by them: \<^verbatim>\<open>ApprovalRequired\<close> when one asked for approval,
  \<^verbatim>\<open>Stopped\<close> when one stopped the turn and none asked for approval, \<^verbatim>\<open>FinalMessage\<close> when
  neither happened. A tool that interrupts is the last one executed: nothing runs after it.\<close>

theorem run_disposition:
  assumes "run_agent_execution env inp lim streaming w = Some (Ok out, st)"
  shows "exec_tool_signals out = audits_signals (exec_tool_audits out) \<and>
    disposition out =
      (if has_signal ''approval_required'' (exec_tool_signals out) then ApprovalRequired
       else if has_signal ''stop'' (exec_tool_signals out) then Stopped else FinalMessage) \<and>
    (\<forall>a \<in> set (butlast (exec_tool_audits out)). \<not> interrupting a)"
  using assms by (rule run_signals)

theorem run_disposition_witness:
  "\<exists>out st. run_agent_execution script_env script_input (limits_of 3 0 0) False script_ask = Some (Ok out, st) \<and>
     length (exec_tool_audits out) = 2 \<and>
     (\<forall>a \<in> set (butlast (exec_tool_audits out)). \<not> interrupting a)"
  using script_ask_run run_disposition [of script_env script_input "limits_of 3 0 0" False script_ask]
  by blast

section \<open>The conversation sent to the provider\<close>

text \<open>A sequence of rounds: an assistant message that carries tool calls, followed by one tool
  message for each of them, in order and with the same identifiers.\<close>

inductive tool_rounds :: "llm_message list \<Rightarrow> bool" where
  no_round: "tool_rounds []"
| one_more: "tool_rounds ms \<Longrightarrow> role a = ''assistant'' \<Longrightarrow> tool_calls a = Some cs \<Longrightarrow> cs \<noteq> [] \<Longrightarrow>
    \<forall>m \<in> set ts. role m = ''tool'' \<Longrightarrow> map tool_call_id ts = map call_id cs \<Longrightarrow>
    tool_rounds (ms @ a # ts)"

inductive_cases tool_rounds_NilE: "tool_rounds []"
inductive_simps tool_rounds_Nil [simp]: "tool_rounds []"



end
