(* ===== verification/Agent_Loop.thy ===== *)
theory Agent_Loop
  imports Agent_Execution Protocol Transport
begin

text \<open>
  \<^verbatim>\<open>klaw-core/src/agent_loop.rs\<close>, up to one message: the run-state machine, the executor that
  runs registered tools, the telemetry records, and \<^verbatim>\<open>process_message\<close>, which validates an
  inbound message, resolves provider and model, runs the tool loop of \<^verbatim>\<open>klaw-agent\<close> and turns
  its result into a \<^verbatim>\<open>ProcessOutcome\<close>. Telemetry is a trait object: an optional function that
  takes one event to the next world. The monotonic clock, fresh identifiers and the decoding of
  JSON into conversation messages belong to the standard library and to third-party crates; they
  are the fields of \<open>host\<close>.
\<close>

section \<open>Types\<close>

datatype agent_meta_key =
    SystemPromptKey | ToolChoiceKey | ProviderIdKey | ModelKey | DispositionKey
  | ConversationHistoryKey | LlmUsageRecordsKey | LlmAuditRecordsKey | ImCardKey

fun meta_key :: "agent_meta_key \<Rightarrow> string" where
  "meta_key SystemPromptKey = ''agent.system_prompt''"
| "meta_key ToolChoiceKey = ''agent.tool_choice''"
| "meta_key ProviderIdKey = ''agent.provider_id''"
| "meta_key ModelKey = ''agent.model''"
| "meta_key DispositionKey = ''agent.disposition''"
| "meta_key ConversationHistoryKey = ''agent.conversation_history''"
| "meta_key LlmUsageRecordsKey = ''llm.usage.records''"
| "meta_key LlmAuditRecordsKey = ''llm.audit.records''"
| "meta_key ImCardKey = ''im.card''"

datatype agent_run_state =
    Received | Validating | PreparingContext | Executing | Publishing
  | Completed | Degraded | Failed

datatype queue_strategy = CollectStrategy | FollowUpStrategy | DropStrategy

record session_scheduling_policy =
  strategy :: queue_strategy
  max_queue_depth :: nat
  policy_lock_ttl :: duration

datatype state_transition_event =
    StartValidation | ValidationPassed | ValidationFailure | ContextPrepared
  | ExecutionStarted | ExecutionFinished | Published | RecoverableError | FatalError

record run_limits =
  run_max_tool_iterations :: u32
  run_max_tool_calls :: u32
  run_token_budget :: u64
  agent_timeout :: duration
  tool_timeout :: duration

record process_outcome =
  final_response :: "outbound_message envelope option"
  outcome_error :: "error_code option"
  final_state :: agent_run_state
  llm_audits :: "llm_audit_payload list"
  outcome_tool_audits :: "agent_tool_audit list"
  audit_message_id :: "uuid option"
  audit_session_key :: "string option"
  audit_chat_id :: "string option"

fun transition :: "agent_run_state \<Rightarrow> state_transition_event \<Rightarrow> agent_run_state" where
  "transition Received StartValidation = Validating"
| "transition Validating ValidationPassed = PreparingContext"
| "transition Validating ValidationFailure = Failed"
| "transition PreparingContext ContextPrepared = Executing"
| "transition Executing ExecutionStarted = Executing"
| "transition Executing ExecutionFinished = Publishing"
| "transition Publishing Published = Completed"
| "transition _ RecoverableError = Degraded"
| "transition _ FatalError = Failed"
| "transition s _ = s"

section \<open>Telemetry\<close>

datatype health_status = HealthReady | HealthLive | HealthDegraded | HealthUnavailable

datatype tool_outcome_status = ToolSuccess | ToolFailure

datatype model_request_status = RequestSuccess | RequestFailure

record model_request_record =
  mr_session_key :: string
  mr_provider :: string
  mr_model :: string
  mr_wire_api :: string
  mr_status :: model_request_status
  mr_error_code :: "string option"
  mr_duration :: duration
  mr_input_tokens :: u64
  mr_output_tokens :: u64
  mr_total_tokens :: u64
  mr_cached_input_tokens :: u64
  mr_reasoning_tokens :: u64
  mr_provider_request_id :: "string option"
  mr_provider_response_id :: "string option"
  mr_tool_call_count :: u32
  mr_has_tool_call :: bool
  mr_empty_response :: bool

record model_tool_outcome_record =
  mt_session_key :: string
  mt_provider :: string
  mt_model :: string
  mt_tool_name :: string
  mt_status :: tool_outcome_status
  mt_error_code :: "string option"
  mt_duration :: duration
  mt_approval_required :: bool

record turn_outcome_record =
  to_session_key :: string
  to_provider :: string
  to_model :: string
  requests_in_turn :: u32
  tool_iterations :: u32
  to_completed :: bool
  to_degraded :: bool
  token_budget_exceeded :: bool
  tool_loop_exhausted :: bool

datatype telemetry_event =
    RecordToolOutcome string string tool_outcome_status "string option" duration
  | RecordModelRequest model_request_record
  | RecordModelToolOutcome model_tool_outcome_record
  | RecordTurnOutcome turn_outcome_record
  | IncrCounter string "(string \<times> string) list" u64
  | ObserveHistogram string "(string \<times> string) list" duration
  | EmitAuditEvent string uuid json
  | SetHealth string health_status

type_synonym 'w telemetry_sink = "(telemetry_event \<Rightarrow> 'w \<Rightarrow> 'w) option"

definition emit :: "'w telemetry_sink \<Rightarrow> telemetry_event list \<Rightarrow> 'w \<Rightarrow> 'w" where
  "emit t es w = (case t of None \<Rightarrow> w | Some f \<Rightarrow> fold f es w)"

lemma emit_simps [simp]:
  "emit None es w = w"
  "emit (Some f) es w = fold f es w"
  by (simp_all add: emit_def)

section \<open>The agent loop and its host\<close>

record 'w provider_runtime_snapshot =
  default_provider :: "'w llm_provider"
  provider_registry :: "(string, 'w llm_provider) btree_map"
  default_provider_id :: string
  default_model :: string
  provider_default_models :: "(string, string) btree_map"

record 'w agent_loop =
  limits :: run_limits
  scheduling :: session_scheduling_policy
  provider_runtime :: "'w provider_runtime_snapshot"
  tools :: "'w \<Rightarrow> 'w tool_registry"
  loop_system_prompt :: "string option"
  telemetry :: "'w telemetry_sink"

record 'w host =
  host_now_ms :: "'w \<Rightarrow> int \<times> 'w"
  host_json_to_string :: "json \<Rightarrow> string option"
  host_instant :: "'w \<Rightarrow> nat"
  host_new_uuid :: "'w \<Rightarrow> uuid \<times> 'w"
  host_decode_history :: "json \<Rightarrow> conversation_message list option"

text \<open>\<^verbatim>\<open>Instant::elapsed\<close>, which saturates at zero.\<close>

definition elapsed :: "'w host \<Rightarrow> nat \<Rightarrow> 'w \<Rightarrow> duration" where
  "elapsed h start w = host_instant h w - start"

text \<open>The shared registry is an \<^verbatim>\<open>Arc<RwLock<..>>\<close>: what it holds is read from the world at
  each use.\<close>

definition new_agent_loop :: "run_limits \<Rightarrow> session_scheduling_policy \<Rightarrow> 'w llm_provider \<Rightarrow>
    ('w \<Rightarrow> 'w tool_registry) \<Rightarrow> 'w agent_loop" where
  "new_agent_loop l s p t =
     \<lparr>limits = l, scheduling = s,
      provider_runtime = \<lparr>default_provider = p, provider_registry = [(''default'', p)],
        default_provider_id = ''default'', default_model = ''default'',
        provider_default_models = [(''default'', ''default'')]\<rparr>,
      tools = t, loop_system_prompt = None, telemetry = None\<rparr>"

definition new_with_identity :: "run_limits \<Rightarrow> session_scheduling_policy \<Rightarrow> 'w llm_provider \<Rightarrow>
    string \<Rightarrow> string \<Rightarrow> ('w \<Rightarrow> 'w tool_registry) \<Rightarrow> 'w agent_loop" where
  "new_with_identity l s p active_provider_id active_model t =
     \<lparr>limits = l, scheduling = s,
      provider_runtime = \<lparr>default_provider = p, provider_registry = [(active_provider_id, p)],
        default_provider_id = active_provider_id, default_model = active_model,
        provider_default_models = [(active_provider_id, active_model)]\<rparr>,
      tools = t, loop_system_prompt = None, telemetry = None\<rparr>"

definition with_provider_registry :: "(string, 'w llm_provider) btree_map \<Rightarrow> 'w agent_loop \<Rightarrow>
    'w agent_loop" where
  "with_provider_registry reg a =
     a\<lparr>provider_runtime := (provider_runtime a)
         \<lparr>provider_registry := reg,
          provider_default_models := map (\<lambda>(k, p). (k, provider_default_model p)) reg\<rparr>\<rparr>"

definition set_provider_runtime_snapshot :: "'w provider_runtime_snapshot \<Rightarrow> 'w agent_loop \<Rightarrow>
    'w agent_loop" where
  "set_provider_runtime_snapshot s a = a\<lparr>provider_runtime := s\<rparr>"

definition with_telemetry :: "(telemetry_event \<Rightarrow> 'w \<Rightarrow> 'w) \<Rightarrow> 'w agent_loop \<Rightarrow> 'w agent_loop" where
  "with_telemetry t a = a\<lparr>telemetry := Some t\<rparr>"

definition set_system_prompt :: "string option \<Rightarrow> 'w agent_loop \<Rightarrow> 'w agent_loop" where
  "set_system_prompt p a = a\<lparr>loop_system_prompt := nonempty_trimmed p\<rparr>"

definition with_system_prompt :: "string option \<Rightarrow> 'w agent_loop \<Rightarrow> 'w agent_loop" where
  "with_system_prompt p a = set_system_prompt p a"

section \<open>Metadata\<close>

definition metadata_provider :: "json_map \<Rightarrow> string" where
  "metadata_provider m = unwrap_or (get_trimmed_str m (meta_key ProviderIdKey)) ''unknown''"

definition metadata_model :: "json_map \<Rightarrow> string" where
  "metadata_model m = unwrap_or (get_trimmed_str m (meta_key ModelKey)) ''unknown''"

fun disposition_metadata_token :: "agent_execution_disposition \<Rightarrow> string" where
  "disposition_metadata_token FinalMessage = ''final_message''"
| "disposition_metadata_token ApprovalRequired = ''approval_required''"
| "disposition_metadata_token Stopped = ''stopped''"

definition truncate_for_log :: "string \<Rightarrow> nat \<Rightarrow> string" where
  "truncate_for_log v n = (if length v \<le> n then v else take n v @ ''...[truncated]'')"

definition get_json_str :: "json \<Rightarrow> string \<Rightarrow> string option" where
  "get_json_str v k = nonempty_trimmed (Option.bind (json_get v k) as_str)"

definition approval_im_card_metadata :: "json \<Rightarrow> string \<Rightarrow> json option" where
  "approval_im_card_metadata ap fallback_body =
     (case get_json_str ap ''approval_id'' of
        None \<Rightarrow> None
      | Some aid \<Rightarrow>
          (let m = fold (\<lambda>k m. case json_get ap k of None \<Rightarrow> m | Some v \<Rightarrow> bt_insert k v m)
                     [''command_preview'', ''tool_name'', ''session_key'', ''risk_level'']
                     [(''approval_id'', JString aid)]
           in Some (JObject (object_of
                [(''kind'', JString ''approval''),
                 (''title'', JString ''Approval Required''),
                 (''body'', JString (trim fallback_body)),
                 (''actions'', JArray
                    [JObject (object_of [(''kind'', JString ''approve''), (''value'', JString aid)]),
                     JObject (object_of [(''kind'', JString ''reject''), (''value'', JString aid)])]),
                 (''fallback_text'', JString (trim fallback_body)),
                 (''metadata'', JObject m)]))))"

definition heartbeat_response_metadata :: "json_map \<Rightarrow> json_map" where
  "heartbeat_response_metadata m =
     fold (\<lambda>(k, v) r.
        if k = ''trigger.kind'' \<or> starts_with k ''heartbeat.'' \<or> starts_with k ''channel.''
        then bt_insert k v r else r) m []"

fun error_code_label :: "error_code \<Rightarrow> string" where
  "error_code_label InvalidSchema = ''invalid_schema''"
| "error_code_label ValidationFailed = ''validation_failed''"
| "error_code_label DuplicateMessage = ''duplicate_message''"
| "error_code_label SessionBusy = ''session_busy''"
| "error_code_label AgentTimeout = ''agent_timeout''"
| "error_code_label ToolTimeout = ''tool_timeout''"
| "error_code_label ProviderUnavailable = ''provider_unavailable''"
| "error_code_label ProviderResponseInvalid = ''provider_response_invalid''"
| "error_code_label TransportUnavailable = ''transport_unavailable''"
| "error_code_label RetryExhausted = ''retry_exhausted''"
| "error_code_label BudgetExceeded = ''budget_exceeded''"
| "error_code_label SentToDeadLetter = ''sent_to_deadletter''"

definition classify_error_kind :: "error_code option \<Rightarrow> string" where
  "classify_error_kind c =
     (case c of
        Some ValidationFailed \<Rightarrow> ''validation''
      | Some InvalidSchema \<Rightarrow> ''validation''
      | Some DuplicateMessage \<Rightarrow> ''duplicate''
      | Some ProviderUnavailable \<Rightarrow> ''provider_unavailable''
      | Some ToolTimeout \<Rightarrow> ''tool_timeout''
      | Some TransportUnavailable \<Rightarrow> ''transport_unavailable''
      | _ \<Rightarrow> ''unknown'')"

fun map_llm_error_to_code :: "llm_error \<Rightarrow> error_code" where
  "map_llm_error_to_code (LlmProviderUnavailable _ _) = ProviderUnavailable"
| "map_llm_error_to_code (RequestFailed _ _) = ProviderUnavailable"
| "map_llm_error_to_code (StreamFailed _ _) = ProviderUnavailable"
| "map_llm_error_to_code (InvalidResponse _ _) = ProviderResponseInvalid"

section \<open>The registry as a tool executor\<close>

text \<open>Emission of events that read the clock, and of one event that carries a fresh
  identifier.\<close>

definition emit_timed :: "'w host \<Rightarrow> 'w telemetry_sink \<Rightarrow> nat \<Rightarrow> (duration \<Rightarrow> telemetry_event) list \<Rightarrow>
    'w \<Rightarrow> 'w" where
  "emit_timed h t start evs w =
     (case t of
        None \<Rightarrow> w
      | Some f \<Rightarrow> fold (\<lambda>ev w. f (ev (elapsed h start w)) w) evs w)"

definition emit_fresh :: "'w host \<Rightarrow> 'w telemetry_sink \<Rightarrow> (uuid \<Rightarrow> telemetry_event) \<Rightarrow> 'w \<Rightarrow> 'w" where
  "emit_fresh h t ev w =
     (case t of
        None \<Rightarrow> w
      | Some f \<Rightarrow> (let (u, w') = host_new_uuid h w in f (ev u) w'))"

lemma emit_None [simp]: "emit_timed h None s es w = w" "emit_fresh h None e w = w"
  by (simp_all add: emit_timed_def emit_fresh_def)

definition registry_definitions :: "'w agent_loop \<Rightarrow> 'w \<Rightarrow> tool_definition list" where
  "registry_definitions a w =
     map (\<lambda>t. \<lparr>def_name = tool_name t, def_description = tool_description t,
                def_parameters = tool_parameters t\<rparr>)
       (List.map_filter (registry_get (tools a w)) (registry_list (tools a w)))"

definition model_tool_outcome :: "string \<Rightarrow> json_map \<Rightarrow> string \<Rightarrow> tool_outcome_status \<Rightarrow> string option \<Rightarrow>
    bool \<Rightarrow> duration \<Rightarrow> telemetry_event" where
  "model_tool_outcome skey meta name status code approval d =
     RecordModelToolOutcome
       \<lparr>mt_session_key = skey, mt_provider = metadata_provider meta,
        mt_model = metadata_model meta, mt_tool_name = name, mt_status = status,
        mt_error_code = code, mt_duration = d, mt_approval_required = approval\<rparr>"

definition tool_success_events :: "string \<Rightarrow> json_map \<Rightarrow> string \<Rightarrow> (duration \<Rightarrow> telemetry_event) list" where
  "tool_success_events skey meta name =
     [RecordToolOutcome skey name ToolSuccess None,
      model_tool_outcome skey meta name ToolSuccess None False,
      \<lambda>_. IncrCounter ''agent_tool_success_total'' [(''session_key'', skey), (''tool_name'', name)] 1,
      ObserveHistogram ''agent_run_duration_ms'' [(''session_key'', skey), (''stage'', name)]]"

definition tool_failure_events :: "string \<Rightarrow> json_map \<Rightarrow> string \<Rightarrow> string \<Rightarrow>
    (duration \<Rightarrow> telemetry_event) list" where
  "tool_failure_events skey meta name code =
     [RecordToolOutcome skey name ToolFailure (Some code),
      model_tool_outcome skey meta name ToolFailure (Some code) (code = ''approval_required''),
      \<lambda>_. IncrCounter ''agent_tool_failure_total''
        [(''session_key'', skey), (''tool_name'', name), (''error_code'', code)] 1]"

text \<open>The result that a tool's error becomes.\<close>

definition tool_failure_result :: "string \<Rightarrow> tool_error \<Rightarrow> tool_invocation_result" where
  "tool_failure_result name err =
     invocation_error
       (if tool_error_code err = ''approval_required'' then ''approval requested''
        else ''tool `'' @ name @ ''` failed: '' @ tool_error_to_string err)
       (tool_error_code err) (tool_error_details err) (tool_error_retryable err)
       (tool_error_signals err)"

definition registry_execute :: "'w agent_loop \<Rightarrow> 'w host \<Rightarrow> string \<Rightarrow> json \<Rightarrow> string \<Rightarrow> json_map \<Rightarrow> 'w \<Rightarrow>
    tool_invocation_result \<times> 'w" where
  "registry_execute a h name args skey meta w =
     (case registry_get (tools a w) name of
        None \<Rightarrow>
          (invocation_error (''tool `'' @ name @ ''` not found'') ''tool_not_found'' None False [], w)
      | Some t \<Rightarrow>
          (let w1 = emit_fresh h (telemetry a) (\<lambda>u. EmitAuditEvent ''tool_called'' u
                 (JObject (object_of [(''tool_name'', JString name), (''session_key'', JString skey)]))) w;
               start = host_instant h w1;
               (r, w2) = tool_execute t args \<lparr>ctx_session_key = skey, ctx_metadata = meta\<rparr> w1
           in case r of
                Inr out \<Rightarrow>
                  (invocation_success (output_for_model out) (output_signals out) (output_media out),
                   emit_timed h (telemetry a) start (tool_success_events skey meta name) w2)
              | Inl err \<Rightarrow>
                  (tool_failure_result name err,
                   emit_fresh h (telemetry a) (\<lambda>u. EmitAuditEvent ''tool_failed'' u
                       (JObject (object_of [(''tool_name'', JString name),
                          (''session_key'', JString skey),
                          (''error_code'', JString (tool_error_code err))])))
                     (emit_timed h (telemetry a) start
                       (tool_failure_events skey meta name (tool_error_code err)) w2))))"

definition registry_executor :: "'w agent_loop \<Rightarrow> 'w host \<Rightarrow> 'w tool_executor" where
  "registry_executor a h =
     \<lparr>executor_definitions = registry_definitions a, executor_execute = registry_execute a h\<rparr>"

section \<open>Telemetry records of a turn\<close>

definition extract_tool_call_count :: "json \<Rightarrow> u32 option" where
  "extract_tool_call_count v =
     map_option
       (\<lambda>items. fold (\<lambda>item count. count +
            (case Option.bind (json_get item ''type'') as_str of
               Some kind \<Rightarrow> if str_contains kind ''tool_call'' then 1 else 0
             | None \<Rightarrow> 0)) items 0)
       (Option.bind (json_get v ''output'') as_array)"

definition response_body_is_empty :: "json \<Rightarrow> bool" where
  "response_body_is_empty v = (as_object v = Some [])"

text \<open>\<^verbatim>\<open>checked_sub\<close> on 64 bits, then a negative span counts as zero.\<close>

definition request_duration :: "llm_audit_payload \<Rightarrow> duration" where
  "request_duration p =
     (case responded_at_ms p of
        None \<Rightarrow> 0
      | Some t \<Rightarrow> (let d = t - requested_at_ms p
                   in if i64_range d then nat (max d 0) * 10 ^ 6 else 0))"

definition usage_by_seq :: "agent_request_usage list \<Rightarrow> (int, agent_request_usage) btree_map" where
  "usage_by_seq us = bt_extend [] (map (\<lambda>u. (usage_request_seq u, u)) us)"

definition audited_request_record :: "string \<Rightarrow> agent_request_usage list \<Rightarrow> string option \<Rightarrow>
    agent_request_audit \<Rightarrow> model_request_record" where
  "audited_request_record skey us fallback_error audit =
     (let p = audit_payload audit;
          u = map_option usage (bt_get (usage_by_seq us) (audit_request_seq audit));
          count = unwrap_or (or_else (Option.bind (response_body p) extract_tool_call_count)
                                     (map_option (\<lambda>_. 0) u)) 0
      in \<lparr>mr_session_key = skey, mr_provider = aud_provider p, mr_model = aud_model p,
          mr_wire_api = aud_wire_api p,
          mr_status = (case aud_status p of AuditSuccess \<Rightarrow> RequestSuccess | AuditFailed \<Rightarrow> RequestFailure),
          mr_error_code = or_else (aud_error_code p) fallback_error,
          mr_duration = request_duration p,
          mr_input_tokens = unwrap_or (map_option input_tokens u) 0,
          mr_output_tokens = unwrap_or (map_option output_tokens u) 0,
          mr_total_tokens = unwrap_or (map_option total_tokens u) 0,
          mr_cached_input_tokens = unwrap_or (Option.bind u cached_input_tokens) 0,
          mr_reasoning_tokens = unwrap_or (Option.bind u reasoning_tokens) 0,
          mr_provider_request_id = aud_provider_request_id p,
          mr_provider_response_id = aud_provider_response_id p,
          mr_tool_call_count = count, mr_has_tool_call = 0 < count,
          mr_empty_response = (case response_body p of None \<Rightarrow> False
                               | Some v \<Rightarrow> response_body_is_empty v)\<rparr>)"

definition unaudited_request_record :: "string \<Rightarrow> string \<Rightarrow> string \<Rightarrow> string \<Rightarrow> agent_request_usage \<Rightarrow>
    model_request_record" where
  "unaudited_request_record skey prov model wire r =
     \<lparr>mr_session_key = skey, mr_provider = prov, mr_model = model, mr_wire_api = wire,
      mr_status = RequestSuccess, mr_error_code = None, mr_duration = 0,
      mr_input_tokens = input_tokens (usage r), mr_output_tokens = output_tokens (usage r),
      mr_total_tokens = total_tokens (usage r),
      mr_cached_input_tokens = unwrap_or (cached_input_tokens (usage r)) 0,
      mr_reasoning_tokens = unwrap_or (reasoning_tokens (usage r)) 0,
      mr_provider_request_id = usage_provider_request_id (usage r),
      mr_provider_response_id = usage_provider_response_id (usage r),
      mr_tool_call_count = 0, mr_has_tool_call = False, mr_empty_response = False\<rparr>"

definition record_model_requests :: "string \<Rightarrow> string \<Rightarrow> string \<Rightarrow> string \<Rightarrow> agent_request_audit list \<Rightarrow>
    agent_request_usage list \<Rightarrow> string option \<Rightarrow> telemetry_event list" where
  "record_model_requests skey prov model wire audits us fallback_error =
     map (RecordModelRequest \<circ> audited_request_record skey us fallback_error) audits
     @ (if audits = [] \<and> us \<noteq> []
        then map (RecordModelRequest \<circ> unaudited_request_record skey prov model wire) us else [])"

definition record_turn_outcome :: "string \<Rightarrow> string \<Rightarrow> string \<Rightarrow> nat \<Rightarrow> nat \<Rightarrow> bool \<Rightarrow> bool \<Rightarrow> bool \<Rightarrow> bool \<Rightarrow>
    telemetry_event" where
  "record_turn_outcome skey prov model requests iterations completed degraded budget exhausted =
     RecordTurnOutcome
       \<lparr>to_session_key = skey, to_provider = prov, to_model = model,
        requests_in_turn = of_nat requests, tool_iterations = of_nat iterations,
        to_completed = completed, to_degraded = degraded, token_budget_exceeded = budget,
        tool_loop_exhausted = exhausted\<rparr>"

definition normalize_audit_payload_provider :: "llm_audit_payload \<Rightarrow> string \<Rightarrow> llm_audit_payload" where
  "normalize_audit_payload_provider p pid = p\<lparr>aud_provider := pid\<rparr>"

section \<open>Attachments\<close>

definition archive_mime_type :: "media_reference \<Rightarrow> string option" where
  "archive_mime_type m = Option.bind (bt_get (media_metadata m) ''archive.mime_type'') as_str"

definition user_media_of :: "media_reference \<Rightarrow> llm_media option" where
  "user_media_of m =
     (case nonempty_trimmed (remote_url m) of
        None \<Rightarrow> None
      | Some url \<Rightarrow>
          (let mime = option_filter (\<lambda>v. trim v \<noteq> []) (or_else (mime_type m) (archive_mime_type m));
               is_image = (case mime of
                   Some v \<Rightarrow> starts_with (to_ascii_lowercase (trim v)) ''image/''
                 | None \<Rightarrow> starts_with (to_ascii_lowercase (trim url)) ''data:image/'')
           in if is_image then Some \<lparr>llm_mime_type = mime, llm_url = url\<rparr> else None))"

definition extract_user_media :: "inbound_message \<Rightarrow> llm_media list" where
  "extract_user_media inb = List.map_filter user_media_of (media_references inb)"

fun source_kind_debug :: "media_source_kind \<Rightarrow> string" where
  "source_kind_debug UserUpload = ''UserUpload''"
| "source_kind_debug ChannelInbound = ''ChannelInbound''"
| "source_kind_debug ModelGenerated = ''ModelGenerated''"

definition attachment_context :: "media_reference \<Rightarrow> json option" where
  "attachment_context m =
     (case get_trimmed_str (media_metadata m) ''archive.id'' of
        None \<Rightarrow> None
      | Some aid \<Rightarrow>
          (let i0 = object_of
                 [(''archive_id'', JString aid), (''access'', JString ''read_only''),
                  (''recommended_workflow'', JString ''copy_to_workspace_before_edit''),
                  (''source_kind'', JString (to_ascii_lowercase (source_kind_debug (source_kind m))))];
               i1 = insert_some_str ''filename'' (nonempty_trimmed (filename m)) i0;
               i2 = insert_some_str ''mime_type''
                      (nonempty_trimmed (or_else (mime_type m) (archive_mime_type m))) i1;
               i3 = insert_some_str ''storage_rel_path''
                      (get_trimmed_str (media_metadata m) ''archive.storage_rel_path'') i2;
               i4 = (case Option.bind (bt_get (media_metadata m) ''archive.size_bytes'') as_i64 of
                       None \<Rightarrow> i3 | Some n \<Rightarrow> bt_insert ''size_bytes'' (json_of_i64 n) i3);
               i5 = insert_some_str ''message_id'' (nonempty_trimmed (media_message_id m)) i4
           in Some (JObject i5)))"

definition current_attachment_contexts :: "media_reference list \<Rightarrow> json list" where
  "current_attachment_contexts ms = List.map_filter attachment_context ms"

definition attachment_header_lines :: "string list" where
  "attachment_header_lines =
     [''Current message attachments:'',
      ''If an attachment below already includes an archive_id, prefer calling the archive tool with action=get and that exact archive_id. Use list_current_attachments only to confirm attachments from the current message, and use list_session_attachments when the user is referring to files from earlier turns in this same session. For audio or voice attachments, use the voice tool with action=stt and the attachment archive_id to transcribe them. If the user wants you to send one of these archived files back into the chat, use the channel_attachment tool with that exact archive_id instead of merely saying that you sent it. Do not pass the numbered list position like `1` or `2` as archive_id; copy the literal archive_id string exactly.'']"

definition attachment_field :: "json_map \<Rightarrow> string \<Rightarrow> string \<Rightarrow> string" where
  "attachment_field item k d = unwrap_or (Option.bind (bt_get item k) as_str) d"

definition attachment_lines :: "nat \<Rightarrow> json \<Rightarrow> string list" where
  "attachment_lines idx v =
     (case as_object v of
        None \<Rightarrow> []
      | Some item \<Rightarrow>
          [show_nat (idx + 1) @ ''. filename='' @ attachment_field item ''filename'' ''unnamed''
             @ ''; archive_id='' @ attachment_field item ''archive_id'' ''unknown''
             @ ''; storage_rel_path='' @ attachment_field item ''storage_rel_path'' ''unknown''
             @ ''; mime_type='' @ attachment_field item ''mime_type'' ''unknown''
             @ ''; size_bytes='' @ unwrap_or (map_option show_int
                  (Option.bind (bt_get item ''size_bytes'') as_i64)) ''unknown''
             @ ''; access=read_only archive; if modification is needed, copy the file into workspace first and edit the copied file there.'',
           ''   When calling channel_attachment for item '' @ show_nat (idx + 1)
             @ '', set archive_id='' @ [CHR 0x22] @ attachment_field item ''archive_id'' ''unknown''
             @ [CHR 0x22] @ '' exactly.''])"

definition augment_user_content_with_attachment_context :: "string \<Rightarrow> json list \<Rightarrow> string" where
  "augment_user_content_with_attachment_context c atts =
     (if atts = [] then c
      else
        (let ls = attachment_header_lines
                @ concat (map (\<lambda>(i, v). attachment_lines i v) (enumerate 0 atts));
             trimmed = trim_end c
         in if length ls = 1 then c
            else if trimmed = [] then join [CHR 0x0A] ls
            else trimmed @ [CHR 0x0A, CHR 0x0A] @ join [CHR 0x0A] ls))"

section \<open>Processing one message\<close>

text \<open>Validation: blank content is refused unless the turn is resumed or carries media.\<close>

definition empty_content_rejected :: "inbound_message \<Rightarrow> bool" where
  "empty_content_rejected inb \<longleftrightarrow>
     trim (in_content inb) = [] \<and>
     \<not> unwrap_or (Option.bind (bt_get (in_metadata inb) ''agent.resume_turn'') as_bool) False \<and>
     media_references inb = []"

definition inbound_events :: "'w provider_runtime_snapshot \<Rightarrow> inbound_message envelope \<Rightarrow>
    telemetry_event list" where
  "inbound_events rt msg =
     (let skey = in_session_key (payload msg);
          pid = unwrap_or (Option.bind (bt_get (in_metadata (payload msg)) (meta_key ProviderIdKey)) as_str)
                  (default_provider_id rt)
      in [IncrCounter ''agent_inbound_consumed_total'' [(''session_key'', skey), (''provider'', pid)] 1,
          EmitAuditEvent ''inbound_received'' (message_id (header msg))
            (JObject (object_of [(''session_key'', JString skey), (''provider'', JString pid)]))])"

definition rejected_event :: "inbound_message envelope \<Rightarrow> telemetry_event" where
  "rejected_event msg =
     EmitAuditEvent ''validation_failed'' (message_id (header msg))
       (JObject (object_of [(''session_key'', JString (in_session_key (payload msg))),
          (''error_code'', JString ''validation_failed''), (''reason'', JString ''empty_content'')]))"

text \<open>An outcome with the audit identity of the message, as every branch builds it.\<close>

definition outcome_of :: "inbound_message envelope \<Rightarrow> outbound_message envelope option \<Rightarrow>
    error_code option \<Rightarrow> agent_run_state \<Rightarrow> llm_audit_payload list \<Rightarrow> agent_tool_audit list \<Rightarrow>
    process_outcome" where
  "outcome_of msg resp code s audits taudits =
     \<lparr>final_response = resp, outcome_error = code, final_state = s, llm_audits = audits,
      outcome_tool_audits = taudits, audit_message_id = Some (message_id (header msg)),
      audit_session_key = Some (in_session_key (payload msg)),
      audit_chat_id = Some (in_chat_id (payload msg))\<rparr>"

definition reply_envelope :: "inbound_message envelope \<Rightarrow> string \<Rightarrow> json_map \<Rightarrow>
    outbound_message envelope" where
  "reply_envelope msg c m =
     \<lparr>header = header msg, env_metadata = [],
      payload = \<lparr>out_channel = in_channel (payload msg), out_chat_id = in_chat_id (payload msg),
                 out_content = c, reply_to = None, out_metadata = m\<rparr>\<rparr>"

definition resolve_provider :: "'w provider_runtime_snapshot \<Rightarrow> json_map \<Rightarrow> string \<times> 'w llm_provider" where
  "resolve_provider rt meta =
     (let requested = unwrap_or (get_trimmed_str meta (meta_key ProviderIdKey)) (default_provider_id rt)
      in case bt_get (provider_registry rt) requested of
           Some p \<Rightarrow> (requested, p)
         | None \<Rightarrow> (default_provider_id rt, default_provider rt))"

definition resolve_model :: "'w provider_runtime_snapshot \<Rightarrow> json_map \<Rightarrow> string" where
  "resolve_model rt meta = unwrap_or (get_trimmed_str meta (meta_key ModelKey)) (default_model rt)"

definition extract_conversation_history :: "'w host \<Rightarrow> json_map \<Rightarrow> conversation_message list" where
  "extract_conversation_history h meta =
     unwrap_or (Option.bind (bt_get meta (meta_key ConversationHistoryKey)) (host_decode_history h)) []"

definition execution_context_for :: "'w agent_loop \<Rightarrow> inbound_message envelope \<Rightarrow> agent_execution_context" where
  "execution_context_for a msg =
     (let meta = in_metadata (payload msg)
      in \<lparr>system_prompt = or_else (get_trimmed_str meta (meta_key SystemPromptKey)) (loop_system_prompt a),
          tool_choice = bt_get meta (meta_key ToolChoiceKey),
          provider_id = Some (fst (resolve_provider (provider_runtime a) meta)),
          resolved_model = Some (resolve_model (provider_runtime a) meta),
          parent_session_key = Some (in_session_key (payload msg)),
          ctx_message_id = Some (message_id (header msg)),
          current_attachments = current_attachment_contexts (media_references (payload msg)),
          tool_metadata = bt_remove (meta_key ConversationHistoryKey) meta\<rparr>)"

definition execution_input_for :: "'w agent_loop \<Rightarrow> 'w host \<Rightarrow> inbound_message envelope \<Rightarrow>
    agent_execution_input" where
  "execution_input_for a h msg =
     \<lparr>user_content = augment_user_content_with_attachment_context (in_content (payload msg))
        (current_attachment_contexts (media_references (payload msg))),
      user_media = extract_user_media (payload msg),
      conversation_history = extract_conversation_history h (in_metadata (payload msg)),
      session_key = in_session_key (payload msg),
      execution_context = execution_context_for a msg\<rparr>"

definition execution_limits_of :: "run_limits \<Rightarrow> agent_execution_limits" where
  "execution_limits_of l =
     \<lparr>max_tool_iterations = run_max_tool_iterations l, max_tool_calls = run_max_tool_calls l,
      token_budget = run_token_budget l\<rparr>"

definition execution_env :: "'w agent_loop \<Rightarrow> 'w host \<Rightarrow> 'w llm_provider \<Rightarrow> 'w agent_env" where
  "execution_env a h prov =
     \<lparr>env_provider = prov, env_tools = registry_executor a h, env_now_ms = host_now_ms h,
      env_json_to_string = host_json_to_string h\<rparr>"

definition provider_wire :: "'w llm_provider \<Rightarrow> string" where
  "provider_wire p = unwrap_or (provider_wire_api p) (provider_name p)"

subsection \<open>The answer of a run that ended well\<close>

definition find_signal :: "string \<Rightarrow> tool_signal list \<Rightarrow> tool_signal option" where
  "find_signal k sigs = List.find (\<lambda>s. sig_kind s = k) sigs"

definition approval_metadata :: "json \<Rightarrow> string \<Rightarrow> json_map \<Rightarrow> json_map" where
  "approval_metadata ap c m =
     (let m1 = bt_insert ''approval.signal'' ap (bt_insert ''approval.required'' (JBool True) m);
          m2 = (if bt_contains m1 (meta_key ImCardKey) then m1
                else (case approval_im_card_metadata ap c of
                        None \<Rightarrow> m1 | Some im_card \<Rightarrow> bt_insert (meta_key ImCardKey) im_card m1))
      in insert_some_str ''approval.id'' (get_json_str ap ''approval_id'') m2)"

definition signal_metadata :: "tool_signal list \<Rightarrow> string \<Rightarrow> json_map \<Rightarrow> json_map" where
  "signal_metadata sigs c m =
     (if sigs = [] then m
      else
        (let m1 = bt_insert ''tool.signals'' (JArray (map signal_to_json sigs)) m;
             m2 = (case find_signal ''im_card'' sigs of
                     None \<Rightarrow> m1 | Some s \<Rightarrow> bt_insert (meta_key ImCardKey) (sig_payload s) m1);
             m3 = (case find_signal ''approval_required'' sigs of
                     None \<Rightarrow> m2 | Some s \<Rightarrow> approval_metadata (sig_payload s) c m2);
             m4 = (case find_signal ''stop'' sigs of
                     None \<Rightarrow> m3
                   | Some s \<Rightarrow> bt_insert ''turn.stop_signal'' (sig_payload s)
                                (bt_insert ''turn.stopped'' (JBool True) m3));
             atts = map sig_payload (filter (\<lambda>s. sig_kind s = ''channel_attachment'') sigs)
         in if atts = [] then m4 else bt_insert ''channel.attachments'' (JArray atts) m4))"

definition usage_record_json :: "string \<Rightarrow> string \<Rightarrow> string \<Rightarrow> agent_request_usage \<Rightarrow> json" where
  "usage_record_json pid model wire r =
     JObject (object_of
       [(''request_seq'', json_of_i64 (usage_request_seq r)),
        (''provider'', JString pid), (''model'', JString model), (''wire_api'', JString wire),
        (''input_tokens'', json_of_u64 (input_tokens (usage r))),
        (''output_tokens'', json_of_u64 (output_tokens (usage r))),
        (''total_tokens'', json_of_u64 (total_tokens (usage r))),
        (''cached_input_tokens'', json_opt json_of_u64 (cached_input_tokens (usage r))),
        (''reasoning_tokens'', json_opt json_of_u64 (reasoning_tokens (usage r))),
        (''source'', JString (usage_source_as_str (usage_source r))),
        (''provider_request_id'', json_opt JString (usage_provider_request_id (usage r))),
        (''provider_response_id'', json_opt JString (usage_provider_response_id (usage r)))])"

definition audit_record_json :: "agent_request_audit \<Rightarrow> json" where
  "audit_record_json r =
     (let p = audit_payload r
      in JObject (object_of
        [(''request_seq'', json_of_i64 (audit_request_seq r)),
         (''provider'', JString (aud_provider p)), (''model'', JString (aud_model p)),
         (''wire_api'', JString (aud_wire_api p)),
         (''status'', JString (audit_status_as_str (aud_status p))),
         (''error_code'', json_opt JString (aud_error_code p)),
         (''error_message'', json_opt JString (aud_error_message p)),
         (''provider_request_id'', json_opt JString (aud_provider_request_id p)),
         (''provider_response_id'', json_opt JString (aud_provider_response_id p)),
         (''request_body'', request_body p),
         (''response_body'', json_opt id (response_body p)),
         (''requested_at_ms'', json_of_i64 (requested_at_ms p)),
         (''responded_at_ms'', json_opt json_of_i64 (responded_at_ms p))]))"

definition normalized_audits :: "string \<Rightarrow> agent_execution_output \<Rightarrow> agent_request_audit list" where
  "normalized_audits pid out =
     map (\<lambda>r. r\<lparr>audit_payload := normalize_audit_payload_provider (audit_payload r) pid\<rparr>)
       (exec_request_audits out)"

definition response_metadata :: "json_map \<Rightarrow> string \<Rightarrow> string \<Rightarrow> string \<Rightarrow> agent_execution_output \<Rightarrow>
    json_map" where
  "response_metadata inbound pid model wire out =
     (let m0 = bt_insert (meta_key DispositionKey)
                 (JString (disposition_metadata_token (disposition out)))
                 (heartbeat_response_metadata inbound);
          m1 = signal_metadata (exec_tool_signals out) (exec_content out) m0;
          m2 = (case option_filter (\<lambda>v. trim v \<noteq> []) (exec_reasoning out) of
                  None \<Rightarrow> m1 | Some r \<Rightarrow> bt_insert ''reasoning'' (JString r) m1);
          m3 = (if exec_request_usages out = [] then m2
                else bt_insert (meta_key LlmUsageRecordsKey)
                  (JArray (map (usage_record_json pid model wire) (exec_request_usages out))) m2)
      in if exec_request_audits out = [] then m3
         else bt_insert (meta_key LlmAuditRecordsKey)
           (JArray (map audit_record_json (normalized_audits pid out))) m3)"

definition success_events :: "inbound_message envelope \<Rightarrow> string \<Rightarrow> string \<Rightarrow> string \<Rightarrow>
    agent_execution_output \<Rightarrow> (duration \<Rightarrow> telemetry_event) list" where
  "success_events msg pid model wire out =
     (let skey = in_session_key (payload msg);
          audits = normalized_audits pid out;
          iters = length (filter (\<lambda>r. case Option.bind (response_body (audit_payload r)) extract_tool_call_count of
                    None \<Rightarrow> False | Some n \<Rightarrow> 0 < n) audits)
      in map (\<lambda>e _. e)
           (record_model_requests skey pid model wire audits (exec_request_usages out) None)
       @ [\<lambda>_. record_turn_outcome skey pid model
                (max (length audits) (length (exec_request_usages out))) iters True False False False,
          \<lambda>_. IncrCounter ''agent_outbound_published_total''
                [(''session_key'', skey), (''provider'', pid)] 1,
          ObserveHistogram ''agent_run_duration_ms'' [(''session_key'', skey), (''stage'', ''process'')],
          \<lambda>_. EmitAuditEvent ''final_response_published'' (message_id (header msg))
                (JObject (object_of [(''session_key'', JString skey), (''provider'', JString pid)]))])"

definition success_outcome :: "inbound_message envelope \<Rightarrow> agent_run_state \<Rightarrow> string \<Rightarrow> string \<Rightarrow> string \<Rightarrow>
    agent_execution_output \<Rightarrow> process_outcome" where
  "success_outcome msg s pid model wire out =
     outcome_of msg
       (Some (reply_envelope msg (exec_content out)
          (response_metadata (in_metadata (payload msg)) pid model wire out)))
       None (transition s Published) (map audit_payload (normalized_audits pid out))
       (exec_tool_audits out)"

subsection \<open>The failures of a run\<close>

definition provider_failure_audits :: "string \<Rightarrow> llm_error \<Rightarrow> llm_audit_payload list" where
  "provider_failure_audits pid err =
     (case error_audit err of None \<Rightarrow> [] | Some p \<Rightarrow> [normalize_audit_payload_provider p pid])"

definition provider_failure_events :: "inbound_message envelope \<Rightarrow> string \<Rightarrow> string \<Rightarrow> string \<Rightarrow>
    llm_error \<Rightarrow> telemetry_event list" where
  "provider_failure_events msg pid model wire err =
     (let skey = in_session_key (payload msg);
          audits = map (\<lambda>(i, p). \<lparr>audit_request_seq = int i + 1, audit_payload = p\<rparr>)
                     (enumerate 0 (provider_failure_audits pid err))
      in record_model_requests skey pid model wire audits []
           (Some (error_code_label (map_llm_error_to_code err)))
       @ [record_turn_outcome skey pid model (length audits) 0 False True False False,
          IncrCounter ''agent_tool_failure_total''
            [(''session_key'', skey), (''tool_name'', ''provider''), (''error_code'', ''provider_error'')] 1,
          EmitAuditEvent ''tool_failed'' (message_id (header msg))
            (JObject (object_of [(''session_key'', JString skey),
               (''error_code'', JString ''provider_error''),
               (''error'', JString (llm_error_to_string err))]))])"

definition exhausted_content :: "u32 \<Rightarrow> string" where
  "exhausted_content n =
     ''I've reached the maximum number of tool call iterations ('' @ show_nat (unat n)
     @ ''). This usually happens when a task requires more steps than the configured limit. You may try:''
     @ [CHR 0x0A] @ ''- Breaking down the task into smaller parts''
     @ [CHR 0x0A] @ ''- Asking me to continue from where I left off''
     @ [CHR 0x0A] @ ''- Adjusting the iteration limit if you have administrative access''"

definition exhausted_events :: "inbound_message envelope \<Rightarrow> string \<Rightarrow> string \<Rightarrow> u32 \<Rightarrow> telemetry_event list" where
  "exhausted_events msg pid model n =
     (let skey = in_session_key (payload msg)
      in [record_turn_outcome skey pid model 0 (unat n) False True False True,
          IncrCounter ''agent_tool_failure_total''
            [(''session_key'', skey), (''tool_name'', ''tool_loop''), (''error_code'', ''retry_exhausted'')] 1])"

definition exhausted_outcome :: "inbound_message envelope \<Rightarrow> u32 \<Rightarrow> process_outcome" where
  "exhausted_outcome msg n =
     outcome_of msg
       (Some (reply_envelope msg (exhausted_content n)
          (bt_insert (meta_key DispositionKey) (JString ''exhausted'')
             (heartbeat_response_metadata (in_metadata (payload msg))))))
       (Some RetryExhausted) Failed [] []"

definition budget_events :: "inbound_message envelope \<Rightarrow> string \<Rightarrow> string \<Rightarrow> telemetry_event list" where
  "budget_events msg pid model =
     (let skey = in_session_key (payload msg)
      in [record_turn_outcome skey pid model 0 0 False False True False,
          IncrCounter ''agent_tool_failure_total''
            [(''session_key'', skey), (''tool_name'', ''budget''), (''error_code'', ''budget_exceeded'')] 1])"

subsection \<open>\<^verbatim>\<open>process_message_inner\<close>\<close>

text \<open>The run states that lead to the execution of the tool loop, and the one after it.\<close>

definition state_after_execution :: agent_run_state where
  "state_after_execution =
     fold (\<lambda>e s. transition s e)
       [StartValidation, ValidationPassed, ContextPrepared, ExecutionStarted, ExecutionFinished] Received"

definition finish_message :: "'w agent_loop \<Rightarrow> 'w host \<Rightarrow> nat \<Rightarrow> inbound_message envelope \<Rightarrow>
    (agent_execution_error + agent_execution_output) \<Rightarrow> 'w \<Rightarrow> process_outcome \<times> 'w" where
  "finish_message a h start msg r w =
     (let (pid, prov) = resolve_provider (provider_runtime a) (in_metadata (payload msg));
          model = resolve_model (provider_runtime a) (in_metadata (payload msg));
          n = run_max_tool_iterations (limits a)
      in case r of
           Inr out \<Rightarrow>
             (success_outcome msg state_after_execution pid model (provider_wire prov) out,
              emit_timed h (telemetry a) start (success_events msg pid model (provider_wire prov) out) w)
         | Inl (Provider err) \<Rightarrow>
             (outcome_of msg None (Some (map_llm_error_to_code err)) Degraded
                (provider_failure_audits pid err) [],
              emit (telemetry a) (provider_failure_events msg pid model (provider_wire prov) err) w)
         | Inl ToolLoopExhausted \<Rightarrow>
             (exhausted_outcome msg n, emit (telemetry a) (exhausted_events msg pid model n) w)
         | Inl (TokenBudgetExceeded used budget) \<Rightarrow>
             (outcome_of msg None (Some BudgetExceeded) Failed [] [],
              emit (telemetry a) (budget_events msg pid model) w))"

text \<open>The result is the outcome, what was sent to the stream, and the world; \<open>None\<close> when the
  tool loop never returns.\<close>

definition process_message_inner :: "'w agent_loop \<Rightarrow> 'w host \<Rightarrow> inbound_message envelope \<Rightarrow> bool \<Rightarrow> 'w \<Rightarrow>
    (process_outcome \<times> agent_execution_stream_event list \<times> 'w) option" where
  "process_message_inner a h msg streaming w =
     (let start = host_instant h w;
          w1 = emit (telemetry a) (inbound_events (provider_runtime a) msg) w
      in if empty_content_rejected (payload msg)
         then Some (outcome_of msg None (Some ValidationFailed) Failed [] [], [],
                    emit (telemetry a) [rejected_event msg] w1)
         else
           (let prov = snd (resolve_provider (provider_runtime a) (in_metadata (payload msg)))
            in case run_agent_execution (execution_env a h prov) (execution_input_for a h msg)
                      (execution_limits_of (limits a)) streaming w1 of
                 None \<Rightarrow> None
               | Some (r, st) \<Rightarrow>
                   (let (outcome, w2) = finish_message a h start msg r (world st)
                    in Some (outcome, stream_log st, w2))))"

definition process_message :: "'w agent_loop \<Rightarrow> 'w host \<Rightarrow> inbound_message envelope \<Rightarrow> 'w \<Rightarrow>
    (process_outcome \<times> 'w) option" where
  "process_message a h msg w =
     map_option (\<lambda>(outcome, _, w'). (outcome, w')) (process_message_inner a h msg False w)"

definition process_message_streaming :: "'w agent_loop \<Rightarrow> 'w host \<Rightarrow> inbound_message envelope \<Rightarrow> 'w \<Rightarrow>
    (process_outcome \<times> agent_execution_stream_event list \<times> 'w) option" where
  "process_message_streaming a h msg w = process_message_inner a h msg True w"

end
