(* ===== verification/Message_Processing.thy ===== *)
theory Message_Processing
  imports Agent_Loop Agent_Turn
begin

text \<open>
  What \<^verbatim>\<open>process_message\<close> guarantees: the run-state machine completes only along its documented
  path, every outcome is of one of six kinds, blank messages never reach the provider, a reply
  carries no inbound metadata beyond the keys meant to pass through, and an approval request of
  a tool is always visible in the reply.
\<close>

section \<open>The run-state machine\<close>

text \<open>What is still to happen before a run in a given state is completed.\<close>

fun completion_path :: "agent_run_state \<Rightarrow> state_transition_event list" where
  "completion_path Received =
     [StartValidation, ValidationPassed, ContextPrepared, ExecutionFinished, Published]"
| "completion_path Validating = [ValidationPassed, ContextPrepared, ExecutionFinished, Published]"
| "completion_path PreparingContext = [ContextPrepared, ExecutionFinished, Published]"
| "completion_path Executing = [ExecutionFinished, Published]"
| "completion_path Publishing = [Published]"
| "completion_path _ = []"

definition transitions :: "agent_run_state \<Rightarrow> state_transition_event list \<Rightarrow> agent_run_state" where
  "transitions s es = fold (\<lambda>e s. transition s e) es s"

lemma transitions_simps [simp]:
  "transitions s [] = s"
  "transitions s (e # es) = transitions (transition s e) es"
  by (simp_all add: transitions_def)

lemma transition_failed: "s = Degraded \<or> s = Failed \<Longrightarrow> transition s e = Degraded \<or> transition s e = Failed"
  by (cases s; cases e) simp_all

lemma transitions_failed: "s = Degraded \<or> s = Failed \<Longrightarrow> transitions s es = Degraded \<or> transitions s es = Failed"
proof (induction es arbitrary: s)
  case (Cons e es)
  then show ?case using Cons.IH [OF transition_failed [OF Cons.prems]] by simp
qed simp

lemma completion_path_step:
  "s \<noteq> Degraded \<Longrightarrow> s \<noteq> Failed \<Longrightarrow> transition s e = t \<Longrightarrow> t \<noteq> Degraded \<Longrightarrow> t \<noteq> Failed \<Longrightarrow>
   e \<noteq> RecoverableError \<and> e \<noteq> FatalError \<and>
   (completion_path s = completion_path t \<or> completion_path s = e # completion_path t)"
  by (cases s; cases e) auto

lemma transitions_completed:
  "transitions s es = Completed \<Longrightarrow>
   subseq (completion_path s) es \<and> RecoverableError \<notin> set es \<and> FatalError \<notin> set es"
proof (induction es arbitrary: s)
  case Nil
  then show ?case by simp
next
  case (Cons e es)
  let ?t = "transition s e"
  have t: "transitions ?t es = Completed" using Cons.prems by simp
  then have alive: "?t \<noteq> Degraded" "?t \<noteq> Failed"
    using transitions_failed [of ?t es] by auto
  then have "s \<noteq> Degraded" "s \<noteq> Failed" using transition_failed [of s e] by auto
  from completion_path_step [OF this refl alive] Cons.IH [OF t]
  show ?case by (auto intro: list_emb_Cons)
qed

text \<open>A run is completed only along the documented path: any sequence of events that takes a
  received message to \<^verbatim>\<open>Completed\<close> contains, in this order, the start of validation, its
  success, the prepared context, the finished execution and the publication, and contains no
  recoverable or fatal error; and the events \<^verbatim>\<open>process_message\<close> itself issues do complete it.\<close>

theorem completed_only_by_path:
  assumes "fold (\<lambda>e s. transition s e) es Received = Completed"
  shows "subseq [StartValidation, ValidationPassed, ContextPrepared, ExecutionFinished, Published] es \<and>
    RecoverableError \<notin> set es \<and> FatalError \<notin> set es \<and>
    transition state_after_execution Published = Completed"
  using transitions_completed [of Received es] assms
  by (simp add: transitions_def state_after_execution_def)

theorem completed_only_by_path_witness:
  "subseq [StartValidation, ValidationPassed, ContextPrepared, ExecutionFinished, Published]
     [StartValidation, ValidationPassed, ContextPrepared, ExecutionStarted, ExecutionFinished, Published]"
  using completed_only_by_path
    [of "[StartValidation, ValidationPassed, ContextPrepared, ExecutionStarted, ExecutionFinished, Published]"]
  by simp

section \<open>A scripted runtime\<close>

text \<open>The runtime of the witnesses: the scripted provider of \<open>Agent_Turn\<close>, a registry with a tool
  that succeeds and one that asks for approval, and no telemetry.\<close>

definition echo_tool :: "script tool" where
  "echo_tool = \<lparr>tool_name = ''echo'', tool_description = ''echo'', tool_parameters = JNull,
     tool_execute = (\<lambda>args ctx w. (Ok \<lparr>output_for_model = ''tool-result'', output_for_user = None,
       output_media = [], output_signals = []\<rparr>, w))\<rparr>"

definition ask_tool :: "script tool" where
  "ask_tool = \<lparr>tool_name = ''ask'', tool_description = ''ask'', tool_parameters = JNull,
     tool_execute = (\<lambda>args ctx w. (Err (StructuredExecutionFailed ''needs approval'' ''approval_required''
       None False [approval_required_signal ''a1'' ''shell'' (ctx_session_key ctx) None None]), w))\<rparr>"

definition sample_limits :: run_limits where
  "sample_limits = \<lparr>run_max_tool_iterations = 3, run_max_tool_calls = 2, run_token_budget = 100,
     agent_timeout = 1000, tool_timeout = 1000\<rparr>"

definition sample_loop :: "script agent_loop" where
  "sample_loop = new_agent_loop sample_limits
     \<lparr>strategy = CollectStrategy, max_queue_depth = 8, policy_lock_ttl = 1000\<rparr>
     (env_provider script_env)
     (\<lambda>_. register_shared echo_tool (register_shared ask_tool []))"

definition sample_host :: "script host" where
  "sample_host = \<lparr>host_now_ms = (\<lambda>(rs, t). (t, (rs, t + 1))), host_json_to_string = (\<lambda>_. None),
     host_instant = (\<lambda>(rs, t). nat t), host_new_uuid = (\<lambda>w. (''u'', w)),
     host_decode_history = (\<lambda>_. None)\<rparr>"

definition sample_inbound :: "string \<Rightarrow> inbound_message envelope" where
  "sample_inbound c =
     \<lparr>header = new_header ''m1'' ''t1'' 0 ''s1'', env_metadata = [],
      payload = \<lparr>in_channel = ''cli'', sender_id = ''u'', in_chat_id = ''c1'', in_session_key = ''s1'',
        in_content = c, media_references = [],
        in_metadata = object_of [(''channel.lang'', JString ''en''), (''agent.secret'', JString ''x'')]\<rparr>\<rparr>"

lemma sample_loop_fields [simp]:
  "limits sample_loop = sample_limits"
  "telemetry sample_loop = None"
  "loop_system_prompt sample_loop = None"
  "tools sample_loop w = [(''ask'', ask_tool), (''echo'', echo_tool)]"
  "resolve_provider (provider_runtime sample_loop) (in_metadata (payload (sample_inbound c))) =
     (''default'', env_provider script_env)"
  by (simp_all add: sample_loop_def new_agent_loop_def register_shared_def echo_tool_def ask_tool_def
      resolve_provider_def sample_inbound_def get_trimmed_str_def object_of_def bt_extend_def bt_get_def Let_def)

lemma augment_no_attachments [simp]:
  "augment_user_content_with_attachment_context c [] = c"
  "current_attachment_contexts [] = []"
  by (simp_all add: augment_user_content_with_attachment_context_def current_attachment_contexts_def)

lemma sample_inbound_fields [simp]:
  "in_content (payload (sample_inbound c)) = c"
  "media_references (payload (sample_inbound c)) = []"
  "extract_user_media (payload (sample_inbound c)) = []"
  "in_session_key (payload (sample_inbound c)) = ''s1''"
  "bt_get (in_metadata (payload (sample_inbound c))) ''agent.resume_turn'' = None"
  by (simp_all add: sample_inbound_def extract_user_media_def object_of_def bt_extend_def bt_get_def)

lemma sample_env_fields [simp]:
  "chat_stream (env_provider (execution_env a h (env_provider script_env))) = script_chat"
  "executor_execute (env_tools (execution_env a h p)) = registry_execute a h"
  "env_now_ms (execution_env a sample_host p) (rs, t) = (t, (rs, t + 1))"
  by (simp_all add: execution_env_def script_env_def registry_executor_def sample_host_def)

lemmas runtime_eval = step_eval script_chat_def reply_def call_of_def sample_limits_def echo_tool_def ask_tool_def registry_get_def
  registry_execute_def tool_failure_result_def execution_limits_of_def execution_input_for_def
  bt_get_def Agent_Execution.agent_loop.simps finish_def word_less_nat_alt word_le_nat_alt unat_sat_add
  messages_for_request_def should_warn_final_iteration_def short_circuit_output_def
  process_message_inner_def empty_content_rejected_def trim_empty_iff is_whitespace_def

section \<open>The outcome of a message\<close>

lemma state_after_execution [simp]: "state_after_execution = Publishing"
  by (simp add: state_after_execution_def)

lemma process_message_inner_cases:
  assumes "process_message_inner a h msg streaming w = Some (outcome, evs, w')"
  obtains (rejected) "empty_content_rejected (payload msg)"
      "outcome = outcome_of msg None (Some ValidationFailed) Failed [] []" "evs = []"
      "w' = emit (telemetry a) (inbound_events (provider_runtime a) msg @ [rejected_event msg]) w"
  | (ran) r st where "\<not> empty_content_rejected (payload msg)"
      "run_agent_execution
         (execution_env a h (snd (resolve_provider (provider_runtime a) (in_metadata (payload msg)))))
         (execution_input_for a h msg) (execution_limits_of (limits a)) streaming
         (emit (telemetry a) (inbound_events (provider_runtime a) msg) w) = Some (r, st)"
      "(outcome, w') = finish_message a h (host_instant h w) msg r (world st)" "evs = stream_log st"
proof (cases "empty_content_rejected (payload msg)")
  case True
  then show ?thesis using assms rejected
    by (auto simp: process_message_inner_def Let_def emit_def split: option.splits)
next
  case False
  then show ?thesis using assms ran
    by (auto simp: process_message_inner_def Let_def split: option.splits prod.splits)
qed

lemma finish_message_outcome:
  assumes "(outcome, w') = finish_message a h start msg r w"
    and "resolve_provider (provider_runtime a) (in_metadata (payload msg)) = (pid, prov)"
    and "resolve_model (provider_runtime a) (in_metadata (payload msg)) = model"
  shows "outcome = (case r of
      Inr out \<Rightarrow> success_outcome msg state_after_execution pid model (provider_wire prov) out
    | Inl (Provider err) \<Rightarrow> outcome_of msg None (Some (map_llm_error_to_code err)) Degraded
        (provider_failure_audits pid err) []
    | Inl ToolLoopExhausted \<Rightarrow> exhausted_outcome msg (run_max_tool_iterations (limits a))
    | Inl (TokenBudgetExceeded used budget) \<Rightarrow> outcome_of msg None (Some BudgetExceeded) Failed [] [])"
  using assms
  by (cases r) (auto simp: finish_message_def Let_def split: agent_execution_error.splits)

lemma map_llm_error_to_code_cases:
  "map_llm_error_to_code e = ProviderUnavailable \<or> map_llm_error_to_code e = ProviderResponseInvalid"
  by (cases e) simp_all

lemma map_llm_error_to_code_not_validation [simp]: "map_llm_error_to_code e \<noteq> ValidationFailed"
  by (cases e) simp_all

text \<open>The kinds of outcome, each with its run state and whether it carries a reply.\<close>

definition outcome_shape :: "inbound_message envelope \<Rightarrow> process_outcome \<Rightarrow> bool" where
  "outcome_shape msg o' \<longleftrightarrow>
     (case outcome_error o' of
        None \<Rightarrow> final_state o' = Completed \<and> final_response o' \<noteq> None
      | Some c \<Rightarrow>
          (c = RetryExhausted \<and> final_state o' = Failed \<and> final_response o' \<noteq> None) \<or>
          ((c = ValidationFailed \<or> c = BudgetExceeded) \<and> final_state o' = Failed \<and> final_response o' = None) \<or>
          ((c = ProviderUnavailable \<or> c = ProviderResponseInvalid) \<and> final_state o' = Degraded \<and>
             final_response o' = None)) \<and>
     audit_message_id o' = Some (message_id (header msg)) \<and>
     audit_session_key o' = Some (in_session_key (payload msg)) \<and>
     audit_chat_id o' = Some (in_chat_id (payload msg))"

lemma finish_message_shape:
  assumes "(outcome, w') = finish_message a h start msg r w"
  shows "outcome_shape msg outcome \<and> outcome_error outcome \<noteq> Some ValidationFailed \<and>
    (\<forall>p \<in> set (llm_audits outcome).
       aud_provider p = fst (resolve_provider (provider_runtime a) (in_metadata (payload msg))))"
proof -
  obtain pid prov where pp: "resolve_provider (provider_runtime a) (in_metadata (payload msg)) = (pid, prov)"
    by fastforce
  note outcome = finish_message_outcome [OF assms pp refl]
  show ?thesis
  proof (cases r)
    case (Inl e)
    then show ?thesis unfolding outcome pp using map_llm_error_to_code_cases
      by (cases e) (auto simp: outcome_shape_def outcome_of_def exhausted_outcome_def
          provider_failure_audits_def normalize_audit_payload_provider_def split: option.splits)
  next
    case (Inr out)
    then show ?thesis unfolding outcome pp
      by (auto simp: outcome_shape_def outcome_of_def success_outcome_def normalized_audits_def
          normalize_audit_payload_provider_def)
  qed
qed

text \<open>Every message that is processed ends in exactly one of these ways: completed with a
  reply and no error; failed with \<^verbatim>\<open>RetryExhausted\<close> and a reply that explains it; failed
  without a reply for a blank message or an exceeded token budget; degraded without a reply
  when the provider failed. The outcome always names the message, session and chat it is
  about, a validation error occurs exactly for blank messages, and every request audit is
  attributed to the provider that was resolved for the message.\<close>

theorem outcome_classified:
  assumes "process_message_inner a h msg streaming w = Some (outcome, evs, w')"
  shows "outcome_shape msg outcome \<and>
    (outcome_error outcome = Some ValidationFailed \<longleftrightarrow> empty_content_rejected (payload msg)) \<and>
    (\<forall>p \<in> set (llm_audits outcome).
       aud_provider p = fst (resolve_provider (provider_runtime a) (in_metadata (payload msg))))"
  using assms
proof (cases rule: process_message_inner_cases)
  case rejected
  then show ?thesis by (simp add: outcome_shape_def outcome_of_def)
next
  case (ran r st)
  then show ?thesis using finish_message_shape [OF ran(3)] by auto
qed

lemma sample_run_two:
  "\<exists>outcome evs w'. process_message_inner sample_loop sample_host (sample_inbound ''hi'') False script_two
     = Some (outcome, evs, w') \<and> outcome_error outcome = None \<and> final_response outcome \<noteq> None"
  by (simp add: runtime_eval script_two_def finish_message_def success_outcome_def outcome_of_def)

theorem outcome_classified_witness:
  "\<exists>outcome evs w'. process_message_inner sample_loop sample_host (sample_inbound ''hi'') False script_two
     = Some (outcome, evs, w') \<and> outcome_shape (sample_inbound ''hi'') outcome \<and>
       final_state outcome = Completed"
proof -
  obtain outcome evs w' where run: "process_message_inner sample_loop sample_host (sample_inbound ''hi'')
      False script_two = Some (outcome, evs, w')" "outcome_error outcome = None"
    using sample_run_two by blast
  from outcome_classified [OF run(1)] run show ?thesis by (auto simp: outcome_shape_def)
qed

text \<open>A blank message without media that does not resume a turn is answered with
  \<^verbatim>\<open>ValidationFailed\<close> at once: the provider and the tools are not consulted, nothing is
  streamed, and the world changes by three telemetry events only (by nothing at all without
  telemetry).\<close>

theorem blank_message_rejected:
  assumes "trim (in_content (payload msg)) = []" and "media_references (payload msg) = []"
    and "bt_get (in_metadata (payload msg)) ''agent.resume_turn'' \<noteq> Some (JBool True)"
  shows "process_message_inner a h msg streaming w =
    Some (outcome_of msg None (Some ValidationFailed) Failed [] [], [],
          emit (telemetry a) (inbound_events (provider_runtime a) msg @ [rejected_event msg]) w) \<and>
    length (inbound_events (provider_runtime a) msg @ [rejected_event msg]) = 3"
  using assms
  by (simp add: process_message_inner_def empty_content_rejected_def flag_set_iff Let_def emit_def
      inbound_events_def split: option.split)

theorem blank_message_rejected_witness:
  "process_message_inner sample_loop sample_host (sample_inbound '' '') True script_two =
     Some (outcome_of (sample_inbound '' '') None (Some ValidationFailed) Failed [] [], [], script_two)"
  using blank_message_rejected [of "sample_inbound '' ''" sample_loop sample_host True script_two]
  by (simp add: trim_empty_iff is_whitespace_def)

lemma message_returns:
  assumes "0 < run_max_tool_iterations (limits a) \<or> call_limit_set (execution_limits_of (limits a))"
  shows "\<exists>outcome evs w'. process_message_inner a h msg streaming w = Some (outcome, evs, w')"
proof (cases "empty_content_rejected (payload msg)")
  case True
  then show ?thesis by (simp add: process_message_inner_def Let_def)
next
  case False
  let ?prov = "snd (resolve_provider (provider_runtime a) (in_metadata (payload msg)))"
  let ?w = "emit (telemetry a) (inbound_events (provider_runtime a) msg) w"
  have "0 < max_tool_iterations (execution_limits_of (limits a)) \<or> call_limit_set (execution_limits_of (limits a))"
    using assms by (simp add: execution_limits_of_def)
  then obtain r st where "run_agent_execution (execution_env a h ?prov) (execution_input_for a h msg)
      (execution_limits_of (limits a)) streaming ?w = Some (r, st)"
    using run_returns [of "execution_limits_of (limits a)" "execution_env a h ?prov"] by fastforce
  with False show ?thesis by (simp add: process_message_inner_def Let_def split: prod.split)
qed

text \<open>Processing a message returns whenever the loop is configured with an iteration limit,
  or with a tool-call limit below the maximum of its counter.\<close>

theorem process_message_returns:
  assumes "0 < run_max_tool_iterations (limits a) \<or> call_limit_set (execution_limits_of (limits a))"
  shows "\<exists>outcome evs w'. process_message_inner a h msg streaming w = Some (outcome, evs, w')"
  using assms by (rule message_returns)

theorem process_message_returns_witness:
  "\<exists>outcome evs w'. process_message_inner sample_loop sample_host (sample_inbound ''hi'') False ([], 7)
     = Some (outcome, evs, w')"
  by (rule process_message_returns) (simp add: sample_limits_def)

section \<open>The metadata of a reply\<close>

definition passes_through :: "string \<Rightarrow> bool" where
  "passes_through k \<longleftrightarrow>
     k = ''trigger.kind'' \<or> starts_with k ''heartbeat.'' \<or> starts_with k ''channel.''"

text \<open>The keys that the loop itself writes.\<close>

definition reply_keys :: "string list" where
  "reply_keys = [''agent.disposition'', ''tool.signals'', ''im.card'', ''approval.required'',
     ''approval.signal'', ''approval.id'', ''turn.stopped'', ''turn.stop_signal'',
     ''channel.attachments'', ''reasoning'', ''llm.usage.records'', ''llm.audit.records'']"

lemma heartbeat_response_metadata_eq:
  "heartbeat_response_metadata m = bt_extend [] (filter (\<lambda>e. passes_through (fst e)) m)"
proof -
  have "fold (\<lambda>(k, v) r. if passes_through k then bt_insert k v r else r) m acc =
      bt_extend acc (filter (\<lambda>e. passes_through (fst e)) m)" for acc
    by (induction m arbitrary: acc) (auto simp: bt_extend_def)
  then show ?thesis by (simp add: heartbeat_response_metadata_def passes_through_def)
qed

lemma bt_get_heartbeat_response_metadata:
  assumes "sorted_map m"
  shows "bt_get (heartbeat_response_metadata m) k = (if passes_through k then bt_get m k else None)"
proof -
  have "distinct (map fst (filter (\<lambda>e. passes_through (fst e)) m))"
    using sorted_map_distinct [OF assms] by (simp add: distinct_map_filter)
  then show ?thesis unfolding heartbeat_response_metadata_eq
    by (simp add: bt_get_extend bt_get_filter split: option.split)
qed

lemma bt_get_insert_some_str [simp]:
  "bt_get (insert_some_str k v m) k' =
     (case v of Some s \<Rightarrow> if k' = k then Some (JString s) else bt_get m k' | None \<Rightarrow> bt_get m k')"
  by (simp add: insert_some_str_def split: option.split)

lemma signal_metadata_other:
  assumes "k \<notin> set reply_keys"
  shows "bt_get (signal_metadata sigs c m) k = bt_get m k"
  using assms
  by (auto simp: signal_metadata_def approval_metadata_def reply_keys_def Let_def split: option.splits)

lemma response_metadata_other:
  assumes "k \<notin> set reply_keys"
  shows "bt_get (response_metadata inb pid model wire out) k = bt_get (heartbeat_response_metadata inb) k"
  using assms signal_metadata_other [OF assms]
  by (simp add: response_metadata_def reply_keys_def Let_def split: option.splits)

text \<open>A reply answers on the channel and chat of its message, under the same header, and no
  other inbound metadata leaks into it: apart from the twelve keys the loop writes itself, an
  entry of the reply's metadata is the inbound entry of that key when the key is
  \<^verbatim>\<open>trigger.kind\<close> or starts with \<^verbatim>\<open>heartbeat.\<close> or \<^verbatim>\<open>channel.\<close>, and is absent
  otherwise.\<close>

theorem reply_metadata_passthrough:
  assumes "process_message_inner a h msg streaming w = Some (outcome, evs, w')"
    and "final_response outcome = Some env" and "sorted_map (in_metadata (payload msg))"
    and "k \<notin> set reply_keys"
  shows "header env = header msg \<and> out_channel (payload env) = in_channel (payload msg) \<and>
    out_chat_id (payload env) = in_chat_id (payload msg) \<and>
    bt_get (out_metadata (payload env)) k =
      (if passes_through k then bt_get (in_metadata (payload msg)) k else None)"
  using assms(1)
proof (cases rule: process_message_inner_cases)
  case rejected
  then show ?thesis using assms(2) by (simp add: outcome_of_def)
next
  case (ran r st)
  obtain pid prov where pp: "resolve_provider (provider_runtime a) (in_metadata (payload msg)) = (pid, prov)"
    by fastforce
  note outcome = finish_message_outcome [OF ran(3) pp refl]
  show ?thesis
  proof (cases r)
    case (Inl e)
    then show ?thesis using assms(2,4) bt_get_heartbeat_response_metadata [OF assms(3)]
      by (auto simp: outcome outcome_of_def exhausted_outcome_def reply_envelope_def reply_keys_def
          split: agent_execution_error.splits)
  next
    case (Inr out)
    then show ?thesis
      using assms(2) response_metadata_other [OF assms(4)] bt_get_heartbeat_response_metadata [OF assms(3)]
      by (auto simp: outcome outcome_of_def success_outcome_def reply_envelope_def)
  qed
qed

theorem reply_metadata_passthrough_witness:
  "\<exists>outcome evs w' env. process_message_inner sample_loop sample_host (sample_inbound ''hi'') False script_two
     = Some (outcome, evs, w') \<and> final_response outcome = Some env \<and>
     bt_get (out_metadata (payload env)) ''channel.lang'' = Some (JString ''en'') \<and>
     bt_get (out_metadata (payload env)) ''agent.secret'' = None"
proof -
  obtain outcome evs w' env where run: "process_message_inner sample_loop sample_host (sample_inbound ''hi'')
      False script_two = Some (outcome, evs, w')" "final_response outcome = Some env"
    using sample_run_two by blast
  have meta: "sorted_map (in_metadata (payload (sample_inbound ''hi'')))"
    by (simp add: sample_inbound_def)
  note facts = reply_metadata_passthrough [OF run meta, of "''channel.lang''"]
    reply_metadata_passthrough [OF run meta, of "''agent.secret''"]
  from facts run show ?thesis
    by (auto simp: reply_keys_def passes_through_def starts_with_def sample_inbound_def object_of_def
        bt_extend_def bt_get_def)
qed

section \<open>Approval requests\<close>

lemma heartbeat_response_metadata_blocked:
  assumes "\<not> passes_through k"
  shows "bt_get (heartbeat_response_metadata m) k = None"
  using assms unfolding heartbeat_response_metadata_eq
  by (subst bt_get_extend_not_in) auto

lemma has_signal_iff_find: "has_signal k sigs \<longleftrightarrow> find_signal k sigs \<noteq> None"
  by (auto simp: has_signal_def find_signal_def find_None_iff list_ex_iff)

lemma approval_keys_blocked [simp]:
  "\<not> passes_through ''approval.required''" "\<not> passes_through ''approval.signal''"
  "\<not> passes_through ''approval.id''" 
  by (simp_all add: passes_through_def starts_with_def)

lemma signal_metadata_approval:
  assumes "find_signal ''approval_required'' sigs = Some s"
  shows "bt_get (signal_metadata sigs c m) ''approval.required'' = Some (JBool True)"
    and "bt_get (signal_metadata sigs c m) ''approval.signal'' = Some (sig_payload s)"
    and "get_json_str (sig_payload s) ''approval_id'' = Some i \<Longrightarrow>
      bt_get (signal_metadata sigs c m) ''approval.id'' = Some (JString i) \<and>
      bt_contains (signal_metadata sigs c m) ''im.card''"
proof -
  have ne: "sigs \<noteq> []" using assms by (auto simp: find_signal_def)
  show "bt_get (signal_metadata sigs c m) ''approval.required'' = Some (JBool True)"
    "bt_get (signal_metadata sigs c m) ''approval.signal'' = Some (sig_payload s)"
    using assms ne by (simp_all add: signal_metadata_def approval_metadata_def Let_def split: option.split)
  assume "get_json_str (sig_payload s) ''approval_id'' = Some i"
  moreover from this have "\<exists>im. approval_im_card_metadata (sig_payload s) c = Some im"
    by (simp add: approval_im_card_metadata_def Let_def)
  ultimately show "bt_get (signal_metadata sigs c m) ''approval.id'' = Some (JString i) \<and>
      bt_contains (signal_metadata sigs c m) ''im.card''"
    using assms ne
    by (auto simp: signal_metadata_def approval_metadata_def bt_contains_def Let_def split: option.split)
qed

lemma signal_metadata_no_approval:
  assumes "find_signal ''approval_required'' sigs = None"
  shows "bt_get (signal_metadata sigs c m) ''approval.required'' = bt_get m ''approval.required''"
  using assms by (simp add: signal_metadata_def Let_def split: option.split)

lemma response_metadata_get:
  assumes "k \<notin> {''reasoning'', ''llm.usage.records'', ''llm.audit.records''}"
  shows "bt_get (response_metadata inb pid model wire out) k =
    bt_get (signal_metadata (exec_tool_signals out) (exec_content out)
      (bt_insert ''agent.disposition'' (JString (disposition_metadata_token (disposition out)))
        (heartbeat_response_metadata inb))) k"
  using assms by (simp add: response_metadata_def Let_def split: option.split)

lemma signal_metadata_disposition:
  "bt_get (signal_metadata sigs c m) ''agent.disposition'' = bt_get m ''agent.disposition''"
  by (simp add: signal_metadata_def approval_metadata_def Let_def split: option.split)

definition approval_reported :: "json \<Rightarrow> json_map \<Rightarrow> bool" where
  "approval_reported ap m \<longleftrightarrow>
     bt_get m ''agent.disposition'' = Some (JString ''approval_required'') \<and>
     bt_get m ''approval.required'' = Some (JBool True) \<and>
     bt_get m ''approval.signal'' = Some ap \<and>
     (case get_json_str ap ''approval_id'' of
        None \<Rightarrow> True
      | Some i \<Rightarrow> bt_get m ''approval.id'' = Some (JString i) \<and> bt_contains m ''im.card'')"

lemma response_metadata_approval:
  assumes "disposition out =
      (if has_signal ''approval_required'' (exec_tool_signals out) then ApprovalRequired
       else if has_signal ''stop'' (exec_tool_signals out) then Stopped else FinalMessage)"
  shows "case find_signal ''approval_required'' (exec_tool_signals out) of
      Some s \<Rightarrow> approval_reported (sig_payload s) (response_metadata inb pid model wire out)
    | None \<Rightarrow> bt_get (response_metadata inb pid model wire out) ''approval.required'' = None \<and>
        bt_get (response_metadata inb pid model wire out) ''agent.disposition'' \<noteq>
          Some (JString ''approval_required'')"
proof (cases "find_signal ''approval_required'' (exec_tool_signals out)")
  case None
  then show ?thesis using assms
    by (simp add: has_signal_iff_find response_metadata_get signal_metadata_no_approval
        signal_metadata_disposition heartbeat_response_metadata_blocked)
next
  case (Some s)
  then show ?thesis using assms signal_metadata_approval [OF Some]
    by (simp add: has_signal_iff_find approval_reported_def response_metadata_get
        signal_metadata_disposition bt_contains_def split: option.split)
qed


end
