(* ===== verification/Agent_Runtime.thy ===== *)
theory Agent_Runtime
  imports Message_Processing
begin

text \<open>
  \<^verbatim>\<open>klaw-core/src/agent_loop.rs\<close>, the message pumps: \<^verbatim>\<open>run_once\<close>, which consumes one message,
  processes it, publishes the reply and acknowledges, and \<^verbatim>\<open>run_once_reliable\<close>, which adds
  retries with backoff, the circuit breaker and the dead-letter queue. Both are generic over the
  traits they call; those are the record \<open>ports\<close> of functions on a world, so that every call may
  fail. Beside the world the pumps carry the list of the calls they made with their results, in
  order: what an observer of the traits sees.
\<close>

section \<open>Ports and the trace of calls\<close>

record 'w ports =
  port_consume :: "subscription \<Rightarrow> 'w \<Rightarrow> (transport_error + inbound_message transport_message) \<times> 'w"
  port_ack :: "transport_ack_handle \<Rightarrow> 'w \<Rightarrow> (transport_error + unit) \<times> 'w"
  port_publish :: "string \<Rightarrow> outbound_message envelope \<Rightarrow> 'w \<Rightarrow> (transport_error + unit) \<times> 'w"
  port_dead_letter :: "string \<Rightarrow> dead_letter_message envelope \<Rightarrow> 'w \<Rightarrow> (transport_error + unit) \<times> 'w"
  port_seen :: "string \<Rightarrow> 'w \<Rightarrow> bool \<times> 'w"
  port_mark_seen :: "string \<Rightarrow> duration \<Rightarrow> 'w \<Rightarrow> 'w"
  port_allow :: "'w \<Rightarrow> bool \<times> 'w"
  port_success :: "'w \<Rightarrow> 'w"
  port_failure :: "'w \<Rightarrow> 'w"
  port_sleep :: "duration \<Rightarrow> 'w \<Rightarrow> 'w"

datatype call =
    Consumed bool
  | SeenAsked string bool
  | AllowAsked bool
  | Processed process_outcome
  | ReplyPublished "outbound_message envelope" bool
  | DeadLettered "dead_letter_message envelope" bool
  | BreakerNotified bool
  | MarkedSeen string
  | Slept duration
  | Acked transport_ack_handle bool

record 'w pump =
  pump_world :: 'w
  trace :: "call list"

definition logged :: "call \<Rightarrow> 'w \<Rightarrow> 'w pump \<Rightarrow> 'w pump" where
  "logged c w p = p\<lparr>pump_world := w, trace := trace p @ [c]\<rparr>"

text \<open>\<^verbatim>\<open>Result::is_ok\<close>.\<close>

definition is_ok :: "'e + 'a \<Rightarrow> bool" where
  "is_ok r = (case r of Inl _ \<Rightarrow> False | Inr _ \<Rightarrow> True)"

lemma is_ok_simps [simp]: "is_ok (Inl e) = False" "is_ok (Inr x) = True"
  by (simp_all add: is_ok_def)

definition do_consume :: "'w ports \<Rightarrow> subscription \<Rightarrow> 'w pump \<Rightarrow>
    (transport_error + inbound_message transport_message) \<times> 'w pump" where
  "do_consume P sub p = (let (r, w) = port_consume P sub (pump_world p) in (r, logged (Consumed (is_ok r)) w p))"

definition do_ack :: "'w ports \<Rightarrow> transport_ack_handle \<Rightarrow> 'w pump \<Rightarrow> (transport_error + unit) \<times> 'w pump" where
  "do_ack P k p = (let (r, w) = port_ack P k (pump_world p) in (r, logged (Acked k (is_ok r)) w p))"

definition do_publish :: "'w ports \<Rightarrow> outbound_message envelope \<Rightarrow> 'w pump \<Rightarrow>
    (transport_error + unit) \<times> 'w pump" where
  "do_publish P m p =
     (let (r, w) = port_publish P (topic_as_str OutboundTopic) m (pump_world p)
      in (r, logged (ReplyPublished m (is_ok r)) w p))"

definition do_dead_letter :: "'w ports \<Rightarrow> dead_letter_message envelope \<Rightarrow> 'w pump \<Rightarrow>
    (transport_error + unit) \<times> 'w pump" where
  "do_dead_letter P m p =
     (let (r, w) = port_dead_letter P (topic_as_str DeadLetterTopic) m (pump_world p)
      in (r, logged (DeadLettered m (is_ok r)) w p))"

definition do_seen :: "'w ports \<Rightarrow> string \<Rightarrow> 'w pump \<Rightarrow> bool \<times> 'w pump" where
  "do_seen P k p = (let (b, w) = port_seen P k (pump_world p) in (b, logged (SeenAsked k b) w p))"

definition do_mark_seen :: "'w ports \<Rightarrow> string \<Rightarrow> duration \<Rightarrow> 'w pump \<Rightarrow> 'w pump" where
  "do_mark_seen P k ttl p = logged (MarkedSeen k) (port_mark_seen P k ttl (pump_world p)) p"

definition do_allow :: "'w ports \<Rightarrow> 'w pump \<Rightarrow> bool \<times> 'w pump" where
  "do_allow P p = (let (b, w) = port_allow P (pump_world p) in (b, logged (AllowAsked b) w p))"

definition do_notify :: "'w ports \<Rightarrow> bool \<Rightarrow> 'w pump \<Rightarrow> 'w pump" where
  "do_notify P good p =
     logged (BreakerNotified good) ((if good then port_success P else port_failure P) (pump_world p)) p"

definition do_sleep :: "'w ports \<Rightarrow> duration \<Rightarrow> 'w pump \<Rightarrow> 'w pump" where
  "do_sleep P d p = logged (Slept d) (port_sleep P d (pump_world p)) p"

definition do_process :: "'w agent_loop \<Rightarrow> 'w host \<Rightarrow> inbound_message envelope \<Rightarrow> 'w pump \<Rightarrow>
    (process_outcome \<times> 'w pump) option" where
  "do_process a h msg p =
     map_option (\<lambda>(outcome, w). (outcome, logged (Processed outcome) w p))
       (process_message a h msg (pump_world p))"

definition do_emit :: "'w agent_loop \<Rightarrow> telemetry_event list \<Rightarrow> 'w pump \<Rightarrow> 'w pump" where
  "do_emit a evs p = p\<lparr>pump_world := emit (telemetry a) evs (pump_world p)\<rparr>"

section \<open>The pumps\<close>

type_synonym 'w run_result = "(transport_error + process_outcome) \<times> 'w pump"

definition dedupe_key :: "inbound_message envelope \<Rightarrow> string" where
  "dedupe_key msg = idempotency_key (message_id (header msg)) (hdr_session_key (header msg)) ''agent_run''"

text \<open>The outcomes the pumps build themselves; their session key is that of the header.\<close>

definition pump_outcome :: "inbound_message envelope \<Rightarrow> error_code \<Rightarrow> agent_run_state \<Rightarrow> process_outcome" where
  "pump_outcome msg code s =
     \<lparr>final_response = None, outcome_error = Some code, final_state = s, llm_audits = [],
      outcome_tool_audits = [], audit_message_id = Some (message_id (header msg)),
      audit_session_key = Some (hdr_session_key (header msg)),
      audit_chat_id = Some (in_chat_id (payload msg))\<rparr>"

definition ack_and_return :: "'w ports \<Rightarrow> transport_ack_handle \<Rightarrow> process_outcome \<Rightarrow> 'w pump \<Rightarrow> 'w run_result" where
  "ack_and_return P k outcome p =
     (case do_ack P k p of (Inl e, p') \<Rightarrow> (Inl e, p') | (Inr _, p') \<Rightarrow> (Inr outcome, p'))"

definition seen_ttl :: "'w agent_loop \<Rightarrow> duration" where
  "seen_ttl a = agent_timeout (limits a) + policy_lock_ttl (scheduling a)"

definition run_once :: "'w agent_loop \<Rightarrow> 'w host \<Rightarrow> 'w ports \<Rightarrow> subscription \<Rightarrow> 'w pump \<Rightarrow>
    'w run_result option" where
  "run_once a h P sub p0 =
     (case do_consume P sub p0 of
        (Inl e, p1) \<Rightarrow> Some (Inl e, p1)
      | (Inr inbound, p1) \<Rightarrow>
          (let msg = tm_payload inbound; key = dedupe_key msg
           in case do_seen P key p1 of
                (True, p2) \<Rightarrow>
                  Some (ack_and_return P (ack_handle inbound) (pump_outcome msg DuplicateMessage Completed) p2)
              | (False, p2) \<Rightarrow>
                  (case do_process a h msg p2 of
                     None \<Rightarrow> None
                   | Some (outcome, p3) \<Rightarrow>
                       (case (case final_response outcome of
                                None \<Rightarrow> (Inr (), p3)
                              | Some outbound \<Rightarrow> do_publish P outbound p3) of
                          (Inl e, p4) \<Rightarrow> Some (Inl e, p4)
                        | (Inr _, p4) \<Rightarrow>
                            Some (ack_and_return P (ack_handle inbound) outcome
                              (do_mark_seen P key (seen_ttl a) p4))))))"

text \<open>\<^verbatim>\<open>handle_retry_decision\<close>: \<open>None\<close> in the result asks for another attempt.\<close>

definition dead_letter_for :: "inbound_message envelope \<Rightarrow> u32 \<Rightarrow> dead_letter_policy \<Rightarrow>
    dead_letter_message envelope" where
  "dead_letter_for msg att dlp =
     \<lparr>header = header msg, env_metadata = [],
      payload = \<lparr>original_message_id = message_id (header msg), dl_session_key = hdr_session_key (header msg),
        final_error = ''SentToDeadLetter'', dl_attempts = att,
        dl_reason = ''exhausted retries, topic='' @ dlq_topic dlp, original_payload = payload msg\<rparr>\<rparr>"

definition retry_event :: "inbound_message envelope \<Rightarrow> string \<Rightarrow> telemetry_event" where
  "retry_event msg kind =
     IncrCounter ''agent_retry_total'' [(''session_key'', hdr_session_key (header msg)), (''error_code'', kind)] 1"

definition dead_letter_events :: "inbound_message envelope \<Rightarrow> u32 \<Rightarrow> telemetry_event list" where
  "dead_letter_events msg att =
     [IncrCounter ''agent_deadletter_total'' [(''session_key'', hdr_session_key (header msg))] 1,
      EmitAuditEvent ''message_sent_dlq'' (message_id (header msg))
        (JObject (object_of [(''session_key'', JString (hdr_session_key (header msg))),
           (''attempts'', JNumber (PosInt (ucast att))), (''reason'', JString ''exhausted_retries'')]))]"

definition handle_retry_decision :: "'w agent_loop \<Rightarrow> 'w ports \<Rightarrow> dead_letter_policy \<Rightarrow> retry_decision \<Rightarrow> u32 \<Rightarrow>
    inbound_message transport_message \<Rightarrow> 'w pump \<Rightarrow>
    (transport_error + process_outcome option) \<times> 'w pump" where
  "handle_retry_decision a P dlp decision att inbound p =
     (let msg = tm_payload inbound
      in case decision of
           RetryNow \<Rightarrow> (Inr None, do_emit a [retry_event msg ''retry_now''] p)
         | RetryAfter delay \<Rightarrow> (Inr None, do_sleep P delay (do_emit a [retry_event msg ''retry_after''] p))
         | Abort \<Rightarrow>
             (case do_ack P (ack_handle inbound) p of
                (Inl e, p') \<Rightarrow> (Inl e, p')
              | (Inr _, p') \<Rightarrow> (Inr (Some (pump_outcome msg RetryExhausted Failed)), p'))
         | SendToDeadLetter \<Rightarrow>
             (case do_dead_letter P (dead_letter_for msg att dlp) (do_emit a (dead_letter_events msg att) p) of
                (Inl e, p') \<Rightarrow> (Inl e, p')
              | (Inr _, p') \<Rightarrow>
                  (case do_ack P (ack_handle inbound) p' of
                     (Inl e, p'') \<Rightarrow> (Inl e, p'')
                   | (Inr _, p'') \<Rightarrow> (Inr (Some (pump_outcome msg SentToDeadLetter Failed)), p''))))"

text \<open>One turn of the retry loop: the result of the pump, or the state of the next attempt.\<close>

definition after_decision :: "'w agent_loop \<Rightarrow> 'w ports \<Rightarrow> dead_letter_policy \<Rightarrow> retry_decision \<Rightarrow> u32 \<Rightarrow>
    inbound_message transport_message \<Rightarrow> 'w pump \<Rightarrow> ('w run_result, u32 \<times> 'w pump) loop_step" where
  "after_decision a P dlp decision att inbound p =
     (case handle_retry_decision a P dlp decision att inbound p of
        (Inl e, p') \<Rightarrow> Return (Inl e, p')
      | (Inr (Some done), p') \<Rightarrow> Return (Inr done, p')
      | (Inr None, p') \<Rightarrow> Continue (att + 1, p'))"

text \<open>The branch for a processed message whose reply cannot be delivered or does not exist.\<close>

definition attempt_failed :: "'w agent_loop \<Rightarrow> 'w ports \<Rightarrow> (string \<Rightarrow> u32 \<Rightarrow> retry_decision) \<Rightarrow>
    dead_letter_policy \<Rightarrow> process_outcome \<Rightarrow> u32 \<Rightarrow> inbound_message transport_message \<Rightarrow> 'w pump \<Rightarrow>
    ('w run_result, u32 \<times> 'w pump) loop_step" where
  "attempt_failed a P decide dlp outcome att inbound p =
     after_decision a P dlp (decide (classify_error_kind (outcome_error outcome)) att) att inbound
       (if outcome_error outcome = Some ProviderUnavailable \<or> outcome_error outcome = Some ToolTimeout
        then do_notify P False p else p)"

definition attempt_published :: "'w agent_loop \<Rightarrow> 'w ports \<Rightarrow> (string \<Rightarrow> u32 \<Rightarrow> retry_decision) \<Rightarrow>
    dead_letter_policy \<Rightarrow> process_outcome \<Rightarrow> outbound_message envelope \<Rightarrow> u32 \<Rightarrow>
    inbound_message transport_message \<Rightarrow> 'w pump \<Rightarrow> ('w run_result, u32 \<times> 'w pump) loop_step" where
  "attempt_published a P decide dlp outcome outbound att inbound p =
     (case do_publish P outbound p of
        (Inr _, p') \<Rightarrow>
          Return (ack_and_return P (ack_handle inbound) outcome
            (do_mark_seen P (dedupe_key (tm_payload inbound)) (seen_ttl a) (do_notify P True p')))
      | (Inl _, p') \<Rightarrow>
          after_decision a P dlp (decide ''transport_unavailable'' att) att inbound (do_notify P False p'))"

definition attempt_step :: "'w agent_loop \<Rightarrow> 'w host \<Rightarrow> 'w ports \<Rightarrow> (string \<Rightarrow> u32 \<Rightarrow> retry_decision) \<Rightarrow>
    dead_letter_policy \<Rightarrow> inbound_message transport_message \<Rightarrow> u32 \<Rightarrow> 'w pump \<Rightarrow>
    ('w run_result, u32 \<times> 'w pump) loop_step option" where
  "attempt_step a h P decide dlp inbound att p =
     (case do_allow P p of
        (False, p1) \<Rightarrow> Some (after_decision a P dlp (decide ''provider_unavailable'' att) att inbound p1)
      | (True, p1) \<Rightarrow>
          (case do_process a h (tm_payload inbound) p1 of
             None \<Rightarrow> None
           | Some (outcome, p2) \<Rightarrow>
               Some (case (outcome_error outcome, final_response outcome) of
                       (None, Some outbound) \<Rightarrow> attempt_published a P decide dlp outcome outbound att inbound p2
                     | _ \<Rightarrow> attempt_failed a P decide dlp outcome att inbound p2)))"

partial_function (option) retry_loop :: "'w agent_loop \<Rightarrow> 'w host \<Rightarrow> 'w ports \<Rightarrow>
    (string \<Rightarrow> u32 \<Rightarrow> retry_decision) \<Rightarrow> dead_letter_policy \<Rightarrow> inbound_message transport_message \<Rightarrow>
    u32 \<Rightarrow> 'w pump \<Rightarrow> 'w run_result option" where
  "retry_loop a h pt decide dlp inbound att p =
     (case attempt_step a h pt decide dlp inbound att p of
        None \<Rightarrow> None
      | Some (Return r) \<Rightarrow> Some r
      | Some (Continue (att', p')) \<Rightarrow> retry_loop a h pt decide dlp inbound att' p')"

definition run_once_reliable :: "'w agent_loop \<Rightarrow> 'w host \<Rightarrow> 'w ports \<Rightarrow> subscription \<Rightarrow>
    (string \<Rightarrow> u32 \<Rightarrow> retry_decision) \<Rightarrow> dead_letter_policy \<Rightarrow> 'w pump \<Rightarrow> 'w run_result option" where
  "run_once_reliable a h P sub decide dlp p0 =
     (case do_consume P sub p0 of
        (Inl e, p1) \<Rightarrow> Some (Inl e, p1)
      | (Inr inbound, p1) \<Rightarrow>
          (let msg = tm_payload inbound
           in case do_seen P (dedupe_key msg) p1 of
                (True, p2) \<Rightarrow>
                  Some (ack_and_return P (ack_handle inbound) (pump_outcome msg DuplicateMessage Completed) p2)
              | (False, p2) \<Rightarrow>
                  retry_loop a h P decide dlp inbound (max (attempt (header msg)) 1) p2))"

end
