(* ===== verification/Reliable_Delivery.thy ===== *)
theory Reliable_Delivery
  imports Agent_Runtime
begin

text \<open>
  What the pumps of \<open>Agent_Runtime\<close> guarantee, whatever the transports, the store, the breaker,
  the provider and the tools do: the calls made for a message have the shape \<open>life\<close>, which gives
  the bound on attempts, the acknowledgement discipline and the fate of the message. The retry
  policy enters through the locale \<open>retry_policy\<close> only; its interpretation \<open>backoff\<close> carries the
  results to the exponential backoff of the source.
\<close>

section \<open>What one attempt does\<close>

lemma logged_fields [simp]:
  "trace (logged c w p) = trace p @ [c]" "pump_world (logged c w p) = w"
  by (simp_all add: logged_def)

lemma do_simps [simp]:
  "trace (do_emit a evs p) = trace p"
  "trace (do_sleep P d p) = trace p @ [Slept d]"
  "trace (do_notify P b p) = trace p @ [BreakerNotified b]"
  "trace (do_mark_seen P k ttl p) = trace p @ [MarkedSeen k]"
  by (simp_all add: do_emit_def do_sleep_def do_notify_def do_mark_seen_def)

lemma do_trace:
  "do_ack P k p = (r1, p') \<Longrightarrow> trace p' = trace p @ [Acked k (is_ok r1)]"
  "do_publish P m p = (r1, p') \<Longrightarrow> trace p' = trace p @ [ReplyPublished m (is_ok r1)]"
  "do_dead_letter P d p = (r1, p') \<Longrightarrow> trace p' = trace p @ [DeadLettered d (is_ok r1)]"
  "do_consume P sub p = (r2, p') \<Longrightarrow> trace p' = trace p @ [Consumed (is_ok r2)]"
  "do_seen P s p = (b, p') \<Longrightarrow> trace p' = trace p @ [SeenAsked s b]"
  "do_allow P p = (b, p') \<Longrightarrow> trace p' = trace p @ [AllowAsked b]"
  "do_process a h msg p = Some (out, p') \<Longrightarrow> trace p' = trace p @ [Processed out]"
  by (auto simp: do_ack_def do_publish_def do_dead_letter_def do_consume_def do_seen_def do_allow_def
      do_process_def Let_def split: prod.splits)

text \<open>The calls of an attempt that did not deliver a reply.\<close>

inductive failed_attempt :: "call list \<Rightarrow> bool" where
  refused: "failed_attempt [AllowAsked False]"
| undelivered: "outcome_error out = None \<Longrightarrow>
    failed_attempt [AllowAsked True, Processed out, ReplyPublished m False, BreakerNotified False]"
| unsuccessful: "outcome_error out \<noteq> None \<or> final_response out = None \<Longrightarrow>
    failed_attempt [AllowAsked True, Processed out]"
| notified: "outcome_error out \<noteq> None \<Longrightarrow>
    failed_attempt [AllowAsked True, Processed out, BreakerNotified False]"

text \<open>The calls of the end of a message, by the result they lead to.\<close>

inductive ending :: "inbound_message transport_message \<Rightarrow> dead_letter_policy \<Rightarrow>
    (transport_error + process_outcome) \<Rightarrow> call list \<Rightarrow> bool" for inbound dlp where
  replied: "outcome_error out = None \<Longrightarrow> final_response out = Some m \<Longrightarrow>
    (is_ok r \<Longrightarrow> r = Inr out) \<Longrightarrow>
    ending inbound dlp r
      [AllowAsked True, Processed out, ReplyPublished m True, BreakerNotified True,
       MarkedSeen (dedupe_key (tm_payload inbound)), Acked (ack_handle inbound) (is_ok r)]"
| dead: "failed_attempt cs \<Longrightarrow> is_ok r \<Longrightarrow> r = Inr (pump_outcome (tm_payload inbound) SentToDeadLetter Failed) \<Longrightarrow>
    ending inbound dlp r
      (cs @ [DeadLettered (dead_letter_for (tm_payload inbound) att dlp) True, Acked (ack_handle inbound) True])"
| dead_unacked: "failed_attempt cs \<Longrightarrow> \<not> is_ok r \<Longrightarrow>
    ending inbound dlp r
      (cs @ [DeadLettered (dead_letter_for (tm_payload inbound) att dlp) True, Acked (ack_handle inbound) False])"
| dead_failed: "failed_attempt cs \<Longrightarrow> \<not> is_ok r \<Longrightarrow>
    ending inbound dlp r (cs @ [DeadLettered (dead_letter_for (tm_payload inbound) att dlp) False])"
| aborted: "failed_attempt cs \<Longrightarrow> (is_ok r \<Longrightarrow> r = Inr (pump_outcome (tm_payload inbound) RetryExhausted Failed)) \<Longrightarrow>
    ending inbound dlp r (cs @ [Acked (ack_handle inbound) (is_ok r)])"

definition pause :: "call list \<Rightarrow> bool" where
  "pause cs \<longleftrightarrow> cs = [] \<or> (\<exists>t. cs = [Slept t])"

definition retried :: "'w pump \<Rightarrow> 'w pump \<Rightarrow> bool" where
  "retried p p' \<longleftrightarrow> (\<exists>cs tail. trace p' = trace p @ cs @ tail \<and> failed_attempt cs \<and> pause tail)"

definition ended :: "inbound_message transport_message \<Rightarrow> dead_letter_policy \<Rightarrow>
    (transport_error + process_outcome) \<Rightarrow> 'w pump \<Rightarrow> 'w pump \<Rightarrow> bool" where
  "ended inbound dlp r p p' \<longleftrightarrow> (\<exists>tail. trace p' = trace p @ tail \<and> ending inbound dlp r tail)"

lemma after_decision_Return:
  assumes "after_decision a P dlp d att inbound p = Return (r, p')" and "failed_attempt cs"
  shows "\<exists>tail. trace p' = trace p @ tail \<and> ending inbound dlp r (cs @ tail) \<and> final_decision d"
proof (cases d)
  case Abort
  then show ?thesis using assms
    by (auto simp: after_decision_def handle_retry_decision_def Let_def final_decision_def
        split: prod.splits sum.splits option.splits dest!: do_trace
        intro: ending.aborted [where r = "Inl _", simplified] ending.aborted [where r = "Inr _", simplified])
next
  case SendToDeadLetter
  obtain r1 p1 where dl: "do_dead_letter P (dead_letter_for (tm_payload inbound) att dlp)
      (do_emit a (dead_letter_events (tm_payload inbound) att) p) = (r1, p1)" by fastforce
  obtain r2 p2 where ak: "do_ack P (ack_handle inbound) p1 = (r2, p2)" by fastforce
  show ?thesis
  proof (cases r1)
    case (Inl e)
    then show ?thesis using assms SendToDeadLetter dl do_trace(3) [OF dl] ending.dead_failed [OF assms(2), of r]
      by (auto simp: after_decision_def handle_retry_decision_def Let_def final_decision_def)
  next
    case (Inr u)
    then show ?thesis
      using assms SendToDeadLetter dl ak do_trace(3) [OF dl] do_trace(1) [OF ak]
        ending.dead [OF assms(2), of r] ending.dead_unacked [OF assms(2), of r]
      by (cases r2) (auto simp: after_decision_def handle_retry_decision_def Let_def final_decision_def)
  qed
qed (use assms in \<open>auto simp: after_decision_def handle_retry_decision_def Let_def\<close>)

lemma after_decision_Continue:
  assumes "after_decision a P dlp d att inbound p = Continue (att', p')"
  shows "att' = att + 1 \<and> \<not> final_decision d \<and> (\<exists>tail. trace p' = trace p @ tail \<and> pause tail)"
  using assms
  by (cases d) (auto simp: after_decision_def handle_retry_decision_def Let_def final_decision_def pause_def
     split: prod.splits sum.splits option.splits)


lemma after_decision_ended:
  assumes "after_decision a P dlp d att inbound p = Return (r, p')" and "failed_attempt cs"
    and "trace p = trace p0 @ cs"
  shows "ended inbound dlp r p0 p'"
  using after_decision_Return [OF assms(1,2)] assms(3) by (auto simp: ended_def)

lemma after_decision_retried:
  assumes "after_decision a P dlp d att inbound p = Continue (att', p')" and "failed_attempt cs"
    and "trace p = trace p0 @ cs"
  shows "att' = att + 1 \<and> \<not> final_decision d \<and> retried p0 p'"
  using after_decision_Continue [OF assms(1)] assms(2,3) unfolding retried_def by fastforce

lemma ack_and_return_cases:
  assumes "ack_and_return P k out p = (r, p')"
  shows "trace p' = trace p @ [Acked k (is_ok r)] \<and> (is_ok r \<longrightarrow> r = Inr out)"
  using assms by (auto simp: ack_and_return_def split: prod.splits sum.splits dest!: do_trace)

lemma attempt_published_step:
  assumes "outcome_error out = None" and "final_response out = Some m"
    and p: "trace p = trace p0 @ [AllowAsked True, Processed out]"
  shows "attempt_published a P decide dlp out m att inbound p = Return (r, p') \<Longrightarrow>
      ended inbound dlp r p0 p'"
    and "attempt_published a P decide dlp out m att inbound p = Continue (att', p') \<Longrightarrow>
      att' = att + 1 \<and> (\<exists>k. \<not> final_decision (decide k att)) \<and>
      retried p0 p'"
proof -
  obtain r1 p1 where pub: "do_publish P m p = (r1, p1)" by fastforce
  note t1 = do_trace(2) [OF pub]
  have failed: "failed_attempt [AllowAsked True, Processed out, ReplyPublished m False, BreakerNotified False]"
    using assms(1) by (rule failed_attempt.undelivered)
  {
    assume ret: "attempt_published a P decide dlp out m att inbound p = Return (r, p')"
    show "ended inbound dlp r p0 p'"
    proof (cases r1)
      case (Inl e)
      with ret pub have dec: "after_decision a P dlp (decide ''transport_unavailable'' att) att inbound
          (do_notify P False p1) = Return (r, p')" by (simp add: attempt_published_def)
      show ?thesis by (rule after_decision_ended [OF dec failed]) (simp add: t1 p Inl)
    next
      case (Inr u)
      then have ak: "ack_and_return P (ack_handle inbound) out (do_mark_seen P (dedupe_key (tm_payload inbound))
          (seen_ttl a) (do_notify P True p1)) = (r, p')"
        using ret pub by (simp add: attempt_published_def)
      have "ending inbound dlp r [AllowAsked True, Processed out, ReplyPublished m True,
          BreakerNotified True, MarkedSeen (dedupe_key (tm_payload inbound)), Acked (ack_handle inbound) (is_ok r)]"
        using ending.replied [OF assms(1,2)] ack_and_return_cases [OF ak] by blast
      then show ?thesis using ack_and_return_cases [OF ak] Inr t1 p by (simp add: ended_def)
    qed
  next
    assume con: "attempt_published a P decide dlp out m att inbound p = Continue (att', p')"
    then obtain e where e: "r1 = Inl e" and dec:
      "after_decision a P dlp (decide ''transport_unavailable'' att) att inbound (do_notify P False p1) = Continue (att', p')"
      using pub by (cases r1) (auto simp: attempt_published_def)
    then show "att' = att + 1 \<and> (\<exists>k. \<not> final_decision (decide k att)) \<and>
      retried p0 p'"
      using after_decision_retried [OF dec failed, of p0] t1 p e by auto
  }
qed

lemma attempt_failed_step:
  assumes "outcome_error out \<noteq> None \<or> final_response out = None"
    and p: "trace p = trace p0 @ [AllowAsked True, Processed out]"
  shows "attempt_failed a P decide dlp out att inbound p = Return (r, p') \<Longrightarrow>
      ended inbound dlp r p0 p'"
    and "attempt_failed a P decide dlp out att inbound p = Continue (att', p') \<Longrightarrow>
      att' = att + 1 \<and> (\<exists>k. \<not> final_decision (decide k att)) \<and>
      retried p0 p'"
proof -
  let ?p = "if outcome_error out = Some ProviderUnavailable \<or> outcome_error out = Some ToolTimeout
        then do_notify P False p else p"
  obtain cs where cs: "trace ?p = trace p0 @ cs" "failed_attempt cs"
  proof (cases "outcome_error out = Some ProviderUnavailable \<or> outcome_error out = Some ToolTimeout")
    case True
    then have "failed_attempt [AllowAsked True, Processed out, BreakerNotified False]"
      by (intro failed_attempt.notified) auto
    with True p show ?thesis by (intro that) auto
  next
    case False
    with p failed_attempt.unsuccessful [OF assms(1)] show ?thesis by (intro that) auto
  qed
  show "ended inbound dlp r p0 p'"
    if "attempt_failed a P decide dlp out att inbound p = Return (r, p')"
    by (rule after_decision_ended [OF that [unfolded attempt_failed_def] cs(2,1)])
  show "att' = att + 1 \<and> (\<exists>k. \<not> final_decision (decide k att)) \<and>
      retried p0 p'"
    if "attempt_failed a P decide dlp out att inbound p = Continue (att', p')"
    using after_decision_retried [OF that [unfolded attempt_failed_def] cs(2,1)] by blast
qed

text \<open>An attempt either ends the message or leaves a failed attempt behind and may sleep; it is
  repeated only when the policy asked for it.\<close>

lemma attempt_step_Return:
  assumes "attempt_step a h P decide dlp inbound att p = Some (Return (r, p'))"
  shows "ended inbound dlp r p p'"
proof -
  obtain b p1 where allow: "do_allow P p = (b, p1)" by fastforce
  note t1 = do_trace(6) [OF allow]
  show ?thesis
  proof (cases b)
    case False
    then show ?thesis
      using assms allow t1 after_decision_ended [OF _ failed_attempt.refused]
      by (simp add: attempt_step_def)
  next
    case True
    with assms allow obtain out p2 where run: "do_process a h (tm_payload inbound) p1 = Some (out, p2)"
      by (auto simp: attempt_step_def split: option.splits)
    have t2: "trace p2 = trace p @ [AllowAsked True, Processed out]"
      using do_trace(7) [OF run] t1 True by simp
    show ?thesis
      using assms allow True run attempt_published_step(1) [OF _ _ t2] attempt_failed_step(1) [OF _ t2]
      by (auto simp: attempt_step_def split: option.splits)
  qed
qed

lemma attempt_step_Continue:
  assumes "attempt_step a h P decide dlp inbound att p = Some (Continue (att', p'))"
  shows "att' = att + 1 \<and> (\<exists>k. \<not> final_decision (decide k att)) \<and>
    retried p p'"
proof -
  obtain b p1 where allow: "do_allow P p = (b, p1)" by fastforce
  note t1 = do_trace(6) [OF allow]
  show ?thesis
  proof (cases b)
    case False
    then have "after_decision a P dlp (decide ''provider_unavailable'' att) att inbound p1 = Continue (att', p')"
      using assms allow by (simp add: attempt_step_def)
    from after_decision_retried [OF this failed_attempt.refused, of p] t1 False show ?thesis by auto
  next
    case True
    with assms allow obtain out p2 where run: "do_process a h (tm_payload inbound) p1 = Some (out, p2)"
      by (auto simp: attempt_step_def split: option.splits)
    have t2: "trace p2 = trace p @ [AllowAsked True, Processed out]"
      using do_trace(7) [OF run] t1 True by simp
    show ?thesis
      using assms allow True run attempt_published_step(2) [OF _ _ t2, where decide = decide]
        attempt_failed_step(2) [OF _ t2, where decide = decide]
      by (fastforce simp: attempt_step_def split: option.splits)
  qed
qed

section \<open>The life of a message\<close>

text \<open>The calls made for one message from attempt \<open>att\<close> on: failed attempts, each repeated on a
  decision of the policy, then an ending.\<close>

inductive life :: "inbound_message transport_message \<Rightarrow> dead_letter_policy \<Rightarrow>
    (string \<Rightarrow> u32 \<Rightarrow> retry_decision) \<Rightarrow> (transport_error + process_outcome) \<Rightarrow> u32 \<Rightarrow> call list \<Rightarrow> bool"
  for inbound dlp decide r where
  last_attempt: "ending inbound dlp r cs \<Longrightarrow> life inbound dlp decide r att cs"
| next_attempt: "failed_attempt cs \<Longrightarrow> pause ds \<Longrightarrow> \<not> final_decision (decide k att) \<Longrightarrow>
    life inbound dlp decide r (att + 1) es \<Longrightarrow> life inbound dlp decide r att (cs @ ds @ es)"

definition lived :: "inbound_message transport_message \<Rightarrow> dead_letter_policy \<Rightarrow>
    (string \<Rightarrow> u32 \<Rightarrow> retry_decision) \<Rightarrow> u32 \<Rightarrow> 'w pump \<Rightarrow> 'w run_result \<Rightarrow> bool" where
  "lived inbound dlp decide att p r \<longleftrightarrow>
     (\<exists>tail. trace (snd r) = trace p @ tail \<and> life inbound dlp decide (fst r) att tail)"

lemma lived_again:
  assumes "attempt_step a h P decide dlp inbound att p = Some (Continue (att', p'))"
    and "lived inbound dlp decide att' p' r"
  shows "lived inbound dlp decide att p r"
proof -
  from attempt_step_Continue [OF assms(1)] obtain k cs ds where
    step: "att' = att + 1" "\<not> final_decision (decide k att)" "trace p' = trace p @ cs @ ds"
      "failed_attempt cs" "pause ds"
    by (auto simp: retried_def)
  from assms(2) obtain tail where "trace (snd r) = trace p' @ tail" "life inbound dlp decide (fst r) att' tail"
    by (auto simp: lived_def)
  with step show ?thesis
    by (auto simp: lived_def intro!: life.next_attempt)
qed

lemma retry_loop_lived:
  assumes "retry_loop a h P decide dlp inbound att p = Some r"
  shows "lived inbound dlp decide att p r"
proof (rule retry_loop.raw_induct [OF _ assms, where
      P = "\<lambda>a h pt decide dlp inbound att p r. lived inbound dlp decide att p r"])
  fix loop a h P decide dlp inbound att p r
  assume IH: "\<And>a h P decide dlp inbound att p r. loop a h P decide dlp inbound att p = Some r \<Longrightarrow>
      lived inbound dlp decide att p r"
    and eq: "(case attempt_step a h P decide dlp inbound att p of
        None \<Rightarrow> None | Some (Return r) \<Rightarrow> Some r
      | Some (Continue (att', p')) \<Rightarrow> loop a h P decide dlp inbound att' p') = Some r"
  then obtain s where s: "attempt_step a h P decide dlp inbound att p = Some s"
    by (cases "attempt_step a h P decide dlp inbound att p") auto
  show "lived inbound dlp decide att p r"
  proof (cases s)
    case (Return q)
    with eq s have "attempt_step a h P decide dlp inbound att p = Some (Return (fst r, snd r))" by simp
    from attempt_step_Return [OF this] show ?thesis
      by (auto simp: ended_def lived_def intro: life.last_attempt)
  next
    case (Continue ap)
    obtain att' p' where ap: "ap = (att', p')" by (cases ap)
    with eq s Continue have "loop a h P decide dlp inbound att' p' = Some r" by simp
    from IH [OF this] s Continue ap show ?thesis by (auto intro: lived_again)
  qed
qed

text \<open>Counting calls.\<close>

definition tally :: "(call \<Rightarrow> bool) \<Rightarrow> call list \<Rightarrow> nat" where
  "tally f cs = length (filter f cs)"

lemma tally_simps [simp]:
  "tally f [] = 0" "tally f (c # cs) = (if f c then Suc (tally f cs) else tally f cs)"
  "tally f (cs @ ds) = tally f cs + tally f ds"
  by (simp_all add: tally_def)

fun is_acked :: "call \<Rightarrow> bool" where
  "is_acked (Acked _ done) = done" | "is_acked _ = False"

fun is_replied :: "call \<Rightarrow> bool" where
  "is_replied (ReplyPublished _ done) = done" | "is_replied _ = False"

fun is_dead_lettered :: "call \<Rightarrow> bool" where
  "is_dead_lettered (DeadLettered _ done) = done" | "is_dead_lettered _ = False"

fun is_marked :: "call \<Rightarrow> bool" where
  "is_marked (MarkedSeen _) = True" | "is_marked _ = False"

fun is_processed :: "call \<Rightarrow> bool" where
  "is_processed (Processed _) = True" | "is_processed _ = False"

lemma failed_attempt_tally:
  "failed_attempt cs \<Longrightarrow> tally is_acked cs = 0 \<and> tally is_replied cs = 0 \<and> tally is_dead_lettered cs = 0 \<and>
     tally is_marked cs = 0 \<and> tally is_processed cs \<le> 1"
  by (induction rule: failed_attempt.induct) auto

lemma pause_tally:
  "pause cs \<Longrightarrow> tally is_acked cs = 0 \<and> tally is_replied cs = 0 \<and> tally is_dead_lettered cs = 0 \<and>
     tally is_marked cs = 0 \<and> tally is_processed cs = 0"
  by (auto simp: pause_def)

text \<open>The fate of a message: acknowledged exactly when the pump succeeds, and one of replied,
  dead-lettered, aborted.\<close>

definition fate :: "inbound_message envelope \<Rightarrow> (transport_error + process_outcome) \<Rightarrow> call list \<Rightarrow> bool" where
  "fate msg r cs \<longleftrightarrow>
     tally is_acked cs = (if is_ok r then 1 else 0) \<and>
     tally is_marked cs = tally is_replied cs \<and>
     tally is_replied cs + tally is_dead_lettered cs \<le> 1 \<and>
     (case r of
        Inl e \<Rightarrow> True
      | Inr out \<Rightarrow> is_acked (last cs) \<and>
          (outcome_error out = None \<and> tally is_replied cs = 1 \<or>
           out = pump_outcome msg SentToDeadLetter Failed \<and> tally is_dead_lettered cs = 1 \<or>
           out = pump_outcome msg RetryExhausted Failed \<and> tally is_replied cs = 0 \<and>
             tally is_dead_lettered cs = 0))"

lemma ending_fate: "ending inbound dlp r cs \<Longrightarrow> fate (tm_payload inbound) r cs"
  by (induction rule: ending.induct)
     (auto simp: fate_def dest!: failed_attempt_tally split: sum.splits)

lemma ending_nonempty: "ending inbound dlp r cs \<Longrightarrow> cs \<noteq> []"
  by (induction rule: ending.induct) auto

lemma ending_processed: "ending inbound dlp r cs \<Longrightarrow> tally is_processed cs \<le> 1"
  by (induction rule: ending.induct) (auto dest!: failed_attempt_tally)

lemma life_fate: "life inbound dlp decide r att cs \<Longrightarrow> fate (tm_payload inbound) r cs \<and> cs \<noteq> []"
proof (induction rule: life.induct)
  case (last_attempt cs att)
  then show ?case using ending_fate ending_nonempty by blast
next
  case (next_attempt cs ds k att es)
  then show ?case using failed_attempt_tally [OF next_attempt(1)] pause_tally [OF next_attempt(2)]
    by (auto simp: fate_def split: sum.splits)
qed

context retry_policy
begin

lemma life_attempts_bounded:
  "life inbound dlp decide r att cs \<Longrightarrow> tally is_processed cs \<le> unat limit - unat att + 1"
proof (induction rule: life.induct)
  case (last_attempt cs att)
  then show ?case using ending_processed [OF last_attempt] by simp
next
  case (next_attempt cs ds k att es)
  then show ?case
    using failed_attempt_tally [OF next_attempt(1)] pause_tally [OF next_attempt(2)]
      retry_measure_decreases [OF next_attempt(3)] by auto
qed

lemma retry_loop_returns:
  assumes "\<And>msg w. \<exists>o' w'. process_message a h msg w = Some (o', w')"
  shows "\<exists>r. retry_loop a h P decide dlp inbound att p = Some r"
proof (induction "unat limit - unat att" arbitrary: att p rule: less_induct)
  case less
  have "\<exists>s. attempt_step a h P decide dlp inbound att p = Some s"
  proof -
    obtain b p1 where allow: "do_allow P p = (b, p1)" by fastforce
    obtain o' w' where "process_message a h (tm_payload inbound) (pump_world p1) = Some (o', w')"
      using assms by blast
    with allow show ?thesis by (cases b) (auto simp: attempt_step_def do_process_def)
  qed
  then obtain s where s: "attempt_step a h P decide dlp inbound att p = Some s" by blast
  show ?case
  proof (cases s)
    case (Return q)
    with s show ?thesis by (simp add: retry_loop.simps)
  next
    case (Continue ap)
    obtain att' p' where ap: "ap = (att', p')" by (cases ap)
    with s Continue have step: "attempt_step a h P decide dlp inbound att p = Some (Continue (att', p'))"
      by simp
    from attempt_step_Continue [OF step] have "unat limit - unat att' < unat limit - unat att"
      using retry_measure_decreases by blast
    from less.hyps [OF this] show ?thesis using step by (simp add: retry_loop.simps [of _ _ _ _ _ _ att])
  qed
qed

end

lemma failed_attempt_never_asks: "failed_attempt cs \<Longrightarrow> SeenAsked k b \<notin> set cs"
  by (induction rule: failed_attempt.induct) auto

lemma ending_never_asks: "ending inbound dlp r cs \<Longrightarrow> SeenAsked k b \<notin> set cs"
  by (induction rule: ending.induct) (auto dest: failed_attempt_never_asks)

lemma life_never_asks: "life inbound dlp decide r att cs \<Longrightarrow> SeenAsked k b \<notin> set cs"
  by (induction rule: life.induct)
     (auto dest: failed_attempt_never_asks ending_never_asks simp: pause_def)

section \<open>The in-memory runtime\<close>

text \<open>The ports that the in-memory transport, idempotency store and circuit breaker of
  \<^verbatim>\<open>mock.rs\<close> and \<^verbatim>\<open>reliability.rs\<close> provide. The rest of the world is \<open>mem_env\<close>; sleeping
  advances the clock.\<close>

record 'e mem_world =
  mem_inbound :: "inbound_message in_memory_transport"
  mem_outbound :: "outbound_message in_memory_transport"
  mem_dead_letters :: "dead_letter_message in_memory_transport"
  mem_store :: in_memory_idempotency_store
  mem_breaker :: in_memory_circuit_breaker
  mem_clock_ms :: u64
  mem_env :: 'e

definition memory_ports :: "'e mem_world ports" where
  "memory_ports =
     \<lparr>port_consume = (\<lambda>sub w. let (r, t) = consume sub (mem_inbound w) in (r, w\<lparr>mem_inbound := t\<rparr>)),
      port_ack = (\<lambda>k w. let (r, t) = ack k (mem_inbound w) in (r, w\<lparr>mem_inbound := t\<rparr>)),
      port_publish = (\<lambda>topic m w. let (r, t) = publish topic m (mem_outbound w) in (r, w\<lparr>mem_outbound := t\<rparr>)),
      port_dead_letter = (\<lambda>topic m w. let (r, t) = publish topic m (mem_dead_letters w)
                           in (r, w\<lparr>mem_dead_letters := t\<rparr>)),
      port_seen = (\<lambda>k w. (seen k (mem_store w), w)),
      port_mark_seen = (\<lambda>k ttl w. w\<lparr>mem_store := mark_seen k ttl (mem_store w)\<rparr>),
      port_allow = (\<lambda>w. (allow_request (mem_clock_ms w) (mem_breaker w), w)),
      port_success = (\<lambda>w. w\<lparr>mem_breaker := on_success (mem_breaker w)\<rparr>),
      port_failure = (\<lambda>w. w\<lparr>mem_breaker := on_failure (mem_clock_ms w) (mem_breaker w)\<rparr>),
      port_sleep = (\<lambda>d w. w\<lparr>mem_clock_ms := mem_clock_ms w + of_nat (duration_as_millis d)\<rparr>)\<rparr>"

text \<open>What the pumps rely on of an idempotency store among their ports: marking is visible to
  later questions, and neither consuming nor acknowledging forgets a key.\<close>

locale remembering_ports =
  fixes P :: "'w ports" and marked :: "string \<Rightarrow> 'w \<Rightarrow> bool"
  assumes asks: "port_seen P k w = (marked k w, w)"
    and marks: "marked k (port_mark_seen P k ttl w)"
    and ack_keeps: "marked k w \<Longrightarrow> marked k (snd (port_ack P t w))"
    and consume_keeps: "marked k w \<Longrightarrow> marked k (snd (port_consume P sub w))"
begin

lemma run_once_marks:
  assumes "run_once a h P sub p0 = Some (Inr out, p')"
    and "port_consume P sub (pump_world p0) = (Inr inbound, w1)"
  shows "marked (dedupe_key (tm_payload inbound)) (pump_world p')"
proof -
  let ?k = "dedupe_key (tm_payload inbound)"
  let ?p1 = "logged (Consumed True) w1 p0"
  have c: "do_consume P sub p0 = (Inr inbound, ?p1)" using assms(2) by (simp add: do_consume_def)
  have s: "do_seen P ?k ?p1 = (marked ?k w1, logged (SeenAsked ?k (marked ?k w1)) w1 ?p1)"
    by (simp add: do_seen_def asks)
  have acked: "marked ?k (pump_world q)"
    if "ack_and_return P (ack_handle inbound) o' p = (Inr out', q)" "marked ?k (pump_world p)" for o' p q out'
    using that(1) ack_keeps [OF that(2), of "ack_handle inbound"]
    by (auto simp: ack_and_return_def do_ack_def split: prod.splits sum.splits)
  have marked_after: "marked ?k (pump_world (do_mark_seen P ?k ttl p))" for ttl p
    by (simp add: do_mark_seen_def marks)
  show ?thesis using assms(1) c s acked marked_after
    by (cases "marked ?k w1")
       (auto simp: run_once_def Let_def split: option.splits prod.splits sum.splits)
qed

lemma run_once_duplicate:
  assumes "port_consume P sub (pump_world p0) = (Inr inbound, w1)"
    and "marked (dedupe_key (tm_payload inbound)) (pump_world p0)"
  shows "run_once a h P sub p0 =
    (let (r, w2) = port_ack P (ack_handle inbound) w1
     in Some (case r of Inl e \<Rightarrow> Inl e
                | Inr _ \<Rightarrow> Inr (pump_outcome (tm_payload inbound) DuplicateMessage Completed),
              p0\<lparr>pump_world := w2, trace := trace p0 @ [Consumed True,
                 SeenAsked (dedupe_key (tm_payload inbound)) True, Acked (ack_handle inbound) (is_ok r)]\<rparr>))"
proof -
  have "marked (dedupe_key (tm_payload inbound)) w1"
    using consume_keeps [OF assms(2), of sub] assms(1) by simp
  then show ?thesis using assms(1)
    by (auto simp: run_once_def do_consume_def do_seen_def asks ack_and_return_def do_ack_def logged_def
        Let_def split: prod.splits sum.splits)
qed

end

interpretation memory_ports: remembering_ports memory_ports "\<lambda>k w. seen k (mem_store w)"
  by unfold_locales
     (auto simp: memory_ports_def ack_def Let_def memory_store.is_seen_mark split: prod.splits)

text \<open>A runtime over these ports for the witnesses: the provider plays the list of responses in
  \<open>mem_env\<close>.\<close>

definition mem_chat :: "chat_request \<Rightarrow> bool \<Rightarrow> llm_response list mem_world \<Rightarrow>
    (llm_error + llm_response) \<times> llm_stream_event list \<times> llm_response list mem_world" where
  "mem_chat req streaming w =
     (case mem_env w of
        [] \<Rightarrow> (Err (LlmProviderUnavailable ''script over'' None), [], w)
      | r # rs \<Rightarrow> (Ok r, [], w\<lparr>mem_env := rs\<rparr>))"

definition mem_loop :: "llm_response list mem_world agent_loop" where
  "mem_loop = new_agent_loop sample_limits
     \<lparr>strategy = CollectStrategy, max_queue_depth = 8, policy_lock_ttl = 1000\<rparr>
     \<lparr>provider_name = ''mem'', provider_default_model = ''m'', provider_wire_api = None,
      chat = (\<lambda>req w. (case mem_chat req False w of (r, _, w') \<Rightarrow> (r, w'))), chat_stream = mem_chat\<rparr>
     (\<lambda>_. [])"

definition mem_host :: "llm_response list mem_world host" where
  "mem_host = \<lparr>host_now_ms = (\<lambda>w. (int (unat (mem_clock_ms w)), w)), host_json_to_string = (\<lambda>_. None),
     host_instant = (\<lambda>w. unat (mem_clock_ms w)), host_new_uuid = (\<lambda>w. (''u'', w)),
     host_decode_history = (\<lambda>_. None)\<rparr>"

definition mem_start :: "inbound_message envelope list \<Rightarrow> llm_response list \<Rightarrow>
    llm_response list mem_world pump" where
  "mem_start msgs rs =
     \<lparr>pump_world = \<lparr>mem_inbound = fold enqueue msgs new_transport, mem_outbound = new_transport,
        mem_dead_letters = new_transport, mem_store = new_idempotency_store,
        mem_breaker = sample_breaker, mem_clock_ms = 1000, mem_env = rs\<rparr>,
      trace = []\<rparr>"

definition sample_dlp :: dead_letter_policy where
  "sample_dlp = \<lparr>dlq_topic = ''agent.dlq'', max_payload_bytes = 1024, include_error_stack = False\<rparr>"

lemma mem_loop_fields [simp]:
  "limits mem_loop = sample_limits" "telemetry mem_loop = None"
  "chat_stream (snd (resolve_provider (provider_runtime mem_loop) m)) = mem_chat"
  "chat_stream (env_provider (execution_env a h p)) = chat_stream p"
  by (simp_all add: mem_loop_def new_agent_loop_def resolve_provider_def execution_env_def bt_get_def Let_def
      split: option.split)

lemma mem_reply:
  assumes "mem_env (pump_world p) = [reply ''done'' [] 7]"
  shows "\<exists>out w'. process_message mem_loop mem_host (sample_inbound ''hi'') (pump_world p) = Some (out, w') \<and>
    outcome_error out = None \<and> final_response out \<noteq> None \<and> w' = (pump_world p)\<lparr>mem_env := []\<rparr>"
  using assms
  by (auto simp: process_message_def runtime_eval mem_chat_def finish_message_def success_outcome_def outcome_of_def
      split: prod.splits)

lemma mem_run_once:
  "\<exists>out p1. run_once mem_loop mem_host memory_ports sample_subscription
      (mem_start [sample_inbound ''hi'', sample_inbound ''hi''] [reply ''done'' [] 7]) = Some (Inr out, p1) \<and>
    queue (mem_inbound (pump_world p1)) = [sample_inbound ''hi''] \<and>
    length (published (mem_outbound (pump_world p1))) = 1"
proof -
  let ?p0 = "mem_start [sample_inbound ''hi'', sample_inbound ''hi''] [reply ''done'' [] 7]"
  let ?w1 = "(pump_world ?p0)\<lparr>mem_inbound := new_transport\<lparr>queue := [sample_inbound ''hi'']\<rparr>\<rparr>"
  have "mem_env ?w1 = [reply ''done'' [] 7]" by (simp add: mem_start_def)
  then obtain out w' m where run:
    "process_message mem_loop mem_host (sample_inbound ''hi'') ?w1 = Some (out, w')"
    "final_response out = Some m" "w' = ?w1\<lparr>mem_env := []\<rparr>"
    using mem_reply [of "?p0\<lparr>pump_world := ?w1\<rparr>"] by auto
  show ?thesis using run
    by (simp add: run_once_def do_consume_def memory_ports_def consume_def mem_start_def enqueue_def new_transport_def
       do_seen_def seen_def new_idempotency_store_def logged_def do_process_def do_publish_def publish_def Let_def
       ack_and_return_def do_ack_def ack_def do_mark_seen_def)
qed

text \<open>C29: Redelivery is harmless. Once \<^verbatim>\<open>run_once\<close> has succeeded on a message over the
  in-memory ports, running it again on a delivery of the same message to the same session
  reports \<^verbatim>\<open>DuplicateMessage\<close>, and the provider, the tools, the outbound queue, the
  dead-letter queue, the store and the breaker are left exactly as they were: the only change
  is that the delivery is taken off the inbound queue.\<close>

theorem redelivery_is_duplicate:
  assumes "run_once a h memory_ports sub p0 = Some (Inr out, p1)"
    and "queue (mem_inbound (pump_world p0)) = msg # rest"
    and "queue (mem_inbound (pump_world p1)) = msg' # rest'"
    and "message_id (header msg') = message_id (header msg)"
    and "hdr_session_key (header msg') = hdr_session_key (header msg)"
  shows "\<exists>p2. run_once a h memory_ports sub p1 =
      Some (Inr (pump_outcome msg' DuplicateMessage Completed), p2) \<and>
    pump_world p2 = (pump_world p1)\<lparr>mem_inbound := (mem_inbound (pump_world p1))\<lparr>queue := rest'\<rparr>\<rparr>"
proof -
  let ?in = "\<lambda>m. \<lparr>tm_payload = m, ack_handle = \<lparr>broker_message_id = message_id (header m),
      delivery_attempt = attempt (header m)\<rparr>\<rparr>"
  have took: "port_consume memory_ports sub (pump_world p) =
      (Inr (?in m), (pump_world p)\<lparr>mem_inbound := (mem_inbound (pump_world p))\<lparr>queue := q\<rparr>\<rparr>)"
    if "queue (mem_inbound (pump_world p)) = m # q" for p :: "'a mem_world pump" and m q
    using that by (simp add: memory_ports_def consume_def)
  have "seen (dedupe_key msg) (mem_store (pump_world p1))"
    using memory_ports.run_once_marks [OF assms(1) took [OF assms(2)]] by simp
  then have "seen (dedupe_key (tm_payload (?in msg'))) (mem_store (pump_world p1))"
    using assms(4,5) by (simp add: dedupe_key_def)
  from memory_ports.run_once_duplicate [OF took [OF assms(3)] this] show ?thesis
    by (simp add: memory_ports_def ack_def Let_def)
qed

theorem redelivery_is_duplicate_witness:
  "\<exists>out p1 p2. run_once mem_loop mem_host memory_ports sample_subscription
      (mem_start [sample_inbound ''hi'', sample_inbound ''hi''] [reply ''done'' [] 7]) = Some (Inr out, p1) \<and>
    run_once mem_loop mem_host memory_ports sample_subscription p1 =
      Some (Inr (pump_outcome (sample_inbound ''hi'') DuplicateMessage Completed), p2) \<and>
    length (published (mem_outbound (pump_world p2))) = 1"
proof -
  let ?p0 = "mem_start [sample_inbound ''hi'', sample_inbound ''hi''] [reply ''done'' [] 7]"
  obtain out p1 where r: "run_once mem_loop mem_host memory_ports sample_subscription ?p0 = Some (Inr out, p1)"
    and q: "queue (mem_inbound (pump_world p1)) = [sample_inbound ''hi'']"
    and l: "length (published (mem_outbound (pump_world p1))) = 1"
    using mem_run_once by blast
  have q0: "queue (mem_inbound (pump_world ?p0)) = [sample_inbound ''hi'', sample_inbound ''hi'']"
    by (simp add: mem_start_def enqueue_def new_transport_def)
  from redelivery_is_duplicate [OF r q0 q] r l show ?thesis by auto
qed

section \<open>Properties of the reliable pump\<close>

lemma run_once_reliable_cases:
  assumes "run_once_reliable a h P sub decide dlp p0 = Some (r, p')" and "trace p0 = []"
  obtains (no_message) e where "r = Inl e" "trace p' = [Consumed False]"
  | (duplicate) inbound :: "inbound_message transport_message" where
      "trace p' = [Consumed True, SeenAsked (dedupe_key (tm_payload inbound)) True,
         Acked (ack_handle inbound) (is_ok r)]"
      "is_ok r \<longrightarrow> r = Inr (pump_outcome (tm_payload inbound) DuplicateMessage Completed)"
  | (fresh) inbound cs where
      "trace p' = [Consumed True, SeenAsked (dedupe_key (tm_payload inbound)) False] @ cs"
      "life inbound dlp decide r (max (attempt (header (tm_payload inbound))) 1) cs"
proof -
  obtain rc p1 where c: "do_consume P sub p0 = (rc, p1)" by fastforce
  note t1 = do_trace(4) [OF c]
  show thesis
  proof (cases rc)
    case (Inl e)
    then show thesis using assms c t1 no_message by (auto simp: run_once_reliable_def)
  next
    case (Inr inbound)
    obtain b p2 where s: "do_seen P (dedupe_key (tm_payload inbound)) p1 = (b, p2)" by fastforce
    have t2: "trace p2 = [Consumed True, SeenAsked (dedupe_key (tm_payload inbound)) b]"
      using do_trace(5) [OF s] t1 Inr assms(2) by simp
    show thesis
    proof (cases b)
      case True
      then have "ack_and_return P (ack_handle inbound)
          (pump_outcome (tm_payload inbound) DuplicateMessage Completed) p2 = (r, p')"
        using assms c Inr s by (simp add: run_once_reliable_def Let_def)
      from ack_and_return_cases [OF this] show thesis using t2 True by (intro duplicate [of inbound]) auto
    next
      case False
      then have "retry_loop a h P decide dlp inbound (max (attempt (header (tm_payload inbound))) 1) p2
          = Some (r, p')"
        using assms c Inr s by (simp add: run_once_reliable_def Let_def)
      from retry_loop_lived [OF this] show thesis using t2 False fresh [of inbound] by (auto simp: lived_def)
    qed
  qed
qed

lemma reliable_pump_returns:
  assumes "0 < run_max_tool_iterations (limits a) \<or> call_limit_set (execution_limits_of (limits a))"
  shows "\<exists>r p'. run_once_reliable a h P sub (classify pol) dlp p0 = Some (r, p')"
proof -
  have proc: "\<exists>o' w'. process_message a h msg w = Some (o', w')" for msg w
    using message_returns [OF assms, of h msg False w] by (auto simp: process_message_def)
  obtain rc p1 where c: "do_consume P sub p0 = (rc, p1)" by fastforce
  show ?thesis
  proof (cases rc)
    case (Inl e)
    then show ?thesis using c by (simp add: run_once_reliable_def)
  next
    case (Inr inbound)
    obtain b p2 where s: "do_seen P (dedupe_key (tm_payload inbound)) p1 = (b, p2)" by fastforce
    obtain r where "retry_loop a h P (classify pol) dlp inbound
        (max (attempt (header (tm_payload inbound))) 1) p2 = Some r"
      using backoff.retry_loop_returns [OF proc] by blast
    with c s Inr show ?thesis
      by (cases b; cases r) (auto simp: run_once_reliable_def Let_def)
  qed
qed



text \<open>A message is processed at most \<^verbatim>\<open>max_attempts\<close> times (once when that is zero), however
  often the breaker, the provider or the outbound transport fail, and not at all when it was
  seen before.\<close>

theorem reliable_attempts_bounded:
  assumes "run_once_reliable a h P sub (classify pol) dlp p0 = Some (r, p')" and "trace p0 = []"
  shows "tally is_processed (trace p') \<le> max 1 (unat (max_attempts pol)) \<and>
    (\<forall>k. SeenAsked k True \<in> set (trace p') \<longrightarrow> tally is_processed (trace p') = 0)"
  using assms
proof (cases rule: run_once_reliable_cases)
  case (fresh inbound cs)
  have one: "1 \<le> unat (max (attempt (header (tm_payload inbound))) 1)"
    using word_le_nat_alt [of 1 "max (attempt (header (tm_payload inbound))) 1"] by simp
  have "tally is_processed cs \<le> unat (max_attempts pol) - unat (max (attempt (header (tm_payload inbound))) 1) + 1"
    using fresh(2) by (rule backoff.life_attempts_bounded)
  moreover have "SeenAsked k True \<notin> set cs" for k
    using life_never_asks [OF fresh(2)] by blast
  ultimately show ?thesis using fresh(1) one by auto
qed auto

theorem reliable_attempts_bounded_witness:
  "\<exists>r p'. run_once_reliable mem_loop mem_host memory_ports sample_subscription (classify sample_policy)
     sample_dlp (mem_start [sample_inbound ''hi''] []) = Some (r, p') \<and> tally is_processed (trace p') \<le> 5"
proof -
  let ?p0 = "mem_start [sample_inbound ''hi''] []"
  obtain r p' where run: "run_once_reliable mem_loop mem_host memory_ports sample_subscription
      (classify sample_policy) sample_dlp ?p0 = Some (r, p')"
    using reliable_pump_returns
      [of mem_loop mem_host memory_ports sample_subscription sample_policy sample_dlp ?p0]
    by (auto simp: sample_limits_def)
  have "trace ?p0 = []" by (simp add: mem_start_def)
  from reliable_attempts_bounded [OF run this] run show ?thesis by (auto simp: sample_policy_def)
qed

text \<open>C2: The fate of a message. When the pump succeeds, the message has been acknowledged
  exactly once, as the last call, and exactly one of four things happened: it was a duplicate
  and nothing was done; its reply was published once and it was marked as seen; it was
  published once to the dead-letter queue; or it was dropped because its error is not
  retryable. When the pump fails, the message has not been acknowledged, so that the transport
  can deliver it again. In every case at most one reply gets out, and a message is marked as
  seen exactly when its reply got out.\<close>

theorem reliable_fate:
  assumes "run_once_reliable a h P sub decide dlp p0 = Some (r, p')" and "trace p0 = []"
  shows "tally is_acked (trace p') = (if is_ok r then 1 else 0) \<and>
    tally is_marked (trace p') = tally is_replied (trace p') \<and>
    tally is_replied (trace p') + tally is_dead_lettered (trace p') \<le> 1 \<and>
    (case r of
       Inl e \<Rightarrow> True
     | Inr out \<Rightarrow> is_acked (last (trace p')) \<and>
         (outcome_error out = Some DuplicateMessage \<and> tally is_processed (trace p') = 0 \<or>
          outcome_error out = None \<and> tally is_replied (trace p') = 1 \<or>
          outcome_error out = Some SentToDeadLetter \<and> tally is_dead_lettered (trace p') = 1 \<or>
          outcome_error out = Some RetryExhausted \<and> tally is_replied (trace p') = 0 \<and>
            tally is_dead_lettered (trace p') = 0))"
  using assms
proof (cases rule: run_once_reliable_cases)
  case (no_message e)
  then show ?thesis by simp
next
  case (duplicate inbound)
  then show ?thesis by (cases r) (auto simp: pump_outcome_def)
next
  case (fresh inbound cs)
  then show ?thesis using life_fate [OF fresh(2)]
    by (auto simp: fate_def pump_outcome_def split: sum.splits)
qed

theorem reliable_fate_witness:
  "\<exists>out p'. run_once_reliable mem_loop mem_host memory_ports sample_subscription (classify sample_policy)
     sample_dlp (mem_start [sample_inbound ''hi''] [reply ''done'' [] 7]) = Some (Inr out, p') \<and>
     outcome_error out = None \<and> tally is_replied (trace p') = 1 \<and> tally is_acked (trace p') = 1 \<and>
     tally is_dead_lettered (trace p') = 0"
proof -
  let ?p0 = "mem_start [sample_inbound ''hi''] [reply ''done'' [] 7]"
  let ?w1 = "(pump_world ?p0)\<lparr>mem_inbound := new_transport\<rparr>"
  have "mem_env ?w1 = [reply ''done'' [] 7]" by (simp add: mem_start_def)
  then obtain out w' m where proc:
    "process_message mem_loop mem_host (sample_inbound ''hi'') ?w1 = Some (out, w')"
    "final_response out = Some m" "outcome_error out = None" "w' = ?w1\<lparr>mem_env := []\<rparr>"
    using mem_reply [of "?p0\<lparr>pump_world := ?w1\<rparr>"] by auto
  then obtain p' where run: "run_once_reliable mem_loop mem_host memory_ports sample_subscription
      (classify sample_policy) sample_dlp ?p0 = Some (Inr out, p')"
    by (simp add: run_once_reliable_def do_consume_def memory_ports_def consume_def mem_start_def enqueue_def
       new_transport_def do_seen_def seen_def new_idempotency_store_def logged_def do_process_def do_publish_def
       publish_def Let_def ack_and_return_def do_ack_def ack_def do_mark_seen_def retry_loop.simps attempt_step_def
       do_allow_def allow_request_def sample_breaker_def new_circuit_breaker_def attempt_published_def do_notify_def)
  have "trace ?p0 = []" by (simp add: mem_start_def)
  from reliable_fate [OF run this] run proc(3) show ?thesis by auto
qed
section \<open>Retry decisions by error code\<close>

text \<open>What becomes of each error code under the backoff policy. Below the maximum of
  attempts, validation, schema and duplicate errors are dropped, an unavailable provider or
  transport and a tool timeout are retried after the backoff, and every other error (an exceeded
  budget, an invalid provider response and an exhausted tool loop among them) is retried at
  once; at the maximum every error goes to the dead-letter queue, validation errors included.\<close>

theorem decision_by_error_code:
  "classify pol (classify_error_kind code) att =
     (if max_attempts pol \<le> att then SendToDeadLetter
      else if code \<in> {Some ValidationFailed, Some InvalidSchema, Some DuplicateMessage} then Abort
      else if code \<in> {Some ProviderUnavailable, Some ToolTimeout, Some TransportUnavailable}
      then RetryAfter (delay_for pol att)
      else RetryNow)"
proof (cases code)
  case (Some c)
  then show ?thesis by (cases c) (simp_all add: classify_def classify_error_kind_def)
qed (simp add: classify_def classify_error_kind_def)

end
