(* ===== verification/Memory_Governance.thy ===== *)
theory Memory_Governance
  imports Json_Value "HOL-Library.Product_Lexorder"
begin

text \<open>
  \<^verbatim>\<open>klaw-memory/src/governance.rs\<close>, the table operations of \<^verbatim>\<open>service.rs\<close> and the \<^verbatim>\<open>add\<close>
  action of \<^verbatim>\<open>klaw-tool/src/memory.rs\<close>: every write of a long-term memory is normalised, reuses
  the identifier of an active record with the same content, and supersedes the active records of
  the same kind and topic. The table \<^verbatim>\<open>memories\<close> is an ordered map from identifiers to records;
  the full-text and vector indexes, and failures of the database, are outside the model. Fresh
  identifiers and clock readings are arguments.
\<close>

section \<open>Types\<close>

record memory_record =
  mem_id :: string
  mem_scope :: string
  mem_content :: string
  mem_metadata :: json
  mem_pinned :: bool
  mem_created_at_ms :: int
  mem_updated_at_ms :: int

record upsert_memory_input =
  up_id :: "string option"
  up_scope :: string
  up_content :: string
  up_metadata :: json
  up_pinned :: bool

datatype memory_error =
    InvalidConfig string | InvalidQuery string | EmbeddingFailed string | StorageFailed string
  | SerializationFailed string | CapabilityUnavailable string

datatype long_term_memory_kind = Identity | Preference | ProjectRule | Workflow | Fact | Constraint

fun kind_as_str :: "long_term_memory_kind \<Rightarrow> string" where
  "kind_as_str Identity = ''identity''"
| "kind_as_str Preference = ''preference''"
| "kind_as_str ProjectRule = ''project_rule''"
| "kind_as_str Workflow = ''workflow''"
| "kind_as_str Fact = ''fact''"
| "kind_as_str Constraint = ''constraint''"

definition kind_parse :: "string \<Rightarrow> long_term_memory_kind option" where
  "kind_parse v =
     (let t = trim v
      in if t = ''identity'' then Some Identity
         else if t = ''preference'' then Some Preference
         else if t = ''project_rule'' then Some ProjectRule
         else if t = ''workflow'' then Some Workflow
         else if t = ''fact'' then Some Fact
         else if t = ''constraint'' then Some Constraint
         else None)"

fun kind_priority :: "long_term_memory_kind \<Rightarrow> u8" where
  "kind_priority Identity = 5"
| "kind_priority ProjectRule = 4"
| "kind_priority Constraint = 3"
| "kind_priority Preference = 2"
| "kind_priority Workflow = 1"
| "kind_priority Fact = 0"

datatype long_term_memory_priority = High | Medium | Low

fun priority_as_str :: "long_term_memory_priority \<Rightarrow> string" where
  "priority_as_str High = ''high''"
| "priority_as_str Medium = ''medium''"
| "priority_as_str Low = ''low''"

definition priority_parse :: "string \<Rightarrow> long_term_memory_priority option" where
  "priority_parse v =
     (let t = trim v
      in if t = ''high'' then Some High else if t = ''medium'' then Some Medium
         else if t = ''low'' then Some Low else None)"

fun priority_rank :: "long_term_memory_priority \<Rightarrow> u8" where
  "priority_rank High = 2"
| "priority_rank Medium = 1"
| "priority_rank Low = 0"

datatype long_term_memory_status = Active | Superseded | Archived | Rejected

fun status_as_str :: "long_term_memory_status \<Rightarrow> string" where
  "status_as_str Active = ''active''"
| "status_as_str Superseded = ''superseded''"
| "status_as_str Archived = ''archived''"
| "status_as_str Rejected = ''rejected''"

definition status_parse :: "string \<Rightarrow> long_term_memory_status option" where
  "status_parse v =
     (let t = trim v
      in if t = ''active'' then Some Active else if t = ''superseded'' then Some Superseded
         else if t = ''archived'' then Some Archived else if t = ''rejected'' then Some Rejected
         else None)"

fun default_priority_for_kind :: "long_term_memory_kind \<Rightarrow> long_term_memory_priority" where
  "default_priority_for_kind Identity = High"
| "default_priority_for_kind ProjectRule = High"
| "default_priority_for_kind Preference = Medium"
| "default_priority_for_kind Workflow = Medium"
| "default_priority_for_kind Constraint = Medium"
| "default_priority_for_kind Fact = Low"

record governed_long_term_write =
  primary :: upsert_memory_input
  superseded_updates :: "upsert_memory_input list"
  reused_existing_id :: "string option"
  supersedes_ids :: "string list"
  plan_kind :: long_term_memory_kind

section \<open>Reading a record\<close>

definition meta_str :: "memory_record \<Rightarrow> string \<Rightarrow> string option" where
  "meta_str r k = Option.bind (json_get (mem_metadata r) k) as_str"

definition read_kind :: "memory_record \<Rightarrow> long_term_memory_kind option" where
  "read_kind r = Option.bind (meta_str r ''kind'') kind_parse"

definition read_status :: "memory_record \<Rightarrow> long_term_memory_status option" where
  "read_status r = Option.bind (meta_str r ''status'') status_parse"

definition read_topic :: "memory_record \<Rightarrow> string option" where
  "read_topic r = nonempty_trimmed (meta_str r ''topic'')"

definition read_priority :: "memory_record \<Rightarrow> long_term_memory_priority option" where
  "read_priority r = Option.bind (meta_str r ''priority'') priority_parse"

definition read_archived_at :: "memory_record \<Rightarrow> int option" where
  "read_archived_at r = Option.bind (json_get (mem_metadata r) ''archived_at'') as_i64"

definition is_summary_record :: "memory_record \<Rightarrow> bool" where
  "is_summary_record r = unwrap_or (Option.bind (json_get (mem_metadata r) ''summary'') as_bool) False"

definition effective_priority :: "memory_record \<Rightarrow> long_term_memory_priority" where
  "effective_priority r =
     unwrap_or (read_priority r) (default_priority_for_kind (unwrap_or (read_kind r) Fact))"

definition is_inactive_long_term_record :: "memory_record \<Rightarrow> bool" where
  "is_inactive_long_term_record r \<longleftrightarrow>
     mem_scope r = ''long_term'' \<and>
     (read_status r = Some Archived \<or> read_status r = Some Rejected \<or> read_status r = Some Superseded)"

definition is_active_long_term_with_kind :: "memory_record \<Rightarrow> long_term_memory_kind \<Rightarrow> bool" where
  "is_active_long_term_with_kind r kind \<longleftrightarrow>
     mem_scope r = ''long_term'' \<and> \<not> is_summary_record r \<and>
     unwrap_or (read_status r) Active = Active \<and> unwrap_or (read_kind r) Fact = kind"

definition normalize_content :: "string \<Rightarrow> string" where
  "normalize_content c = join '' '' (split_whitespace c)"

section \<open>Normalising a draft\<close>

definition map_str :: "json_map \<Rightarrow> string \<Rightarrow> string option" where
  "map_str m k = Option.bind (bt_get m k) as_str"

definition normalize_kind :: "json_map \<Rightarrow> memory_error + long_term_memory_kind" where
  "normalize_kind m =
     (case map_str m ''kind'' of
        Some raw \<Rightarrow> ok_or (kind_parse raw) (InvalidQuery (''invalid memory metadata.kind `'' @ raw
          @ ''`; expected one of identity/preference/project_rule/workflow/fact/constraint''))
      | None \<Rightarrow> Ok Fact)"

definition normalize_incoming_status :: "json_map \<Rightarrow> memory_error + unit" where
  "normalize_incoming_status m =
     (case map_str m ''status'' of
        None \<Rightarrow> Ok ()
      | Some raw \<Rightarrow>
          (case status_parse raw of
             None \<Rightarrow> Err (InvalidQuery (''invalid memory metadata.status `'' @ raw @ ''`''))
           | Some status \<Rightarrow>
               if status \<noteq> Active
               then Err (InvalidQuery ''new long-term memories can only be created with status `active`; other statuses are system-managed'')
               else Ok ()))"

definition normalize_priority :: "json_map \<Rightarrow> long_term_memory_kind \<Rightarrow> memory_error + long_term_memory_priority" where
  "normalize_priority m kind =
     (case map_str m ''priority'' of
        Some raw \<Rightarrow> ok_or (priority_parse raw) (InvalidQuery (''invalid memory metadata.priority `'' @ raw
          @ ''`; expected one of high/medium/low''))
      | None \<Rightarrow> Ok (default_priority_for_kind kind))"

text \<open>\<^verbatim>\<open>dedupe_strings\<close>: trimmed, non-empty, first occurrences in order.\<close>

fun dedupe_from :: "string set \<Rightarrow> string list \<Rightarrow> string list" where
  "dedupe_from seen_values [] = []"
| "dedupe_from seen_values (v # vs) =
     (let t = trim v
      in if t = [] then dedupe_from seen_values vs
         else if t \<in> seen_values then dedupe_from seen_values vs
         else t # dedupe_from (insert t seen_values) vs)"

definition dedupe_strings :: "string list \<Rightarrow> string list" where
  "dedupe_strings vs = dedupe_from {} vs"

definition supersedes_error :: memory_error where
  "supersedes_error = InvalidQuery ''metadata.supersedes must be a string or string array''"

definition normalize_supersedes_field :: "json_map \<Rightarrow> memory_error + string list" where
  "normalize_supersedes_field m =
     (case bt_get m ''supersedes'' of
        None \<Rightarrow> Ok []
      | Some (JString v) \<Rightarrow> Ok (dedupe_strings [v])
      | Some (JArray vs) \<Rightarrow>
          and_then (collect_results (map (\<lambda>v. ok_or (as_str v) supersedes_error) vs))
            (\<lambda>values. Ok (dedupe_strings values))
      | Some _ \<Rightarrow> Err supersedes_error)"

definition normalize_optional_string_field :: "json_map \<Rightarrow> string \<Rightarrow> string option \<times> json_map" where
  "normalize_optional_string_field m field =
     (let value = get_trimmed_str m field
      in (value, if value = None then bt_remove field m else m))"

definition metadata_object :: "memory_record \<Rightarrow> json_map" where
  "metadata_object r = unwrap_or (as_object (mem_metadata r)) []"

definition string_array :: "string list \<Rightarrow> json" where
  "string_array vs = JArray (map JString vs)"

definition merge_existing_metadata :: "memory_record \<Rightarrow> json_map \<Rightarrow> string list \<Rightarrow> json" where
  "merge_existing_metadata r m supersedes =
     (let merged = bt_extend (metadata_object r) m
      in JObject (if supersedes = [] then merged
                  else bt_insert ''supersedes'' (string_array supersedes) merged))"

definition superseded_metadata :: "memory_record \<Rightarrow> string \<Rightarrow> json" where
  "superseded_metadata r by_id =
     JObject (bt_insert ''superseded_by'' (JString by_id)
       (bt_insert ''status'' (JString (status_as_str Superseded)) (metadata_object r)))"

section \<open>Governance\<close>

definition find_duplicate :: "memory_record list \<Rightarrow> long_term_memory_kind \<Rightarrow> string \<Rightarrow> memory_record option" where
  "find_duplicate rs kind c =
     List.find (\<lambda>r. is_active_long_term_with_kind r kind \<and> normalize_content (mem_content r) = c) rs"

definition find_conflicts :: "memory_record list \<Rightarrow> long_term_memory_kind \<Rightarrow> string \<Rightarrow> string option \<Rightarrow>
    memory_record list" where
  "find_conflicts rs kind pid topic =
     (case topic of
        None \<Rightarrow> []
      | Some t \<Rightarrow> filter (\<lambda>r. is_active_long_term_with_kind r kind \<and> mem_id r \<noteq> pid \<and>
                             read_topic r = Some t) rs)"

definition governed_metadata :: "json_map \<Rightarrow> long_term_memory_kind \<Rightarrow> long_term_memory_priority \<Rightarrow>
    string option \<Rightarrow> string list \<Rightarrow> json_map" where
  "governed_metadata m kind prio topic supersedes =
     (let m1 = bt_insert ''status'' (JString (status_as_str Active))
                 (bt_insert ''priority'' (JString (priority_as_str prio))
                   (bt_insert ''kind'' (JString (kind_as_str kind)) m));
          m2 = (case topic of None \<Rightarrow> m1 | Some t \<Rightarrow> bt_insert ''topic'' (JString t) m1)
      in if supersedes = [] then bt_remove ''supersedes'' m2
         else bt_insert ''supersedes'' (string_array supersedes) m2)"

definition superseded_update :: "string \<Rightarrow> memory_record \<Rightarrow> upsert_memory_input" where
  "superseded_update pid r =
     \<lparr>up_id = Some (mem_id r), up_scope = mem_scope r, up_content = mem_content r,
      up_metadata = superseded_metadata r pid, up_pinned = mem_pinned r\<rparr>"

text \<open>The plan once the draft has been validated; \<open>fresh\<close> is the identifier that
  \<^verbatim>\<open>Uuid::new_v4()\<close> would give.\<close>

definition govern_plan :: "string \<Rightarrow> memory_record list \<Rightarrow> upsert_memory_input \<Rightarrow> string \<Rightarrow> json_map \<Rightarrow>
    long_term_memory_kind \<Rightarrow> long_term_memory_priority \<Rightarrow> string option \<Rightarrow> string list \<Rightarrow>
    governed_long_term_write" where
  "govern_plan fresh rs draft c m kind prio topic supersedes0 =
     (let dup = find_duplicate rs kind c;
          pid = unwrap_or (or_else (map_option mem_id dup) (up_id draft)) fresh;
          conflicts = find_conflicts rs kind pid topic;
          supersedes = dedupe_strings (supersedes0 @ map mem_id conflicts);
          meta = governed_metadata m kind prio topic supersedes
      in \<lparr>primary = \<lparr>up_id = Some pid, up_scope = ''long_term'', up_content = c,
                     up_metadata = (case dup of
                         Some r \<Rightarrow> merge_existing_metadata r meta supersedes
                       | None \<Rightarrow> JObject meta),
                     up_pinned = (up_pinned draft \<or> (case dup of None \<Rightarrow> False | Some r \<Rightarrow> mem_pinned r))\<rparr>,
          superseded_updates = map (superseded_update pid) conflicts,
          reused_existing_id = map_option mem_id dup,
          supersedes_ids = supersedes, plan_kind = kind\<rparr>)"

definition govern_long_term_write :: "string \<Rightarrow> memory_record list \<Rightarrow> upsert_memory_input \<Rightarrow>
    memory_error + governed_long_term_write" where
  "govern_long_term_write fresh rs draft =
     (if up_scope draft \<noteq> ''long_term''
      then Err (InvalidQuery ''long-term governance only supports scope `long_term`'')
      else
        (let c = normalize_content (up_content draft)
         in if c = [] then Err (InvalidQuery ''content cannot be empty'')
            else
              (case as_object (up_metadata draft) of
                 None \<Rightarrow> Err (InvalidQuery ''metadata must be a JSON object'')
               | Some m \<Rightarrow>
                   and_then (normalize_kind m) (\<lambda>kind.
                   and_then (normalize_incoming_status m) (\<lambda>_.
                   and_then (normalize_priority m kind) (\<lambda>prio.
                     (let (topic, m1) = normalize_optional_string_field m ''topic''
                      in and_then (normalize_supersedes_field m1) (\<lambda>supersedes.
                           Ok (govern_plan fresh rs draft c (bt_remove ''superseded_by'' m1)
                                 kind prio topic supersedes)))))))))"

section \<open>The memory table\<close>

type_synonym memory_table = "(string, memory_record) btree_map"

text \<open>\<^verbatim>\<open>INSERT .. ON CONFLICT(id) DO UPDATE\<close>: an existing row keeps its creation time.\<close>

definition upsert :: "string \<Rightarrow> int \<Rightarrow> upsert_memory_input \<Rightarrow> memory_table \<Rightarrow>
    (memory_error + memory_record) \<times> memory_table" where
  "upsert fresh now inp t =
     (if trim (up_scope inp) = [] then (Err (InvalidQuery ''scope cannot be empty''), t)
      else if trim (up_content inp) = [] then (Err (InvalidQuery ''content cannot be empty''), t)
      else
        (let i = unwrap_or (up_id inp) fresh;
             r = \<lparr>mem_id = i, mem_scope = up_scope inp, mem_content = up_content inp,
                  mem_metadata = up_metadata inp, mem_pinned = up_pinned inp,
                  mem_created_at_ms = (case bt_get t i of None \<Rightarrow> now | Some old \<Rightarrow> mem_created_at_ms old),
                  mem_updated_at_ms = now\<rparr>
         in (Ok r, bt_insert i r t)))"

text \<open>\<^verbatim>\<open>ORDER BY pinned DESC, updated_at_ms DESC, created_at_ms DESC, id ASC\<close>.\<close>

definition list_scope_records :: "string \<Rightarrow> memory_table \<Rightarrow> memory_record list" where
  "list_scope_records scope t =
     sort_key (\<lambda>r. (\<not> mem_pinned r, - mem_updated_at_ms r, - mem_created_at_ms r, mem_id r))
       (filter (\<lambda>r. mem_scope r = scope) (map snd t))"

definition memory_get :: "string \<Rightarrow> memory_table \<Rightarrow> memory_record option" where
  "memory_get i t = bt_get t i"

definition memory_delete :: "string \<Rightarrow> memory_table \<Rightarrow> bool \<times> memory_table" where
  "memory_delete i t = (bt_contains t i, bt_remove i t)"

definition memory_pin :: "string \<Rightarrow> bool \<Rightarrow> int \<Rightarrow> memory_table \<Rightarrow> memory_record option \<times> memory_table" where
  "memory_pin i p now t =
     (case bt_get t i of
        None \<Rightarrow> (None, t)
      | Some r \<Rightarrow>
          (let r' = r\<lparr>mem_pinned := p, mem_updated_at_ms := now\<rparr>
           in (Some r', bt_insert i r' t)))"

fun upsert_all :: "int \<Rightarrow> upsert_memory_input list \<Rightarrow> memory_table \<Rightarrow> (memory_error + unit) \<times> memory_table" where
  "upsert_all now [] t = (Ok (), t)"
| "upsert_all now (u # us) t =
     (case upsert [] now u t of
        (Inl e, t') \<Rightarrow> (Inl e, t')
      | (Inr _, t') \<Rightarrow> upsert_all now us t')"

text \<open>\<^verbatim>\<open>MemoryTool::add_long_term_memory\<close>, up to the JSON it prints: the stored record and the
  plan it reports. One clock reading stands for the readings of the single writes.\<close>

definition add_long_term_memory :: "string \<Rightarrow> int \<Rightarrow> string \<Rightarrow> json \<Rightarrow> bool \<Rightarrow> memory_table \<Rightarrow>
    (memory_error + memory_record \<times> governed_long_term_write) \<times> memory_table" where
  "add_long_term_memory fresh now content metadata pinned t =
     (case govern_long_term_write fresh (list_scope_records ''long_term'' t)
             \<lparr>up_id = None, up_scope = ''long_term'', up_content = content, up_metadata = metadata,
              up_pinned = pinned\<rparr> of
        Inl e \<Rightarrow> (Inl e, t)
      | Inr plan \<Rightarrow>
          (case upsert fresh now (primary plan) t of
             (Inl e, t1) \<Rightarrow> (Inl e, t1)
           | (Inr r, t1) \<Rightarrow>
               (case upsert_all now (superseded_updates plan) t1 of
                  (Inl e, t2) \<Rightarrow> (Inl e, t2)
                | (Inr _, t2) \<Rightarrow> (Inr (r, plan), t2))))"

end
