(* ===== verification/Memory_Properties.thy ===== *)
theory Memory_Properties
  imports Memory_Governance
begin

text \<open>
  Properties of governed long-term memory writes: the table of memories stays well formed, no two
  active records of one kind share a topic or their content, and a write changes exactly the rows
  it reports.
\<close>

section \<open>Normalisation and parsing\<close>

lemma normalize_content_idem: "normalize_content (normalize_content c) = normalize_content c"
  by (simp add: normalize_content_def split_whitespace_join split_whitespace_words)

lemma normalize_content_not_blank:
  assumes "normalize_content c \<noteq> []"
  shows "trim (normalize_content c) \<noteq> []"
proof -
  obtain w where w: "w \<in> set (split_whitespace c)"
    using assms by (cases "split_whitespace c") (auto simp: normalize_content_def)
  then have "is_word w" using split_whitespace_words by blast
  then obtain x where "x \<in> set w" "\<not> is_whitespace x" by (cases w) (auto simp: is_word_def)
  then show ?thesis using set_join_superset [OF w, of "'' ''"]
    by (auto simp: trim_empty_iff normalize_content_def)
qed

lemma kind_parse_as_str [simp]: "kind_parse (kind_as_str k) = Some k"
  by (cases k) (simp_all add: kind_parse_def trim_eval)

lemma priority_parse_as_str [simp]: "priority_parse (priority_as_str p) = Some p"
  by (cases p) (simp_all add: priority_parse_def trim_eval)

lemma status_parse_as_str [simp]: "status_parse (status_as_str s) = Some s"
  by (cases s) (simp_all add: status_parse_def trim_eval)

lemma status_parse_strings [simp]:
  "status_parse ''active'' = Some Active" "status_parse ''superseded'' = Some Superseded"
  "status_parse ''archived'' = Some Archived" "status_parse ''rejected'' = Some Rejected"
  by (simp_all add: status_parse_def trim_eval)

section \<open>The table\<close>

definition table_ok :: "memory_table \<Rightarrow> bool" where
  "table_ok t \<longleftrightarrow> sorted_map t \<and>
     (\<forall>(i, r) \<in> set t. mem_id r = i \<and> trim (mem_content r) \<noteq> [] \<and> trim (mem_scope r) \<noteq> [])"

lemma table_ok_get:
  "table_ok t \<Longrightarrow> bt_get t i = Some r \<Longrightarrow>
   mem_id r = i \<and> trim (mem_content r) \<noteq> [] \<and> trim (mem_scope r) \<noteq> []"
  using bt_get_in_set by (fastforce simp: table_ok_def)

lemma table_ok_insert:
  assumes "table_ok t" "mem_id r = i" "trim (mem_content r) \<noteq> []" "trim (mem_scope r) \<noteq> []"
  shows "table_ok (bt_insert i r t)"
  using assms set_bt_insert_subset [of i r t] by (auto simp: table_ok_def)

lemma upsert_table_ok: "table_ok t \<Longrightarrow> table_ok (snd (upsert fresh now inp t))"
  by (simp add: upsert_def Let_def table_ok_insert)

lemma list_scope_records_set:
  assumes "table_ok t"
  shows "r \<in> set (list_scope_records s t) \<longleftrightarrow> bt_get t (mem_id r) = Some r \<and> mem_scope r = s"
proof -
  have "r \<in> snd ` set t \<longleftrightarrow> bt_get t (mem_id r) = Some r"
  proof
    assume "r \<in> snd ` set t"
    then obtain i where "(i, r) \<in> set t" by auto
    with assms show "bt_get t (mem_id r) = Some r"
      by (auto simp: table_ok_def intro: in_set_bt_get)
  next
    assume "bt_get t (mem_id r) = Some r"
    then show "r \<in> snd ` set t" using bt_get_in_set by force
  qed
  then show ?thesis by (auto simp: list_scope_records_def)
qed

lemma list_scope_records_distinct:
  assumes "table_ok t"
  shows "distinct (map mem_id (list_scope_records s t))"
proof -
  have ids: "map (mem_id \<circ> snd) t = map fst t"
    using assms by (auto simp: table_ok_def)
  have "distinct (map mem_id (map snd t))"
    using assms sorted_map_distinct [of t] by (simp add: table_ok_def ids)
  then have inj: "inj_on mem_id (set (map snd t))" and d: "distinct (map snd t)"
    using distinct_map [of mem_id "map snd t"] by blast+
  have "distinct (list_scope_records s t)"
    unfolding list_scope_records_def by (simp only: distinct_sort distinct_filter d)
  moreover have "set (list_scope_records s t) \<subseteq> set (map snd t)"
    by (auto simp: list_scope_records_def)
  ultimately show ?thesis using inj by (auto simp: distinct_map intro: inj_on_subset)
qed

text \<open>Superseding a list of rows of the table: each is replaced in place.\<close>

definition superseded_row :: "int \<Rightarrow> string \<Rightarrow> memory_record \<Rightarrow> memory_record" where
  "superseded_row now pid r = r\<lparr>mem_metadata := superseded_metadata r pid, mem_updated_at_ms := now\<rparr>"

lemma upsert_superseded:
  assumes "table_ok t" "bt_get t (mem_id r) = Some r"
  shows "upsert f now (superseded_update pid r) t =
    (Ok (superseded_row now pid r), bt_insert (mem_id r) (superseded_row now pid r) t)"
  using table_ok_get [OF assms] assms(2)
  by (cases r) (simp add: upsert_def superseded_update_def superseded_row_def Let_def)

lemma upsert_all_superseded:
  assumes "table_ok t" "\<forall>r \<in> set cs. bt_get t (mem_id r) = Some r" "distinct (map mem_id cs)"
  shows "\<exists>t'. upsert_all now (map (superseded_update pid) cs) t = (Ok (), t') \<and> table_ok t' \<and>
    (\<forall>i. bt_get t' i = (case List.find (\<lambda>r. mem_id r = i) cs of
        Some r \<Rightarrow> Some (superseded_row now pid r) | None \<Rightarrow> bt_get t i))"
  using assms
proof (induction cs arbitrary: t)
  case Nil
  then show ?case by simp
next
  case (Cons c cs)
  let ?t = "bt_insert (mem_id c) (superseded_row now pid c) t"
  have up: "upsert [] now (superseded_update pid c) t = (Ok (superseded_row now pid c), ?t)"
    using Cons.prems by (intro upsert_superseded) auto
  have "table_ok (snd (upsert [] now (superseded_update pid c) t))"
    using Cons.prems(1) by (rule upsert_table_ok)
  then have ok: "table_ok ?t" by (simp add: up)
  have rest: "\<forall>r \<in> set cs. bt_get ?t (mem_id r) = Some r"
  proof
    fix r assume r: "r \<in> set cs"
    then have "mem_id r \<noteq> mem_id c" using Cons.prems(3) by (metis distinct.simps(2) image_eqI list.simps(9) set_map)
    moreover have "bt_get t (mem_id r) = Some r" using Cons.prems(2) r by simp
    ultimately show "bt_get ?t (mem_id r) = Some r" by simp
  qed
  have "distinct (map mem_id cs)" using Cons.prems by simp
  from Cons.IH [OF ok rest this] obtain t' where t': 
    "upsert_all now (map (superseded_update pid) cs) ?t = (Ok (), t')" "table_ok t'"
    "\<forall>i. bt_get t' i = (case List.find (\<lambda>r. mem_id r = i) cs of
        Some r \<Rightarrow> Some (superseded_row now pid r) | None \<Rightarrow> bt_get ?t i)" by blast
  have none: "List.find (\<lambda>r. mem_id r = mem_id c) cs = None"
    using Cons.prems(3) by (auto simp: find_None_iff) (metis imageI)
  show ?case
    using t' none by (intro exI [of _ t']) (auto simp: up split: option.split)
qed


section \<open>What a governed write stores\<close>

lemma json_get_metadata_object: "json_get (mem_metadata r) k = bt_get (metadata_object r) k"
  by (cases "mem_metadata r") (simp_all add: metadata_object_def)

lemma sorted_governed_metadata: "sorted_map m \<Longrightarrow> sorted_map (governed_metadata m kind prio topic sids)"
  by (simp add: governed_metadata_def Let_def split: option.split)

lemma governed_metadata_get:
  "bt_get (governed_metadata m kind prio topic sids) ''kind'' = Some (JString (kind_as_str kind))"
  "bt_get (governed_metadata m kind prio topic sids) ''priority'' = Some (JString (priority_as_str prio))"
  "bt_get (governed_metadata m kind prio topic sids) ''status'' = Some (JString (status_as_str Active))"
  "bt_get (governed_metadata m kind prio topic sids) ''topic'' =
     (case topic of Some t \<Rightarrow> Some (JString t) | None \<Rightarrow> bt_get m ''topic'')"
  by (simp_all add: governed_metadata_def Let_def split: option.split)

lemma merge_existing_metadata_get:
  assumes "sorted_map m" and "k \<noteq> ''supersedes''"
  shows "json_get (merge_existing_metadata d m sids) k =
    (case bt_get m k of Some v \<Rightarrow> Some v | None \<Rightarrow> json_get (mem_metadata d) k)"
  using assms
  by (simp add: merge_existing_metadata_def json_get_metadata_object bt_get_extend sorted_map_distinct Let_def
      split: option.split)

text \<open>The row that the primary write of a plan leaves in the table.\<close>

definition primary_row :: "int \<Rightarrow> memory_table \<Rightarrow> governed_long_term_write \<Rightarrow> memory_record" where
  "primary_row now t plan =
     (let u = primary plan; i = the (up_id u)
      in \<lparr>mem_id = i, mem_scope = up_scope u, mem_content = up_content u, mem_metadata = up_metadata u,
          mem_pinned = up_pinned u,
          mem_created_at_ms = (case bt_get t i of None \<Rightarrow> now | Some old \<Rightarrow> mem_created_at_ms old),
          mem_updated_at_ms = now\<rparr>)"

lemma govern_plan_metadata:
  assumes "sorted_map m" and "k \<in> {''kind'', ''priority'', ''status'', ''topic''}"
  shows "json_get (up_metadata (primary (govern_plan fresh rs draft c m kind prio topic sup0))) k =
    (let meta = governed_metadata m kind prio topic
           (supersedes_ids (govern_plan fresh rs draft c m kind prio topic sup0))
     in case bt_get meta k of Some v \<Rightarrow> Some v
        | None \<Rightarrow> (case find_duplicate rs kind c of None \<Rightarrow> None | Some d \<Rightarrow> json_get (mem_metadata d) k))"
proof (cases "find_duplicate rs kind c")
  case None
  then show ?thesis by (simp add: govern_plan_def Let_def split: option.split)
next
  case (Some d)
  have "k \<noteq> ''supersedes''" using assms(2) by auto
  with Some show ?thesis
    by (simp add: govern_plan_def merge_existing_metadata_get sorted_governed_metadata assms(1) Let_def
        split: option.split)
qed

lemma primary_row_reads:
  assumes "sorted_map m" and "topic = None \<Longrightarrow> bt_get m ''topic'' = None"
    and "\<And>t. topic = Some t \<Longrightarrow> trim t = t \<and> t \<noteq> []"
    and "plan = govern_plan fresh rs draft c m kind prio topic sup0"
  shows "read_kind (primary_row now t plan) = Some kind"
    and "read_status (primary_row now t plan) = Some Active"
    and "read_priority (primary_row now t plan) = Some prio"
    and "read_topic (primary_row now t plan) = (case topic of Some x \<Rightarrow> Some x
      | None \<Rightarrow> (case find_duplicate rs kind c of None \<Rightarrow> None | Some d \<Rightarrow> read_topic d))"
  using assms govern_plan_metadata [OF assms(1)]
  by (auto simp: primary_row_def read_kind_def read_status_def read_priority_def read_topic_def meta_str_def
      governed_metadata_get Let_def split: option.splits)

lemma govern_Ok:
  assumes "govern_long_term_write fresh rs draft = Ok plan"
    and "\<And>m. up_metadata draft = JObject m \<Longrightarrow> sorted_map m"
  obtains m kind prio topic sup0 where
    "plan = govern_plan fresh rs draft (normalize_content (up_content draft)) m kind prio topic sup0"
    "normalize_content (up_content draft) \<noteq> []" "up_scope draft = ''long_term''" "sorted_map m"
    "topic = None \<longrightarrow> bt_get m ''topic'' = None" "\<forall>t. topic = Some t \<longrightarrow> trim t = t \<and> t \<noteq> []"
proof -
  from assms(1) obtain m where m: "up_metadata draft = JObject m"
    by (cases "up_metadata draft")
       (auto simp: govern_long_term_write_def Let_def split: if_splits option.splits)
  define topic where "topic = get_trimmed_str m ''topic''"
  define m1 where "m1 = (if topic = None then bt_remove ''topic'' m else m)"
  from assms(1) m obtain kind prio sup0 where
    "plan = govern_plan fresh rs draft (normalize_content (up_content draft))
       (bt_remove ''superseded_by'' m1) kind prio topic sup0"
    "normalize_content (up_content draft) \<noteq> []" "up_scope draft = ''long_term''"
    by (auto simp: govern_long_term_write_def normalize_optional_string_field_def and_then_Ok_iff topic_def
        m1_def Let_def split: if_splits)
  moreover have "sorted_map (bt_remove ''superseded_by'' m1)"
    using assms(2) [OF m] by (simp add: m1_def)
  moreover have "topic = None \<longrightarrow> bt_get (bt_remove ''superseded_by'' m1) ''topic'' = None"
    by (simp add: m1_def)
  moreover have "\<forall>t. topic = Some t \<longrightarrow> trim t = t \<and> t \<noteq> []"
    using get_trimmed_str_nonempty by (auto simp: topic_def)
  ultimately show thesis using that by blast
qed


text \<open>The table after a successful write: the primary row, the superseded rows, and every other row
  as it was.\<close>

lemma superseded_row_reads:
  "read_status (superseded_row now pid r) = Some Superseded"
  "mem_id (superseded_row now pid r) = mem_id r"
  "mem_content (superseded_row now pid r) = mem_content r"
  "mem_scope (superseded_row now pid r) = mem_scope r"
  "mem_pinned (superseded_row now pid r) = mem_pinned r"
  "mem_created_at_ms (superseded_row now pid r) = mem_created_at_ms r"
  by (simp_all add: superseded_row_def superseded_metadata_def read_status_def meta_str_def)

lemma superseded_row_inactive: "\<not> is_active_long_term_with_kind (superseded_row now pid r) kind"
  by (simp add: is_active_long_term_with_kind_def superseded_row_reads)

definition written_table :: "int \<Rightarrow> memory_table \<Rightarrow> governed_long_term_write \<Rightarrow> memory_record list \<Rightarrow>
    string \<Rightarrow> memory_record option" where
  "written_table now t plan conflicts i =
     (if Some i = up_id (primary plan) then Some (primary_row now t plan)
      else case List.find (\<lambda>r. mem_id r = i) conflicts of
             Some r \<Rightarrow> Some (superseded_row now (the (up_id (primary plan))) r)
           | None \<Rightarrow> bt_get t i)"

lemma find_conflicts_sub:
  "set (find_conflicts rs kind pid topic) \<subseteq> set rs"
  "r \<in> set (find_conflicts rs kind pid topic) \<Longrightarrow> mem_id r \<noteq> pid"
  "distinct (map mem_id rs) \<Longrightarrow> distinct (map mem_id (find_conflicts rs kind pid topic))"
  by (auto simp: find_conflicts_def distinct_map_filter split: option.splits)

lemma govern_plan_fields:
  fixes fresh rs draft c m kind prio topic sup0
  defines "plan \<equiv> govern_plan fresh rs draft c m kind prio topic sup0"
  shows "up_scope (primary plan) = ''long_term''" "up_content (primary plan) = c"
    "\<exists>pid. up_id (primary plan) = Some pid \<and>
       superseded_updates plan = map (superseded_update pid) (find_conflicts rs kind pid topic) \<and>
       pid = unwrap_or (or_else (map_option mem_id (find_duplicate rs kind c)) (up_id draft)) fresh"
  by (simp_all add: plan_def govern_plan_def Let_def)

lemma apply_plan:
  assumes ok: "table_ok t" and c: "trim c \<noteq> []"
    and plan: "plan = govern_plan fresh (list_scope_records ''long_term'' t) draft c m kind prio topic sup0"
    and pid: "up_id (primary plan) = Some pid"
  defines "conflicts \<equiv> find_conflicts (list_scope_records ''long_term'' t) kind pid topic"
  obtains t1 t2 where "upsert f now (primary plan) t = (Ok (primary_row now t plan), t1)"
    "upsert_all now (superseded_updates plan) t1 = (Ok (), t2)" "table_ok t2"
    "\<forall>i. bt_get t2 i = written_table now t plan conflicts i"
proof -
  let ?rs = "list_scope_records ''long_term'' t"
  note fields = govern_plan_fields [of fresh ?rs draft c m kind prio topic sup0, folded plan]
  have ups: "superseded_updates plan = map (superseded_update pid) conflicts"
    using fields(3) pid by (auto simp: conflicts_def)
  let ?t1 = "bt_insert pid (primary_row now t plan) t"
  have up: "upsert f now (primary plan) t = (Ok (primary_row now t plan), ?t1)"
    using c pid fields(1,2) by (simp add: upsert_def primary_row_def Let_def trim_eval)
  have "table_ok (snd (upsert f now (primary plan) t))" using ok by (rule upsert_table_ok)
  then have ok1: "table_ok ?t1" by (simp add: up)
  have rows: "\<forall>r \<in> set conflicts. bt_get ?t1 (mem_id r) = Some r"
  proof
    fix r assume r: "r \<in> set conflicts"
    then have "r \<in> set ?rs" "mem_id r \<noteq> pid" 
      unfolding conflicts_def using find_conflicts_sub(1,2) by blast+
    then show "bt_get ?t1 (mem_id r) = Some r" using list_scope_records_set [OF ok] by simp
  qed
  have dist: "distinct (map mem_id conflicts)"
    using list_scope_records_distinct [OF ok] find_conflicts_sub(3) by (simp add: conflicts_def)
  obtain t2 where t2: "upsert_all now (map (superseded_update pid) conflicts) ?t1 = (Ok (), t2)"
    "table_ok t2" "\<forall>i. bt_get t2 i = (case List.find (\<lambda>r. mem_id r = i) conflicts of
        Some r \<Rightarrow> Some (superseded_row now pid r) | None \<Rightarrow> bt_get ?t1 i)"
    using upsert_all_superseded [OF ok1 rows dist] by blast
  have none: "List.find (\<lambda>r. mem_id r = pid) conflicts = None"
    using find_conflicts_sub(2) by (auto simp: conflicts_def find_None_iff)
  have "\<forall>i. bt_get t2 i = written_table now t plan conflicts i"
    using t2(3) none pid by (auto simp: written_table_def split: option.splits)
  with up t2(1,2) ups show thesis by (intro that [of ?t1 t2]) simp_all
qed

lemma add_Ok:
  assumes "table_ok t" and "\<And>m. metadata = JObject m \<Longrightarrow> sorted_map m"
    and "add_long_term_memory fresh now content metadata pinned t = (Ok (r, plan), t')"
  obtains m kind prio topic sup0 pid conflicts where
    "plan = govern_plan fresh (list_scope_records ''long_term'' t)
       \<lparr>up_id = None, up_scope = ''long_term'', up_content = content, up_metadata = metadata,
        up_pinned = pinned\<rparr> (normalize_content content) m kind prio topic sup0"
    "normalize_content content \<noteq> []" "sorted_map m"
    "topic = None \<longrightarrow> bt_get m ''topic'' = None" "\<forall>t. topic = Some t \<longrightarrow> trim t = t \<and> t \<noteq> []"
    "up_id (primary plan) = Some pid"
    "conflicts = find_conflicts (list_scope_records ''long_term'' t) kind pid topic"
    "r = primary_row now t plan" "table_ok t'"
    "\<forall>i. bt_get t' i = written_table now t plan conflicts i"
proof -
  let ?draft = "\<lparr>up_id = None, up_scope = ''long_term'', up_content = content, up_metadata = metadata,
        up_pinned = pinned\<rparr>"
  let ?rs = "list_scope_records ''long_term'' t"
  from assms(3) have "govern_long_term_write fresh ?rs ?draft = Ok plan"
    by (auto simp: add_long_term_memory_def split: sum.splits prod.splits)
  moreover have "\<And>m. up_metadata ?draft = JObject m \<Longrightarrow> sorted_map m" using assms(2) by simp
  ultimately obtain m kind prio topic sup0 where g:
    "plan = govern_plan fresh ?rs ?draft (normalize_content content) m kind prio topic sup0"
    "normalize_content content \<noteq> []" "sorted_map m"
    "topic = None \<longrightarrow> bt_get m ''topic'' = None" "\<forall>t. topic = Some t \<longrightarrow> trim t = t \<and> t \<noteq> []"
    by (rule govern_Ok) auto
  obtain pid where pid: "up_id (primary plan) = Some pid" using govern_plan_fields(3) g(1) by blast
  obtain t1 t2 where ap: "upsert fresh now (primary plan) t = (Ok (primary_row now t plan), t1)"
    "upsert_all now (superseded_updates plan) t1 = (Ok (), t2)" "table_ok t2"
    "\<forall>i. bt_get t2 i = written_table now t plan (find_conflicts ?rs kind pid topic) i"
    using apply_plan [OF assms(1) normalize_content_not_blank [OF g(2)] g(1) pid] by blast
  have "r = primary_row now t plan \<and> t' = t2"
    using assms(3) \<open>govern_long_term_write fresh ?rs ?draft = Ok plan\<close> ap(1,2)
    by (simp add: add_long_term_memory_def)
  with g pid ap show thesis by (intro that) auto
qed


section \<open>Properties of governed writes\<close>

text \<open>A slot of a record (its topic, its normalised content) that at most one active record of a
  kind may hold.\<close>

definition slots_unique :: "(memory_record \<Rightarrow> string option) \<Rightarrow> memory_table \<Rightarrow> bool" where
  "slots_unique slot t \<longleftrightarrow>
     (\<forall>i j r s kind x. bt_get t i = Some r \<and> bt_get t j = Some s \<and>
        is_active_long_term_with_kind r kind \<and> is_active_long_term_with_kind s kind \<and>
        slot r = Some x \<and> slot s = Some x \<longrightarrow> i = j)"

definition content_slot :: "memory_record \<Rightarrow> string option" where
  "content_slot r = Some (normalize_content (mem_content r))"

lemma active_scope: "is_active_long_term_with_kind r kind \<Longrightarrow> mem_scope r = ''long_term''"
  by (simp add: is_active_long_term_with_kind_def)

lemma written_active:
  assumes "written_table now t plan conflicts i = Some r" and "is_active_long_term_with_kind r kind"
    and "Some i \<noteq> up_id (primary plan)"
  shows "bt_get t i = Some r" and "List.find (\<lambda>r. mem_id r = i) conflicts = None"
  using assms superseded_row_inactive by (auto simp: written_table_def split: option.splits)

lemma find_duplicate_Some:
  assumes "find_duplicate rs kind c = Some d"
  shows "d \<in> set rs" "is_active_long_term_with_kind d kind" "normalize_content (mem_content d) = c"
  using assms by (auto simp: find_duplicate_def find_Some_iff)

text \<open>An active row other than the primary one that shares its kind.\<close>

lemma other_active_row:
  assumes ok: "table_ok t" and pid: "up_id (primary plan) = Some pid"
    and plan: "plan = govern_plan fresh (list_scope_records ''long_term'' t) draft c m kind prio topic sup0"
    and s: "written_table now t plan (find_conflicts (list_scope_records ''long_term'' t) kind pid topic) j = Some s"
      "is_active_long_term_with_kind s kind" "j \<noteq> pid"
  shows "bt_get t j = Some s" "s \<in> set (list_scope_records ''long_term'' t)" "mem_id s = j"
    "topic \<noteq> None \<longrightarrow> read_topic s \<noteq> topic"
proof -
  have j: "Some j \<noteq> up_id (primary plan)" using pid s(3) by simp
  note w = written_active [OF s(1,2) j]
  show row: "bt_get t j = Some s" by (rule w(1))
  show i: "mem_id s = j" using table_ok_get [OF ok row] by simp
  show mem: "s \<in> set (list_scope_records ''long_term'' t)"
    using list_scope_records_set [OF ok] row i active_scope [OF s(2)] by simp
  show "topic \<noteq> None \<longrightarrow> read_topic s \<noteq> topic"
    using w(2) mem i s(2,3) by (auto simp: find_conflicts_def find_None_iff)
qed

lemma row_of_listed:
  "table_ok t \<Longrightarrow> d \<in> set (list_scope_records s t) \<Longrightarrow> bt_get t (mem_id d) = Some d"
  by (simp add: list_scope_records_set)

lemma slots_unique_written:
  assumes uniq: "slots_unique slot t" and pid: "up_id (primary plan) = Some pid"
    and rows: "\<forall>i. bt_get t' i = written_table now t plan conflicts i"
    and clash: "\<And>k s x j. is_active_long_term_with_kind (primary_row now t plan) k \<Longrightarrow>
      is_active_long_term_with_kind s k \<Longrightarrow> slot (primary_row now t plan) = Some x \<Longrightarrow> slot s = Some x \<Longrightarrow>
      written_table now t plan conflicts j = Some s \<Longrightarrow> j \<noteq> pid \<Longrightarrow> False"
  shows "slots_unique slot t'"
  unfolding slots_unique_def
proof (intro allI impI, elim conjE)
  fix i j r s k x
  assume a: "bt_get t' i = Some r" "bt_get t' j = Some s" "is_active_long_term_with_kind r k"
    "is_active_long_term_with_kind s k" "slot r = Some x" "slot s = Some x"
  have pid_row: "bt_get t' pid = Some (primary_row now t plan)"
    using rows pid by (simp add: written_table_def)
  have other: "bt_get t i' = Some r'"
    if "bt_get t' i' = Some r'" "is_active_long_term_with_kind r' k" "i' \<noteq> pid" for i' r'
    using written_active(1) [of now t plan conflicts i' r' k] that rows pid by simp
  consider "i = pid" "j = pid" | "i = pid" "j \<noteq> pid" | "i \<noteq> pid" "j = pid" | "i \<noteq> pid" "j \<noteq> pid" by blast
  then show "i = j"
  proof cases
    case 2
    then show ?thesis using clash [of k s x j] a pid_row rows by auto
  next
    case 3
    then show ?thesis using clash [of k r x i] a pid_row rows by auto
  next
    case 4
    then show ?thesis using other [OF a(1,3)] other [OF a(2,4)] a(3-6) uniq
      unfolding slots_unique_def by blast
  qed simp
qed

lemma add_keeps_unique:
  assumes ok: "table_ok t" and topics: "slots_unique read_topic t" and contents: "slots_unique content_slot t"
    and meta: "\<And>m. metadata = JObject m \<Longrightarrow> sorted_map m"
    and add: "add_long_term_memory fresh now content metadata pinned t = (Ok (r, plan), t')"
  shows "slots_unique read_topic t'" "slots_unique content_slot t'"
proof -
  let ?rs = "list_scope_records ''long_term'' t" and ?c = "normalize_content content"
  from add_Ok [OF ok meta add] obtain m kind prio topic sup0 pid where g:
    "plan = govern_plan fresh ?rs \<lparr>up_id = None, up_scope = ''long_term'', up_content = content,
        up_metadata = metadata, up_pinned = pinned\<rparr> ?c m kind prio topic sup0"
    "sorted_map m" "topic = None \<longrightarrow> bt_get m ''topic'' = None" "\<forall>t. topic = Some t \<longrightarrow> trim t = t \<and> t \<noteq> []"
    "up_id (primary plan) = Some pid"
    "\<forall>i. bt_get t' i = written_table now t plan (find_conflicts ?rs kind pid topic) i"
    by metis
  let ?p = "primary_row now t plan"
  have kind: "read_kind ?p = Some kind" and top: "read_topic ?p = (case topic of Some x \<Rightarrow> Some x
      | None \<Rightarrow> (case find_duplicate ?rs kind ?c of None \<Rightarrow> None | Some d \<Rightarrow> read_topic d))"
    using primary_row_reads [OF g(2) _ _ g(1)] g(3,4) by blast+
  have content_p: "mem_content ?p = ?c"
    using g(1) govern_plan_fields(2) by (simp add: primary_row_def Let_def)
  have dup_pid: "mem_id d = pid" if "find_duplicate ?rs kind ?c = Some d" for d
    using g(1,5) that by (simp add: govern_plan_def Let_def)
  have kind_p: "k = kind" if "is_active_long_term_with_kind ?p k" for k
    using that kind by (simp add: is_active_long_term_with_kind_def)
  note other = other_active_row [OF ok g(5,1)]
  show "slots_unique read_topic t'"
  proof (rule slots_unique_written [OF topics g(5,6)])
    fix k s x j
    assume h: "is_active_long_term_with_kind ?p k" "is_active_long_term_with_kind s k"
      "read_topic ?p = Some x" "read_topic s = Some x"
      "written_table now t plan (find_conflicts ?rs kind pid topic) j = Some s" "j \<noteq> pid"
    have s: "is_active_long_term_with_kind s kind" using h(2) kind_p [OF h(1)] by simp
    note o = other [OF h(5) s h(6)]
    show False
    proof (cases topic)
      case (Some y)
      then show False using o(4) top h(3,4) by simp
    next
      case None
      then obtain d where d: "find_duplicate ?rs kind ?c = Some d" "read_topic d = Some x"
        using top h(3) by (auto split: option.splits)
      note dup = find_duplicate_Some [OF d(1)]
      have "mem_id d = j"
        using topics row_of_listed [OF ok dup(1)] o(1) dup(2) s d(2) h(4)
        unfolding slots_unique_def by blast
      with dup_pid [OF d(1)] h(6) show False by simp
    qed
  qed
  show "slots_unique content_slot t'"
  proof (rule slots_unique_written [OF contents g(5,6)])
    fix k s x j
    assume h: "is_active_long_term_with_kind ?p k" "is_active_long_term_with_kind s k"
      "content_slot ?p = Some x" "content_slot s = Some x"
      "written_table now t plan (find_conflicts ?rs kind pid topic) j = Some s" "j \<noteq> pid"
    have s: "is_active_long_term_with_kind s kind" using h(2) kind_p [OF h(1)] by simp
    note o = other [OF h(5) s h(6)]
    have c: "normalize_content (mem_content s) = ?c"
      using h(3,4) content_p by (simp add: content_slot_def normalize_content_idem)
    then obtain d where d: "find_duplicate ?rs kind ?c = Some d"
      using o(2) s by (cases "find_duplicate ?rs kind ?c") (auto simp: find_duplicate_def find_None_iff)
    note dup = find_duplicate_Some [OF d]
    have "content_slot d = Some ?c" "content_slot s = Some ?c"
      using dup(3) c by (simp_all add: content_slot_def)
    then have "mem_id d = j"
      using contents row_of_listed [OF ok dup(1)] o(1) dup(2) s unfolding slots_unique_def by blast
    with dup_pid [OF d] h(6) show False by simp
  qed
qed


lemma add_Err:
  assumes ok: "table_ok t" and meta: "\<And>m. metadata = JObject m \<Longrightarrow> sorted_map m"
    and add: "add_long_term_memory fresh now content metadata pinned t = (Err e, t')"
  shows "t' = t"
proof (cases "govern_long_term_write fresh (list_scope_records ''long_term'' t)
    \<lparr>up_id = None, up_scope = ''long_term'', up_content = content, up_metadata = metadata, up_pinned = pinned\<rparr>")
  case (Inl e')
  then show ?thesis using add by (simp add: add_long_term_memory_def)
next
  case (Inr plan)
  let ?draft = "\<lparr>up_id = None, up_scope = ''long_term'', up_content = content, up_metadata = metadata,
    up_pinned = pinned\<rparr>"
  have "\<And>m. up_metadata ?draft = JObject m \<Longrightarrow> sorted_map m" using meta by simp
  with Inr obtain m kind prio topic sup0 where g: "plan = govern_plan fresh
      (list_scope_records ''long_term'' t) ?draft (normalize_content content) m kind prio topic sup0"
    "normalize_content content \<noteq> []"
    by (rule govern_Ok) auto
  obtain pid where pid: "up_id (primary plan) = Some pid" using govern_plan_fields(3) g(1) by blast
  obtain t1 t2 where "upsert fresh now (primary plan) t = (Ok (primary_row now t plan), t1)"
    "upsert_all now (superseded_updates plan) t1 = (Ok (), t2)"
    using apply_plan [OF ok normalize_content_not_blank [OF g(2)] g(1) pid] by blast
  with add Inr show ?thesis by (simp add: add_long_term_memory_def)
qed

lemma table_ok_after_add:
  assumes ok: "table_ok t" and meta: "\<forall>m. metadata = JObject m \<longrightarrow> sorted_map m"
  shows "table_ok (snd (add_long_term_memory fresh now content metadata pinned t))"
proof (cases "fst (add_long_term_memory fresh now content metadata pinned t)")
  case (Inl e)
  then show ?thesis using add_Err [OF ok, of metadata] meta ok
    by (metis prod.collapse)
next
  case (Inr rp)
  have meta': "\<And>m. metadata = JObject m \<Longrightarrow> sorted_map m" using meta by blast
  have "add_long_term_memory fresh now content metadata pinned t =
      (Ok (fst rp, snd rp), snd (add_long_term_memory fresh now content metadata pinned t))"
    using Inr by (metis prod.collapse)
  from add_Ok [OF ok meta' this] show ?thesis by blast
qed

text \<open>C38: Long-term memory stays free of contradictions and repetitions. If in a table no two
  active records of one kind have the same topic, and none have the same normalised content,
  this still holds after \<^verbatim>\<open>add\<close>, whatever is added; the table stays well formed; and an add
  that is refused leaves it exactly as it was.\<close>

theorem add_keeps_memory_governed:
  assumes "table_ok t" and "slots_unique read_topic t" and "slots_unique content_slot t"
    and "\<forall>m. metadata = JObject m \<longrightarrow> sorted_map m"
    and "add_long_term_memory fresh now content metadata pinned t = (res, t')"
  shows "table_ok t' \<and> slots_unique read_topic t' \<and> slots_unique content_slot t' \<and>
    (\<forall>e. res = Err e \<longrightarrow> t' = t)"
proof (cases res)
  case (Inl e)
  then have "t' = t" using add_Err [OF assms(1), of metadata] assms(4,5) by blast
  then show ?thesis using assms by simp
next
  case (Inr rp)
  obtain r plan where rp: "rp = (r, plan)" by (cases rp)
  have meta: "\<And>m. metadata = JObject m \<Longrightarrow> sorted_map m" using assms(4) by blast
  have add: "add_long_term_memory fresh now content metadata pinned t = (Ok (r, plan), t')"
    using assms(5) Inr rp by simp
  have "table_ok t'" by (rule add_Ok [OF assms(1) meta add]) auto
  with add_keeps_unique [OF assms(1-3) meta add] Inr show ?thesis by simp
qed

definition sample_metadata :: "string \<Rightarrow> json" where
  "sample_metadata topic = JObject [(''kind'', JString ''preference''), (''topic'', JString topic)]"

theorem add_keeps_memory_governed_witness:
  "slots_unique read_topic (snd (add_long_term_memory ''u1'' 5 ''use  tabs'' (sample_metadata ''indent'') False [])) \<and>
   length (snd (add_long_term_memory ''u1'' 5 ''use  tabs'' (sample_metadata ''indent'') False [])) = 1"
proof -
  obtain res t' where add: "add_long_term_memory ''u1'' 5 ''use  tabs'' (sample_metadata ''indent'') False [] = (res, t')"
    by fastforce
  have "length (snd (add_long_term_memory ''u1'' 5 ''use  tabs'' (sample_metadata ''indent'') False [])) = 1"
    by code_simp
  moreover have "slots_unique read_topic t'"
    using add_keeps_memory_governed [of "[]" "sample_metadata ''indent''" "''u1''" 5 "''use  tabs''" False res t'] add
    by (simp add: table_ok_def slots_unique_def sample_metadata_def sorted_map_def)
  ultimately show ?thesis using add by simp
qed

text \<open>What an accepted add does to the table. The reported record is the one stored under its
  identifier; it is active, has the normalised content, and reuses the identifier of an active
  record of its kind with that content when there is one. Every other row is untouched, or is an
  active record of the same kind and topic that is now marked as superseded by the new one and
  keeps its content, scope, pin and creation time. No row disappears, and only the reported one
  can be new.\<close>

theorem add_effect:
  assumes "table_ok t" and "\<forall>m. metadata = JObject m \<longrightarrow> sorted_map m"
    and "add_long_term_memory fresh now content metadata pinned t = (Ok (r, plan), t')"
  shows "memory_get (mem_id r) t' = Some r \<and>
    mem_content r = normalize_content content \<and> read_status r = Some Active \<and>
    read_kind r = Some (plan_kind plan) \<and>
    mem_id r = unwrap_or (map_option mem_id (find_duplicate (list_scope_records ''long_term'' t)
      (plan_kind plan) (normalize_content content))) fresh \<and>
    (\<forall>i. i \<noteq> mem_id r \<longrightarrow> memory_get i t' = memory_get i t \<or>
      (\<exists>old. memory_get i t = Some old \<and> is_active_long_term_with_kind old (plan_kind plan) \<and>
         read_topic old = read_topic r \<and> memory_get i t' = Some (superseded_row now (mem_id r) old)))"
proof -
  let ?rs = "list_scope_records ''long_term'' t" and ?c = "normalize_content content"
  have meta: "\<And>m. metadata = JObject m \<Longrightarrow> sorted_map m" using assms(2) by blast
  from add_Ok [OF assms(1) meta assms(3)] obtain m kind prio topic sup0 pid where g:
    "plan = govern_plan fresh ?rs \<lparr>up_id = None, up_scope = ''long_term'', up_content = content,
        up_metadata = metadata, up_pinned = pinned\<rparr> ?c m kind prio topic sup0"
    "sorted_map m" "topic = None \<longrightarrow> bt_get m ''topic'' = None" "\<forall>t. topic = Some t \<longrightarrow> trim t = t \<and> t \<noteq> []"
    "up_id (primary plan) = Some pid" "r = primary_row now t plan"
    "\<forall>i. bt_get t' i = written_table now t plan (find_conflicts ?rs kind pid topic) i"
    by metis
  have reads: "read_kind r = Some kind" "read_status r = Some Active"
    "read_topic r = (case topic of Some x \<Rightarrow> Some x
       | None \<Rightarrow> (case find_duplicate ?rs kind ?c of None \<Rightarrow> None | Some d \<Rightarrow> read_topic d))"
    using primary_row_reads [OF g(2) _ _ g(1)] g(3,4,6) by blast+
  have fields: "plan_kind plan = kind" "mem_id r = pid" "mem_content r = ?c"
    "pid = unwrap_or (map_option mem_id (find_duplicate ?rs kind ?c)) fresh"
    using g(1,5,6) govern_plan_fields(2)
    by (auto simp: govern_plan_def primary_row_def Let_def split: option.splits)
  have others: "memory_get i t' = memory_get i t \<or>
      (\<exists>old. memory_get i t = Some old \<and> is_active_long_term_with_kind old kind \<and>
         read_topic old = read_topic r \<and> memory_get i t' = Some (superseded_row now pid old))"
    if "i \<noteq> pid" for i
  proof (cases "List.find (\<lambda>r. mem_id r = i) (find_conflicts ?rs kind pid topic)")
    case None
    then show ?thesis using g(5,7) that by (simp add: memory_get_def written_table_def)
  next
    case (Some old)
    then have o: "old \<in> set (find_conflicts ?rs kind pid topic)" "mem_id old = i"
      by (auto simp: find_Some_iff)
    then have "old \<in> set ?rs" "is_active_long_term_with_kind old kind" "topic \<noteq> None" "read_topic old = topic"
      by (auto simp: find_conflicts_def split: option.splits)
    moreover have "bt_get t i = Some old"
      using row_of_listed [OF assms(1) \<open>old \<in> set ?rs\<close>] o(2) by simp
    ultimately show ?thesis using Some g(5,7) that reads(3)
      by (auto simp: memory_get_def written_table_def)
  qed
  show ?thesis using reads fields others g(5,6,7) by (auto simp: memory_get_def written_table_def)
qed

theorem add_effect_witness:
  "let t = snd (add_long_term_memory ''u1'' 5 ''use  tabs'' (sample_metadata ''indent'') False []);
       t' = snd (add_long_term_memory ''u2'' 6 ''use spaces'' (sample_metadata '' indent'') False t)
   in map_option mem_content (memory_get ''u2'' t') = Some ''use spaces'' \<and>
      map_option read_status (memory_get ''u1'' t') = Some (Some Superseded) \<and>
      map_option mem_content (memory_get ''u1'' t') = Some ''use tabs''"
proof -
  let ?t = "snd (add_long_term_memory ''u1'' 5 ''use  tabs'' (sample_metadata ''indent'') False [])"
  let ?add = "add_long_term_memory ''u2'' 6 ''use spaces'' (sample_metadata '' indent'') False ?t"
  have ev: "case ?add of (Inl _, _) \<Rightarrow> False | (Inr (r, _), t') \<Rightarrow> mem_id r = ''u2'' \<and>
      map_option read_status (memory_get ''u1'' t') = Some (Some Superseded) \<and>
      map_option mem_content (memory_get ''u1'' t') = Some ''use tabs''"
    by code_simp
  then obtain r plan t' where add: "?add = (Ok (r, plan), t')" and r: "mem_id r = ''u2''"
    and old: "map_option read_status (memory_get ''u1'' t') = Some (Some Superseded)"
      "map_option mem_content (memory_get ''u1'' t') = Some ''use tabs''"
    by (auto split: prod.splits sum.splits)
  have ok: "table_ok ?t"
    by (rule table_ok_after_add) (simp_all add: table_ok_def sample_metadata_def sorted_map_def)
  have c: "normalize_content ''use spaces'' = ''use spaces''" by code_simp
  have "sorted_map m" if "sample_metadata '' indent'' = JObject m" for m
    using that by (auto simp: sample_metadata_def sorted_map_def)
  then have "memory_get (mem_id r) t' = Some r" "mem_content r = normalize_content ''use spaces''"
    using add_effect [OF ok _ add] by blast+
  then show ?thesis using add r old c by (simp add: Let_def)
qed

end
