(* ===== verification/Memory_Prompt.thy ===== *)
theory Memory_Prompt
  imports Memory_Properties "HOL-Library.Sublist"
begin

text \<open>
  \<^verbatim>\<open>klaw-memory/src/prompt.rs\<close>: the section of the system prompt that lists long-term memories.
  Records are ordered (pinned first, then by priority, kind, recency and identifier), inactive and
  blank ones are skipped, repeated contents are listed once, items are truncated, and the section
  is bounded in lines and characters.
\<close>

record long_term_memory_prompt_options =
  max_items :: nat
  max_chars :: nat
  max_item_chars :: nat

definition default_prompt_options :: long_term_memory_prompt_options where
  "default_prompt_options = \<lparr>max_items = 12, max_chars = 1800, max_item_chars = 240\<rparr>"

definition truncate_chars :: "string \<Rightarrow> nat \<Rightarrow> string" where
  "truncate_chars v n = (if n < length v then take n v @ ''...'' else take n v)"

definition kind_label :: "memory_record \<Rightarrow> string option" where
  "kind_label r = map_option kind_as_str (read_kind r)"

definition prompt_order :: "memory_record \<Rightarrow> bool \<times> int \<times> int \<times> int \<times> string" where
  "prompt_order r =
     (\<not> mem_pinned r, - int (unat (priority_rank (effective_priority r))),
      - int (unat (kind_priority (unwrap_or (read_kind r) Fact))),
      - mem_updated_at_ms r, mem_id r)"

definition prompt_line :: "nat \<Rightarrow> memory_record \<Rightarrow> string" where
  "prompt_line n r =
     (let c = truncate_chars (normalize_content (mem_content r)) n
      in case kind_label r of
           Some kind \<Rightarrow> ''- ['' @ kind @ ''] '' @ c
         | None \<Rightarrow> ''- '' @ c)"

text \<open>The loop over the ordered records: \<open>listed\<close> are the contents seen so far (lower case),
  \<open>ls\<close> the lines written and \<open>used\<close> the characters they count for.\<close>

fun prompt_lines :: "nat \<Rightarrow> nat \<Rightarrow> nat \<Rightarrow> string set \<Rightarrow> string list \<Rightarrow> nat \<Rightarrow> memory_record list \<Rightarrow> string list" where
  "prompt_lines items chars item_chars listed ls used [] = ls"
| "prompt_lines items chars item_chars listed ls used (r # rs) =
     (let c = normalize_content (mem_content r); key = to_ascii_lowercase c
      in if is_inactive_long_term_record r then prompt_lines items chars item_chars listed ls used rs
         else if c = [] then prompt_lines items chars item_chars listed ls used rs
         else if key \<in> listed then prompt_lines items chars item_chars listed ls used rs
         else
           (let line = prompt_line item_chars r;
                projected = (if ls = [] then length line else used + 1 + length line)
            in if ls \<noteq> [] \<and> chars < projected then ls
               else if items \<le> length ls then ls
               else prompt_lines items chars item_chars (insert key listed) (ls @ [line])
                      (min projected chars) rs))"

definition rendered_lines :: "memory_record list \<Rightarrow> long_term_memory_prompt_options \<Rightarrow> string list" where
  "rendered_lines rs opts =
     prompt_lines (max (max_items opts) 1) (max (max_chars opts) 1) (max (max_item_chars opts) 1) {} [] 0
       (sort_key prompt_order rs)"

definition render_long_term_memory_section :: "memory_record list \<Rightarrow> long_term_memory_prompt_options \<Rightarrow>
    string option" where
  "render_long_term_memory_section rs opts =
     (let ls = rendered_lines rs opts in if ls = [] then None else Some (join [CHR 0x0A] ls))"

section \<open>Properties\<close>

lemma length_join_snoc:
  "length (join sep (ls @ [x])) = (if ls = [] then length x else length (join sep ls) + length sep + length x)"
  by (induction sep ls rule: join.induct) auto

lemma length_prompt_line: "length (prompt_line n r) \<le> n + 20"
proof -
  have c: "length (truncate_chars (normalize_content (mem_content r)) n) \<le> n + 3"
    by (auto simp: truncate_chars_def)
  have "length (kind_as_str k) \<le> 12" for k by (cases k) simp_all
  then have "read_kind r = Some k \<Longrightarrow> length (kind_as_str k) \<le> 12" for k .
  with c show ?thesis
    by (cases "read_kind r") (fastforce simp: prompt_line_def kind_label_def Let_def)+
qed

text \<open>The invariant of the loop's accounting: the lines fit, or there is a single line that does
  not and the account is full.\<close>

definition prompt_account :: "nat \<Rightarrow> string list \<Rightarrow> nat \<Rightarrow> bool" where
  "prompt_account chars ls used \<longleftrightarrow>
     ls = [] \<or> used = length (join [CHR 0x0A] ls) \<and> used \<le> chars \<or> length ls = 1 \<and> used = chars"

lemma prompt_account_step:
  assumes "prompt_account chars ls used"
    and "projected = (if ls = [] then length line else used + 1 + length line)"
    and "ls = [] \<or> projected \<le> chars"
  shows "prompt_account chars (ls @ [line]) (min projected chars)"
  using assms by (auto simp: prompt_account_def length_join_snoc split: if_splits)

lemma sorted_wrt_subseq: "subseq xs ys \<Longrightarrow> sorted_wrt P ys \<Longrightarrow> sorted_wrt P xs"
proof (induction rule: list_emb.induct)
  case (list_emb_Cons2 x y xs ys)
  then show ?case using list_emb_set [of "(=)" xs ys] by fastforce
qed auto

text \<open>The three cases of the loop body.\<close>

definition skipped :: "string set \<Rightarrow> memory_record \<Rightarrow> bool" where
  "skipped listed r \<longleftrightarrow> is_inactive_long_term_record r \<or> normalize_content (mem_content r) = [] \<or>
     to_ascii_lowercase (normalize_content (mem_content r)) \<in> listed"

definition projected_chars :: "string list \<Rightarrow> nat \<Rightarrow> string \<Rightarrow> nat" where
  "projected_chars ls used line = (if ls = [] then length line else used + 1 + length line)"

lemma prompt_lines_cases:
  obtains (skip) "skipped listed r"
    "prompt_lines items chars n listed ls used (r # rs) = prompt_lines items chars n listed ls used rs"
  | (stop) "prompt_lines items chars n listed ls used (r # rs) = ls"
  | (take) "\<not> skipped listed r" "ls = [] \<or> projected_chars ls used (prompt_line n r) \<le> chars"
    "length ls < items"
    "prompt_lines items chars n listed ls used (r # rs) =
       prompt_lines items chars n (insert (to_ascii_lowercase (normalize_content (mem_content r))) listed)
         (ls @ [prompt_line n r]) (min (projected_chars ls used (prompt_line n r)) chars) rs"
proof (cases "skipped listed r")
  case True
  then show thesis by (intro skip) (auto simp: skipped_def Let_def)
next
  case notskip: False
  show thesis
  proof (cases "(ls = [] \<or> projected_chars ls used (prompt_line n r) \<le> chars) \<and> length ls < items")
    case True
    then show thesis using notskip
      by (intro take) (auto simp: skipped_def projected_chars_def Let_def)
  next
    case False
    then show thesis using notskip
      by (intro stop) (auto simp: skipped_def projected_chars_def Let_def)
  qed
qed

lemma prompt_lines_bounds:
  assumes "prompt_account chars ls used" "length ls \<le> items" "\<forall>l \<in> set ls. length l \<le> n + 20"
  shows "length (prompt_lines items chars n listed ls used rs) \<le> items \<and>
    (\<exists>used'. prompt_account chars (prompt_lines items chars n listed ls used rs) used') \<and>
    (\<forall>l \<in> set (prompt_lines items chars n listed ls used rs). length l \<le> n + 20)"
  using assms
proof (induction rs arbitrary: listed ls used)
  case Nil
  then show ?case by auto
next
  case (Cons r rs)
  show ?case
  proof (rule prompt_lines_cases [of listed r items chars n ls used rs])
    assume "prompt_lines items chars n listed ls used (r # rs) = prompt_lines items chars n listed ls used rs"
    then show ?thesis using Cons.IH [OF Cons.prems, of listed] by simp
  next
    assume "prompt_lines items chars n listed ls used (r # rs) = ls"
    then show ?thesis using Cons.prems by (simp only:) blast
  next
    let ?p = "projected_chars ls used (prompt_line n r)"
    assume fit: "ls = [] \<or> ?p \<le> chars" "length ls < items" and eq: "prompt_lines items chars n listed ls used (r # rs) =
       prompt_lines items chars n (insert (to_ascii_lowercase (normalize_content (mem_content r))) listed)
         (ls @ [prompt_line n r]) (min ?p chars) rs"
    have "prompt_account chars (ls @ [prompt_line n r]) (min ?p chars)"
      using Cons.prems(1) fit(1) by (intro prompt_account_step) (auto simp: projected_chars_def)
    moreover have "length (ls @ [prompt_line n r]) \<le> items" using fit(2) by simp
    moreover have "\<forall>l \<in> set (ls @ [prompt_line n r]). length l \<le> n + 20"
      using Cons.prems(3) length_prompt_line by auto
    ultimately show ?thesis unfolding eq by (rule Cons.IH)
  qed
qed

lemma prompt_lines_chosen:
  "\<exists>chosen. prompt_lines items chars n listed ls used rs = ls @ map (prompt_line n) chosen \<and>
     subseq chosen rs \<and> (\<forall>r \<in> set chosen. \<not> skipped listed r) \<and>
     distinct (map (\<lambda>r. to_ascii_lowercase (normalize_content (mem_content r))) chosen)"
proof (induction rs arbitrary: listed ls used)
  case Nil
  then show ?case by auto
next
  case (Cons r rs)
  let ?key = "\<lambda>r. to_ascii_lowercase (normalize_content (mem_content r))"
  show ?case
  proof (rule prompt_lines_cases [of listed r items chars n ls used rs])
    assume "prompt_lines items chars n listed ls used (r # rs) = prompt_lines items chars n listed ls used rs"
    with Cons.IH [of listed ls used] show ?thesis by (metis list_emb_Cons)
  next
    assume "prompt_lines items chars n listed ls used (r # rs) = ls"
    then show ?thesis by (intro exI [of _ "[]"]) simp
  next
    let ?p = "projected_chars ls used (prompt_line n r)"
    assume ns: "\<not> skipped listed r" and eq: "prompt_lines items chars n listed ls used (r # rs) =
       prompt_lines items chars n (insert (?key r) listed) (ls @ [prompt_line n r]) (min ?p chars) rs"
    obtain chosen where c: "prompt_lines items chars n (insert (?key r) listed) (ls @ [prompt_line n r])
        (min ?p chars) rs = (ls @ [prompt_line n r]) @ map (prompt_line n) chosen" "subseq chosen rs"
      "\<forall>s \<in> set chosen. \<not> skipped (insert (?key r) listed) s" "distinct (map ?key chosen)"
      using Cons.IH by blast
    have "\<forall>s \<in> set chosen. \<not> skipped listed s \<and> ?key s \<noteq> ?key r"
      using c(3) by (auto simp: skipped_def)
    with c ns show ?thesis unfolding eq
      by (intro exI [of _ "r # chosen"]) (auto simp del: prompt_lines.simps)
  qed
qed

text \<open>The memory section of the prompt is bounded: at most \<^verbatim>\<open>max_items\<close> lines, and at most
  \<^verbatim>\<open>max_chars\<close> characters unless a single item is longer, in which case that item is alone and
  has at most \<^verbatim>\<open>max_item_chars\<close> plus twenty characters.\<close>

theorem memory_section_bounded:
  assumes "render_long_term_memory_section rs opts = Some section"
  shows "length (rendered_lines rs opts) \<le> max (max_items opts) 1 \<and>
    section = join [CHR 0x0A] (rendered_lines rs opts) \<and>
    (length section \<le> max (max_chars opts) 1 \<or>
     length (rendered_lines rs opts) = 1 \<and> length section \<le> max (max_item_chars opts) 1 + 20)"
proof -
  let ?ls = "rendered_lines rs opts"
  have start: "prompt_account (max (max_chars opts) 1) [] 0" by (simp add: prompt_account_def)
  have bounds: "length ?ls \<le> max (max_items opts) 1"
    "\<exists>used'. prompt_account (max (max_chars opts) 1) ?ls used'"
    "\<forall>l \<in> set ?ls. length l \<le> max (max_item_chars opts) 1 + 20"
    unfolding rendered_lines_def
    using prompt_lines_bounds [OF start, of "max (max_items opts) 1" "max (max_item_chars opts) 1" "{}"]
    by auto
  have sec: "?ls \<noteq> []" "section = join [CHR 0x0A] ?ls"
    using assms by (auto simp: render_long_term_memory_section_def Let_def split: if_splits)
  show ?thesis
  proof (cases "length section \<le> max (max_chars opts) 1")
    case False
    with bounds(2) sec have "length ?ls = 1" by (auto simp: prompt_account_def)
    then obtain l where "?ls = [l]" by (auto simp: length_Suc_conv)
    with bounds sec show ?thesis by simp
  qed (use bounds sec in auto)
qed

definition sample_memory :: "string \<Rightarrow> string \<Rightarrow> bool \<Rightarrow> memory_record" where
  "sample_memory i c pin =
     \<lparr>mem_id = i, mem_scope = ''long_term'', mem_content = c,
      mem_metadata = JObject [(''kind'', JString ''fact'')], mem_pinned = pin,
      mem_created_at_ms = 0, mem_updated_at_ms = 0\<rparr>"

theorem memory_section_bounded_witness:
  "\<exists>section. render_long_term_memory_section
      [sample_memory ''a'' ''tea'' False, sample_memory ''b'' ''Tea'' True] default_prompt_options = Some section \<and>
    section = ''- [fact] Tea'' \<and> length section \<le> 1800"
proof -
  have r: "render_long_term_memory_section
      [sample_memory ''a'' ''tea'' False, sample_memory ''b'' ''Tea'' True] default_prompt_options = Some ''- [fact] Tea''"
    by code_simp
  have "length ''- [fact] Tea'' \<le> max (max_chars default_prompt_options) 1 \<or>
      length ''- [fact] Tea'' \<le> max (max_item_chars default_prompt_options) 1 + 20"
    using memory_section_bounded [OF r] by blast
  with r show ?thesis by (simp add: default_prompt_options_def)
qed

text \<open>The memory section shows only what it may show, and the most important records first:
  its lines are the lines of a subsequence of the records in prompt order, none of them archived,
  rejected, superseded or blank, and no two with the same content up to letter case.\<close>

theorem memory_section_contents:
  "\<exists>chosen. rendered_lines rs opts = map (prompt_line (max (max_item_chars opts) 1)) chosen \<and>
     subseq chosen (sort_key prompt_order rs) \<and> sorted (map prompt_order chosen) \<and>
     list_all (\<lambda>r. \<not> is_inactive_long_term_record r \<and> normalize_content (mem_content r) \<noteq> []) chosen \<and>
     distinct (map (\<lambda>r. to_ascii_lowercase (normalize_content (mem_content r))) chosen)"
proof -
  obtain chosen where c: "rendered_lines rs opts = map (prompt_line (max (max_item_chars opts) 1)) chosen"
    "subseq chosen (sort_key prompt_order rs)" "\<forall>r \<in> set chosen. \<not> skipped {} r"
    "distinct (map (\<lambda>r. to_ascii_lowercase (normalize_content (mem_content r))) chosen)"
    using prompt_lines_chosen [of "max (max_items opts) 1" "max (max_chars opts) 1"
        "max (max_item_chars opts) 1" "{}" "[]" 0 "sort_key prompt_order rs"]
    by (auto simp: rendered_lines_def)
  have "subseq (map prompt_order chosen) (map prompt_order (sort_key prompt_order rs))"
    using c(2) by (rule subseq_map)
  then have "sorted (map prompt_order chosen)"
    using sorted_sort_key [of prompt_order rs] by (rule sorted_wrt_subseq)
  with c show ?thesis by (auto simp: skipped_def list_all_iff)
qed

end
