(* ===== verification/Memory_Archive.thy ===== *)
theory Memory_Archive
  imports Memory_Properties "HOL-Library.Option_ord"
begin

text \<open>
  \<^verbatim>\<open>klaw-memory/src/maintenance.rs\<close>: the archival of stale long-term memories. Old records of low
  priority are grouped by kind and topic; each group gets one summary record that names its
  sources, and its records are marked as archived by that summary. The summary generator (an LLM
  in production) and the fresh identifiers are parameters; one clock reading stands for the
  readings of the single writes.
\<close>

section \<open>Groups\<close>

text \<open>The derived order of \<^verbatim>\<open>LongTermMemoryKind\<close> is that of its declaration; it orders the groups
  in the maps of the source.\<close>

fun kind_index :: "long_term_memory_kind \<Rightarrow> nat" where
  "kind_index Identity = 0"
| "kind_index Preference = 1"
| "kind_index ProjectRule = 2"
| "kind_index Workflow = 3"
| "kind_index Fact = 4"
| "kind_index Constraint = 5"

lemma kind_index_inj: "kind_index k = kind_index l \<longleftrightarrow> k = l"
  by (cases k; cases l) simp_all

instantiation long_term_memory_kind :: linorder
begin

definition less_eq_long_term_memory_kind :: "long_term_memory_kind \<Rightarrow> long_term_memory_kind \<Rightarrow> bool" where
  "less_eq_long_term_memory_kind k l \<longleftrightarrow> kind_index k \<le> kind_index l"

definition less_long_term_memory_kind :: "long_term_memory_kind \<Rightarrow> long_term_memory_kind \<Rightarrow> bool" where
  "less_long_term_memory_kind k l \<longleftrightarrow> kind_index k < kind_index l"

instance
  by standard (auto simp: less_eq_long_term_memory_kind_def less_long_term_memory_kind_def kind_index_inj)

end

type_synonym archive_group_key = "long_term_memory_kind \<times> string option"

record long_term_archive_config =
  max_age_days :: int
  summary_max_sources :: nat

definition default_archive_config :: long_term_archive_config where
  "default_archive_config = \<lparr>max_age_days = 30, summary_max_sources = 8\<rparr>"

record long_term_archive_outcome =
  archived_records :: nat
  summary_records_upserted :: nat
  skipped_records :: nat

record group_archive_plan =
  summary_id :: string
  summary_content :: string
  summary_metadata :: json_map
  candidates :: "memory_record list"

definition group_key :: "memory_record \<Rightarrow> archive_group_key" where
  "group_key r = (unwrap_or (read_kind r) Fact, read_topic r)"

definition should_archive_record :: "int \<Rightarrow> memory_record \<Rightarrow> bool" where
  "should_archive_record cutoff r \<longleftrightarrow>
     mem_scope r = ''long_term'' \<and> \<not> mem_pinned r \<and> \<not> is_summary_record r \<and>
     \<not> is_inactive_long_term_record r \<and> effective_priority r = Low \<and>
     read_archived_at r = None \<and> mem_updated_at_ms r \<le> cutoff"

definition is_skipped_record :: "int \<Rightarrow> memory_record \<Rightarrow> bool" where
  "is_skipped_record cutoff r \<longleftrightarrow>
     \<not> should_archive_record cutoff r \<and> mem_scope r = ''long_term'' \<and> \<not> is_summary_record r \<and>
     \<not> is_inactive_long_term_record r \<and> effective_priority r = Low"

section \<open>Summaries\<close>

fun read_source_ids :: "memory_record \<Rightarrow> string list" where
  "read_source_ids r =
     (case json_get (mem_metadata r) ''source_ids'' of
        Some (JString v) \<Rightarrow> [v]
      | Some (JArray vs) \<Rightarrow> List.map_filter as_str vs
      | _ \<Rightarrow> [])"

text \<open>First occurrences, in order.\<close>

fun dedupe_ids :: "string set \<Rightarrow> string list \<Rightarrow> string list" where
  "dedupe_ids known [] = []"
| "dedupe_ids known (i # is) =
     (if i \<in> known then dedupe_ids known is else i # dedupe_ids (insert i known) is)"

definition merged_source_ids :: "memory_record option \<Rightarrow> memory_record list \<Rightarrow> string list" where
  "merged_source_ids existing cands =
     dedupe_ids {} ((case existing of None \<Rightarrow> [] | Some r \<Rightarrow> read_source_ids r) @ map mem_id cands)"

definition build_summary_metadata :: "archive_group_key \<Rightarrow> string list \<Rightarrow> int \<Rightarrow> memory_record option \<Rightarrow>
    json_map" where
  "build_summary_metadata g ids archived_at existing =
     (let m0 = (case existing of None \<Rightarrow> [] | Some r \<Rightarrow> metadata_object r);
          m1 = bt_extend m0
            [(''kind'', JString (kind_as_str (fst g))), (''priority'', JString (priority_as_str Low)),
             (''status'', JString ''active''), (''summary'', JBool True),
             (''source_ids'', string_array ids), (''archived_at'', json_of_i64 archived_at),
             (''summary_type'', JString ''archive_rollup'')]
      in case snd g of
           Some topic \<Rightarrow> bt_insert ''topic'' (JString topic) m1
         | None \<Rightarrow> bt_remove ''topic'' m1)"

definition build_summary_content :: "archive_group_key \<Rightarrow> memory_record list \<Rightarrow> nat \<Rightarrow> string" where
  "build_summary_content g sources max_sources =
     (let label = unwrap_or (snd g) (kind_as_str (fst g));
          snippets = remdups_adj (sort (filter (\<lambda>c. c \<noteq> [])
                       (map (\<lambda>r. normalize_content (mem_content r)) sources)));
          preview = take max_sources snippets;
          more = length snippets - length preview
      in ''Past notes on '' @ label @ '' ('' @ show_nat (length snippets) @ '' entries): ''
         @ join ''; '' preview @ (if 0 < more then ''; +'' @ show_nat more @ '' more'' else []))"

definition archive_metadata :: "memory_record \<Rightarrow> int \<Rightarrow> string \<Rightarrow> json_map" where
  "archive_metadata r archived_at sid =
     bt_insert ''archived_by_summary'' (JString sid)
       (bt_insert ''archived_at'' (json_of_i64 archived_at)
         (bt_insert ''status'' (JString ''archived'') (metadata_object r)))"

section \<open>The archival run\<close>

type_synonym summary_generator = "archive_group_key \<Rightarrow> memory_record list \<Rightarrow> nat \<Rightarrow> memory_error + string"

definition summaries_by_group :: "memory_record list \<Rightarrow> (archive_group_key, memory_record) btree_map" where
  "summaries_by_group rs =
     fold (\<lambda>r m. if is_summary_record r \<and> \<not> is_inactive_long_term_record r \<and> mem_scope r = ''long_term''
                  then bt_insert (group_key r) r m else m) rs []"

definition candidate_groups :: "int \<Rightarrow> memory_record list \<Rightarrow>
    (archive_group_key, memory_record list) btree_map" where
  "candidate_groups cutoff rs =
     fold (\<lambda>r m. if should_archive_record cutoff r
                  then bt_insert (group_key r) (unwrap_or (bt_get m (group_key r)) [] @ [r]) m else m) rs []"

definition group_plan :: "summary_generator \<Rightarrow> (archive_group_key \<Rightarrow> string) \<Rightarrow> nat \<Rightarrow> int \<Rightarrow>
    memory_record list \<Rightarrow> archive_group_key \<times> memory_record list \<Rightarrow> group_archive_plan" where
  "group_plan gen fresh max_sources now rs gc =
     (let (g, cs) = gc;
          existing = bt_get (summaries_by_group rs) g;
          sorted_cs = sort_key (\<lambda>r. (mem_updated_at_ms r, mem_created_at_ms r, mem_id r)) cs;
          ids = merged_source_ids existing sorted_cs;
          sources = List.map_filter (\<lambda>i. List.find (\<lambda>r. mem_id r = i) rs) ids
      in \<lparr>summary_id = (case existing of Some r \<Rightarrow> mem_id r | None \<Rightarrow> fresh g),
          summary_content = (case gen g sources max_sources of
              Inr c \<Rightarrow> c | Inl _ \<Rightarrow> build_summary_content g sources max_sources),
          summary_metadata = build_summary_metadata g ids now existing,
          candidates = sorted_cs\<rparr>)"

definition plan_updates :: "int \<Rightarrow> group_archive_plan \<Rightarrow> upsert_memory_input list" where
  "plan_updates now p =
     \<lparr>up_id = Some (summary_id p), up_scope = ''long_term'', up_content = summary_content p,
      up_metadata = JObject (summary_metadata p), up_pinned = False\<rparr>
     # map (\<lambda>r. \<lparr>up_id = Some (mem_id r), up_scope = mem_scope r, up_content = mem_content r,
                   up_metadata = JObject (archive_metadata r now (summary_id p)), up_pinned = mem_pinned r\<rparr>)
         (candidates p)"

definition archive_cutoff :: "long_term_archive_config \<Rightarrow> int \<Rightarrow> int" where
  "archive_cutoff cfg now =
     i64_sat_sub now (i64_sat (max_age_days cfg * (24 * 60 * 60 * 1000)))"

definition archive_plans :: "summary_generator \<Rightarrow> (archive_group_key \<Rightarrow> string) \<Rightarrow>
    long_term_archive_config \<Rightarrow> int \<Rightarrow> memory_record list \<Rightarrow> group_archive_plan list" where
  "archive_plans gen fresh cfg now rs =
     map (group_plan gen fresh (summary_max_sources cfg) now rs) (candidate_groups (archive_cutoff cfg now) rs)"

definition archive_stale_long_term_memories :: "summary_generator \<Rightarrow> (archive_group_key \<Rightarrow> string) \<Rightarrow>
    long_term_archive_config \<Rightarrow> int \<Rightarrow> memory_table \<Rightarrow>
    (memory_error + long_term_archive_outcome) \<times> memory_table" where
  "archive_stale_long_term_memories gen fresh cfg now t =
     (if max_age_days cfg \<le> 0
      then (Err (InvalidQuery ''archive max_age_days must be greater than 0''), t)
      else if summary_max_sources cfg = 0
      then (Err (InvalidQuery ''archive summary_max_sources must be greater than 0''), t)
      else
        (let rs = list_scope_records ''long_term'' t;
             plans = archive_plans gen fresh cfg now rs
         in case upsert_all now (concat (map (plan_updates now) plans)) t of
              (Inl e, t') \<Rightarrow> (Inl e, t')
            | (Inr _, t') \<Rightarrow>
                (Ok \<lparr>archived_records = length (concat (map candidates plans)),
                     summary_records_upserted = length plans,
                     skipped_records = length (filter (is_skipped_record (archive_cutoff cfg now)) rs)\<rparr>,
                 t')))"

end
