(* ===== verification/Archive_Properties.thy ===== *)
theory Archive_Properties
  imports Memory_Archive
begin

text \<open>
  Properties of the archival of stale memories: which rows a run may change and how, that nothing
  is lost even when the run stops half way, that it succeeds and is complete, and that repeating
  it changes nothing.
\<close>

section \<open>Sequences of writes\<close>

definition written_row :: "int \<Rightarrow> memory_table \<Rightarrow> upsert_memory_input \<Rightarrow> memory_record" where
  "written_row now t u =
     \<lparr>mem_id = the (up_id u), mem_scope = up_scope u, mem_content = up_content u,
      mem_metadata = up_metadata u, mem_pinned = up_pinned u,
      mem_created_at_ms = (case bt_get t (the (up_id u)) of None \<Rightarrow> now | Some old \<Rightarrow> mem_created_at_ms old),
      mem_updated_at_ms = now\<rparr>"

text \<open>A run of writes performs a prefix of them, and all of them when it succeeds. With distinct
  identifiers each written row depends on the original table only.\<close>

lemma upsert_all_prefix:
  assumes "upsert_all now us t = (res, t')" "\<forall>u \<in> set us. up_id u \<noteq> None" "distinct (map up_id us)" "table_ok t"
  shows "\<exists>ws rest. us = ws @ rest \<and> (res = Ok () \<longrightarrow> rest = []) \<and> table_ok t' \<and>
    (\<forall>u \<in> set ws. bt_get t' (the (up_id u)) = Some (written_row now t u)) \<and>
    (\<forall>i. Some i \<notin> up_id ` set ws \<longrightarrow> bt_get t' i = bt_get t i)"
  using assms
proof (induction us arbitrary: t)
  case Nil
  then show ?case by auto
next
  case (Cons u us)
  show ?case
  proof (cases "fst (upsert [] now u t)")
    case (Inl e)
    then have "res = Err e" "t' = t"
      using Cons.prems(1) by (auto simp: upsert_def Let_def split: if_splits)
    then show ?thesis using Cons.prems(4) by (intro exI [of _ "[]"] exI [of _ "u # us"]) simp
  next
    case (Inr r)
    let ?i = "the (up_id u)" and ?r = "written_row now t u"
    have up: "upsert [] now u t = (Ok ?r, bt_insert ?i ?r t)"
      using Inr Cons.prems(2)
      by (auto simp: upsert_def Let_def written_row_def unwrap_or_def split: if_splits)
    have ok: "table_ok (bt_insert ?i ?r t)"
      using upsert_table_ok [OF Cons.prems(4), of "[]" now u] by (simp add: up)
    have rec: "upsert_all now us (bt_insert ?i ?r t) = (res, t')"
      using Cons.prems(1) by (simp add: up)
    have "\<forall>v \<in> set us. up_id v \<noteq> None" "distinct (map up_id us)" using Cons.prems by auto
    from Cons.IH [OF rec this ok] obtain ws rest where w: "us = ws @ rest" "res = Ok () \<longrightarrow> rest = []"
      "table_ok t'" "\<forall>v \<in> set ws. bt_get t' (the (up_id v)) = Some (written_row now (bt_insert ?i ?r t) v)"
      "\<forall>i. Some i \<notin> up_id ` set ws \<longrightarrow> bt_get t' i = bt_get (bt_insert ?i ?r t) i" by blast
    have ne: "the (up_id v) \<noteq> ?i" if "v \<in> set ws" for v
      using that w(1) Cons.prems(2,3) by (auto simp: image_iff) (metis option.exhaust_sel)
    have same: "written_row now (bt_insert ?i ?r t) v = written_row now t v" if "v \<in> set ws" for v
      using ne [OF that] by (simp add: written_row_def)
    have "Some ?i \<notin> up_id ` set ws" using ne by (metis imageE option.sel)
    then show ?thesis using w same Cons.prems(2)
      by (intro exI [of _ "u # ws"] exI [of _ rest]) (auto split: if_splits)
  qed
qed

section \<open>The groups of a run\<close>

lemma bt_get_fold_groups:
  fixes key :: "'a \<Rightarrow> 'k::linorder"
  shows "bt_get (fold (\<lambda>r m. if p r then bt_insert (key r) (unwrap_or (bt_get m (key r)) [] @ [r]) m else m) rs m) g =
    (if filter (\<lambda>r. p r \<and> key r = g) rs = [] then bt_get m g
     else Some (unwrap_or (bt_get m g) [] @ filter (\<lambda>r. p r \<and> key r = g) rs))"
  by (induction rs arbitrary: m) (auto simp: unwrap_or_def)

lemma sorted_fold_groups:
  "sorted_map m \<Longrightarrow> sorted_map (fold (\<lambda>r m. if p r then bt_insert (key r) (f r m) m else m) rs m)"
  by (induction rs arbitrary: m) auto

lemma candidate_groups_get:
  "bt_get (candidate_groups c rs) g =
     (let cs = filter (\<lambda>r. should_archive_record c r \<and> group_key r = g) rs in if cs = [] then None else Some cs)"
  unfolding candidate_groups_def bt_get_fold_groups by (simp add: Let_def unwrap_or_def)

lemma sorted_candidate_groups: "sorted_map (candidate_groups c rs)"
  unfolding candidate_groups_def by (rule sorted_fold_groups) simp

lemma candidate_groups_mem:
  "(g, cs) \<in> set (candidate_groups c rs) \<longleftrightarrow>
     cs = filter (\<lambda>r. should_archive_record c r \<and> group_key r = g) rs \<and> cs \<noteq> []"
proof -
  have "(g, cs) \<in> set (candidate_groups c rs) \<longleftrightarrow> bt_get (candidate_groups c rs) g = Some cs"
    by (rule iffI) (erule in_set_bt_get [OF sorted_candidate_groups], erule bt_get_in_set)
  then show ?thesis by (simp only: candidate_groups_get) (auto simp: Let_def)
qed

lemma fold_insert_Some:
  "bt_get (fold (\<lambda>r m. if p r then bt_insert (key r) r m else m) rs m) g = Some r \<Longrightarrow>
   bt_get m g = Some r \<or> (r \<in> set rs \<and> p r \<and> key r = g)"
proof (induction rs arbitrary: m)
  case (Cons a rs)
  then show ?case by (cases "p a") (fastforce split: if_splits)+
qed simp

lemma summaries_by_group_Some:
  assumes "bt_get (summaries_by_group rs) g = Some r"
  shows "r \<in> set rs" "is_summary_record r" "\<not> is_inactive_long_term_record r"
    "mem_scope r = ''long_term''" "group_key r = g"
  using fold_insert_Some [of _ group_key rs "[]" g r] assms unfolding summaries_by_group_def by fastforce+

lemma distinct_concat_map:
  assumes "distinct xs" "\<forall>x \<in> set xs. distinct (f x)"
    "\<forall>x \<in> set xs. \<forall>y \<in> set xs. x \<noteq> y \<longrightarrow> set (f x) \<inter> set (f y) = {}"
  shows "distinct (concat (map f xs))"
  using assms by (induction xs) auto

lemma dedupe_ids_set: "set (dedupe_ids known is) = set is - known"
  by (induction known "is" rule: dedupe_ids.induct) auto

lemma should_archive_not_summary: "should_archive_record c r \<Longrightarrow> \<not> is_summary_record r"
  by (simp add: should_archive_record_def)

section \<open>The plans of a run\<close>

definition archived_row :: "int \<Rightarrow> string \<Rightarrow> memory_record \<Rightarrow> memory_record" where
  "archived_row now sid r = r\<lparr>mem_metadata := JObject (archive_metadata r now sid), mem_updated_at_ms := now\<rparr>"

lemma archived_row_reads:
  "read_status (archived_row now sid r) = Some Archived"
  "json_get (mem_metadata (archived_row now sid r)) ''archived_by_summary'' = Some (JString sid)"
  by (simp_all add: archived_row_def archive_metadata_def read_status_def meta_str_def json_get_metadata_object)

text \<open>A run on a table of rows, with fresh identifiers that are new and differ between groups.\<close>

definition fresh_ids :: "(archive_group_key \<Rightarrow> string) \<Rightarrow> memory_table \<Rightarrow> bool" where
  "fresh_ids fresh t \<longleftrightarrow> inj fresh \<and> (\<forall>g. bt_get t (fresh g) = None)"

lemma fresh_idsD: "fresh_ids fresh t \<Longrightarrow> bt_get t (fresh g) = None" "fresh_ids fresh t \<Longrightarrow> fresh g = fresh h \<longleftrightarrow> g = h"
  by (auto simp del: split_paired_All simp: fresh_ids_def inj_def)

definition plan_ids :: "group_archive_plan \<Rightarrow> string list" where
  "plan_ids p = summary_id p # map mem_id (candidates p)"

lemma up_id_plan_updates: "map up_id (plan_updates now p) = map Some (plan_ids p)"
  by (simp add: plan_updates_def plan_ids_def)

lemma group_plan_fields:
  fixes rs g cs gen fresh n now
  defines "existing \<equiv> bt_get (summaries_by_group rs) g"
  defines "p \<equiv> group_plan gen fresh n now rs (g, cs)"
  shows "set (candidates p) = set cs" "distinct (map mem_id (candidates p)) \<longleftrightarrow> distinct (map mem_id cs)"
    "length (candidates p) = length cs"
    "summary_id p = (case existing of Some r \<Rightarrow> mem_id r | None \<Rightarrow> fresh g)"
    "summary_metadata p = build_summary_metadata g (merged_source_ids existing (candidates p)) now existing"
  unfolding p_def existing_def
  by (auto simp: group_plan_def Let_def distinct_map split: option.split)

lemma build_summary_metadata_reads:
  assumes "\<forall>x. snd g = Some x \<longrightarrow> trim x = x \<and> x \<noteq> []" "mem_metadata s = JObject (build_summary_metadata g ids now ex)"
  shows "is_summary_record s" "group_key s = g" "read_status s = Some Active" "read_source_ids s = ids"
proof -
  have get: "json_get (mem_metadata s) k = (if k = ''topic'' then map_option JString (snd g) else
      (case bt_get [(''kind'', JString (kind_as_str (fst g))), (''priority'', JString (priority_as_str Low)),
             (''status'', JString ''active''), (''summary'', JBool True),
             (''source_ids'', string_array ids), (''archived_at'', json_of_i64 now),
             (''summary_type'', JString ''archive_rollup'')] k of Some v \<Rightarrow> Some v
       | None \<Rightarrow> bt_get (case ex of None \<Rightarrow> [] | Some r \<Rightarrow> metadata_object r) k))" for k
    unfolding assms(2) build_summary_metadata_def Let_def
    by (cases "snd g") (auto simp: bt_get_extend)
  show "is_summary_record s" "read_status s = Some Active"
    by (simp_all add: is_summary_record_def read_status_def meta_str_def get) (simp_all add: bt_get_def unwrap_or_def)
  show "group_key s = g" using assms(1)
    by (cases g; cases "snd g")
      (auto simp: group_key_def read_kind_def read_topic_def meta_str_def get bt_get_def unwrap_or_def nonempty_trimmed_def)
  have "List.map_filter as_str (map JString ids) = ids" by (induction ids) (simp_all add: map_filter_simps)
  then show "read_source_ids s = ids" by (simp add: get bt_get_def string_array_def)
qed

declare read_source_ids.simps [simp del]

lemma read_topic_trimmed: "read_topic r = Some x \<Longrightarrow> trim x = x \<and> x \<noteq> []"
  by (auto simp: read_topic_def nonempty_trimmed_Some_iff)

lemma group_key_trimmed: "\<forall>x. snd (group_key r) = Some x \<longrightarrow> trim x = x \<and> x \<noteq> []"
  by (simp add: group_key_def read_topic_trimmed)

text \<open>Every identifier a plan writes belongs to its group: it is the fresh one of the group, or
  that of a stored record of the group.\<close>

lemma plan_ids_owner:
  assumes "table_ok t" "fresh_ids fresh t" "(g, cs) \<in> set (candidate_groups c (list_scope_records s t))"
    "i \<in> set (plan_ids (group_plan gen fresh n now (list_scope_records s t) (g, cs)))"
  shows "(bt_get t i = None \<and> i = fresh g) \<or> (\<exists>r. bt_get t i = Some r \<and> group_key r = g)"
proof -
  let ?rs = "list_scope_records s t" and ?p = "group_plan gen fresh n now (list_scope_records s t) (g, cs)"
  have row: "bt_get t (mem_id r) = Some r" if "r \<in> set ?rs" for r
    using that list_scope_records_set [OF assms(1)] by blast
  have cs: "cs = filter (\<lambda>r. should_archive_record c r \<and> group_key r = g) ?rs"
    using assms(3) unfolding candidate_groups_mem by blast
  consider "i = summary_id ?p" | r where "r \<in> set (candidates ?p)" "i = mem_id r"
    using assms(4) by (auto simp: plan_ids_def)
  then show ?thesis
  proof cases
    case 1
    show ?thesis
    proof (cases "bt_get (summaries_by_group ?rs) g")
      case None
      then show ?thesis using 1 fresh_idsD [OF assms(2)] by (simp add: group_plan_fields(4))
    next
      case (Some r)
      then show ?thesis using 1 row summaries_by_group_Some [OF Some]
        by (auto simp: group_plan_fields(4))
    qed
  next
    case 2
    then show ?thesis using row cs by (auto simp: group_plan_fields(1))
  qed
qed

lemma plan_ids_distinct:
  assumes "table_ok t" "fresh_ids fresh t" "(g, cs) \<in> set (candidate_groups c (list_scope_records s t))"
  shows "distinct (plan_ids (group_plan gen fresh n now (list_scope_records s t) (g, cs)))"
proof -
  let ?rs = "list_scope_records s t" and ?p = "group_plan gen fresh n now (list_scope_records s t) (g, cs)"
  have row: "bt_get t (mem_id r) = Some r" if "r \<in> set ?rs" for r
    using that list_scope_records_set [OF assms(1)] by blast
  have cs: "cs = filter (\<lambda>r. should_archive_record c r \<and> group_key r = g) ?rs"
    using assms(3) unfolding candidate_groups_mem by blast
  have "distinct (map mem_id cs)"
    unfolding cs by (intro distinct_map_filter list_scope_records_distinct assms(1))
  moreover have "summary_id ?p \<noteq> mem_id r" if "r \<in> set cs" for r
  proof (cases "bt_get (summaries_by_group ?rs) g")
    case None
    then show ?thesis using that cs row [of r] fresh_idsD(1) [OF assms(2), of g] by (auto simp: group_plan_fields(4))
  next
    case (Some x)
    then show ?thesis using that cs row [of r] row [of x] summaries_by_group_Some [OF Some]
      should_archive_not_summary [of c r] by (auto simp: group_plan_fields(4))
  qed
  ultimately show ?thesis by (auto simp: plan_ids_def group_plan_fields(1,2))
qed

lemma all_ids_distinct:
  assumes "table_ok t" "fresh_ids fresh t"
  shows "distinct (concat (map plan_ids (archive_plans gen fresh cfg now (list_scope_records s t))))"
proof -
  let ?rs = "list_scope_records s t" and ?G = "candidate_groups (archive_cutoff cfg now) (list_scope_records s t)"
  let ?f = "plan_ids \<circ> group_plan gen fresh (summary_max_sources cfg) now ?rs"
  have d: "distinct (map fst ?G)" by (rule sorted_map_distinct [OF sorted_candidate_groups])
  have disj: "set (?f x) \<inter> set (?f y) = {}" if h: "x \<in> set ?G" "y \<in> set ?G" "x \<noteq> y" for x y
  proof (rule ccontr)
    assume "set (?f x) \<inter> set (?f y) \<noteq> {}"
    then obtain i where i: "i \<in> set (?f x)" "i \<in> set (?f y)" by blast
    obtain g cs h ds where xy: "x = (g, cs)" "y = (h, ds)" by (metis surj_pair)
    have "g = h"
      using plan_ids_owner [OF assms h(1) [unfolded xy(1)]] plan_ids_owner [OF assms h(2) [unfolded xy(2)]]
        i [unfolded xy comp_def] fresh_idsD [OF assms(2)] by (metis option.distinct(1) option.inject)
    then show False using h xy unfolding xy candidate_groups_mem by simp
  qed
  have one: "distinct (?f x)" if "x \<in> set ?G" for x
    using plan_ids_distinct [OF assms] that by (cases x) auto
  have "distinct (concat (map ?f ?G))"
    using d one disj by (intro distinct_concat_map ballI impI) (auto simp: distinct_map)
  then show ?thesis by (simp add: archive_plans_def)
qed

section \<open>The effect of a run\<close>

lemma prefix_has_head:
  assumes "concat (map f ps) = ws @ rest" "u \<in> set ws"
  shows "\<exists>p \<in> set ps. u \<in> set (f p) \<and> hd (f p) \<in> set ws"
  using assms
proof (induction ps arbitrary: ws)
  case (Cons p ps)
  then have split: "f p @ concat (map f ps) = ws @ rest" by simp
  then consider us where "f p = ws @ us" | us where "ws = f p @ us" "concat (map f ps) = us @ rest"
    by (auto simp: append_eq_append_conv2)
  then show ?case
  proof cases
    case 1
    with Cons.prems(2) show ?thesis by (cases ws) auto
  next
    case 2
    show ?thesis
    proof (cases "u \<in> set us")
      case True
      from Cons.IH [OF 2(2) True] show ?thesis using 2(1) by auto
    next
      case False
      then have "u \<in> set (f p)" using Cons.prems(2) 2(1) by auto
      then show ?thesis using 2(1) by (cases "f p") auto
    qed
  qed
qed simp

definition archived_into :: "int \<Rightarrow> memory_table \<Rightarrow> memory_record \<Rightarrow> bool" where
  "archived_into now t r \<longleftrightarrow>
     (\<exists>sid s. bt_get t (mem_id r) = Some (archived_row now sid r) \<and> bt_get t sid = Some s \<and>
        is_summary_record s \<and> read_status s = Some Active \<and> group_key s = group_key r \<and>
        mem_id r \<in> set (read_source_ids s))"

definition summary_extended :: "memory_table \<Rightarrow> memory_record \<Rightarrow> bool" where
  "summary_extended t r \<longleftrightarrow>
     is_summary_record r \<and> \<not> is_inactive_long_term_record r \<and>
     (\<exists>s. bt_get t (mem_id r) = Some s \<and> is_summary_record s \<and> read_status s = Some Active \<and>
        group_key s = group_key r \<and> set (read_source_ids r) \<subseteq> set (read_source_ids s))"

lemma plan_cases:
  assumes p: "p \<in> set (archive_plans gen fresh cfg now rs)"
  obtains g cs where "p = group_plan gen fresh (summary_max_sources cfg) now rs (g, cs)"
    "cs = filter (\<lambda>r. should_archive_record (archive_cutoff cfg now) r \<and> group_key r = g) rs"
    "mem_metadata (written_row now t (hd (plan_updates now p))) =
       JObject (build_summary_metadata g (merged_source_ids (bt_get (summaries_by_group rs) g) (candidates p)) now
         (bt_get (summaries_by_group rs) g))"
    "\<forall>x. snd g = Some x \<longrightarrow> trim x = x \<and> x \<noteq> []"
proof -
  obtain g cs where gc: "(g, cs) \<in> set (candidate_groups (archive_cutoff cfg now) rs)"
    and pg: "p = group_plan gen fresh (summary_max_sources cfg) now rs (g, cs)"
    using p by (auto simp: archive_plans_def)
  have cs: "cs = filter (\<lambda>r. should_archive_record (archive_cutoff cfg now) r \<and> group_key r = g) rs" "cs \<noteq> []"
    using gc unfolding candidate_groups_mem by blast+
  have "\<forall>c \<in> set cs. group_key c = g" unfolding cs(1) by simp
  then have "group_key (hd cs) = g" using cs(2) by simp
  then have trimmed: "\<forall>x. snd g = Some x \<longrightarrow> trim x = x \<and> x \<noteq> []" using group_key_trimmed by blast
  show thesis
    by (rule that [OF pg cs(1) _ trimmed]) (simp add: written_row_def plan_updates_def group_plan_fields(5) pg)
qed

lemma plan_update_cases:
  assumes "u \<in> set (plan_updates now p)" "up_id u = Some i"
  obtains "u = hd (plan_updates now p)" "i = summary_id p"
  | x where "x \<in> set (candidates p)" "mem_id x = i"
      "u = \<lparr>up_id = Some (mem_id x), up_scope = mem_scope x, up_content = mem_content x,
            up_metadata = JObject (archive_metadata x now (summary_id p)), up_pinned = mem_pinned x\<rparr>"
  using assms by (auto simp: plan_updates_def)

text \<open>One write of a plan, for a row that was in the table before, and for a new one.\<close>

lemma plan_update_row:
  assumes ok: "table_ok t" and fresh: "fresh_ids fresh t"
    and p: "p \<in> set (archive_plans gen fresh cfg now (list_scope_records ''long_term'' t))"
    and u: "u \<in> set (plan_updates now p)" "up_id u = Some i" and i: "bt_get t i = Some r"
    and rows: "bt_get t' i = Some (written_row now t u)"
      "bt_get t' (summary_id p) = Some (written_row now t (hd (plan_updates now p)))"
  shows "(should_archive_record (archive_cutoff cfg now) r \<and> archived_into now t' r) \<or> summary_extended t' r"
proof -
  let ?rs = "list_scope_records ''long_term'' t"
  obtain g cs where g: "p = group_plan gen fresh (summary_max_sources cfg) now ?rs (g, cs)"
    "cs = filter (\<lambda>r. should_archive_record (archive_cutoff cfg now) r \<and> group_key r = g) ?rs"
    "mem_metadata (written_row now t (hd (plan_updates now p))) =
       JObject (build_summary_metadata g (merged_source_ids (bt_get (summaries_by_group ?rs) g) (candidates p)) now
         (bt_get (summaries_by_group ?rs) g))"
    "\<forall>x. snd g = Some x \<longrightarrow> trim x = x \<and> x \<noteq> []" by (rule plan_cases [OF p])
  note pg = g(1) and s = build_summary_metadata_reads [OF g(4,3)]
  let ?ex = "bt_get (summaries_by_group ?rs) g" and ?s = "written_row now t (hd (plan_updates now p))"
  have rid: "mem_id r = i" using table_ok_get [OF ok i] by blast
  have row: "x = r" if "x \<in> set ?rs" "mem_id x = i" for x
    using that list_scope_records_set [OF ok] i by (metis option.inject)
  from u show ?thesis
  proof (cases rule: plan_update_cases)
    case 1
    then obtain e where e: "?ex = Some e" "mem_id e = i"
      using i fresh_idsD(1) [OF fresh, of g] by (auto simp: pg group_plan_fields(4) split: option.splits)
    then have "e = r" using row summaries_by_group_Some(1) [OF e(1)] by blast
    then have "summary_extended t' r"
      using 1 e(1) summaries_by_group_Some [OF e(1)] s rows(1) rid
      by (auto simp: summary_extended_def merged_source_ids_def dedupe_ids_set)
    then show ?thesis by blast
  next
    case (2 x)
    then have x: "x \<in> set cs" by (simp add: pg group_plan_fields(1))
    then have xr: "x = r" "should_archive_record (archive_cutoff cfg now) r" "group_key r = g"
      using row [of x] 2(2) g(2) by auto
    have "written_row now t u = archived_row now (summary_id p) r"
      using 2(3) xr(1) i rid by (simp add: written_row_def archived_row_def)
    moreover have "mem_id r \<in> set (read_source_ids ?s)"
      using 2(1) xr(1) s(4) by (auto simp: merged_source_ids_def dedupe_ids_set)
    ultimately have "archived_into now t' r"
      unfolding archived_into_def using rows s xr(3) rid by metis
    then show ?thesis using xr(2) by blast
  qed
qed

lemma plan_update_new_row:
  assumes ok: "table_ok t" and p: "p \<in> set (archive_plans gen fresh cfg now (list_scope_records ''long_term'' t))"
    and u: "u \<in> set (plan_updates now p)" "up_id u = Some i" and i: "bt_get t i = None"
  shows "is_summary_record (written_row now t u)"
  using u
proof (cases rule: plan_update_cases)
  case 1
  show ?thesis
    by (rule plan_cases [OF p, of t]) (use 1 build_summary_metadata_reads(1) in blast)
next
  case (2 x)
  have "x \<in> set (list_scope_records ''long_term'' t)"
    by (rule plan_cases [OF p, of t]) (use 2(1) in \<open>simp add: group_plan_fields(1)\<close>)
  then show ?thesis using list_scope_records_set [OF ok] 2(2) i by simp
qed

lemma some_id_written:
  assumes "p \<in> set ps" "r \<in> set (candidates p)" "mem_id r = i"
  shows "Some i \<in> up_id ` set (concat (map (plan_updates now) ps))"
proof -
  have "Some i \<in> set (map up_id (plan_updates now p))"
    using assms(2,3) unfolding up_id_plan_updates by (auto simp: plan_ids_def)
  then show ?thesis using assms(1) by auto
qed

lemma writes_effect:
  assumes ok: "table_ok t" and fresh: "fresh_ids fresh t"
    and run: "upsert_all now (concat (map (plan_updates now)
      (archive_plans gen fresh cfg now (list_scope_records ''long_term'' t)))) t = (res, t')"
  shows "table_ok t'"
    "bt_get t i = Some r \<Longrightarrow> bt_get t' i = Some r \<or>
       (should_archive_record (archive_cutoff cfg now) r \<and> archived_into now t' r) \<or> summary_extended t' r"
    "res = Ok () \<Longrightarrow> bt_get t i = Some r \<Longrightarrow> should_archive_record (archive_cutoff cfg now) r \<Longrightarrow>
       archived_into now t' r"
    "bt_get t i = None \<Longrightarrow> bt_get t' i = Some s \<Longrightarrow> is_summary_record s"
proof -
  let ?rs = "list_scope_records ''long_term'' t" and ?P = "archive_plans gen fresh cfg now (list_scope_records ''long_term'' t)"
  let ?us = "concat (map (plan_updates now) ?P)"
  have ids: "map up_id ?us = map Some (concat (map plan_ids ?P))"
    by (simp add: map_concat comp_def up_id_plan_updates)
  have "\<forall>u \<in> set ?us. up_id u \<noteq> None" by (auto simp: plan_updates_def)
  moreover have "distinct (map up_id ?us)"
    unfolding ids using all_ids_distinct [OF ok fresh] by (simp add: distinct_map)
  ultimately obtain ws rest where w: "?us = ws @ rest" "res = Ok () \<longrightarrow> rest = []" "table_ok t'"
    "\<forall>u \<in> set ws. bt_get t' (the (up_id u)) = Some (written_row now t u)"
    "\<forall>i. Some i \<notin> up_id ` set ws \<longrightarrow> bt_get t' i = bt_get t i"
    using upsert_all_prefix [OF run _ _ ok] by blast
  have written: "(should_archive_record (archive_cutoff cfg now) r \<and> archived_into now t' r) \<or> summary_extended t' r"
    if i: "bt_get t i = Some r" and u: "u \<in> set ws" "up_id u = Some i" for i r u
  proof -
    from prefix_has_head [OF w(1) u(1)] obtain p where p: "p \<in> set ?P" "u \<in> set (plan_updates now p)"
      "hd (plan_updates now p) \<in> set ws" by blast
    have "the (up_id (hd (plan_updates now p))) = summary_id p" by (simp add: plan_updates_def)
    then show ?thesis using plan_update_row [OF ok fresh p(1,2) u(2) i] w(4) u p(3) by (metis option.sel)
  qed
  show "table_ok t'" by (rule w(3))
  show "bt_get t' i = Some r \<or> (should_archive_record (archive_cutoff cfg now) r \<and> archived_into now t' r) \<or>
      summary_extended t' r" if "bt_get t i = Some r"
    using written [OF that] w(5) that by (metis imageE)
  show "is_summary_record s" if h: "bt_get t i = None" "bt_get t' i = Some s"
  proof -
    from h w(5) obtain u where u: "u \<in> set ws" "up_id u = Some i" by (metis imageE option.distinct(1))
    from prefix_has_head [OF w(1) u(1)] obtain p where p: "p \<in> set ?P" "u \<in> set (plan_updates now p)" by blast
    show ?thesis using plan_update_new_row [OF ok p u(2) h(1)] w(4) u h(2) by fastforce
  qed
  assume h: "res = Ok ()" "bt_get t i = Some r" "should_archive_record (archive_cutoff cfg now) r"
  have rid: "mem_id r = i" using table_ok_get [OF ok h(2)] by blast
  have r: "r \<in> set ?rs" using h(2,3) rid list_scope_records_set [OF ok] by (auto simp: should_archive_record_def)
  let ?cs = "filter (\<lambda>x. should_archive_record (archive_cutoff cfg now) x \<and> group_key x = group_key r) ?rs"
  have "r \<in> set ?cs" using r h(3) by simp
  then have "?cs \<noteq> []" by (metis empty_iff empty_set)
  then have "(group_key r, ?cs) \<in> set (candidate_groups (archive_cutoff cfg now) ?rs)"
    unfolding candidate_groups_mem by (intro conjI refl)
  then have "group_plan gen fresh (summary_max_sources cfg) now ?rs (group_key r, ?cs) \<in> set ?P"
    by (simp add: archive_plans_def)
  moreover have "r \<in> set (candidates (group_plan gen fresh (summary_max_sources cfg) now ?rs (group_key r, ?cs)))"
    unfolding group_plan_fields(1) by fact
  ultimately have "Some i \<in> up_id ` set ?us" using rid by (intro some_id_written)
  then obtain u where "u \<in> set ws" "up_id u = Some i" using w(1,2) h(1) by auto
  then show "archived_into now t' r"
    using written [OF h(2)] should_archive_not_summary [OF h(3)] by (auto simp: summary_extended_def)
qed

section \<open>Counts and success\<close>

lemma upsert_all_Ok:
  assumes "\<forall>u \<in> set us. trim (up_scope u) \<noteq> [] \<and> trim (up_content u) \<noteq> []"
  shows "\<exists>t'. upsert_all now us t = (Ok (), t')"
  using assms by (induction us arbitrary: t) (auto simp: upsert_def Let_def)

lemma trim_not_blank: "x \<in> set s \<Longrightarrow> \<not> is_whitespace x \<Longrightarrow> trim s \<noteq> []"
  by (auto simp: trim_empty_iff)

lemma build_summary_content_not_blank: "trim (build_summary_content g rs n) \<noteq> []"
  by (rule trim_not_blank [of "CHR ''P''"]) (simp_all add: build_summary_content_def Let_def is_whitespace_def)

lemma plan_updates_valid:
  assumes ok: "table_ok t" and p: "p \<in> set (archive_plans gen fresh cfg now (list_scope_records ''long_term'' t))"
    and gen: "\<forall>g rs n c. gen g rs n = Ok c \<longrightarrow> trim c \<noteq> []" and u: "u \<in> set (plan_updates now p)"
  shows "trim (up_scope u) \<noteq> [] \<and> trim (up_content u) \<noteq> []"
proof -
  let ?rs = "list_scope_records ''long_term'' t"
  obtain g cs where g: "p = group_plan gen fresh (summary_max_sources cfg) now ?rs (g, cs)"
    "cs = filter (\<lambda>r. should_archive_record (archive_cutoff cfg now) r \<and> group_key r = g) ?rs"
    by (rule plan_cases [OF p])
  have "trim (summary_content p) \<noteq> []" unfolding g(1)
    using gen by (auto simp del: split_paired_All simp: group_plan_def Let_def build_summary_content_not_blank split: sum.split)
  moreover have "trim ''long_term'' \<noteq> []" by (simp add: trim_eval)
  moreover have "trim (mem_scope r) \<noteq> [] \<and> trim (mem_content r) \<noteq> []" if "r \<in> set (candidates p)" for r
    using that g list_scope_records_set [OF ok] table_ok_get [OF ok, of "mem_id r" r] by (auto simp: group_plan_fields(1))
  ultimately show ?thesis using u by (auto simp: plan_updates_def)
qed

lemma distinct_concat_tails:
  "distinct (concat (map (\<lambda>p. a p # f p) ps)) \<Longrightarrow> distinct (concat (map f ps))"
  by (induction ps) auto

lemma archived_count:
  assumes ok: "table_ok t" and fresh: "fresh_ids fresh t"
  shows "length (concat (map candidates (archive_plans gen fresh cfg now (list_scope_records ''long_term'' t)))) =
    length (filter (should_archive_record (archive_cutoff cfg now)) (list_scope_records ''long_term'' t))"
proof -
  let ?rs = "list_scope_records ''long_term'' t" and ?c = "archive_cutoff cfg now"
  let ?P = "archive_plans gen fresh cfg now ?rs" and ?as = "concat (map candidates (archive_plans gen fresh cfg now (list_scope_records ''long_term'' t)))"
  have "distinct (concat (map (\<lambda>p. map mem_id (candidates p)) ?P))"
    using all_ids_distinct [OF ok fresh] unfolding plan_ids_def by (rule distinct_concat_tails)
  then have "distinct (map mem_id ?as)" by (simp add: map_concat comp_def)
  then have "distinct ?as" by (simp add: distinct_map)
  moreover have "distinct (filter (should_archive_record ?c) ?rs)"
    using list_scope_records_distinct [OF ok] by (simp add: distinct_map)
  moreover have "set ?as = set (filter (should_archive_record ?c) ?rs)"
  proof (intro equalityI subsetI)
    fix r assume "r \<in> set ?as"
    then obtain p where p: "p \<in> set ?P" "r \<in> set (candidates p)" by auto
    show "r \<in> set (filter (should_archive_record ?c) ?rs)"
      by (rule plan_cases [OF p(1)]) (use p(2) in \<open>simp add: group_plan_fields(1)\<close>)
  next
    fix r assume r: "r \<in> set (filter (should_archive_record ?c) ?rs)"
    let ?cs = "filter (\<lambda>x. should_archive_record ?c x \<and> group_key x = group_key r) ?rs"
    have rc: "r \<in> set ?cs" using r by simp
    then have "?cs \<noteq> []" by (metis empty_iff empty_set)
    then have "(group_key r, ?cs) \<in> set (candidate_groups ?c ?rs)"
      unfolding candidate_groups_mem by (intro conjI refl)
    then have "group_plan gen fresh (summary_max_sources cfg) now ?rs (group_key r, ?cs) \<in> set ?P"
      by (simp add: archive_plans_def)
    moreover have "r \<in> set (candidates (group_plan gen fresh (summary_max_sources cfg) now ?rs (group_key r, ?cs)))"
      unfolding group_plan_fields(1) by (rule rc)
    ultimately show "r \<in> set ?as" by auto
  qed
  ultimately show ?thesis by (metis distinct_card)
qed

lemma nothing_to_archive:
  assumes "\<forall>r \<in> set rs. \<not> should_archive_record c r"
  shows "candidate_groups c rs = []"
proof -
  have "filter (\<lambda>r. should_archive_record c r \<and> group_key r = g) rs = []" for g
    using assms by (auto simp: filter_empty_conv)
  then have "(g, cs) \<notin> set (candidate_groups c rs)" for g cs unfolding candidate_groups_mem by metis
  then show ?thesis by (metis list.set_intros(1) neq_Nil_conv surj_pair)
qed

lemma archive_run:
  assumes "0 < max_age_days cfg" "0 < summary_max_sources cfg"
    "archive_stale_long_term_memories gen fresh cfg now t = (res, t')"
  obtains res0 where "upsert_all now (concat (map (plan_updates now)
      (archive_plans gen fresh cfg now (list_scope_records ''long_term'' t)))) t = (res0, t')"
    "res0 = Ok () \<longleftrightarrow> (\<exists>out. res = Ok out)"
    "\<forall>out. res = Ok out \<longrightarrow> archived_records out = length (concat (map candidates
       (archive_plans gen fresh cfg now (list_scope_records ''long_term'' t))))"
  using assms by (auto simp: archive_stale_long_term_memories_def Let_def split: prod.splits sum.splits)

lemma invalid_config_unchanged:
  assumes "\<not> (0 < max_age_days cfg \<and> 0 < summary_max_sources cfg)"
    "archive_stale_long_term_memories gen fresh cfg now t = (res, t')"
  shows "t' = t" "\<exists>m. res = Err (InvalidQuery m)"
  using assms by (auto simp: archive_stale_long_term_memories_def split: if_splits)

text \<open>C39: Archiving loses no memory. Whether a run succeeds, is refused because of its
  configuration, or stops at a write that fails, every record of the table is afterwards stored
  under its identifier: unchanged; or, only if it was a stale unpinned active record of low priority, with
  the same content, scope, pin and creation time, marked as archived by a summary that is stored
  in the table, is active, belongs to the same kind and topic and lists the record among its
  sources; or, if it was an active summary, as an active summary of the same group that still
  lists all its sources.\<close>

theorem archive_loses_nothing:
  assumes "table_ok t" and "inj fresh" and "\<forall>g. memory_get (fresh g) t = None"
    and "archive_stale_long_term_memories gen fresh cfg now t = (res, t')"
  shows "table_ok t' \<and>
    (\<forall>i r. memory_get i t = Some r \<longrightarrow>
       memory_get i t' = Some r \<or>
       (should_archive_record (archive_cutoff cfg now) r \<and> archived_into now t' r) \<or>
       summary_extended t' r)"
proof (cases "0 < max_age_days cfg \<and> 0 < summary_max_sources cfg")
  case False
  then show ?thesis using invalid_config_unchanged(1) assms(1,4) by blast
next
  case True
  have f: "fresh_ids fresh t" using assms(2,3) by (simp del: split_paired_All add: fresh_ids_def memory_get_def)
  obtain res0 where "upsert_all now (concat (map (plan_updates now)
      (archive_plans gen fresh cfg now (list_scope_records ''long_term'' t)))) t = (res0, t')"
    using archive_run True assms(4) by blast
  from writes_effect(1,2) [OF assms(1) f this] show ?thesis by (simp add: memory_get_def)
qed

text \<open>A run archives exactly what it should and can be repeated. With a generator that returns
  no blank summary (it may fail), a valid configuration and new identifiers the run succeeds; every
  stale unpinned active record of low priority is archived by a summary that lists it; the reported
  count is the number of these records; and a second run at the same time, whatever its generator,
  archives nothing and leaves the table as it is.\<close>

theorem archive_complete:
  assumes "table_ok t" and "inj fresh" and "\<forall>g. memory_get (fresh g) t = None"
    and "\<forall>g rs n c. gen g rs n = Ok c \<longrightarrow> trim c \<noteq> []"
    and "0 < max_age_days cfg" and "0 < summary_max_sources cfg"
  shows "\<exists>out t'. archive_stale_long_term_memories gen fresh cfg now t = (Ok out, t') \<and>
    (\<forall>i r. memory_get i t = Some r \<and> should_archive_record (archive_cutoff cfg now) r \<longrightarrow> archived_into now t' r) \<and>
    archived_records out =
      length (filter (should_archive_record (archive_cutoff cfg now)) (list_scope_records ''long_term'' t)) \<and>
    (\<forall>gen2 fresh2. \<exists>out2. archive_stale_long_term_memories gen2 fresh2 cfg now t' = (Ok out2, t') \<and>
       archived_records out2 = 0 \<and> summary_records_upserted out2 = 0)"
proof -
  let ?us = "concat (map (plan_updates now) (archive_plans gen fresh cfg now (list_scope_records ''long_term'' t)))"
  have f: "fresh_ids fresh t" using assms(2,3) by (simp del: split_paired_All add: fresh_ids_def memory_get_def)
  have "\<forall>u \<in> set ?us. trim (up_scope u) \<noteq> [] \<and> trim (up_content u) \<noteq> []"
    using plan_updates_valid [OF assms(1) _ assms(4)] by auto
  then obtain t' where run: "upsert_all now ?us t = (Ok (), t')" using upsert_all_Ok by blast
  then obtain out where out: "archive_stale_long_term_memories gen fresh cfg now t = (Ok out, t')"
    "archived_records out = length (concat (map candidates
       (archive_plans gen fresh cfg now (list_scope_records ''long_term'' t))))"
    using assms(5,6) by (simp add: archive_stale_long_term_memories_def Let_def)
  note eff = writes_effect [OF assms(1) f run]
  have settled: "\<not> should_archive_record (archive_cutoff cfg now) r" if r: "bt_get t' i = Some r" for i r
  proof (cases "bt_get t i")
    case None
    then show ?thesis using eff(4) r should_archive_not_summary by blast
  next
    case (Some old)
    then have id: "mem_id old = i" using table_ok_get [OF assms(1)] by blast
    show ?thesis
    proof (cases "should_archive_record (archive_cutoff cfg now) old")
      case True
      then obtain sid where "r = archived_row now sid old"
        using eff(3) [OF refl Some True] r id by (auto simp: archived_into_def)
      then show ?thesis using archived_row_reads(1) [of now sid old]
        by (auto simp: should_archive_record_def is_inactive_long_term_record_def)
    next
      case False
      then show ?thesis using eff(2) [OF Some] r id should_archive_not_summary
        by (auto simp: summary_extended_def)
    qed
  qed
  then have none: "\<forall>r \<in> set (list_scope_records ''long_term'' t'). \<not> should_archive_record (archive_cutoff cfg now) r"
    using list_scope_records_set [OF eff(1)] by blast
  have again: "\<exists>out2. archive_stale_long_term_memories gen2 fresh2 cfg now t' = (Ok out2, t') \<and>
      archived_records out2 = 0 \<and> summary_records_upserted out2 = 0" for gen2 fresh2
    using nothing_to_archive [OF none] assms(5,6)
    by (simp add: archive_stale_long_term_memories_def Let_def archive_plans_def)
  show ?thesis
    using out archived_count [OF assms(1) f] eff(3) again by (auto simp: memory_get_def)
qed

definition sample_fresh :: "archive_group_key \<Rightarrow> string" where
  "sample_fresh g = CHR ''s'' # digit_char (kind_index (fst g)) # (case snd g of None \<Rightarrow> [] | Some x \<Rightarrow> CHR ''t'' # x)"

definition sample_generator :: summary_generator where
  "sample_generator g rs n = Err (CapabilityUnavailable ''no model'')"

definition sample_table :: memory_table where
  "sample_table =
     [(''u1'', \<lparr>mem_id = ''u1'', mem_scope = ''long_term'', mem_content = ''lives in Oslo'',
        mem_metadata = JObject [(''kind'', JString ''fact''), (''topic'', JString ''home'')],
        mem_pinned = False, mem_created_at_ms = 1, mem_updated_at_ms = 1\<rparr>),
      (''u2'', \<lparr>mem_id = ''u2'', mem_scope = ''long_term'', mem_content = ''born in Bergen'',
        mem_metadata = JObject [(''kind'', JString ''fact'')],
        mem_pinned = True, mem_created_at_ms = 2, mem_updated_at_ms = 2\<rparr>)]"

definition sample_now :: int where
  "sample_now = 30 * 24 * 60 * 60 * 1000 + 5"

lemma sample_fresh_inj: "inj sample_fresh"
proof (rule injI)
  fix g h assume e: "sample_fresh g = sample_fresh h"
  have "digit_char (kind_index (fst g)) = digit_char (kind_index (fst h))" "snd g = snd h"
    using e by (auto simp: sample_fresh_def split: option.splits)
  then have "kind_index (fst g) = kind_index (fst h)"
    using of_char_digit [of "kind_index (fst g)"] of_char_digit [of "kind_index (fst h)"]
    by (cases "fst g"; cases "fst h") auto
  then show "g = h" using \<open>snd g = snd h\<close> by (simp add: kind_index_inj prod_eq_iff)
qed

lemma sample_table_ok: "table_ok sample_table" "memory_get (sample_fresh g) sample_table = None"
  by (auto simp: table_ok_def sample_table_def sorted_map_def trim_eval memory_get_def bt_get_def sample_fresh_def)

theorem archive_loses_nothing_witness:
  "case archive_stale_long_term_memories sample_generator sample_fresh default_archive_config sample_now sample_table of
     (res, t') \<Rightarrow> table_ok t' \<and> memory_get ''u2'' t' = memory_get ''u2'' sample_table \<and>
       map_option read_status (memory_get ''u1'' t') = Some (Some Archived)"
proof -
  let ?run = "archive_stale_long_term_memories sample_generator sample_fresh default_archive_config sample_now sample_table"
  have ev: "memory_get ''u2'' (snd ?run) = memory_get ''u2'' sample_table \<and>
      map_option read_status (memory_get ''u1'' (snd ?run)) = Some (Some Archived)"
    by code_simp
  have "table_ok (snd ?run)"
    using archive_loses_nothing [OF sample_table_ok(1) sample_fresh_inj, of sample_generator default_archive_config
        sample_now "fst ?run" "snd ?run"] sample_table_ok(2) by simp
  with ev show ?thesis by (simp add: case_prod_beta)
qed

theorem archive_complete_witness:
  "\<exists>out t'. archive_stale_long_term_memories sample_generator sample_fresh default_archive_config sample_now sample_table
     = (Ok out, t') \<and> archived_records out = 1 \<and>
   (\<exists>out2. archive_stale_long_term_memories sample_generator sample_fresh default_archive_config sample_now t' = (Ok out2, t'))"
proof -
  have "\<exists>out t'. archive_stale_long_term_memories sample_generator sample_fresh default_archive_config sample_now
      sample_table = (Ok out, t') \<and>
    (\<forall>i r. memory_get i sample_table = Some r \<and>
       should_archive_record (archive_cutoff default_archive_config sample_now) r \<longrightarrow> archived_into sample_now t' r) \<and>
    archived_records out = length (filter (should_archive_record (archive_cutoff default_archive_config sample_now))
       (list_scope_records ''long_term'' sample_table)) \<and>
    (\<forall>gen2 fresh2. \<exists>out2. archive_stale_long_term_memories gen2 fresh2 default_archive_config sample_now t' = (Ok out2, t') \<and>
       archived_records out2 = 0 \<and> summary_records_upserted out2 = 0)"
    by (rule archive_complete [OF sample_table_ok(1) sample_fresh_inj])
      (simp_all add: sample_table_ok(2) sample_generator_def default_archive_config_def)
  moreover have "length (filter (should_archive_record (archive_cutoff default_archive_config sample_now))
       (list_scope_records ''long_term'' sample_table)) = 1"
    by code_simp
  ultimately show ?thesis by metis
qed

end
