(* ===== verification/Approval.thy ===== *)
theory Approval
  imports Llm_Types
begin

text \<open>
  \<^verbatim>\<open>klaw-approval/src/manager.rs\<close> over the \<^verbatim>\<open>approvals\<close> table of \<^verbatim>\<open>klaw-storage\<close>
  (\<^verbatim>\<open>turso/session.rs\<close>, the default store): approvals are created pending, resolved by a
  decision or by expiry, and consumed by the tool call they were granted for. The table is an
  ordered map from identifiers to rows; every SQL statement is one atomic step on it. Failures of
  the database are outside the model, except the violated primary key. The SHA-256 function, fresh
  identifiers and clock readings are arguments.
\<close>

section \<open>Types\<close>

datatype approval_status = ApPending | ApApproved | ApRejected | ApExpired | ApConsumed

fun approval_status_as_str :: "approval_status \<Rightarrow> string" where
  "approval_status_as_str ApPending = ''pending''"
| "approval_status_as_str ApApproved = ''approved''"
| "approval_status_as_str ApRejected = ''rejected''"
| "approval_status_as_str ApExpired = ''expired''"
| "approval_status_as_str ApConsumed = ''consumed''"

definition approval_status_parse :: "string \<Rightarrow> approval_status option" where
  "approval_status_parse v =
     (if v = ''pending'' then Some ApPending
      else if v = ''approved'' then Some ApApproved
      else if v = ''rejected'' then Some ApRejected
      else if v = ''expired'' then Some ApExpired
      else if v = ''consumed'' then Some ApConsumed
      else None)"

lemma approval_status_parse_as_str [simp]: "approval_status_parse (approval_status_as_str s) = Some s"
  by (cases s) (simp_all add: approval_status_parse_def)

record approval_record =
  ap_id :: string
  ap_session_key :: string
  ap_tool_name :: string
  ap_command_hash :: string
  ap_command_preview :: string
  ap_command_text :: string
  ap_risk_level :: string
  ap_status :: approval_status
  ap_requested_by :: string
  ap_approved_by :: "string option"
  ap_justification :: "string option"
  ap_expires_at_ms :: int
  ap_created_at_ms :: int
  ap_updated_at_ms :: int
  ap_consumed_at_ms :: "int option"

record new_approval_record =
  new_id :: string
  new_session_key :: string
  new_tool_name :: string
  new_command_hash :: string
  new_command_preview :: string
  new_command_text :: string
  new_risk_level :: string
  new_requested_by :: string
  new_justification :: "string option"
  new_expires_at_ms :: int

record approval_create_input =
  in_session_key :: string
  in_tool_name :: string
  in_command_text :: string
  in_command_preview :: "string option"
  in_command_hash :: "string option"
  in_risk_level :: "string option"
  in_requested_by :: "string option"
  in_justification :: "string option"
  in_expires_in_minutes :: "int option"

datatype approval_resolve_decision = Approve | Reject

record approval_resolve_outcome =
  out_approval :: approval_record
  out_updated :: bool

text \<open>\<^verbatim>\<open>ApprovalError\<close>; \<open>ApprovalStorage\<close> carries the message of \<^verbatim>\<open>StorageError::Backend\<close>.\<close>

datatype approval_error = ApprovalInvalidArgs string | InvalidApprovalRow string | ApprovalStorage string

fun approval_error_to_string :: "approval_error \<Rightarrow> string" where
  "approval_error_to_string (ApprovalInvalidArgs m) = ''invalid args: '' @ m"
| "approval_error_to_string (InvalidApprovalRow m) = ''invalid approval row: '' @ m"
| "approval_error_to_string (ApprovalStorage m) = ''storage error: backend error: '' @ m"

type_synonym approval_table = "(string, approval_record) btree_map"

section \<open>The table\<close>

definition store_get_approval :: "string \<Rightarrow> approval_table \<Rightarrow> approval_error + approval_record" where
  "store_get_approval i t = ok_or (bt_get t i) (ApprovalStorage ''approval not found'')"

definition pending_row :: "int \<Rightarrow> new_approval_record \<Rightarrow> approval_record" where
  "pending_row now n =
     \<lparr>ap_id = new_id n, ap_session_key = new_session_key n, ap_tool_name = new_tool_name n,
      ap_command_hash = new_command_hash n, ap_command_preview = new_command_preview n,
      ap_command_text = new_command_text n, ap_risk_level = new_risk_level n, ap_status = ApPending,
      ap_requested_by = new_requested_by n, ap_approved_by = None,
      ap_justification = new_justification n, ap_expires_at_ms = new_expires_at_ms n,
      ap_created_at_ms = now, ap_updated_at_ms = now, ap_consumed_at_ms = None\<rparr>"

definition store_create_approval :: "int \<Rightarrow> new_approval_record \<Rightarrow> approval_table \<Rightarrow>
    (approval_error + approval_record) \<times> approval_table" where
  "store_create_approval now n t =
     (if bt_contains t (new_id n)
      then (Err (ApprovalStorage ''UNIQUE constraint failed: approvals.id''), t)
      else (let t' = bt_insert (new_id n) (pending_row now n) t
            in (store_get_approval (new_id n) t', t')))"

definition update_approval_status :: "int \<Rightarrow> string \<Rightarrow> approval_status \<Rightarrow> string option \<Rightarrow> approval_table \<Rightarrow>
    (approval_error + approval_record) \<times> approval_table" where
  "update_approval_status now i status by_actor t =
     (case bt_get t i of
        None \<Rightarrow> (Err (ApprovalStorage (''approval '' @ [CHR 0x27] @ i @ [CHR 0x27]
                    @ '' not found when setting status'')), t)
      | Some r \<Rightarrow>
          (let t' = bt_insert i (r\<lparr>ap_status := status, ap_approved_by := by_actor, ap_updated_at_ms := now\<rparr>) t
           in (store_get_approval i t', t')))"

text \<open>The condition in the \<^verbatim>\<open>WHERE\<close> clauses of both consuming statements.\<close>

definition consumable :: "string \<Rightarrow> string \<Rightarrow> string \<Rightarrow> int \<Rightarrow> approval_record \<Rightarrow> bool" where
  "consumable tool session hash now r \<longleftrightarrow>
     ap_tool_name r = tool \<and> ap_session_key r = session \<and> ap_command_hash r = hash \<and>
     ap_status r = ApApproved \<and> ap_consumed_at_ms r = None \<and> now \<le> ap_expires_at_ms r"

definition consumed_row :: "int \<Rightarrow> approval_record \<Rightarrow> approval_record" where
  "consumed_row now r = r\<lparr>ap_status := ApConsumed, ap_consumed_at_ms := Some now, ap_updated_at_ms := now\<rparr>"

definition consume_approved_tool_command :: "string \<Rightarrow> string \<Rightarrow> string \<Rightarrow> string \<Rightarrow> int \<Rightarrow> approval_table \<Rightarrow>
    bool \<times> approval_table" where
  "consume_approved_tool_command i tool session hash now t =
     (case bt_get t i of
        Some r \<Rightarrow> if consumable tool session hash now r then (True, bt_insert i (consumed_row now r) t)
                   else (False, t)
      | None \<Rightarrow> (False, t))"

text \<open>\<^verbatim>\<open>ORDER BY created_at_ms DESC LIMIT 1\<close>; SQL leaves the order of rows of the same
  millisecond open, here they come by identifier.\<close>

definition latest_consumable :: "string \<Rightarrow> string \<Rightarrow> string \<Rightarrow> int \<Rightarrow> approval_table \<Rightarrow> string option" where
  "latest_consumable tool session hash now t =
     (case sort_key (\<lambda>r. - ap_created_at_ms r) (filter (consumable tool session hash now) (map snd t)) of
        [] \<Rightarrow> None
      | r # _ \<Rightarrow> Some (ap_id r))"

definition consume_latest_approved_tool_command :: "string \<Rightarrow> string \<Rightarrow> string \<Rightarrow> int \<Rightarrow> approval_table \<Rightarrow>
    bool \<times> approval_table" where
  "consume_latest_approved_tool_command tool session hash now t =
     (case latest_consumable tool session hash now t of
        None \<Rightarrow> (False, t)
      | Some i \<Rightarrow> consume_approved_tool_command i tool session hash now t)"

section \<open>The manager\<close>

definition default_expires_in_minutes :: int where "default_expires_in_minutes = 10"
definition max_expires_in_minutes :: int where "max_expires_in_minutes = 7 * 24 * 60"

definition normalize_non_empty :: "string \<Rightarrow> string \<Rightarrow> approval_error + string" where
  "normalize_non_empty v field =
     (if trim v = [] then Err (ApprovalInvalidArgs (''`'' @ field @ ''` cannot be empty'')) else Ok (trim v))"

definition approval_command_preview :: "string \<Rightarrow> string" where
  "approval_command_preview c =
     (let s = trim c in if length s \<le> 160 then s else take 160 s @ ''...'')"

definition approval_command_hash :: "(string \<Rightarrow> string) \<Rightarrow> string \<Rightarrow> string" where
  "approval_command_hash sha256 c = sha256 (trim c)"

text \<open>The validated request of \<^verbatim>\<open>create_approval\<close>.\<close>

definition new_approval_of :: "(string \<Rightarrow> string) \<Rightarrow> string \<Rightarrow> int \<Rightarrow> approval_create_input \<Rightarrow>
    approval_error + new_approval_record" where
  "new_approval_of sha256 fresh now inp =
     and_then (normalize_non_empty (in_tool_name inp) ''tool_name'') (\<lambda>tool.
     and_then (normalize_non_empty (in_session_key inp) ''session_key'') (\<lambda>session.
     and_then (normalize_non_empty (in_command_text inp) ''command_text'') (\<lambda>text.
     and_then (case in_command_preview inp of
                 Some p \<Rightarrow> normalize_non_empty p ''command_preview''
               | None \<Rightarrow> Ok (approval_command_preview text)) (\<lambda>preview.
     and_then (case in_command_hash inp of
                 Some h \<Rightarrow> normalize_non_empty h ''command_hash''
               | None \<Rightarrow> Ok (approval_command_hash sha256 text)) (\<lambda>hash.
       (let minutes = unwrap_or (in_expires_in_minutes inp) default_expires_in_minutes
        in if \<not> (1 \<le> minutes \<and> minutes \<le> max_expires_in_minutes)
           then Err (ApprovalInvalidArgs (''`expires_in_minutes` must be between 1 and ''
                  @ show_int max_expires_in_minutes))
           else Ok \<lparr>new_id = fresh, new_session_key = session, new_tool_name = tool,
                    new_command_hash = hash, new_command_preview = preview, new_command_text = text,
                    new_risk_level = unwrap_or (nonempty_trimmed (in_risk_level inp)) ''mutating'',
                    new_requested_by = unwrap_or (nonempty_trimmed (in_requested_by inp)) ''agent'',
                    new_justification = in_justification inp,
                    new_expires_at_ms = i64_wrap (now + minutes * 60000)\<rparr>))))))"

definition create_approval :: "(string \<Rightarrow> string) \<Rightarrow> string \<Rightarrow> int \<Rightarrow> approval_create_input \<Rightarrow> approval_table \<Rightarrow>
    (approval_error + approval_record) \<times> approval_table" where
  "create_approval sha256 fresh now inp t =
     (case new_approval_of sha256 fresh now inp of
        Inl e \<Rightarrow> (Inl e, t)
      | Inr n \<Rightarrow> store_create_approval now n t)"

definition get_approval :: "string \<Rightarrow> approval_table \<Rightarrow> approval_error + approval_record" where
  "get_approval i t = and_then (normalize_non_empty i ''approval_id'') (\<lambda>i'. store_get_approval i' t)"

text \<open>What \<^verbatim>\<open>resolve_approval\<close> writes for a pending row it has read: the row expires or takes the
  decision.\<close>

definition resolution :: "approval_record \<Rightarrow> approval_resolve_decision \<Rightarrow> string option \<Rightarrow> int \<Rightarrow>
    approval_status \<times> string" where
  "resolution r decision by_actor now =
     (if ap_expires_at_ms r < now then (ApExpired, ''approval-manager'')
      else (case decision of Approve \<Rightarrow> ApApproved | Reject \<Rightarrow> ApRejected,
            unwrap_or (nonempty_trimmed by_actor) ''channel-user''))"

text \<open>\<open>wnow\<close> is the clock reading of the write.\<close>

definition resolve_approval :: "string \<Rightarrow> approval_resolve_decision \<Rightarrow> string option \<Rightarrow> int \<Rightarrow> int \<Rightarrow>
    approval_table \<Rightarrow> (approval_error + approval_resolve_outcome) \<times> approval_table" where
  "resolve_approval i decision by_actor now wnow t =
     (case get_approval i t of
        Inl e \<Rightarrow> (Inl e, t)
      | Inr r \<Rightarrow>
          if ap_status r \<noteq> ApPending then (Ok \<lparr>out_approval = r, out_updated = False\<rparr>, t)
          else (let (status, who) = resolution r decision by_actor now
                in case update_approval_status wnow (ap_id r) status (Some who) t of
                     (Inl e, t') \<Rightarrow> (Inl e, t')
                   | (Inr r', t') \<Rightarrow> (Ok \<lparr>out_approval = r', out_updated = True\<rparr>, t')))"

definition consume_tool_approval :: "string \<Rightarrow> string \<Rightarrow> string \<Rightarrow> string \<Rightarrow> int \<Rightarrow> approval_table \<Rightarrow>
    (approval_error + bool) \<times> approval_table" where
  "consume_tool_approval i tool session hash now t =
     (case and_then (normalize_non_empty i ''approval_id'') (\<lambda>i'.
           and_then (normalize_non_empty tool ''tool_name'') (\<lambda>tool'.
           and_then (normalize_non_empty session ''session_key'') (\<lambda>session'.
           and_then (normalize_non_empty hash ''command_hash'') (\<lambda>hash'.
             Ok (i', tool', session', hash'))))) of
        Inl e \<Rightarrow> (Inl e, t)
      | Inr (i', tool', session', hash') \<Rightarrow>
          (let (b, t') = consume_approved_tool_command i' tool' session' hash' now t in (Ok b, t')))"

definition consume_latest_tool_approval :: "string \<Rightarrow> string \<Rightarrow> string \<Rightarrow> int \<Rightarrow> approval_table \<Rightarrow>
    (approval_error + bool) \<times> approval_table" where
  "consume_latest_tool_approval tool session hash now t =
     (case and_then (normalize_non_empty tool ''tool_name'') (\<lambda>tool'.
           and_then (normalize_non_empty session ''session_key'') (\<lambda>session'.
           and_then (normalize_non_empty hash ''command_hash'') (\<lambda>hash'.
             Ok (tool', session', hash')))) of
        Inl e \<Rightarrow> (Inl e, t)
      | Inr (tool', session', hash') \<Rightarrow>
          (let (b, t') = consume_latest_approved_tool_command tool' session' hash' now t in (Ok b, t')))"

definition consume_shell_approval :: "string \<Rightarrow> string \<Rightarrow> string \<Rightarrow> int \<Rightarrow> approval_table \<Rightarrow>
    (approval_error + bool) \<times> approval_table" where
  "consume_shell_approval i session hash now t = consume_tool_approval i ''shell'' session hash now t"

definition consume_latest_shell_approval :: "string \<Rightarrow> string \<Rightarrow> int \<Rightarrow> approval_table \<Rightarrow>
    (approval_error + bool) \<times> approval_table" where
  "consume_latest_shell_approval session hash now t = consume_latest_tool_approval ''shell'' session hash now t"

definition consume_approval :: "string \<Rightarrow> int \<Rightarrow> approval_table \<Rightarrow>
    (approval_error + approval_resolve_outcome) \<times> approval_table" where
  "consume_approval i now t =
     (case get_approval i t of
        Inl e \<Rightarrow> (Inl e, t)
      | Inr r \<Rightarrow>
          (let (updated, t') = consume_approved_tool_command (ap_id r) (ap_tool_name r) (ap_session_key r)
                 (ap_command_hash r) now t
           in (case get_approval (ap_id r) t' of
                 Inl e \<Rightarrow> Inl e
               | Inr r' \<Rightarrow> Ok \<lparr>out_approval = r', out_updated = updated\<rparr>, t')))"

definition list_session_keys :: "approval_table \<Rightarrow> string list" where
  "list_session_keys t = sorted_list_of_set (set (map (ap_session_key \<circ> snd) t))"

definition list_tool_names :: "approval_table \<Rightarrow> string list" where
  "list_tool_names t = sorted_list_of_set (set (map (ap_tool_name \<circ> snd) t))"

end
