(* ===== verification/File_System.thy ===== *)
theory File_System
  imports Klaw_Prelude "HOL-Library.Sublist"
begin

text \<open>
  The part of \<^verbatim>\<open>std::path\<close> and \<^verbatim>\<open>std::fs\<close> that the tools use, on a file system in memory. A path is
  the list of its components, where \<^verbatim>\<open>..\<close> is a component; as for \<^verbatim>\<open>Path\<close>, \<^verbatim>\<open>.\<close> and repeated or
  trailing separators are not. The file system maps absolute paths without \<^verbatim>\<open>..\<close> to nodes, and the
  operations follow symbolic links and \<^verbatim>\<open>..\<close> the way the system resolves path names: step by
  step, with at most forty links. Permissions, hard links and failures of the device are not
  modelled.
\<close>

section \<open>Paths\<close>

type_synonym path = "string list"

definition path_components :: "string \<Rightarrow> string list" where
  "path_components p = filter (\<lambda>c. c \<noteq> [] \<and> c \<noteq> ''.'') (split_char (CHR ''/'') p)"

definition display_path :: "path \<Rightarrow> string" where
  "display_path p = (if p = [] then ''/'' else concat (map (\<lambda>c. CHR ''/'' # c) p))"

definition is_absolute :: "string \<Rightarrow> bool" where
  "is_absolute p \<longleftrightarrow> starts_with p ''/''"

definition path_join :: "string \<Rightarrow> string \<Rightarrow> string" where
  "path_join base p =
     (if is_absolute p then p else if base = [] \<or> last base = CHR ''/'' then base @ p
      else base @ ''/'' @ p)"

definition path_starts_with :: "path \<Rightarrow> path \<Rightarrow> bool" where
  "path_starts_with p base \<longleftrightarrow> take (length base) p = base"

lemma path_starts_with_prefix: "path_starts_with p base \<longleftrightarrow> prefix base p"
  unfolding path_starts_with_def by (metis append_eq_conv_conj prefix_def take_is_prefix)

text \<open>The order of paths as sequences of components, in which \<^verbatim>\<open>..\<close> is less than every name.\<close>

definition path_order :: "path \<Rightarrow> path" where
  "path_order p = map (\<lambda>c. if c = ''..'' then [] else c) p"

text \<open>\<^verbatim>\<open>str::len\<close>: the characters above U+007F take two bytes.\<close>

definition str_len :: "string \<Rightarrow> nat" where
  "str_len s = length s + length (filter (\<lambda>c. (of_char c :: nat) \<ge> 128) s)"

section \<open>Nodes and path resolution\<close>

datatype fs_node = Directory | RegularFile string | Symlink string

type_synonym file_system = "(path, fs_node) btree_map"

datatype io_error = NotFound | NotADirectory | IsADirectory | AlreadyExists | FilesystemLoop

fun io_error_to_string :: "io_error \<Rightarrow> string" where
  "io_error_to_string NotFound = ''No such file or directory (os error 2)''"
| "io_error_to_string AlreadyExists = ''File exists (os error 17)''"
| "io_error_to_string NotADirectory = ''Not a directory (os error 20)''"
| "io_error_to_string IsADirectory = ''Is a directory (os error 21)''"
| "io_error_to_string FilesystemLoop = ''Too many levels of symbolic links (os error 40)''"

text \<open>From the directory \<open>at\<close> along the remaining components, with \<open>k\<close> links left to follow. If
  \<open>create\<close>, the last component need not exist.\<close>

function walk :: "bool \<Rightarrow> nat \<Rightarrow> file_system \<Rightarrow> path \<Rightarrow> path \<Rightarrow> io_error + path" where
  "walk create k fs at [] = Ok at"
| "walk create k fs at (c # rest) =
     (if c = ''..'' then walk create k fs (butlast at) rest
      else case bt_get fs (at @ [c]) of
             None \<Rightarrow> if create \<and> rest = [] then Ok (at @ [c]) else Err NotFound
           | Some Directory \<Rightarrow> walk create k fs (at @ [c]) rest
           | Some (RegularFile _) \<Rightarrow> if rest = [] then Ok (at @ [c]) else Err NotADirectory
           | Some (Symlink target) \<Rightarrow>
               if k = 0 then Err FilesystemLoop
               else walk create (k - 1) fs (if is_absolute target then [] else at) (path_components target @ rest))"
  by pat_completeness auto
termination by (relation "measures [\<lambda>(_, k, _, _, _). k, \<lambda>(_, _, _, _, rest). length rest]") auto

definition max_links :: nat where "max_links = 40"

definition canonicalize :: "file_system \<Rightarrow> path \<Rightarrow> io_error + path" where
  "canonicalize fs p = walk False max_links fs [] p"

definition path_exists_in :: "file_system \<Rightarrow> path \<Rightarrow> bool" where
  "path_exists_in fs p = (case canonicalize fs p of Inr _ \<Rightarrow> True | Inl _ \<Rightarrow> False)"

definition node_at :: "file_system \<Rightarrow> path \<Rightarrow> fs_node option" where
  "node_at fs p = (if p = [] then Some Directory else bt_get fs p)"

definition is_file :: "file_system \<Rightarrow> path \<Rightarrow> bool" where
  "is_file fs p = (case canonicalize fs p of
     Inr q \<Rightarrow> (case node_at fs q of Some (RegularFile _) \<Rightarrow> True | _ \<Rightarrow> False) | Inl _ \<Rightarrow> False)"

definition is_dir :: "file_system \<Rightarrow> path \<Rightarrow> bool" where
  "is_dir fs p = (case canonicalize fs p of
     Inr q \<Rightarrow> node_at fs q = Some Directory | Inl _ \<Rightarrow> False)"

section \<open>Operations\<close>

text \<open>The entry that a path names, without following a link in the last component.\<close>

definition entry_path :: "file_system \<Rightarrow> path \<Rightarrow> io_error + path" where
  "entry_path fs p =
     (if p = [] \<or> last p = ''..'' then canonicalize fs p
      else and_then (canonicalize fs (butlast p)) (\<lambda>dir.
        if node_at fs dir = Some Directory then Ok (dir @ [last p]) else Err NotADirectory))"

definition mkdir :: "path \<Rightarrow> file_system \<Rightarrow> io_error + file_system" where
  "mkdir p fs =
     and_then (entry_path fs p) (\<lambda>q.
       if node_at fs q \<noteq> None then Err AlreadyExists else Ok (bt_insert q Directory fs))"

definition mkdir_or_dir :: "path \<Rightarrow> file_system \<Rightarrow> (io_error + unit) \<times> file_system" where
  "mkdir_or_dir p fs =
     (case mkdir p fs of
        Inr fs' \<Rightarrow> (Ok (), fs')
      | Inl e \<Rightarrow> if is_dir fs p then (Ok (), fs) else (Err e, fs))"

text \<open>\<^verbatim>\<open>fs::create_dir_all\<close>: on \<^verbatim>\<open>NotFound\<close> the parent is created first; what was created stays when a
  later step fails.\<close>

function create_dir_all :: "path \<Rightarrow> file_system \<Rightarrow> (io_error + unit) \<times> file_system" where
  "create_dir_all p fs =
     (if p \<noteq> [] \<and> mkdir p fs = Err NotFound
      then (case create_dir_all (butlast p) fs of
              (Inl e, fs') \<Rightarrow> (Err e, fs')
            | (Inr _, fs') \<Rightarrow> mkdir_or_dir p fs')
      else mkdir_or_dir p fs)"
  by pat_completeness auto
termination by (relation "measure (\<lambda>(p, _). length p)") auto

declare create_dir_all.simps [simp del]

definition write_file :: "path \<Rightarrow> string \<Rightarrow> file_system \<Rightarrow> io_error + file_system" where
  "write_file p s fs =
     and_then (walk True max_links fs [] p) (\<lambda>q.
       if node_at fs q = Some Directory then Err IsADirectory else Ok (bt_insert q (RegularFile s) fs))"

definition remove_file :: "path \<Rightarrow> file_system \<Rightarrow> io_error + file_system" where
  "remove_file p fs =
     and_then (entry_path fs p) (\<lambda>q.
       case node_at fs q of
         None \<Rightarrow> Err NotFound
       | Some Directory \<Rightarrow> Err IsADirectory
       | Some _ \<Rightarrow> Ok (bt_remove q fs))"

text \<open>\<^verbatim>\<open>let _ = fs::remove_file\<close>.\<close>

definition remove_quietly :: "path \<Rightarrow> file_system \<Rightarrow> file_system" where
  "remove_quietly p fs = (case remove_file p fs of Inr fs' \<Rightarrow> fs' | Inl _ \<Rightarrow> fs)"

text \<open>\<^verbatim>\<open>fs::rename\<close> of an entry that is not a directory.\<close>

definition rename_file :: "path \<Rightarrow> path \<Rightarrow> file_system \<Rightarrow> io_error + file_system" where
  "rename_file p_from p_to fs =
     and_then (entry_path fs p_from) (\<lambda>q_from.
     and_then (entry_path fs p_to) (\<lambda>q_to.
       case node_at fs q_from of
         None \<Rightarrow> Err NotFound
       | Some Directory \<Rightarrow> Err IsADirectory
       | Some node \<Rightarrow>
           if node_at fs q_to = Some Directory then Err IsADirectory
           else Ok (bt_insert q_to node (bt_remove q_from fs))))"

end
