(* ===== verification/Shell_Tool.thy ===== *)
theory Shell_Tool
  imports Approval File_System
begin

text \<open>
  \<^verbatim>\<open>klaw-tool/src/shell.rs\<close> and \<^verbatim>\<open>klaw-tool/src/approval.rs\<close>: the shell tool, which runs a
  command of the model after checking it against patterns, asking for an approval where one is
  needed, and confining its working directory; and the tool that requests and resolves approvals.
  The environment record holds what is outside the sources: the decoding of arguments by serde,
  \<^verbatim>\<open>shlex\<close>, SHA-256, the file system, environment variables, the clock, fresh identifiers, the
  decoding of output bytes, the JSON printer, and the process itself, which acts on a world \<open>'w\<close>.
  A canonical path is the list of its components.
\<close>

section \<open>Types\<close>

record shell_config =
  shell_enabled :: bool
  shell_workspace :: "string option"
  blocked_patterns :: "string list"
  unsafe_patterns :: "string list"
  allow_login_shell :: bool
  max_timeout_ms :: u64
  max_output_bytes :: nat

definition default_shell_config :: shell_config where
  "default_shell_config =
     \<lparr>shell_enabled = True, shell_workspace = None, blocked_patterns = ['':(){ :|:& };:''],
      unsafe_patterns = [''rm -rf /'', ''rm -rf ~'', ''mkfs'', ''shutdown'', ''reboot''],
      allow_login_shell = True, max_timeout_ms = 120000, max_output_bytes = 128 * 1024\<rparr>"

record shell_tool =
  tool_config :: shell_config
  storage_root_dir :: "string option"
  has_approval_manager :: bool

record shell_request =
  req_command :: string
  req_workdir :: "string option"
  req_timeout_ms :: "u64 option"

datatype command_risk = Blocked | Safe | Unsafe

record command_policy_target =
  effective_command :: string
  command_proxy :: "string option"

record process_spec =
  spawn_bin :: string
  spawn_args :: "string list"
  spawn_cwd :: path
  spawn_session_key :: string
  spawn_timeout_ms :: u64

datatype process_result =
    ProcessTimedOut
  | ProcessFailed string
  | ProcessDone bool "int option" "u8 list" "u8 list"

record shell_execution_result =
  res_success :: bool
  res_command :: string
  res_effective_command :: string
  res_command_proxy :: "string option"
  res_cwd :: string
  res_risk :: string
  res_approval_required :: bool
  res_approved :: bool
  res_timed_out :: bool
  res_exit_code :: "int option"
  res_duration_ms :: u64
  res_stdout :: string
  res_stderr :: string
  res_stdout_truncated :: bool
  res_stderr_truncated :: bool

record 'w shell_env =
  env_decode :: "json \<Rightarrow> string + shell_request"
  env_shlex :: "string \<Rightarrow> string list option"
  env_sha256 :: "string \<Rightarrow> string"
  env_fresh :: string
  env_now :: int
  env_canonicalize :: "string \<Rightarrow> string + path"
  env_is_dir :: "path \<Rightarrow> bool"
  env_create_dir_all :: "string \<Rightarrow> string + unit"
  env_data_dir :: "string option"
  env_shell_var :: "string option"
  env_utf8 :: "u8 list \<Rightarrow> string"
  env_elapsed_ms :: u64
  env_pretty :: "shell_execution_result \<Rightarrow> string"
  env_run :: "process_spec \<Rightarrow> 'w \<Rightarrow> process_result \<times> 'w"

section \<open>The policy\<close>

definition parse_request :: "'w shell_env \<Rightarrow> json \<Rightarrow> tool_error + shell_request" where
  "parse_request env args =
     (case env_decode env args of
        Inl e \<Rightarrow> Err (InvalidArgs (''invalid request: '' @ e))
      | Inr r \<Rightarrow>
          (let command = trim (req_command r)
           in if command = [] then Err (InvalidArgs ''`command` cannot be empty'')
              else (case req_workdir r of
                      None \<Rightarrow> Ok (r\<lparr>req_command := command\<rparr>)
                    | Some d \<Rightarrow>
                        if trim d = [] then Err (InvalidArgs ''`workdir` cannot be empty'')
                        else Ok (r\<lparr>req_command := command, req_workdir := Some (trim d)\<rparr>))))"

definition classify_risk :: "shell_config \<Rightarrow> string \<Rightarrow> command_risk" where
  "classify_risk cfg command =
     (let normalized = to_ascii_lowercase command
      in if list_ex (\<lambda>p. str_contains normalized (to_ascii_lowercase p)) (blocked_patterns cfg) then Blocked
         else if list_ex (\<lambda>p. str_contains normalized (to_ascii_lowercase p)) (unsafe_patterns cfg) then Unsafe
         else Safe)"

text \<open>\<^verbatim>\<open>Path::file_name\<close>: the last component, unless it is \<^verbatim>\<open>..\<close>; \<^verbatim>\<open>.\<close> and repeated or
  trailing separators are not components.\<close>

definition file_name :: "string \<Rightarrow> string option" where
  "file_name p =
     (let cs = path_components p
      in if cs = [] \<or> last cs = ''..'' then None else Some (last cs))"

definition is_rtk_command :: "string \<Rightarrow> bool" where
  "is_rtk_command command \<longleftrightarrow> trim command = ''rtk'' \<or> file_name (trim command) = Some ''rtk''"

definition policy_target :: "(string \<Rightarrow> string list option) \<Rightarrow> string \<Rightarrow> command_policy_target" where
  "policy_target shlex command =
     (case shlex command of
        None \<Rightarrow> \<lparr>effective_command = trim command, command_proxy = None\<rparr>
      | Some [] \<Rightarrow> \<lparr>effective_command = trim command, command_proxy = None\<rparr>
      | Some (first # rtk_args) \<Rightarrow>
          if \<not> is_rtk_command first then \<lparr>effective_command = trim command, command_proxy = None\<rparr>
          else
            (let effective_args = (case rtk_args of
                     a # as \<Rightarrow> if a = ''proxy'' then as else rtk_args
                   | [] \<Rightarrow> [])
             in \<lparr>effective_command = (if effective_args = [] then trim command else join '' '' effective_args),
                 command_proxy = Some ''rtk''\<rparr>))"

text \<open>The record that \<^verbatim>\<open>check_approval\<close> asks the manager to create, and the error with which it
  reports it.\<close>

definition shell_approval_input :: "string \<Rightarrow> string \<Rightarrow> string \<Rightarrow> approval_create_input" where
  "shell_approval_input session command hash =
     \<lparr>in_session_key = session, in_tool_name = ''shell'', in_command_text = trim command,
      in_command_preview = Some (approval_command_preview command), in_command_hash = Some hash,
      in_risk_level = Some ''unsafe'', in_requested_by = Some ''agent'', in_justification = None,
      in_expires_in_minutes = Some 10\<rparr>"

definition approval_required_error :: "string \<Rightarrow> approval_record \<Rightarrow> tool_error" where
  "approval_required_error session r =
     StructuredExecutionFailed
       (''This shell command matches an unsafe pattern and requires approval.'' @ [CHR 0x0A] @ ''Approval ID: ''
          @ ap_id r @ [CHR 0x0A]
          @ ''After approval, retry the same tool call with metadata `shell.approval_id` set to this ID.'')
       ''approval_required''
       (Some (JObject (object_of
          [(''approval_id'', JString (ap_id r)), (''tool_name'', JString ''shell''),
           (''session_key'', JString session), (''risk_level'', JString ''unsafe''),
           (''command_preview'', JString (ap_command_preview r)), (''command_hash'', JString (ap_command_hash r)),
           (''expires_at_ms'', json_of_i64 (ap_expires_at_ms r))])))
       True
       [approval_required_signal (ap_id r) ''shell'' session (Some ''unsafe'') (Some (ap_command_preview r))]"

definition approved_via_flag :: "json_map \<Rightarrow> bool" where
  "approved_via_flag metadata = unwrap_or (Option.bind (bt_get metadata ''shell.approved'') as_bool) False"

text \<open>The approval that the caller names, if any.\<close>

definition consume_named :: "string option \<Rightarrow> string \<Rightarrow> string \<Rightarrow> int \<Rightarrow> approval_table \<Rightarrow>
    (tool_error + bool) \<times> approval_table" where
  "consume_named named session hash now t =
     (case named of
        None \<Rightarrow> (Ok False, t)
      | Some i \<Rightarrow>
          (case consume_shell_approval i session hash now t of
             (Inl e, t') \<Rightarrow> (Err (ExecutionFailed (''failed to validate approval `'' @ i @ ''`: ''
                                @ approval_error_to_string e)), t')
           | (Inr b, t') \<Rightarrow> (Ok b, t')))"

definition consume_any :: "string \<Rightarrow> string \<Rightarrow> int \<Rightarrow> approval_table \<Rightarrow> (tool_error + bool) \<times> approval_table" where
  "consume_any session hash now t =
     (case consume_latest_shell_approval session hash now t of
        (Inl e, t') \<Rightarrow> (Err (ExecutionFailed (''failed to consume approved command for session `'' @ session
                           @ ''`: '' @ approval_error_to_string e)), t')
      | (Inr b, t') \<Rightarrow> (Ok b, t'))"

definition request_shell_approval :: "'w shell_env \<Rightarrow> string \<Rightarrow> string \<Rightarrow> string \<Rightarrow> approval_table \<Rightarrow>
    tool_error \<times> approval_table" where
  "request_shell_approval env session command hash t =
     (case create_approval (env_sha256 env) (env_fresh env) (env_now env)
             (shell_approval_input session command hash) t of
        (Inl e, t') \<Rightarrow> (ExecutionFailed (''failed to create approval: '' @ approval_error_to_string e), t')
      | (Inr r, t') \<Rightarrow> (approval_required_error session r, t'))"

text \<open>The result is whether an approval was required and whether it was given.\<close>

definition check_approval :: "'w shell_env \<Rightarrow> shell_tool \<Rightarrow> command_risk \<Rightarrow> string \<Rightarrow> string \<Rightarrow> json_map \<Rightarrow>
    approval_table \<Rightarrow> (tool_error + bool \<times> bool) \<times> approval_table" where
  "check_approval env tool risk command session metadata t =
     (if risk = Blocked
      then (Err (ExecutionFailed ''security violation: command matched blocked patterns''), t)
      else if risk \<noteq> Unsafe then (Ok (False, False), t)
      else if approved_via_flag metadata then (Ok (True, True), t)
      else if \<not> has_approval_manager tool
      then (Err (ExecutionFailed ''This shell command matches an unsafe pattern and requires approval. Retry with approval metadata once it has been granted.''), t)
      else
        (let hash = approval_command_hash (env_sha256 env) command;
             named = Option.bind (bt_get metadata ''shell.approval_id'') as_str
         in case consume_named named session hash (env_now env) t of
              (Inl e, t1) \<Rightarrow> (Inl e, t1)
            | (Inr True, t1) \<Rightarrow> (Ok (True, True), t1)
            | (Inr False, t1) \<Rightarrow>
                (case consume_any session hash (env_now env) t1 of
                   (Inl e, t2) \<Rightarrow> (Inl e, t2)
                 | (Inr True, t2) \<Rightarrow> (Ok (True, True), t2)
                 | (Inr False, t2) \<Rightarrow>
                     (let (e, t3) = request_shell_approval env session command hash t2 in (Inl e, t3)))))"

section \<open>The working directory and the process\<close>

definition resolve_data_workspace :: "'w shell_env \<Rightarrow> string option \<Rightarrow> tool_error + path" where
  "resolve_data_workspace env storage_root =
     and_then (case nonempty_trimmed storage_root of
                 Some root \<Rightarrow> Ok root
               | None \<Rightarrow> ok_or (env_data_dir env) (ExecutionFailed ''failed to resolve home dir'')) (\<lambda>root.
       (let workspace = path_join root ''workspace''
        in case env_create_dir_all env workspace of
             Inl e \<Rightarrow> Err (ExecutionFailed (''failed to ensure data workspace `'' @ workspace @ ''`: '' @ e))
           | Inr _ \<Rightarrow>
               (case env_canonicalize env workspace of
                  Inl e \<Rightarrow> Err (ExecutionFailed (''failed to resolve data workspace `'' @ workspace @ ''`: '' @ e))
                | Inr p \<Rightarrow> Ok p)))"

definition resolve_workspace_base :: "'w shell_env \<Rightarrow> shell_tool \<Rightarrow> tool_context \<Rightarrow> tool_error + path" where
  "resolve_workspace_base env tool ctx =
     (case Option.bind (bt_get (ctx_metadata ctx) ''workspace'') as_str of
        Some w \<Rightarrow>
          (case env_canonicalize env w of
             Inl e \<Rightarrow> Err (ExecutionFailed (''invalid workspace path: '' @ e)) | Inr p \<Rightarrow> Ok p)
      | None \<Rightarrow>
          (case shell_workspace (tool_config tool) of
             Some w \<Rightarrow>
               (case env_canonicalize env w of
                  Inl e \<Rightarrow> Err (ExecutionFailed (''invalid shell workspace path: '' @ e)) | Inr p \<Rightarrow> Ok p)
           | None \<Rightarrow> resolve_data_workspace env (storage_root_dir tool)))"

definition resolve_cwd :: "'w shell_env \<Rightarrow> shell_request \<Rightarrow> path \<Rightarrow> tool_error + path" where
  "resolve_cwd env req base =
     (let target = (case req_workdir req of
            Some d \<Rightarrow> path_join (display_path base) d
          | None \<Rightarrow> display_path base)
      in case env_canonicalize env target of
           Inl e \<Rightarrow> Err (ExecutionFailed (''invalid workdir `'' @ target @ ''`: '' @ e))
         | Inr p \<Rightarrow>
             if \<not> env_is_dir env p
             then Err (ExecutionFailed (''workdir `'' @ display_path p @ ''` is not a directory''))
             else if path_starts_with p base then Ok p
             else Err (ExecutionFailed (''workdir `'' @ display_path p @ ''` is outside workspace `''
                    @ display_path base @ ''`'')))"

definition default_timeout_ms :: u64 where "default_timeout_ms = 60000"

definition resolve_timeout :: "shell_config \<Rightarrow> shell_request \<Rightarrow> tool_error + u64" where
  "resolve_timeout cfg req =
     (let timeout = unwrap_or (req_timeout_ms req) default_timeout_ms
      in if timeout = 0 then Err (InvalidArgs ''`timeout_ms` must be greater than 0'')
         else Ok (min timeout (max_timeout_ms cfg)))"

definition resolve_shell_bin :: "'w shell_env \<Rightarrow> tool_context \<Rightarrow> string" where
  "resolve_shell_bin env ctx =
     (case nonempty_trimmed (Option.bind (bt_get (ctx_metadata ctx) ''shell.path'') as_str) of
        Some shell \<Rightarrow> shell
      | None \<Rightarrow> unwrap_or (env_shell_var env) ''sh'')"

definition shell_args :: "string \<Rightarrow> string \<Rightarrow> string list" where
  "shell_args shell_bin command =
     (let normalized = to_ascii_lowercase shell_bin
      in if str_contains normalized ''pwsh'' \<or> str_contains normalized ''powershell''
         then [''-NoLogo'', ''-NoProfile'', ''-Command'', command]
         else [''-c'', command])"

definition truncate_stream :: "(u8 list \<Rightarrow> string) \<Rightarrow> u8 list \<Rightarrow> nat \<Rightarrow> string \<times> bool" where
  "truncate_stream utf8 bytes n =
     (if length bytes \<le> n then (trim (utf8 bytes), False) else (trim (utf8 (take n bytes)), True))"

fun risk_as_str :: "command_risk \<Rightarrow> string" where
  "risk_as_str Blocked = ''blocked''"
| "risk_as_str Safe = ''safe''"
| "risk_as_str Unsafe = ''unsafe''"

definition shell_output :: "'w shell_env \<Rightarrow> shell_config \<Rightarrow> shell_request \<Rightarrow> command_policy_target \<Rightarrow> path \<Rightarrow>
    command_risk \<Rightarrow> bool \<Rightarrow> bool \<Rightarrow> bool \<Rightarrow> int option \<Rightarrow> u8 list \<Rightarrow> u8 list \<Rightarrow> tool_output" where
  "shell_output env cfg req target cwd risk required approved success code out err =
     (let limit = max (max_output_bytes cfg div 2) 1;
          (stdout, stdout_truncated) = truncate_stream (env_utf8 env) out limit;
          (stderr, stderr_truncated) = truncate_stream (env_utf8 env) err limit;
          text = env_pretty env
            \<lparr>res_success = success, res_command = req_command req,
             res_effective_command = effective_command target, res_command_proxy = command_proxy target,
             res_cwd = display_path cwd, res_risk = risk_as_str risk,
             res_approval_required = required, res_approved = approved, res_timed_out = False,
             res_exit_code = code, res_duration_ms = env_elapsed_ms env,
             res_stdout = stdout, res_stderr = stderr,
             res_stdout_truncated = stdout_truncated, res_stderr_truncated = stderr_truncated\<rparr>
      in \<lparr>output_for_model = text, output_for_user = Some text, output_media = [], output_signals = []\<rparr>)"

text \<open>What \<^verbatim>\<open>execute\<close> decides before it starts the process.\<close>

definition prepare_process :: "'w shell_env \<Rightarrow> shell_tool \<Rightarrow> shell_request \<Rightarrow> tool_context \<Rightarrow> tool_error + process_spec" where
  "prepare_process env tool req ctx =
     and_then (resolve_workspace_base env tool ctx) (\<lambda>base.
     and_then (resolve_cwd env req base) (\<lambda>cwd.
     and_then (resolve_timeout (tool_config tool) req) (\<lambda>timeout.
       (let bin = resolve_shell_bin env ctx
        in Ok \<lparr>spawn_bin = bin, spawn_args = shell_args bin (req_command req), spawn_cwd = cwd,
               spawn_session_key = ctx_session_key ctx, spawn_timeout_ms = timeout\<rparr>))))"

definition shell_execute :: "'w shell_env \<Rightarrow> shell_tool \<Rightarrow> json \<Rightarrow> tool_context \<Rightarrow> approval_table \<times> 'w \<Rightarrow>
    (tool_error + tool_output) \<times> approval_table \<times> 'w" where
  "shell_execute env tool args ctx st =
     (let (t, w) = st
      in case parse_request env args of
           Inl e \<Rightarrow> (Inl e, t, w)
         | Inr req \<Rightarrow>
             (let target = policy_target (env_shlex env) (req_command req);
                  risk = classify_risk (tool_config tool) (effective_command target)
              in case check_approval env tool risk (effective_command target) (ctx_session_key ctx)
                        (ctx_metadata ctx) t of
                   (Inl e, t') \<Rightarrow> (Inl e, t', w)
                 | (Inr (required, approved), t') \<Rightarrow>
                     (case prepare_process env tool req ctx of
                        Inl e \<Rightarrow> (Inl e, t', w)
                      | Inr spec \<Rightarrow>
                          (case env_run env spec w of
                             (ProcessTimedOut, w') \<Rightarrow>
                               (Err (ExecutionFailed (''command timed out after ''
                                  @ show_nat (unat (spawn_timeout_ms spec)) @ ''ms'')), t', w')
                           | (ProcessFailed e, w') \<Rightarrow>
                               (Err (ExecutionFailed (''failed to execute command: '' @ e)), t', w')
                           | (ProcessDone success code out err, w') \<Rightarrow>
                               (Ok (shell_output env (tool_config tool) req target (spawn_cwd spec) risk
                                      required approved success code out err), t', w')))))"

section \<open>The approval tool\<close>

record approval_request_create =
  rc_tool_name :: string
  rc_command_text :: string
  rc_command_preview :: "string option"
  rc_command_hash :: "string option"
  rc_risk_level :: "string option"
  rc_requested_by :: "string option"
  rc_justification :: "string option"
  rc_expires_in_minutes :: "int option"

datatype approval_request =
    ApprovalRequestCreate approval_request_create
  | ApprovalRequestGet string
  | ApprovalRequestResolve string approval_resolve_decision "string option"

record approval_tool_response =
  resp_action :: string
  resp_updated :: bool
  resp_approval :: approval_record

definition session_approval :: "string \<Rightarrow> string \<Rightarrow> approval_table \<Rightarrow> tool_error + approval_record" where
  "session_approval i session t =
     (if trim session = [] then Err (InvalidArgs ''`session_key` cannot be empty'')
      else (case get_approval i t of
              Inl e \<Rightarrow> Err (ExecutionFailed (''failed to get approval: '' @ approval_error_to_string e))
            | Inr r \<Rightarrow>
                if ap_session_key r \<noteq> trim session
                then Err (ExecutionFailed ''approval does not belong to current session'')
                else Ok r))"

definition approval_tool_execute :: "(string \<Rightarrow> string) \<Rightarrow> string \<Rightarrow> int \<Rightarrow> approval_request \<Rightarrow> tool_context \<Rightarrow>
    approval_table \<Rightarrow> (tool_error + approval_tool_response) \<times> approval_table" where
  "approval_tool_execute sha256 fresh now req ctx t =
     (case req of
        ApprovalRequestCreate c \<Rightarrow>
          (case create_approval sha256 fresh now
                  \<lparr>in_session_key = ctx_session_key ctx, in_tool_name = rc_tool_name c,
                   in_command_text = rc_command_text c, in_command_preview = rc_command_preview c,
                   in_command_hash = rc_command_hash c, in_risk_level = rc_risk_level c,
                   in_requested_by = rc_requested_by c, in_justification = rc_justification c,
                   in_expires_in_minutes = rc_expires_in_minutes c\<rparr> t of
             (Inl e, t') \<Rightarrow> (Err (ExecutionFailed (''failed to create approval: '' @ approval_error_to_string e)), t')
           | (Inr r, t') \<Rightarrow> (Ok \<lparr>resp_action = ''request'', resp_updated = True, resp_approval = r\<rparr>, t'))
      | ApprovalRequestGet i \<Rightarrow>
          (case session_approval i (ctx_session_key ctx) t of
             Inl e \<Rightarrow> (Inl e, t)
           | Inr r \<Rightarrow> (Ok \<lparr>resp_action = ''get'', resp_updated = False, resp_approval = r\<rparr>, t))
      | ApprovalRequestResolve i decision by_actor \<Rightarrow>
          (case session_approval i (ctx_session_key ctx) t of
             Inl e \<Rightarrow> (Inl e, t)
           | Inr _ \<Rightarrow>
               (case resolve_approval i decision by_actor now now t of
                  (Inl e, t') \<Rightarrow>
                    (Err (ExecutionFailed (''failed to resolve approval: '' @ approval_error_to_string e)), t')
                | (Inr out, t') \<Rightarrow>
                    (Ok \<lparr>resp_action = ''resolve'', resp_updated = out_updated out,
                         resp_approval = out_approval out\<rparr>, t'))))"

end
