(* ===== verification/Approval_Protocol.thy ===== *)
theory Approval_Protocol
  imports Approval
begin

text \<open>
  Properties of approvals: the life cycle that the manager's operations follow when they run one
  after the other, and what remains true when they interleave. \<^verbatim>\<open>resolve_approval\<close> reads the row
  and later writes it without a condition, so another operation may run in between; the step
  relation below makes this explicit.
\<close>

section \<open>Table lemmas\<close>

definition approvals_ok :: "approval_table \<Rightarrow> bool" where
  "approvals_ok t \<longleftrightarrow> sorted_map t \<and> (\<forall>(i, r) \<in> set t. ap_id r = i)"

lemma approvals_ok_get: "approvals_ok t \<Longrightarrow> bt_get t i = Some r \<Longrightarrow> ap_id r = i"
  using bt_get_in_set by (fastforce simp: approvals_ok_def)

lemma approvals_ok_insert: "approvals_ok t \<Longrightarrow> ap_id r = i \<Longrightarrow> approvals_ok (bt_insert i r t)"
  using set_bt_insert_subset [of i r t] by (auto simp: approvals_ok_def)

lemma store_get_Ok [simp]: "store_get_approval i t = Ok r \<longleftrightarrow> bt_get t i = Some r"
  by (cases "bt_get t i") (simp_all add: store_get_approval_def)

lemma get_approval_Ok: "get_approval i t = Ok r \<longleftrightarrow> trim i \<noteq> [] \<and> bt_get t (trim i) = Some r"
  by (simp add: get_approval_def normalize_non_empty_def)

text \<open>Each writing statement either leaves the table alone or writes one row.\<close>

lemma new_approval_of_Ok:
  assumes "new_approval_of sha fresh now inp = Ok n"
  shows "new_id n = fresh" "new_tool_name n = trim (in_tool_name inp)"
    "new_session_key n = trim (in_session_key inp)"
    "in_command_hash inp = Some h \<Longrightarrow> new_command_hash n = trim h"
  using assms by (auto simp: new_approval_of_def normalize_non_empty_def Let_def and_then_Ok_iff split: if_splits)

lemma create_cases:
  obtains "snd (create_approval sha fresh now inp t) = t" "\<exists>e. fst (create_approval sha fresh now inp t) = Err e"
  | n where "bt_get t fresh = None" "new_approval_of sha fresh now inp = Ok n" "new_id n = fresh"
      "create_approval sha fresh now inp t = (Ok (pending_row now n), bt_insert fresh (pending_row now n) t)"
proof (cases "new_approval_of sha fresh now inp")
  case (Inl e)
  then show thesis by (intro that(1)) (simp_all add: create_approval_def)
next
  case (Inr n)
  note id = new_approval_of_Ok(1) [OF Inr]
  show thesis
  proof (cases "bt_get t fresh")
    case None
    with Inr id show thesis
      by (intro that(2)) (simp_all add: create_approval_def store_create_approval_def store_get_approval_def
          bt_contains_def Let_def)
  next
    case Some
    with Inr id show thesis
      by (intro that(1)) (simp_all add: create_approval_def store_create_approval_def bt_contains_def)
  qed
qed

lemma update_cases:
  obtains "bt_get t i = None" "snd (update_approval_status now i st who t) = t"
    "\<exists>e. fst (update_approval_status now i st who t) = Err e"
  | r where "bt_get t i = Some r"
      "update_approval_status now i st who t =
        (Ok (r\<lparr>ap_status := st, ap_approved_by := who, ap_updated_at_ms := now\<rparr>),
         bt_insert i (r\<lparr>ap_status := st, ap_approved_by := who, ap_updated_at_ms := now\<rparr>) t)"
  by (cases "bt_get t i") (auto simp: update_approval_status_def Let_def store_get_approval_def)

lemma consume_cases:
  obtains "consume_approved_tool_command i tool session hash now t = (False, t)"
    "\<forall>r. bt_get t i = Some r \<longrightarrow> \<not> consumable tool session hash now r"
  | r where "bt_get t i = Some r" "consumable tool session hash now r"
      "consume_approved_tool_command i tool session hash now t = (True, bt_insert i (consumed_row now r) t)"
  by (cases "bt_get t i") (auto simp: consume_approved_tool_command_def split: if_splits)

lemma latest_consumable_Some:
  assumes "approvals_ok t" "latest_consumable tool session hash now t = Some i"
  shows "\<exists>r. bt_get t i = Some r \<and> consumable tool session hash now r"
proof -
  let ?l = "filter (consumable tool session hash now) (map snd t)"
  obtain r rest where l: "sort_key (\<lambda>r. - ap_created_at_ms r) ?l = r # rest" "ap_id r = i"
    using assms(2) by (auto simp: latest_consumable_def split: list.splits)
  then have "r \<in> set ?l" by (metis list.set_intros(1) set_sort)
  then obtain j where j: "(j, r) \<in> set t" "consumable tool session hash now r" by auto
  then have "j = i" "sorted_map t" using assms(1) l(2) by (auto simp: approvals_ok_def)
  then show ?thesis using in_set_bt_get [of t i r] j by auto
qed

lemma latest_consumable_None:
  assumes "latest_consumable tool session hash now t = None" "bt_get t i = Some r"
  shows "\<not> consumable tool session hash now r"
proof -
  have "sort_key (\<lambda>r. - ap_created_at_ms r) (filter (consumable tool session hash now) (map snd t)) = []"
    using assms(1) by (auto simp: latest_consumable_def split: list.splits)
  then have "filter (consumable tool session hash now) (map snd t) = []"
    by (metis set_empty set_sort)
  then show ?thesis using bt_get_in_set [OF assms(2)] by (force simp: filter_empty_conv)
qed

section \<open>Interleaved operations\<close>

datatype approval_event =
    Decided string approval_status
  | Used string string string string int

record approval_system =
  rows :: approval_table
  in_flight :: "(approval_record \<times> approval_resolve_decision \<times> string option \<times> int) list"
  history :: "approval_event list"

text \<open>The atomic steps of concurrent callers: an approval is created; a resolution reads a pending
  row; a resolution that has read one writes its result (or never does); an approval is consumed.
  \<^verbatim>\<open>consume_latest_*\<close> and \<^verbatim>\<open>consume_approval\<close> read identifiers first and then take the last
  step.\<close>

inductive approval_step :: "approval_system \<Rightarrow> approval_system \<Rightarrow> bool" where
  create: "create_approval sha fresh now inp (rows s) = (res, t') \<Longrightarrow>
    approval_step s (s\<lparr>rows := t'\<rparr>)"
| resolve_read: "get_approval i (rows s) = Ok r \<Longrightarrow> ap_status r = ApPending \<Longrightarrow>
    approval_step s (s\<lparr>in_flight := (r, d, a, now) # in_flight s\<rparr>)"
| resolve_write: "(r, d, a, now) \<in> set (in_flight s) \<Longrightarrow> resolution r d a now = (st, who) \<Longrightarrow>
    update_approval_status wnow (ap_id r) st (Some who) (rows s) = (Ok r', t') \<Longrightarrow>
    approval_step s (s\<lparr>rows := t', in_flight := remove1 (r, d, a, now) (in_flight s),
      history := history s @ [Decided (ap_id r) st]\<rparr>)"
| consume: "consume_approved_tool_command i tool session hash now (rows s) = (used, t') \<Longrightarrow>
    approval_step s (s\<lparr>rows := t',
      history := history s @ (if used then [Used i tool session hash now] else [])\<rparr>)"

inductive approval_reachable :: "approval_system \<Rightarrow> bool" where
  start: "approval_reachable \<lparr>rows = [], in_flight = [], history = []\<rparr>"
| step: "approval_reachable s \<Longrightarrow> approval_step s s' \<Longrightarrow> approval_reachable s'"

inductive_cases approval_stepE: "approval_step s s'"

fun is_use_of :: "string \<Rightarrow> approval_event \<Rightarrow> bool" where
  "is_use_of i (Used j _ _ _ _) \<longleftrightarrow> j = i"
| "is_use_of i (Decided _ _) \<longleftrightarrow> False"

definition uses :: "string \<Rightarrow> approval_event list \<Rightarrow> nat" where
  "uses i h = length (filter (is_use_of i) h)"

lemma uses_simps [simp]:
  "uses i [] = 0" "uses i (h @ h') = uses i h + uses i h'"
  "uses i [Decided j st] = 0" "uses i [Used j tool session hash now] = (if j = i then 1 else 0)"
  by (simp_all add: uses_def)

text \<open>Every use in the history is preceded by a decision to approve, and agrees with the row.\<close>

definition uses_granted :: "approval_table \<Rightarrow> approval_event list \<Rightarrow> bool" where
  "uses_granted t h \<longleftrightarrow>
     (\<forall>pre i tool session hash now post. h = pre @ Used i tool session hash now # post \<longrightarrow>
        Decided i ApApproved \<in> set pre \<and>
        (\<exists>r. bt_get t i = Some r \<and> ap_tool_name r = tool \<and> ap_session_key r = session \<and>
           ap_command_hash r = hash \<and> now \<le> ap_expires_at_ms r))"

definition approval_inv :: "approval_system \<Rightarrow> bool" where
  "approval_inv s \<longleftrightarrow> approvals_ok (rows s) \<and>
     (\<forall>i. uses i (history s) = (case bt_get (rows s) i of
        Some r \<Rightarrow> (if ap_consumed_at_ms r = None then 0 else 1) | None \<Rightarrow> 0)) \<and>
     (\<forall>i r. bt_get (rows s) i = Some r \<and> ap_status r = ApApproved \<longrightarrow> Decided i ApApproved \<in> set (history s)) \<and>
     uses_granted (rows s) (history s)"

text \<open>A write that keeps the identity of a row: what the caller asked for and when it expires.\<close>

definition same_request :: "approval_record \<Rightarrow> approval_record \<Rightarrow> bool" where
  "same_request r r' \<longleftrightarrow>
     ap_id r' = ap_id r \<and> ap_session_key r' = ap_session_key r \<and> ap_tool_name r' = ap_tool_name r \<and>
     ap_command_hash r' = ap_command_hash r \<and> ap_command_preview r' = ap_command_preview r \<and>
     ap_command_text r' = ap_command_text r \<and> ap_risk_level r' = ap_risk_level r \<and>
     ap_requested_by r' = ap_requested_by r \<and> ap_justification r' = ap_justification r \<and>
     ap_expires_at_ms r' = ap_expires_at_ms r \<and> ap_created_at_ms r' = ap_created_at_ms r"

lemma uses_granted_write:
  assumes "uses_granted t h" "\<forall>r. bt_get t i = Some r \<longrightarrow> same_request r r'"
  shows "uses_granted (bt_insert i r' t) h"
  unfolding uses_granted_def
proof (intro allI impI)
  fix pre j tool session hash now post
  assume "h = pre @ Used j tool session hash now # post"
  with assms(1) obtain r where r: "Decided j ApApproved \<in> set pre" "bt_get t j = Some r"
    "ap_tool_name r = tool" "ap_session_key r = session" "ap_command_hash r = hash" "now \<le> ap_expires_at_ms r"
    unfolding uses_granted_def by blast
  then show "Decided j ApApproved \<in> set pre \<and> (\<exists>r. bt_get (bt_insert i r' t) j = Some r \<and> ap_tool_name r = tool \<and>
      ap_session_key r = session \<and> ap_command_hash r = hash \<and> now \<le> ap_expires_at_ms r)"
    using assms(2) by (cases "j = i") (auto simp: same_request_def)
qed

lemma uses_granted_snoc:
  "uses_granted t (h @ [e]) \<longleftrightarrow> uses_granted t h \<and>
     (case e of Decided _ _ \<Rightarrow> True
      | Used i tool session hash now \<Rightarrow> Decided i ApApproved \<in> set h \<and>
          (\<exists>r. bt_get t i = Some r \<and> ap_tool_name r = tool \<and> ap_session_key r = session \<and>
             ap_command_hash r = hash \<and> now \<le> ap_expires_at_ms r))"
proof -
  have split: "h @ [e] = pre @ x # post \<longleftrightarrow> (post = [] \<and> pre = h \<and> x = e) \<or> (\<exists>p. post = p @ [e] \<and> h = pre @ x # p)"
    for pre x post by (cases post rule: rev_cases) (auto simp: append_eq_append_conv2 Cons_eq_append_conv)
  show ?thesis unfolding uses_granted_def split by (cases e) (auto; blast)+
qed

lemma approval_inv_step:
  assumes "approval_inv s" "approval_step s s'"
  shows "approval_inv s'"
  using assms(2)
proof (cases rule: approval_step.cases)
  case (create sha fresh now inp res t')
  show ?thesis
  proof (cases rule: create_cases [of sha fresh now inp "rows s"])
    case 1
    then show ?thesis using create assms(1) by simp
  next
    case (2 n)
    then have t': "t' = bt_insert fresh (pending_row now n) (rows s)" using create(2) by simp
    show ?thesis using assms(1) 2(1,3) unfolding create(1) approval_inv_def t'
      by (auto simp: approvals_ok_insert pending_row_def uses_granted_write split: if_splits)
  qed
next
  case (resolve_read i r d a now)
  then show ?thesis using assms(1) by (simp add: approval_inv_def)
next
  case (resolve_write r d a now st who wnow r' t')
  show ?thesis
  proof (cases rule: update_cases [of "rows s" "ap_id r" wnow st "Some who"])
    case 1
    then show ?thesis using resolve_write by auto
  next
    case (2 x)
    let ?x = "x\<lparr>ap_status := st, ap_approved_by := Some who, ap_updated_at_ms := wnow\<rparr>"
    have t': "t' = bt_insert (ap_id r) ?x (rows s)" using 2 resolve_write(4) by simp
    have "uses_granted t' (history s)" unfolding t'
      using assms(1) 2(1) by (intro uses_granted_write) (auto simp: approval_inv_def same_request_def)
    then show ?thesis using assms(1) 2(1) unfolding resolve_write(1) approval_inv_def t'
      by (auto simp: approvals_ok_insert uses_granted_snoc approvals_ok_get split: if_splits option.splits)
  qed
next
  case (consume i tool session hash now used t')
  show ?thesis
  proof (cases rule: consume_cases [of i tool session hash now "rows s"])
    case 1
    then show ?thesis using consume assms(1) by simp
  next
    case (2 r)
    have t': "t' = bt_insert i (consumed_row now r) (rows s)" "used" using 2 consume(2) by simp_all
    have "uses_granted t' (history s)" unfolding t'
      using assms(1) 2(1) by (intro uses_granted_write) (auto simp: approval_inv_def same_request_def consumed_row_def)
    then show ?thesis using assms(1) 2(1,2) t'(2) unfolding consume(1) approval_inv_def t'(1)
      by (auto simp: approvals_ok_insert uses_granted_snoc approvals_ok_get consumed_row_def consumable_def
          split: if_splits option.splits)
  qed
qed

lemma approval_inv_reachable: "approval_reachable s \<Longrightarrow> approval_inv s"
proof (induction rule: approval_reachable.induct)
  case start
  then show ?case by (simp add: approval_inv_def approvals_ok_def uses_granted_def)
qed (rule approval_inv_step)

text \<open>A call of \<^verbatim>\<open>resolve_approval\<close> that is not interrupted is the two steps in a row.\<close>

lemma resolve_approval_steps:
  assumes "approvals_ok (rows s)" "resolve_approval i d a now wnow (rows s) = (Ok out, t')" "out_updated out"
  obtains r :: approval_record and st s1 where "approval_step s s1"
    "approval_step s1 (s\<lparr>rows := t', history := history s @ [Decided (ap_id r) st]\<rparr>)"
proof -
  from assms(2,3) obtain r where r: "get_approval i (rows s) = Ok r" "ap_status r = ApPending"
    by (auto simp: resolve_approval_def split: sum.splits if_splits)
  obtain st who where res: "resolution r d a now = (st, who)" by fastforce
  have row: "bt_get (rows s) (ap_id r) = Some r"
    using r(1) approvals_ok_get [OF assms(1)] by (auto simp: get_approval_Ok)
  let ?r = "r\<lparr>ap_status := st, ap_approved_by := Some who, ap_updated_at_ms := wnow\<rparr>"
  have upd: "update_approval_status wnow (ap_id r) st (Some who) (rows s) = (Ok ?r, t')"
    using assms(2) r res row
    by (auto simp: resolve_approval_def update_approval_status_def store_get_approval_def Let_def)
  let ?s1 = "s\<lparr>in_flight := (r, d, a, now) # in_flight s\<rparr>"
  have "approval_step ?s1 (?s1\<lparr>rows := t', in_flight := remove1 (r, d, a, now) (in_flight ?s1),
      history := history ?s1 @ [Decided (ap_id r) st]\<rparr>)"
    by (rule approval_step.resolve_write [OF _ res]) (use upd in auto)
  then show thesis using that [of ?s1 r st] approval_step.resolve_read [OF r] by simp
qed

text \<open>C3: An approval is used at most once. In every state that concurrent callers can reach, with
  any interleaving of creating, resolving (a read and a later unconditional write) and consuming
  approvals, no approval has been consumed twice; every consumption was preceded by a decision to
  approve that very approval, was made by the tool, in the session and for the command hash the
  approval was requested for, and happened before its expiry.\<close>

theorem approval_used_at_most_once:
  assumes "approval_reachable s"
  shows "(\<forall>i. uses i (history s) \<le> 1) \<and>
    (\<forall>pre i tool session hash now post. history s = pre @ Used i tool session hash now # post \<longrightarrow>
       Decided i ApApproved \<in> set pre \<and>
       (\<exists>r. bt_get (rows s) i = Some r \<and> ap_tool_name r = tool \<and> ap_session_key r = session \<and>
          ap_command_hash r = hash \<and> now \<le> ap_expires_at_ms r))"
proof -
  have inv: "approval_inv s" by (rule approval_inv_reachable [OF assms])
  have "uses i (history s) \<le> 1" for i
    using inv by (auto simp: approval_inv_def split: option.splits if_splits)
  then show ?thesis using inv unfolding approval_inv_def uses_granted_def by blast
qed

text \<open>A concrete run of two callers that resolve the same approval.\<close>

definition sample_request :: approval_create_input where
  "sample_request =
     \<lparr>in_session_key = ''s1'', in_tool_name = ''shell'', in_command_text = ''mkfs'',
      in_command_preview = None, in_command_hash = Some ''h'', in_risk_level = None,
      in_requested_by = None, in_justification = None, in_expires_in_minutes = None\<rparr>"

definition race_table :: "approval_status \<Rightarrow> string option \<Rightarrow> int option \<Rightarrow> approval_table" where
  "race_table st who used =
     [(''a'', \<lparr>ap_id = ''a'', ap_session_key = ''s1'', ap_tool_name = ''shell'', ap_command_hash = ''h'',
        ap_command_preview = ''mkfs'', ap_command_text = ''mkfs'', ap_risk_level = ''mutating'', ap_status = st,
        ap_requested_by = ''agent'', ap_approved_by = who, ap_justification = None,
        ap_expires_at_ms = 600000, ap_created_at_ms = 0, ap_updated_at_ms = 0, ap_consumed_at_ms = used\<rparr>)]"

lemma race_evaluation:
  "create_approval id ''a'' 0 sample_request [] = (Ok (snd (hd (race_table ApPending None None))), race_table ApPending None None)"
  "get_approval ''a'' (race_table ApPending None None) = Ok (snd (hd (race_table ApPending None None)))"
  "update_approval_status 0 ''a'' ApRejected (Some ''bob'') (race_table ApPending None None)
     = (Ok (snd (hd (race_table ApRejected (Some ''bob'') None))), race_table ApRejected (Some ''bob'') None)"
  "update_approval_status 0 ''a'' ApApproved (Some ''eve'') (race_table ApRejected (Some ''bob'') None)
     = (Ok (snd (hd (race_table ApApproved (Some ''eve'') None))), race_table ApApproved (Some ''eve'') None)"
  "consume_approved_tool_command ''a'' ''shell'' ''s1'' ''h'' 0 (race_table ApApproved (Some ''eve'') None)
     = (True, race_table ApConsumed (Some ''eve'') (Some 0))"
  by code_simp+

lemma reachable_intros:
  "approval_reachable s \<Longrightarrow> create_approval sha fresh now inp (rows s) = (res, t') \<Longrightarrow> s' = s\<lparr>rows := t'\<rparr> \<Longrightarrow>
     approval_reachable s'"
  "approval_reachable s \<Longrightarrow> get_approval i (rows s) = Ok r \<Longrightarrow> ap_status r = ApPending \<Longrightarrow>
     s' = s\<lparr>in_flight := (r, d, a, now) # in_flight s\<rparr> \<Longrightarrow> approval_reachable s'"
  "approval_reachable s \<Longrightarrow> (r, d, a, now) \<in> set (in_flight s) \<Longrightarrow> resolution r d a now = (st, who) \<Longrightarrow>
     update_approval_status wnow (ap_id r) st (Some who) (rows s) = (Ok r', t') \<Longrightarrow>
     s' = s\<lparr>rows := t', in_flight := remove1 (r, d, a, now) (in_flight s),
            history := history s @ [Decided (ap_id r) st]\<rparr> \<Longrightarrow> approval_reachable s'"
  "approval_reachable s \<Longrightarrow> consume_approved_tool_command i tool session hash now (rows s) = (used, t') \<Longrightarrow>
     s' = s\<lparr>rows := t', history := history s @ (if used then [Used i tool session hash now] else [])\<rparr> \<Longrightarrow>
     approval_reachable s'"
  by (blast intro: approval_reachable.step approval_step.intros)+

lemma race_reachable:
  "approval_reachable \<lparr>rows = race_table ApConsumed (Some ''eve'') (Some 0), in_flight = [],
     history = [Decided ''a'' ApRejected, Decided ''a'' ApApproved, Used ''a'' ''shell'' ''s1'' ''h'' 0]\<rparr>"
proof -
  let ?r = "snd (hd (race_table ApPending None None))"
  have p: "ap_id ?r = ''a''" "ap_status ?r = ApPending" "resolution ?r Reject (Some ''bob'') 0 = (ApRejected, ''bob'')"
    "resolution ?r Approve (Some ''eve'') 0 = (ApApproved, ''eve'')"
    by code_simp+
  let ?f1 = "(?r, Approve, Some ''eve'', 0::int)" and ?f2 = "(?r, Reject, Some ''bob'', 0::int)"
  have "approval_reachable \<lparr>rows = race_table ApPending None None, in_flight = [], history = []\<rparr>"
    by (rule reachable_intros(1) [OF start, of id "''a''" 0 sample_request]) (simp_all add: race_evaluation(1))
  then have "approval_reachable \<lparr>rows = race_table ApPending None None, in_flight = [?f1], history = []\<rparr>"
    by (rule reachable_intros(2) [of _ "''a''" ?r]) (simp_all add: race_evaluation(2) p(2))
  then have "approval_reachable \<lparr>rows = race_table ApPending None None, in_flight = [?f2, ?f1], history = []\<rparr>"
    by (rule reachable_intros(2) [of _ "''a''" ?r]) (simp_all add: race_evaluation(2) p(2))
  then have "approval_reachable \<lparr>rows = race_table ApRejected (Some ''bob'') None, in_flight = [?f1],
      history = [Decided ''a'' ApRejected]\<rparr>"
    by (rule reachable_intros(3) [OF _ _ p(3), of _ 0]) (simp_all add: p(1) race_evaluation(3))
  then have "approval_reachable \<lparr>rows = race_table ApApproved (Some ''eve'') None, in_flight = [],
      history = [Decided ''a'' ApRejected, Decided ''a'' ApApproved]\<rparr>"
    by (rule reachable_intros(3) [OF _ _ p(4), of _ 0]) (simp_all add: p(1) race_evaluation(4))
  then show ?thesis
    by (rule reachable_intros(4) [of _ "''a''" "''shell''" "''s1''" "''h''" 0 True
          "race_table ApConsumed (Some ''eve'') (Some 0)"]) (simp_all add: race_evaluation(5))
qed

theorem approval_used_at_most_once_witness:
  "uses ''a'' [Decided ''a'' ApRejected, Decided ''a'' ApApproved, Used ''a'' ''shell'' ''s1'' ''h'' 0] \<le> 1 \<and>
   Decided ''a'' ApApproved \<in> set [Decided ''a'' ApRejected, Decided ''a'' ApApproved]"
  using approval_used_at_most_once [OF race_reachable] by auto

text \<open>A decision is not final while another caller is resolving the same approval: there is a run
  in which an approval is rejected, then approved by a caller that had read it before the
  rejection, and then used by the tool.\<close>

theorem rejected_approval_can_be_used:
  "\<exists>s tool session hash now. approval_reachable s \<and>
     history s = [Decided ''a'' ApRejected, Decided ''a'' ApApproved, Used ''a'' tool session hash now]"
  using race_reachable by force

section \<open>The life cycle\<close>

inductive status_change :: "approval_status \<Rightarrow> approval_status \<Rightarrow> bool" where
  "status_change st st"
| "status_change ApPending ApApproved"
| "status_change ApPending ApRejected"
| "status_change ApPending ApExpired"
| "status_change ApApproved ApConsumed"

inductive_simps status_change_simps: "status_change st st'"

text \<open>One call of the manager on the table, not interleaved with others.\<close>

inductive manager_call :: "approval_table \<Rightarrow> approval_table \<Rightarrow> bool" where
  create: "create_approval sha fresh now inp t = (res, t') \<Longrightarrow> manager_call t t'"
| resolve: "resolve_approval i d a now wnow t = (res, t') \<Longrightarrow> manager_call t t'"
| consume_tool: "consume_tool_approval i tool session hash now t = (res, t') \<Longrightarrow> manager_call t t'"
| consume_latest: "consume_latest_tool_approval tool session hash now t = (res, t') \<Longrightarrow> manager_call t t'"
| consume_one: "consume_approval i now t = (res, t') \<Longrightarrow> manager_call t t'"

definition row_progress :: "approval_table \<Rightarrow> approval_table \<Rightarrow> bool" where
  "row_progress t t' \<longleftrightarrow> approvals_ok t' \<and>
     (\<forall>i r. bt_get t i = Some r \<longrightarrow>
        (\<exists>r'. bt_get t' i = Some r' \<and> same_request r r' \<and> status_change (ap_status r) (ap_status r') \<and>
              (ap_consumed_at_ms r' \<noteq> ap_consumed_at_ms r \<longrightarrow> ap_status r' = ApConsumed)))"

lemma row_progress_refl: "approvals_ok t \<Longrightarrow> row_progress t t"
  by (simp add: row_progress_def same_request_def status_change.intros)

lemma row_progress_insert:
  assumes "approvals_ok t" "ap_id r' = i" "\<forall>r. bt_get t i = Some r \<longrightarrow> same_request r r' \<and>
      status_change (ap_status r) (ap_status r') \<and> (ap_consumed_at_ms r' \<noteq> ap_consumed_at_ms r \<longrightarrow> ap_status r' = ApConsumed)"
  shows "row_progress t (bt_insert i r' t)"
  using assms row_progress_refl [OF assms(1)] by (simp add: row_progress_def approvals_ok_insert)

lemma row_progress_consume:
  assumes "approvals_ok t"
  shows "row_progress t (snd (consume_approved_tool_command i tool session hash now t))"
proof (cases rule: consume_cases [of i tool session hash now t])
  case 1
  then show ?thesis using row_progress_refl assms by simp
next
  case (2 r)
  have "row_progress t (bt_insert i (consumed_row now r) t)"
    using 2(1,2) approvals_ok_get [OF assms 2(1)]
    by (intro row_progress_insert assms)
       (auto simp: consumed_row_def consumable_def same_request_def status_change.intros)
  then show ?thesis using 2(3) by simp
qed

lemma row_progress_resolve:
  assumes ok: "approvals_ok t"
  shows "row_progress t (snd (resolve_approval i d a now wnow t))"
proof (cases "get_approval i t")
  case (Inl e)
  then show ?thesis using row_progress_refl ok by (simp add: resolve_approval_def)
next
  case (Inr r)
  show ?thesis
  proof (cases "ap_status r = ApPending")
    case False
    then show ?thesis using Inr row_progress_refl ok by (simp add: resolve_approval_def)
  next
    case True
    have row: "bt_get t (ap_id r) = Some r" using Inr approvals_ok_get [OF ok] by (auto simp: get_approval_Ok)
    obtain st who where res: "resolution r d a now = (st, who)" by fastforce
    have st: "status_change ApPending st"
      using res by (auto simp: resolution_def status_change.intros split: if_splits approval_resolve_decision.splits)
    let ?r = "r\<lparr>ap_status := st, ap_approved_by := Some who, ap_updated_at_ms := wnow\<rparr>"
    have "snd (resolve_approval i d a now wnow t) = bt_insert (ap_id r) ?r t"
      using Inr True res row
      by (simp add: resolve_approval_def update_approval_status_def store_get_approval_def Let_def)
    moreover have "row_progress t (bt_insert (ap_id r) ?r t)"
      using row st True by (intro row_progress_insert ok) (auto simp: same_request_def)
    ultimately show ?thesis by simp
  qed
qed

text \<open>The life cycle of an approval. A call of the manager that is not interleaved with another
  keeps every row and everything that was requested in it, and moves its status only from pending
  to approved, rejected or expired, or from approved to consumed; the time of consumption is set
  only with the status consumed. A decided approval is never decided again.\<close>

theorem approval_lifecycle:
  assumes "approvals_ok t" and "manager_call t t'"
  shows "approvals_ok t' \<and>
    (\<forall>i r. bt_get t i = Some r \<longrightarrow>
       (\<exists>r'. bt_get t' i = Some r' \<and> same_request r r' \<and> status_change (ap_status r) (ap_status r') \<and>
             (ap_consumed_at_ms r' \<noteq> ap_consumed_at_ms r \<longrightarrow> ap_status r' = ApConsumed)))"
proof -
  have "row_progress t t'"
    using assms(2)
  proof cases
    case (create sha fresh now inp res)
    show ?thesis
    proof (cases rule: create_cases [of sha fresh now inp t])
      case 1
      then show ?thesis using create row_progress_refl assms(1) by simp
    next
      case (2 n)
      then have "row_progress t (bt_insert fresh (pending_row now n) t)"
        by (intro row_progress_insert assms(1)) (auto simp: pending_row_def)
      then show ?thesis using 2(4) create by simp
    qed
  next
    case (resolve i d a now wnow res)
    then show ?thesis using row_progress_resolve [OF assms(1)] by (metis snd_conv)
  next
    case (consume_tool i tool session hash now res)
    then show ?thesis
      using row_progress_refl [OF assms(1)] row_progress_consume [OF assms(1)]
      by (auto simp: consume_tool_approval_def Let_def case_prod_beta split: sum.splits)
  next
    case (consume_latest tool session hash now res)
    then show ?thesis
      using row_progress_refl [OF assms(1)] row_progress_consume [OF assms(1)]
      by (auto simp: consume_latest_tool_approval_def consume_latest_approved_tool_command_def Let_def case_prod_beta
          split: sum.splits option.splits)
  next
    case (consume_one i now res)
    then show ?thesis
      using row_progress_refl [OF assms(1)] row_progress_consume [OF assms(1)]
      by (auto simp: consume_approval_def Let_def case_prod_beta split: sum.splits)
  qed
  then show ?thesis by (simp add: row_progress_def)
qed

theorem approval_lifecycle_witness:
  "let t = race_table ApPending None None; t' = snd (resolve_approval '' a'' Approve None 600000 5 t)
   in (\<exists>r'. bt_get t' ''a'' = Some r' \<and> status_change ApPending (ap_status r')) \<and>
      map_option ap_status (bt_get t' ''a'') = Some ApApproved"
proof -
  let ?t = "race_table ApPending None None" and ?t' = "snd (resolve_approval '' a'' Approve None 600000 5 (race_table ApPending None None))"
  have "manager_call ?t ?t'" by (rule manager_call.resolve) (rule prod.collapse [symmetric])
  moreover have "approvals_ok ?t" by (simp add: approvals_ok_def race_table_def sorted_map_def)
  moreover have "bt_get ?t ''a'' = Some (snd (hd ?t))" "ap_status (snd (hd ?t)) = ApPending"
    by (simp_all add: race_table_def bt_get_def)
  ultimately have "\<exists>r'. bt_get ?t' ''a'' = Some r' \<and> status_change ApPending (ap_status r')"
    using approval_lifecycle [of ?t ?t'] by metis
  moreover have "map_option ap_status (bt_get ?t' ''a'') = Some ApApproved" by code_simp
  ultimately show ?thesis by (simp add: Let_def)
qed

end
