(* ===== verification/Shell_Properties.thy ===== *)
theory Shell_Properties
  imports Shell_Tool Approval_Protocol
begin

text \<open>
  What stands between the model and a process: the patterns, the approvals and the workspace. A
  blocked command never runs, an unsafe one runs only against an approval that is used up by it,
  and the process stays in the workspace.
\<close>

section \<open>Consuming\<close>

text \<open>An approval that covers a shell command of a session, whatever its expiry.\<close>

definition grants :: "string \<Rightarrow> string \<Rightarrow> approval_record \<Rightarrow> bool" where
  "grants session hash r \<longleftrightarrow>
     ap_tool_name r = ''shell'' \<and> ap_session_key r = session \<and> ap_command_hash r = hash \<and>
     ap_status r = ApApproved \<and> ap_consumed_at_ms r = None"

definition open_grants :: "string \<Rightarrow> string \<Rightarrow> approval_table \<Rightarrow> nat" where
  "open_grants session hash t = length (filter (\<lambda>(i, r). grants session hash r) t)"

lemma consumable_shell: "consumable ''shell'' session hash now r \<longleftrightarrow> grants session hash r \<and> now \<le> ap_expires_at_ms r"
  by (auto simp: consumable_def grants_def)

lemma open_grants_insert_existing:
  assumes "sorted_map t" "bt_get t i = Some r"
  shows "open_grants session hash (bt_insert i r' t) + (if grants session hash r then 1 else 0) =
    open_grants session hash t + (if grants session hash r' then 1 else 0)"
  using assms
proof (induction i r' t rule: bt_insert.induct)
  case (1 k v)
  then show ?case by simp
next
  case (2 k v k' v' m)
  show ?case
  proof (cases "k = k'")
    case True
    then show ?thesis using 2(3) by (simp add: open_grants_def bt_get_def)
  next
    case False
    then have m: "bt_get m k = Some r" using 2(3) by (simp add: bt_get_def)
    then have "k' < k" using 2(2) bt_get_in_set [OF m] by (force simp: sorted_map_Cons)
    then show ?thesis using 2(1) [OF _ False _ m] 2(2) False by (auto simp: open_grants_def sorted_map_Cons)
  qed
qed

lemma open_grants_insert_new:
  assumes "bt_get t i = None" "\<not> grants session hash r'"
  shows "open_grants session hash (bt_insert i r' t) = open_grants session hash t"
  using assms by (induction i r' t rule: bt_insert.induct) (auto simp: open_grants_def bt_get_def split: if_splits)

text \<open>The effect of consuming on the table: nothing, or one granting row is used up.\<close>

definition used_up :: "string \<Rightarrow> string \<Rightarrow> int \<Rightarrow> approval_table \<Rightarrow> approval_table \<Rightarrow> bool" where
  "used_up session hash now t t' \<longleftrightarrow>
     (\<exists>i r. bt_get t i = Some r \<and> grants session hash r \<and> now \<le> ap_expires_at_ms r \<and>
        t' = bt_insert i (consumed_row now r) t)"

lemma used_up_open_grants:
  assumes "approvals_ok t" "used_up session hash now t t'"
  shows "approvals_ok t'" "Suc (open_grants session hash t') = open_grants session hash t"
    "open_grants session' hash' t' \<le> open_grants session' hash' t"
proof -
  obtain i r where r: "bt_get t i = Some r" "grants session hash r" "t' = bt_insert i (consumed_row now r) t"
    using assms(2) by (auto simp: used_up_def)
  have "ap_id (consumed_row now r) = i" using approvals_ok_get [OF assms(1) r(1)] by (simp add: consumed_row_def)
  then show "approvals_ok t'" unfolding r(3) by (rule approvals_ok_insert [OF assms(1)])
  have "\<not> grants s h (consumed_row now r)" for s h by (simp add: grants_def consumed_row_def)
  then have "open_grants s h t' + (if grants s h r then 1 else 0) = open_grants s h t" for s h
    using open_grants_insert_existing [OF _ r(1), of s h "consumed_row now r"] assms(1)
    by (simp add: r(3) approvals_ok_def)
  from this [of session hash] this [of session' hash']
  show "Suc (open_grants session hash t') = open_grants session hash t"
    "open_grants session' hash' t' \<le> open_grants session' hash' t" using r(2) by simp_all
qed

lemma consume_command_cases:
  assumes "consume_approved_tool_command i ''shell'' session hash now t = (b, t')"
  shows "if b then used_up session hash now t t'
         else t' = t \<and> (\<forall>r. bt_get t i = Some r \<longrightarrow> \<not> consumable ''shell'' session hash now r)"
proof (cases rule: consume_cases [of i "''shell''" session hash now t])
  case 1
  then show ?thesis using assms by simp
next
  case (2 r)
  then show ?thesis using assms by (auto simp: used_up_def consumable_shell)
qed

lemma trim_shell: "trim ''shell'' = ''shell''"
  by code_simp

lemma consume_shell_cases:
  assumes "consume_shell_approval i session hash now t = (res, t')"
  shows "(\<exists>e. res = Err e \<and> t' = t) \<or>
    (\<exists>b. res = Ok b \<and> consume_approved_tool_command (trim i) ''shell'' (trim session) (trim hash) now t = (b, t'))"
  using assms unfolding consume_shell_approval_def consume_tool_approval_def normalize_non_empty_def trim_shell
  by (cases "trim i = []"; cases "trim session = []"; cases "trim hash = []") (auto split: prod.splits)

lemma consume_latest_cases:
  assumes "consume_latest_shell_approval session hash now t = (res, t')"
  shows "(\<exists>e. res = Err e \<and> t' = t \<and> (trim session = [] \<or> trim hash = [])) \<or>
    (\<exists>b. res = Ok b \<and> consume_latest_approved_tool_command ''shell'' (trim session) (trim hash) now t = (b, t'))"
  using assms unfolding consume_latest_shell_approval_def consume_latest_tool_approval_def normalize_non_empty_def trim_shell
  by (cases "trim session = []"; cases "trim hash = []") (auto split: prod.splits)

lemma consume_named_cases:
  assumes "consume_named named session hash now t = (res, t')"
  shows "if res = Ok True then used_up (trim session) (trim hash) now t t' else t' = t"
proof (cases named)
  case None
  then show ?thesis using assms by (auto simp: consume_named_def)
next
  case (Some i)
  obtain res0 t0 where c: "consume_shell_approval i session hash now t = (res0, t0)" by fastforce
  from consume_shell_cases [OF c] show ?thesis
    using assms Some c consume_command_cases [of "trim i" "trim session" "trim hash" now t _ t0]
    by (auto simp: consume_named_def split: if_splits)
qed

lemma consume_any_cases:
  assumes "consume_any session hash now t = (res, t')"
  shows "if res = Ok True then used_up (trim session) (trim hash) now t t' else t' = t"
    "approvals_ok t \<Longrightarrow> res = Ok False \<Longrightarrow> bt_get t i = Some r \<Longrightarrow>
       \<not> consumable ''shell'' (trim session) (trim hash) now r"
    "trim session \<noteq> [] \<Longrightarrow> trim hash \<noteq> [] \<Longrightarrow> \<exists>b. res = Ok b"
proof -
  obtain res0 t0 where c: "consume_latest_shell_approval session hash now t = (res0, t0)" by fastforce
  have latest: "if b then used_up (trim session) (trim hash) now t t0 else t0 = t"
    if "consume_latest_approved_tool_command ''shell'' (trim session) (trim hash) now t = (b, t0)" for b
    using that consume_command_cases [of _ "trim session" "trim hash" now t b t0]
    by (auto simp: consume_latest_approved_tool_command_def split: option.splits if_splits)
  show "if res = Ok True then used_up (trim session) (trim hash) now t t' else t' = t"
    using consume_latest_cases [OF c] latest assms c by (auto simp: consume_any_def split: if_splits)
  show "\<exists>b. res = Ok b" if "trim session \<noteq> []" "trim hash \<noteq> []"
    using consume_latest_cases [OF c] that assms c by (auto simp: consume_any_def)
  assume h: "approvals_ok t" "res = Ok False" "bt_get t i = Some r"
  then have "consume_latest_approved_tool_command ''shell'' (trim session) (trim hash) now t = (False, t0)"
    using consume_latest_cases [OF c] assms c by (auto simp: consume_any_def)
  then have "latest_consumable ''shell'' (trim session) (trim hash) now t = None"
    using latest_consumable_Some [OF h(1), of "''shell''" "trim session" "trim hash" now]
    by (cases "latest_consumable ''shell'' (trim session) (trim hash) now t")
       (auto simp: consume_latest_approved_tool_command_def consume_approved_tool_command_def)
  then show "\<not> consumable ''shell'' (trim session) (trim hash) now r"
    using latest_consumable_None h(3) by blast
qed

section \<open>The gate\<close>

lemma check_approval_Ok:
  assumes "check_approval env tool risk command session metadata t = (Ok (required, approved), t')"
  shows "risk \<noteq> Blocked" "required \<longleftrightarrow> risk = Unsafe" "approved = required"
    "risk = Unsafe \<Longrightarrow> \<not> approved_via_flag metadata \<Longrightarrow>
       used_up (trim session) (trim (env_sha256 env (trim command))) (env_now env) t t'"
    "risk \<noteq> Unsafe \<or> approved_via_flag metadata \<Longrightarrow> t' = t"
proof -
  let ?h = "approval_command_hash (env_sha256 env) command"
  let ?n = "Option.bind (bt_get metadata ''shell.approval_id'') as_str"
  obtain r1 t1 where n: "consume_named ?n session ?h (env_now env) t = (r1, t1)" by fastforce
  obtain r2 t2 where y: "consume_any session ?h (env_now env) t1 = (r2, t2)" by fastforce
  note cs = consume_named_cases [OF n] consume_any_cases(1) [OF y]
  have main: "risk \<noteq> Blocked \<and> (required \<longleftrightarrow> risk = Unsafe) \<and> approved = required \<and>
      (risk = Unsafe \<and> \<not> approved_via_flag metadata \<longrightarrow> used_up (trim session) (trim ?h) (env_now env) t t') \<and>
      (risk \<noteq> Unsafe \<or> approved_via_flag metadata \<longrightarrow> t' = t)"
    using assms n y cs
    by (auto simp: check_approval_def Let_def split: if_splits sum.splits bool.splits prod.splits)
  then show "risk \<noteq> Blocked" "required \<longleftrightarrow> risk = Unsafe" "approved = required"
    "risk = Unsafe \<Longrightarrow> \<not> approved_via_flag metadata \<Longrightarrow>
       used_up (trim session) (trim (env_sha256 env (trim command))) (env_now env) t t'"
    "risk \<noteq> Unsafe \<or> approved_via_flag metadata \<Longrightarrow> t' = t"
    by (auto simp: approval_command_hash_def)
qed

lemma request_shell_approval_cases:
  assumes "request_shell_approval env session command hash t = (e, t')"
  obtains "t' = t" | r where "bt_get t (env_fresh env) = None" "t' = bt_insert (env_fresh env) r t"
    "ap_status r = ApPending" "ap_id r = env_fresh env" "e = approval_required_error session r"
proof (cases rule: create_cases [of "env_sha256 env" "env_fresh env" "env_now env"
      "shell_approval_input session command hash" t])
  case 1
  then have "t' = t" using assms by (auto simp: request_shell_approval_def split: prod.splits)
  then show thesis by (rule that(1))
next
  case (2 n)
  then show thesis using assms by (intro that(2)) (auto simp: request_shell_approval_def pending_row_def)
qed

lemma check_approval_Err:
  assumes "check_approval env tool risk command session metadata t = (Err e, t')"
  obtains "t' = t" | r where "bt_get t (env_fresh env) = None" "t' = bt_insert (env_fresh env) r t"
    "ap_status r = ApPending" "ap_id r = env_fresh env" "e = approval_required_error session r"
proof -
  let ?h = "approval_command_hash (env_sha256 env) command"
  let ?n = "Option.bind (bt_get metadata ''shell.approval_id'') as_str"
  obtain r1 t1 where n: "consume_named ?n session ?h (env_now env) t = (r1, t1)" by fastforce
  obtain r2 t2 where y: "consume_any session ?h (env_now env) t1 = (r2, t2)" by fastforce
  obtain e3 t3 where q: "request_shell_approval env session command ?h t2 = (e3, t3)" by fastforce
  note cs = consume_named_cases [OF n] consume_any_cases(1) [OF y]
  have "t' = t \<or> (t2 = t \<and> t' = t3 \<and> e = e3)"
    using assms n y q cs
    by (auto simp: check_approval_def Let_def split: if_splits sum.splits bool.splits prod.splits)
  then show thesis
  proof (elim disjE conjE)
    assume "t2 = t" "t' = t3" "e = e3"
    then show thesis using request_shell_approval_cases [OF q] that by metis
  qed (rule that(1))
qed

section \<open>Starting a process\<close>

text \<open>The decision of one call: the request, the checked command and the process it will start.\<close>

definition shell_starts :: "'w shell_env \<Rightarrow> shell_tool \<Rightarrow> json \<Rightarrow> tool_context \<Rightarrow> approval_table \<Rightarrow>
    (shell_request \<times> process_spec) option" where
  "shell_starts env tool args ctx t =
     (case parse_request env args of
        Inl _ \<Rightarrow> None
      | Inr req \<Rightarrow>
          (let c = effective_command (policy_target (env_shlex env) (req_command req))
           in case check_approval env tool (classify_risk (tool_config tool) c) c (ctx_session_key ctx)
                     (ctx_metadata ctx) t of
                (Inl _, _) \<Rightarrow> None
              | (Inr _, _) \<Rightarrow>
                  (case prepare_process env tool req ctx of Inl _ \<Rightarrow> None | Inr spec \<Rightarrow> Some (req, spec))))"

lemma shell_execute_world:
  assumes "shell_execute env tool args ctx (t, w) = (res, t', w')"
  shows "w' = (case shell_starts env tool args ctx t of None \<Rightarrow> w | Some (_, spec) \<Rightarrow> snd (env_run env spec w))"
  using assms
  by (auto simp: shell_execute_def shell_starts_def Let_def split: sum.splits prod.splits process_result.splits)

lemma shell_execute_table:
  assumes "shell_execute env tool args ctx (t, w) = (res, t', w')" "parse_request env args = Ok req"
    "c = effective_command (policy_target (env_shlex env) (req_command req))"
  shows "t' = snd (check_approval env tool (classify_risk (tool_config tool) c) c (ctx_session_key ctx)
     (ctx_metadata ctx) t)"
  using assms
  by (auto simp: shell_execute_def Let_def split: sum.splits prod.splits process_result.splits)

lemma resolve_cwd_Ok:
  assumes "resolve_cwd env req base = Ok p"
  shows "path_starts_with p base" "env_is_dir env p"
proof -
  let ?target = "case req_workdir req of Some d \<Rightarrow> path_join (display_path base) d | None \<Rightarrow> display_path base"
  have "path_starts_with p base \<and> env_is_dir env p"
    using assms by (cases "env_canonicalize env ?target") (auto simp: resolve_cwd_def Let_def split: if_splits)
  then show "path_starts_with p base" "env_is_dir env p" by blast+
qed

lemma resolve_timeout_Ok: "resolve_timeout cfg req = Ok n \<Longrightarrow> n \<le> max_timeout_ms cfg"
  by (auto simp: resolve_timeout_def Let_def split: if_splits)

lemma last_shell_args: "last (shell_args bin c) = c"
  by (simp add: shell_args_def Let_def)

lemma prepare_process_Ok:
  assumes "prepare_process env tool req ctx = Ok spec"
  obtains base where "resolve_workspace_base env tool ctx = Ok base" "path_starts_with (spawn_cwd spec) base"
    "spawn_timeout_ms spec \<le> max_timeout_ms (tool_config tool)" "last (spawn_args spec) = req_command req"
proof -
  from assms obtain base cwd n where p: "resolve_workspace_base env tool ctx = Ok base" "resolve_cwd env req base = Ok cwd"
    "resolve_timeout (tool_config tool) req = Ok n" "spec = \<lparr>spawn_bin = resolve_shell_bin env ctx,
       spawn_args = shell_args (resolve_shell_bin env ctx) (req_command req), spawn_cwd = cwd,
       spawn_session_key = ctx_session_key ctx, spawn_timeout_ms = n\<rparr>"
    by (auto simp: prepare_process_def Let_def and_then_Ok_iff)
  show thesis
    using that [OF p(1)] resolve_cwd_Ok(1) [OF p(2)] resolve_timeout_Ok [OF p(3)] by (simp add: p(4) last_shell_args)
qed

lemma classify_risk_iff:
  "classify_risk cfg c = Blocked \<longleftrightarrow> (\<exists>p \<in> set (blocked_patterns cfg). str_contains (to_ascii_lowercase c) (to_ascii_lowercase p))"
  "classify_risk cfg c = Unsafe \<longleftrightarrow> classify_risk cfg c \<noteq> Blocked \<and>
     (\<exists>p \<in> set (unsafe_patterns cfg). str_contains (to_ascii_lowercase c) (to_ascii_lowercase p))"
  by (auto simp: classify_risk_def Let_def list_ex_iff)


lemma trim_not_all_blank: "x \<in> set s \<Longrightarrow> \<not> is_whitespace x \<Longrightarrow> trim s \<noteq> []"
  by (auto simp: trim_empty_iff)

lemma approval_required_error_reads:
  "tool_error_code (approval_required_error session r) = ''approval_required''"
  "map sig_kind (tool_error_signals (approval_required_error session r)) = [''approval_required'']"
  by (simp_all add: approval_required_error_def approval_required_signal_def)

text \<open>An unsafe command without an approval does not run but is put before the user. If no
  approval covers it, the call starts nothing, stores exactly one new pending approval for this
  session, tool and command, and fails with the code \<^verbatim>\<open>approval_required\<close> and a signal of that
  kind that names the new approval.\<close>

theorem unsafe_command_requests_approval:
  assumes "parse_request env args = Ok req"
    and "c = effective_command (policy_target (env_shlex env) (req_command req))"
    and "classify_risk (tool_config tool) c = Unsafe" and "trim c \<noteq> []"
    and "\<not> approved_via_flag (ctx_metadata ctx)" and "bt_get (ctx_metadata ctx) ''shell.approval_id'' = None"
    and "has_approval_manager tool" and "approvals_ok t" and "bt_get t (env_fresh env) = None"
    and "trim (ctx_session_key ctx) \<noteq> []" and "trim (env_sha256 env (trim c)) \<noteq> []"
    and "\<forall>i r. bt_get t i = Some r \<longrightarrow>
      \<not> consumable ''shell'' (trim (ctx_session_key ctx)) (trim (env_sha256 env (trim c))) (env_now env) r"
  shows "\<exists>r. shell_execute env tool args ctx (t, w) =
      (Err (approval_required_error (ctx_session_key ctx) r), bt_insert (env_fresh env) r t, w) \<and>
    tool_error_code (approval_required_error (ctx_session_key ctx) r) = ''approval_required'' \<and>
    map sig_kind (tool_error_signals (approval_required_error (ctx_session_key ctx) r)) = [''approval_required''] \<and>
    ap_id r = env_fresh env \<and> ap_status r = ApPending \<and> ap_tool_name r = ''shell'' \<and>
    ap_session_key r = trim (ctx_session_key ctx) \<and> ap_command_hash r = trim (env_sha256 env (trim c)) \<and>
    ap_command_text r = trim c"
proof -
  let ?h = "approval_command_hash (env_sha256 env) c" and ?s = "ctx_session_key ctx"
  let ?inp = "shell_approval_input ?s c ?h"
  have named: "consume_named None ?s ?h (env_now env) t = (Ok False, t)" by (simp add: consume_named_def)
  obtain res2 t2 where y: "consume_any ?s ?h (env_now env) t = (res2, t2)" by fastforce
  have "res2 \<noteq> Ok True"
    using consume_any_cases(1) [OF y] assms(12)
    by (auto simp: used_up_def consumable_shell approval_command_hash_def)
  then have any: "res2 = Ok False" "t2 = t"
    using consume_any_cases(1,3) [OF y] assms(10,11) by (auto simp: approval_command_hash_def)
  have pre: "trim (approval_command_preview c) \<noteq> []"
    using assms(4) trim_not_all_blank [of "CHR ''.''"] by (auto simp: approval_command_preview_def Let_def is_whitespace_def)
  obtain n where n: "new_approval_of (env_sha256 env) (env_fresh env) (env_now env) ?inp = Ok n"
    "new_command_text n = trim c" "new_tool_name n = ''shell''" "new_session_key n = trim ?s" "new_command_hash n = trim ?h"
    "new_id n = env_fresh env"
    using assms(4,10,11) pre
    by (auto simp: new_approval_of_def shell_approval_input_def normalize_non_empty_def trim_shell unwrap_or_def
        max_expires_in_minutes_def approval_command_hash_def)
  have create: "create_approval (env_sha256 env) (env_fresh env) (env_now env) ?inp t =
      (Ok (pending_row (env_now env) n), bt_insert (env_fresh env) (pending_row (env_now env) n) t)"
    using n(1,6) assms(9)
    by (simp add: create_approval_def store_create_approval_def store_get_approval_def bt_contains_def Let_def)
  have "check_approval env tool Unsafe c ?s (ctx_metadata ctx) t =
      (Err (approval_required_error ?s (pending_row (env_now env) n)), bt_insert (env_fresh env) (pending_row (env_now env) n) t)"
    using assms(5-7) named y any create by (simp add: check_approval_def request_shell_approval_def Let_def)
  then have "shell_execute env tool args ctx (t, w) =
      (Err (approval_required_error ?s (pending_row (env_now env) n)), bt_insert (env_fresh env) (pending_row (env_now env) n) t, w)"
    using assms(1-3) by (simp add: shell_execute_def)
  moreover have "ap_id (pending_row (env_now env) n) = env_fresh env" "ap_status (pending_row (env_now env) n) = ApPending"
    "ap_tool_name (pending_row (env_now env) n) = ''shell''" "ap_session_key (pending_row (env_now env) n) = trim ?s"
    "ap_command_hash (pending_row (env_now env) n) = trim (env_sha256 env (trim c))"
    "ap_command_text (pending_row (env_now env) n) = trim c"
    using n by (simp_all add: pending_row_def approval_command_hash_def)
  ultimately show ?thesis using approval_required_error_reads by blast
qed

section \<open>Sequences of calls\<close>

text \<open>Calls of the shell tool one after the other, each with its own environment and context.\<close>

type_synonym 'w shell_call = "'w shell_env \<times> json \<times> tool_context"

fun shell_calls :: "shell_tool \<Rightarrow> 'w shell_call list \<Rightarrow> approval_table \<times> 'w \<Rightarrow> approval_table \<times> 'w" where
  "shell_calls tool [] st = st"
| "shell_calls tool ((env, args, ctx) # cs) st = shell_calls tool cs (snd (shell_execute env tool args ctx st))"

text \<open>Whether a call starts an unsafe command for a session and a hash on the strength of an approval.\<close>

definition starts_on_approval :: "shell_tool \<Rightarrow> string \<Rightarrow> string \<Rightarrow> 'w shell_call \<Rightarrow> approval_table \<Rightarrow> bool" where
  "starts_on_approval tool session hash call t =
     (let (env, args, ctx) = call
      in case shell_starts env tool args ctx t of
           None \<Rightarrow> False
         | Some (req, _) \<Rightarrow>
             (let c = effective_command (policy_target (env_shlex env) (req_command req))
              in classify_risk (tool_config tool) c = Unsafe \<and> \<not> approved_via_flag (ctx_metadata ctx) \<and>
                 trim (ctx_session_key ctx) = session \<and> trim (env_sha256 env (trim c)) = hash))"

fun approved_starts :: "shell_tool \<Rightarrow> string \<Rightarrow> string \<Rightarrow> 'w shell_call list \<Rightarrow> approval_table \<times> 'w \<Rightarrow> nat" where
  "approved_starts tool session hash [] st = 0"
| "approved_starts tool session hash ((env, args, ctx) # cs) st =
     (if starts_on_approval tool session hash (env, args, ctx) (fst st) then 1 else 0)
     + approved_starts tool session hash cs (snd (shell_execute env tool args ctx st))"

lemma shell_call_grants:
  assumes ok: "approvals_ok t" and call: "shell_execute env tool args ctx (t, w) = (res, t', w')"
  shows "approvals_ok t'"
    "open_grants session hash t' + (if starts_on_approval tool session hash (env, args, ctx) t then 1 else 0)
       \<le> open_grants session hash t"
proof -
  have "approvals_ok t' \<and> open_grants session hash t' +
      (if starts_on_approval tool session hash (env, args, ctx) t then 1 else 0) \<le> open_grants session hash t"
  proof (cases "parse_request env args")
    case (Inl e)
    then show ?thesis using ok call by (simp add: shell_execute_def starts_on_approval_def shell_starts_def)
  next
    case (Inr req)
    let ?c = "effective_command (policy_target (env_shlex env) (req_command req))"
    let ?chk = "check_approval env tool (classify_risk (tool_config tool) ?c) ?c (ctx_session_key ctx) (ctx_metadata ctx) t"
    have t': "t' = snd ?chk" by (rule shell_execute_table [OF call Inr refl])
    show ?thesis
    proof (cases "fst ?chk")
      case (Inl e)
      then have "?chk = (Err e, t')" using t' by (simp add: prod_eq_iff)
      then show ?thesis
        using \<open>parse_request env args = Ok req\<close>
      proof (cases rule: check_approval_Err)
        case (2 r)
        then show ?thesis
          using ok Inr approvals_ok_insert [OF ok 2(4)] open_grants_insert_new [OF 2(1), of session hash r] Inl
          by (simp add: starts_on_approval_def shell_starts_def grants_def Let_def case_prod_beta)
      qed (use ok Inr Inl in \<open>simp add: starts_on_approval_def shell_starts_def Let_def case_prod_beta\<close>)
    next
      case ra: (Inr ra)
      obtain required approved where chk: "?chk = (Ok (required, approved), t')"
        using ra t' by (metis prod.collapse)
      note c = check_approval_Ok(4,5) [OF chk]
      show ?thesis
      proof (cases "classify_risk (tool_config tool) ?c = Unsafe \<and> \<not> approved_via_flag (ctx_metadata ctx)")
        case True
        note u = used_up_open_grants [OF ok c(1)]
        have "approvals_ok t'" "open_grants session hash t' \<le> open_grants session hash t"
          "starts_on_approval tool session hash (env, args, ctx) t \<Longrightarrow>
             Suc (open_grants session hash t') = open_grants session hash t"
          using u True Inr by (auto simp: starts_on_approval_def shell_starts_def Let_def split: option.splits sum.splits prod.splits)
        then show ?thesis by simp
      next
        case False
        then have "t' = t" using c(2) by blast
        moreover have "\<not> starts_on_approval tool session hash (env, args, ctx) t"
          using False Inr by (auto simp: starts_on_approval_def shell_starts_def Let_def split: option.splits sum.splits prod.splits)
        ultimately show ?thesis using ok by simp
      qed
    qed
  qed
  then show "approvals_ok t'"
    "open_grants session hash t' + (if starts_on_approval tool session hash (env, args, ctx) t then 1 else 0)
       \<le> open_grants session hash t" by blast+
qed

text \<open>One approval, one run. However often and with whatever arguments the shell tool is called
  in a row, at most as many processes are started for unsafe commands of a session with a given
  hash on the strength of an approval as there were unused approvals for them before the first
  call; calling the tool never creates one.\<close>

theorem one_approval_one_run:
  assumes "approvals_ok t"
  shows "approved_starts tool session hash calls (t, w) \<le> open_grants session hash t"
  using assms
proof (induction calls arbitrary: t w)
  case (Cons call calls)
  obtain env args ctx where call: "call = (env, args, ctx)" by (metis prod_cases3)
  obtain res t' w' where ex: "shell_execute env tool args ctx (t, w) = (res, t', w')" by (metis prod_cases3)
  have "approved_starts tool session hash calls (t', w') \<le> open_grants session hash t'"
    by (rule Cons.IH [OF shell_call_grants(1) [OF Cons.prems ex]])
  with shell_call_grants(2) [OF Cons.prems ex, of session hash] show ?case by (simp add: call ex)
qed simp

section \<open>Samples\<close>

text \<open>A world that records the processes that were started, and an environment over it.\<close>

definition sample_env :: "string \<Rightarrow> process_spec list shell_env" where
  "sample_env fresh =
     \<lparr>env_decode = (\<lambda>j. case json_get j ''command'' of
          Some (JString c) \<Rightarrow> Ok \<lparr>req_command = c, req_workdir = None, req_timeout_ms = None\<rparr>
        | _ \<Rightarrow> Err ''missing field''),
      env_shlex = (\<lambda>c. Some (split_whitespace c)), env_sha256 = (\<lambda>c. ''h'' @ c), env_fresh = fresh,
      env_now = 1000, env_canonicalize = (\<lambda>p. Ok (path_components p)), env_is_dir = (\<lambda>p. True),
      env_create_dir_all = (\<lambda>p. Ok ()), env_data_dir = Some ''/home/.klaw'', env_shell_var = None,
      env_utf8 = (\<lambda>bs. []), env_elapsed_ms = 0, env_pretty = (\<lambda>r. res_command r),
      env_run = (\<lambda>spec w. (ProcessDone True (Some 0) [] [], w @ [spec]))\<rparr>"

definition sample_tool :: shell_tool where
  "sample_tool =
     \<lparr>tool_config = \<lparr>shell_enabled = True, shell_workspace = None, blocked_patterns = ['':(){''],
        unsafe_patterns = [''mkfs''], allow_login_shell = True, max_timeout_ms = 120000, max_output_bytes = 8\<rparr>,
      storage_root_dir = None, has_approval_manager = True\<rparr>"

definition sample_args :: json where
  "sample_args = JObject [(''command'', JString '' rtk proxy mkfs  disk '')]"

definition sample_ctx :: tool_context where
  "sample_ctx = \<lparr>ctx_session_key = ''s1'', ctx_metadata = []\<rparr>"

definition sample_approved :: approval_table where
  "sample_approved =
     (let t = fst (snd (shell_execute (sample_env ''a'') sample_tool sample_args sample_ctx ([], [])))
      in snd (resolve_approval ''a'' Approve (Some ''user'') 1000 1000 t))"

lemma sample_approved_ok: "approvals_ok sample_approved"
proof -
  have "list_all (\<lambda>(i, r). ap_id r = i) sample_approved" "map fst sample_approved = [''a'']" by code_simp+
  then show ?thesis by (simp add: approvals_ok_def sorted_map_def list_all_iff)
qed


theorem unsafe_command_requests_approval_witness:
  "\<exists>r. shell_execute (sample_env ''a'') sample_tool sample_args sample_ctx ([], []) =
     (Err (approval_required_error ''s1'' r), [(''a'', r)], []) \<and> ap_status r = ApPending"
proof -
  let ?req = "\<lparr>req_command = ''rtk proxy mkfs  disk'', req_workdir = None, req_timeout_ms = None\<rparr>"
  have ev: "parse_request (sample_env ''a'') sample_args = Ok ?req"
    "effective_command (policy_target (env_shlex (sample_env ''a'')) (req_command ?req)) = ''mkfs disk''"
    "classify_risk (tool_config sample_tool) ''mkfs disk'' = Unsafe" "trim ''mkfs disk'' \<noteq> []"
    "\<not> approved_via_flag (ctx_metadata sample_ctx)" "bt_get (ctx_metadata sample_ctx) ''shell.approval_id'' = None"
    "has_approval_manager sample_tool" "trim (ctx_session_key sample_ctx) \<noteq> []"
    "trim (env_sha256 (sample_env ''a'') (trim ''mkfs disk'')) \<noteq> []"
    "env_fresh (sample_env ''a'') = ''a''" "ctx_session_key sample_ctx = ''s1''"
    by code_simp+
  have ok: "approvals_ok []" by (simp add: approvals_ok_def)
  show ?thesis
    using unsafe_command_requests_approval [OF ev(1) ev(2) [symmetric] ev(3-7) ok _ ev(8,9), of "[]"] ev(10,11)
    by auto
qed

theorem one_approval_one_run_witness:
  "approved_starts sample_tool ''s1'' ''hmkfs disk''
     [(sample_env ''b'', sample_args, sample_ctx), (sample_env ''c'', sample_args, sample_ctx)] (sample_approved, []) \<le> 1"
proof -
  have "open_grants ''s1'' ''hmkfs disk'' sample_approved = 1" by code_simp
  then show ?thesis
    using one_approval_one_run [OF sample_approved_ok, of sample_tool "''s1''" "''hmkfs disk''"] by metis
qed

text \<open>The model can approve its own request. There is a run in which every step is a tool call of
  the agent: the shell tool refuses an unsafe command and stores a pending approval, the approval
  tool resolves it, and the repeated shell call starts the command.\<close>

theorem agent_can_approve_itself:
  "\<exists>r. case shell_execute (sample_env ''a'') sample_tool sample_args sample_ctx ([], []) of
     (res1, t1, w1) \<Rightarrow> res1 = Err (approval_required_error ''s1'' r) \<and> w1 = [] \<and>
       (case approval_tool_execute id ''x'' 1000 (ApprovalRequestResolve (ap_id r) Approve None) sample_ctx t1 of
          (res2, t2) \<Rightarrow> map_option ap_approved_by (bt_get t2 (ap_id r)) = Some (Some ''channel-user'') \<and>
            (case shell_execute (sample_env ''b'') sample_tool sample_args sample_ctx (t2, w1) of
               (res3, t3, w3) \<Rightarrow> map spawn_args w3 = [[''-c'', ''rtk proxy mkfs  disk'']]))"
proof -
  let ?t1 = "fst (snd (shell_execute (sample_env ''a'') sample_tool sample_args sample_ctx ([], [])))"
  show ?thesis by (rule exI [of _ "the (bt_get ?t1 ''a'')"]) code_simp
qed

end
