(* ===== verification/Chat_History.thy ===== *)
theory Chat_History
  imports Klaw_Prelude
begin

text \<open>
  \<^verbatim>\<open>klaw-storage/src/jsonl.rs\<close>: the conversation of a session is a file with one JSON
  object per line, appended to as the conversation goes on. It is read either whole
  (\<^verbatim>\<open>read_chat_records\<close>) or one page at a time from the end of the file, in chunks of 8 KiB
  (\<^verbatim>\<open>read_chat_records_page\<close>).

  A file is a list of bytes, a \<open>char\<close> of this theory; the files of the sessions directory are an
  ordered map from paths to contents. The JSON codec (serde) is the pair of arguments \<open>ser\<close> and
  \<open>de\<close>. Failures of the file system other than a missing file are outside the model.
\<close>

section \<open>Records and errors\<close>

record chat_record =
  ts_ms :: int
  chat_role :: string
  chat_content :: string
  metadata_json :: "string option"
  chat_message_id :: "string option"

record chat_record_page =
  page_records :: "chat_record list"
  page_has_more :: bool
  oldest_message_id :: "string option"

text \<open>The variants of \<^verbatim>\<open>StorageError\<close> that these operations and those on the tables return;
  the messages of an operating system error and of a JSON error are dropped.\<close>

datatype storage_error =
  ReadJsonl | WriteJsonl | SerializeJson | InvalidHistoryCursor string | Backend string

fun storage_error_to_string :: "storage_error \<Rightarrow> string" where
  "storage_error_to_string ReadJsonl = ''failed to read JSONL record: ''"
| "storage_error_to_string WriteJsonl = ''failed to append JSONL record: ''"
| "storage_error_to_string SerializeJson = ''failed to serialize JSONL record: ''"
| "storage_error_to_string (InvalidHistoryCursor c) = ''invalid history cursor: '' @ c"
| "storage_error_to_string (Backend m) = ''backend error: '' @ m"

type_synonym file_map = "(string, string) btree_map"

section \<open>Paths\<close>

text \<open>\<^verbatim>\<open>str::split_once\<close> at a character.\<close>

definition split_once :: "char \<Rightarrow> string \<Rightarrow> (string \<times> string) option" where
  "split_once c s =
     (if c \<in> set s then Some (takeWhile (\<lambda>x. x \<noteq> c) s, tl (dropWhile (\<lambda>x. x \<noteq> c) s)) else None)"

definition session_id_from_session_key :: "string \<Rightarrow> string" where
  "session_id_from_session_key key =
     unwrap_or (option_filter (\<lambda>i. i \<noteq> []) (map_option snd (split_once CHR '':'' key))) key"

text \<open>\<^verbatim>\<open>Path::join\<close>: an absolute second path replaces the first, otherwise a separator is added
  unless one is there.\<close>

definition path_join :: "string \<Rightarrow> string \<Rightarrow> string" where
  "path_join dir p =
     (if starts_with p ''/'' then p
      else if dir = [] \<or> ends_with dir ''/'' then dir @ p
      else dir @ ''/'' @ p)"

definition session_jsonl_path :: "string \<Rightarrow> string \<Rightarrow> string" where
  "session_jsonl_path sessions_dir key =
     path_join sessions_dir (session_id_from_session_key key @ ''.jsonl'')"

section \<open>Bytes\<close>

text \<open>\<^verbatim>\<open>u8::is_ascii_whitespace\<close>.\<close>

definition is_ascii_whitespace :: "char \<Rightarrow> bool" where
  "is_ascii_whitespace c \<longleftrightarrow> c \<in> set [CHR 0x20, CHR 0x09, CHR 0x0A, CHR 0x0C, CHR 0x0D]"

definition byte_in :: "nat \<Rightarrow> nat \<Rightarrow> char \<Rightarrow> bool" where
  "byte_in lo hi c \<longleftrightarrow> lo \<le> of_char c \<and> of_char c \<le> hi"

abbreviation continuation :: "char \<Rightarrow> bool" where "continuation \<equiv> byte_in 0x80 0xBF"

text \<open>Well-formed UTF-8 (Unicode 15, table 3-7), the check of \<^verbatim>\<open>read_to_string\<close>.\<close>

fun valid_utf8 :: "string \<Rightarrow> bool" where
  "valid_utf8 [] = True"
| "valid_utf8 (a # s) =
     (if byte_in 0x00 0x7F a then valid_utf8 s
      else (case s of
          [] \<Rightarrow> False
        | b # s2 \<Rightarrow>
            if byte_in 0xC2 0xDF a then continuation b \<and> valid_utf8 s2
            else (case s2 of
                [] \<Rightarrow> False
              | c # s3 \<Rightarrow>
                  if byte_in 0xE0 0xEF a
                  then (if byte_in 0xE0 0xE0 a then byte_in 0xA0 0xBF b
                        else if byte_in 0xED 0xED a then byte_in 0x80 0x9F b
                        else continuation b) \<and> continuation c \<and> valid_utf8 s3
                  else (case s3 of
                      [] \<Rightarrow> False
                    | d # s4 \<Rightarrow>
                        byte_in 0xF0 0xF4 a \<and>
                        (if byte_in 0xF0 0xF0 a then byte_in 0x90 0xBF b
                         else if byte_in 0xF4 0xF4 a then byte_in 0x80 0x8F b
                         else continuation b) \<and> continuation c \<and> continuation d \<and> valid_utf8 s4))))"

text \<open>\<^verbatim>\<open>trim().is_empty()\<close> on well-formed UTF-8: only characters with the property
  \<^verbatim>\<open>White_Space\<close>.\<close>

fun blank_utf8 :: "string \<Rightarrow> bool" where
  "blank_utf8 [] = True"
| "blank_utf8 (a # s) =
     (if byte_in 0x09 0x0D a \<or> byte_in 0x20 0x20 a then blank_utf8 s
      else (case s of
          [] \<Rightarrow> False
        | b # s2 \<Rightarrow>
            if byte_in 0xC2 0xC2 a then (byte_in 0x85 0x85 b \<or> byte_in 0xA0 0xA0 b) \<and> blank_utf8 s2
            else (case s2 of
                [] \<Rightarrow> False
              | c # s3 \<Rightarrow>
                  (byte_in 0xE1 0xE1 a \<and> byte_in 0x9A 0x9A b \<and> byte_in 0x80 0x80 c \<or>
                   byte_in 0xE2 0xE2 a \<and> byte_in 0x80 0x80 b \<and>
                     (byte_in 0x80 0x8A c \<or> byte_in 0xA8 0xA9 c \<or> byte_in 0xAF 0xAF c) \<or>
                   byte_in 0xE2 0xE2 a \<and> byte_in 0x81 0x81 b \<and> byte_in 0x9F 0x9F c \<or>
                   byte_in 0xE3 0xE3 a \<and> byte_in 0x80 0x80 b \<and> byte_in 0x80 0x80 c)
                  \<and> blank_utf8 s3)))"

section \<open>Appending and reading\<close>

definition append_chat_record ::
    "(chat_record \<Rightarrow> string) \<Rightarrow> string \<Rightarrow> string \<Rightarrow> chat_record \<Rightarrow> file_map \<Rightarrow> file_map" where
  "append_chat_record ser sessions_dir key rec files =
     (let path = session_jsonl_path sessions_dir key
      in bt_insert path (unwrap_or (bt_get files path) [] @ ser rec @ [newline]) files)"

definition read_chat_records ::
    "(string \<Rightarrow> chat_record option) \<Rightarrow> string \<Rightarrow> string \<Rightarrow> file_map \<Rightarrow> storage_error + chat_record list" where
  "read_chat_records de sessions_dir key files =
     (case bt_get files (session_jsonl_path sessions_dir key) of
        None \<Rightarrow> Ok []
      | Some contents \<Rightarrow>
          if valid_utf8 contents
          then collect_results (map (\<lambda>l. ok_or (de l) SerializeJson)
                                 (filter (\<lambda>l. \<not> blank_utf8 l) (str_lines contents)))
          else Err ReadJsonl)"

section \<open>The page reader\<close>

record page_state =
  found_cursor :: bool
  ps_records :: "chat_record list"
  ps_has_more :: bool

definition process_history_line ::
    "(string \<Rightarrow> chat_record option) \<Rightarrow> string option \<Rightarrow> nat \<Rightarrow> string \<Rightarrow> page_state \<Rightarrow>
     storage_error + bool \<times> page_state" where
  "process_history_line de before limit line st =
     (if \<forall>c \<in> set line. is_ascii_whitespace c then Ok (False, st)
      else and_then (ok_or (de line) SerializeJson) (\<lambda>rec.
        if \<not> found_cursor st
        then Ok (False, if chat_message_id rec = before then st\<lparr>found_cursor := True\<rparr> else st)
        else if length (ps_records st) < limit
        then Ok (False, st\<lparr>ps_records := ps_records st @ [rec]\<rparr>)
        else Ok (True, st\<lparr>ps_has_more := True\<rparr>)))"

text \<open>A \<^verbatim>\<open>for\<close> loop over lines that a line can stop.\<close>

fun process_lines :: "(string \<Rightarrow> 's \<Rightarrow> 'e + bool \<times> 's) \<Rightarrow> string list \<Rightarrow> 's \<Rightarrow> 'e + bool \<times> 's" where
  "process_lines step [] st = Ok (False, st)"
| "process_lines step (l # ls) st =
     and_then (step l st) (\<lambda>(stop, st'). if stop then Ok (True, st') else process_lines step ls st')"

definition CHUNK_SIZE :: nat where "CHUNK_SIZE = 8 * 1024"

lemma CHUNK_SIZE_pos [simp]: "0 < CHUNK_SIZE"
  by (simp add: CHUNK_SIZE_def)

text \<open>The \<^verbatim>\<open>while\<close> loop: the chunk that ends at \<open>position\<close>, with the incomplete line of the
  previous round behind it, is split into lines; the first is incomplete and kept, the others are
  processed from the last on.\<close>

function page_loop :: "(string \<Rightarrow> 's \<Rightarrow> 'e + bool \<times> 's) \<Rightarrow> string \<Rightarrow> nat \<Rightarrow> string \<Rightarrow> 's \<Rightarrow>
    'e + bool \<times> string \<times> 's" where
  "page_loop step bytes position remainder st =
     (if position = 0 then Ok (False, remainder, st)
      else let chunk_len = min position CHUNK_SIZE;
               position' = position - chunk_len;
               ls = split_char newline (take chunk_len (drop position' bytes) @ remainder)
           in and_then (process_lines step (rev (tl ls)) st) (\<lambda>(stop, st').
                if stop then Ok (True, hd ls, st')
                else page_loop step bytes position' (hd ls) st'))"
  by pat_completeness auto
termination
  by (relation "measure (\<lambda>(_, _, position, _, _). position)") (auto simp: min_def)

declare page_loop.simps [simp del]

definition empty_page :: chat_record_page where
  "empty_page = \<lparr>page_records = [], page_has_more = False, oldest_message_id = None\<rparr>"

definition finish_page :: "string option \<Rightarrow> page_state \<Rightarrow> storage_error + chat_record_page" where
  "finish_page before st =
     (if before \<noteq> None \<and> \<not> found_cursor st then Err (InvalidHistoryCursor (unwrap_or before []))
      else let records = rev (ps_records st)
           in Ok \<lparr>page_records = records, page_has_more = ps_has_more st,
                  oldest_message_id = (case records of [] \<Rightarrow> None | rec # _ \<Rightarrow> chat_message_id rec)\<rparr>)"

definition start_state :: "string option \<Rightarrow> page_state" where
  "start_state before = \<lparr>found_cursor = (before = None), ps_records = [], ps_has_more = False\<rparr>"

definition read_chat_records_page ::
    "(string \<Rightarrow> chat_record option) \<Rightarrow> string \<Rightarrow> string \<Rightarrow> string option \<Rightarrow> nat \<Rightarrow> file_map \<Rightarrow>
     storage_error + chat_record_page" where
  "read_chat_records_page de sessions_dir key before limit files =
     (case bt_get files (session_jsonl_path sessions_dir key) of
        None \<Rightarrow> Ok empty_page
      | Some bytes \<Rightarrow>
          if length bytes = 0 then Ok empty_page
          else let step = process_history_line de before (max limit 1)
               in and_then (page_loop step bytes (length bytes) [] (start_state before))
                    (\<lambda>(stop, remainder, st).
                      and_then (if \<not> stop \<and> remainder \<noteq> [] then step remainder st else Ok (stop, st))
                        (\<lambda>(_, st'). finish_page before st')))"

end
