(* ===== verification/History_Properties.thy ===== *)
theory History_Properties
  imports Chat_History
begin

text \<open>
  The two readers of \<^verbatim>\<open>jsonl.rs\<close> against plain definitions: reading in chunks from the end is
  a single pass over the reversed lines of the file; what was appended is what is read; and pages
  fetched one after the other tile the history.
\<close>

section \<open>Splitting at newlines\<close>

lemma split_char_parts_no_sep: "l \<in> set (split_char c s) \<Longrightarrow> c \<notin> set l"
  by (induction s arbitrary: l) (auto split: list.splits if_splits)

lemma split_char_hd_no_sep [simp]: "c \<notin> set (hd (split_char c s))"
  by (rule split_char_parts_no_sep [of _ c s]) (simp add: split_char_nonempty)

lemma split_char_hd_tl: "split_char c s = hd (split_char c s) # tl (split_char c s)"
  by (simp add: split_char_nonempty)

text \<open>A line break at any place of the text: everything up to the end of the line it falls into,
  then the later lines.\<close>

lemma split_char_cut:
  "split_char c (u @ v) = split_char c (u @ hd (split_char c v)) @ tl (split_char c v)"
proof (induction u)
  case Nil
  show ?case using split_char_hd_tl [of c v] by (simp add: split_char_no_sep)
next
  case (Cons x u)
  then show ?case
    by (auto split: list.splits simp: Cons_eq_append_conv split_char_nonempty)
qed

section \<open>Chunks\<close>

lemma process_lines_append:
  "process_lines step (xs @ ys) st =
     and_then (process_lines step xs st)
       (\<lambda>(stop, st'). if stop then Ok (True, st') else process_lines step ys st')"
proof (induction xs arbitrary: st)
  case (Cons x xs)
  then show ?case by (cases "step x st") (auto split: prod.splits)
qed simp

lemma and_then_assoc: "and_then (and_then r f) g = and_then r (\<lambda>x. and_then (f x) g)"
  by (cases r) simp_all

lemma and_then_cong: "(\<And>x. r = Inr x \<Longrightarrow> f x = g x) \<Longrightarrow> and_then r f = and_then r g"
  by (cases r) simp_all

text \<open>The rest of the routine after the loop: the line that is still incomplete is the first line
  of the file.\<close>

definition drain :: "(string \<Rightarrow> 's \<Rightarrow> 'e + bool \<times> 's) \<Rightarrow> bool \<times> string \<times> 's \<Rightarrow> 'e + 's" where
  "drain step = (\<lambda>(stop, remainder, st).
     and_then (if \<not> stop \<and> remainder \<noteq> [] then step remainder st else Ok (stop, st)) (\<lambda>(_, st'). Ok st'))"

lemma drain_stop [simp]: "drain step (True, remainder, st) = Ok st"
  by (simp add: drain_def)

lemma drain_finish:
  "(\<lambda>x. and_then (drain step x) fin) = (\<lambda>(stop, remainder, st).
     and_then (if \<not> stop \<and> remainder \<noteq> [] then step remainder st else Ok (stop, st)) (\<lambda>(_, st'). fin st'))"
  by (rule ext) (simp add: drain_def and_then_assoc case_prod_unfold)

lemma page_loop_single_pass:
  assumes blank: "\<And>st. step [] st = Ok (False, st)"
    and "newline \<notin> set remainder"
    and "position \<le> length bytes"
  shows "and_then (page_loop step bytes position remainder st) (drain step) =
         and_then (process_lines step (rev (split_char newline (take position bytes @ remainder))) st)
           (\<lambda>(_, st'). Ok st')"
  using assms(2,3)
proof (induction position arbitrary: remainder st rule: less_induct)
  case (less position)
  show ?case
  proof (cases "position = 0")
    case True
    have "step remainder st = Ok (False, st)" if "remainder = []" using that blank by simp
    then show ?thesis
      using True less.prems
      by (auto simp: page_loop.simps drain_def split_char_no_sep split: prod.splits
          intro!: and_then_cong)
         (cases "step remainder st"; auto)
  next
    case False
    define p where "p = position - min position CHUNK_SIZE"
    define chunk where "chunk = take (min position CHUNK_SIZE) (drop p bytes) @ remainder"
    define ls where "ls = split_char newline chunk"
    have p: "p < position" using False by (simp add: p_def)
    have "take position bytes = take p bytes @ take (min position CHUNK_SIZE) (drop p bytes)"
      by (metis diff_le_self le_add_diff_inverse2 min.cobounded1 p_def take_add)
    then have cut: "split_char newline (take position bytes @ remainder) =
        split_char newline (take p bytes @ hd ls) @ tl ls"
      using split_char_cut [of newline "take p bytes" chunk] by (simp add: chunk_def ls_def)
    have hd: "newline \<notin> set (hd ls)" by (simp add: ls_def)
    have rest: "and_then (page_loop step bytes p (hd ls) st') (drain step) =
        and_then (process_lines step (rev (split_char newline (take p bytes @ hd ls))) st') (\<lambda>(_, s). Ok s)"
      for st' using less.IH [OF p hd, of st'] p less.prems by simp
    have loop: "page_loop step bytes position remainder st =
        and_then (process_lines step (rev (tl ls)) st) (\<lambda>(stop, st').
          if stop then Ok (True, hd ls, st') else page_loop step bytes p (hd ls) st')"
      unfolding p_def ls_def chunk_def using False by (subst page_loop.simps) (simp add: Let_def)
    show ?thesis
      unfolding loop cut
      by (auto simp: and_then_assoc process_lines_append rest split: prod.splits
          intro!: and_then_cong)
  qed
qed

section \<open>The single pass\<close>

text \<open>The reader without chunks: the lines of the whole file from the last to the first.\<close>

definition read_page_reference ::
    "(string \<Rightarrow> chat_record option) \<Rightarrow> string option \<Rightarrow> nat \<Rightarrow> string \<Rightarrow> storage_error + chat_record_page" where
  "read_page_reference de before limit bytes =
     and_then (process_lines (process_history_line de before (max limit 1))
                 (rev (split_char newline bytes)) (start_state before))
       (\<lambda>(_, st). finish_page before st)"

lemma process_history_line_blank [simp]: "process_history_line de before limit [] st = Ok (False, st)"
  by (simp add: process_history_line_def)

text \<open>Reading a page in chunks from the end of the file gives, for every file, cursor and
  limit, and errors included, what a single pass over its lines from the last to the first gives:
  no line is lost, doubled or cut at a chunk boundary, wherever the boundaries fall.\<close>

lemma chunks_single_pass:
  "read_chat_records_page de sessions_dir key before limit files =
     (case bt_get files (session_jsonl_path sessions_dir key) of
        None \<Rightarrow> Ok empty_page
      | Some [] \<Rightarrow> Ok empty_page
      | Some bytes \<Rightarrow> read_page_reference de before limit bytes)"
proof (cases "bt_get files (session_jsonl_path sessions_dir key)")
  case None
  then show ?thesis by (simp add: read_chat_records_page_def)
next
  case (Some bytes)
  let ?step = "process_history_line de before (max limit 1)"
  have "and_then (and_then (page_loop ?step bytes (length bytes) [] (start_state before)) (drain ?step))
          (finish_page before) = read_page_reference de before limit bytes"
    by (subst page_loop_single_pass)
       (simp_all add: read_page_reference_def and_then_assoc case_prod_unfold)
  then show ?thesis
    using Some
    by (auto simp: read_chat_records_page_def and_then_assoc drain_finish Let_def split: list.splits)
qed

section \<open>What was appended\<close>

text \<open>What the readers rely on of the JSON codec for a record: it is written as an object on one
  line of well-formed UTF-8, which is read back as the record.\<close>

definition jsonl_faithful :: "(chat_record \<Rightarrow> string) \<Rightarrow> (string \<Rightarrow> chat_record option) \<Rightarrow> chat_record \<Rightarrow> bool" where
  "jsonl_faithful ser de r \<longleftrightarrow>
     de (ser r) = Some r \<and> newline \<notin> set (ser r) \<and> valid_utf8 (ser r) \<and>
     hd (ser r) = CHR 0x7B \<and> last (ser r) = CHR 0x7D \<and> ser r \<noteq> []"

definition history_bytes :: "(chat_record \<Rightarrow> string) \<Rightarrow> chat_record list \<Rightarrow> string" where
  "history_bytes ser rs = concat (map (\<lambda>r. ser r @ [newline]) rs)"

lemma history_bytes_simps [simp]:
  "history_bytes ser [] = []"
  "history_bytes ser (r # rs) = ser r @ newline # history_bytes ser rs"
  by (simp_all add: history_bytes_def)

lemma history_bytes_snoc: "history_bytes ser (rs @ [r]) = history_bytes ser rs @ ser r @ [newline]"
  by (simp add: history_bytes_def)

lemma appended_get:
  "bt_get (fold (append_chat_record ser dir key) rs files) p =
     (if p = session_jsonl_path dir key \<and> rs \<noteq> []
      then Some (unwrap_or (bt_get files p) [] @ history_bytes ser rs) else bt_get files p)"
  by (induction rs arbitrary: files) (auto simp: append_chat_record_def Let_def)

lemma valid_utf8_append: "valid_utf8 u \<Longrightarrow> valid_utf8 (u @ v) = valid_utf8 v"
proof (induction u rule: valid_utf8.induct)
  case (2 a s)
  consider (one) "byte_in 0x00 0x7F a"
    | (two) b s2 where "\<not> byte_in 0x00 0x7F a" "s = b # s2" "byte_in 0xC2 0xDF a"
    | (three) b c s3 where "\<not> byte_in 0x00 0x7F a" "s = b # c # s3" "\<not> byte_in 0xC2 0xDF a" "byte_in 0xE0 0xEF a"
    | (four) b c d s4 where "\<not> byte_in 0x00 0x7F a" "s = b # c # d # s4" "\<not> byte_in 0xC2 0xDF a"
        "\<not> byte_in 0xE0 0xEF a"
    using "2.prems" by (force split: list.splits if_splits)
  then show ?case using 2 by cases (auto split del: if_split)
qed simp

lemma blank_object: "blank_utf8 (CHR 0x7B # s) = False"
  by (auto simp: byte_in_def split: list.splits)

lemma faithful_not_blank: "jsonl_faithful ser de r \<Longrightarrow> \<not> blank_utf8 (ser r)"
  by (cases "ser r") (simp_all add: jsonl_faithful_def blank_object del: blank_utf8.simps)

lemma faithful_strip_cr: "jsonl_faithful ser de r \<Longrightarrow> strip_cr (ser r) = ser r"
  by (cases "ser r" rule: rev_cases)
     (auto simp: jsonl_faithful_def strip_cr_def strip_suffix_def ends_with_def)

lemma history_bytes_valid: "\<forall>r \<in> set rs. jsonl_faithful ser de r \<Longrightarrow> valid_utf8 (history_bytes ser rs)"
proof (induction rs)
  case (Cons r rs)
  then show ?case
    using valid_utf8_append [of "ser r @ [newline]"] valid_utf8_append [of "ser r" "[newline]"]
    by (simp add: jsonl_faithful_def byte_in_def)
qed simp

lemma history_bytes_split:
  "\<forall>r \<in> set rs. jsonl_faithful ser de r \<Longrightarrow>
   split_char newline (history_bytes ser rs) = map ser rs @ [[]]"
  by (induction rs) (simp_all add: split_char_append jsonl_faithful_def)

lemma history_bytes_lines:
  "\<forall>r \<in> set rs. jsonl_faithful ser de r \<Longrightarrow> str_lines (history_bytes ser rs) = map ser rs"
  using faithful_strip_cr by (fastforce simp: str_lines_def history_bytes_split butlast_append)

lemma read_history:
  assumes "bt_get files (session_jsonl_path dir key) = Some (history_bytes ser rs)"
    and "\<forall>r \<in> set rs. jsonl_faithful ser de r"
  shows "read_chat_records de dir key files = Ok rs"
proof -
  have "map (\<lambda>l. ok_or (de l) SerializeJson) (filter (\<lambda>l. \<not> blank_utf8 l) (map ser rs)) = map Ok rs"
    using assms(2) by (induction rs) (auto simp: faithful_not_blank, simp add: jsonl_faithful_def)
  then show ?thesis
    using assms by (simp add: read_chat_records_def history_bytes_valid history_bytes_lines
        collect_results_Ok_iff)
qed

section \<open>Pages of a history\<close>

text \<open>What a page is, over the list of records: the last \<open>limit\<close> of those before the cursor,
  which is the last record with that message id.\<close>

fun before_cursor :: "chat_record list \<Rightarrow> string \<Rightarrow> chat_record list option" where
  "before_cursor [] c = None"
| "before_cursor (r # rs) c =
     (case before_cursor rs c of
        Some ys \<Rightarrow> Some (r # ys)
      | None \<Rightarrow> if chat_message_id r = Some c then Some [] else None)"

definition page_of :: "nat \<Rightarrow> chat_record list \<Rightarrow> chat_record_page" where
  "page_of limit rs =
     (let records = drop (length rs - max limit 1) rs
      in \<lparr>page_records = records, page_has_more = max limit 1 < length rs,
          oldest_message_id = (case records of [] \<Rightarrow> None | r # _ \<Rightarrow> chat_message_id r)\<rparr>)"

definition history_page :: "chat_record list \<Rightarrow> string option \<Rightarrow> nat \<Rightarrow> storage_error + chat_record_page" where
  "history_page rs before limit =
     (case before of
        None \<Rightarrow> Ok (page_of limit rs)
      | Some c \<Rightarrow> (case before_cursor rs c of
            None \<Rightarrow> Err (InvalidHistoryCursor c)
          | Some older \<Rightarrow> Ok (page_of limit older)))"

lemma before_cursor_snoc:
  "before_cursor (rs @ [r]) c = (if chat_message_id r = Some c then Some rs else before_cursor rs c)"
  by (induction rs) (auto split: option.splits)

lemma faithful_step:
  assumes "jsonl_faithful ser de r"
  shows "process_history_line de before limit (ser r) st =
     (if \<not> found_cursor st
      then Ok (False, if chat_message_id r = before then st\<lparr>found_cursor := True\<rparr> else st)
      else if length (ps_records st) < limit
      then Ok (False, st\<lparr>ps_records := ps_records st @ [r]\<rparr>)
      else Ok (True, st\<lparr>ps_has_more := True\<rparr>))"
proof -
  have "CHR 0x7B \<in> set (ser r)" using assms by (metis hd_in_set jsonl_faithful_def)
  moreover have "\<not> is_ascii_whitespace CHR 0x7B" by (simp add: is_ascii_whitespace_def)
  ultimately have "(\<forall>c \<in> set (ser r). is_ascii_whitespace c) = False" by blast
  moreover have "de (ser r) = Some r" using assms by (simp add: jsonl_faithful_def)
  ultimately show ?thesis
    unfolding process_history_line_def by (simp only: if_False ok_or_simps and_then_simps)
qed

text \<open>Once the cursor is found, the records from the end on are collected up to the limit.\<close>

lemma scan_found:
  assumes "\<forall>r \<in> set rs. jsonl_faithful ser de r"
    and "found_cursor st" and "length (ps_records st) \<le> limit" and "\<not> ps_has_more st"
  shows "process_lines (process_history_line de before limit) (map ser rs) st =
     Ok (limit < length (ps_records st) + length rs,
         st\<lparr>ps_records := ps_records st @ take (limit - length (ps_records st)) rs,
            ps_has_more := limit < length (ps_records st) + length rs\<rparr>)"
  using assms
proof (induction rs arbitrary: st)
  case (Cons r rs)
  show ?case
  proof (cases "length (ps_records st) < limit")
    case True
    have "limit - length (ps_records st) = Suc (limit - Suc (length (ps_records st)))" using True by simp
    with True show ?thesis
      using Cons.prems by (simp add: faithful_step) (subst Cons.IH; simp)
  next
    case False
    then show ?thesis using Cons.prems by (simp add: faithful_step)
  qed
qed simp

lemma finish_found:
  assumes "\<forall>r \<in> set rs. jsonl_faithful ser de r" and "1 \<le> limit"
  shows "and_then (process_lines (process_history_line de before limit) (rev (map ser rs))
            \<lparr>found_cursor = True, ps_records = [], ps_has_more = False\<rparr>) (\<lambda>(_, st). finish_page before st)
         = Ok (page_of limit rs)"
proof -
  have "process_lines (process_history_line de before limit) (map ser (rev rs))
          \<lparr>found_cursor = True, ps_records = [], ps_has_more = False\<rparr> =
        Ok (limit < length rs,
            \<lparr>found_cursor = True, ps_records = take limit (rev rs), ps_has_more = limit < length rs\<rparr>)"
    by (subst scan_found [where ser = ser and de = de]) (use assms in simp_all)
  then show ?thesis
    using assms(2)
    by (simp add: rev_map finish_page_def page_of_def Let_def rev_take max_absorb1)
qed

text \<open>Before that, records are skipped up to and including the cursor.\<close>

lemma scan_search:
  assumes "\<forall>r \<in> set rs. jsonl_faithful ser de r" and "1 \<le> limit"
  shows "and_then (process_lines (process_history_line de (Some c) limit) (rev (map ser rs))
            \<lparr>found_cursor = False, ps_records = [], ps_has_more = False\<rparr>) (\<lambda>(_, st). finish_page (Some c) st)
         = history_page rs (Some c) limit"
  using assms(1)
proof (induction rs rule: rev_induct)
  case Nil
  then show ?case by (simp add: history_page_def finish_page_def)
next
  case (snoc r rs)
  then show ?case
    using finish_found [of rs ser de limit "Some c"] assms(2)
    by (simp add: faithful_step history_page_def before_cursor_snoc)
qed

lemma reference_page:
  assumes "\<forall>r \<in> set rs. jsonl_faithful ser de r"
  shows "read_page_reference de before limit (history_bytes ser rs) = history_page rs before limit"
proof (cases before)
  case None
  then show ?thesis
    using finish_found [OF assms, of "max limit 1" None]
    by (simp add: read_page_reference_def start_state_def history_bytes_split [OF assms]
        history_page_def page_of_def)
next
  case (Some c)
  then show ?thesis
    using scan_search [OF assms, of "max limit 1" c]
    by (simp add: read_page_reference_def start_state_def history_bytes_split [OF assms]
        history_page_def page_of_def split: option.splits)
qed

lemma page_of_history:
  assumes "bt_get files (session_jsonl_path dir key) = Some (history_bytes ser rs)"
    and "\<forall>r \<in> set rs. jsonl_faithful ser de r" and "rs \<noteq> []"
  shows "read_chat_records_page de dir key before limit files = history_page rs before limit"
  using assms
  by (cases rs) (simp_all add: chunks_single_pass reference_page [symmetric] split: list.splits)

lemma before_cursor_Some:
  "before_cursor rs c = Some older \<Longrightarrow> \<exists>r newer. rs = older @ r # newer \<and> chat_message_id r = Some c"
  by (induction rs arbitrary: older) (fastforce split: option.splits if_splits)+

lemma before_cursor_None: "c \<notin> set (map chat_message_id rs) \<Longrightarrow> c = Some k \<Longrightarrow> before_cursor rs k = None"
  by (induction rs) auto

lemma before_cursor_distinct:
  assumes "distinct (map chat_message_id (older @ r # newer))" and "chat_message_id r = Some c"
  shows "before_cursor (older @ r # newer) c = Some older"
proof -
  have "before_cursor newer c = None"
    using assms before_cursor_None [of "Some c" newer c] by simp
  then have "before_cursor (r # newer) c = Some []" using assms(2) by simp
  then show ?thesis by (induction older) (auto split: option.splits)
qed

lemma page_of_split:
  obtains older where "rs = older @ page_records (page_of limit rs)"
    and "page_has_more (page_of limit rs) \<longleftrightarrow> older \<noteq> []"
    and "length (page_records (page_of limit rs)) \<le> max limit 1"
proof
  show "rs = take (length rs - max limit 1) rs @ page_records (page_of limit rs)"
    by (simp add: page_of_def Let_def)
qed (auto simp: page_of_def Let_def)

lemma page_of_oldest:
  "page_records (page_of limit rs) = r # newer \<Longrightarrow> oldest_message_id (page_of limit rs) = chat_message_id r"
  by (simp add: page_of_def Let_def)

lemma history_page_Ok:
  assumes "history_page rs before limit = Ok p"
  shows "\<exists>upto newer. rs = upto @ newer \<and> p = page_of limit upto \<and>
           (case before of None \<Rightarrow> newer = [] | Some c \<Rightarrow> newer \<noteq> [] \<and> chat_message_id (hd newer) = Some c)"
proof (cases before)
  case None
  then show ?thesis using assms by (simp add: history_page_def)
next
  case (Some c)
  then obtain upto where "before_cursor rs c = Some upto" and p: "p = page_of limit upto"
    using assms by (auto simp: history_page_def split: option.splits)
  then obtain r newer where "rs = upto @ r # newer" "chat_message_id r = Some c"
    using before_cursor_Some by blast
  with p Some show ?thesis by (intro exI [of _ upto] exI [of _ "r # newer"]) simp
qed

lemma session_id_after_colon:
  "CHR '':'' \<notin> set chan \<Longrightarrow> i \<noteq> [] \<Longrightarrow> session_id_from_session_key (chan @ CHR '':'' # i) = i"
proof -
  assume chan: "CHR '':'' \<notin> set chan" and i: "i \<noteq> []"
  have "dropWhile (\<lambda>x. x \<noteq> CHR '':'') (chan @ CHR '':'' # i) = CHR '':'' # i"
    using chan by (induction chan) auto
  with i show ?thesis by (simp add: session_id_from_session_key_def split_once_def)
qed

section \<open>Properties\<close>

text \<open>C26: Reading a page in chunks from the end of the file gives, for every file, cursor and
  limit, and errors included, what a single pass over its lines from the last to the first gives:
  no line is lost, doubled or cut at a chunk boundary, wherever the boundaries fall.\<close>

theorem chunked_reader_is_single_pass:
  "read_chat_records_page de sessions_dir key before limit files =
     (case bt_get files (session_jsonl_path sessions_dir key) of
        None \<Rightarrow> Ok empty_page
      | Some [] \<Rightarrow> Ok empty_page
      | Some bytes \<Rightarrow> read_page_reference de before limit bytes)"
  by (rule chunks_single_pass)

text \<open>C32: Whatever records are appended to a session without a history, in that order, the whole
  history is read back as exactly these records, every page is the page of that list (the last
  records before the cursor, or an error for a cursor that is not in it), and the histories of
  sessions with another file are unchanged.\<close>

theorem appended_records_are_read_back:
  assumes fresh: "bt_get files (session_jsonl_path dir key) = None"
    and codec: "\<forall>r \<in> set rs. jsonl_faithful ser de r"
    and "rs \<noteq> []"
  shows "let files' = fold (append_chat_record ser dir key) rs files
         in read_chat_records de dir key files' = Ok rs \<and>
            read_chat_records_page de dir key before limit files' = history_page rs before limit \<and>
            (session_jsonl_path dir key' \<noteq> session_jsonl_path dir key \<longrightarrow>
             read_chat_records de dir key' files' = read_chat_records de dir key' files)"
proof -
  let ?files = "fold (append_chat_record ser dir key) rs files"
  have get: "bt_get ?files (session_jsonl_path dir key) = Some (history_bytes ser rs)"
    using assms by (simp add: appended_get)
  have "read_chat_records de dir key' ?files = read_chat_records de dir key' files"
    if "session_jsonl_path dir key' \<noteq> session_jsonl_path dir key"
    using that by (simp add: read_chat_records_def appended_get)
  then show ?thesis
    using read_history [OF get codec] page_of_history [OF get codec \<open>rs \<noteq> []\<close>] by (simp add: Let_def)
qed

definition sample_chat :: "string \<Rightarrow> string \<Rightarrow> chat_record" where
  "sample_chat i c = \<lparr>ts_ms = 7, chat_role = ''user'', chat_content = c, metadata_json = None, chat_message_id = Some i\<rparr>"

definition sample_ser :: "chat_record \<Rightarrow> string" where
  "sample_ser r = [CHR 0x7B] @ chat_content r @ [CHR 0x7D]"

definition sample_de :: "string \<Rightarrow> chat_record option" where
  "sample_de l =
     (if l = sample_ser (sample_chat ''a'' ''hello'') then Some (sample_chat ''a'' ''hello'')
      else if l = sample_ser (sample_chat ''b'' ''bye'') then Some (sample_chat ''b'' ''bye'') else None)"

abbreviation sample_records :: "chat_record list" where
  "sample_records \<equiv> [sample_chat ''a'' ''hello'', sample_chat ''b'' ''bye'']"

lemma sample_codec: "\<forall>r \<in> set sample_records. jsonl_faithful sample_ser sample_de r"
  by code_simp

theorem appended_records_are_read_back_witness:
  "let files' = fold (append_chat_record sample_ser ''/k/sessions'' ''web:1'') sample_records []
   in read_chat_records sample_de ''/k/sessions'' ''web:1'' files' = Ok sample_records \<and>
      read_chat_records_page sample_de ''/k/sessions'' ''web:1'' (Some ''b'') 5 files' =
        history_page sample_records (Some ''b'') 5 \<and>
      read_chat_records sample_de ''/k/sessions'' ''web:2'' files' = Ok []"
proof -
  have "session_jsonl_path ''/k/sessions'' ''web:2'' \<noteq> session_jsonl_path ''/k/sessions'' ''web:1''"
    by code_simp
  moreover have "read_chat_records sample_de ''/k/sessions'' ''web:2'' [] = Ok []"
    by (simp add: read_chat_records_def)
  ultimately show ?thesis
    using appended_records_are_read_back [OF _ sample_codec, of "[]" "''/k/sessions''" "''web:1''"
        "Some ''b''" 5 "''web:2''"]
    by (simp add: Let_def)
qed

text \<open>Paging tiles the history. If the records of a history have different message ids, a page
  is a run of consecutive records of at most the limit that ends right before the cursor (at the end
  of the history when there is none), it says whether anything older is left, and the page fetched
  with its oldest message id as the cursor is the last page of exactly what is older.\<close>

theorem pages_tile_the_history:
  assumes stored: "bt_get files (session_jsonl_path dir key) = Some (history_bytes ser rs)"
    and codec: "\<forall>r \<in> set rs. jsonl_faithful ser de r"
    and ids: "distinct (map chat_message_id rs)" "None \<notin> set (map chat_message_id rs)"
    and page: "read_chat_records_page de dir key before limit files = Ok p" "page_records p \<noteq> []"
  shows "\<exists>older newer. rs = older @ page_records p @ newer \<and>
           (case before of None \<Rightarrow> newer = [] | Some c \<Rightarrow> newer \<noteq> [] \<and> chat_message_id (hd newer) = Some c) \<and>
           length (page_records p) \<le> max limit 1 \<and>
           (page_has_more p \<longleftrightarrow> older \<noteq> []) \<and>
           read_chat_records_page de dir key (oldest_message_id p) limit files = Ok (page_of limit older)"
proof -
  have "rs \<noteq> []"
    using page stored by (auto simp: read_chat_records_page_def empty_page_def)
  note pages = page_of_history [OF stored codec this]
  obtain upto newer where upto: "rs = upto @ newer" "p = page_of limit upto"
    and newer: "case before of None \<Rightarrow> newer = [] | Some c \<Rightarrow> newer \<noteq> [] \<and> chat_message_id (hd newer) = Some c"
    using history_page_Ok page(1) unfolding pages by metis
  obtain older where older: "upto = older @ page_records p" "page_has_more p \<longleftrightarrow> older \<noteq> []"
    "length (page_records p) \<le> max limit 1"
    using page_of_split [of upto limit] upto(2) by metis
  obtain r recs where r: "page_records p = r # recs" using page(2) by (cases "page_records p") auto
  have rs: "rs = older @ r # (recs @ newer)" using upto(1) unfolding older(1) r by simp
  have "chat_message_id r \<noteq> None" using ids(2) unfolding rs by auto
  then obtain c where c: "chat_message_id r = Some c" by blast
  have "before_cursor rs c = Some older"
    using before_cursor_distinct [OF _ c, of older "recs @ newer"] ids(1) unfolding rs by simp
  moreover have "oldest_message_id p = Some c" using page_of_oldest r c upto(2) by metis
  ultimately have "read_chat_records_page de dir key (oldest_message_id p) limit files = Ok (page_of limit older)"
    unfolding pages by (simp add: history_page_def)
  with newer older(2,3) show ?thesis
    by (intro exI [of _ older] exI [of _ newer]) (simp add: rs r)
qed

theorem pages_tile_the_history_witness:
  "\<exists>older newer. sample_records = older @ [sample_chat ''b'' ''bye''] @ newer \<and> newer = [] \<and>
     older \<noteq> [] \<and>
     read_chat_records_page sample_de ''/k'' ''web:1'' (Some ''b'') 1
       [(''/k/1.jsonl'', history_bytes sample_ser sample_records)] = Ok (page_of 1 older)"
proof -
  let ?p = "\<lparr>page_records = [sample_chat ''b'' ''bye''], page_has_more = True, oldest_message_id = Some ''b''\<rparr>"
  let ?files = "[(''/k/1.jsonl'', history_bytes sample_ser sample_records)]"
  have stored: "bt_get ?files (session_jsonl_path ''/k'' ''web:1'') = Some (history_bytes sample_ser sample_records)"
    by code_simp
  have "read_chat_records_page sample_de ''/k'' ''web:1'' None 1 ?files = Ok ?p"
    unfolding page_of_history [OF stored sample_codec list.distinct(2)]
    by (simp add: history_page_def page_of_def sample_chat_def)
  moreover have "distinct (map chat_message_id sample_records)" "None \<notin> set (map chat_message_id sample_records)"
    by (simp_all add: sample_chat_def)
  ultimately show ?thesis
    using pages_tile_the_history [OF stored sample_codec, of None 1 ?p] by simp
qed

text \<open>The file of a session is named by what follows the first colon of its key, so sessions of
  different channels with the same identifier share one history: what is appended to the one is
  read from the other.\<close>

theorem histories_shared_across_channels:
  assumes "CHR '':'' \<notin> set chan1" and "CHR '':'' \<notin> set chan2" and "i \<noteq> []"
  shows "read_chat_records de dir (chan1 @ '':'' @ i) (append_chat_record ser dir (chan2 @ '':'' @ i) r files) =
         read_chat_records de dir (chan2 @ '':'' @ i) (append_chat_record ser dir (chan2 @ '':'' @ i) r files)"
  using assms by (simp add: read_chat_records_def session_jsonl_path_def session_id_after_colon)

theorem histories_shared_across_channels_witness:
  "read_chat_records sample_de ''/k'' ''terminal:x''
     (append_chat_record sample_ser ''/k'' ''telegram:x'' (sample_chat ''a'' ''hello'') []) =
   Ok [sample_chat ''a'' ''hello'']"
proof -
  have "read_chat_records sample_de ''/k'' ''telegram:x''
     (append_chat_record sample_ser ''/k'' ''telegram:x'' (sample_chat ''a'' ''hello'') []) =
     Ok [sample_chat ''a'' ''hello'']" by code_simp
  then show ?thesis
    using histories_shared_across_channels [of "''terminal''" "''telegram''" "''x''" sample_de "''/k''"
        sample_ser "sample_chat ''a'' ''hello''" "[]"] by simp
qed

end
