(* ===== verification/Sql_Text.thy ===== *)
theory Sql_Text
  imports Klaw_Prelude
begin

text \<open>
  How \<^verbatim>\<open>klaw-storage/src/turso\<close> writes values into the text of its SQL statements: string
  literals (\<^verbatim>\<open>mapping.rs\<close>), lists of literals and channel filters (\<^verbatim>\<open>session.rs\<close>), and the
  pattern operator \<^verbatim>\<open>LIKE\<close> of its list filters. The reader of literals and the matcher of
  patterns are SQL's own rules, against which the texts are judged.
\<close>

section \<open>Writing\<close>

definition escape_sql_text :: "string \<Rightarrow> string" where
  "escape_sql_text input = concat (map (\<lambda>c. if c = quote then [quote, quote] else [c]) input)"

definition sql_literal :: "string \<Rightarrow> string" where
  "sql_literal s = [quote] @ escape_sql_text s @ [quote]"

definition opt_string_sql :: "string option \<Rightarrow> string" where
  "opt_string_sql value_opt = unwrap_or (map_option sql_literal value_opt) ''NULL''"

definition opt_i64_sql :: "int option \<Rightarrow> string" where
  "opt_i64_sql value_opt = unwrap_or (map_option show_int value_opt) ''NULL''"

definition session_key_in_filter :: "string list \<Rightarrow> string" where
  "session_key_in_filter session_keys = join '', '' (map sql_literal session_keys)"

definition cleanup_channel_filter :: "string list \<Rightarrow> string" where
  "cleanup_channel_filter channels =
     ''('' @ join '' OR '' (map (\<lambda>channel. ''channel = '' @ sql_literal channel) channels) @ '')''"

section \<open>SQL's reading\<close>

text \<open>After the opening quote: a doubled quote is a quote, a single one ends the literal. The result
  is the value and the text behind the literal.\<close>

fun literal_body :: "string \<Rightarrow> (string \<times> string) option" where
  "literal_body [] = None"
| "literal_body (c # s) =
     (if c \<noteq> quote then map_option (apfst (Cons c)) (literal_body s)
      else (case s of
          [] \<Rightarrow> Some ([], [])
        | d # s' \<Rightarrow> if d = quote then map_option (apfst (Cons quote)) (literal_body s') else Some ([], s)))"

fun read_literal :: "string \<Rightarrow> (string \<times> string) option" where
  "read_literal [] = None"
| "read_literal (c # s) = (if c = quote then literal_body s else None)"

text \<open>Literals separated by a comma and a blank, as in \<^verbatim>\<open>IN (...)\<close>; \<open>n\<close> of them.\<close>

fun read_literals :: "nat \<Rightarrow> string \<Rightarrow> (string list \<times> string) option" where
  "read_literals 0 s = Some ([], s)"
| "read_literals (Suc n) s =
     (case read_literal s of
        None \<Rightarrow> None
      | Some (v, rest) \<Rightarrow>
          if n = 0 then Some ([v], rest)
          else if starts_with rest '', '' then map_option (apfst (Cons v)) (read_literals n (drop 2 rest))
          else None)"

text \<open>\<^verbatim>\<open>LIKE\<close>: \<^verbatim>\<open>%\<close> is any text, \<^verbatim>\<open>_\<close> any one character, letters of the ASCII range
  match in either case.\<close>

fun sql_like :: "string \<Rightarrow> string \<Rightarrow> bool" where
  "sql_like [] s = (s = [])"
| "sql_like (p # ps) [] = (p = CHR ''%'' \<and> sql_like ps [])"
| "sql_like (p # ps) (c # s) =
     (if p = CHR ''%'' then sql_like ps (c # s) \<or> sql_like (p # ps) s
      else (p = CHR ''_'' \<or> ascii_lower p = ascii_lower c) \<and> sql_like ps s)"

section \<open>Reading what was written\<close>

lemma escape_simps [simp]:
  "escape_sql_text [] = []"
  "escape_sql_text (c # s) = (if c = quote then [quote, quote] else [c]) @ escape_sql_text s"
  by (simp_all add: escape_sql_text_def)

definition not_quoted :: "string \<Rightarrow> bool" where
  "not_quoted rest \<longleftrightarrow> (case rest of [] \<Rightarrow> True | c # _ \<Rightarrow> c \<noteq> quote)"

lemma literal_body_escape:
  "not_quoted rest \<Longrightarrow> literal_body (escape_sql_text s @ quote # rest) = Some (s, rest)"
  by (induction s) (auto simp: not_quoted_def split: list.splits)

lemma read_literal_sql_literal:
  "not_quoted rest \<Longrightarrow> read_literal (sql_literal s @ rest) = Some (s, rest)"
  by (simp add: sql_literal_def literal_body_escape)

lemma read_literals_filter:
  "not_quoted rest \<Longrightarrow> read_literals (length ks) (session_key_in_filter ks @ rest) = Some (ks, rest)"
proof (induction ks)
  case Nil
  then show ?case by (simp add: session_key_in_filter_def)
next
  case (Cons k ks)
  show ?case
  proof (cases ks)
    case Nil
    then show ?thesis
      using Cons.prems by (simp add: session_key_in_filter_def read_literal_sql_literal)
  next
    case (Cons l ls)
    have "session_key_in_filter (k # ks) @ rest =
        sql_literal k @ (CHR '','' # CHR '' '' # session_key_in_filter ks @ rest)"
      by (simp add: Cons session_key_in_filter_def)
    moreover have "not_quoted (CHR '','' # CHR '' '' # session_key_in_filter ks @ rest)"
      by (simp add: not_quoted_def)
    ultimately show ?thesis
      using Cons.IH Cons.prems Cons
      by (simp add: read_literal_sql_literal starts_with_def)
  qed
qed

text \<open>A prefix without wildcards followed by \<^verbatim>\<open>%\<close> is a prefix test up to the case of letters.\<close>

lemma sql_like_percent [simp]: "sql_like ''%'' s"
  by (induction s) auto

lemma sql_like_prefix:
  assumes "CHR ''%'' \<notin> set p" and "CHR ''_'' \<notin> set p"
  shows "sql_like (p @ ''%'') s \<longleftrightarrow> map ascii_lower (take (length p) s) = map ascii_lower p"
  using assms
proof (induction p arbitrary: s)
  case (Cons a p)
  then show ?case by (cases s) auto
qed simp

text \<open>A string written into a statement with \<^verbatim>\<open>escape_sql_text\<close> between quotes is read by SQL
  as exactly that string, whatever it contains, and reading goes on behind the closing quote: no
  text can end its literal early. The same holds for every member of a list filter.\<close>

theorem sql_literal_roundtrip:
  assumes "not_quoted rest"
  shows "read_literal (sql_literal s @ rest) = Some (s, rest) \<and>
         read_literals (length ks) (session_key_in_filter ks @ rest) = Some (ks, rest)"
  using assms read_literal_sql_literal read_literals_filter by blast

theorem sql_literal_roundtrip_witness:
  "read_literal (sql_literal [CHR ''x'', quote, CHR '';''] @ '' AND 1'') =
     Some ([CHR ''x'', quote, CHR '';''], '' AND 1'') \<and>
   read_literals 2 (session_key_in_filter [[quote, quote], ''b''] @ '')'') = Some ([[quote, quote], ''b''], '')'')"
proof -
  have "not_quoted '' AND 1''" "not_quoted '')''" by (simp_all add: not_quoted_def)
  from sql_literal_roundtrip [OF this(1), of "[CHR ''x'', quote, CHR '';'']" "[]"]
       sql_literal_roundtrip [OF this(2), of "[]" "[[quote, quote], ''b'']"]
  show ?thesis by (simp add: numeral_2_eq_2)
qed

end
