(* ===== verification/Session_Store.thy ===== *)
theory Session_Store
  imports Chat_History Sql_Text "HOL-Library.Product_Lexorder"
begin

text \<open>
  The \<^verbatim>\<open>sessions\<close> table of \<^verbatim>\<open>klaw-storage/src/turso/session.rs\<close> (the default store), which
  \<^verbatim>\<open>klaw-session/src/manager.rs\<close> hands its calls to. The table is an ordered map from session
  keys to rows; a row is the \<^verbatim>\<open>SessionIndex\<close> extended with the two compression columns, as the
  statement that creates the table has them. Every SQL statement is one atomic step; an operation
  takes the clock reading and returns its result and the new table. A row is deleted by clearing
  \<^verbatim>\<open>is_active\<close>; only the cleanup removes rows.
\<close>

section \<open>Types\<close>

record session_index =
  session_key :: string
  chat_id :: string
  channel :: string
  title :: "string option"
  active_session_key :: "string option"
  model_provider :: "string option"
  model_provider_explicit :: bool
  model :: "string option"
  model_explicit :: bool
  delivery_metadata_json :: "string option"
  is_active :: bool
  created_at_ms :: int
  updated_at_ms :: int
  last_message_at_ms :: int
  turn_count :: int
  jsonl_path :: string

record session_row = session_index +
  compression_last_len :: int
  compression_summary_json :: "string option"

datatype session_sort_order = UpdatedAtAsc | UpdatedAtDesc | CreatedAtDesc

record session_compression_state =
  last_compressed_len :: int
  summary_json :: "string option"

record session_cleanup_query =
  updated_before_ms :: int
  cleanup_channels :: "string list"

record session_cleanup_summary =
  matched_sessions :: int
  session_records_deleted :: int
  related_records_deleted :: int
  jsonl_files_deleted :: int
  jsonl_files_missing :: int

record session_cleanup_progress =
  total_sessions :: int
  deleted_sessions :: int

text \<open>The two directories of \<^verbatim>\<open>StoragePaths\<close> that these operations use.\<close>

record storage_paths =
  root_dir :: string
  sessions_dir :: string

type_synonym session_table = "(string, session_row) btree_map"

text \<open>\<^verbatim>\<open>Path::strip_prefix\<close> on paths without repeated separators.\<close>

definition relative_or_absolute_jsonl :: "string \<Rightarrow> string \<Rightarrow> string" where
  "relative_or_absolute_jsonl root path =
     (let dir = (if ends_with root ''/'' then root else root @ ''/'')
      in if starts_with path dir then drop (length dir) path else path)"

definition jsonl_path_str :: "storage_paths \<Rightarrow> string \<Rightarrow> string" where
  "jsonl_path_str paths key =
     relative_or_absolute_jsonl (root_dir paths) (session_jsonl_path (sessions_dir paths) key)"

section \<open>Reading one session\<close>

definition get_session :: "string \<Rightarrow> session_table \<Rightarrow> storage_error + session_index" where
  "get_session key t =
     ok_or (map_option session_index.truncate (option_filter is_active (bt_get t key)))
       (Backend ''session not found'')"

text \<open>\<^verbatim>\<open>UPDATE sessions SET ... WHERE session_key = ... AND is_active = 1\<close>, with the number of
  rows it affected.\<close>

definition update_active :: "string \<Rightarrow> (session_row \<Rightarrow> session_row) \<Rightarrow> session_table \<Rightarrow> nat \<times> session_table" where
  "update_active key f t =
     (case bt_get t key of
        Some r \<Rightarrow> if is_active r then (1, bt_insert key (f r) t) else (0, t)
      | None \<Rightarrow> (0, t))"

text \<open>The setters share one form: update, an error when no row was affected, else the session.\<close>

definition update_or_fail :: "string \<Rightarrow> string \<Rightarrow> (session_row \<Rightarrow> session_row) \<Rightarrow> session_table \<Rightarrow>
    (storage_error + session_index) \<times> session_table" where
  "update_or_fail key what f t =
     (let (affected, t') = update_active key f t
      in if affected = 0
         then (Err (Backend (''session '' @ [quote] @ key @ [quote] @ '' not found when '' @ what)), t')
         else (get_session key t', t'))"

section \<open>Creating and advancing sessions\<close>

text \<open>The row of the \<^verbatim>\<open>INSERT\<close> statements; the columns they leave out take the table's
  defaults.\<close>

definition new_row :: "int \<Rightarrow> string \<Rightarrow> string \<Rightarrow> string \<Rightarrow> string option \<Rightarrow> int \<Rightarrow> string \<Rightarrow> session_row" where
  "new_row now key chat chan active turns path =
     \<lparr>session_key = key, chat_id = chat, channel = chan, title = None, active_session_key = active,
      model_provider = None, model_provider_explicit = False, model = None, model_explicit = False,
      delivery_metadata_json = None, is_active = True, created_at_ms = now, updated_at_ms = now,
      last_message_at_ms = now, turn_count = turns, jsonl_path = path,
      compression_last_len = 0, compression_summary_json = None\<rparr>"

definition touch_session :: "storage_paths \<Rightarrow> int \<Rightarrow> string \<Rightarrow> string \<Rightarrow> string \<Rightarrow> session_table \<Rightarrow>
    (storage_error + session_index) \<times> session_table" where
  "touch_session paths now key chat chan t =
     (let path = jsonl_path_str paths key;
          t' = (case bt_get t key of
                  None \<Rightarrow> bt_insert key (new_row now key chat chan None 0 path) t
                | Some r \<Rightarrow>
                    if is_active r
                    then bt_insert key (r\<lparr>chat_id := chat, channel := chan, updated_at_ms := now,
                                          last_message_at_ms := now, jsonl_path := path\<rparr>) t
                    else t)
      in (get_session key t', t'))"

definition complete_turn :: "storage_paths \<Rightarrow> int \<Rightarrow> string \<Rightarrow> string \<Rightarrow> string \<Rightarrow> session_table \<Rightarrow>
    (storage_error + session_index) \<times> session_table" where
  "complete_turn paths now key chat chan t =
     (let path = jsonl_path_str paths key;
          (affected, t') = update_active key
             (\<lambda>r. r\<lparr>chat_id := chat, channel := chan, updated_at_ms := now, last_message_at_ms := now,
                   turn_count := turn_count r + 1, jsonl_path := path\<rparr>) t;
          t'' = (if affected = 0 \<and> bt_get t' key = None
                 then bt_insert key (new_row now key chat chan None 1 path) t' else t')
      in (get_session key t'', t''))"

definition get_or_create_session_state :: "storage_paths \<Rightarrow> int \<Rightarrow> string \<Rightarrow> string \<Rightarrow> string \<Rightarrow> session_table \<Rightarrow>
    (storage_error + session_index) \<times> session_table" where
  "get_or_create_session_state paths now key chat chan t =
     (let path = jsonl_path_str paths key;
          t' = (case bt_get t key of
                  None \<Rightarrow> bt_insert key (new_row now key chat chan (Some key) 0 path) t
                | Some r \<Rightarrow>
                    if is_active r
                    then bt_insert key (r\<lparr>chat_id := chat, channel := chan, updated_at_ms := now,
                                          active_session_key := or_else (active_session_key r) (Some key),
                                          jsonl_path := path\<rparr>) t
                    else t)
      in (get_session key t', t'))"

section \<open>Setters\<close>

definition set_session_title :: "string \<Rightarrow> string option \<Rightarrow> session_table \<Rightarrow>
    (storage_error + session_index) \<times> session_table" where
  "set_session_title key new_title t =
     update_or_fail key ''setting title'' (\<lambda>r. r\<lparr>title := new_title\<rparr>) t"

definition delete_session :: "string \<Rightarrow> session_table \<Rightarrow> bool \<times> session_table" where
  "delete_session key t =
     (let (affected, t') = update_active key (\<lambda>r. r\<lparr>is_active := False\<rparr>) t in (affected > 0, t'))"

definition set_active_session :: "int \<Rightarrow> string \<Rightarrow> string \<Rightarrow> string \<Rightarrow> string \<Rightarrow> session_table \<Rightarrow>
    (storage_error + session_index) \<times> session_table" where
  "set_active_session now key chat chan active t =
     update_or_fail key ''setting active_session_key''
       (\<lambda>r. r\<lparr>chat_id := chat, channel := chan, updated_at_ms := now, active_session_key := Some active\<rparr>) t"

definition set_model_provider :: "int \<Rightarrow> string \<Rightarrow> string \<Rightarrow> string \<Rightarrow> string \<Rightarrow> string \<Rightarrow> session_table \<Rightarrow>
    (storage_error + session_index) \<times> session_table" where
  "set_model_provider now key chat chan provider new_model t =
     update_or_fail key ''setting model_provider''
       (\<lambda>r. r\<lparr>chat_id := chat, channel := chan, updated_at_ms := now, model_provider := Some provider,
             model_provider_explicit := True, model := Some new_model, model_explicit := True\<rparr>) t"

definition set_model :: "int \<Rightarrow> string \<Rightarrow> string \<Rightarrow> string \<Rightarrow> string \<Rightarrow> session_table \<Rightarrow>
    (storage_error + session_index) \<times> session_table" where
  "set_model now key chat chan new_model t =
     update_or_fail key ''setting model''
       (\<lambda>r. r\<lparr>chat_id := chat, channel := chan, updated_at_ms := now, model := Some new_model,
             model_explicit := False\<rparr>) t"

definition set_delivery_metadata :: "int \<Rightarrow> string \<Rightarrow> string \<Rightarrow> string \<Rightarrow> string option \<Rightarrow> session_table \<Rightarrow>
    (storage_error + session_index) \<times> session_table" where
  "set_delivery_metadata now key chat chan meta t =
     update_or_fail key ''setting delivery_metadata''
       (\<lambda>r. r\<lparr>chat_id := chat, channel := chan, updated_at_ms := now, delivery_metadata_json := meta\<rparr>) t"

definition clear_model_routing_override :: "int \<Rightarrow> string \<Rightarrow> string \<Rightarrow> string \<Rightarrow> session_table \<Rightarrow>
    (storage_error + session_index) \<times> session_table" where
  "clear_model_routing_override now key chat chan t =
     update_or_fail key ''clearing model routing override''
       (\<lambda>r. r\<lparr>chat_id := chat, channel := chan, updated_at_ms := now, model_provider := None,
             model_provider_explicit := False, model := None, model_explicit := False\<rparr>) t"

definition get_session_compression_state :: "string \<Rightarrow> session_table \<Rightarrow> session_compression_state option" where
  "get_session_compression_state key t =
     map_option (\<lambda>r. \<lparr>last_compressed_len = compression_last_len r, summary_json = compression_summary_json r\<rparr>)
       (option_filter is_active (bt_get t key))"

definition set_session_compression_state :: "int \<Rightarrow> string \<Rightarrow> session_compression_state \<Rightarrow> session_table \<Rightarrow>
    (storage_error + unit) \<times> session_table" where
  "set_session_compression_state now key state t =
     (let (affected, t') = update_active key
            (\<lambda>r. r\<lparr>compression_last_len := last_compressed_len state,
                  compression_summary_json := summary_json state, updated_at_ms := now\<rparr>) t
      in (if affected = 0
          then Err (Backend (''session '' @ [quote] @ key @ [quote] @ '' not found when setting compression state''))
          else Ok (), t'))"

section \<open>Lists of sessions\<close>

text \<open>\<^verbatim>\<open>ORDER BY CASE WHEN session_key = active_session_key THEN 1 ELSE 0 END, updated_at_ms DESC
  LIMIT 1\<close>; SQL leaves the order of rows of the same millisecond open, here they come by key.\<close>

definition get_session_by_active_session_key :: "string \<Rightarrow> session_table \<Rightarrow> storage_error + session_index" where
  "get_session_by_active_session_key active t =
     (case sort_key (\<lambda>r. (if session_key r = active then 1 else 0 :: int, - updated_at_ms r))
             (filter (\<lambda>r. active_session_key r = Some active \<and> is_active r) (map snd t)) of
        [] \<Rightarrow> Err (Backend ''session not found'')
      | r # _ \<Rightarrow> Ok (session_index.truncate r))"

text \<open>\<^verbatim>\<open>SessionSortOrder::sql_order_by\<close>, on rows whose keys differ.\<close>

fun order_sessions :: "session_sort_order \<Rightarrow> session_row list \<Rightarrow> session_row list" where
  "order_sessions UpdatedAtAsc rs = sort_key (\<lambda>r. (updated_at_ms r, session_key r)) rs"
| "order_sessions UpdatedAtDesc rs = rev (sort_key (\<lambda>r. (updated_at_ms r, session_key r)) rs)"
| "order_sessions CreatedAtDesc rs = rev (sort_key (\<lambda>r. (created_at_ms r, session_key r)) rs)"

text \<open>The \<^verbatim>\<open>WHERE\<close> clause of \<^verbatim>\<open>list_sessions\<close> and \<^verbatim>\<open>count_sessions\<close>.\<close>

definition session_selected :: "int option \<Rightarrow> int option \<Rightarrow> string option \<Rightarrow> string option \<Rightarrow> session_row \<Rightarrow> bool" where
  "session_selected from_ms to_ms chan prefix r \<longleftrightarrow>
     is_active r \<and>
     (case from_ms of None \<Rightarrow> True | Some from_t \<Rightarrow> updated_at_ms r \<ge> from_t) \<and>
     (case to_ms of None \<Rightarrow> True | Some to_t \<Rightarrow> updated_at_ms r \<le> to_t) \<and>
     (case chan of None \<Rightarrow> True | Some c \<Rightarrow> channel r = c) \<and>
     (case prefix of None \<Rightarrow> True | Some p \<Rightarrow> sql_like (p @ ''%'') (session_key r))"

definition list_sessions :: "int option \<Rightarrow> int \<Rightarrow> int option \<Rightarrow> int option \<Rightarrow> string option \<Rightarrow> string option \<Rightarrow>
    session_sort_order \<Rightarrow> session_table \<Rightarrow> session_index list" where
  "list_sessions limit offset from_ms to_ms chan prefix order t =
     (let rows = order_sessions order (filter (session_selected from_ms to_ms chan prefix) (map snd t));
          page = (case limit of
                    None \<Rightarrow> rows
                  | Some l \<Rightarrow> take (nat (max l 1)) (drop (nat (max offset 0)) rows))
      in map session_index.truncate page)"

definition count_sessions :: "int option \<Rightarrow> int option \<Rightarrow> string option \<Rightarrow> string option \<Rightarrow> session_table \<Rightarrow> int" where
  "count_sessions from_ms to_ms chan prefix t =
     int (length (filter (session_selected from_ms to_ms chan prefix) (map snd t)))"

definition list_session_channels :: "session_table \<Rightarrow> string list" where
  "list_session_channels t = sort (remdups (map channel (filter is_active (map snd t))))"

section \<open>Cleanup\<close>

text \<open>The database and the files that \<^verbatim>\<open>clean_sessions\<close> works on: the other tables by name,
  each a list of rows with their session key; the rest of a row is the type variable.\<close>

record 'r session_db =
  sessions :: session_table
  related :: "(string, (string \<times> 'r) list) btree_map"
  files :: file_map

definition CLEANUP_RELATED_TABLES :: "string list" where
  "CLEANUP_RELATED_TABLES =
     [''llm_usage'', ''llm_audit'', ''tool_audit'', ''webhook_events'', ''webhook_agents'',
      ''pending_questions'', ''approvals'']"

definition table_rows :: "string \<Rightarrow> (string, (string \<times> 'r) list) btree_map \<Rightarrow> (string \<times> 'r) list" where
  "table_rows table m = unwrap_or (bt_get m table) []"

text \<open>The loop that counts and deletes the rows of the related tables.\<close>

fun delete_related :: "string list \<Rightarrow> string list \<Rightarrow> int \<Rightarrow> (string, (string \<times> 'r) list) btree_map \<Rightarrow>
    int \<times> (string, (string \<times> 'r) list) btree_map" where
  "delete_related keys [] n m = (n, m)"
| "delete_related keys (table # tables) n m =
     (let rows = table_rows table m
      in delete_related keys tables (n + int (length (filter (\<lambda>row. fst row \<in> set keys) rows)))
           (bt_insert table (filter (\<lambda>row. fst row \<notin> set keys) rows) m))"

fun validate_cleanup_channels_from :: "string list \<Rightarrow> string list \<Rightarrow> storage_error + string list" where
  "validate_cleanup_channels_from out [] = Ok out"
| "validate_cleanup_channels_from out (c # cs) =
     (if c = ''cron'' \<or> c = ''webhook''
      then validate_cleanup_channels_from (if c \<in> set out then out else out @ [c]) cs
      else Err (Backend (''session cleanup only supports cron and webhook channels, got '' @ [quote] @ c @ [quote])))"

definition validate_cleanup_channels :: "string list \<Rightarrow> storage_error + string list" where
  "validate_cleanup_channels channels =
     (if channels = [] then Err (Backend ''at least one cleanup channel must be selected'')
      else validate_cleanup_channels_from [] channels)"

text \<open>The loop over the keys, with the index of the next one and the progress reports so far.\<close>

fun remove_session_jsonl_files_from :: "string \<Rightarrow> int \<Rightarrow> int \<Rightarrow> string list \<Rightarrow> int \<times> int \<times> session_cleanup_progress list \<Rightarrow>
    file_map \<Rightarrow> (int \<times> int \<times> session_cleanup_progress list) \<times> file_map" where
  "remove_session_jsonl_files_from dir tot index [] acc fs = (acc, fs)"
| "remove_session_jsonl_files_from dir tot index (k # ks) (del, missing, progress) fs =
     (let path = session_jsonl_path dir k;
          progress' = progress @ [\<lparr>total_sessions = tot, deleted_sessions = index + 1\<rparr>]
      in if bt_contains fs path
         then remove_session_jsonl_files_from dir tot (index + 1) ks (del + 1, missing, progress') (bt_remove path fs)
         else remove_session_jsonl_files_from dir tot (index + 1) ks (del, missing + 1, progress') fs)"

definition remove_session_jsonl_files :: "string \<Rightarrow> string list \<Rightarrow> int \<Rightarrow> file_map \<Rightarrow>
    (int \<times> int \<times> session_cleanup_progress list) \<times> file_map" where
  "remove_session_jsonl_files dir keys tot fs =
     remove_session_jsonl_files_from dir tot 0 keys (0, 0, []) fs"

definition cleanup_matches :: "int \<Rightarrow> string list \<Rightarrow> session_row \<Rightarrow> bool" where
  "cleanup_matches before chans r \<longleftrightarrow> is_active r \<and> updated_at_ms r < before \<and> channel r \<in> set chans"

definition empty_cleanup :: session_cleanup_summary where
  "empty_cleanup = \<lparr>matched_sessions = 0, session_records_deleted = 0, related_records_deleted = 0,
     jsonl_files_deleted = 0, jsonl_files_missing = 0\<rparr>"

text \<open>The result carries the progress reports in order.\<close>

definition clean_sessions_with_progress :: "storage_paths \<Rightarrow> session_cleanup_query \<Rightarrow> 'r session_db \<Rightarrow>
    (storage_error + session_cleanup_summary \<times> session_cleanup_progress list) \<times> 'r session_db" where
  "clean_sessions_with_progress paths query db =
     (case validate_cleanup_channels (cleanup_channels query) of
        Inl e \<Rightarrow> (Err e, db)
      | Inr chans \<Rightarrow>
          (let keys = map session_key (filter (cleanup_matches (updated_before_ms query) chans) (map snd (sessions db)));
               tot = int (length keys);
               start = \<lparr>total_sessions = tot, deleted_sessions = 0\<rparr>
           in if keys = [] then (Ok (empty_cleanup, [start]), db)
              else let (count, related') = delete_related keys CLEANUP_RELATED_TABLES 0 (related db);
                       sessions' = filter (\<lambda>kr. fst kr \<notin> set keys) (sessions db);
                       ((del, missing, progress), files') =
                         remove_session_jsonl_files (sessions_dir paths) keys tot (files db)
                   in (Ok (\<lparr>matched_sessions = tot, session_records_deleted = tot,
                            related_records_deleted = count, jsonl_files_deleted = del,
                            jsonl_files_missing = missing\<rparr>, start # progress),
                       db\<lparr>sessions := sessions', related := related', files := files'\<rparr>)))"

end
