(* ===== verification/Session_Properties.thy ===== *)
theory Session_Properties
  imports Session_Store
begin

text \<open>
  Sequences of operations on the session store: what every operation does to a row, that deletion
  is final, that turns are counted, and what a cleanup removes.
\<close>

section \<open>Sequences of operations\<close>

datatype session_op =
    Touch int string string string
  | CompleteTurn int string string string
  | GetOrCreate int string string string
  | SetTitle string "string option"
  | DeleteSession string
  | SetActive int string string string string
  | SetModelProvider int string string string string string
  | SetModel int string string string string
  | SetDeliveryMetadata int string string string "string option"
  | ClearModelRouting int string string string
  | SetCompression int string session_compression_state
  | CleanSessions session_cleanup_query

fun op_table :: "storage_paths \<Rightarrow> session_op \<Rightarrow> session_table \<Rightarrow> session_table" where
  "op_table paths (Touch now k chat chan) t = snd (touch_session paths now k chat chan t)"
| "op_table paths (CompleteTurn now k chat chan) t = snd (complete_turn paths now k chat chan t)"
| "op_table paths (GetOrCreate now k chat chan) t = snd (get_or_create_session_state paths now k chat chan t)"
| "op_table paths (SetTitle k x) t = snd (set_session_title k x t)"
| "op_table paths (DeleteSession k) t = snd (delete_session k t)"
| "op_table paths (SetActive now k chat chan a) t = snd (set_active_session now k chat chan a t)"
| "op_table paths (SetModelProvider now k chat chan p m) t = snd (set_model_provider now k chat chan p m t)"
| "op_table paths (SetModel now k chat chan m) t = snd (set_model now k chat chan m t)"
| "op_table paths (SetDeliveryMetadata now k chat chan m) t = snd (set_delivery_metadata now k chat chan m t)"
| "op_table paths (ClearModelRouting now k chat chan) t = snd (clear_model_routing_override now k chat chan t)"
| "op_table paths (SetCompression now k s) t = snd (set_session_compression_state now k s t)"
| "op_table paths (CleanSessions q) t = t"

definition session_step :: "storage_paths \<Rightarrow> session_op \<Rightarrow> 'r session_db \<Rightarrow> 'r session_db" where
  "session_step paths op db =
     (case op of
        CleanSessions q \<Rightarrow> snd (clean_sessions_with_progress paths q db)
      | _ \<Rightarrow> db\<lparr>sessions := op_table paths op (sessions db)\<rparr>)"

definition session_run :: "storage_paths \<Rightarrow> session_op list \<Rightarrow> 'r session_db \<Rightarrow> 'r session_db" where
  "session_run paths ops db = fold (session_step paths) ops db"

section \<open>What an operation does to a row\<close>

lemma update_active_get:
  "bt_get (snd (update_active key f t)) k =
     (if k = key then map_option (\<lambda>r. if is_active r then f r else r) (bt_get t key) else bt_get t k)"
  by (auto simp: update_active_def split: option.splits)

lemma update_active_affected:
  "fst (update_active key f t) = 0 \<longleftrightarrow> option_filter is_active (bt_get t key) = None"
  by (auto simp: update_active_def split: option.splits)

lemma update_or_fail_table [simp]: "snd (update_or_fail key what f t) = snd (update_active key f t)"
  by (simp add: update_or_fail_def case_prod_unfold Let_def)

lemmas session_setters =
  set_session_title_def set_active_session_def set_model_provider_def set_model_def
  set_delivery_metadata_def clear_model_routing_override_def

lemma delete_session_table: "snd (delete_session key t) = snd (update_active key (\<lambda>r. r\<lparr>is_active := False\<rparr>) t)"
  by (simp add: delete_session_def case_prod_unfold Let_def)

lemma set_compression_table:
  "snd (set_session_compression_state now key s t) = snd (update_active key
     (\<lambda>r. r\<lparr>compression_last_len := last_compressed_len s, compression_summary_json := summary_json s,
           updated_at_ms := now\<rparr>) t)"
  by (simp add: set_session_compression_state_def case_prod_unfold Let_def)

lemma touch_session_get:
  "bt_get (snd (touch_session paths now key chat chan t)) k =
     (if k = key
      then Some (case bt_get t key of
             None \<Rightarrow> new_row now key chat chan None 0 (jsonl_path_str paths key)
           | Some r \<Rightarrow> if is_active r
               then r\<lparr>chat_id := chat, channel := chan, updated_at_ms := now, last_message_at_ms := now,
                      jsonl_path := jsonl_path_str paths key\<rparr>
               else r)
      else bt_get t k)"
  by (auto simp: touch_session_def Let_def split: option.splits)

lemma get_or_create_get:
  "bt_get (snd (get_or_create_session_state paths now key chat chan t)) k =
     (if k = key
      then Some (case bt_get t key of
             None \<Rightarrow> new_row now key chat chan (Some key) 0 (jsonl_path_str paths key)
           | Some r \<Rightarrow> if is_active r
               then r\<lparr>chat_id := chat, channel := chan, updated_at_ms := now,
                      active_session_key := or_else (active_session_key r) (Some key),
                      jsonl_path := jsonl_path_str paths key\<rparr>
               else r)
      else bt_get t k)"
  by (auto simp: get_or_create_session_state_def Let_def split: option.splits)

lemma complete_turn_get:
  "bt_get (snd (complete_turn paths now key chat chan t)) k =
     (if k = key
      then Some (case bt_get t key of
             None \<Rightarrow> new_row now key chat chan None 1 (jsonl_path_str paths key)
           | Some r \<Rightarrow> if is_active r
               then r\<lparr>chat_id := chat, channel := chan, updated_at_ms := now, last_message_at_ms := now,
                      turn_count := turn_count r + 1, jsonl_path := jsonl_path_str paths key\<rparr>
               else r)
      else bt_get t k)"
  by (auto simp: complete_turn_def Let_def update_active_def split: option.splits)

lemmas op_get = touch_session_get get_or_create_get complete_turn_get update_active_get
  delete_session_table set_compression_table session_setters

section \<open>Invariant\<close>

definition sessions_ok :: "session_table \<Rightarrow> bool" where
  "sessions_ok t \<longleftrightarrow> keyed_by session_key t"

lemma sessions_ok_get: "sessions_ok t \<Longrightarrow> bt_get t k = Some r \<Longrightarrow> session_key r = k"
  unfolding sessions_ok_def by (rule keyed_by_get)

lemma sessions_ok_insert: "sessions_ok t \<Longrightarrow> session_key r = k \<Longrightarrow> sessions_ok (bt_insert k r t)"
  unfolding sessions_ok_def by (rule keyed_by_insert)

lemma sessions_ok_update:
  assumes "sessions_ok t" and "\<And>r. session_key (f r) = session_key r"
  shows "sessions_ok (snd (update_active key f t))"
  using assms by (auto simp: update_active_def intro!: sessions_ok_insert dest: sessions_ok_get split: option.splits)

lemma sessions_ok_op: "sessions_ok t \<Longrightarrow> sessions_ok (op_table paths op t)"
proof (cases op)
  case (Touch now k chat chan)
  assume "sessions_ok t"
  then show ?thesis unfolding Touch
    by (auto simp: touch_session_def Let_def new_row_def split: option.splits
        intro!: sessions_ok_insert dest: sessions_ok_get)
next
  case (GetOrCreate now k chat chan)
  assume "sessions_ok t"
  then show ?thesis unfolding GetOrCreate
    by (auto simp: get_or_create_session_state_def Let_def new_row_def split: option.splits
        intro!: sessions_ok_insert dest: sessions_ok_get)
next
  case (CompleteTurn now k chat chan)
  assume "sessions_ok t"
  then show ?thesis unfolding CompleteTurn
    by (auto simp: complete_turn_def Let_def new_row_def update_active_def split: option.splits
        intro!: sessions_ok_insert dest: sessions_ok_get)
qed (simp_all add: session_setters delete_session_table set_compression_table sessions_ok_update)

text \<open>A row that is not active is left as it is by every operation on the table.\<close>

lemma op_keeps_deleted:
  "bt_get t k = Some r \<Longrightarrow> \<not> is_active r \<Longrightarrow> bt_get (op_table paths op t) k = Some r"
  by (cases op) (auto simp: op_get)

section \<open>Cleanup\<close>

lemma validate_from_set:
  "validate_cleanup_channels_from out cs = Ok chans \<Longrightarrow> set chans = set out \<union> set cs \<and> set cs \<subseteq> {''cron'', ''webhook''}"
  by (induction out cs arbitrary: chans rule: validate_cleanup_channels_from.induct)
     (auto split: if_splits)

lemma validate_cleanup_set:
  "validate_cleanup_channels cs = Ok chans \<Longrightarrow> set chans = set cs \<and> set cs \<subseteq> {''cron'', ''webhook''}"
  using validate_from_set [of "[]" cs chans] by (simp add: validate_cleanup_channels_def split: if_splits)

definition matched_keys :: "int \<Rightarrow> string list \<Rightarrow> session_table \<Rightarrow> string list" where
  "matched_keys before chans t = map session_key (filter (cleanup_matches before chans) (map snd t))"

lemma matched_keys_iff:
  assumes "sessions_ok t"
  shows "k \<in> set (matched_keys before chans t) \<longleftrightarrow> (\<exists>r. bt_get t k = Some r \<and> cleanup_matches before chans r)"
proof
  assume "k \<in> set (matched_keys before chans t)"
  then obtain l r where r: "(l, r) \<in> set t" "cleanup_matches before chans r" "k = session_key r"
    by (auto simp: matched_keys_def)
  then show "\<exists>r. bt_get t k = Some r \<and> cleanup_matches before chans r"
    using assms in_set_bt_get by (fastforce simp: sessions_ok_def keyed_by_def)
next
  assume "\<exists>r. bt_get t k = Some r \<and> cleanup_matches before chans r"
  then show "k \<in> set (matched_keys before chans t)"
    using assms sessions_ok_get [OF assms] bt_get_in_set [of t k] by (force simp: matched_keys_def)
qed

lemma matched_keys_distinct: "sessions_ok t \<Longrightarrow> distinct (matched_keys before chans t)"
proof -
  assume ok: "sessions_ok t"
  have "map session_key (map snd t) = map fst t"
    using ok by (auto simp: sessions_ok_def keyed_by_def)
  then have "distinct (map session_key (map snd t))"
    using ok sorted_map_distinct by (metis sessions_ok_def keyed_by_def)
  then show ?thesis unfolding matched_keys_def by (rule distinct_map_filter)
qed

lemma delete_related_rows:
  "delete_related keys tables n m = (n', m') \<Longrightarrow>
     table_rows table m' =
       (if table \<in> set tables then filter (\<lambda>row. fst row \<notin> set keys) (table_rows table m) else table_rows table m)"
proof (induction keys tables n m arbitrary: n' m' rule: delete_related.induct)
  case (2 keys table' tables n m)
  have get: "table_rows t (bt_insert table' v m) = (if t = table' then v else table_rows t m)" for t v
    by (simp add: table_rows_def)
  show ?case using "2.IH" [OF refl] "2.prems" by (auto simp: Let_def get)
qed simp

text \<open>Files are removed one by one; a path that occurs twice counts as missing the second time.\<close>

lemma remove_files_get:
  "remove_session_jsonl_files_from dir n i ks acc fs = (acc', fs') \<Longrightarrow>
     bt_get fs' p = (if p \<in> session_jsonl_path dir ` set ks then None else bt_get fs p)"
proof (induction dir n i ks acc fs arbitrary: acc' fs' rule: remove_session_jsonl_files_from.induct)
  case (2 dir tot index k ks del missing progress fs)
  show ?case
  proof (cases "bt_contains fs (session_jsonl_path dir k)")
    case True
    then show ?thesis using "2.IH"(1) [OF refl refl True] "2.prems" by (auto simp: Let_def)
  next
    case False
    then show ?thesis using "2.IH"(2) [OF refl refl False] "2.prems"
      by (auto simp: Let_def bt_contains_def)
  qed
qed simp

lemma remove_files_count:
  "remove_session_jsonl_files_from dir n i ks (del, missing, prog) fs = ((del', missing', prog'), fs') \<Longrightarrow>
     del' + missing' = del + missing + int (length ks) \<and> length prog' = length prog + length ks"
proof (induction ks arbitrary: i del missing prog fs)
  case (Cons k ks)
  then show ?case by (auto simp: Let_def split: if_splits dest!: Cons.IH)
qed simp

text \<open>The effect of a cleanup that succeeds.\<close>

lemma clean_cases:
  assumes "clean_sessions_with_progress paths query db = (Ok (summary, progress), db')"
  obtains chans keys where "validate_cleanup_channels (cleanup_channels query) = Ok chans"
    and "keys = matched_keys (updated_before_ms query) chans (sessions db)"
    and "sessions db' = filter (\<lambda>kr. fst kr \<notin> set keys) (sessions db)"
    and "\<And>table. table_rows table (related db') =
           (if table \<in> set CLEANUP_RELATED_TABLES
            then filter (\<lambda>row. fst row \<notin> set keys) (table_rows table (related db))
            else table_rows table (related db))"
    and "\<And>p. bt_get (files db') p =
           (if p \<in> session_jsonl_path (sessions_dir paths) ` set keys then None else bt_get (files db) p)"
    and "matched_sessions summary = int (length keys)"
    and "session_records_deleted summary = int (length keys)"
    and "jsonl_files_deleted summary + jsonl_files_missing summary = int (length keys)"
    and "length progress = Suc (length keys)"
proof -
  obtain chans where chans: "validate_cleanup_channels (cleanup_channels query) = Ok chans"
    using assms by (auto simp: clean_sessions_with_progress_def split: sum.splits)
  define keys where "keys = matched_keys (updated_before_ms query) chans (sessions db)"
  note unfolded = assms [unfolded clean_sessions_with_progress_def chans sum.case Let_def
      matched_keys_def [symmetric] keys_def [symmetric]]
  show ?thesis
  proof (cases "keys = []")
    case True
    then show ?thesis
      using unfolded that [OF chans keys_def] by (auto simp: empty_cleanup_def table_rows_def)
  next
    case False
    obtain count rel where rel: "delete_related keys CLEANUP_RELATED_TABLES 0 (related db) = (count, rel)"
      by fastforce
    obtain del missing prog fs where fs: "remove_session_jsonl_files_from (sessions_dir paths) (int (length keys)) 0
        keys (0, 0, []) (files db) = ((del, missing, prog), fs)" by (metis prod_cases3 surj_pair)
    have db': "db' = db\<lparr>sessions := filter (\<lambda>kr. fst kr \<notin> set keys) (sessions db), related := rel, files := fs\<rparr>"
      and summary: "summary = \<lparr>matched_sessions = int (length keys), session_records_deleted = int (length keys),
        related_records_deleted = count, jsonl_files_deleted = del, jsonl_files_missing = missing\<rparr>"
      and progress: "length progress = Suc (length prog)"
      using unfolded False rel fs by (auto simp: remove_session_jsonl_files_def)
    show ?thesis
      using that [OF chans keys_def] delete_related_rows [OF rel] remove_files_get [OF fs]
        remove_files_count [OF fs] progress
      unfolding db' summary by simp
  qed
qed

lemma get_filter_keys:
  "bt_get (filter (\<lambda>kr. fst kr \<notin> K) t) k = (if k \<in> K then None else bt_get t k)"
  using bt_get_filter [of "\<lambda>x. x \<notin> K" t k] by simp

lemma clean_keeps_ok:
  "sessions_ok (sessions db) \<Longrightarrow> sessions_ok (sessions (snd (clean_sessions_with_progress paths q db)))"
proof (cases "fst (clean_sessions_with_progress paths q db)")
  case (Inl e)
  assume "sessions_ok (sessions db)"
  with Inl show ?thesis
    by (auto simp: clean_sessions_with_progress_def Let_def case_prod_unfold split: sum.splits if_splits)
next
  case (Inr res)
  assume "sessions_ok (sessions db)"
  moreover obtain keys where
    "sessions (snd (clean_sessions_with_progress paths q db)) = filter (\<lambda>kr. fst kr \<notin> set keys) (sessions db)"
    using clean_cases [of paths q db "fst res" "snd res" "snd (clean_sessions_with_progress paths q db)"] Inr
    by (metis prod.collapse)
  ultimately show ?thesis by (auto simp: sessions_ok_def keyed_by_def)
qed

lemma clean_keeps_unmatched:
  assumes ok: "sessions_ok (sessions db)" and k: "bt_get (sessions db) k = Some r"
    and r: "\<not> is_active r \<or> updated_before_ms q \<le> updated_at_ms r \<or> channel r \<notin> {''cron'', ''webhook''}"
  shows "bt_get (sessions (snd (clean_sessions_with_progress paths q db))) k = Some r"
proof (cases "fst (clean_sessions_with_progress paths q db)")
  case (Inl e)
  with k show ?thesis
    by (auto simp: clean_sessions_with_progress_def Let_def case_prod_unfold split: sum.splits if_splits)
next
  case (Inr res)
  then have clean: "clean_sessions_with_progress paths q db =
      (Ok (fst res, snd res), snd (clean_sessions_with_progress paths q db))"
    by (metis prod.collapse)
  show ?thesis
  proof (rule clean_cases [OF clean])
    fix chans keys
    assume chans: "validate_cleanup_channels (cleanup_channels q) = Ok chans"
      and keys: "keys = matched_keys (updated_before_ms q) chans (sessions db)"
      and table: "sessions (snd (clean_sessions_with_progress paths q db)) = filter (\<lambda>kr. fst kr \<notin> set keys) (sessions db)"
    have "set chans \<subseteq> {''cron'', ''webhook''}" using validate_cleanup_set [OF chans] by simp
    then have "\<not> cleanup_matches (updated_before_ms q) chans r"
      using r unfolding cleanup_matches_def by fastforce
    then have "k \<notin> set keys" unfolding keys matched_keys_iff [OF ok] using k by simp
    then show ?thesis unfolding table get_filter_keys using k by simp
  qed
qed

lemma step_keeps_ok: "sessions_ok (sessions db) \<Longrightarrow> sessions_ok (sessions (session_step paths op db))"
  by (cases op) (simp_all add: session_step_def sessions_ok_op clean_keeps_ok del: op_table.simps)

lemma step_keeps_deleted:
  "sessions_ok (sessions db) \<Longrightarrow> bt_get (sessions db) k = Some r \<Longrightarrow> \<not> is_active r \<Longrightarrow>
   bt_get (sessions (session_step paths op db)) k = Some r"
  by (cases op) (simp_all add: session_step_def op_keeps_deleted clean_keeps_unmatched del: op_table.simps)

lemma run_keeps:
  assumes "sessions_ok (sessions db)"
  shows "sessions_ok (sessions (session_run paths ops db))"
    and "bt_get (sessions db) k = Some r \<Longrightarrow> \<not> is_active r \<Longrightarrow>
         bt_get (sessions (session_run paths ops db)) k = Some r"
  using assms unfolding session_run_def
  by (induction ops arbitrary: db) (simp_all add: step_keeps_ok step_keeps_deleted)

lemma order_sessions_set [simp]: "set (order_sessions order rs) = set rs"
  by (cases order) simp_all

lemma list_sessions_subset:
  "set (list_sessions limit offset from_ms to_ms chan prefix order t)
     \<subseteq> session_index.truncate ` set (filter (session_selected from_ms to_ms chan prefix) (map snd t))"
proof -
  have "set (take m (drop n (order_sessions order rs))) \<subseteq> set rs" for m n rs
    by (metis order_sessions_set order_trans set_drop_subset set_take_subset)
  then show ?thesis unfolding list_sessions_def Let_def set_map
    by (cases limit) (simp_all add: image_mono order_sessions_set del: set_filter)
qed

lemma list_sessions_active:
  assumes "sessions_ok t" and "s \<in> set (list_sessions limit offset from_ms to_ms chan prefix order t)"
  obtains r where "bt_get t (session_key s) = Some r" "is_active r" "s = session_index.truncate r"
proof -
  obtain k r where "(k, r) \<in> set t" "session_selected from_ms to_ms chan prefix r" "s = session_index.truncate r"
    using assms(2) list_sessions_subset by fastforce
  moreover from this have "bt_get t k = Some r" "session_key r = k"
    using assms(1) in_set_bt_get by (fastforce simp: sessions_ok_def keyed_by_def)+
  ultimately show ?thesis
    using that [of r] by (simp add: session_selected_def session_index.truncate_def)
qed

section \<open>Turns\<close>

definition turns :: "string \<Rightarrow> session_table \<Rightarrow> int" where
  "turns k t = (case bt_get t k of None \<Rightarrow> 0 | Some r \<Rightarrow> turn_count r)"

fun completes :: "string \<Rightarrow> session_op \<Rightarrow> bool" where
  "completes k (CompleteTurn now key chat chan) = (key = k)"
| "completes k _ = False"

fun may_remove :: "string \<Rightarrow> session_op \<Rightarrow> bool" where
  "may_remove k (DeleteSession key) = (key = k)"
| "may_remove k (CleanSessions q) = True"
| "may_remove k _ = False"

definition live_or_absent :: "string \<Rightarrow> session_table \<Rightarrow> bool" where
  "live_or_absent k t = (case bt_get t k of None \<Rightarrow> True | Some r \<Rightarrow> is_active r)"

lemma turns_op:
  assumes "\<not> may_remove k op" and "live_or_absent k t"
  shows "turns k (op_table paths op t) = turns k t + (if completes k op then 1 else 0)"
    and "live_or_absent k (op_table paths op t)"
  using assms
  by (cases op; auto simp: op_get turns_def live_or_absent_def new_row_def split: option.split option.split_asm)+

lemma turns_step:
  assumes "\<not> may_remove k op" and "live_or_absent k (sessions db)"
  shows "turns k (sessions (session_step paths op db)) =
           turns k (sessions db) + (if completes k op then 1 else 0)"
    and "live_or_absent k (sessions (session_step paths op db))"
  using turns_op [OF assms] assms(1) by (cases op; simp add: session_step_def del: op_table.simps)+

lemma turns_run:
  assumes "\<forall>op \<in> set ops. \<not> may_remove k op" and "live_or_absent k (sessions db)"
  shows "turns k (sessions (session_run paths ops db)) =
           turns k (sessions db) + int (length (filter (completes k) ops))"
  using assms unfolding session_run_def
  by (induction ops arbitrary: db) (simp_all add: turns_step)

section \<open>Properties\<close>

text \<open>C31: Deletion is final. After a session was deleted, whatever operations follow (on this or
  any other session, the attempts to touch it or to complete a turn on it and cleanups included), it
  cannot be read, touching it or completing a turn on it reports that it was not found and leaves it
  deleted, and no listing shows it.\<close>

theorem deleted_session_stays_deleted:
  assumes ok: "sessions_ok (sessions db)"
    and deleted: "fst (delete_session k (sessions db))"
  shows "let t = sessions (session_run paths ops (session_step paths (DeleteSession k) db))
         in get_session k t = Err (Backend ''session not found'') \<and>
            touch_session paths now k chat chan t = (Err (Backend ''session not found''), t) \<and>
            complete_turn paths now k chat chan t = (Err (Backend ''session not found''), t) \<and>
            k \<notin> session_key ` set (list_sessions limit offset from_ms to_ms chan_filter prefix order t)"
proof -
  define db1 where "db1 = session_step paths (DeleteSession k) db"
  define t where "t = sessions (session_run paths ops db1)"
  have ok1: "sessions_ok (sessions db1)" unfolding db1_def by (rule step_keeps_ok [OF ok])
  obtain r where "bt_get (sessions db) k = Some r" "is_active r"
    using deleted
    by (auto simp: delete_session_def update_active_def split: option.splits if_splits)
  then have "bt_get (sessions db1) k = Some (r\<lparr>is_active := False\<rparr>)"
    unfolding db1_def by (simp add: session_step_def op_get)
  then have row: "bt_get t k = Some (r\<lparr>is_active := False\<rparr>)" and ok_t: "sessions_ok t"
    unfolding t_def using run_keeps [OF ok1] by simp_all
  have get: "get_session k t = Err (Backend ''session not found'')"
    using row by (simp add: get_session_def)
  then have "touch_session paths now k chat chan t = (Err (Backend ''session not found''), t)"
    "complete_turn paths now k chat chan t = (Err (Backend ''session not found''), t)"
    using row by (simp_all add: touch_session_def complete_turn_def update_active_def)
  moreover have "k \<notin> session_key ` set (list_sessions limit offset from_ms to_ms chan_filter prefix order t)"
    using row by (auto elim: list_sessions_active [OF ok_t])
  ultimately show ?thesis using get unfolding t_def db1_def by (simp add: Let_def)
qed

definition sample_paths :: storage_paths where
  "sample_paths = \<lparr>root_dir = ''/k'', sessions_dir = ''/k/sessions''\<rparr>"

definition empty_db :: "unit session_db" where
  "empty_db = \<lparr>sessions = [], related = [], files = []\<rparr>"

definition sample_db :: "unit session_db" where
  "sample_db = session_run sample_paths [Touch 5 ''web:1'' ''c'' ''web'', CompleteTurn 6 ''web:1'' ''c'' ''web''] empty_db"

theorem deleted_session_stays_deleted_witness:
  "let t = sessions (session_run sample_paths [Touch 9 ''web:1'' ''c'' ''web'']
             (session_step sample_paths (DeleteSession ''web:1'') sample_db))
   in get_session ''web:1'' t = Err (Backend ''session not found'') \<and>
      touch_session sample_paths 10 ''web:1'' ''c'' ''web'' t = (Err (Backend ''session not found''), t) \<and>
      complete_turn sample_paths 10 ''web:1'' ''c'' ''web'' t = (Err (Backend ''session not found''), t) \<and>
      ''web:1'' \<notin> session_key ` set (list_sessions None 0 None None None None UpdatedAtDesc t)"
proof -
  have "sessions_ok (sessions sample_db)"
    unfolding sample_db_def by (rule run_keeps) (simp add: empty_db_def sessions_ok_def keyed_by_def)
  moreover have "fst (delete_session ''web:1'' (sessions sample_db))" by code_simp
  ultimately show ?thesis by (rule deleted_session_stays_deleted)
qed

text \<open>The turn counter counts turns. Over any sequence of operations that neither deletes the
  session nor runs a cleanup, it grows by exactly the number of completed turns of that session,
  whether or not the session existed before.\<close>

theorem turn_count_counts_turns:
  assumes "live_or_absent k (sessions db)" and "\<forall>op \<in> set ops. \<not> may_remove k op"
  shows "turns k (sessions (session_run paths ops db)) =
           turns k (sessions db) + int (length (filter (completes k) ops))"
  using assms(2,1) by (rule turns_run)

theorem turn_count_counts_turns_witness:
  "turns ''web:1'' (sessions (session_run sample_paths
      [CompleteTurn 6 ''web:1'' ''c'' ''web'', DeleteSession ''web:2'', CompleteTurn 7 ''web:2'' ''c'' ''web'',
       CompleteTurn 8 ''web:1'' ''c'' ''web''] empty_db)) = 2"
  using turn_count_counts_turns [of "''web:1''" empty_db
      "[CompleteTurn 6 ''web:1'' ''c'' ''web'', DeleteSession ''web:2'', CompleteTurn 7 ''web:2'' ''c'' ''web'',
        CompleteTurn 8 ''web:1'' ''c'' ''web'']" sample_paths]
  by (simp add: empty_db_def live_or_absent_def turns_def)

text \<open>C35: A cleanup that succeeds removes exactly the active sessions of the requested channels last
  updated before the cutoff, and these channels are only cron and webhook; of every related table
  exactly the rows of those sessions, of the files exactly theirs; every other session, row and file
  is unchanged. The summary counts the removed sessions, and every one of their files is either
  deleted or counted as missing.\<close>

theorem cleanup_removes_exactly_old_background_sessions:
  assumes ok: "sessions_ok (sessions db)"
    and clean: "clean_sessions_with_progress paths query db = (Ok (summary, progress), db')"
  defines "removed \<equiv> {k. \<exists>r. bt_get (sessions db) k = Some r \<and> is_active r \<and>
      updated_at_ms r < updated_before_ms query \<and> channel r \<in> set (cleanup_channels query)}"
  shows "set (cleanup_channels query) \<subseteq> {''cron'', ''webhook''} \<and>
    (\<forall>k. bt_get (sessions db') k = (if k \<in> removed then None else bt_get (sessions db) k)) \<and>
    (\<forall>table. table_rows table (related db') =
       (if table \<in> set CLEANUP_RELATED_TABLES
        then filter (\<lambda>row. fst row \<notin> removed) (table_rows table (related db)) else table_rows table (related db))) \<and>
    (\<forall>p. bt_get (files db') p =
       (if p \<in> session_jsonl_path (sessions_dir paths) ` removed then None else bt_get (files db) p)) \<and>
    matched_sessions summary = int (card removed) \<and>
    jsonl_files_deleted summary + jsonl_files_missing summary = int (card removed)"
proof (rule clean_cases [OF clean])
  fix chans keys
  assume chans: "validate_cleanup_channels (cleanup_channels query) = Ok chans"
    and keys: "keys = matched_keys (updated_before_ms query) chans (sessions db)"
    and effect: "sessions db' = filter (\<lambda>kr. fst kr \<notin> set keys) (sessions db)"
      "\<And>table. table_rows table (related db') =
           (if table \<in> set CLEANUP_RELATED_TABLES
            then filter (\<lambda>row. fst row \<notin> set keys) (table_rows table (related db))
            else table_rows table (related db))"
      "\<And>p. bt_get (files db') p =
           (if p \<in> session_jsonl_path (sessions_dir paths) ` set keys then None else bt_get (files db) p)"
    and counts: "matched_sessions summary = int (length keys)"
      "jsonl_files_deleted summary + jsonl_files_missing summary = int (length keys)"
  have set_keys: "set keys = removed"
    using validate_cleanup_set [OF chans] unfolding removed_def keys
    by (simp add: set_eq_iff matched_keys_iff [OF ok] cleanup_matches_def)
  have "length keys = card removed"
    using matched_keys_distinct [OF ok] distinct_card set_keys unfolding keys by metis
  then show ?thesis
    using effect counts validate_cleanup_set [OF chans] unfolding set_keys by (simp add: get_filter_keys)
qed

definition cleanup_db :: "unit session_db" where
  "cleanup_db = (session_run sample_paths
     [Touch 5 ''cron:x'' ''c'' ''cron'', Touch 6 ''terminal:x'' ''c'' ''terminal'', Touch 50 ''cron:y'' ''c'' ''cron''] empty_db)
     \<lparr>related := [(''approvals'', [(''cron:x'', ()), (''terminal:x'', ())])],
      files := [(''/k/sessions/x.jsonl'', ''{}''), (''/k/sessions/y.jsonl'', ''{}'')]\<rparr>"

definition cleanup_query :: session_cleanup_query where
  "cleanup_query = \<lparr>updated_before_ms = 20, cleanup_channels = [''cron'']\<rparr>"

lemma cleanup_db_ok: "sessions_ok (sessions cleanup_db)"
proof -
  have "sessions_ok (sessions empty_db)" by (simp add: empty_db_def sessions_ok_def keyed_by_def)
  from run_keeps(1) [OF this] show ?thesis unfolding cleanup_db_def by simp
qed

lemma cleanup_db_run:
  "clean_sessions_with_progress sample_paths cleanup_query cleanup_db =
     (Ok (\<lparr>matched_sessions = 1, session_records_deleted = 1, related_records_deleted = 1,
           jsonl_files_deleted = 1, jsonl_files_missing = 0\<rparr>,
         [\<lparr>total_sessions = 1, deleted_sessions = 0\<rparr>, \<lparr>total_sessions = 1, deleted_sessions = 1\<rparr>]),
      snd (clean_sessions_with_progress sample_paths cleanup_query cleanup_db))"
  by code_simp

theorem cleanup_removes_exactly_old_background_sessions_witness:
  "bt_get (sessions (snd (clean_sessions_with_progress sample_paths cleanup_query cleanup_db))) ''cron:x'' = None \<and>
   bt_get (sessions (snd (clean_sessions_with_progress sample_paths cleanup_query cleanup_db))) ''terminal:x'' =
     bt_get (sessions cleanup_db) ''terminal:x''"
proof -
  let ?removed = "{k. \<exists>r. bt_get (sessions cleanup_db) k = Some r \<and> is_active r \<and>
      updated_at_ms r < updated_before_ms cleanup_query \<and> channel r \<in> set (cleanup_channels cleanup_query)}"
  have "bt_get (sessions (snd (clean_sessions_with_progress sample_paths cleanup_query cleanup_db))) k =
      (if k \<in> ?removed then None else bt_get (sessions cleanup_db) k)" for k
    using cleanup_removes_exactly_old_background_sessions [OF cleanup_db_ok cleanup_db_run] by simp
  moreover have "case bt_get (sessions cleanup_db) ''cron:x'' of None \<Rightarrow> False | Some r \<Rightarrow>
      is_active r \<and> updated_at_ms r < updated_before_ms cleanup_query \<and> channel r \<in> set (cleanup_channels cleanup_query)"
    by code_simp
  moreover have "case bt_get (sessions cleanup_db) ''terminal:x'' of None \<Rightarrow> False | Some r \<Rightarrow>
      channel r \<notin> set (cleanup_channels cleanup_query)"
    by code_simp
  ultimately show ?thesis by (auto split: option.splits)
qed

text \<open>The file that a cleanup removes may be the history of a session it leaves alone: the file of
  a session is named by its key without the channel.\<close>

lemma cleanup_deletes_live_history:
  "is_active (the (bt_get (sessions (snd (clean_sessions_with_progress sample_paths cleanup_query cleanup_db))) ''terminal:x'')) \<and>
   bt_get (files cleanup_db) (session_jsonl_path ''/k/sessions'' ''terminal:x'') = Some ''{}'' \<and>
   bt_get (files (snd (clean_sessions_with_progress sample_paths cleanup_query cleanup_db)))
     (session_jsonl_path ''/k/sessions'' ''terminal:x'') = None"
  by code_simp

end
