(* ===== verification/Cron_Store.thy ===== *)
theory Cron_Store
  imports Session_Store
begin

text \<open>
  The tables \<^verbatim>\<open>cron\<close> and \<^verbatim>\<open>cron_task\<close> of \<^verbatim>\<open>klaw-storage/src/turso/cron.rs\<close>, to which
  \<^verbatim>\<open>klaw-cron/src/manager.rs\<close> hands its calls: jobs with the time of their next run, and the
  record of every run. Each SQL statement is one atomic step on the pair of tables. Updating a job
  is two statements (the row is read, then written back with the patch applied), which are the two
  definitions \<open>get_cron\<close> and \<open>write_cron\<close> that \<open>update_cron\<close> composes.
\<close>

section \<open>Types\<close>

datatype cron_schedule_kind = CronKind | EveryKind

fun schedule_kind_as_str :: "cron_schedule_kind \<Rightarrow> string" where
  "schedule_kind_as_str CronKind = ''cron''"
| "schedule_kind_as_str EveryKind = ''every''"

definition schedule_kind_parse :: "string \<Rightarrow> cron_schedule_kind option" where
  "schedule_kind_parse v =
     (if v = ''cron'' then Some CronKind else if v = ''every'' then Some EveryKind else None)"

lemma schedule_kind_parse_as_str [simp]: "schedule_kind_parse (schedule_kind_as_str k) = Some k"
  by (cases k) (simp_all add: schedule_kind_parse_def)

record cron_job =
  job_id :: string
  job_name :: string
  schedule_kind :: cron_schedule_kind
  schedule_expr :: string
  payload_json :: string
  enabled :: bool
  timezone :: string
  next_run_at_ms :: int
  last_run_at_ms :: "int option"
  job_created_at_ms :: int
  job_updated_at_ms :: int

record new_cron_job =
  new_job_id :: string
  new_job_name :: string
  new_schedule_kind :: cron_schedule_kind
  new_schedule_expr :: string
  new_payload_json :: string
  new_enabled :: bool
  new_timezone :: string
  new_next_run_at_ms :: int

record update_cron_job_patch =
  patch_name :: "string option"
  patch_schedule_kind :: "cron_schedule_kind option"
  patch_schedule_expr :: "string option"
  patch_payload_json :: "string option"
  patch_timezone :: "string option"
  patch_next_run_at_ms :: "int option"

datatype cron_task_status = TaskPending | TaskRunning | TaskSuccess | TaskFailed

fun task_status_as_str :: "cron_task_status \<Rightarrow> string" where
  "task_status_as_str TaskPending = ''pending''"
| "task_status_as_str TaskRunning = ''running''"
| "task_status_as_str TaskSuccess = ''success''"
| "task_status_as_str TaskFailed = ''failed''"

definition task_status_parse :: "string \<Rightarrow> cron_task_status option" where
  "task_status_parse v =
     (if v = ''pending'' then Some TaskPending else if v = ''running'' then Some TaskRunning
      else if v = ''success'' then Some TaskSuccess else if v = ''failed'' then Some TaskFailed else None)"

lemma task_status_parse_as_str [simp]: "task_status_parse (task_status_as_str s) = Some s"
  by (cases s) (simp_all add: task_status_parse_def)

record cron_task_run =
  run_id :: string
  run_cron_id :: string
  scheduled_at_ms :: int
  started_at_ms :: "int option"
  finished_at_ms :: "int option"
  run_status :: cron_task_status
  run_attempt :: int
  error_message :: "string option"
  published_message_id :: "string option"
  run_created_at_ms :: int

datatype cron_sort_order = CronUpdatedAtDesc | CronCreatedAtDesc | CronUpdatedAtAsc | CronCreatedAtAsc

record cron_list_query =
  name_search :: "string option"
  query_kind :: "cron_schedule_kind option"
  created_from_ms :: "int option"
  created_to_ms :: "int option"
  query_sort_order :: cron_sort_order
  query_limit :: int
  query_offset :: int

record cron_db =
  cron_table :: "(string, cron_job) btree_map"
  cron_tasks :: "(string, cron_task_run) btree_map"

section \<open>Jobs\<close>

definition get_cron :: "string \<Rightarrow> cron_db \<Rightarrow> storage_error + cron_job" where
  "get_cron i db = ok_or (bt_get (cron_table db) i) (Backend ''cron job not found'')"

definition create_cron :: "int \<Rightarrow> new_cron_job \<Rightarrow> cron_db \<Rightarrow> (storage_error + cron_job) \<times> cron_db" where
  "create_cron now input db =
     (if bt_contains (cron_table db) (new_job_id input)
      then (Err (Backend ''UNIQUE constraint failed: cron.id''), db)
      else let job = \<lparr>job_id = new_job_id input, job_name = new_job_name input,
                      schedule_kind = new_schedule_kind input, schedule_expr = new_schedule_expr input,
                      payload_json = new_payload_json input, enabled = new_enabled input,
                      timezone = new_timezone input, next_run_at_ms = new_next_run_at_ms input,
                      last_run_at_ms = None, job_created_at_ms = now, job_updated_at_ms = now\<rparr>;
               db' = db\<lparr>cron_table := bt_insert (new_job_id input) job (cron_table db)\<rparr>
           in (get_cron (new_job_id input) db', db'))"

text \<open>An \<^verbatim>\<open>UPDATE\<close> of one job, with whether a row was affected.\<close>

definition update_job_row :: "string \<Rightarrow> (cron_job \<Rightarrow> cron_job) \<Rightarrow> cron_db \<Rightarrow> bool \<times> cron_db" where
  "update_job_row i f db =
     (case bt_get (cron_table db) i of
        None \<Rightarrow> (False, db)
      | Some job \<Rightarrow> (True, db\<lparr>cron_table := bt_insert i (f job) (cron_table db)\<rparr>))"

definition job_not_found :: "string \<Rightarrow> string \<Rightarrow> storage_error" where
  "job_not_found i what = Backend (''cron job '' @ [quote] @ i @ [quote] @ '' not found when '' @ what)"

definition write_cron :: "int \<Rightarrow> string \<Rightarrow> update_cron_job_patch \<Rightarrow> cron_job \<Rightarrow> cron_db \<Rightarrow>
    (storage_error + cron_job) \<times> cron_db" where
  "write_cron now i patch current db =
     (let (affected, db') = update_job_row i
            (\<lambda>job. job\<lparr>job_name := unwrap_or (patch_name patch) (job_name current),
                      schedule_kind := unwrap_or (patch_schedule_kind patch) (schedule_kind current),
                      schedule_expr := unwrap_or (patch_schedule_expr patch) (schedule_expr current),
                      payload_json := unwrap_or (patch_payload_json patch) (payload_json current),
                      timezone := unwrap_or (patch_timezone patch) (timezone current),
                      next_run_at_ms := unwrap_or (patch_next_run_at_ms patch) (next_run_at_ms current),
                      job_updated_at_ms := now\<rparr>) db
      in if affected then (get_cron i db', db') else (Err (job_not_found i ''updating''), db'))"

definition update_cron :: "int \<Rightarrow> string \<Rightarrow> update_cron_job_patch \<Rightarrow> cron_db \<Rightarrow>
    (storage_error + cron_job) \<times> cron_db" where
  "update_cron now i patch db =
     (case get_cron i db of
        Inl e \<Rightarrow> (Err e, db)
      | Inr current \<Rightarrow> write_cron now i patch current db)"

definition set_enabled :: "int \<Rightarrow> string \<Rightarrow> bool \<Rightarrow> cron_db \<Rightarrow> (storage_error + unit) \<times> cron_db" where
  "set_enabled now i flag db =
     (let (affected, db') = update_job_row i (\<lambda>job. job\<lparr>enabled := flag, job_updated_at_ms := now\<rparr>) db
      in (if affected then Ok () else Err (job_not_found i ''setting enabled''), db'))"

definition delete_cron :: "string \<Rightarrow> cron_db \<Rightarrow> (storage_error + unit) \<times> cron_db" where
  "delete_cron i db =
     (if bt_contains (cron_table db) i then (Ok (), db\<lparr>cron_table := bt_remove i (cron_table db)\<rparr>)
      else (Err (job_not_found i ''deleting''), db))"

fun order_jobs :: "cron_sort_order \<Rightarrow> cron_job list \<Rightarrow> cron_job list" where
  "order_jobs CronUpdatedAtDesc js = rev (sort_key (\<lambda>j. (job_updated_at_ms j, job_id j)) js)"
| "order_jobs CronCreatedAtDesc js = rev (sort_key (\<lambda>j. (job_created_at_ms j, job_id j)) js)"
| "order_jobs CronUpdatedAtAsc js = sort_key (\<lambda>j. (job_updated_at_ms j, job_id j)) js"
| "order_jobs CronCreatedAtAsc js = sort_key (\<lambda>j. (job_created_at_ms j, job_id j)) js"

definition list_crons :: "cron_list_query \<Rightarrow> cron_db \<Rightarrow> cron_job list" where
  "list_crons query db =
     (let chosen = (\<lambda>j.
            (case name_search query of None \<Rightarrow> True | Some n \<Rightarrow> sql_like (''%'' @ n @ ''%'') (job_name j)) \<and>
            (case query_kind query of None \<Rightarrow> True | Some k \<Rightarrow> schedule_kind j = k) \<and>
            (case created_from_ms query of None \<Rightarrow> True | Some t \<Rightarrow> job_created_at_ms j \<ge> t) \<and>
            (case created_to_ms query of None \<Rightarrow> True | Some t \<Rightarrow> job_created_at_ms j \<le> t))
      in take (nat (max (query_limit query) 1)) (drop (nat (max (query_offset query) 0))
           (order_jobs (query_sort_order query) (filter chosen (map snd (cron_table db))))))"

definition count_jobs :: "cron_db \<Rightarrow> int" where
  "count_jobs db = int (length (cron_table db))"

section \<open>Due jobs and claims\<close>

definition is_due :: "int \<Rightarrow> cron_job \<Rightarrow> bool" where
  "is_due now job \<longleftrightarrow> enabled job \<and> next_run_at_ms job \<le> now"

text \<open>\<^verbatim>\<open>ORDER BY next_run_at_ms ASC LIMIT ..\<close>; jobs due at the same time come by identifier.\<close>

definition list_due_crons :: "int \<Rightarrow> int \<Rightarrow> cron_db \<Rightarrow> cron_job list" where
  "list_due_crons now limit db =
     take (nat (max limit 1)) (sort_key next_run_at_ms (filter (is_due now) (map snd (cron_table db))))"

definition claim_next_run :: "string \<Rightarrow> int \<Rightarrow> int \<Rightarrow> int \<Rightarrow> cron_db \<Rightarrow> bool \<times> cron_db" where
  "claim_next_run i expected new now db =
     (case bt_get (cron_table db) i of
        Some job \<Rightarrow>
          if enabled job \<and> next_run_at_ms job = expected
          then (True, db\<lparr>cron_table := bt_insert i
                  (job\<lparr>next_run_at_ms := new, last_run_at_ms := Some expected, job_updated_at_ms := now\<rparr>)
                  (cron_table db)\<rparr>)
          else (False, db)
      | None \<Rightarrow> (False, db))"

section \<open>Runs\<close>

definition append_task_run :: "string \<Rightarrow> string \<Rightarrow> int \<Rightarrow> cron_task_status \<Rightarrow> int \<Rightarrow> int \<Rightarrow> cron_db \<Rightarrow>
    (storage_error + cron_task_run) \<times> cron_db" where
  "append_task_run i cron_id scheduled status att created db =
     (if bt_contains (cron_tasks db) i
      then (Err (Backend ''UNIQUE constraint failed: cron_task.id''), db)
      else let run = \<lparr>run_id = i, run_cron_id = cron_id, scheduled_at_ms = scheduled, started_at_ms = None,
                      finished_at_ms = None, run_status = status, run_attempt = att,
                      error_message = None, published_message_id = None, run_created_at_ms = created\<rparr>
           in (Ok run, db\<lparr>cron_tasks := bt_insert i run (cron_tasks db)\<rparr>))"

definition update_task_row :: "string \<Rightarrow> (cron_task_run \<Rightarrow> cron_task_run) \<Rightarrow> cron_db \<Rightarrow> cron_db" where
  "update_task_row i f db =
     (case bt_get (cron_tasks db) i of
        None \<Rightarrow> db
      | Some run \<Rightarrow> db\<lparr>cron_tasks := bt_insert i (f run) (cron_tasks db)\<rparr>)"

definition mark_task_running :: "string \<Rightarrow> int \<Rightarrow> cron_db \<Rightarrow> cron_db" where
  "mark_task_running i started db =
     update_task_row i (\<lambda>run. run\<lparr>run_status := TaskRunning, started_at_ms := Some started\<rparr>) db"

definition mark_task_result :: "string \<Rightarrow> cron_task_status \<Rightarrow> int \<Rightarrow> string option \<Rightarrow> string option \<Rightarrow>
    cron_db \<Rightarrow> cron_db" where
  "mark_task_result i status finished err message_id db =
     update_task_row i (\<lambda>run. run\<lparr>run_status := status, finished_at_ms := Some finished,
                                 error_message := err, published_message_id := message_id\<rparr>) db"

definition list_task_runs :: "string \<Rightarrow> int \<Rightarrow> int \<Rightarrow> cron_db \<Rightarrow> cron_task_run list" where
  "list_task_runs cron_id limit offset db =
     take (nat (max limit 1)) (drop (nat (max offset 0))
       (sort_key (\<lambda>run. - run_created_at_ms run)
         (filter (\<lambda>run. run_cron_id run = cron_id) (map snd (cron_tasks db)))))"

end
