(* ===== verification/Cron_Worker.thy ===== *)
theory Cron_Worker
  imports Cron_Store Transport
begin

text \<open>
  \<^verbatim>\<open>klaw-cron/src/schedule.rs\<close> and \<^verbatim>\<open>worker.rs\<close>: the schedules of jobs and the worker that
  turns due jobs into inbound messages. A job's next run is claimed by a compare-and-set on its row
  before the run, every run leaves a row in \<^verbatim>\<open>cron_task\<close>, and every run gets a session of its own.

  The crates \<^verbatim>\<open>cron\<close>, \<^verbatim>\<open>humantime\<close>, \<^verbatim>\<open>chrono\<close> and \<^verbatim>\<open>chrono_tz\<close>, the JSON codec, the clock,
  fresh identifiers and the transport are the fields of \<open>cron_env\<close>; the outside world they act on is
  the type variable \<open>'w\<close>. An instant is its number of milliseconds since the epoch.
\<close>

section \<open>Errors\<close>

datatype cron_error =
  InvalidSchedule string | InvalidCronRow string | CronStorage storage_error
| CronTransport transport_error | InvalidPayload string

fun cron_error_to_string :: "cron_error \<Rightarrow> string" where
  "cron_error_to_string (InvalidSchedule m) = ''invalid schedule: '' @ m"
| "cron_error_to_string (InvalidCronRow m) = ''invalid cron row: '' @ m"
| "cron_error_to_string (CronStorage e) = ''storage error: '' @ storage_error_to_string e"
| "cron_error_to_string (CronTransport e) = ''transport error: '' @ transport_error_to_string e"
| "cron_error_to_string (InvalidPayload m) = ''invalid inbound payload json: '' @ m"

section \<open>The environment\<close>

text \<open>\<open>env_cron_next s tz t\<close> is \<^verbatim>\<open>schedule.after(&t).next()\<close> in the time zone, and
  \<open>env_representable\<close> whether \<^verbatim>\<open>chrono\<close> has a date for an instant.\<close>

record ('s, 'tz, 'w) cron_env =
  env_cron_parse :: "string \<Rightarrow> string + 's"
  env_cron_next :: "'s \<Rightarrow> 'tz \<Rightarrow> int \<Rightarrow> int option"
  env_parse_duration :: "string \<Rightarrow> string + duration"
  env_parse_tz :: "string \<Rightarrow> 'tz option"
  env_representable :: "int \<Rightarrow> bool"
  env_utc_now :: "'w \<Rightarrow> int"
  env_now_ms :: "'w \<Rightarrow> int \<times> 'w"
  env_new_uuid :: "'w \<Rightarrow> uuid \<times> 'w"
  env_payload_from_json :: "string \<Rightarrow> string + inbound_message"
  env_map_from_json :: "string \<Rightarrow> json_map option"
  env_map_to_json :: "json_map \<Rightarrow> string option"
  env_publish :: "string \<Rightarrow> inbound_message envelope \<Rightarrow> 'w \<Rightarrow> (transport_error + unit) \<times> 'w"

section \<open>Schedules\<close>

datatype 's schedule_spec = CronSpec 's | Every duration

definition from_kind_expr :: "('s, 'tz, 'w) cron_env \<Rightarrow> cron_schedule_kind \<Rightarrow> string \<Rightarrow>
    cron_error + 's schedule_spec" where
  "from_kind_expr env kind expr =
     (case kind of
        CronKind \<Rightarrow> (case env_cron_parse env expr of
            Inl m \<Rightarrow> Err (InvalidSchedule m)
          | Inr s \<Rightarrow> Ok (CronSpec s))
      | EveryKind \<Rightarrow> (case env_parse_duration env expr of
            Inl m \<Rightarrow> Err (InvalidSchedule m)
          | Inr d \<Rightarrow>
              if d = 0 then Err (InvalidSchedule ''every duration must be greater than zero'')
              else Ok (Every d)))"

definition from_job :: "('s, 'tz, 'w) cron_env \<Rightarrow> cron_job \<Rightarrow> cron_error + 's schedule_spec" where
  "from_job env job = from_kind_expr env (schedule_kind job) (schedule_expr job)"

definition ms_to_utc :: "('s, 'tz, 'w) cron_env \<Rightarrow> 'w \<Rightarrow> int \<Rightarrow> int" where
  "ms_to_utc env w ms = (if env_representable env ms then ms else env_utc_now env w)"

definition parse_timezone :: "('s, 'tz, 'w) cron_env \<Rightarrow> string \<Rightarrow> cron_error + 'tz" where
  "parse_timezone env tz = ok_or (env_parse_tz env tz) (InvalidSchedule (''invalid timezone: '' @ tz))"

text \<open>\<^verbatim>\<open>interval.as_millis() as i64\<close> keeps the low 64 bits.\<close>

definition next_run_after_ms_in_timezone :: "('s, 'tz, 'w) cron_env \<Rightarrow> 'w \<Rightarrow> 's schedule_spec \<Rightarrow> int \<Rightarrow> string \<Rightarrow>
    cron_error + int" where
  "next_run_after_ms_in_timezone env w spec current tz =
     (case spec of
        Every interval \<Rightarrow> Ok (i64_sat_add current (i64_wrap (int (duration_as_millis interval))))
      | CronSpec s \<Rightarrow>
          and_then (parse_timezone env tz) (\<lambda>zone.
            ok_or (env_cron_next env s zone (ms_to_utc env w (i64_sat_add current 1)))
              (InvalidSchedule ''cron expression has no next run'')))"

definition compute_next_run_at_ms :: "('s, 'tz, 'w) cron_env \<Rightarrow> cron_schedule_kind \<Rightarrow> string \<Rightarrow> string \<Rightarrow> 'w \<Rightarrow>
    (cron_error + int) \<times> 'w" where
  "compute_next_run_at_ms env kind expr tz w =
     (case from_kind_expr env kind expr of
        Inl e \<Rightarrow> (Err e, w)
      | Inr spec \<Rightarrow> (let (now, w') = env_now_ms env w
                       in (next_run_after_ms_in_timezone env w' spec now tz, w')))"

section \<open>Sessions of a run\<close>

definition build_execution_session_key :: "string \<Rightarrow> string \<Rightarrow> string" where
  "build_execution_session_key job run = ''cron:'' @ job @ '':'' @ run"

definition persistable_metadata_keys :: "string list" where
  "persistable_metadata_keys =
     [''channel.base_session_key'', ''channel.delivery_session_key'',
      ''channel.dingtalk.session_webhook'', ''channel.dingtalk.bot_title'']"

definition persistable_session_delivery_metadata_json :: "('s, 'tz, 'w) cron_env \<Rightarrow> json_map \<Rightarrow> string option" where
  "persistable_session_delivery_metadata_json env metadata =
     (let m = filter (\<lambda>kv. fst kv \<in> set persistable_metadata_keys) metadata
      in if m = [] then None else env_map_to_json env m)"

text \<open>The two channels read their base session key in the same way.\<close>

definition infer_channel_base_session_key :: "string \<Rightarrow> string \<Rightarrow> string \<Rightarrow> string option" where
  "infer_channel_base_session_key chan key chat =
     (case split_char CHR '':'' key of
        c # a # _ \<Rightarrow>
          if trim c \<noteq> chan then None
          else if trim a = [] \<or> trim chat = [] then None
          else Some (chan @ '':'' @ trim a @ '':'' @ chat)
      | _ \<Rightarrow> None)"

definition infer_dingtalk_base_session_key :: "string \<Rightarrow> string \<Rightarrow> string option" where
  "infer_dingtalk_base_session_key = infer_channel_base_session_key ''dingtalk''"

definition infer_telegram_base_session_key :: "string \<Rightarrow> string \<Rightarrow> string option" where
  "infer_telegram_base_session_key = infer_channel_base_session_key ''telegram''"

definition infer_base_session_key :: "inbound_message \<Rightarrow> string option" where
  "infer_base_session_key msg =
     (case get_trimmed_str (in_metadata msg) ''cron.base_session_key'' of
        Some k \<Rightarrow> Some k
      | None \<Rightarrow>
          if in_channel msg = ''dingtalk'' then infer_dingtalk_base_session_key (in_session_key msg) (in_chat_id msg)
          else if in_channel msg = ''telegram'' then infer_telegram_base_session_key (in_session_key msg) (in_chat_id msg)
          else None)"

definition session_unavailable :: "string \<Rightarrow> session_table \<Rightarrow> bool" where
  "session_unavailable key t = (case get_session key t of Inl _ \<Rightarrow> True | Inr _ \<Rightarrow> False)"

definition resolve_delivery_session_key :: "inbound_message \<Rightarrow> session_table \<Rightarrow> string option" where
  "resolve_delivery_session_key msg t =
     (case infer_base_session_key msg of
        None \<Rightarrow> None
      | Some base \<Rightarrow>
          (case get_session base t of
             Inr s \<Rightarrow> option_filter (\<lambda>v. trim v \<noteq> []) (active_session_key s)
           | Inl _ \<Rightarrow> None))"

definition refresh_session_delivery_metadata :: "('s, 'tz, 'w) cron_env \<Rightarrow> string \<Rightarrow> session_table \<Rightarrow>
    inbound_message \<Rightarrow> inbound_message" where
  "refresh_session_delivery_metadata env key t msg =
     (case get_session key t of
        Inl _ \<Rightarrow> msg
      | Inr s \<Rightarrow>
          (case Option.bind (delivery_metadata_json s) (env_map_from_json env) of
             None \<Rightarrow> msg
           | Some m \<Rightarrow> msg\<lparr>in_metadata := bt_extend (in_metadata msg) m\<rparr>))"

section \<open>One run\<close>

datatype job_run_outcome = Published string | Skipped

record 'w cron_state =
  cron_database :: cron_db
  cron_sessions :: session_table
  cron_world :: 'w

definition read_clock :: "('s, 'tz, 'w) cron_env \<Rightarrow> 'w cron_state \<Rightarrow> int \<times> 'w cron_state" where
  "read_clock env st = (let (t, w) = env_now_ms env (cron_world st) in (t, st\<lparr>cron_world := w\<rparr>))"

definition fresh_uuid :: "('s, 'tz, 'w) cron_env \<Rightarrow> 'w cron_state \<Rightarrow> uuid \<times> 'w cron_state" where
  "fresh_uuid env st = (let (i, w) = env_new_uuid env (cron_world st) in (i, st\<lparr>cron_world := w\<rparr>))"

text \<open>The message of a run: the payload of the job moved to the session of the run, with the keys of
  the sessions it belongs to in its metadata and without a conversation of its own.\<close>

definition run_message :: "('s, 'tz, 'w) cron_env \<Rightarrow> cron_job \<Rightarrow> string \<Rightarrow> session_table \<Rightarrow> inbound_message \<Rightarrow>
    inbound_message" where
  "run_message env job run t msg =
     (let original = in_session_key msg;
          execution = build_execution_session_key (job_id job) run;
          base = infer_base_session_key msg;
          delivery = unwrap_or (resolve_delivery_session_key msg t) original;
          msg1 = refresh_session_delivery_metadata env delivery t msg;
          m1 = bt_extend (in_metadata msg1)
                 [(''cron_id'', JString (job_id job)),
                  (''cron.original_session_key'', JString original),
                  (''cron.resolved_session_key'', JString execution),
                  (''agent.conversation_history'', JArray [])];
          m2 = (case base of None \<Rightarrow> m1 | Some b \<Rightarrow> bt_insert ''channel.base_session_key'' (JString b) m1);
          m3 = bt_insert ''channel.delivery_session_key'' (JString delivery) m2
      in msg1\<lparr>in_session_key := execution, in_metadata := m3\<rparr>)"

text \<open>The session of the run is created and its delivery metadata stored.\<close>

definition prepare_run_session :: "('s, 'tz, 'w) cron_env \<Rightarrow> storage_paths \<Rightarrow> inbound_message \<Rightarrow> 'w cron_state \<Rightarrow>
    (cron_error + unit) \<times> 'w cron_state" where
  "prepare_run_session env paths msg st =
     (let (now, st1) = read_clock env st;
          (touched, t1) = touch_session paths now (in_session_key msg) (in_chat_id msg) (in_channel msg) (cron_sessions st1);
          st2 = st1\<lparr>cron_sessions := t1\<rparr>
      in case touched of
           Inl e \<Rightarrow> (Err (CronStorage e), st2)
         | Inr _ \<Rightarrow>
             (case persistable_session_delivery_metadata_json env (in_metadata msg) of
                None \<Rightarrow> (Ok (), st2)
              | Some meta \<Rightarrow>
                  (let (now', st3) = read_clock env st2;
                       (stored, t2) = set_delivery_metadata now' (in_session_key msg) (in_chat_id msg)
                          (in_channel msg) (Some meta) (cron_sessions st3);
                       st4 = st3\<lparr>cron_sessions := t2\<rparr>
                   in case stored of Inl e \<Rightarrow> (Err (CronStorage e), st4) | Inr _ \<Rightarrow> (Ok (), st4))))"

definition send_run_message :: "('s, 'tz, 'w) cron_env \<Rightarrow> inbound_message \<Rightarrow> 'w cron_state \<Rightarrow>
    (cron_error + job_run_outcome) \<times> 'w cron_state" where
  "send_run_message env msg st =
     (let (mid, st1) = fresh_uuid env st;
          (tid, st2) = fresh_uuid env st1;
          (now, st3) = read_clock env st2;
          envelope = \<lparr>header = new_header mid tid now (in_session_key msg), env_metadata = [], payload = msg\<rparr>;
          (sent, w) = env_publish env (topic_as_str InboundTopic) envelope (cron_world st3);
          st4 = st3\<lparr>cron_world := w\<rparr>
      in case sent of Inl e \<Rightarrow> (Err (CronTransport e), st4) | Inr _ \<Rightarrow> (Ok (Published mid), st4))"

definition publish_inbound :: "('s, 'tz, 'w) cron_env \<Rightarrow> storage_paths \<Rightarrow> cron_job \<Rightarrow> string \<Rightarrow> 'w cron_state \<Rightarrow>
    (cron_error + job_run_outcome) \<times> 'w cron_state" where
  "publish_inbound env paths job run st =
     (case env_payload_from_json env (payload_json job) of
        Inl e \<Rightarrow> (Err (InvalidPayload e), st)
      | Inr msg \<Rightarrow>
          if (case infer_base_session_key msg of None \<Rightarrow> False | Some b \<Rightarrow> session_unavailable b (cron_sessions st))
          then (Ok Skipped, st)
          else let msg' = run_message env job run (cron_sessions st) msg
               in case prepare_run_session env paths msg' st of
                    (Inl e, st1) \<Rightarrow> (Err e, st1)
                  | (Inr _, st1) \<Rightarrow> send_run_message env msg' st1)"

text \<open>The row written at the end of a run: its status, error message and message identifier.\<close>

fun task_result_of :: "cron_error + job_run_outcome \<Rightarrow> cron_task_status \<times> string option \<times> string option" where
  "task_result_of (Inr (Published mid)) = (TaskSuccess, None, Some mid)"
| "task_result_of (Inr Skipped) = (TaskSuccess, Some ''skipped because session is unavailable'', None)"
| "task_result_of (Inl e) = (TaskFailed, Some (cron_error_to_string e), None)"

definition execute_job_run :: "('s, 'tz, 'w) cron_env \<Rightarrow> storage_paths \<Rightarrow> cron_job \<Rightarrow> int \<Rightarrow> 'w cron_state \<Rightarrow>
    (cron_error + job_run_outcome) \<times> 'w cron_state" where
  "execute_job_run env paths job scheduled st =
     (let (run, st1) = fresh_uuid env st;
          (created, st2) = read_clock env st1;
          (appended, db) = append_task_run run (job_id job) scheduled TaskPending 0 created (cron_database st2)
      in case appended of
           Inl e \<Rightarrow> (Err (CronStorage e), st2)
         | Inr _ \<Rightarrow>
             (let st3 = st2\<lparr>cron_database := db\<rparr>;
                  (started, st4) = read_clock env st3;
                  st5 = st4\<lparr>cron_database := mark_task_running run started (cron_database st4)\<rparr>;
                  (outcome, st6) = publish_inbound env paths job run st5;
                  (finished, st7) = read_clock env st6;
                  (status, err, mid) = task_result_of outcome
              in (outcome, st7\<lparr>cron_database := mark_task_result run status finished err mid (cron_database st7)\<rparr>)))"

section \<open>The worker\<close>

datatype missed_run_policy = Skip | CatchUp

record cron_worker_config =
  poll_interval :: duration
  batch_limit :: int
  missed_run_policy :: missed_run_policy

definition default_worker_config :: cron_worker_config where
  "default_worker_config = \<lparr>poll_interval = 1000000000, batch_limit = 64, missed_run_policy = Skip\<rparr>"

text \<open>The time of the run after this one, as the loop body computes it.\<close>

definition next_run_of :: "('s, 'tz, 'w) cron_env \<Rightarrow> missed_run_policy \<Rightarrow> int \<Rightarrow> 'w \<Rightarrow> cron_job \<Rightarrow> cron_error + int" where
  "next_run_of env policy now w job =
     and_then (from_job env job) (\<lambda>spec.
       next_run_after_ms_in_timezone env w spec
         (case policy of Skip \<Rightarrow> now | CatchUp \<Rightarrow> next_run_at_ms job) (timezone job))"

text \<open>The loop over the due jobs; \<open>executed\<close> counts the published runs.\<close>

fun tick_jobs :: "('s, 'tz, 'w) cron_env \<Rightarrow> storage_paths \<Rightarrow> missed_run_policy \<Rightarrow> int \<Rightarrow> cron_job list \<Rightarrow> nat \<Rightarrow>
    'w cron_state \<Rightarrow> (cron_error + nat) \<times> 'w cron_state" where
  "tick_jobs env paths policy now [] executed st = (Ok executed, st)"
| "tick_jobs env paths policy now (job # jobs) executed st =
     (case next_run_of env policy now (cron_world st) job of
        Inl e \<Rightarrow> (Err e, st)
      | Inr next_run \<Rightarrow>
          (case claim_next_run (job_id job) (next_run_at_ms job) next_run now (cron_database st) of
             (False, _) \<Rightarrow> tick_jobs env paths policy now jobs executed st
           | (True, db) \<Rightarrow>
               (case execute_job_run env paths job (next_run_at_ms job) (st\<lparr>cron_database := db\<rparr>) of
                  (Inr (Published _), st') \<Rightarrow> tick_jobs env paths policy now jobs (Suc executed) st'
                | (_, st') \<Rightarrow> tick_jobs env paths policy now jobs executed st')))"

definition run_tick :: "('s, 'tz, 'w) cron_env \<Rightarrow> storage_paths \<Rightarrow> cron_worker_config \<Rightarrow> 'w cron_state \<Rightarrow>
    (cron_error + nat) \<times> 'w cron_state" where
  "run_tick env paths config st =
     (let (now, st1) = read_clock env st
      in tick_jobs env paths (missed_run_policy config) now
           (list_due_crons now (batch_limit config) (cron_database st1)) 0 st1)"

definition run_job_now :: "('s, 'tz, 'w) cron_env \<Rightarrow> storage_paths \<Rightarrow> string \<Rightarrow> 'w cron_state \<Rightarrow>
    (cron_error + string) \<times> 'w cron_state" where
  "run_job_now env paths i st =
     (case get_cron i (cron_database st) of
        Inl e \<Rightarrow> (Err (CronStorage e), st)
      | Inr job \<Rightarrow>
          (let (now, st1) = read_clock env st
           in case execute_job_run env paths job now st1 of
                (Inl e, st2) \<Rightarrow> (Err e, st2)
              | (Inr (Published mid), st2) \<Rightarrow> (Ok mid, st2)
              | (Inr Skipped, st2) \<Rightarrow> (Ok [], st2)))"

end
