(* ===== verification/Slot_Claims.thy ===== *)
theory Slot_Claims
  imports Klaw_Prelude
begin

text \<open>
  The compare-and-set protocol by which the cron and heartbeat workers share their tables: a job has
  a slot, the time of its next run, and a claim that names the slot moves it on. The interface is
  the locale \<open>slot_claims\<close>; what follows from it for a log of granted claims is proved here once.
\<close>

text \<open>No claim is logged twice, and the slots of the jobs are past their logged claims.\<close>

definition claims_ok :: "('db \<Rightarrow> string \<Rightarrow> int option) \<Rightarrow> (string \<times> int) list \<Rightarrow> 'db \<Rightarrow> bool" where
  "claims_ok slot runs db \<longleftrightarrow>
     distinct runs \<and> (\<forall>i e s. (i, e) \<in> set runs \<longrightarrow> slot db i = Some s \<longrightarrow> e < s)"

text \<open>A change that moves no slot back, except that of a job that never ran.\<close>

definition slots_kept :: "('db \<Rightarrow> string \<Rightarrow> int option) \<Rightarrow> (string \<times> int) list \<Rightarrow> 'db \<Rightarrow> 'db \<Rightarrow> bool" where
  "slots_kept slot runs db db' \<longleftrightarrow>
     (\<forall>i s'. slot db' i = Some s' \<longrightarrow> i \<notin> fst ` set runs \<or> (\<exists>s. slot db i = Some s \<and> s \<le> s'))"

lemma claims_ok_start [simp]: "claims_ok slot [] db"
  by (simp add: claims_ok_def)

lemma claims_ok_distinct: "claims_ok slot runs db \<Longrightarrow> distinct runs"
  by (simp add: claims_ok_def)

lemma claims_ok_other:
  assumes "claims_ok slot runs db" and "slots_kept slot runs db db'"
  shows "claims_ok slot runs db'"
  unfolding claims_ok_def
proof (intro conjI allI impI)
  fix i e s' assume run: "(i, e) \<in> set runs" and "slot db' i = Some s'"
  then obtain s where "slot db i = Some s" "s \<le> s'"
    using assms(2) unfolding slots_kept_def by (metis fst_conv image_eqI)
  then show "e < s'" using assms(1) run by (fastforce simp: claims_ok_def)
qed (use assms(1) in \<open>simp add: claims_ok_def\<close>)

lemma slots_kept_same: "(\<And>i. slot db' i = slot db i \<or> slot db' i = None) \<Longrightarrow> slots_kept slot runs db db'"
  unfolding slots_kept_def by (metis option.distinct(1) order_refl)

locale slot_claims =
  fixes slot :: "'db \<Rightarrow> string \<Rightarrow> int option"
    and claim :: "string \<Rightarrow> int \<Rightarrow> int \<Rightarrow> int \<Rightarrow> 'db \<Rightarrow> bool \<times> 'db"
  assumes granted_slot: "claim i e n t db = (True, db') \<Longrightarrow> slot db i = Some e"
    and granted_moves: "claim i e n t db = (True, db') \<Longrightarrow> slot db' k = (if k = i then Some n else slot db k)"
    and refused_keeps: "claim i e n t db = (False, db') \<Longrightarrow> db' = db"
begin

lemma claims_ok_granted:
  assumes ok: "claims_ok slot runs db" and claim: "claim i e n t db = (True, db')" and "e < n"
  shows "claims_ok slot ((i, e) # runs) db'"
proof -
  have before: "e' < e" if "(i, e') \<in> set runs" for e'
    using ok that granted_slot [OF claim] by (auto simp: claims_ok_def)
  have "slots_kept slot runs db db'"
    using granted_moves [OF claim] granted_slot [OF claim] \<open>e < n\<close> by (auto simp: slots_kept_def)
  then have "claims_ok slot runs db'" by (rule claims_ok_other [OF ok])
  then show ?thesis
    using before granted_moves [OF claim] \<open>e < n\<close> by (fastforce simp: claims_ok_def)
qed

lemma second_claim_refused:
  "claim i e n t db = (True, db') \<Longrightarrow> e \<noteq> n \<Longrightarrow> \<not> fst (claim i e n' t' db')"
  using granted_moves [of i e n t db db' i] granted_slot [of i e n' t' db']
  by (metis (full_types) eq_fst_iff option.inject)

end

end
