(* ===== verification/Cron_Claims.thy ===== *)
theory Cron_Claims
  imports Cron_Worker Slot_Claims
begin

text \<open>
  The claims of cron workers: when schedules advance, that concurrent workers run every slot of a job at most
  once, and how an update that overlaps a claim breaks that.
\<close>

section \<open>Schedules that advance\<close>

lemma every_next_run:
  "next_run_after_ms_in_timezone env w (Every d) current tz =
     Ok (i64_sat_add current (i64_wrap (int (duration_as_millis d))))"
  by (simp add: next_run_after_ms_in_timezone_def)

lemma every_advances:
  assumes "1 \<le> int (duration_as_millis d)" and "i64_min \<le> t" and "t + int (duration_as_millis d) \<le> i64_max"
    and "int (duration_as_millis d) \<le> i64_max"
    and "next_run_after_ms_in_timezone env w (Every d) t tz = Ok n"
  shows "n = t + int (duration_as_millis d)"
proof -
  have "i64_range (int (duration_as_millis d))" "i64_range (t + int (duration_as_millis d))"
    using assms by (simp_all add: i64_range_def i64_min_def)
  then show ?thesis
    using assms(5) by (simp add: every_next_run i64_wrap_id i64_sat_add_def i64_sat_id)
qed

text \<open>The slot of a job as the worker sees it, whatever its stored time.\<close>

definition job_advances :: "('s, 'tz, 'w) cron_env \<Rightarrow> missed_run_policy \<Rightarrow> int \<Rightarrow> cron_job \<Rightarrow> bool" where
  "job_advances env policy horizon job \<longleftrightarrow>
     (\<forall>now w slot n. slot \<le> now \<longrightarrow> now \<le> horizon \<longrightarrow>
        next_run_of env policy now w (job\<lparr>next_run_at_ms := slot\<rparr>) = Ok n \<longrightarrow> slot < n)"

lemma job_advancesD:
  "job_advances env policy horizon job \<Longrightarrow> next_run_at_ms job \<le> now \<Longrightarrow> now \<le> horizon \<Longrightarrow>
   next_run_of env policy now w job = Ok n \<Longrightarrow> next_run_at_ms job < n"
  unfolding job_advances_def by (drule spec [of _ now]) (auto dest: spec [of _ "next_run_at_ms job"])

lemma job_advances_same_schedule:
  assumes "schedule_kind j = schedule_kind job" "schedule_expr j = schedule_expr job" "timezone j = timezone job"
    and "job_advances env policy horizon job"
  shows "job_advances env policy horizon j"
proof -
  have "next_run_of env policy now w (j\<lparr>next_run_at_ms := slot\<rparr>) =
        next_run_of env policy now w (job\<lparr>next_run_at_ms := slot\<rparr>)" for now w slot
    using assms(1-3) by (cases policy) (simp_all add: next_run_of_def from_job_def)
  then show ?thesis using assms(4) by (simp add: job_advances_def)
qed

section \<open>Concurrent workers\<close>

text \<open>Several workers on one database. A worker reads the clock and the due jobs, then goes on
  through that list: for each job the next run is computed and claimed. The claims that were granted
  are logged. Between any two steps other workers step, jobs are created under fresh identifiers,
  enabled, disabled or deleted.\<close>

record cron_sys =
  sys_db :: cron_db
  sys_pending :: "nat \<Rightarrow> int \<times> cron_job list"
  sys_runs :: "(string \<times> int) list"

inductive cron_sys_step :: "('s, 'tz, 'w) cron_env \<Rightarrow> missed_run_policy \<Rightarrow> int \<Rightarrow> int \<Rightarrow> cron_sys \<Rightarrow> cron_sys \<Rightarrow> bool"
  for env :: "('s, 'tz, 'w) cron_env" and policy :: missed_run_policy and limit :: int and horizon :: int where
  tick: "now \<le> horizon \<Longrightarrow>
    cron_sys_step env policy limit horizon s
      (s\<lparr>sys_pending := (sys_pending s)(w := (now, list_due_crons now limit (sys_db s)))\<rparr>)"
| claimed: "sys_pending s w = (now, job # jobs) \<Longrightarrow>
    next_run_of env policy now world job = Ok n \<Longrightarrow>
    claim_next_run (job_id job) (next_run_at_ms job) n now (sys_db s) = (True, db') \<Longrightarrow>
    cron_sys_step env policy limit horizon s
      (s\<lparr>sys_db := db', sys_pending := (sys_pending s)(w := (now, jobs)),
        sys_runs := (job_id job, next_run_at_ms job) # sys_runs s\<rparr>)"
| lost: "sys_pending s w = (now, job # jobs) \<Longrightarrow>
    next_run_of env policy now world job = Ok n \<Longrightarrow>
    claim_next_run (job_id job) (next_run_at_ms job) n now (sys_db s) = (False, db') \<Longrightarrow>
    cron_sys_step env policy limit horizon s (s\<lparr>sys_pending := (sys_pending s)(w := (now, jobs))\<rparr>)"
| aborted: "sys_pending s w = (now, job # jobs) \<Longrightarrow>
    next_run_of env policy now world job = Err e \<Longrightarrow>
    cron_sys_step env policy limit horizon s (s\<lparr>sys_pending := (sys_pending s)(w := (now, []))\<rparr>)"
| created: "create_cron now input (sys_db s) = (r, db') \<Longrightarrow>
    new_job_id input \<notin> fst ` set (sys_runs s) \<Longrightarrow>
    (\<forall>job. r = Ok job \<longrightarrow> job_advances env policy horizon job) \<Longrightarrow>
    cron_sys_step env policy limit horizon s (s\<lparr>sys_db := db'\<rparr>)"
| toggled: "cron_sys_step env policy limit horizon s (s\<lparr>sys_db := snd (set_enabled now i flag (sys_db s))\<rparr>)"
| deleted: "cron_sys_step env policy limit horizon s (s\<lparr>sys_db := snd (delete_cron i (sys_db s))\<rparr>)"

inductive cron_sys_reachable :: "('s, 'tz, 'w) cron_env \<Rightarrow> missed_run_policy \<Rightarrow> int \<Rightarrow> int \<Rightarrow> cron_db \<Rightarrow> cron_sys \<Rightarrow> bool"
  for env :: "('s, 'tz, 'w) cron_env" and policy :: missed_run_policy and limit :: int and horizon :: int and db :: cron_db where
  start: "cron_sys_reachable env policy limit horizon db \<lparr>sys_db = db, sys_pending = (\<lambda>_. (0, [])), sys_runs = []\<rparr>"
| step: "cron_sys_reachable env policy limit horizon db s \<Longrightarrow> cron_sys_step env policy limit horizon s s' \<Longrightarrow>
    cron_sys_reachable env policy limit horizon db s'"

definition cron_ok :: "cron_db \<Rightarrow> bool" where
  "cron_ok db \<longleftrightarrow> keyed_by job_id (cron_table db)"

definition cron_slot :: "cron_db \<Rightarrow> string \<Rightarrow> int option" where
  "cron_slot db i = map_option next_run_at_ms (bt_get (cron_table db) i)"

interpretation cron_claims: slot_claims cron_slot claim_next_run
  by unfold_locales (auto simp: claim_next_run_def cron_slot_def split: option.splits if_splits)

definition cron_sys_ok :: "('s, 'tz, 'w) cron_env \<Rightarrow> missed_run_policy \<Rightarrow> int \<Rightarrow> cron_sys \<Rightarrow> bool" where
  "cron_sys_ok env policy horizon s \<longleftrightarrow>
     cron_ok (sys_db s) \<and>
     (\<forall>i job. bt_get (cron_table (sys_db s)) i = Some job \<longrightarrow> job_advances env policy horizon job) \<and>
     (\<forall>w. fst (sys_pending s w) \<le> horizon \<or> snd (sys_pending s w) = []) \<and>
     (\<forall>w job. job \<in> set (snd (sys_pending s w)) \<longrightarrow>
        job_advances env policy horizon job \<and> next_run_at_ms job \<le> fst (sys_pending s w)) \<and>
     claims_ok cron_slot (sys_runs s) (sys_db s)"

lemma cron_ok_get: "cron_ok db \<Longrightarrow> bt_get (cron_table db) i = Some job \<Longrightarrow> job_id job = i"
  by (auto simp: cron_ok_def dest: keyed_by_get)

lemma cron_ok_insert:
  "cron_ok db \<Longrightarrow> job_id job = i \<Longrightarrow> cron_ok (db\<lparr>cron_table := bt_insert i job (cron_table db)\<rparr>)"
  by (simp add: cron_ok_def keyed_by_insert)

lemma cron_ok_remove: "cron_ok db \<Longrightarrow> cron_ok (db\<lparr>cron_table := bt_remove i (cron_table db)\<rparr>)"
  by (simp add: cron_ok_def keyed_by_remove)

lemma list_due_in_table:
  "cron_ok db \<Longrightarrow> job \<in> set (list_due_crons now limit db) \<Longrightarrow>
   bt_get (cron_table db) (job_id job) = Some job \<and> is_due now job"
  unfolding cron_ok_def list_due_crons_def by (rule query_in_table)

lemma claim_True_cases:
  assumes "claim_next_run i expected new now db = (True, db')"
  obtains job where "bt_get (cron_table db) i = Some job" "enabled job" "next_run_at_ms job = expected"
    and "db' = db\<lparr>cron_table := bt_insert i
           (job\<lparr>next_run_at_ms := new, last_run_at_ms := Some expected, job_updated_at_ms := now\<rparr>) (cron_table db)\<rparr>"
  using assms by (auto simp: claim_next_run_def split: option.splits if_splits)

lemma claim_keeps_job:
  "bt_get (cron_table db) i = Some job \<Longrightarrow> enabled job \<Longrightarrow>
   claim_next_run i (next_run_at_ms job) new now db =
     (True, db\<lparr>cron_table := bt_insert i
       (job\<lparr>next_run_at_ms := new, last_run_at_ms := Some (next_run_at_ms job), job_updated_at_ms := now\<rparr>) (cron_table db)\<rparr>)"
  by (simp add: claim_next_run_def)

lemma ok_tick:
  assumes ok: "cron_sys_ok env policy horizon s" and now: "now \<le> horizon"
  shows "cron_sys_ok env policy horizon
           (s\<lparr>sys_pending := (sys_pending s)(w := (now, list_due_crons now limit (sys_db s)))\<rparr>)"
proof -
  have db: "cron_ok (sys_db s)"
    and adv: "\<And>i job. bt_get (cron_table (sys_db s)) i = Some job \<Longrightarrow> job_advances env policy horizon job"
    using ok by (simp_all add: cron_sys_ok_def)
  have "job_advances env policy horizon job \<and> next_run_at_ms job \<le> now"
    if "job \<in> set (list_due_crons now limit (sys_db s))" for job
    using list_due_in_table [OF db that] adv by (auto simp: is_due_def)
  then show ?thesis using ok now by (simp add: cron_sys_ok_def)
qed

lemma ok_pending_tail:
  assumes ok: "cron_sys_ok env policy horizon s" and pending: "sys_pending s w = (now, jobs)"
    and "set jobs' \<subseteq> set jobs"
  shows "cron_sys_ok env policy horizon (s\<lparr>sys_pending := (sys_pending s)(w := (now, jobs'))\<rparr>)"
proof -
  have "now \<le> horizon \<or> jobs = []" using ok pending by (metis cron_sys_ok_def fst_conv snd_conv)
  moreover have "job_advances env policy horizon job \<and> next_run_at_ms job \<le> now" if "job \<in> set jobs'" for job
    using ok pending that assms(3) unfolding cron_sys_ok_def by (metis fst_conv snd_conv subsetD)
  ultimately show ?thesis using ok assms(3) by (auto simp: cron_sys_ok_def)
qed

text \<open>Any change of the table that keeps the schedules of the jobs and does not take their next run
  back keeps the invariant.\<close>

lemma ok_db:
  assumes ok: "cron_sys_ok env policy horizon s" and db: "cron_ok db'"
    and adv: "\<And>i job. bt_get (cron_table db') i = Some job \<Longrightarrow> job_advances env policy horizon job"
    and kept: "slots_kept cron_slot (sys_runs s) (sys_db s) db'"
  shows "cron_sys_ok env policy horizon (s\<lparr>sys_db := db'\<rparr>)"
  using ok db adv claims_ok_other [OF _ kept] by (simp add: cron_sys_ok_def)

lemma ok_pending_job:
  assumes ok: "cron_sys_ok env policy horizon s" and pending: "sys_pending s w = (now, job # jobs)"
  shows "now \<le> horizon" and "job_advances env policy horizon job" and "next_run_at_ms job \<le> now"
proof -
  have "job \<in> set (snd (sys_pending s w))" "snd (sys_pending s w) \<noteq> []" "fst (sys_pending s w) = now"
    using pending by simp_all
  then show "now \<le> horizon" "job_advances env policy horizon job" "next_run_at_ms job \<le> now"
    using ok unfolding cron_sys_ok_def by blast+
qed

lemma ok_claim:
  assumes ok: "cron_sys_ok env policy horizon s" and pending: "sys_pending s w = (now, job # jobs)"
    and "next": "next_run_of env policy now world job = Ok n"
    and claim: "claim_next_run (job_id job) (next_run_at_ms job) n now (sys_db s) = (True, db')"
  shows "cron_sys_ok env policy horizon
           (s\<lparr>sys_db := db', sys_pending := (sys_pending s)(w := (now, jobs)),
             sys_runs := (job_id job, next_run_at_ms job) # sys_runs s\<rparr>)"
proof -
  let ?i = "job_id job" and ?slot = "next_run_at_ms job"
  note job = ok_pending_job [OF ok pending]
  have slot: "?slot < n" by (rule job_advancesD [OF job(2,3,1) "next"])
  have claims: "claims_ok cron_slot ((?i, ?slot) # sys_runs s) db'"
    using ok cron_claims.claims_ok_granted [OF _ claim slot] by (simp add: cron_sys_ok_def)
  obtain row where row: "bt_get (cron_table (sys_db s)) ?i = Some row"
    and db': "db' = (sys_db s)\<lparr>cron_table := bt_insert ?i (row\<lparr>next_run_at_ms := n, last_run_at_ms := Some ?slot,
      job_updated_at_ms := now\<rparr>) (cron_table (sys_db s))\<rparr>"
    using claim by (elim claim_True_cases) metis
  have "cron_ok db'"
    unfolding db' using ok row by (intro cron_ok_insert) (auto simp: cron_sys_ok_def dest: cron_ok_get)
  moreover have "job_advances env policy horizon j" if "bt_get (cron_table db') i = Some j" for i j
    using that ok row job_advances_same_schedule [of j row env policy horizon]
    unfolding db' cron_sys_ok_def by (auto split: if_splits)
  moreover have "cron_sys_ok env policy horizon (s\<lparr>sys_pending := (sys_pending s)(w := (now, jobs))\<rparr>)"
    using ok_pending_tail [OF ok pending, of jobs] by auto
  ultimately show ?thesis using claims by (simp add: cron_sys_ok_def)
qed

lemma create_job_cases:
  assumes "create_cron now input db = (r, db')"
  obtains "db' = db" | job where "r = Ok job" "bt_get (cron_table db) (new_job_id input) = None"
    "job_id job = new_job_id input"
    "db' = db\<lparr>cron_table := bt_insert (new_job_id input) job (cron_table db)\<rparr>"
  using assms by (auto simp: create_cron_def get_cron_def bt_contains_def Let_def split: if_splits)

lemma ok_step:
  assumes "cron_sys_step env policy limit horizon s s'" and ok: "cron_sys_ok env policy horizon s"
  shows "cron_sys_ok env policy horizon s'"
  using assms(1)
proof cases
  case (tick now w)
  then show ?thesis using ok_tick [OF ok] by simp
next
  case (claimed w now job jobs world n db')
  then show ?thesis using ok_claim [OF ok] by simp
next
  case (lost w now job jobs world n db')
  then show ?thesis using ok_pending_tail [OF ok lost(2), of jobs] by auto
next
  case (aborted w now job jobs world e)
  then show ?thesis using ok_pending_tail [OF ok aborted(2), of "[]"] by auto
next
  case (created now input r db')
  have parts: "cron_ok (sys_db s)"
    "\<And>i job. bt_get (cron_table (sys_db s)) i = Some job \<Longrightarrow> job_advances env policy horizon job"
    using ok by (simp_all add: cron_sys_ok_def)
  show ?thesis unfolding created(1)
    using created(2)
  proof (cases rule: create_job_cases)
    case 1
    then show "cron_sys_ok env policy horizon (s\<lparr>sys_db := db'\<rparr>)" using ok by simp
  next
    case (2 job)
    show "cron_sys_ok env policy horizon (s\<lparr>sys_db := db'\<rparr>)"
      unfolding 2(4)
    proof (rule ok_db [OF ok])
      show "cron_ok ((sys_db s)\<lparr>cron_table := bt_insert (new_job_id input) job (cron_table (sys_db s))\<rparr>)"
        using parts(1) 2(3) by (rule cron_ok_insert)
    qed (use parts created(3,4) 2(1) in \<open>auto simp: slots_kept_def cron_slot_def split: if_splits\<close>)
  qed
next
  case (toggled now i flag)
  have same: "cron_slot (snd (set_enabled now i flag (sys_db s))) k = cron_slot (sys_db s) k" for k
    by (auto simp: set_enabled_def update_job_row_def cron_slot_def split: option.splits)
  show ?thesis unfolding toggled
  proof (rule ok_db [OF ok _ _ slots_kept_same])
    show "cron_ok (snd (set_enabled now i flag (sys_db s)))"
      using ok by (auto simp: set_enabled_def update_job_row_def cron_sys_ok_def split: option.splits
          intro!: cron_ok_insert dest: cron_ok_get)
  next
    fix k j assume "bt_get (cron_table (snd (set_enabled now i flag (sys_db s)))) k = Some j"
    then obtain job where job: "bt_get (cron_table (sys_db s)) k = Some job"
      "schedule_kind j = schedule_kind job" "schedule_expr j = schedule_expr job" "timezone j = timezone job"
      by (auto simp: set_enabled_def update_job_row_def split: option.splits if_splits)
    then show "job_advances env policy horizon j"
      using ok job_advances_same_schedule [of j job] unfolding cron_sys_ok_def by metis
  qed (simp add: same)
next
  case (deleted i)
  show ?thesis unfolding deleted
    by (rule ok_db [OF ok _ _ slots_kept_same])
       (use ok in \<open>auto simp: delete_cron_def cron_sys_ok_def cron_ok_remove cron_slot_def split: if_splits\<close>)
qed

lemma reachable_ok:
  assumes "cron_sys_reachable env policy limit horizon db s" and "cron_ok db"
    and "\<And>i job. bt_get (cron_table db) i = Some job \<Longrightarrow> job_advances env policy horizon job"
  shows "cron_sys_ok env policy horizon s"
  using assms(1)
proof induction
  case start
  then show ?case using assms(2,3) by (simp add: cron_sys_ok_def)
next
  case (step s s')
  then show ?case using ok_step by blast
qed

section \<open>Properties\<close>


text \<open>A sample: every duration is one second, and a cron expression has no next run.\<close>

definition sample_env :: "(unit, unit, int) cron_env" where
  "sample_env =
     \<lparr>env_cron_parse = (\<lambda>_. Inr ()), env_cron_next = (\<lambda>_ _ _. None),
      env_parse_duration = (\<lambda>e. if e = ''1s'' then Inr 1000000000 else if e = ''1us'' then Inr 1000 else Inl ''invalid duration''),
      env_parse_tz = (\<lambda>_. Some ()), env_representable = (\<lambda>_. True), env_utc_now = (\<lambda>w. w),
      env_now_ms = (\<lambda>w. (w, w)), env_new_uuid = (\<lambda>w. (show_int w, w + 1)),
      env_payload_from_json = (\<lambda>p. if p = ''msg''
        then Inr \<lparr>in_channel = ''web'', sender_id = ''u'', in_chat_id = ''c'', in_session_key = ''web:1'',
                  in_content = ''go'', media_references = [], in_metadata = []\<rparr>
        else Inl ''expected value''),
      env_map_from_json = (\<lambda>_. None), env_map_to_json = (\<lambda>_. None),
      env_publish = (\<lambda>_ _ w. (Inr (), w))\<rparr>"

definition sample_job :: "string \<Rightarrow> string \<Rightarrow> string \<Rightarrow> int \<Rightarrow> cron_job" where
  "sample_job i every p slot =
     \<lparr>job_id = i, job_name = ''j'', schedule_kind = EveryKind, schedule_expr = every, payload_json = p,
      enabled = True, timezone = ''UTC'', next_run_at_ms = slot, last_run_at_ms = None,
      job_created_at_ms = 0, job_updated_at_ms = 0\<rparr>"

definition sample_cron_db :: cron_db where
  "sample_cron_db = \<lparr>cron_table = [(''a'', sample_job ''a'' ''1s'' ''msg'' 5)], cron_tasks = []\<rparr>"

lemma sample_next_run:
  "0 \<le> now \<Longrightarrow> now \<le> 1000000 \<Longrightarrow> next_run_of sample_env Skip now w (sample_job i ''1s'' p t) = Ok (now + 1000)"
  by (simp add: next_run_of_def from_job_def from_kind_expr_def sample_env_def sample_job_def every_next_run
      duration_as_millis_def i64_sat_add_def i64_sat_def i64_wrap_def i64_min_def i64_max_def)

lemma sample_job_advances: "job_advances sample_env Skip 1000000 (sample_job i ''1s'' p t)"
proof -
  have "slot < n" if "next_run_of sample_env Skip now w (sample_job i ''1s'' p t\<lparr>next_run_at_ms := slot\<rparr>) = Ok n"
    "slot \<le> now" "now \<le> 1000000" for now w slot n
    using that
    by (simp add: next_run_of_def from_job_def from_kind_expr_def sample_env_def sample_job_def every_next_run
        duration_as_millis_def i64_sat_add_def i64_sat_def i64_wrap_def i64_min_def i64_max_def split: if_splits)
  then show ?thesis unfolding job_advances_def by blast
qed

text \<open>Two workers see the same due job; one of them gets the slot.\<close>

definition sample_sys :: cron_sys where
  "sample_sys = \<lparr>sys_db = snd (claim_next_run ''a'' 5 1007 7 sample_cron_db),
     sys_pending = (\<lambda>_. (0, []))(0 := (7, [sample_job ''a'' ''1s'' ''msg'' 5]), 1 := (7, [sample_job ''a'' ''1s'' ''msg'' 5]),
        0 := (7, []), 1 := (7, [])),
     sys_runs = [(''a'', 5)]\<rparr>"

lemma sample_sys_reachable:
  "cron_sys_reachable sample_env Skip 64 1000000 sample_cron_db sample_sys"
proof -
  let ?job = "sample_job ''a'' ''1s'' ''msg'' 5"
  let ?s0 = "\<lparr>sys_db = sample_cron_db, sys_pending = (\<lambda>_. (0, [])), sys_runs = []\<rparr>"
  let ?s1 = "?s0\<lparr>sys_pending := (sys_pending ?s0)(0 := (7, list_due_crons 7 64 (sys_db ?s0)))\<rparr>"
  let ?s2 = "?s1\<lparr>sys_pending := (sys_pending ?s1)(1 := (7, list_due_crons 7 64 (sys_db ?s1)))\<rparr>"
  let ?db = "snd (claim_next_run ''a'' 5 1007 7 sample_cron_db)"
  let ?s3 = "?s2\<lparr>sys_db := ?db, sys_pending := (sys_pending ?s2)(0 := (7, [])), sys_runs := (''a'', 5) # sys_runs ?s2\<rparr>"
  have due: "list_due_crons 7 64 sample_cron_db = [?job]" by code_simp
  have "next": "next_run_of sample_env Skip 7 0 ?job = Ok 1007"
    using sample_next_run [of 7 0 "''a''" "''msg''" 5] by simp
  have claim: "claim_next_run ''a'' 5 1007 7 sample_cron_db = (True, ?db)"
    "claim_next_run ''a'' 5 1007 7 ?db = (False, ?db)" by code_simp+
  have s1: "cron_sys_reachable sample_env Skip 64 1000000 sample_cron_db ?s1"
    by (rule cron_sys_reachable.step [OF cron_sys_reachable.start]) (rule cron_sys_step.tick, simp)
  have s2: "cron_sys_reachable sample_env Skip 64 1000000 sample_cron_db ?s2"
    by (rule cron_sys_reachable.step [OF s1]) (rule cron_sys_step.tick, simp)
  have s3: "cron_sys_reachable sample_env Skip 64 1000000 sample_cron_db ?s3"
    using cron_sys_step.claimed [of ?s2 0 7 ?job "[]" sample_env Skip 0 1007 ?db 64 1000000] due "next" claim(1)
    by (intro cron_sys_reachable.step [OF s2]) (simp add: sample_job_def)
  have "cron_sys_reachable sample_env Skip 64 1000000 sample_cron_db
      (?s3\<lparr>sys_pending := (sys_pending ?s3)(1 := (7, []))\<rparr>)"
    using cron_sys_step.lost [of ?s3 1 7 ?job "[]" sample_env Skip 0 1007 ?db 64 1000000] due "next" claim(2)
    by (intro cron_sys_reachable.step [OF s3]) (simp add: sample_job_def)
  then show ?thesis by (simp add: sample_sys_def due)
qed


text \<open>An update of a job that overlaps a claim takes the claim back. The update reads the row,
  a worker claims the slot and runs it, then the update writes the row with the next run it had read,
  although its patch only renames the job: the same slot is granted to a worker a second time.\<close>

theorem update_takes_back_a_claim:
  assumes row: "get_cron i db = Ok job" "enabled job"
    and patch: "patch_next_run_at_ms patch = None"
  shows "let slot = next_run_at_ms job;
             (granted, db1) = claim_next_run i slot new now db;
             db2 = snd (write_cron now' i patch job db1)
         in granted \<and> fst (claim_next_run i slot new now db2)"
proof -
  have "bt_get (cron_table db) i = Some job" using row(1) by (simp add: get_cron_def ok_or_def split: option.splits)
  then show ?thesis using row(2) patch by (simp add: claim_next_run_def write_cron_def update_job_row_def)
qed

theorem update_takes_back_a_claim_witness:
  "fst (claim_next_run ''a'' 5 1007 7
      (snd (write_cron 8 ''a'' \<lparr>patch_name = Some ''renamed'', patch_schedule_kind = None, patch_schedule_expr = None,
          patch_payload_json = None, patch_timezone = None, patch_next_run_at_ms = None\<rparr>
        (sample_job ''a'' ''1s'' ''msg'' 5) (snd (claim_next_run ''a'' 5 1007 7 sample_cron_db)))))"
proof -
  have "get_cron ''a'' sample_cron_db = Ok (sample_job ''a'' ''1s'' ''msg'' 5)" by code_simp
  moreover have "enabled (sample_job ''a'' ''1s'' ''msg'' 5)" "next_run_at_ms (sample_job ''a'' ''1s'' ''msg'' 5) = 5"
    by (simp_all add: sample_job_def)
  ultimately show ?thesis
    using update_takes_back_a_claim [of "''a''" sample_cron_db "sample_job ''a'' ''1s'' ''msg'' 5"
        "\<lparr>patch_name = Some ''renamed'', patch_schedule_kind = None, patch_schedule_expr = None,
          patch_payload_json = None, patch_timezone = None, patch_next_run_at_ms = None\<rparr>" 1007 7 8]
    by (simp add: Let_def case_prod_unfold)
qed

text \<open>A positive duration below a millisecond passes the check for zero, but does not move the next
  run: under the catch-up policy the claim leaves the slot as it was.\<close>

lemma submillisecond_interval_does_not_advance:
  assumes "env_parse_duration env expr = Inr d" "0 < d" "d < 1000000" and "i64_range t"
  shows "from_kind_expr env EveryKind expr = Ok (Every d) \<and>
         next_run_after_ms_in_timezone env w (Every d) t tz = Ok t"
proof -
  have "duration_as_millis d = 0" using assms(3) by (simp add: duration_as_millis_def)
  moreover have "i64_wrap 0 = 0" by (rule i64_wrap_id) (simp add: i64_range_def i64_min_def i64_max_def)
  ultimately show ?thesis
    using assms by (simp add: from_kind_expr_def every_next_run i64_sat_add_def i64_sat_id)
qed

end
