(* ===== verification/Run_Journal.thy ===== *)
theory Run_Journal
  imports Klaw_Prelude
begin

text \<open>
  The journal of runs that the cron and heartbeat workers keep: a map from identifiers to rows that
  only grows, and the rows among them that record a published message.
\<close>

definition journal_grows :: "('row \<Rightarrow> bool) \<Rightarrow> (string \<Rightarrow> 'row option) \<Rightarrow> (string \<Rightarrow> 'row option) \<Rightarrow> bool" where
  "journal_grows good m m' \<longleftrightarrow>
     (\<forall>i. m' i \<noteq> m i \<longrightarrow> m i = None \<and> (\<exists>row. m' i = Some row \<and> good row))"

lemma journal_grows_refl [simp]: "journal_grows good m m"
  by (simp add: journal_grows_def)

lemma journal_grows_trans:
  assumes "journal_grows good m m1" and "journal_grows good m1 m2"
  shows "journal_grows good m m2"
  unfolding journal_grows_def
proof (intro allI impI)
  fix i assume "m2 i \<noteq> m i"
  then show "m i = None \<and> (\<exists>row. m2 i = Some row \<and> good row)"
    using assms unfolding journal_grows_def by (cases "m1 i = m i") metis+
qed

lemma journal_grows_mono:
  "journal_grows good m m' \<Longrightarrow> (\<And>row. good row \<Longrightarrow> good' row) \<Longrightarrow> journal_grows good' m m'"
  unfolding journal_grows_def by metis

lemma journal_grows_insert: "m run = None \<Longrightarrow> good row \<Longrightarrow> journal_grows good m (m(run \<mapsto> row))"
  by (simp add: journal_grows_def)

lemma journal_grows_new: "journal_grows good m m' \<Longrightarrow> m i = None \<Longrightarrow> m' i = Some row \<Longrightarrow> good row"
  unfolding journal_grows_def by (metis option.distinct(1) option.inject)

definition sent_ids :: "('row \<Rightarrow> string option) \<Rightarrow> (string \<Rightarrow> 'row option) \<Rightarrow> string set" where
  "sent_ids msg m = {i. \<exists>row. m i = Some row \<and> msg row \<noteq> None}"

lemma finite_sent_ids [simp]: "finite (sent_ids msg (bt_get t))"
proof (rule finite_subset)
  show "sent_ids msg (bt_get t) \<subseteq> fst ` set t"
    by (auto simp: sent_ids_def dest!: bt_get_in_set intro: rev_image_eqI)
qed simp

lemma card_sent_ids_insert:
  assumes "m run = None" and "finite (sent_ids msg m)"
  shows "card (sent_ids msg (m(run \<mapsto> row))) = card (sent_ids msg m) + (if msg row \<noteq> None then 1 else 0)"
proof -
  have "sent_ids msg (m(run \<mapsto> row)) = (if msg row \<noteq> None then insert run (sent_ids msg m) else sent_ids msg m)"
    using assms(1) by (auto simp: sent_ids_def)
  moreover have "run \<notin> sent_ids msg m" using assms(1) by (simp add: sent_ids_def)
  ultimately show ?thesis using assms(2) by simp
qed

end
