(* ===== verification/Cron_Tick.thy ===== *)
theory Cron_Tick
  imports Cron_Claims Run_Journal
begin

text \<open>
  What a tick of the cron worker does: every due job of the batch is claimed and moved past the
  tick, every run leaves one finished row, the count it returns is that of the published messages;
  and how one job with an invalid schedule stops every other job.
\<close>

section \<open>Parts of a run that leave the database alone\<close>

lemma read_clock_db [simp]:
  "cron_database (snd (read_clock env st)) = cron_database st"
  "cron_sessions (snd (read_clock env st)) = cron_sessions st"
  by (simp_all add: read_clock_def case_prod_unfold Let_def)

lemma fresh_uuid_db [simp]:
  "cron_database (snd (fresh_uuid env st)) = cron_database st"
  "cron_sessions (snd (fresh_uuid env st)) = cron_sessions st"
  by (simp_all add: fresh_uuid_def case_prod_unfold Let_def)

lemma prepare_run_session_db [simp]:
  "cron_database (snd (prepare_run_session env paths msg st)) = cron_database st"
  by (simp add: prepare_run_session_def case_prod_unfold Let_def split: sum.splits option.splits)

lemma send_run_message_db [simp]:
  "cron_database (snd (send_run_message env msg st)) = cron_database st"
  "cron_sessions (snd (send_run_message env msg st)) = cron_sessions st"
  by (simp_all add: send_run_message_def case_prod_unfold Let_def split: sum.splits)

lemma publish_inbound_db [simp]:
  "cron_database (snd (publish_inbound env paths job run st)) = cron_database st"
proof (cases "env_payload_from_json env (payload_json job)")
  case (Inr msg)
  let ?msg = "run_message env job run (cron_sessions st) msg"
  obtain r st1 where prep: "prepare_run_session env paths ?msg st = (r, st1)" by fastforce
  then have "cron_database st1 = cron_database st" using prepare_run_session_db by (metis snd_conv)
  then show ?thesis using Inr prep by (cases r) (simp_all add: publish_inbound_def Let_def)
qed (simp add: publish_inbound_def)

section \<open>One run\<close>

text \<open>A finished row: what the run recorded in \<^verbatim>\<open>cron_task\<close>.\<close>

definition run_row :: "cron_job \<Rightarrow> int \<Rightarrow> cron_error + job_run_outcome \<Rightarrow> cron_task_run \<Rightarrow> bool" where
  "run_row job slot outcome row \<longleftrightarrow>
     run_cron_id row = job_id job \<and> scheduled_at_ms row = slot \<and> started_at_ms row \<noteq> None \<and> finished_at_ms row \<noteq> None \<and>
     (run_status row, error_message row, published_message_id row) = task_result_of outcome"

lemma execute_cases:
  assumes "execute_job_run env paths job slot st = (outcome, st')"
  obtains (refused) e where "outcome = Err e" "cron_database st' = cron_database st"
  | (ran) run row where "bt_get (cron_tasks (cron_database st)) run = None"
      "bt_get (cron_tasks (cron_database st')) = (bt_get (cron_tasks (cron_database st)))(run \<mapsto> row)"
      "cron_table (cron_database st') = cron_table (cron_database st)"
      "run_row job slot outcome row"
proof -
  define run where "run = fst (fresh_uuid env st)"
  define st2 where "st2 = snd (read_clock env (snd (fresh_uuid env st)))"
  define created where "created = fst (read_clock env (snd (fresh_uuid env st)))"
  have st2: "cron_database st2 = cron_database st" by (simp add: st2_def)
  show ?thesis
  proof (cases "bt_get (cron_tasks (cron_database st)) run")
    case (Some row)
    have "append_task_run run (job_id job) slot TaskPending 0 created (cron_database st2) =
        (Err (Backend ''UNIQUE constraint failed: cron_task.id''), cron_database st2)"
      using Some st2 by (simp add: append_task_run_def bt_contains_def)
    then show ?thesis
      using assms refused st2
      by (auto simp: execute_job_run_def case_prod_unfold Let_def run_def st2_def created_def)
  next
    case None
    obtain pending db where append: "append_task_run run (job_id job) slot TaskPending 0 created (cron_database st2) = (Ok pending, db)"
      and db: "db = (cron_database st)\<lparr>cron_tasks := bt_insert run pending (cron_tasks (cron_database st))\<rparr>"
      and pending: "run_cron_id pending = job_id job" "scheduled_at_ms pending = slot"
      using None st2 by (auto simp: append_task_run_def bt_contains_def Let_def)
    define st3 where "st3 = st2\<lparr>cron_database := db\<rparr>"
    define st5 where "st5 = (snd (read_clock env st3))\<lparr>cron_database :=
      mark_task_running run (fst (read_clock env st3)) db\<rparr>"
    define st6 where "st6 = snd (publish_inbound env paths job run st5)"
    have st3: "cron_database (snd (read_clock env st3)) = db" by (simp add: st3_def)
    have out: "outcome = fst (publish_inbound env paths job run st5)"
      and st': "cron_database st' = mark_task_result run (fst (task_result_of outcome)) (fst (read_clock env st6))
        (fst (snd (task_result_of outcome))) (snd (snd (task_result_of outcome))) (cron_database st6)"
      using assms append st3
      by (auto simp: execute_job_run_def case_prod_unfold Let_def run_def st2_def created_def st3_def st5_def st6_def)
    have st6: "cron_database st6 = mark_task_running run (fst (read_clock env st3)) db"
      by (simp add: st6_def st5_def)
    show ?thesis
    proof (rule ran [OF None])
      let ?row = "pending\<lparr>started_at_ms := Some (fst (read_clock env st3)), run_status := fst (task_result_of outcome),
        finished_at_ms := Some (fst (read_clock env st6)), error_message := fst (snd (task_result_of outcome)),
        published_message_id := snd (snd (task_result_of outcome))\<rparr>"
      show "bt_get (cron_tasks (cron_database st')) = (bt_get (cron_tasks (cron_database st)))(run \<mapsto> ?row)"
        by (rule ext) (simp add: st' st6 mark_task_result_def mark_task_running_def update_task_row_def db)
      show "cron_table (cron_database st') = cron_table (cron_database st)"
        by (simp add: st' st6 mark_task_result_def mark_task_running_def update_task_row_def db)
      show "run_row job slot outcome ?row" using pending by (simp add: run_row_def)
    qed
  qed
qed

section \<open>The loop over the due jobs\<close>

definition published_ids :: "cron_db \<Rightarrow> string set" where
  "published_ids db = sent_ids published_message_id (bt_get (cron_tasks db))"

lemma task_result_published:
  "snd (snd (task_result_of outcome)) \<noteq> None \<longleftrightarrow> (\<exists>mid. outcome = Ok (Published mid))"
  by (cases outcome rule: task_result_of.cases) simp_all

text \<open>Rows that a run adds: finished runs of the given jobs for their slots.\<close>

definition tasks_grow :: "(cron_job \<Rightarrow> bool) \<Rightarrow> cron_db \<Rightarrow> cron_db \<Rightarrow> bool" where
  "tasks_grow mine db db' \<longleftrightarrow>
     journal_grows (\<lambda>row. \<exists>job outcome. mine job \<and> run_row job (next_run_at_ms job) outcome row)
       (bt_get (cron_tasks db)) (bt_get (cron_tasks db'))"

lemma execute_effect:
  assumes "execute_job_run env paths job (next_run_at_ms job) st = (outcome, st')"
  shows "cron_table (cron_database st') = cron_table (cron_database st)"
    and "tasks_grow (\<lambda>j. j = job) (cron_database st) (cron_database st')"
    and "card (published_ids (cron_database st')) =
         card (published_ids (cron_database st)) + (if \<exists>mid. outcome = Ok (Published mid) then 1 else 0)"
  using assms
proof (atomize(full), cases rule: execute_cases)
  case (refused e)
  then show "cron_table (cron_database st') = cron_table (cron_database st) \<and>
      tasks_grow (\<lambda>j. j = job) (cron_database st) (cron_database st') \<and>
      card (published_ids (cron_database st')) =
        card (published_ids (cron_database st)) + (if \<exists>mid. outcome = Ok (Published mid) then 1 else 0)"
    by (simp add: tasks_grow_def)
next
  case (ran run row)
  have "published_message_id row \<noteq> None \<longleftrightarrow> (\<exists>mid. outcome = Ok (Published mid))"
    using ran(4) task_result_published [of outcome] by (metis run_row_def snd_conv)
  moreover have "tasks_grow (\<lambda>j. j = job) (cron_database st) (cron_database st')"
    unfolding tasks_grow_def ran(2) using ran(1,4) by (intro journal_grows_insert) auto
  ultimately show "cron_table (cron_database st') = cron_table (cron_database st) \<and>
      tasks_grow (\<lambda>j. j = job) (cron_database st) (cron_database st') \<and>
      card (published_ids (cron_database st')) =
        card (published_ids (cron_database st)) + (if \<exists>mid. outcome = Ok (Published mid) then 1 else 0)"
    using ran(1,3) card_sent_ids_insert [of "bt_get (cron_tasks (cron_database st))" run published_message_id row]
    by (simp add: published_ids_def ran(2))
qed

text \<open>The row of a job after its slot was claimed.\<close>

definition moved_past :: "('s, 'tz, 'w) cron_env \<Rightarrow> missed_run_policy \<Rightarrow> int \<Rightarrow> cron_job \<Rightarrow> cron_job option \<Rightarrow> bool" where
  "moved_past env policy now job row \<longleftrightarrow>
     (\<exists>n w. next_run_of env policy now w job = Ok n \<and>
        row = Some (job\<lparr>next_run_at_ms := n, last_run_at_ms := Some (next_run_at_ms job), job_updated_at_ms := now\<rparr>))"

lemma tick_jobs_effect:
  assumes "tick_jobs env paths policy now jobs k st = (Ok n, st')"
    and "distinct (map job_id jobs)"
    and "\<forall>job \<in> set jobs. bt_get (cron_table (cron_database st)) (job_id job) = Some job \<and> enabled job"
  shows "(\<forall>job \<in> set jobs. moved_past env policy now job (bt_get (cron_table (cron_database st')) (job_id job))) \<and>
    (\<forall>i. i \<notin> job_id ` set jobs \<longrightarrow>
       bt_get (cron_table (cron_database st')) i = bt_get (cron_table (cron_database st)) i) \<and>
    tasks_grow (\<lambda>job. job \<in> set jobs) (cron_database st) (cron_database st') \<and>
    card (published_ids (cron_database st')) + k = card (published_ids (cron_database st)) + n"
  using assms
proof (induction jobs arbitrary: k st)
  case Nil
  then show ?case by (simp add: tasks_grow_def)
next
  case (Cons job jobs)
  let ?db = "cron_database st"
  obtain m where m: "next_run_of env policy now (cron_world st) job = Ok m"
    using Cons.prems(1) by (auto split: sum.splits)
  define job' where "job' = job\<lparr>next_run_at_ms := m, last_run_at_ms := Some (next_run_at_ms job), job_updated_at_ms := now\<rparr>"
  define db1 where "db1 = ?db\<lparr>cron_table := bt_insert (job_id job) job' (cron_table ?db)\<rparr>"
  have claim: "claim_next_run (job_id job) (next_run_at_ms job) m now ?db = (True, db1)"
    using Cons.prems(3) by (simp add: claim_keeps_job db1_def job'_def)
  obtain outcome st1 where run: "execute_job_run env paths job (next_run_at_ms job) (st\<lparr>cron_database := db1\<rparr>) = (outcome, st1)"
    by fastforce
  define k' where "k' = (if \<exists>mid. outcome = Ok (Published mid) then Suc k else k)"
  have rest: "tick_jobs env paths policy now jobs k' st1 = (Ok n, st')"
    using Cons.prems(1) m claim run
    by (cases outcome rule: task_result_of.cases) (simp_all add: k'_def)
  have table: "cron_table (cron_database st1) = bt_insert (job_id job) job' (cron_table ?db)"
    using execute_effect(1) [OF run] by (simp add: db1_def)
  have grow: "tasks_grow (\<lambda>j. j = job) ?db (cron_database st1)"
    using execute_effect(2) [OF run] by (simp add: tasks_grow_def db1_def)
  have "published_ids db1 = published_ids ?db" by (simp add: published_ids_def db1_def)
  then have count: "card (published_ids (cron_database st1)) + k = card (published_ids ?db) + k'"
    using execute_effect(3) [OF run] by (simp add: k'_def)
  have fresh: "job_id job \<notin> job_id ` set jobs" "distinct (map job_id jobs)" using Cons.prems(2) by simp_all
  have "bt_get (cron_table (cron_database st1)) (job_id j) = Some j \<and> enabled j" if "j \<in> set jobs" for j
  proof -
    have "job_id j \<noteq> job_id job" using fresh(1) that by (metis image_eqI)
    then show ?thesis using Cons.prems(3) that by (simp add: table)
  qed
  then have "\<forall>j \<in> set jobs. bt_get (cron_table (cron_database st1)) (job_id j) = Some j \<and> enabled j" by blast
  note IH = Cons.IH [OF rest fresh(2) this]
  have "bt_get (cron_table (cron_database st')) (job_id job) = Some job'" using IH fresh(1) by (simp add: table)
  then have moved: "moved_past env policy now job (bt_get (cron_table (cron_database st')) (job_id job))"
    unfolding moved_past_def job'_def using m by blast
  have "tasks_grow (\<lambda>j. j \<in> set (job # jobs)) ?db (cron_database st')"
    using grow IH unfolding tasks_grow_def
    by (blast intro: journal_grows_trans [OF journal_grows_mono [of _ _ "bt_get (cron_tasks (cron_database st1))"]
          journal_grows_mono [of _ "bt_get (cron_tasks (cron_database st1))"]] list.set_intros)
  moreover have "bt_get (cron_table (cron_database st')) i = bt_get (cron_table ?db) i"
    if "i \<notin> job_id ` set (job # jobs)" for i
    using IH that by (simp add: table)
  moreover have "card (published_ids (cron_database st')) + k = card (published_ids ?db) + n"
    using IH count by linarith
  moreover have "\<forall>j \<in> set (job # jobs). moved_past env policy now j (bt_get (cron_table (cron_database st')) (job_id j))"
    using IH moved by auto
  ultimately show ?case by blast
qed

lemma tick_jobs_returns:
  "\<forall>job \<in> set jobs. \<forall>w. \<exists>m. next_run_of env policy now w job = Ok m \<Longrightarrow>
   \<exists>n st'. tick_jobs env paths policy now jobs k st = (Ok n, st')"
proof (induction jobs arbitrary: k st)
  case (Cons job jobs)
  obtain m where m: "next_run_of env policy now (cron_world st) job = Ok m"
    using Cons.prems by (meson list.set_intros(1))
  have IH: "\<exists>n st'. tick_jobs env paths policy now jobs k st = (Ok n, st')" for k st
    using Cons by simp
  show ?case
    by (auto simp: m IH split: prod.splits bool.splits sum.splits job_run_outcome.splits)
qed simp

lemma due_jobs_distinct: "cron_ok db \<Longrightarrow> distinct (map job_id (list_due_crons now limit db))"
  unfolding cron_ok_def list_due_crons_def by (rule query_distinct)

lemma due_jobs_in_table:
  "cron_ok db \<Longrightarrow> \<forall>job \<in> set (list_due_crons now limit db). bt_get (cron_table db) (job_id job) = Some job \<and> enabled job"
  using list_due_in_table by (fastforce simp: is_due_def)

lemma run_tick_unfold:
  "run_tick env paths config st =
     tick_jobs env paths (missed_run_policy config) (fst (read_clock env st))
       (list_due_crons (fst (read_clock env st)) (batch_limit config) (cron_database st)) 0 (snd (read_clock env st))"
  by (simp add: run_tick_def case_prod_unfold Let_def)

lemma due_all_listed:
  assumes "cron_ok db" and "int (length (filter (is_due now) (map snd (cron_table db)))) \<le> max limit 1"
    and "bt_get (cron_table db) i = Some job" and "is_due now job"
  shows "job \<in> set (list_due_crons now limit db)"
proof -
  have "job \<in> set (filter (is_due now) (map snd (cron_table db)))"
    using assms(3,4) by (force dest: bt_get_in_set)
  moreover have "length (sort_key next_run_at_ms (filter (is_due now) (map snd (cron_table db)))) \<le> nat (max limit 1)"
    using assms(2) by simp
  ultimately show ?thesis unfolding list_due_crons_def by (metis set_sort take_all)
qed

section \<open>Properties of a tick\<close>

text \<open>A tick that completes claims every due job of its batch: its row keeps everything but the
  next run, which is the one its schedule gives, the last run, which is the slot, and the time of the
  update; all other jobs are unchanged. Every row it adds to the runs is a finished run of one of
  these jobs for its slot, existing rows are unchanged, and the count it returns is the number of
  runs it added that published a message.\<close>

theorem tick_claims_and_runs_due_jobs:
  assumes ok: "cron_ok (cron_database st)"
    and tick: "run_tick env paths config st = (Ok n, st')"
  defines "now \<equiv> fst (read_clock env st)"
  defines "due \<equiv> list_due_crons now (batch_limit config) (cron_database st)"
  shows "(\<forall>job \<in> set due. moved_past env (missed_run_policy config) now job
            (bt_get (cron_table (cron_database st')) (job_id job))) \<and>
    (\<forall>i. i \<notin> job_id ` set due \<longrightarrow>
       bt_get (cron_table (cron_database st')) i = bt_get (cron_table (cron_database st)) i) \<and>
    tasks_grow (\<lambda>job. job \<in> set due) (cron_database st) (cron_database st') \<and>
    card (published_ids (cron_database st')) = card (published_ids (cron_database st)) + n"
proof -
  have run: "tick_jobs env paths (missed_run_policy config) now due 0 (snd (read_clock env st)) = (Ok n, st')"
    using tick unfolding run_tick_unfold now_def due_def .
  have "\<forall>job \<in> set due. bt_get (cron_table (cron_database (snd (read_clock env st)))) (job_id job) = Some job \<and> enabled job"
    using due_jobs_in_table [OF ok] by (simp add: due_def)
  from tick_jobs_effect [OF run _ this] due_jobs_distinct [OF ok] show ?thesis by (simp add: due_def)
qed


definition sample_state :: "int cron_state" where
  "sample_state = \<lparr>cron_database = sample_cron_db, cron_sessions = [], cron_world = 7\<rparr>"

definition sample_store :: storage_paths where
  "sample_store = \<lparr>root_dir = ''/k'', sessions_dir = ''/k/sessions''\<rparr>"

lemma sample_state_facts:
  "fst (read_clock sample_env sample_state) = 7" "cron_database sample_state = sample_cron_db"
  "cron_ok sample_cron_db"
  "bt_get (cron_table sample_cron_db) i = Some job \<Longrightarrow> i = ''a'' \<and> job = sample_job ''a'' ''1s'' ''msg'' 5"
  by (auto simp: sample_state_def read_clock_def sample_env_def cron_ok_def keyed_by_def sample_cron_db_def sample_job_def
      sorted_map_def bt_get_def split: if_splits)


theorem tick_claims_and_runs_due_jobs_witness:
  "\<exists>n st'. run_tick sample_env sample_store default_worker_config sample_state = (Ok n, st') \<and>
     map_option next_run_at_ms (bt_get (cron_table (cron_database st')) ''a'') = Some 1007 \<and>
     card (published_ids (cron_database st')) = n"
proof -
  let ?job = "sample_job ''a'' ''1s'' ''msg'' 5"
  have due: "list_due_crons 7 (batch_limit default_worker_config) sample_cron_db = [?job]"
    by (simp add: list_due_crons_def sample_cron_db_def is_due_def sample_job_def default_worker_config_def)
  obtain n st' where tick: "run_tick sample_env sample_store default_worker_config sample_state = (Ok n, st')"
    using tick_jobs_returns [of "[?job]" sample_env Skip 7 sample_store 0 "snd (read_clock sample_env sample_state)"]
      sample_next_run [of 7 _ "''a''" "''msg''" 5] due sample_state_facts(1,2)
    by (auto simp: run_tick_unfold default_worker_config_def)
  have "published_ids sample_cron_db = {}" by (simp add: published_ids_def sent_ids_def sample_cron_db_def)
  moreover have "missed_run_policy default_worker_config = Skip" by (simp add: default_worker_config_def)
  moreover have "job_id ?job = ''a''" by (simp add: sample_job_def)
  ultimately show ?thesis
    using tick tick_claims_and_runs_due_jobs [OF _ tick] sample_state_facts(1-3) due
      sample_next_run [of 7 _ "''a''" "''msg''" 5]
    by (auto simp: moved_past_def)
qed

section \<open>A job that stops all others\<close>

lemma hd_sort_key_least:
  assumes "x \<in> set xs" and "\<And>y. y \<in> set xs \<Longrightarrow> y \<noteq> x \<Longrightarrow> f x < f y"
  shows "\<exists>ys. sort_key f xs = x # ys"
proof (cases "sort_key f xs")
  case Nil
  then show ?thesis using assms(1) by (metis empty_iff list.set(1) set_sort)
next
  case (Cons y ys)
  have y: "y \<in> set xs" using Cons by (metis list.set_intros(1) set_sort)
  have "sorted (map f (y # ys))" unfolding Cons [symmetric] by simp
  moreover have "x \<in> set (y # ys)" unfolding Cons [symmetric] using assms(1) by simp
  ultimately have "f y \<le> f x" by auto
  with y assms(2) show ?thesis using Cons by fastforce
qed

fun ticks :: "('s, 'tz, 'w) cron_env \<Rightarrow> storage_paths \<Rightarrow> cron_worker_config \<Rightarrow> nat \<Rightarrow> 'w cron_state \<Rightarrow> 'w cron_state" where
  "ticks env paths config 0 st = st"
| "ticks env paths config (Suc k) st = ticks env paths config k (snd (run_tick env paths config st))"

definition earliest_without_next_run :: "('s, 'tz, 'w) cron_env \<Rightarrow> missed_run_policy \<Rightarrow> cron_db \<Rightarrow> string \<Rightarrow>
    cron_job \<Rightarrow> bool" where
  "earliest_without_next_run env policy db i job \<longleftrightarrow>
     bt_get (cron_table db) i = Some job \<and> enabled job \<and>
     (\<forall>now w. \<exists>e. next_run_of env policy now w job = Err e) \<and>
     (\<forall>k j. bt_get (cron_table db) k = Some j \<longrightarrow> enabled j \<longrightarrow> k \<noteq> i \<longrightarrow> next_run_at_ms job < next_run_at_ms j)"

lemma blocked_tick:
  assumes ok: "cron_ok (cron_database st)"
    and blocks: "earliest_without_next_run env (missed_run_policy config) (cron_database st) i job"
    and clock: "\<forall>w. next_run_at_ms job \<le> fst (env_now_ms env w)"
  shows "\<exists>e. run_tick env paths config st = (Err e, snd (read_clock env st))"
proof -
  let ?now = "fst (read_clock env st)"
  let ?due = "filter (is_due ?now) (map snd (cron_table (cron_database st)))"
  have job: "bt_get (cron_table (cron_database st)) i = Some job" "enabled job"
    and stuck: "\<And>now w. \<exists>e. next_run_of env (missed_run_policy config) now w job = Err e"
    and earliest: "\<And>k j. bt_get (cron_table (cron_database st)) k = Some j \<Longrightarrow> enabled j \<Longrightarrow> k \<noteq> i \<Longrightarrow>
      next_run_at_ms job < next_run_at_ms j"
    using blocks unfolding earliest_without_next_run_def by blast+
  have "is_due ?now job"
    using job(2) clock by (simp add: is_due_def read_clock_def case_prod_unfold Let_def)
  then have "job \<in> set ?due" using job(1) by (force dest: bt_get_in_set)
  moreover have "next_run_at_ms job < next_run_at_ms y" if "y \<in> set ?due" "y \<noteq> job" for y
  proof -
    have "enabled y" "y \<in> set (map snd (cron_table (cron_database st)))"
      using that(1) by (auto simp: is_due_def)
    then obtain k where k: "bt_get (cron_table (cron_database st)) k = Some y"
      using keyed_by_row [of job_id "cron_table (cron_database st)" y] ok by (auto simp: cron_ok_def)
    moreover have "k \<noteq> i" using k job(1) that(2) by auto
    ultimately show ?thesis using earliest \<open>enabled y\<close> by blast
  qed
  ultimately obtain ys where "sort_key next_run_at_ms ?due = job # ys"
    using hd_sort_key_least [of job ?due next_run_at_ms] by blast
  then have "list_due_crons ?now (batch_limit config) (cron_database st) = job # take (nat (max (batch_limit config) 1) - 1) ys"
    unfolding list_due_crons_def by (cases "nat (max (batch_limit config) 1)") simp_all
  moreover obtain e where "next_run_of env (missed_run_policy config) ?now (cron_world (snd (read_clock env st))) job = Err e"
    using stuck by blast
  ultimately show ?thesis by (simp add: run_tick_unfold)
qed


definition one_shot_job :: cron_job where
  "one_shot_job = sample_job ''once'' ''0 0 9 1 1 * 2020'' ''msg'' 1 \<lparr>schedule_kind := CronKind\<rparr>"

definition blocked_state :: "int cron_state" where
  "blocked_state = sample_state\<lparr>cron_database := \<lparr>cron_table =
     [(''a'', sample_job ''a'' ''1s'' ''msg'' 5), (''once'', one_shot_job)], cron_tasks = []\<rparr>\<rparr>"

definition steady_env :: "(unit, unit, int) cron_env" where
  "steady_env = sample_env\<lparr>env_now_ms := (\<lambda>w. (max w 7, w))\<rparr>"


end
