(* ===== verification/Heartbeat_Store.thy ===== *)
theory Heartbeat_Store
  imports Session_Store
begin

text \<open>
  The tables \<^verbatim>\<open>heartbeat\<close> and \<^verbatim>\<open>heartbeat_task\<close> of \<^verbatim>\<open>klaw-storage/src/turso/heartbeat.rs\<close>. They are
  like those of cron, with a second key: at most one heartbeat per session
  (\<^verbatim>\<open>session_key TEXT NOT NULL UNIQUE\<close>). Each SQL statement is one atomic step; updating a job reads
  the row and writes it back in a second statement.
\<close>

section \<open>Types\<close>

record heartbeat_job =
  hb_id :: string
  hb_session_key :: string
  hb_channel :: string
  hb_chat_id :: string
  hb_enabled :: bool
  hb_every :: string
  hb_prompt :: string
  hb_silent_ack_token :: string
  hb_recent_messages_limit :: int
  hb_timezone :: string
  hb_next_run_at_ms :: int
  hb_last_run_at_ms :: "int option"
  hb_created_at_ms :: int
  hb_updated_at_ms :: int

record new_heartbeat_job =
  nhb_id :: string
  nhb_session_key :: string
  nhb_channel :: string
  nhb_chat_id :: string
  nhb_enabled :: bool
  nhb_every :: string
  nhb_prompt :: string
  nhb_silent_ack_token :: string
  nhb_recent_messages_limit :: int
  nhb_timezone :: string
  nhb_next_run_at_ms :: int

record update_heartbeat_job_patch =
  uhb_session_key :: "string option"
  uhb_channel :: "string option"
  uhb_chat_id :: "string option"
  uhb_every :: "string option"
  uhb_prompt :: "string option"
  uhb_silent_ack_token :: "string option"
  uhb_recent_messages_limit :: "int option"
  uhb_timezone :: "string option"
  uhb_next_run_at_ms :: "int option"

definition default_heartbeat_patch :: update_heartbeat_job_patch where
  "default_heartbeat_patch =
     \<lparr>uhb_session_key = None, uhb_channel = None, uhb_chat_id = None, uhb_every = None, uhb_prompt = None,
      uhb_silent_ack_token = None, uhb_recent_messages_limit = None, uhb_timezone = None,
      uhb_next_run_at_ms = None\<rparr>"

datatype heartbeat_task_status = HbPending | HbRunning | HbSuccess | HbFailed

fun heartbeat_status_as_str :: "heartbeat_task_status \<Rightarrow> string" where
  "heartbeat_status_as_str HbPending = ''pending''"
| "heartbeat_status_as_str HbRunning = ''running''"
| "heartbeat_status_as_str HbSuccess = ''success''"
| "heartbeat_status_as_str HbFailed = ''failed''"

definition heartbeat_status_parse :: "string \<Rightarrow> heartbeat_task_status option" where
  "heartbeat_status_parse v =
     (if v = ''pending'' then Some HbPending else if v = ''running'' then Some HbRunning
      else if v = ''success'' then Some HbSuccess else if v = ''failed'' then Some HbFailed else None)"

lemma heartbeat_status_parse_as_str [simp]: "heartbeat_status_parse (heartbeat_status_as_str s) = Some s"
  by (cases s) (simp_all add: heartbeat_status_parse_def)

record heartbeat_task_run =
  hbr_id :: string
  hbr_heartbeat_id :: string
  hbr_scheduled_at_ms :: int
  hbr_started_at_ms :: "int option"
  hbr_finished_at_ms :: "int option"
  hbr_status :: heartbeat_task_status
  hbr_attempt :: int
  hbr_error_message :: "string option"
  hbr_published_message_id :: "string option"
  hbr_created_at_ms :: int

record heartbeat_db =
  heartbeat_table :: "(string, heartbeat_job) btree_map"
  heartbeat_tasks :: "(string, heartbeat_task_run) btree_map"

section \<open>Jobs\<close>

definition get_heartbeat :: "string \<Rightarrow> heartbeat_db \<Rightarrow> storage_error + heartbeat_job" where
  "get_heartbeat i db = ok_or (bt_get (heartbeat_table db) i) (Backend ''heartbeat job not found'')"

definition get_heartbeat_by_session_key :: "string \<Rightarrow> heartbeat_db \<Rightarrow> storage_error + heartbeat_job" where
  "get_heartbeat_by_session_key key db =
     ok_or (find (\<lambda>job. hb_session_key job = key) (map snd (heartbeat_table db)))
       (Backend ''heartbeat job not found'')"

text \<open>The second key: whether another job has the session.\<close>

definition session_taken :: "string \<Rightarrow> string \<Rightarrow> heartbeat_db \<Rightarrow> bool" where
  "session_taken i key db \<longleftrightarrow> (\<exists>job \<in> set (map snd (heartbeat_table db)). hb_session_key job = key \<and> hb_id job \<noteq> i)"

definition create_heartbeat :: "int \<Rightarrow> new_heartbeat_job \<Rightarrow> heartbeat_db \<Rightarrow>
    (storage_error + heartbeat_job) \<times> heartbeat_db" where
  "create_heartbeat now input db =
     (if bt_contains (heartbeat_table db) (nhb_id input)
      then (Err (Backend ''UNIQUE constraint failed: heartbeat.id''), db)
      else if session_taken (nhb_id input) (nhb_session_key input) db
      then (Err (Backend ''UNIQUE constraint failed: heartbeat.session_key''), db)
      else let job = \<lparr>hb_id = nhb_id input, hb_session_key = nhb_session_key input, hb_channel = nhb_channel input,
                      hb_chat_id = nhb_chat_id input, hb_enabled = nhb_enabled input, hb_every = nhb_every input,
                      hb_prompt = nhb_prompt input, hb_silent_ack_token = nhb_silent_ack_token input,
                      hb_recent_messages_limit = nhb_recent_messages_limit input, hb_timezone = nhb_timezone input,
                      hb_next_run_at_ms = nhb_next_run_at_ms input, hb_last_run_at_ms = None,
                      hb_created_at_ms = now, hb_updated_at_ms = now\<rparr>;
               db' = db\<lparr>heartbeat_table := bt_insert (nhb_id input) job (heartbeat_table db)\<rparr>
           in (get_heartbeat (nhb_id input) db', db'))"

definition update_heartbeat_row :: "string \<Rightarrow> (heartbeat_job \<Rightarrow> heartbeat_job) \<Rightarrow> heartbeat_db \<Rightarrow> heartbeat_db" where
  "update_heartbeat_row i f db =
     (case bt_get (heartbeat_table db) i of
        None \<Rightarrow> db
      | Some job \<Rightarrow> db\<lparr>heartbeat_table := bt_insert i (f job) (heartbeat_table db)\<rparr>)"

definition patched_heartbeat :: "int \<Rightarrow> update_heartbeat_job_patch \<Rightarrow> heartbeat_job \<Rightarrow> heartbeat_job \<Rightarrow> heartbeat_job" where
  "patched_heartbeat now patch current job =
     job\<lparr>hb_session_key := unwrap_or (uhb_session_key patch) (hb_session_key current),
        hb_channel := unwrap_or (uhb_channel patch) (hb_channel current),
        hb_chat_id := unwrap_or (uhb_chat_id patch) (hb_chat_id current),
        hb_every := unwrap_or (uhb_every patch) (hb_every current),
        hb_prompt := unwrap_or (uhb_prompt patch) (hb_prompt current),
        hb_silent_ack_token := unwrap_or (uhb_silent_ack_token patch) (hb_silent_ack_token current),
        hb_recent_messages_limit := unwrap_or (uhb_recent_messages_limit patch) (hb_recent_messages_limit current),
        hb_timezone := unwrap_or (uhb_timezone patch) (hb_timezone current),
        hb_next_run_at_ms := unwrap_or (uhb_next_run_at_ms patch) (hb_next_run_at_ms current),
        hb_updated_at_ms := now\<rparr>"

definition write_heartbeat :: "int \<Rightarrow> string \<Rightarrow> update_heartbeat_job_patch \<Rightarrow> heartbeat_job \<Rightarrow> heartbeat_db \<Rightarrow>
    (storage_error + heartbeat_job) \<times> heartbeat_db" where
  "write_heartbeat now i patch current db =
     (if bt_contains (heartbeat_table db) i \<and>
         session_taken i (unwrap_or (uhb_session_key patch) (hb_session_key current)) db
      then (Err (Backend ''UNIQUE constraint failed: heartbeat.session_key''), db)
      else let db' = update_heartbeat_row i (patched_heartbeat now patch current) db in (get_heartbeat i db', db'))"

definition update_heartbeat :: "int \<Rightarrow> string \<Rightarrow> update_heartbeat_job_patch \<Rightarrow> heartbeat_db \<Rightarrow>
    (storage_error + heartbeat_job) \<times> heartbeat_db" where
  "update_heartbeat now i patch db =
     (case get_heartbeat i db of
        Inl e \<Rightarrow> (Err e, db)
      | Inr current \<Rightarrow> write_heartbeat now i patch current db)"

definition set_heartbeat_enabled :: "int \<Rightarrow> string \<Rightarrow> bool \<Rightarrow> heartbeat_db \<Rightarrow> heartbeat_db" where
  "set_heartbeat_enabled now i flag db =
     update_heartbeat_row i (\<lambda>job. job\<lparr>hb_enabled := flag, hb_updated_at_ms := now\<rparr>) db"

definition delete_heartbeat :: "string \<Rightarrow> heartbeat_db \<Rightarrow> heartbeat_db" where
  "delete_heartbeat i db = db\<lparr>heartbeat_table := bt_remove i (heartbeat_table db)\<rparr>"

definition list_heartbeats :: "int \<Rightarrow> int \<Rightarrow> heartbeat_db \<Rightarrow> heartbeat_job list" where
  "list_heartbeats limit offset db =
     take (nat (max limit 1)) (drop (nat (max offset 0))
       (sort_key (\<lambda>job. - hb_updated_at_ms job) (map snd (heartbeat_table db))))"

section \<open>Due jobs and claims\<close>

definition heartbeat_is_due :: "int \<Rightarrow> heartbeat_job \<Rightarrow> bool" where
  "heartbeat_is_due now job \<longleftrightarrow> hb_enabled job \<and> hb_next_run_at_ms job \<le> now"

definition list_due_heartbeats :: "int \<Rightarrow> int \<Rightarrow> heartbeat_db \<Rightarrow> heartbeat_job list" where
  "list_due_heartbeats now limit db =
     take (nat (max limit 1))
       (sort_key hb_next_run_at_ms (filter (heartbeat_is_due now) (map snd (heartbeat_table db))))"

definition claim_next_heartbeat_run :: "string \<Rightarrow> int \<Rightarrow> int \<Rightarrow> int \<Rightarrow> heartbeat_db \<Rightarrow> bool \<times> heartbeat_db" where
  "claim_next_heartbeat_run i expected new now db =
     (case bt_get (heartbeat_table db) i of
        Some job \<Rightarrow>
          if hb_enabled job \<and> hb_next_run_at_ms job = expected
          then (True, db\<lparr>heartbeat_table := bt_insert i
                  (job\<lparr>hb_next_run_at_ms := new, hb_last_run_at_ms := Some expected, hb_updated_at_ms := now\<rparr>)
                  (heartbeat_table db)\<rparr>)
          else (False, db)
      | None \<Rightarrow> (False, db))"

section \<open>Runs\<close>

definition append_heartbeat_task_run :: "string \<Rightarrow> string \<Rightarrow> int \<Rightarrow> heartbeat_task_status \<Rightarrow> int \<Rightarrow> int \<Rightarrow> heartbeat_db \<Rightarrow>
    (storage_error + heartbeat_task_run) \<times> heartbeat_db" where
  "append_heartbeat_task_run i heartbeat_id scheduled status att created db =
     (if bt_contains (heartbeat_tasks db) i
      then (Err (Backend ''UNIQUE constraint failed: heartbeat_task.id''), db)
      else let run = \<lparr>hbr_id = i, hbr_heartbeat_id = heartbeat_id, hbr_scheduled_at_ms = scheduled,
                      hbr_started_at_ms = None, hbr_finished_at_ms = None, hbr_status = status, hbr_attempt = att,
                      hbr_error_message = None, hbr_published_message_id = None, hbr_created_at_ms = created\<rparr>
           in (Ok run, db\<lparr>heartbeat_tasks := bt_insert i run (heartbeat_tasks db)\<rparr>))"

definition update_heartbeat_task :: "string \<Rightarrow> (heartbeat_task_run \<Rightarrow> heartbeat_task_run) \<Rightarrow> heartbeat_db \<Rightarrow> heartbeat_db" where
  "update_heartbeat_task i f db =
     (case bt_get (heartbeat_tasks db) i of
        None \<Rightarrow> db
      | Some run \<Rightarrow> db\<lparr>heartbeat_tasks := bt_insert i (f run) (heartbeat_tasks db)\<rparr>)"

definition mark_heartbeat_task_running :: "string \<Rightarrow> int \<Rightarrow> heartbeat_db \<Rightarrow> heartbeat_db" where
  "mark_heartbeat_task_running i started db =
     update_heartbeat_task i (\<lambda>run. run\<lparr>hbr_status := HbRunning, hbr_started_at_ms := Some started\<rparr>) db"

definition mark_heartbeat_task_result :: "string \<Rightarrow> heartbeat_task_status \<Rightarrow> int \<Rightarrow> string option \<Rightarrow> string option \<Rightarrow>
    heartbeat_db \<Rightarrow> heartbeat_db" where
  "mark_heartbeat_task_result i status finished err mid db =
     update_heartbeat_task i (\<lambda>run. run\<lparr>hbr_status := status, hbr_finished_at_ms := Some finished,
                                       hbr_error_message := err, hbr_published_message_id := mid\<rparr>) db"

definition list_heartbeat_task_runs :: "string \<Rightarrow> int \<Rightarrow> int \<Rightarrow> heartbeat_db \<Rightarrow> heartbeat_task_run list" where
  "list_heartbeat_task_runs heartbeat_id limit offset db =
     take (nat (max limit 1)) (drop (nat (max offset 0))
       (sort_key (\<lambda>run. - hbr_created_at_ms run)
         (filter (\<lambda>run. hbr_heartbeat_id run = heartbeat_id) (map snd (heartbeat_tasks db)))))"

end
