(* ===== verification/Heartbeat.thy ===== *)
theory Heartbeat
  imports Heartbeat_Store Transport
begin

text \<open>
  \<^verbatim>\<open>klaw-heartbeat/src/lib.rs\<close>: a heartbeat makes the agent look at a session from time to time. The
  manager keeps one job per session; the worker claims due jobs, skips runs it missed, and sends the
  agent a prompt with the recent conversation. A reply that is just the agreed token is suppressed,
  and heartbeat turns are left out of the conversation that later prompts carry.

  \<^verbatim>\<open>humantime\<close>, the JSON codec, the clock, fresh identifiers and the transport are the fields of
  \<open>heartbeat_env\<close>.
\<close>

section \<open>Errors and environment\<close>

text \<open>\<^verbatim>\<open>HeartbeatError\<close> without \<^verbatim>\<open>SerializePayload\<close>: printing a JSON value of strings and
  integers does not fail.\<close>

datatype heartbeat_error =
  HbInvalidInput string | HbInvalidSchedule string | HbStorage storage_error | HbTransport string

fun heartbeat_error_to_string :: "heartbeat_error \<Rightarrow> string" where
  "heartbeat_error_to_string (HbInvalidInput m) = ''invalid heartbeat input: '' @ m"
| "heartbeat_error_to_string (HbInvalidSchedule m) = ''invalid heartbeat schedule: '' @ m"
| "heartbeat_error_to_string (HbStorage e) = ''storage error: '' @ storage_error_to_string e"
| "heartbeat_error_to_string (HbTransport m) = ''transport error: '' @ m"

record 'w heartbeat_env =
  henv_parse_duration :: "string \<Rightarrow> string + duration"
  henv_now_ms :: "'w \<Rightarrow> int \<times> 'w"
  henv_new_uuid :: "'w \<Rightarrow> uuid \<times> 'w"
  henv_map_from_json :: "string \<Rightarrow> json_map option"
  henv_record_from_json :: "string \<Rightarrow> chat_record option"
  henv_publish :: "string \<Rightarrow> inbound_message envelope \<Rightarrow> 'w \<Rightarrow> (transport_error + unit) \<times> 'w"

record 'w heartbeat_state =
  hb_database :: heartbeat_db
  hb_sessions :: session_table
  hb_files :: file_map
  hb_world :: 'w

definition hb_clock :: "'w heartbeat_env \<Rightarrow> 'w heartbeat_state \<Rightarrow> int \<times> 'w heartbeat_state" where
  "hb_clock env st = (let (t, w) = henv_now_ms env (hb_world st) in (t, st\<lparr>hb_world := w\<rparr>))"

definition hb_uuid :: "'w heartbeat_env \<Rightarrow> 'w heartbeat_state \<Rightarrow> uuid \<times> 'w heartbeat_state" where
  "hb_uuid env st = (let (i, w) = henv_new_uuid env (hb_world st) in (i, st\<lparr>hb_world := w\<rparr>))"

section \<open>Schedules and input\<close>

definition parse_every :: "'w heartbeat_env \<Rightarrow> string \<Rightarrow> heartbeat_error + duration" where
  "parse_every env v =
     (case henv_parse_duration env v of
        Inl m \<Rightarrow> Err (HbInvalidSchedule m)
      | Inr d \<Rightarrow> if d = 0 then Err (HbInvalidSchedule ''every duration must be greater than zero'') else Ok d)"

definition next_run_after :: "'w heartbeat_env \<Rightarrow> string \<Rightarrow> int \<Rightarrow> heartbeat_error + int" where
  "next_run_after env every after_ms =
     and_then (parse_every env every)
       (\<lambda>d. Ok (i64_sat_add after_ms (i64_wrap (int (duration_as_millis d)))))"

definition hb_compute_next_run_at_ms :: "'w heartbeat_env \<Rightarrow> string \<Rightarrow> 'w heartbeat_state \<Rightarrow>
    (heartbeat_error + int) \<times> 'w heartbeat_state" where
  "hb_compute_next_run_at_ms env every st =
     (case parse_every env every of
        Inl e \<Rightarrow> (Err e, st)
      | Inr d \<Rightarrow> (let (now, st') = hb_clock env st
                    in (Ok (i64_sat_add now (i64_wrap (int (duration_as_millis d)))), st')))"

definition duration_millis_i64 :: "duration \<Rightarrow> int" where
  "duration_millis_i64 d = min (int (duration_as_millis d)) i64_max"

record heartbeat_input =
  hin_id :: "string option"
  hin_session_key :: string
  hin_channel :: string
  hin_chat_id :: string
  hin_enabled :: bool
  hin_every :: string
  hin_prompt :: string
  hin_silent_ack_token :: string
  hin_recent_messages_limit :: int
  hin_timezone :: string

definition require_trimmed :: "string \<Rightarrow> string \<Rightarrow> heartbeat_error + string" where
  "require_trimmed v field =
     (if trim v = [] then Err (HbInvalidInput (field @ '' cannot be empty'')) else Ok (trim v))"

text \<open>The checks of \<^verbatim>\<open>normalize_input\<close> up to the schedule, which reads the clock.\<close>

definition normalized_fields :: "heartbeat_input \<Rightarrow> heartbeat_error + heartbeat_input" where
  "normalized_fields input =
     and_then (require_trimmed (hin_session_key input) ''session_key'') (\<lambda>key.
     and_then (require_trimmed (hin_channel input) ''channel'') (\<lambda>chan.
     and_then (require_trimmed (hin_chat_id input) ''chat_id'') (\<lambda>chat.
     and_then (require_trimmed (hin_every input) ''every'') (\<lambda>every.
     and_then (require_trimmed (hin_silent_ack_token input) ''silent_ack_token'') (\<lambda>token.
     if hin_recent_messages_limit input \<le> 0
     then Err (HbInvalidInput ''recent_messages_limit must be greater than zero'')
     else and_then (require_trimmed (hin_timezone input) ''timezone'') (\<lambda>tz.
       Ok (input\<lparr>hin_session_key := key, hin_channel := chan, hin_chat_id := chat, hin_every := every,
                hin_prompt := trim (hin_prompt input), hin_silent_ack_token := token, hin_timezone := tz\<rparr>)))))))"

definition normalize_input :: "'w heartbeat_env \<Rightarrow> heartbeat_input \<Rightarrow> 'w heartbeat_state \<Rightarrow>
    (heartbeat_error + heartbeat_input) \<times> 'w heartbeat_state" where
  "normalize_input env input st =
     (case normalized_fields input of
        Inl e \<Rightarrow> (Err e, st)
      | Inr n \<Rightarrow> (case hb_compute_next_run_at_ms env (hin_every n) st of
            (Inl e, st') \<Rightarrow> (Err e, st')
          | (Inr _, st') \<Rightarrow> (Ok n, st')))"

section \<open>The manager\<close>

definition hb_result :: "storage_error + 'a \<Rightarrow> heartbeat_error + 'a" where
  "hb_result r = (case r of Inl e \<Rightarrow> Err (HbStorage e) | Inr x \<Rightarrow> Ok x)"

definition hb_create :: "'w heartbeat_env \<Rightarrow> new_heartbeat_job \<Rightarrow> 'w heartbeat_state \<Rightarrow>
    (heartbeat_error + heartbeat_job) \<times> 'w heartbeat_state" where
  "hb_create env new st =
     (let (now, st1) = hb_clock env st;
          (r, db) = create_heartbeat now new (hb_database st1)
      in (hb_result r, st1\<lparr>hb_database := db\<rparr>))"

definition hb_update :: "'w heartbeat_env \<Rightarrow> string \<Rightarrow> update_heartbeat_job_patch \<Rightarrow> 'w heartbeat_state \<Rightarrow>
    (heartbeat_error + heartbeat_job) \<times> 'w heartbeat_state" where
  "hb_update env i patch st =
     (let (now, st1) = hb_clock env st;
          (r, db) = update_heartbeat now i patch (hb_database st1)
      in (hb_result r, st1\<lparr>hb_database := db\<rparr>))"

definition create_job :: "'w heartbeat_env \<Rightarrow> heartbeat_input \<Rightarrow> 'w heartbeat_state \<Rightarrow>
    (heartbeat_error + heartbeat_job) \<times> 'w heartbeat_state" where
  "create_job env input st =
     (case normalize_input env input st of
        (Inl e, st1) \<Rightarrow> (Err e, st1)
      | (Inr n, st1) \<Rightarrow>
          (case hb_compute_next_run_at_ms env (hin_every n) st1 of
             (Inl e, st2) \<Rightarrow> (Err e, st2)
           | (Inr next_run, st2) \<Rightarrow>
               (let (i, st3) = (case hin_id n of Some i \<Rightarrow> (i, st2) | None \<Rightarrow> hb_uuid env st2)
                in hb_create env
                     \<lparr>nhb_id = i, nhb_session_key = hin_session_key n, nhb_channel = hin_channel n,
                      nhb_chat_id = hin_chat_id n, nhb_enabled = hin_enabled n, nhb_every = hin_every n,
                      nhb_prompt = hin_prompt n, nhb_silent_ack_token = hin_silent_ack_token n,
                      nhb_recent_messages_limit = hin_recent_messages_limit n, nhb_timezone = hin_timezone n,
                      nhb_next_run_at_ms = next_run\<rparr> st3)))"

definition update_job :: "'w heartbeat_env \<Rightarrow> string \<Rightarrow> heartbeat_input \<Rightarrow> 'w heartbeat_state \<Rightarrow>
    (heartbeat_error + heartbeat_job) \<times> 'w heartbeat_state" where
  "update_job env i input st =
     (case normalize_input env input st of
        (Inl e, st1) \<Rightarrow> (Err e, st1)
      | (Inr n, st1) \<Rightarrow>
          (case hb_compute_next_run_at_ms env (hin_every n) st1 of
             (Inl e, st2) \<Rightarrow> (Err e, st2)
           | (Inr next_run, st2) \<Rightarrow>
               hb_update env i
                 \<lparr>uhb_session_key = Some (hin_session_key n), uhb_channel = Some (hin_channel n),
                  uhb_chat_id = Some (hin_chat_id n), uhb_every = Some (hin_every n),
                  uhb_prompt = Some (hin_prompt n), uhb_silent_ack_token = Some (hin_silent_ack_token n),
                  uhb_recent_messages_limit = Some (hin_recent_messages_limit n),
                  uhb_timezone = Some (hin_timezone n), uhb_next_run_at_ms = Some next_run\<rparr> st2))"

definition DEFAULT_SILENT_ACK_TOKEN :: string where "DEFAULT_SILENT_ACK_TOKEN = ''HEARTBEAT_OK''"
definition DEFAULT_TIMEZONE :: string where "DEFAULT_TIMEZONE = ''UTC''"
definition DEFAULT_RECENT_MESSAGES_LIMIT :: int where "DEFAULT_RECENT_MESSAGES_LIMIT = 12"
definition DEFAULT_HEARTBEAT_EVERY :: string where "DEFAULT_HEARTBEAT_EVERY = ''30m''"

fun is_not_found_error :: "storage_error \<Rightarrow> bool" where
  "is_not_found_error (Backend m) = str_contains m ''not found''"
| "is_not_found_error _ = False"

text \<open>The fields of the new job are evaluated in order: the identifier, then the next run.\<close>

definition create_default_job :: "'w heartbeat_env \<Rightarrow> string \<Rightarrow> string \<Rightarrow> string \<Rightarrow> 'w heartbeat_state \<Rightarrow>
    (heartbeat_error + heartbeat_job) \<times> 'w heartbeat_state" where
  "create_default_job env key chan chat st =
     (let (i, st1) = hb_uuid env st
      in case hb_compute_next_run_at_ms env DEFAULT_HEARTBEAT_EVERY st1 of
           (Inl e, st2) \<Rightarrow> (Err e, st2)
         | (Inr next_run, st2) \<Rightarrow>
             hb_create env
               \<lparr>nhb_id = i, nhb_session_key = key, nhb_channel = chan, nhb_chat_id = chat, nhb_enabled = True,
                nhb_every = DEFAULT_HEARTBEAT_EVERY, nhb_prompt = [],
                nhb_silent_ack_token = DEFAULT_SILENT_ACK_TOKEN,
                nhb_recent_messages_limit = DEFAULT_RECENT_MESSAGES_LIMIT, nhb_timezone = DEFAULT_TIMEZONE,
                nhb_next_run_at_ms = next_run\<rparr> st2)"

definition sync_job_to_session :: "'w heartbeat_env \<Rightarrow> string \<Rightarrow> string \<Rightarrow> string \<Rightarrow> 'w heartbeat_state \<Rightarrow>
    (heartbeat_error + heartbeat_job) \<times> 'w heartbeat_state" where
  "sync_job_to_session env raw_key raw_chan raw_chat st =
     (case and_then (require_trimmed raw_key ''session_key'') (\<lambda>key.
           and_then (require_trimmed raw_chan ''channel'') (\<lambda>chan.
           and_then (require_trimmed raw_chat ''chat_id'') (\<lambda>chat. Ok (key, chan, chat)))) of
        Inl e \<Rightarrow> (Err e, st)
      | Inr (key, chan, chat) \<Rightarrow>
          (case get_heartbeat_by_session_key key (hb_database st) of
             Inr existing \<Rightarrow>
               hb_update env (hb_id existing)
                 (default_heartbeat_patch\<lparr>uhb_session_key := Some key, uhb_channel := Some chan,
                                          uhb_chat_id := Some chat\<rparr>) st
           | Inl e \<Rightarrow>
               if is_not_found_error e then create_default_job env key chan chat st
               else (Err (HbStorage e), st)))"

definition set_job_enabled :: "'w heartbeat_env \<Rightarrow> string \<Rightarrow> bool \<Rightarrow> 'w heartbeat_state \<Rightarrow> 'w heartbeat_state" where
  "set_job_enabled env i flag st =
     (let (now, st1) = hb_clock env st
      in st1\<lparr>hb_database := set_heartbeat_enabled now i flag (hb_database st1)\<rparr>)"

definition delete_job :: "string \<Rightarrow> 'w heartbeat_state \<Rightarrow> 'w heartbeat_state" where
  "delete_job i st = st\<lparr>hb_database := delete_heartbeat i (hb_database st)\<rparr>"

section \<open>The message\<close>

definition heartbeat_instruction :: "string \<Rightarrow> string" where
  "heartbeat_instruction token =
     ''Review the session state. If no user-visible action is needed, reply with exactly ''
     @ (if trim token = [] then DEFAULT_SILENT_ACK_TOKEN else trim token) @ '' and nothing else.''"

text \<open>\<^verbatim>\<open>trim_end_matches(':')\<close>.\<close>

definition trim_end_colons :: "string \<Rightarrow> string" where
  "trim_end_colons s = rev (dropWhile (\<lambda>c. c = CHR '':'') (rev s))"

fun strip_prompt_suffix :: "string list \<Rightarrow> string \<Rightarrow> string" where
  "strip_prompt_suffix [] t = t"
| "strip_prompt_suffix (suffix # rest) t =
     (if t = suffix then []
      else (case strip_suffix t suffix of
          Some prefix \<Rightarrow> trim (trim_end_colons (trim prefix))
        | None \<Rightarrow> strip_prompt_suffix rest t))"

definition normalize_legacy_custom_prompt :: "string \<Rightarrow> string \<Rightarrow> string" where
  "normalize_legacy_custom_prompt custom token =
     (if trim custom = [] then []
      else strip_prompt_suffix
        [heartbeat_instruction token,
         ''Review the session state. If no user-visible action is needed, reply exactly HEARTBEAT_OK.'',
         ''Review the session state. If no user-visible action is needed, reply exactly '' @ trim token @ ''.'']
        (trim custom))"

definition build_heartbeat_content :: "string \<Rightarrow> string \<Rightarrow> string" where
  "build_heartbeat_content custom token =
     (let c = normalize_legacy_custom_prompt custom token
      in if c = [] then heartbeat_instruction token
         else c @ [newline, newline] @ heartbeat_instruction token)"

definition build_inbound_message :: "heartbeat_job \<Rightarrow> inbound_message" where
  "build_inbound_message job =
     \<lparr>in_channel = hb_channel job, sender_id = ''system-heartbeat'', in_chat_id = hb_chat_id job,
      in_session_key = hb_session_key job,
      in_content = build_heartbeat_content (hb_prompt job) (hb_silent_ack_token job),
      media_references = [],
      in_metadata = object_of
        [(''trigger.kind'', JString ''heartbeat''),
         (''heartbeat.session_key'', JString (hb_session_key job)),
         (''heartbeat.silent_ack_token'', JString (hb_silent_ack_token job)),
         (''heartbeat.recent_messages_limit'', json_of_i64 (hb_recent_messages_limit job))]\<rparr>"

definition is_heartbeat_metadata :: "json_map \<Rightarrow> bool" where
  "is_heartbeat_metadata m \<longleftrightarrow> Option.bind (bt_get m ''trigger.kind'') as_str = Some ''heartbeat''"

definition should_suppress_output :: "string \<Rightarrow> json_map \<Rightarrow> bool" where
  "should_suppress_output content m \<longleftrightarrow>
     is_heartbeat_metadata m \<and>
     (case get_trimmed_str m ''heartbeat.silent_ack_token'' of
        None \<Rightarrow> False
      | Some token \<Rightarrow> trim content = token)"

section \<open>The conversation it carries\<close>

definition parse_chat_record_metadata :: "'w heartbeat_env \<Rightarrow> string option \<Rightarrow> json_map" where
  "parse_chat_record_metadata env raw = unwrap_or (Option.bind raw (henv_map_from_json env)) []"

definition should_exclude_chat_record_from_context :: "'w heartbeat_env \<Rightarrow> chat_record \<Rightarrow> bool" where
  "should_exclude_chat_record_from_context env rec =
     (let m = parse_chat_record_metadata env (metadata_json rec)
      in if \<not> is_heartbeat_metadata m then False
         else if chat_role rec = ''user'' \<or> chat_role rec = ''system'' then True
         else if chat_role rec = ''assistant'' then should_suppress_output (chat_content rec) m
         else False)"

definition trim_conversation_history :: "chat_record list \<Rightarrow> nat \<Rightarrow> chat_record list" where
  "trim_conversation_history hist limit =
     (if length hist \<le> limit then hist else drop (length hist - limit) hist)"

text \<open>The time of the summary record is not used further; it is the argument \<open>now\<close>, read
  when there is a summary.\<close>

definition build_history_for_model :: "'w heartbeat_env \<Rightarrow> int \<Rightarrow> chat_record list \<Rightarrow> nat \<Rightarrow> string option \<Rightarrow>
    chat_record list" where
  "build_history_for_model env now full limit summary =
     (let kept = filter (\<lambda>rec. \<not> should_exclude_chat_record_from_context env rec) full;
          trimmed = trim_conversation_history kept limit
      in case nonempty_trimmed summary of
           None \<Rightarrow> trimmed
         | Some s \<Rightarrow>
             \<lparr>ts_ms = now, chat_role = ''system'', chat_content = ''Conversation Summary (JSON): '' @ s,
              metadata_json = None, chat_message_id = None\<rparr> # trimmed)"

definition build_conversation_history_value :: "'w heartbeat_env \<Rightarrow> int \<Rightarrow> chat_record list \<Rightarrow> string option \<Rightarrow> int \<Rightarrow>
    heartbeat_error + json" where
  "build_conversation_history_value env now full summary limit =
     (if limit < 0 then Err (HbInvalidInput ''recent_messages_limit is out of range'')
      else Ok (JArray (map (\<lambda>rec. JObject (object_of
             [(''role'', JString (chat_role rec)), (''content'', JString (chat_content rec))]))
           (build_history_for_model env now full (nat limit) summary))))"

section \<open>One run\<close>

datatype heartbeat_run_outcome = HbPublished string | HbSkipped

definition resolve_available_session_key :: "heartbeat_job \<Rightarrow> session_table \<Rightarrow> string option" where
  "resolve_available_session_key job t =
     (case get_session (hb_session_key job) t of
        Inl _ \<Rightarrow> None
      | Inr s \<Rightarrow>
          (case option_filter (\<lambda>v. trim v \<noteq> []) (active_session_key s) of
             None \<Rightarrow> Some (hb_session_key job)
           | Some active \<Rightarrow> (case get_session active t of Inl _ \<Rightarrow> None | Inr _ \<Rightarrow> Some active)))"

text \<open>The message of a run for the session it was resolved to.\<close>

definition heartbeat_message :: "'w heartbeat_env \<Rightarrow> storage_paths \<Rightarrow> heartbeat_job \<Rightarrow> string \<Rightarrow> 'w heartbeat_state \<Rightarrow>
    (heartbeat_error + inbound_message) \<times> 'w heartbeat_state" where
  "heartbeat_message env paths job key st =
     (case read_chat_records (henv_record_from_json env) (sessions_dir paths) key (hb_files st) of
        Inl e \<Rightarrow> (Err (HbStorage e), st)
      | Inr full \<Rightarrow>
          (let summary = Option.bind (get_session_compression_state key (hb_sessions st)) summary_json;
               (now, st1) = (if 0 \<le> hb_recent_messages_limit job \<and> nonempty_trimmed summary \<noteq> None
                             then hb_clock env st else (0, st))
           in (and_then (build_conversation_history_value env now full summary (hb_recent_messages_limit job)) (\<lambda>hist.
                 let msg = build_inbound_message job
                 in Ok (msg\<lparr>in_session_key := key,
                            in_metadata := bt_insert ''heartbeat.resolved_session_key'' (JString key)
                              (bt_insert ''agent.conversation_history'' hist (in_metadata msg))\<rparr>)), st1)))"

definition hb_publish_inbound :: "'w heartbeat_env \<Rightarrow> storage_paths \<Rightarrow> heartbeat_job \<Rightarrow> 'w heartbeat_state \<Rightarrow>
    (heartbeat_error + heartbeat_run_outcome) \<times> 'w heartbeat_state" where
  "hb_publish_inbound env paths job st =
     (case resolve_available_session_key job (hb_sessions st) of
        None \<Rightarrow> (Ok HbSkipped, st)
      | Some key \<Rightarrow>
          (case heartbeat_message env paths job key st of
             (Inl e, st1) \<Rightarrow> (Err e, st1)
           | (Inr msg, st1) \<Rightarrow>
               (let (mid, st2) = hb_uuid env st1;
                    (tid, st3) = hb_uuid env st2;
                    (now, st4) = hb_clock env st3;
                    envelope = \<lparr>header = new_header mid tid now key, env_metadata = [], payload = msg\<rparr>;
                    (sent, w) = henv_publish env (topic_as_str InboundTopic) envelope (hb_world st4);
                    st5 = st4\<lparr>hb_world := w\<rparr>
                in case sent of
                     Inl e \<Rightarrow> (Err (HbTransport (transport_error_to_string e)), st5)
                   | Inr _ \<Rightarrow> (Ok (HbPublished mid), st5))))"

fun heartbeat_result_of :: "heartbeat_error + heartbeat_run_outcome \<Rightarrow>
    heartbeat_task_status \<times> string option \<times> string option" where
  "heartbeat_result_of (Inr (HbPublished mid)) = (HbSuccess, None, Some mid)"
| "heartbeat_result_of (Inr HbSkipped) = (HbSuccess, Some ''skipped because session is unavailable'', None)"
| "heartbeat_result_of (Inl e) = (HbFailed, Some (heartbeat_error_to_string e), None)"

definition hb_execute_job_run :: "'w heartbeat_env \<Rightarrow> storage_paths \<Rightarrow> heartbeat_job \<Rightarrow> int \<Rightarrow> 'w heartbeat_state \<Rightarrow>
    (heartbeat_error + heartbeat_run_outcome) \<times> 'w heartbeat_state" where
  "hb_execute_job_run env paths job scheduled st =
     (let (run, st1) = hb_uuid env st;
          (created, st2) = hb_clock env st1;
          (appended, db) = append_heartbeat_task_run run (hb_id job) scheduled HbPending 0 created (hb_database st2)
      in case appended of
           Inl e \<Rightarrow> (Err (HbStorage e), st2)
         | Inr _ \<Rightarrow>
             (let st3 = st2\<lparr>hb_database := db\<rparr>;
                  (started, st4) = hb_clock env st3;
                  st5 = st4\<lparr>hb_database := mark_heartbeat_task_running run started (hb_database st4)\<rparr>;
                  (outcome, st6) = hb_publish_inbound env paths job st5;
                  (finished, st7) = hb_clock env st6;
                  (status, err, mid) = heartbeat_result_of outcome
              in (outcome,
                  st7\<lparr>hb_database := mark_heartbeat_task_result run status finished err mid (hb_database st7)\<rparr>)))"

section \<open>The worker\<close>

record heartbeat_worker_config =
  hb_poll_interval :: duration
  hb_batch_limit :: int

definition default_heartbeat_config :: heartbeat_worker_config where
  "default_heartbeat_config = \<lparr>hb_poll_interval = 1000000000, hb_batch_limit = 64\<rparr>"

text \<open>A run is missed when it is overdue by more than one poll interval.\<close>

definition is_missed_run :: "heartbeat_worker_config \<Rightarrow> int \<Rightarrow> heartbeat_job \<Rightarrow> bool" where
  "is_missed_run config now job \<longleftrightarrow>
     i64_sat_sub now (hb_next_run_at_ms job) > duration_millis_i64 (hb_poll_interval config)"

fun hb_tick_jobs :: "'w heartbeat_env \<Rightarrow> storage_paths \<Rightarrow> heartbeat_worker_config \<Rightarrow> int \<Rightarrow> heartbeat_job list \<Rightarrow> nat \<Rightarrow>
    'w heartbeat_state \<Rightarrow> (heartbeat_error + nat) \<times> 'w heartbeat_state" where
  "hb_tick_jobs env paths config now [] executed st = (Ok executed, st)"
| "hb_tick_jobs env paths config now (job # jobs) executed st =
     (case next_run_after env (hb_every job)
             (if is_missed_run config now job then now else hb_next_run_at_ms job) of
        Inl e \<Rightarrow> (Err e, st)
      | Inr next_run \<Rightarrow>
          (case claim_next_heartbeat_run (hb_id job) (hb_next_run_at_ms job) next_run now (hb_database st) of
             (False, _) \<Rightarrow> hb_tick_jobs env paths config now jobs executed st
           | (True, db) \<Rightarrow>
               if is_missed_run config now job
               then hb_tick_jobs env paths config now jobs executed (st\<lparr>hb_database := db\<rparr>)
               else (case hb_execute_job_run env paths job (hb_next_run_at_ms job) (st\<lparr>hb_database := db\<rparr>) of
                       (Inr (HbPublished _), st') \<Rightarrow> hb_tick_jobs env paths config now jobs (Suc executed) st'
                     | (_, st') \<Rightarrow> hb_tick_jobs env paths config now jobs executed st')))"

definition hb_run_tick :: "'w heartbeat_env \<Rightarrow> storage_paths \<Rightarrow> heartbeat_worker_config \<Rightarrow> 'w heartbeat_state \<Rightarrow>
    (heartbeat_error + nat) \<times> 'w heartbeat_state" where
  "hb_run_tick env paths config st =
     (let (now, st1) = hb_clock env st
      in hb_tick_jobs env paths config now
           (list_due_heartbeats now (hb_batch_limit config) (hb_database st1)) 0 st1)"

definition hb_run_job_now :: "'w heartbeat_env \<Rightarrow> storage_paths \<Rightarrow> string \<Rightarrow> 'w heartbeat_state \<Rightarrow>
    (heartbeat_error + string) \<times> 'w heartbeat_state" where
  "hb_run_job_now env paths i st =
     (case get_heartbeat i (hb_database st) of
        Inl e \<Rightarrow> (Err (HbStorage e), st)
      | Inr job \<Rightarrow>
          (let (now, st1) = hb_clock env st
           in case hb_execute_job_run env paths job now st1 of
                (Inl e, st2) \<Rightarrow> (Err e, st2)
              | (Inr (HbPublished mid), st2) \<Rightarrow> (Ok mid, st2)
              | (Inr HbSkipped, st2) \<Rightarrow> (Ok [], st2)))"

end
