(* ===== verification/Heartbeat_Properties.thy ===== *)
theory Heartbeat_Properties
  imports Heartbeat Slot_Claims Run_Journal
begin

text \<open>
  Heartbeats: a tick claims every due job, runs only those that are on time and records each run;
  syncing a session gives it exactly one job; and a silent heartbeat leaves no trace in the
  conversation.
\<close>

section \<open>Claims\<close>

definition heartbeat_slot :: "heartbeat_db \<Rightarrow> string \<Rightarrow> int option" where
  "heartbeat_slot db i = map_option hb_next_run_at_ms (bt_get (heartbeat_table db) i)"

interpretation heartbeat_claims: slot_claims heartbeat_slot claim_next_heartbeat_run
  by unfold_locales (auto simp: claim_next_heartbeat_run_def heartbeat_slot_def split: option.splits if_splits)

lemma hb_claim_due:
  "bt_get (heartbeat_table db) i = Some job \<Longrightarrow> hb_enabled job \<Longrightarrow>
   claim_next_heartbeat_run i (hb_next_run_at_ms job) new now db =
     (True, db\<lparr>heartbeat_table := bt_insert i
       (job\<lparr>hb_next_run_at_ms := new, hb_last_run_at_ms := Some (hb_next_run_at_ms job), hb_updated_at_ms := now\<rparr>)
       (heartbeat_table db)\<rparr>)"
  by (simp add: claim_next_heartbeat_run_def)

section \<open>One run\<close>

lemma hb_clock_parts [simp]:
  "hb_database (snd (hb_clock env st)) = hb_database st"
  "hb_sessions (snd (hb_clock env st)) = hb_sessions st"
  by (simp_all add: hb_clock_def case_prod_unfold Let_def)

lemma hb_uuid_parts [simp]: "hb_database (snd (hb_uuid env st)) = hb_database st"
  by (simp add: hb_uuid_def case_prod_unfold Let_def)

lemma heartbeat_message_db [simp]:
  "hb_database (snd (heartbeat_message env paths job key st)) = hb_database st"
  by (simp add: heartbeat_message_def case_prod_unfold Let_def split: sum.splits)

lemma hb_publish_inbound_db [simp]:
  "hb_database (snd (hb_publish_inbound env paths job st)) = hb_database st"
proof (cases "resolve_available_session_key job (hb_sessions st)")
  case (Some key)
  obtain r st1 where msg: "heartbeat_message env paths job key st = (r, st1)" by fastforce
  then have "hb_database st1 = hb_database st" using heartbeat_message_db by (metis snd_conv)
  then show ?thesis using Some msg
    by (cases r) (simp_all add: hb_publish_inbound_def case_prod_unfold Let_def split: sum.splits)
qed (simp add: hb_publish_inbound_def)

definition hb_run_row :: "heartbeat_job \<Rightarrow> heartbeat_error + heartbeat_run_outcome \<Rightarrow> heartbeat_task_run \<Rightarrow> bool" where
  "hb_run_row job outcome row \<longleftrightarrow>
     hbr_heartbeat_id row = hb_id job \<and> hbr_scheduled_at_ms row = hb_next_run_at_ms job \<and>
     hbr_started_at_ms row \<noteq> None \<and> hbr_finished_at_ms row \<noteq> None \<and>
     (hbr_status row, hbr_error_message row, hbr_published_message_id row) = heartbeat_result_of outcome"

text \<open>Marking a fresh row as running and then finished.\<close>

lemma hb_marked_row:
  assumes "bt_get (heartbeat_tasks db) run = Some pending"
  shows "bt_get (heartbeat_tasks (mark_heartbeat_task_result run status finished err mid
           (mark_heartbeat_task_running run started db))) =
         (bt_get (heartbeat_tasks db))(run \<mapsto> pending\<lparr>hbr_started_at_ms := Some started, hbr_status := status,
           hbr_finished_at_ms := Some finished, hbr_error_message := err, hbr_published_message_id := mid\<rparr>)"
    and "heartbeat_table (mark_heartbeat_task_result run status finished err mid
           (mark_heartbeat_task_running run started db)) = heartbeat_table db"
  using assms
  by (auto simp: mark_heartbeat_task_result_def mark_heartbeat_task_running_def update_heartbeat_task_def)

lemma hb_execute_cases:
  assumes "hb_execute_job_run env paths job (hb_next_run_at_ms job) st = (outcome, st')"
  obtains (refused) e where "outcome = Err e" "hb_database st' = hb_database st"
  | (ran) run row where "bt_get (heartbeat_tasks (hb_database st)) run = None"
      "bt_get (heartbeat_tasks (hb_database st')) = (bt_get (heartbeat_tasks (hb_database st)))(run \<mapsto> row)"
      "heartbeat_table (hb_database st') = heartbeat_table (hb_database st)"
      "hb_run_row job outcome row"
proof -
  define run where "run = fst (hb_uuid env st)"
  define st2 where "st2 = snd (hb_clock env (snd (hb_uuid env st)))"
  define created where "created = fst (hb_clock env (snd (hb_uuid env st)))"
  have st2: "hb_database st2 = hb_database st" by (simp add: st2_def)
  note unfold_run = hb_execute_job_run_def case_prod_unfold Let_def run_def st2_def created_def
  show ?thesis
  proof (cases "bt_get (heartbeat_tasks (hb_database st)) run")
    case (Some row)
    have "append_heartbeat_task_run run (hb_id job) (hb_next_run_at_ms job) HbPending 0 created (hb_database st2) =
        (Err (Backend ''UNIQUE constraint failed: heartbeat_task.id''), hb_database st2)"
      using Some st2 by (simp add: append_heartbeat_task_run_def bt_contains_def)
    then show ?thesis using assms refused st2 by (auto simp: unfold_run)
  next
    case None
    obtain pending db
      where append: "append_heartbeat_task_run run (hb_id job) (hb_next_run_at_ms job) HbPending 0 created (hb_database st2) =
          (Ok pending, db)"
      and db: "db = (hb_database st)\<lparr>heartbeat_tasks := bt_insert run pending (heartbeat_tasks (hb_database st))\<rparr>"
      and pending: "hbr_heartbeat_id pending = hb_id job" "hbr_scheduled_at_ms pending = hb_next_run_at_ms job"
      using None st2 by (auto simp: append_heartbeat_task_run_def bt_contains_def Let_def)
    define st3 where "st3 = st2\<lparr>hb_database := db\<rparr>"
    define st5 where "st5 = (snd (hb_clock env st3))\<lparr>hb_database :=
      mark_heartbeat_task_running run (fst (hb_clock env st3)) db\<rparr>"
    define st6 where "st6 = snd (hb_publish_inbound env paths job st5)"
    have "hb_database (snd (hb_clock env st3)) = db" by (simp add: st3_def)
    then have st': "hb_database st' = mark_heartbeat_task_result run (fst (heartbeat_result_of outcome))
        (fst (hb_clock env st6)) (fst (snd (heartbeat_result_of outcome))) (snd (snd (heartbeat_result_of outcome)))
        (mark_heartbeat_task_running run (fst (hb_clock env st3)) db)"
      using assms append by (auto simp: unfold_run st3_def st5_def st6_def)
    have "bt_get (heartbeat_tasks db) run = Some pending" by (simp add: db)
    note marked = hb_marked_row [OF this]
    show ?thesis
    proof (rule ran [OF None])
      let ?row = "pending\<lparr>hbr_started_at_ms := Some (fst (hb_clock env st3)),
        hbr_status := fst (heartbeat_result_of outcome), hbr_finished_at_ms := Some (fst (hb_clock env st6)),
        hbr_error_message := fst (snd (heartbeat_result_of outcome)),
        hbr_published_message_id := snd (snd (heartbeat_result_of outcome))\<rparr>"
      show "bt_get (heartbeat_tasks (hb_database st')) = (bt_get (heartbeat_tasks (hb_database st)))(run \<mapsto> ?row)"
        unfolding st' marked by (rule ext) (simp add: db)
      show "heartbeat_table (hb_database st') = heartbeat_table (hb_database st)"
        unfolding st' marked by (simp add: db)
      show "hb_run_row job outcome ?row" using pending by (simp add: hb_run_row_def)
    qed
  qed
qed

section \<open>The tick\<close>

definition hb_sent :: "heartbeat_db \<Rightarrow> string set" where
  "hb_sent db = sent_ids hbr_published_message_id (bt_get (heartbeat_tasks db))"

text \<open>The rows that a tick adds: finished runs of jobs that were on time.\<close>

definition timely_rows :: "heartbeat_worker_config \<Rightarrow> int \<Rightarrow> heartbeat_job set \<Rightarrow> heartbeat_task_run \<Rightarrow> bool" where
  "timely_rows config now jobs row \<longleftrightarrow>
     (\<exists>job outcome. job \<in> jobs \<and> \<not> is_missed_run config now job \<and> hb_run_row job outcome row)"

lemma hb_result_published:
  "snd (snd (heartbeat_result_of outcome)) \<noteq> None \<longleftrightarrow> (\<exists>mid. outcome = Ok (HbPublished mid))"
  by (cases outcome rule: heartbeat_result_of.cases) simp_all

lemma hb_execute_effect:
  assumes "hb_execute_job_run env paths job (hb_next_run_at_ms job) st = (outcome, st')"
    and "\<not> is_missed_run config now job"
  shows "heartbeat_table (hb_database st') = heartbeat_table (hb_database st)"
    and "journal_grows (timely_rows config now {job}) (bt_get (heartbeat_tasks (hb_database st)))
           (bt_get (heartbeat_tasks (hb_database st')))"
    and "card (hb_sent (hb_database st')) =
         card (hb_sent (hb_database st)) + (if \<exists>mid. outcome = Ok (HbPublished mid) then 1 else 0)"
  using assms(1)
proof (atomize(full), cases rule: hb_execute_cases)
  case (refused e)
  then show "heartbeat_table (hb_database st') = heartbeat_table (hb_database st) \<and>
      journal_grows (timely_rows config now {job}) (bt_get (heartbeat_tasks (hb_database st)))
        (bt_get (heartbeat_tasks (hb_database st'))) \<and>
      card (hb_sent (hb_database st')) =
        card (hb_sent (hb_database st)) + (if \<exists>mid. outcome = Ok (HbPublished mid) then 1 else 0)"
    by simp
next
  case (ran run row)
  have "hbr_published_message_id row \<noteq> None \<longleftrightarrow> (\<exists>mid. outcome = Ok (HbPublished mid))"
    using ran(4) hb_result_published [of outcome] by (metis hb_run_row_def snd_conv)
  moreover have "timely_rows config now {job} row" using ran(4) assms(2) by (auto simp: timely_rows_def)
  ultimately show "heartbeat_table (hb_database st') = heartbeat_table (hb_database st) \<and>
      journal_grows (timely_rows config now {job}) (bt_get (heartbeat_tasks (hb_database st)))
        (bt_get (heartbeat_tasks (hb_database st'))) \<and>
      card (hb_sent (hb_database st')) =
        card (hb_sent (hb_database st)) + (if \<exists>mid. outcome = Ok (HbPublished mid) then 1 else 0)"
    using ran(1,3) card_sent_ids_insert [of "bt_get (heartbeat_tasks (hb_database st))" run hbr_published_message_id row]
      journal_grows_insert [of "bt_get (heartbeat_tasks (hb_database st))" run "timely_rows config now {job}" row]
    by (simp add: hb_sent_def ran(2))
qed

text \<open>One round of the loop over a job that is in the table: its row moves past the slot, and unless
  the run was missed it is executed.\<close>

definition hb_moved :: "'w heartbeat_env \<Rightarrow> heartbeat_worker_config \<Rightarrow> int \<Rightarrow> heartbeat_job \<Rightarrow> heartbeat_job option \<Rightarrow> bool" where
  "hb_moved env config now job row \<longleftrightarrow>
     (\<exists>n. next_run_after env (hb_every job) (if is_missed_run config now job then now else hb_next_run_at_ms job) = Ok n \<and>
        row = Some (job\<lparr>hb_next_run_at_ms := n, hb_last_run_at_ms := Some (hb_next_run_at_ms job), hb_updated_at_ms := now\<rparr>))"

lemma hb_round:
  assumes "hb_tick_jobs env paths config now (job # jobs) k st = (Ok n, st')"
    and row: "bt_get (heartbeat_table (hb_database st)) (hb_id job) = Some job" "hb_enabled job"
  obtains k1 st1 job' where "hb_tick_jobs env paths config now jobs k1 st1 = (Ok n, st')"
    and "heartbeat_table (hb_database st1) = bt_insert (hb_id job) job' (heartbeat_table (hb_database st))"
    and "hb_moved env config now job (Some job')"
    and "journal_grows (timely_rows config now {job}) (bt_get (heartbeat_tasks (hb_database st)))
           (bt_get (heartbeat_tasks (hb_database st1)))"
    and "card (hb_sent (hb_database st1)) + k = card (hb_sent (hb_database st)) + k1"
proof -
  let ?from = "if is_missed_run config now job then now else hb_next_run_at_ms job"
  obtain m where m: "next_run_after env (hb_every job) ?from = Ok m"
    using assms(1) by (auto split: sum.splits)
  define job' where "job' = job\<lparr>hb_next_run_at_ms := m, hb_last_run_at_ms := Some (hb_next_run_at_ms job), hb_updated_at_ms := now\<rparr>"
  define db1 where "db1 = (hb_database st)\<lparr>heartbeat_table := bt_insert (hb_id job) job' (heartbeat_table (hb_database st))\<rparr>"
  have claim: "claim_next_heartbeat_run (hb_id job) (hb_next_run_at_ms job) m now (hb_database st) = (True, db1)"
    using hb_claim_due [OF row] by (simp add: db1_def job'_def)
  have moved: "hb_moved env config now job (Some job')" unfolding hb_moved_def job'_def using m by blast
  have same: "bt_get (heartbeat_tasks db1) = bt_get (heartbeat_tasks (hb_database st))" "hb_sent db1 = hb_sent (hb_database st)"
    by (simp_all add: db1_def hb_sent_def)
  show ?thesis
  proof (cases "is_missed_run config now job")
    case True
    then show ?thesis
      using that [of k "st\<lparr>hb_database := db1\<rparr>" job'] assms(1) m claim moved same by (simp add: db1_def)
  next
    case False
    obtain outcome st1 where run: "hb_execute_job_run env paths job (hb_next_run_at_ms job) (st\<lparr>hb_database := db1\<rparr>) = (outcome, st1)"
      by fastforce
    define k1 where "k1 = (if \<exists>mid. outcome = Ok (HbPublished mid) then Suc k else k)"
    have "hb_tick_jobs env paths config now jobs k1 st1 = (Ok n, st')"
      using assms(1) m claim run False
      by (cases outcome rule: heartbeat_result_of.cases) (simp_all add: k1_def)
    moreover note hb_execute_effect [OF run False]
    ultimately show ?thesis
      using that [of k1 st1 job'] moved same by (simp add: db1_def k1_def)
  qed
qed

lemma hb_tick_effect:
  assumes "hb_tick_jobs env paths config now jobs k st = (Ok n, st')"
    and "distinct (map hb_id jobs)"
    and "\<forall>job \<in> set jobs. bt_get (heartbeat_table (hb_database st)) (hb_id job) = Some job \<and> hb_enabled job"
  shows "(\<forall>job \<in> set jobs. hb_moved env config now job (bt_get (heartbeat_table (hb_database st')) (hb_id job))) \<and>
    (\<forall>i. i \<notin> hb_id ` set jobs \<longrightarrow>
       bt_get (heartbeat_table (hb_database st')) i = bt_get (heartbeat_table (hb_database st)) i) \<and>
    journal_grows (timely_rows config now (set jobs)) (bt_get (heartbeat_tasks (hb_database st)))
      (bt_get (heartbeat_tasks (hb_database st'))) \<and>
    card (hb_sent (hb_database st')) + k = card (hb_sent (hb_database st)) + n"
  using assms
proof (induction jobs arbitrary: k st)
  case Nil
  then show ?case by simp
next
  case (Cons job jobs)
  have "bt_get (heartbeat_table (hb_database st)) (hb_id job) = Some job" "hb_enabled job" using Cons.prems(3) by simp_all
  from hb_round [OF Cons.prems(1) this] obtain k1 st1 job'
    where rest: "hb_tick_jobs env paths config now jobs k1 st1 = (Ok n, st')"
      and table: "heartbeat_table (hb_database st1) = bt_insert (hb_id job) job' (heartbeat_table (hb_database st))"
      and moved: "hb_moved env config now job (Some job')"
      and grow: "journal_grows (timely_rows config now {job}) (bt_get (heartbeat_tasks (hb_database st)))
           (bt_get (heartbeat_tasks (hb_database st1)))"
      and count: "card (hb_sent (hb_database st1)) + k = card (hb_sent (hb_database st)) + k1"
    by blast
  have fresh: "hb_id job \<notin> hb_id ` set jobs" "distinct (map hb_id jobs)" using Cons.prems(2) by simp_all
  have "bt_get (heartbeat_table (hb_database st1)) (hb_id j) = Some j \<and> hb_enabled j" if "j \<in> set jobs" for j
  proof -
    have "hb_id j \<noteq> hb_id job" using fresh(1) that by (metis image_eqI)
    then show ?thesis using Cons.prems(3) that by (simp add: table)
  qed
  then have "\<forall>j \<in> set jobs. bt_get (heartbeat_table (hb_database st1)) (hb_id j) = Some j \<and> hb_enabled j" by blast
  note IH = Cons.IH [OF rest fresh(2) this]
  have "bt_get (heartbeat_table (hb_database st')) (hb_id job) = Some job'" using IH fresh(1) by (simp add: table)
  then have "\<forall>j \<in> set (job # jobs). hb_moved env config now j (bt_get (heartbeat_table (hb_database st')) (hb_id j))"
    using IH moved by auto
  moreover have "bt_get (heartbeat_table (hb_database st')) i = bt_get (heartbeat_table (hb_database st)) i"
    if "i \<notin> hb_id ` set (job # jobs)" for i
    using IH that by (simp add: table)
  moreover have "journal_grows (timely_rows config now (set (job # jobs))) (bt_get (heartbeat_tasks (hb_database st)))
      (bt_get (heartbeat_tasks (hb_database st')))"
  proof (rule journal_grows_trans)
    show "journal_grows (timely_rows config now (set (job # jobs))) (bt_get (heartbeat_tasks (hb_database st)))
        (bt_get (heartbeat_tasks (hb_database st1)))"
      using grow by (rule journal_grows_mono) (auto simp: timely_rows_def)
    have "journal_grows (timely_rows config now (set jobs)) (bt_get (heartbeat_tasks (hb_database st1)))
        (bt_get (heartbeat_tasks (hb_database st')))" using IH by blast
    then show "journal_grows (timely_rows config now (set (job # jobs))) (bt_get (heartbeat_tasks (hb_database st1)))
        (bt_get (heartbeat_tasks (hb_database st')))"
      by (rule journal_grows_mono) (auto simp: timely_rows_def)
  qed
  moreover have "card (hb_sent (hb_database st')) + k = card (hb_sent (hb_database st)) + n"
    using IH count by linarith
  ultimately show ?case by blast
qed

section \<open>Properties of a tick\<close>

text \<open>The table is keyed by the identifier, and a session has at most one job.\<close>

definition heartbeats_ok :: "heartbeat_db \<Rightarrow> bool" where
  "heartbeats_ok db \<longleftrightarrow> keyed_by hb_id (heartbeat_table db) \<and>
     (\<forall>i k job j. bt_get (heartbeat_table db) i = Some job \<longrightarrow> bt_get (heartbeat_table db) k = Some j \<longrightarrow>
        hb_session_key job = hb_session_key j \<longrightarrow> i = k)"

lemma hb_run_tick_unfold:
  "hb_run_tick env paths config st =
     hb_tick_jobs env paths config (fst (hb_clock env st))
       (list_due_heartbeats (fst (hb_clock env st)) (hb_batch_limit config) (hb_database st)) 0 (snd (hb_clock env st))"
  by (simp add: hb_run_tick_def case_prod_unfold Let_def)

lemma hb_due_in_table:
  "heartbeats_ok db \<Longrightarrow> \<forall>job \<in> set (list_due_heartbeats now limit db).
     bt_get (heartbeat_table db) (hb_id job) = Some job \<and> hb_enabled job"
  unfolding heartbeats_ok_def list_due_heartbeats_def
  by (auto dest!: query_in_table [of hb_id] simp: heartbeat_is_due_def)

lemma hb_due_distinct: "heartbeats_ok db \<Longrightarrow> distinct (map hb_id (list_due_heartbeats now limit db))"
  unfolding heartbeats_ok_def list_due_heartbeats_def by (simp add: query_distinct)

text \<open>A heartbeat tick runs only jobs that are on time. A tick that completes moves every due job
  of its batch past its slot: to one interval after the slot, or, if the slot is overdue by more than
  a poll interval, to one interval after now; nothing else of the job changes but the last run and the
  time of the update, and no other job changes. Only the jobs that are not overdue are run: every
  row added to the runs is a finished run of one of them for its slot, and the count it returns is
  the number of added runs that published a message.\<close>

theorem heartbeat_tick_runs_only_timely_jobs:
  assumes ok: "heartbeats_ok (hb_database st)"
    and tick: "hb_run_tick env paths config st = (Ok n, st')"
  defines "now \<equiv> fst (hb_clock env st)"
  defines "due \<equiv> list_due_heartbeats now (hb_batch_limit config) (hb_database st)"
  shows "(\<forall>job \<in> set due. hb_moved env config now job (bt_get (heartbeat_table (hb_database st')) (hb_id job))) \<and>
    (\<forall>i. i \<notin> hb_id ` set due \<longrightarrow>
       bt_get (heartbeat_table (hb_database st')) i = bt_get (heartbeat_table (hb_database st)) i) \<and>
    journal_grows (timely_rows config now (set due)) (bt_get (heartbeat_tasks (hb_database st)))
      (bt_get (heartbeat_tasks (hb_database st'))) \<and>
    card (hb_sent (hb_database st')) = card (hb_sent (hb_database st)) + n"
proof -
  have run: "hb_tick_jobs env paths config now due 0 (snd (hb_clock env st)) = (Ok n, st')"
    using tick unfolding hb_run_tick_unfold now_def due_def .
  have "\<forall>job \<in> set due. bt_get (heartbeat_table (hb_database (snd (hb_clock env st)))) (hb_id job) = Some job \<and> hb_enabled job"
    using hb_due_in_table [OF ok] by (simp add: due_def)
  from hb_tick_effect [OF run _ this] hb_due_distinct [OF ok] show ?thesis by (simp add: due_def)
qed

text \<open>A sample: every interval is one second, and the clock is the state of the world.\<close>

definition sample_hb_env :: "int heartbeat_env" where
  "sample_hb_env =
     \<lparr>henv_parse_duration = (\<lambda>_. Ok 1000000000), henv_now_ms = (\<lambda>w. (w, w)),
      henv_new_uuid = (\<lambda>w. (''u'', w)), henv_map_from_json = (\<lambda>_. None), henv_record_from_json = (\<lambda>_. None),
      henv_publish = (\<lambda>_ _ w. (Ok (), w))\<rparr>"

definition sample_hb_job :: "string \<Rightarrow> int \<Rightarrow> heartbeat_job" where
  "sample_hb_job i slot =
     \<lparr>hb_id = i, hb_session_key = ''s:'' @ i, hb_channel = ''s'', hb_chat_id = i, hb_enabled = True, hb_every = ''1s'',
      hb_prompt = [], hb_silent_ack_token = ''OK'', hb_recent_messages_limit = 2, hb_timezone = ''UTC'',
      hb_next_run_at_ms = slot, hb_last_run_at_ms = None, hb_created_at_ms = 0, hb_updated_at_ms = 0\<rparr>"

definition sample_hb_state :: "int heartbeat_state" where
  "sample_hb_state =
     \<lparr>hb_database = \<lparr>heartbeat_table = [(''a'', sample_hb_job ''a'' 500), (''b'', sample_hb_job ''b'' 2000)], heartbeat_tasks = []\<rparr>,
      hb_sessions = [], hb_files = [], hb_world = 2500\<rparr>"

lemma sample_next_run_after:
  "0 \<le> t \<Longrightarrow> t \<le> 1000000 \<Longrightarrow> next_run_after sample_hb_env every t = Ok (t + 1000)"
  by (simp add: next_run_after_def parse_every_def sample_hb_env_def duration_as_millis_def i64_wrap_def
      i64_sat_add_def i64_sat_def i64_max_def i64_min_def)

text \<open>The tick returns when every due job has a next run.\<close>

lemma hb_tick_jobs_returns:
  assumes "\<And>job t. job \<in> set jobs \<Longrightarrow> t = now \<or> t = hb_next_run_at_ms job \<Longrightarrow> \<exists>m. next_run_after env (hb_every job) t = Ok m"
  shows "\<exists>n st'. hb_tick_jobs env paths config now jobs k st = (Ok n, st')"
  using assms
proof (induction jobs arbitrary: k st)
  case Nil
  then show ?case by simp
next
  case (Cons job jobs)
  have rest: "\<exists>n st'. hb_tick_jobs env paths config now jobs k st = (Ok n, st')" for k st
    using Cons by (meson list.set_intros(2))
  obtain m where "next_run_after env (hb_every job) (if is_missed_run config now job then now else hb_next_run_at_ms job) = Ok m"
    using Cons.prems [of job] by force
  then show ?case
    using rest by (auto split: prod.splits bool.splits sum.splits heartbeat_run_outcome.splits)
qed

lemma sample_missed:
  "is_missed_run default_heartbeat_config 2500 (sample_hb_job ''a'' 500)"
  "\<not> is_missed_run default_heartbeat_config 2500 (sample_hb_job ''b'' 2000)"
  by (simp_all add: is_missed_run_def default_heartbeat_config_def sample_hb_job_def duration_millis_i64_def
      duration_as_millis_def i64_sat_sub_def i64_sat_def i64_max_def i64_min_def)

lemma sample_hb_facts:
  "fst (hb_clock sample_hb_env sample_hb_state) = 2500" "heartbeats_ok (hb_database sample_hb_state)"
  "list_due_heartbeats 2500 (hb_batch_limit default_heartbeat_config) (hb_database sample_hb_state) =
     [sample_hb_job ''a'' 500, sample_hb_job ''b'' 2000]"
  "hb_sent (hb_database sample_hb_state) = {}"
  by (auto simp: hb_clock_def sample_hb_env_def sample_hb_state_def heartbeats_ok_def keyed_by_def sample_hb_job_def
      sorted_map_def bt_get_def list_due_heartbeats_def heartbeat_is_due_def default_heartbeat_config_def hb_sent_def
      sent_ids_def split: if_splits)

text \<open>The overdue job is moved and not run; the other is run.\<close>

theorem heartbeat_tick_runs_only_timely_jobs_witness:
  "\<exists>n st'. hb_run_tick sample_hb_env \<lparr>root_dir = ''/k'', sessions_dir = ''/k/sessions''\<rparr> default_heartbeat_config sample_hb_state = (Ok n, st') \<and>
     map_option hb_next_run_at_ms (bt_get (heartbeat_table (hb_database st')) ''a'') = Some 3500 \<and>
     map_option hb_next_run_at_ms (bt_get (heartbeat_table (hb_database st')) ''b'') = Some 3000 \<and>
     (\<forall>i row. bt_get (heartbeat_tasks (hb_database st')) i = Some row \<longrightarrow> hbr_heartbeat_id row = ''b'') \<and>
     card (hb_sent (hb_database st')) = n"
proof -
  let ?paths = "\<lparr>root_dir = ''/k'', sessions_dir = ''/k/sessions''\<rparr>"
  let ?jobs = "[sample_hb_job ''a'' 500, sample_hb_job ''b'' 2000]"
  have slots: "hb_next_run_at_ms (sample_hb_job i t) = t" "hb_id (sample_hb_job i t) = i" for i t
    by (simp_all add: sample_hb_job_def)
  have "\<exists>n st'. hb_tick_jobs sample_hb_env ?paths default_heartbeat_config 2500 ?jobs 0 (snd (hb_clock sample_hb_env sample_hb_state)) = (Ok n, st')"
    by (rule hb_tick_jobs_returns) (auto simp: slots sample_next_run_after)
  then obtain n st' where tick: "hb_run_tick sample_hb_env ?paths default_heartbeat_config sample_hb_state = (Ok n, st')"
    by (auto simp: hb_run_tick_unfold sample_hb_facts)
  note effect = heartbeat_tick_runs_only_timely_jobs [OF sample_hb_facts(2) tick, unfolded sample_hb_facts]
  have moved: "map_option hb_next_run_at_ms (bt_get (heartbeat_table (hb_database st')) ''a'') = Some 3500"
    "map_option hb_next_run_at_ms (bt_get (heartbeat_table (hb_database st')) ''b'') = Some 3000"
    using effect by (auto simp: hb_moved_def sample_missed slots sample_next_run_after)
  have "hbr_heartbeat_id row = ''b''" if "bt_get (heartbeat_tasks (hb_database st')) i = Some row" for i row
  proof -
    have fresh: "bt_get (heartbeat_tasks (hb_database sample_hb_state)) i = None" by (simp add: sample_hb_state_def)
    have "timely_rows default_heartbeat_config 2500 (set ?jobs) row"
      using journal_grows_new [of _ "bt_get (heartbeat_tasks (hb_database sample_hb_state))"
        "bt_get (heartbeat_tasks (hb_database st'))" i row] effect fresh that by blast
    then obtain job where "job \<in> set ?jobs" "\<not> is_missed_run default_heartbeat_config 2500 job" "hbr_heartbeat_id row = hb_id job"
      unfolding timely_rows_def hb_run_row_def by blast
    then show ?thesis using sample_missed slots(2) by (metis empty_iff empty_set set_ConsD)
  qed
  moreover have "card (hb_sent (hb_database st')) = n" using effect by simp
  ultimately show ?thesis using tick moved by blast
qed

end
