(* ===== verification/Heartbeat_Sessions.thy ===== *)
theory Heartbeat_Sessions
  imports Heartbeat_Properties
begin

text \<open>
  Heartbeats and sessions: a session never has two jobs, whatever the manager and the worker do;
  syncing a session gives it its job and keeps what was configured; and the silent acknowledgement
  leaves no trace in the conversation.
\<close>

section \<open>At most one job per session\<close>

lemma heartbeats_ok_get: "heartbeats_ok db \<Longrightarrow> bt_get (heartbeat_table db) i = Some job \<Longrightarrow> hb_id job = i"
  unfolding heartbeats_ok_def by (blast intro: keyed_by_get)

lemma heartbeats_ok_unique:
  "heartbeats_ok db \<Longrightarrow> bt_get (heartbeat_table db) i = Some job \<Longrightarrow> bt_get (heartbeat_table db) k = Some j \<Longrightarrow>
   hb_session_key job = hb_session_key j \<Longrightarrow> i = k"
  unfolding heartbeats_ok_def by blast

lemma heartbeats_ok_cong: "heartbeat_table db' = heartbeat_table db \<Longrightarrow> heartbeats_ok db' = heartbeats_ok db"
  by (simp add: heartbeats_ok_def)

lemma session_taken_iff:
  assumes "heartbeats_ok db"
  shows "session_taken i key db \<longleftrightarrow>
    (\<exists>k job. bt_get (heartbeat_table db) k = Some job \<and> hb_session_key job = key \<and> k \<noteq> i)"
proof
  assume "session_taken i key db"
  then obtain job where job: "job \<in> set (map snd (heartbeat_table db))" "hb_session_key job = key" "hb_id job \<noteq> i"
    unfolding session_taken_def by blast
  have "bt_get (heartbeat_table db) (hb_id job) = Some job"
    using assms job(1) unfolding heartbeats_ok_def by (blast intro: keyed_by_row)
  then show "\<exists>k job. bt_get (heartbeat_table db) k = Some job \<and> hb_session_key job = key \<and> k \<noteq> i"
    using job by blast
next
  assume "\<exists>k job. bt_get (heartbeat_table db) k = Some job \<and> hb_session_key job = key \<and> k \<noteq> i"
  then obtain k job where job: "bt_get (heartbeat_table db) k = Some job" "hb_session_key job = key" "k \<noteq> i" by blast
  have "job \<in> set (map snd (heartbeat_table db))" using bt_get_in_set [OF job(1)] by force
  then show "session_taken i key db"
    using job(2,3) heartbeats_ok_get [OF assms job(1)] unfolding session_taken_def by blast
qed

lemma own_session_not_taken:
  "heartbeats_ok db \<Longrightarrow> bt_get (heartbeat_table db) i = Some job \<Longrightarrow> \<not> session_taken i (hb_session_key job) db"
  unfolding session_taken_iff by (blast dest: heartbeats_ok_unique)

lemma heartbeats_ok_insert:
  assumes "heartbeats_ok db" and "hb_id job = i" and "\<not> session_taken i (hb_session_key job) db"
  shows "heartbeats_ok (db\<lparr>heartbeat_table := bt_insert i job (heartbeat_table db)\<rparr>)"
proof -
  have "keyed_by hb_id (bt_insert i job (heartbeat_table db))"
    using assms(1,2) unfolding heartbeats_ok_def by (blast intro: keyed_by_insert)
  moreover have "bt_get (heartbeat_table db) k = Some j \<Longrightarrow> hb_session_key j = hb_session_key job \<Longrightarrow> k = i" for k j
    using assms(3) by (auto simp: session_taken_iff [OF assms(1)])
  ultimately show ?thesis
    using heartbeats_ok_unique [OF assms(1)] by (fastforce simp: heartbeats_ok_def split: if_splits)
qed

lemma heartbeats_ok_create: "heartbeats_ok db \<Longrightarrow> heartbeats_ok (snd (create_heartbeat now new db))"
  by (auto simp: create_heartbeat_def Let_def intro!: heartbeats_ok_insert)

lemma heartbeats_ok_row:
  assumes "heartbeats_ok db" and "\<And>job. hb_id (f job) = hb_id job"
    and "\<And>job. bt_get (heartbeat_table db) i = Some job \<Longrightarrow> \<not> session_taken i (hb_session_key (f job)) db"
  shows "heartbeats_ok (update_heartbeat_row i f db)"
  using assms heartbeats_ok_get [OF assms(1)]
  by (auto simp: update_heartbeat_row_def intro!: heartbeats_ok_insert split: option.splits)

text \<open>The write of an update checks the constraint itself, whatever row the update read before.\<close>

lemma heartbeats_ok_write: "heartbeats_ok db \<Longrightarrow> heartbeats_ok (snd (write_heartbeat now i patch current db))"
  by (auto simp: write_heartbeat_def Let_def patched_heartbeat_def bt_contains_def intro!: heartbeats_ok_row)

lemma heartbeats_ok_update: "heartbeats_ok db \<Longrightarrow> heartbeats_ok (snd (update_heartbeat now i patch db))"
  by (auto simp: update_heartbeat_def heartbeats_ok_write split: sum.splits)

lemma heartbeats_ok_enabled: "heartbeats_ok db \<Longrightarrow> heartbeats_ok (set_heartbeat_enabled now i flag db)"
  unfolding set_heartbeat_enabled_def by (rule heartbeats_ok_row) (simp_all add: own_session_not_taken)

lemma heartbeats_ok_delete: "heartbeats_ok db \<Longrightarrow> heartbeats_ok (delete_heartbeat i db)"
  by (auto simp: heartbeats_ok_def delete_heartbeat_def intro: keyed_by_remove)

lemma heartbeats_ok_claim: "heartbeats_ok db \<Longrightarrow> heartbeats_ok (snd (claim_next_heartbeat_run i e n now db))"
  using heartbeats_ok_get [of db i] own_session_not_taken [of db i]
  by (auto simp: claim_next_heartbeat_run_def intro!: heartbeats_ok_insert split: option.splits)

lemmas heartbeats_ok_ops =
  heartbeats_ok_create heartbeats_ok_update heartbeats_ok_enabled heartbeats_ok_delete heartbeats_ok_claim

section \<open>The manager and the worker\<close>

lemma hb_compute_db [simp]: "hb_database (snd (hb_compute_next_run_at_ms env every st)) = hb_database st"
  by (auto simp: hb_compute_next_run_at_ms_def case_prod_unfold Let_def split: sum.splits)

lemma normalize_input_db [simp]: "hb_database (snd (normalize_input env input st)) = hb_database st"
proof (cases "normalized_fields input")
  case (Inr n)
  obtain r st' where "hb_compute_next_run_at_ms env (hin_every n) st = (r, st')" by fastforce
  then show ?thesis using Inr hb_compute_db [of env "hin_every n" st] by (auto simp: normalize_input_def split: sum.splits)
qed (simp add: normalize_input_def)

lemma heartbeats_ok_hb_create: "heartbeats_ok (hb_database st) \<Longrightarrow> heartbeats_ok (hb_database (snd (hb_create env new st)))"
  by (simp add: hb_create_def case_prod_unfold Let_def heartbeats_ok_ops)

lemma heartbeats_ok_hb_update: "heartbeats_ok (hb_database st) \<Longrightarrow> heartbeats_ok (hb_database (snd (hb_update env i patch st)))"
  by (simp add: hb_update_def case_prod_unfold Let_def heartbeats_ok_ops)

text \<open>What the manager does before it writes: the checks and the next run, on an unchanged database.\<close>

lemma scheduled_input_cases:
  obtains (refused) e st' where "normalize_input env input st = (Inl e, st')" "hb_database st' = hb_database st"
  | (unscheduled) n st1 e st2 where "normalize_input env input st = (Inr n, st1)"
      "hb_compute_next_run_at_ms env (hin_every n) st1 = (Inl e, st2)" "hb_database st2 = hb_database st"
  | (scheduled) n st1 m st2 where "normalize_input env input st = (Inr n, st1)"
      "hb_compute_next_run_at_ms env (hin_every n) st1 = (Inr m, st2)" "hb_database st2 = hb_database st"
proof -
  obtain r st1 where norm: "normalize_input env input st = (r, st1)" by fastforce
  have db: "hb_database st1 = hb_database st" using normalize_input_db [of env input st] norm by simp
  show ?thesis
  proof (cases r)
    case (Inr n)
    obtain q st2 where sched: "hb_compute_next_run_at_ms env (hin_every n) st1 = (q, st2)" by fastforce
    have "hb_database st2 = hb_database st" using hb_compute_db [of env "hin_every n" st1] sched db by simp
    then show ?thesis using unscheduled scheduled norm Inr sched by (cases q) auto
  qed (use refused norm db in auto)
qed

lemma heartbeats_ok_create_job:
  assumes "heartbeats_ok (hb_database st)"
  shows "heartbeats_ok (hb_database (snd (create_job env input st)))"
  by (cases rule: scheduled_input_cases [of env input st])
     (use assms in \<open>auto simp: create_job_def case_prod_unfold Let_def intro!: heartbeats_ok_hb_create split: option.split\<close>)

lemma heartbeats_ok_update_job:
  assumes "heartbeats_ok (hb_database st)"
  shows "heartbeats_ok (hb_database (snd (update_job env i input st)))"
  by (cases rule: scheduled_input_cases [of env input st])
     (use assms in \<open>auto simp: update_job_def intro!: heartbeats_ok_hb_update\<close>)

lemma heartbeats_ok_default_job:
  assumes "heartbeats_ok (hb_database st)"
  shows "heartbeats_ok (hb_database (snd (create_default_job env key chan chat st)))"
proof -
  obtain r st2 where sched: "hb_compute_next_run_at_ms env DEFAULT_HEARTBEAT_EVERY (snd (hb_uuid env st)) = (r, st2)"
    by fastforce
  have "hb_database st2 = hb_database st"
    using hb_compute_db [of env DEFAULT_HEARTBEAT_EVERY "snd (hb_uuid env st)"] sched by simp
  then show ?thesis
    using assms sched
    by (cases r) (auto simp: create_default_job_def case_prod_unfold Let_def intro!: heartbeats_ok_hb_create)
qed

lemma heartbeats_ok_sync:
  assumes "heartbeats_ok (hb_database st)"
  shows "heartbeats_ok (hb_database (snd (sync_job_to_session env key chan chat st)))"
  unfolding sync_job_to_session_def
  by (auto simp: assms split: sum.splits intro!: heartbeats_ok_hb_update heartbeats_ok_default_job)

lemma hb_execute_table:
  "heartbeat_table (hb_database (snd (hb_execute_job_run env paths job scheduled st))) = heartbeat_table (hb_database st)"
  by (auto simp: hb_execute_job_run_def case_prod_unfold Let_def append_heartbeat_task_run_def
      mark_heartbeat_task_result_def mark_heartbeat_task_running_def update_heartbeat_task_def
      split: option.splits sum.splits)

lemma heartbeats_ok_execute:
  "hb_execute_job_run env paths job scheduled st = (outcome, st') \<Longrightarrow>
   heartbeats_ok (hb_database st') = heartbeats_ok (hb_database st)"
  using heartbeats_ok_cong [OF hb_execute_table [of env paths job scheduled st]] by simp

lemma heartbeats_ok_tick_jobs:
  assumes "heartbeats_ok (hb_database st)"
  shows "heartbeats_ok (hb_database (snd (hb_tick_jobs env paths config now jobs k st)))"
  using assms
proof (induction jobs arbitrary: k st)
  case Nil
  then show ?case by simp
next
  case (Cons job jobs)
  have claim: "heartbeats_ok db" if "claim_next_heartbeat_run i e n now (hb_database st) = (b, db)" for i e n b db
    using heartbeats_ok_claim [OF Cons.prems, of i e n now] that by simp
  have run: "heartbeats_ok (hb_database st')"
    if "claim_next_heartbeat_run i e n now (hb_database st) = (b, db)"
      "hb_execute_job_run env paths job e (st\<lparr>hb_database := db\<rparr>) = (outcome, st')" for i e n b db outcome st'
    using heartbeats_ok_execute [OF that(2)] claim [OF that(1)] by simp
  show ?case
    using Cons.prems
    by (auto split: sum.splits prod.splits bool.splits heartbeat_run_outcome.splits intro!: Cons.IH intro: claim run)
qed

lemma heartbeats_ok_run_now:
  assumes "heartbeats_ok (hb_database st)"
  shows "heartbeats_ok (hb_database (snd (hb_run_job_now env paths i st)))"
proof (cases "get_heartbeat i (hb_database st)")
  case (Inr job)
  obtain outcome st2 where run: "hb_execute_job_run env paths job (fst (hb_clock env st)) (snd (hb_clock env st)) = (outcome, st2)"
    by fastforce
  then have "heartbeats_ok (hb_database st2)" using heartbeats_ok_execute [OF run] assms by simp
  then show ?thesis
    using Inr run
    by (cases outcome rule: heartbeat_result_of.cases) (simp_all add: hb_run_job_now_def case_prod_unfold Let_def)
qed (simp add: hb_run_job_now_def assms)

text \<open>A session never has two heartbeats. Creating, updating, syncing, enabling and deleting jobs, a
  tick of the worker and a run on demand, also when they fail, all keep the table keyed by the job
  identifier with at most one job per session; so does the write of an update that read its row at
  any earlier time.\<close>

theorem session_never_has_two_heartbeats:
  assumes "heartbeats_ok (hb_database st)"
  shows "heartbeats_ok (hb_database (snd (create_job env input st))) \<and>
    heartbeats_ok (hb_database (snd (update_job env i input st))) \<and>
    heartbeats_ok (hb_database (snd (sync_job_to_session env key chan chat st))) \<and>
    heartbeats_ok (hb_database (set_job_enabled env i flag st)) \<and>
    heartbeats_ok (hb_database (delete_job i st)) \<and>
    heartbeats_ok (hb_database (snd (hb_run_tick env paths config st))) \<and>
    heartbeats_ok (hb_database (snd (hb_run_job_now env paths i st))) \<and>
    heartbeats_ok (snd (write_heartbeat now i patch current (hb_database st)))"
  using assms
  by (simp_all add: heartbeats_ok_create_job heartbeats_ok_update_job heartbeats_ok_sync heartbeats_ok_ops
      heartbeats_ok_tick_jobs heartbeats_ok_run_now heartbeats_ok_write hb_run_tick_unfold
      set_job_enabled_def delete_job_def case_prod_unfold Let_def)

theorem session_never_has_two_heartbeats_witness:
  "heartbeats_ok (hb_database (snd (sync_job_to_session sample_hb_env ''s:a'' ''tg'' ''9'' sample_hb_state)))"
  using session_never_has_two_heartbeats [OF sample_hb_facts(2)] by blast

section \<open>Syncing a session\<close>

lemma by_session_key_Ok:
  assumes "heartbeats_ok db" and job: "bt_get (heartbeat_table db) i = Some job" "hb_session_key job = key"
  shows "get_heartbeat_by_session_key key db = Ok job"
proof -
  have "job \<in> set (map snd (heartbeat_table db))" using bt_get_in_set [OF job(1)] by force
  then obtain found where found: "find (\<lambda>job. hb_session_key job = key) (map snd (heartbeat_table db)) = Some found"
    using job(2) by (metis (mono_tags, lifting) find_None_iff option.exhaust)
  then have found_in: "found \<in> set (map snd (heartbeat_table db))" "hb_session_key found = key"
    by (auto simp: find_Some_iff)
  have row: "bt_get (heartbeat_table db) (hb_id found) = Some found"
    using assms(1) found_in(1) unfolding heartbeats_ok_def by (blast intro: keyed_by_row)
  then have "hb_id found = i" using heartbeats_ok_unique [OF assms(1) row job(1)] found_in(2) job(2) by simp
  then have "found = job" using row job(1) by simp
  then show ?thesis using found by (simp add: get_heartbeat_by_session_key_def ok_or_def)
qed

lemma by_session_key_Err:
  assumes "heartbeats_ok db"
    and "\<forall>i job. bt_get (heartbeat_table db) i = Some job \<longrightarrow> hb_session_key job \<noteq> key"
  shows "get_heartbeat_by_session_key key db = Err (Backend ''heartbeat job not found'')"
proof -
  have "hb_session_key job \<noteq> key" if "job \<in> set (map snd (heartbeat_table db))" for job
    using assms(2) keyed_by_row [OF _ that, of hb_id] assms(1) unfolding heartbeats_ok_def by blast
  then have "find (\<lambda>job. hb_session_key job = key) (map snd (heartbeat_table db)) = None"
    by (simp add: find_None_iff)
  then show ?thesis by (simp add: get_heartbeat_by_session_key_def ok_or_def)
qed

lemma missing_job_not_found: "is_not_found_error (Backend ''heartbeat job not found'')"
  by code_simp

definition default_job :: "string \<Rightarrow> string \<Rightarrow> string \<Rightarrow> string \<Rightarrow> int \<Rightarrow> int \<Rightarrow> heartbeat_job" where
  "default_job i key chan chat next_run now =
     \<lparr>hb_id = i, hb_session_key = key, hb_channel = chan, hb_chat_id = chat, hb_enabled = True, hb_every = ''30m'',
      hb_prompt = [], hb_silent_ack_token = ''HEARTBEAT_OK'', hb_recent_messages_limit = 12, hb_timezone = ''UTC'',
      hb_next_run_at_ms = next_run, hb_last_run_at_ms = None, hb_created_at_ms = now, hb_updated_at_ms = now\<rparr>"

text \<open>The table after a sync that stores one job.\<close>

definition stored_job :: "(heartbeat_error + heartbeat_job) \<times> 'w heartbeat_state \<Rightarrow> heartbeat_job \<Rightarrow> heartbeat_db \<Rightarrow> bool" where
  "stored_job result job db \<longleftrightarrow> fst result = Ok job \<and>
     heartbeat_table (hb_database (snd result)) = bt_insert (hb_id job) job (heartbeat_table db)"

lemma sync_existing:
  assumes ok: "heartbeats_ok (hb_database st)"
    and job: "bt_get (heartbeat_table (hb_database st)) i = Some old" "hb_session_key old = trim key"
    and names: "trim key \<noteq> []" "trim chan \<noteq> []" "trim chat \<noteq> []"
  shows "\<exists>now. stored_job (sync_job_to_session env key chan chat st)
     (old\<lparr>hb_channel := trim chan, hb_chat_id := trim chat, hb_updated_at_ms := now\<rparr>) (hb_database st)"
proof -
  have id: "hb_id old = i" using heartbeats_ok_get [OF ok job(1)] .
  have free: "\<not> session_taken i (trim key) (hb_database st)" using own_session_not_taken [OF ok job(1)] job(2) by simp
  have "sync_job_to_session env key chan chat st =
      hb_update env i (default_heartbeat_patch\<lparr>uhb_session_key := Some (trim key), uhb_channel := Some (trim chan),
        uhb_chat_id := Some (trim chat)\<rparr>) st"
    using by_session_key_Ok [OF ok job] names by (simp add: sync_job_to_session_def require_trimmed_def id)
  moreover have "write_heartbeat now i (default_heartbeat_patch\<lparr>uhb_session_key := Some (trim key), uhb_channel := Some (trim chan),
        uhb_chat_id := Some (trim chat)\<rparr>) old (hb_database st) =
      (let new = old\<lparr>hb_channel := trim chan, hb_chat_id := trim chat, hb_updated_at_ms := now\<rparr>
       in (Ok new, (hb_database st)\<lparr>heartbeat_table := bt_insert i new (heartbeat_table (hb_database st))\<rparr>))" for now
    using job free
    by (cases old) (simp add: write_heartbeat_def update_heartbeat_row_def patched_heartbeat_def default_heartbeat_patch_def
        get_heartbeat_def ok_or_def Let_def)
  ultimately show ?thesis
    using job(1) id
    by (simp add: stored_job_def hb_update_def hb_result_def case_prod_unfold Let_def update_heartbeat_def get_heartbeat_def
        ok_or_def exI [of _ "fst (hb_clock env st)"])
qed

lemma sync_new:
  assumes ok: "heartbeats_ok (hb_database st)"
    and new: "\<forall>i job. bt_get (heartbeat_table (hb_database st)) i = Some job \<longrightarrow> hb_session_key job \<noteq> trim key"
    and fresh: "bt_get (heartbeat_table (hb_database st)) (fst (hb_uuid env st)) = None"
    and interval: "henv_parse_duration env ''30m'' = Ok d" "d \<noteq> 0"
    and names: "trim key \<noteq> []" "trim chan \<noteq> []" "trim chat \<noteq> []"
  shows "\<exists>i next_run now. stored_job (sync_job_to_session env key chan chat st)
     (default_job i (trim key) (trim chan) (trim chat) next_run now) (hb_database st)"
proof -
  have "\<not> session_taken (fst (hb_uuid env st)) (trim key) (hb_database st)"
    using new by (auto simp: session_taken_iff [OF ok])
  moreover have "sync_job_to_session env key chan chat st = create_default_job env (trim key) (trim chan) (trim chat) st"
    using by_session_key_Err [OF ok new] names missing_job_not_found
    by (simp add: sync_job_to_session_def require_trimmed_def del: is_not_found_error.simps)
  ultimately show ?thesis
    using fresh interval
    by (auto simp: stored_job_def create_default_job_def hb_create_def hb_compute_next_run_at_ms_def parse_every_def
        hb_result_def case_prod_unfold Let_def create_heartbeat_def bt_contains_def get_heartbeat_def ok_or_def default_job_def
        DEFAULT_HEARTBEAT_EVERY_def DEFAULT_SILENT_ACK_TOKEN_def DEFAULT_RECENT_MESSAGES_LIMIT_def DEFAULT_TIMEZONE_def)
qed

text \<open>Syncing gives a session its heartbeat and keeps what the user configured. If the session has
  a job, only its channel, chat and time of update change: the prompt, the interval, the token, the
  next run and whether it is enabled stay as they are. If it has none, a job with the defaults is
  created. No other job changes.\<close>

theorem sync_keeps_configuration:
  assumes ok: "heartbeats_ok (hb_database st)"
    and names: "trim key \<noteq> []" "trim chan \<noteq> []" "trim chat \<noteq> []"
    and fresh: "bt_get (heartbeat_table (hb_database st)) (fst (hb_uuid env st)) = None"
    and interval: "henv_parse_duration env ''30m'' = Ok d" "d \<noteq> 0"
  defines "result \<equiv> sync_job_to_session env key chan chat st"
  shows "\<exists>job now next_run i. stored_job result job (hb_database st) \<and> hb_session_key job = trim key \<and>
    (\<forall>k old. bt_get (heartbeat_table (hb_database st)) k = Some old \<longrightarrow> hb_session_key old = trim key \<longrightarrow>
       job = old\<lparr>hb_channel := trim chan, hb_chat_id := trim chat, hb_updated_at_ms := now\<rparr>) \<and>
    ((\<forall>k old. bt_get (heartbeat_table (hb_database st)) k = Some old \<longrightarrow> hb_session_key old \<noteq> trim key) \<longrightarrow>
       job = default_job i (trim key) (trim chan) (trim chat) next_run now)"
proof (cases "\<exists>k old. bt_get (heartbeat_table (hb_database st)) k = Some old \<and> hb_session_key old = trim key")
  case True
  then obtain k old where old: "bt_get (heartbeat_table (hb_database st)) k = Some old" "hb_session_key old = trim key"
    by blast
  from sync_existing [OF ok old names] obtain now
    where stored: "stored_job result (old\<lparr>hb_channel := trim chan, hb_chat_id := trim chat, hb_updated_at_ms := now\<rparr>) (hb_database st)"
    unfolding result_def by blast
  have "j = old" if "bt_get (heartbeat_table (hb_database st)) i = Some j" "hb_session_key j = trim key" for i j
    using heartbeats_ok_unique [OF ok old(1) that(1)] old that by simp
  then have same: "\<forall>i j. bt_get (heartbeat_table (hb_database st)) i = Some j \<longrightarrow> hb_session_key j = trim key \<longrightarrow> j = old" by blast
  let ?new = "old\<lparr>hb_channel := trim chan, hb_chat_id := trim chat, hb_updated_at_ms := now\<rparr>"
  have "hb_session_key ?new = trim key" using old(2) by simp
  moreover have "\<forall>i j. bt_get (heartbeat_table (hb_database st)) i = Some j \<longrightarrow> hb_session_key j = trim key \<longrightarrow>
      ?new = j\<lparr>hb_channel := trim chan, hb_chat_id := trim chat, hb_updated_at_ms := now\<rparr>"
    using same by blast
  ultimately show ?thesis using stored old by blast
next
  case False
  then have new: "\<forall>i job. bt_get (heartbeat_table (hb_database st)) i = Some job \<longrightarrow> hb_session_key job \<noteq> trim key" by blast
  obtain i next_run now
    where "stored_job result (default_job i (trim key) (trim chan) (trim chat) next_run now) (hb_database st)"
    using sync_new [OF ok new fresh interval names] unfolding result_def by blast
  moreover have "hb_session_key (default_job i (trim key) (trim chan) (trim chat) next_run now) = trim key"
    by (simp add: default_job_def)
  ultimately show ?thesis using new by metis
qed

theorem sync_keeps_configuration_witness:
  "\<exists>now. stored_job (sync_job_to_session sample_hb_env '' s:a'' ''tg'' ''9'' sample_hb_state)
     (sample_hb_job ''a'' 500\<lparr>hb_channel := ''tg'', hb_chat_id := ''9'', hb_updated_at_ms := now\<rparr>) (hb_database sample_hb_state)"
proof -
  have "trim '' s:a'' = ''s:a''" "trim ''tg'' = ''tg''" "trim ''9'' = ''9''" by code_simp+
  moreover have "bt_get (heartbeat_table (hb_database sample_hb_state)) ''a'' = Some (sample_hb_job ''a'' 500)"
    "hb_session_key (sample_hb_job ''a'' 500) = ''s:a''"
    "bt_get (heartbeat_table (hb_database sample_hb_state)) (fst (hb_uuid sample_hb_env sample_hb_state)) = None"
    "henv_parse_duration sample_hb_env ''30m'' = Ok 1000000000"
    by (simp_all add: sample_hb_state_def sample_hb_job_def bt_get_def sample_hb_env_def hb_uuid_def)
  ultimately show ?thesis
    using sync_keeps_configuration [OF sample_hb_facts(2), of "'' s:a''" "''tg''" "''9''" sample_hb_env 1000000000] by auto
qed

section \<open>The silent acknowledgement\<close>

text \<open>The record of a turn that a heartbeat started: its metadata is read back with the trigger and the
  token of the message.\<close>

definition carries_heartbeat :: "'w heartbeat_env \<Rightarrow> heartbeat_job \<Rightarrow> chat_record \<Rightarrow> bool" where
  "carries_heartbeat env job rec \<longleftrightarrow>
     (\<forall>k \<in> {''trigger.kind'', ''heartbeat.silent_ack_token''}.
        bt_get (parse_chat_record_metadata env (metadata_json rec)) k = bt_get (in_metadata (build_inbound_message job)) k)"

lemma heartbeat_message_metadata:
  "bt_get (in_metadata (build_inbound_message job)) ''trigger.kind'' = Some (JString ''heartbeat'')"
  "bt_get (in_metadata (build_inbound_message job)) ''heartbeat.silent_ack_token'' = Some (JString (hb_silent_ack_token job))"
  by (simp_all add: build_inbound_message_def object_of_def bt_extend_def bt_get_def)

lemma carries_heartbeat_metadata:
  assumes "carries_heartbeat env job rec"
  shows "is_heartbeat_metadata (parse_chat_record_metadata env (metadata_json rec))"
    and "should_suppress_output v (parse_chat_record_metadata env (metadata_json rec)) =
         should_suppress_output v (in_metadata (build_inbound_message job))"
  using assms
  by (simp_all add: carries_heartbeat_def is_heartbeat_metadata_def should_suppress_output_def heartbeat_message_metadata
      get_trimmed_str_def)

lemma suppressed_iff:
  "trim (hb_silent_ack_token job) \<noteq> [] \<Longrightarrow>
   should_suppress_output v (in_metadata (build_inbound_message job)) \<longleftrightarrow> trim v = trim (hb_silent_ack_token job)"
  by (simp add: should_suppress_output_def is_heartbeat_metadata_def heartbeat_message_metadata get_trimmed_str_def)

lemma build_history_cong:
  "filter (\<lambda>rec. \<not> should_exclude_chat_record_from_context env rec) xs =
   filter (\<lambda>rec. \<not> should_exclude_chat_record_from_context env rec) ys \<Longrightarrow>
   build_history_for_model env now xs limit summary = build_history_for_model env now ys limit summary"
  by (simp add: build_history_for_model_def)

lemma excluded_heartbeat_records:
  assumes "carries_heartbeat env job rec"
  shows "chat_role rec = ''user'' \<Longrightarrow> should_exclude_chat_record_from_context env rec"
    and "chat_role rec = ''assistant'' \<Longrightarrow> should_exclude_chat_record_from_context env rec \<longleftrightarrow>
      should_suppress_output (chat_content rec) (in_metadata (build_inbound_message job))"
  using carries_heartbeat_metadata [OF assms] by (simp_all add: should_exclude_chat_record_from_context_def)


definition sample_codec_env :: "int heartbeat_env" where
  "sample_codec_env = sample_hb_env\<lparr>henv_map_from_json := (\<lambda>_. Some (in_metadata (build_inbound_message (sample_hb_job ''a'' 500))))\<rparr>"

definition sample_record :: "string \<Rightarrow> string \<Rightarrow> string option \<Rightarrow> chat_record" where
  "sample_record role v raw = \<lparr>ts_ms = 0, chat_role = role, chat_content = v, metadata_json = raw, chat_message_id = None\<rparr>"


text \<open>The conversation is the last records that are not excluded, at most \<open>limit\<close> of them, with at most
  the summary before them.\<close>

lemma build_history_bounded:
  "length (build_history_for_model env now full limit summary) \<le> limit + 1"
  by (simp add: build_history_for_model_def trim_conversation_history_def Let_def split: option.split)

end
