(* ===== verification/Patch_Tool.thy ===== *)
theory Patch_Tool
  imports Approval File_System
begin

text \<open>
  \<^verbatim>\<open>klaw-tool/src/apply_patch.rs\<close>: the tool that adds, updates, deletes and moves files for the model.
  Paths are resolved against the workspace; a request that leaves it needs an approval. All
  operations are checked against the files and each other before the first is applied. The
  environment holds the decoding of arguments by serde, the hash of the printed request, the JSON
  printer, the clock, fresh identifiers and the working and data directories of the process. A
  displayed path is the one with single separators and without dots.
\<close>

section \<open>Types\<close>

record apply_patch_config =
  patch_enabled :: bool
  patch_workspace :: "string option"
  allow_absolute_paths :: bool
  allowed_roots :: "string list"

definition default_apply_patch_config :: apply_patch_config where
  "default_apply_patch_config =
     \<lparr>patch_enabled = True, patch_workspace = None, allow_absolute_paths = False, allowed_roots = []\<rparr>"

record apply_patch_tool =
  patch_config :: apply_patch_config
  patch_storage_root_dir :: "string option"
  patch_has_manager :: bool

datatype patch_operation =
    AddFile string string
  | UpdateFile string string
  | DeleteFile string
  | MoveFile string string

datatype resolved_patch_operation =
    ResolvedAddFile path string
  | ResolvedUpdateFile path string
  | ResolvedDeleteFile path
  | ResolvedMoveFile path path

record patch_result =
  pr_action :: string
  operations_applied :: nat
  pr_summary :: "string list"

record patch_env =
  penv_decode :: "json \<Rightarrow> string + patch_operation list"
  penv_hash :: "patch_operation list \<Rightarrow> string"
  penv_sha256 :: "string \<Rightarrow> string"
  penv_fresh :: string
  penv_now :: int
  penv_cwd :: path
  penv_data_dir :: "string option"
  penv_pretty :: "patch_result \<Rightarrow> string"

section \<open>Requests\<close>

definition MAX_PATCH_OPERATIONS :: nat where "MAX_PATCH_OPERATIONS = 50"
definition MAX_CONTENT_BYTES :: nat where "MAX_CONTENT_BYTES = 1000000"

definition validate_relative_path :: "string \<Rightarrow> string \<Rightarrow> tool_error + unit" where
  "validate_relative_path p field =
     (if trim p = [] then Err (InvalidArgs (''`'' @ field @ ''` cannot be empty'')) else Ok ())"

definition validate_content_size :: "string \<Rightarrow> tool_error + unit" where
  "validate_content_size s =
     (if MAX_CONTENT_BYTES < str_len s
      then Err (InvalidArgs (''`content` exceeds max size of 1000000 bytes'')) else Ok ())"

fun validate_operation :: "patch_operation \<Rightarrow> tool_error + unit" where
  "validate_operation (AddFile p s) = and_then (validate_relative_path p ''path'') (\<lambda>_. validate_content_size s)"
| "validate_operation (UpdateFile p s) = and_then (validate_relative_path p ''path'') (\<lambda>_. validate_content_size s)"
| "validate_operation (DeleteFile p) = validate_relative_path p ''path''"
| "validate_operation (MoveFile p q) =
     and_then (validate_relative_path p ''from'') (\<lambda>_. validate_relative_path q ''to'')"

definition parse_patch_request :: "patch_env \<Rightarrow> json \<Rightarrow> tool_error + patch_operation list" where
  "parse_patch_request env args =
     (case penv_decode env args of
        Inl e \<Rightarrow> Err (InvalidArgs (''invalid request: '' @ e))
      | Inr ops \<Rightarrow>
          if ops = [] then Err (InvalidArgs ''`operations` cannot be empty'')
          else if MAX_PATCH_OPERATIONS < length ops then Err (InvalidArgs ''`operations` must be <= 50'')
          else and_then (collect_results (map validate_operation ops)) (\<lambda>_. Ok ops))"

section \<open>The workspace and its paths\<close>

text \<open>A path name given to the system: relative names start in the working directory.\<close>

definition system_path :: "patch_env \<Rightarrow> string \<Rightarrow> path" where
  "system_path env s = (if is_absolute s then path_components s else penv_cwd env @ path_components s)"

definition resolve_patch_data_workspace :: "patch_env \<Rightarrow> string option \<Rightarrow> file_system \<Rightarrow>
    (tool_error + path) \<times> file_system" where
  "resolve_patch_data_workspace env storage_root fs =
     (case (case nonempty_trimmed storage_root of
              Some root \<Rightarrow> Ok root
            | None \<Rightarrow> ok_or (penv_data_dir env) (ExecutionFailed ''failed to resolve home dir'')) of
        Inl e \<Rightarrow> (Err e, fs)
      | Inr root \<Rightarrow>
          (let workspace = path_join root ''workspace''
           in case create_dir_all (system_path env workspace) fs of
                (Inl e, fs') \<Rightarrow>
                  (Err (ExecutionFailed (''failed to ensure data workspace `'' @ workspace @ ''`: '' @ io_error_to_string e)), fs')
              | (Inr _, fs') \<Rightarrow>
                  (case canonicalize fs' (system_path env workspace) of
                     Inl e \<Rightarrow>
                       (Err (ExecutionFailed (''failed to resolve data workspace `'' @ workspace @ ''`: '' @ io_error_to_string e)), fs')
                   | Inr p \<Rightarrow> (Ok p, fs'))))"

definition resolve_patch_workspace_base :: "patch_env \<Rightarrow> apply_patch_tool \<Rightarrow> tool_context \<Rightarrow> file_system \<Rightarrow>
    (tool_error + path) \<times> file_system" where
  "resolve_patch_workspace_base env tool ctx fs =
     (case Option.bind (bt_get (ctx_metadata ctx) ''workspace'') as_str of
        Some w \<Rightarrow>
          (case canonicalize fs (system_path env w) of
             Inl e \<Rightarrow> (Err (ExecutionFailed (''invalid workspace path: '' @ io_error_to_string e)), fs)
           | Inr p \<Rightarrow> (Ok p, fs))
      | None \<Rightarrow>
          (case patch_workspace (patch_config tool) of
             Some w \<Rightarrow>
               (case canonicalize fs (system_path env w) of
                  Inl e \<Rightarrow> (Err (ExecutionFailed (''invalid apply_patch workspace path: '' @ io_error_to_string e)), fs)
                | Inr p \<Rightarrow> (Ok p, fs))
           | None \<Rightarrow> resolve_patch_data_workspace env (patch_storage_root_dir tool) fs))"

text \<open>The loop to the nearest ancestor that exists; the root always does.\<close>

function existing_ancestor :: "file_system \<Rightarrow> path \<Rightarrow> path option" where
  "existing_ancestor fs p =
     (if path_exists_in fs p then Some p else if p = [] then None else existing_ancestor fs (butlast p))"
  by pat_completeness auto
termination by (relation "measure (\<lambda>(_, p). length p)") auto

declare existing_ancestor.simps [simp del]

definition candidate_path :: "path \<Rightarrow> string \<Rightarrow> path" where
  "candidate_path base input =
     (if is_absolute (trim input) then path_components (trim input) else base @ path_components (trim input))"

definition resolve_candidate_path :: "file_system \<Rightarrow> path \<Rightarrow> string \<Rightarrow> tool_error + path" where
  "resolve_candidate_path fs base input =
     (let candidate = candidate_path base input
      in if path_exists_in fs candidate
         then (case canonicalize fs candidate of
                 Inl e \<Rightarrow> Err (ExecutionFailed (''failed to resolve path `'' @ display_path candidate @ ''`: '' @ io_error_to_string e))
               | Inr p \<Rightarrow> Ok p)
         else (case existing_ancestor fs candidate of
                 None \<Rightarrow> Err (ExecutionFailed (''invalid path `'' @ display_path candidate @ ''`''))
               | Some ancestor \<Rightarrow>
                   (case canonicalize fs ancestor of
                      Inl e \<Rightarrow> Err (ExecutionFailed (''failed to resolve ancestor path `'' @ display_path ancestor @ ''`: ''
                                 @ io_error_to_string e))
                    | Inr p \<Rightarrow> Ok (p @ drop (length ancestor) candidate))))"

definition resolve_allowed_root :: "file_system \<Rightarrow> path \<Rightarrow> string \<Rightarrow> tool_error + path" where
  "resolve_allowed_root fs base root =
     (let target = candidate_path base root
      in case canonicalize fs target of
           Inl e \<Rightarrow> Err (ExecutionFailed (''invalid apply_patch allowed root `'' @ display_path target @ ''`: '' @ io_error_to_string e))
         | Inr p \<Rightarrow> Ok p)"

fun in_allowed_roots :: "file_system \<Rightarrow> path \<Rightarrow> string list \<Rightarrow> path \<Rightarrow> tool_error + bool" where
  "in_allowed_roots fs base [] p = Ok False"
| "in_allowed_roots fs base (root # roots) p =
     and_then (resolve_allowed_root fs base root) (\<lambda>allowed.
       if path_starts_with p allowed then Ok True else in_allowed_roots fs base roots p)"

text \<open>A resolved path is always absolute.\<close>

definition is_allowed_path :: "file_system \<Rightarrow> apply_patch_config \<Rightarrow> path \<Rightarrow> path \<Rightarrow> tool_error + bool" where
  "is_allowed_path fs cfg base p =
     (if path_starts_with p base then Ok True
      else if allow_absolute_paths cfg then Ok True
      else in_allowed_roots fs base (allowed_roots cfg) p)"

definition resolve_workspace_path :: "file_system \<Rightarrow> apply_patch_config \<Rightarrow> path \<Rightarrow> bool \<Rightarrow> string \<Rightarrow> tool_error + path" where
  "resolve_workspace_path fs cfg base approval_granted input =
     and_then (resolve_candidate_path fs base input) (\<lambda>candidate.
       if approval_granted then Ok candidate
       else and_then (is_allowed_path fs cfg base candidate) (\<lambda>ok.
         if ok then Ok candidate
         else Err (ExecutionFailed (''path `'' @ display_path candidate @ ''` is not allowed by apply_patch policy''))))"

fun resolve_operation :: "file_system \<Rightarrow> apply_patch_config \<Rightarrow> path \<Rightarrow> bool \<Rightarrow> patch_operation \<Rightarrow>
    tool_error + resolved_patch_operation" where
  "resolve_operation fs cfg base granted (AddFile p s) =
     and_then (resolve_workspace_path fs cfg base granted p) (\<lambda>q. Ok (ResolvedAddFile q s))"
| "resolve_operation fs cfg base granted (UpdateFile p s) =
     and_then (resolve_workspace_path fs cfg base granted p) (\<lambda>q. Ok (ResolvedUpdateFile q s))"
| "resolve_operation fs cfg base granted (DeleteFile p) =
     and_then (resolve_workspace_path fs cfg base granted p) (\<lambda>q. Ok (ResolvedDeleteFile q))"
| "resolve_operation fs cfg base granted (MoveFile p_from p_to) =
     and_then (resolve_workspace_path fs cfg base granted p_from) (\<lambda>q_from.
     and_then (resolve_workspace_path fs cfg base granted p_to) (\<lambda>q_to. Ok (ResolvedMoveFile q_from q_to)))"

definition resolve_operations :: "file_system \<Rightarrow> apply_patch_config \<Rightarrow> path \<Rightarrow> patch_operation list \<Rightarrow> bool \<Rightarrow>
    tool_error + resolved_patch_operation list" where
  "resolve_operations fs cfg base ops granted = collect_results (map (resolve_operation fs cfg base granted) ops)"

fun operation_paths :: "patch_operation \<Rightarrow> string list" where
  "operation_paths (AddFile p _) = [p]"
| "operation_paths (UpdateFile p _) = [p]"
| "operation_paths (DeleteFile p) = [p]"
| "operation_paths (MoveFile p q) = [p, q]"

fun unauthorized_of :: "file_system \<Rightarrow> apply_patch_config \<Rightarrow> path \<Rightarrow> string list \<Rightarrow> tool_error + path list" where
  "unauthorized_of fs cfg base [] = Ok []"
| "unauthorized_of fs cfg base (raw # raws) =
     and_then (resolve_candidate_path fs base raw) (\<lambda>p.
     and_then (is_allowed_path fs cfg base p) (\<lambda>ok.
     and_then (unauthorized_of fs cfg base raws) (\<lambda>ps. Ok (if ok then ps else p # ps))))"

text \<open>\<^verbatim>\<open>BTreeSet\<close>: without repetitions and in order.\<close>

definition collect_unauthorized_paths :: "file_system \<Rightarrow> apply_patch_config \<Rightarrow> path \<Rightarrow> patch_operation list \<Rightarrow>
    tool_error + path list" where
  "collect_unauthorized_paths fs cfg base ops =
     and_then (unauthorized_of fs cfg base (concat (map operation_paths ops))) (\<lambda>ps.
       Ok (sort_key path_order (remdups ps)))"

section \<open>Approval\<close>

fun operation_summary :: "patch_operation \<Rightarrow> string" where
  "operation_summary (AddFile p _) = ''add_file:'' @ p"
| "operation_summary (UpdateFile p _) = ''update_file:'' @ p"
| "operation_summary (DeleteFile p) = ''delete_file:'' @ p"
| "operation_summary (MoveFile p q) = ''move_file:'' @ p @ ''->'' @ q"

definition request_preview :: "patch_operation list \<Rightarrow> string" where
  "request_preview ops =
     (let extra = length ops - 3;
          preview = join '', '' (take 3 (map operation_summary ops))
      in if extra = 0 then preview else preview @ '', +'' @ show_nat extra @ '' more'')"

definition patch_approval_input :: "string \<Rightarrow> string \<Rightarrow> string \<Rightarrow> approval_create_input" where
  "patch_approval_input session preview hash =
     \<lparr>in_session_key = session, in_tool_name = ''apply_patch'', in_command_text = preview,
      in_command_preview = Some preview, in_command_hash = Some hash,
      in_risk_level = Some ''outside_workspace'', in_requested_by = Some ''agent'', in_justification = None,
      in_expires_in_minutes = Some 10\<rparr>"

definition patch_approval_required_error :: "string \<Rightarrow> string list \<Rightarrow> approval_record \<Rightarrow> tool_error" where
  "patch_approval_required_error session unauthorized r =
     StructuredExecutionFailed
       (''This apply_patch request writes outside the allowed workspace and requires approval.'' @ [CHR 0x0A]
          @ ''Approval ID: '' @ ap_id r @ [CHR 0x0A] @ ''Paths: '' @ join '', '' unauthorized @ [CHR 0x0A]
          @ ''After approval, retry the same tool call with metadata `apply_patch.approval_id` set to this ID.'')
       ''approval_required''
       (Some (JObject (object_of
          [(''approval_id'', JString (ap_id r)), (''tool_name'', JString ''apply_patch''),
           (''session_key'', JString session), (''risk_level'', JString ''outside_workspace''),
           (''command_preview'', JString (ap_command_preview r)), (''command_hash'', JString (ap_command_hash r)),
           (''expires_at_ms'', json_of_i64 (ap_expires_at_ms r)),
           (''unauthorized_paths'', JArray (map JString unauthorized))])))
       True
       [approval_required_signal (ap_id r) ''apply_patch'' session (Some ''outside_workspace'') (Some (ap_command_preview r))]"

definition patch_approved_via_flag :: "json_map \<Rightarrow> bool" where
  "patch_approved_via_flag metadata =
     unwrap_or (Option.bind (bt_get metadata ''apply_patch.approved'') as_bool) False"

text \<open>The approval that the caller names, then the latest one for the request.\<close>

definition consume_named_patch :: "string option \<Rightarrow> string \<Rightarrow> string \<Rightarrow> int \<Rightarrow> approval_table \<Rightarrow>
    (tool_error + bool) \<times> approval_table" where
  "consume_named_patch named session hash now t =
     (case named of
        None \<Rightarrow> (Ok False, t)
      | Some i \<Rightarrow>
          (case consume_tool_approval i ''apply_patch'' session hash now t of
             (Inl e, t') \<Rightarrow> (Err (ExecutionFailed (''failed to validate approval `'' @ i @ ''`: ''
                                @ approval_error_to_string e)), t')
           | (Inr b, t') \<Rightarrow> (Ok b, t')))"

definition consume_any_patch :: "string \<Rightarrow> string \<Rightarrow> int \<Rightarrow> approval_table \<Rightarrow> (tool_error + bool) \<times> approval_table" where
  "consume_any_patch session hash now t =
     (case consume_latest_tool_approval ''apply_patch'' session hash now t of
        (Inl e, t') \<Rightarrow> (Err (ExecutionFailed (''failed to consume approved apply_patch request for session `'' @ session
                           @ ''`: '' @ approval_error_to_string e)), t')
      | (Inr b, t') \<Rightarrow> (Ok b, t'))"

definition request_patch_approval :: "patch_env \<Rightarrow> string \<Rightarrow> patch_operation list \<Rightarrow> string list \<Rightarrow> approval_table \<Rightarrow>
    tool_error \<times> approval_table" where
  "request_patch_approval env session ops unauthorized t =
     (case create_approval (penv_sha256 env) (penv_fresh env) (penv_now env)
             (patch_approval_input session (request_preview ops) (penv_hash env ops)) t of
        (Inl e, t') \<Rightarrow> (ExecutionFailed (''failed to create approval: '' @ approval_error_to_string e), t')
      | (Inr r, t') \<Rightarrow> (patch_approval_required_error session unauthorized r, t'))"

text \<open>The result is whether an approval was given.\<close>

definition check_patch_approval :: "patch_env \<Rightarrow> apply_patch_tool \<Rightarrow> file_system \<Rightarrow> path \<Rightarrow> patch_operation list \<Rightarrow>
    tool_context \<Rightarrow> approval_table \<Rightarrow> (tool_error + bool) \<times> approval_table" where
  "check_patch_approval env tool fs base ops ctx t =
     (case collect_unauthorized_paths fs (patch_config tool) base ops of
        Inl e \<Rightarrow> (Err e, t)
      | Inr ps \<Rightarrow>
          if ps = [] then (Ok False, t)
          else if patch_approved_via_flag (ctx_metadata ctx) then (Ok True, t)
          else if \<not> patch_has_manager tool
          then (Err (ExecutionFailed (''This apply_patch request writes outside the allowed workspace and requires approval. Unauthorized paths: ''
                  @ join '', '' (map display_path ps) @ ''. Retry with approval metadata once it has been granted.'')), t)
          else
            (let hash = penv_hash env ops;
                 named = Option.bind (bt_get (ctx_metadata ctx) ''apply_patch.approval_id'') as_str
             in case consume_named_patch named (ctx_session_key ctx) hash (penv_now env) t of
                  (Inl e, t1) \<Rightarrow> (Inl e, t1)
                | (Inr True, t1) \<Rightarrow> (Ok True, t1)
                | (Inr False, t1) \<Rightarrow>
                    (case consume_any_patch (ctx_session_key ctx) hash (penv_now env) t1 of
                       (Inl e, t2) \<Rightarrow> (Inl e, t2)
                     | (Inr True, t2) \<Rightarrow> (Ok True, t2)
                     | (Inr False, t2) \<Rightarrow>
                         (let (e, t3) = request_patch_approval env (ctx_session_key ctx) ops (map display_path ps) t2
                          in (Inl e, t3)))))"

section \<open>Checking and applying\<close>

type_synonym known_state = "(path, bool) btree_map"

text \<open>Whether a path is a file after the operations already checked.\<close>

definition path_exists :: "file_system \<Rightarrow> path \<Rightarrow> known_state \<Rightarrow> bool" where
  "path_exists fs p known = (case bt_get known p of Some b \<Rightarrow> b | None \<Rightarrow> is_file fs p)"

fun validate_operations :: "file_system \<Rightarrow> known_state \<Rightarrow> resolved_patch_operation list \<Rightarrow> tool_error + unit" where
  "validate_operations fs known [] = Ok ()"
| "validate_operations fs known (ResolvedAddFile p s # ops) =
     (if path_exists fs p known
      then Err (ExecutionFailed (''add_file failed: `'' @ display_path p @ ''` already exists''))
      else validate_operations fs (bt_insert p True known) ops)"
| "validate_operations fs known (ResolvedUpdateFile p s # ops) =
     (if \<not> path_exists fs p known
      then Err (ExecutionFailed (''update_file failed: `'' @ display_path p @ ''` is not a file''))
      else validate_operations fs known ops)"
| "validate_operations fs known (ResolvedDeleteFile p # ops) =
     (if \<not> path_exists fs p known
      then Err (ExecutionFailed (''delete_file failed: `'' @ display_path p @ ''` is not a file''))
      else validate_operations fs (bt_insert p False known) ops)"
| "validate_operations fs known (ResolvedMoveFile p q # ops) =
     (if \<not> path_exists fs p known
      then Err (ExecutionFailed (''move_file failed: source `'' @ display_path p @ ''` is not a file''))
      else if path_exists fs q known
      then Err (ExecutionFailed (''move_file failed: target `'' @ display_path q @ ''` already exists''))
      else validate_operations fs (bt_insert q True (bt_insert p False known)) ops)"

text \<open>\<^verbatim>\<open>if let Some(parent) = path.parent()\<close>: the root has none.\<close>

definition create_parent_dirs :: "path \<Rightarrow> file_system \<Rightarrow> (tool_error + unit) \<times> file_system" where
  "create_parent_dirs p fs =
     (if p = [] then (Ok (), fs)
      else case create_dir_all (butlast p) fs of
             (Inl e, fs') \<Rightarrow>
               (Err (ExecutionFailed (''failed to create parent dirs `'' @ display_path (butlast p) @ ''`: '' @ io_error_to_string e)), fs')
           | (Inr _, fs') \<Rightarrow> (Ok (), fs'))"

text \<open>One call of the system: its error with a message, or the new file system and the line of the
  summary.\<close>

definition fs_step :: "(io_error + file_system) \<Rightarrow> string \<Rightarrow> string \<Rightarrow> file_system \<Rightarrow> (tool_error + string) \<times> file_system" where
  "fs_step r failure line fs =
     (case r of
        Inl e \<Rightarrow> (Err (ExecutionFailed (failure @ '': '' @ io_error_to_string e)), fs)
      | Inr fs' \<Rightarrow> (Ok line, fs'))"

fun apply_operation :: "resolved_patch_operation \<Rightarrow> file_system \<Rightarrow> (tool_error + string) \<times> file_system" where
  "apply_operation (ResolvedAddFile p s) fs =
     (case create_parent_dirs p fs of
        (Inl e, fs1) \<Rightarrow> (Err e, fs1)
      | (Inr _, fs1) \<Rightarrow>
          fs_step (write_file p s fs1) (''failed to create `'' @ display_path p @ ''`'') (''add_file '' @ display_path p) fs1)"
| "apply_operation (ResolvedUpdateFile p s) fs =
     fs_step (write_file p s fs) (''failed to update `'' @ display_path p @ ''`'') (''update_file '' @ display_path p) fs"
| "apply_operation (ResolvedDeleteFile p) fs =
     fs_step (remove_file p fs) (''failed to delete `'' @ display_path p @ ''`'') (''delete_file '' @ display_path p) fs"
| "apply_operation (ResolvedMoveFile p q) fs =
     (case create_parent_dirs q fs of
        (Inl e, fs1) \<Rightarrow> (Err e, fs1)
      | (Inr _, fs1) \<Rightarrow>
          fs_step (rename_file p q fs1) (''failed to move `'' @ display_path p @ ''` -> `'' @ display_path q @ ''`'')
            (''move_file '' @ display_path p @ '' -> '' @ display_path q) fs1)"

fun apply_operations :: "resolved_patch_operation list \<Rightarrow> file_system \<Rightarrow> (tool_error + string list) \<times> file_system" where
  "apply_operations [] fs = (Ok [], fs)"
| "apply_operations (op # ops) fs =
     (case apply_operation op fs of
        (Inl e, fs') \<Rightarrow> (Err e, fs')
      | (Inr line, fs') \<Rightarrow>
          (case apply_operations ops fs' of
             (Inl e, fs'') \<Rightarrow> (Err e, fs'')
           | (Inr lines, fs'') \<Rightarrow> (Ok (line # lines), fs'')))"

definition apply_patch :: "apply_patch_config \<Rightarrow> path \<Rightarrow> patch_operation list \<Rightarrow> bool \<Rightarrow> file_system \<Rightarrow>
    (tool_error + patch_result) \<times> file_system" where
  "apply_patch cfg base ops granted fs =
     (case and_then (resolve_operations fs cfg base ops granted) (\<lambda>resolved.
             and_then (validate_operations fs [] resolved) (\<lambda>_. Ok resolved)) of
        Inl e \<Rightarrow> (Err e, fs)
      | Inr resolved \<Rightarrow>
          (case apply_operations resolved fs of
             (Inl e, fs') \<Rightarrow> (Err e, fs')
           | (Inr lines, fs') \<Rightarrow>
               (Ok \<lparr>pr_action = ''apply_patch'', operations_applied = length lines, pr_summary = lines\<rparr>, fs')))"

definition patch_execute :: "patch_env \<Rightarrow> apply_patch_tool \<Rightarrow> json \<Rightarrow> tool_context \<Rightarrow> approval_table \<times> file_system \<Rightarrow>
    (tool_error + tool_output) \<times> approval_table \<times> file_system" where
  "patch_execute env tool args ctx st =
     (let (t, fs) = st
      in case parse_patch_request env args of
           Inl e \<Rightarrow> (Err e, t, fs)
         | Inr ops \<Rightarrow>
             (case resolve_patch_workspace_base env tool ctx fs of
                (Inl e, fs1) \<Rightarrow> (Err e, t, fs1)
              | (Inr base, fs1) \<Rightarrow>
                  (case check_patch_approval env tool fs1 base ops ctx t of
                     (Inl e, t1) \<Rightarrow> (Err e, t1, fs1)
                   | (Inr granted, t1) \<Rightarrow>
                       (case apply_patch (patch_config tool) base ops granted fs1 of
                          (Inl e, fs2) \<Rightarrow> (Err e, t1, fs2)
                        | (Inr result, fs2) \<Rightarrow>
                            (let text = penv_pretty env result
                             in (Ok \<lparr>output_for_model = text, output_for_user = Some text, output_media = [],
                                     output_signals = []\<rparr>, t1, fs2))))))"

end
