(* ===== verification/File_Tree.thy ===== *)
theory File_Tree
  imports File_System
begin

text \<open>
  What the operations of \<^verbatim>\<open>File_System\<close> do to the tree: they keep it well formed and keep its
  directories, whatever path they are given; and on a path without links and \<^verbatim>\<open>..\<close> they act on
  exactly the entry that the path spells.
\<close>

section \<open>Components\<close>

lemma split_char_parts: "w \<in> set (split_char c s) \<Longrightarrow> c \<notin> set w \<and> set w \<subseteq> set s"
  by (induction s arbitrary: w) (fastforce split: if_splits list.splits)+

lemma split_char_join: "ws \<noteq> [] \<Longrightarrow> \<forall>w \<in> set ws. c \<notin> set w \<Longrightarrow> split_char c (join [c] ws) = ws"
proof (induction ws rule: induct_list012)
  case (3 w v ws)
  then show ?case using split_char_append [of c w "join [c] (v # ws)"] by simp
qed (simp_all add: split_char_no_sep)

lemma path_components_names:
  "w \<in> set (path_components p) \<Longrightarrow> w \<noteq> [] \<and> w \<noteq> ''.'' \<and> CHR ''/'' \<notin> set w \<and> set w \<subseteq> set p"
  using split_char_parts by (auto simp: path_components_def)

lemma path_components_join: "path_components (join ''/'' (path_components p)) = path_components p"
proof (cases "path_components p = []")
  case False
  then have "split_char (CHR ''/'') (join ''/'' (path_components p)) = path_components p"
    using split_char_join [of "path_components p" "CHR ''/''"] path_components_names by blast
  then show ?thesis unfolding path_components_def [of "join _ _"] using path_components_names by (simp add: filter_id_conv)
next
  case True
  then show ?thesis by (simp add: path_components_def)
qed

lemma set_join: "set (join sep ws) \<subseteq> set sep \<union> \<Union> (set ` set ws)"
  by (induction sep ws rule: join.induct) auto

section \<open>Well-formed trees\<close>

definition plain :: "path \<Rightarrow> bool" where
  "plain p \<longleftrightarrow> ''..'' \<notin> set p"

lemma plain_simps [simp]:
  "plain []" "plain (c # p) \<longleftrightarrow> c \<noteq> ''..'' \<and> plain p" "plain (p @ q) \<longleftrightarrow> plain p \<and> plain q"
  by (auto simp: plain_def)

lemma plain_butlast: "plain p \<Longrightarrow> plain (butlast p)"
  unfolding plain_def by (metis in_set_butlastD)

text \<open>Every entry has a plain path and stands in a directory.\<close>

definition tree_ok :: "file_system \<Rightarrow> bool" where
  "tree_ok fs \<longleftrightarrow>
     (\<forall>p node. bt_get fs p = Some node \<longrightarrow> p \<noteq> [] \<and> plain p \<and> node_at fs (butlast p) = Some Directory)"

lemma node_at_root [simp]: "node_at fs [] = Some Directory"
  by (simp add: node_at_def)

lemma node_at_snoc [simp]: "node_at fs (p @ [c]) = bt_get fs (p @ [c])"
  by (simp add: node_at_def)

lemma node_at_nonempty: "p \<noteq> [] \<Longrightarrow> node_at fs p = bt_get fs p"
  by (simp add: node_at_def)

lemma tree_ok_root: "tree_ok fs \<Longrightarrow> bt_get fs [] = None"
  unfolding tree_ok_def by (metis option.exhaust)

lemma tree_ok_plain: "tree_ok fs \<Longrightarrow> node_at fs p = Some node \<Longrightarrow> plain p"
  by (cases "p = []") (auto simp: tree_ok_def node_at_def)

lemma tree_ok_parent: "tree_ok fs \<Longrightarrow> p \<noteq> [] \<Longrightarrow> node_at fs p \<noteq> None \<Longrightarrow> node_at fs (butlast p) = Some Directory"
  by (auto simp: tree_ok_def node_at_nonempty)

text \<open>All directories above an existing entry.\<close>

lemma tree_ok_ancestor:
  assumes "tree_ok fs" and "node_at fs p \<noteq> None" and "strict_prefix q p"
  shows "node_at fs q = Some Directory"
  using assms(2,3)
proof (induction p rule: rev_induct)
  case (snoc c p)
  have dir: "node_at fs p = Some Directory" using tree_ok_parent [OF assms(1) _ snoc.prems(1)] by simp
  show ?case
  proof (cases "q = p")
    case False
    then have "strict_prefix q p" using snoc.prems(2) by (auto simp: strict_prefix_def prefix_order.less_le)
    then show ?thesis using snoc.IH dir by simp
  qed (use dir in simp)
qed simp

text \<open>A change of one entry that is not a directory.\<close>

lemma tree_ok_insert:
  assumes "tree_ok fs" and "q \<noteq> []" "plain q" and "node_at fs (butlast q) = Some Directory"
    and "node_at fs q \<noteq> Some Directory"
  shows "tree_ok (bt_insert q node fs)"
proof -
  have keep: "node_at (bt_insert q node fs) d = Some Directory" if "node_at fs d = Some Directory" for d
    using that assms(5) by (auto simp: node_at_def)
  show ?thesis
    unfolding tree_ok_def
  proof (intro allI impI)
    fix p n assume "bt_get (bt_insert q node fs) p = Some n"
    then consider "p = q" | "bt_get fs p = Some n" by (auto split: if_splits)
    then show "p \<noteq> [] \<and> plain p \<and> node_at (bt_insert q node fs) (butlast p) = Some Directory"
      using assms(1-4) keep by cases (auto simp: tree_ok_def)
  qed
qed

lemma tree_ok_remove:
  assumes "tree_ok fs" and "node_at fs q \<noteq> Some Directory"
  shows "tree_ok (bt_remove q fs)"
proof -
  have keep: "node_at (bt_remove q fs) d = Some Directory" if "node_at fs d = Some Directory" for d
    using that assms(2) by (auto simp: node_at_def)
  then show ?thesis using assms(1) by (auto simp: tree_ok_def split: if_splits)
qed

section \<open>Resolution\<close>

text \<open>What resolution returns: an existing entry, or a missing one in a directory.\<close>

definition reached :: "bool \<Rightarrow> file_system \<Rightarrow> path \<Rightarrow> bool" where
  "reached create fs q \<longleftrightarrow> plain q \<and>
     (case node_at fs q of
        None \<Rightarrow> create \<and> q \<noteq> [] \<and> node_at fs (butlast q) = Some Directory
      | Some (Symlink _) \<Rightarrow> False
      | Some _ \<Rightarrow> True)"

lemma reached_dir: "plain d \<Longrightarrow> node_at fs d = Some Directory \<Longrightarrow> reached create fs d"
  by (simp add: reached_def)

lemma parent_of_dir:
  "tree_ok fs \<Longrightarrow> node_at fs d = Some Directory \<Longrightarrow> node_at fs (butlast d) = Some Directory"
  by (cases "d = []") (auto intro: tree_ok_parent)

lemma walk_reached:
  assumes "walk create k fs at rest = Ok q" and "node_at fs at = Some Directory" and "tree_ok fs"
  shows "reached create fs q"
  using assms
proof (induction create k fs at rest rule: walk.induct)
  case (1 create k fs at)
  then show ?case by (auto intro: reached_dir tree_ok_plain)
next
  case (2 create k fs at c rest)
  have at: "plain at" using 2 tree_ok_plain by blast
  show ?case
  proof (cases "c = ''..''")
    case True
    then show ?thesis using 2 parent_of_dir by simp
  next
    case dots: False
    show ?thesis
    proof (cases "bt_get fs (at @ [c])")
      case None
      then show ?thesis using 2 dots at by (auto simp: reached_def split: if_splits)
    next
      case (Some node)
      then show ?thesis
      proof (cases node)
        case Directory
        then show ?thesis using 2 Some dots by simp
      next
        case (RegularFile s)
        then show ?thesis using 2 Some dots at by (auto simp: reached_def split: if_splits)
      next
        case (Symlink target)
        then show ?thesis using 2 Some dots by (auto split: if_splits)
      qed
    qed
  qed
qed

lemma canonical_reached: "tree_ok fs \<Longrightarrow> canonicalize fs p = Ok q \<Longrightarrow> reached False fs q"
  unfolding canonicalize_def using walk_reached by fastforce

lemma entry_path_reached:
  assumes "tree_ok fs" and "entry_path fs p = Ok q"
  shows "plain q" and "q \<noteq> [] \<Longrightarrow> node_at fs (butlast q) = Some Directory"
proof -
  consider "canonicalize fs p = Ok q"
    | d where "p \<noteq> []" "last p \<noteq> ''..''" "canonicalize fs (butlast p) = Ok d" "node_at fs d = Some Directory" "q = d @ [last p]"
    using assms(2) by (auto simp: entry_path_def and_then_Ok_iff split: if_splits)
  then have "plain q \<and> (q \<noteq> [] \<longrightarrow> node_at fs (butlast q) = Some Directory)"
  proof cases
    case 1
    then have "reached False fs q" using canonical_reached assms(1) by blast
    then show ?thesis using tree_ok_parent [OF assms(1)] by (auto simp: reached_def split: option.splits)
  next
    case 2
    then show ?thesis using canonical_reached [OF assms(1) 2(3)] by (auto simp: reached_def)
  qed
  then show "plain q" "q \<noteq> [] \<Longrightarrow> node_at fs (butlast q) = Some Directory" by blast+
qed

section \<open>The operations keep the tree\<close>

text \<open>A step of the tree: it stays well formed and its directories stay.\<close>

definition tree_step :: "file_system \<Rightarrow> file_system \<Rightarrow> bool" where
  "tree_step fs fs' \<longleftrightarrow> (tree_ok fs \<longrightarrow> tree_ok fs') \<and>
     (tree_ok fs \<longrightarrow> (\<forall>d. node_at fs d = Some Directory \<longrightarrow> node_at fs' d = Some Directory))"

lemma tree_step_refl [simp]: "tree_step fs fs"
  by (simp add: tree_step_def)

lemma tree_step_trans: "tree_step fs fs1 \<Longrightarrow> tree_step fs1 fs2 \<Longrightarrow> tree_step fs fs2"
  by (simp add: tree_step_def)

lemma tree_step_ok: "tree_step fs fs' \<Longrightarrow> tree_ok fs \<Longrightarrow> tree_ok fs'"
  by (simp add: tree_step_def)

lemma tree_step_dir: "tree_step fs fs' \<Longrightarrow> tree_ok fs \<Longrightarrow> node_at fs d = Some Directory \<Longrightarrow> node_at fs' d = Some Directory"
  by (simp add: tree_step_def)

lemma tree_step_insert:
  "tree_ok fs \<Longrightarrow> q \<noteq> [] \<Longrightarrow> plain q \<Longrightarrow> node_at fs (butlast q) = Some Directory \<Longrightarrow> node_at fs q \<noteq> Some Directory \<Longrightarrow>
   tree_step fs (bt_insert q node fs)"
  using tree_ok_insert by (auto simp: tree_step_def node_at_def)

lemma tree_step_remove: "node_at fs q \<noteq> Some Directory \<Longrightarrow> tree_step fs (bt_remove q fs)"
  using tree_ok_remove by (auto simp: tree_step_def node_at_def)

lemma tree_stepI: "(tree_ok fs \<Longrightarrow> tree_step fs fs') \<Longrightarrow> tree_step fs fs'"
  by (simp add: tree_step_def)

lemma mkdir_step: "mkdir p fs = Ok fs' \<Longrightarrow> tree_step fs fs'"
  by (rule tree_stepI) (auto simp: mkdir_def and_then_Ok_iff node_at_def dest: entry_path_reached
      split: if_splits intro!: tree_step_insert)

lemma mkdir_or_dir_step: "tree_step fs (snd (mkdir_or_dir p fs))"
  by (auto simp: mkdir_or_dir_def mkdir_step split: sum.splits)

lemma create_dir_all_step: "tree_step fs (snd (create_dir_all p fs))"
proof (induction p fs rule: create_dir_all.induct)
  case (1 p fs)
  show ?case
  proof (cases "p \<noteq> [] \<and> mkdir p fs = Err NotFound")
    case True
    obtain r fs1 where parent: "create_dir_all (butlast p) fs = (r, fs1)" by fastforce
    have "tree_step fs fs1" using "1.IH" [OF True] parent by simp
    then show ?thesis
      using True parent mkdir_or_dir_step [of fs1 p]
      by (cases r) (auto simp: create_dir_all.simps [of p fs] intro: tree_step_trans)
  qed (auto simp: create_dir_all.simps [of p fs] mkdir_or_dir_step)
qed

lemma write_file_step: "write_file p s fs = Ok fs' \<Longrightarrow> tree_step fs fs'"
proof (rule tree_stepI)
  assume "write_file p s fs = Ok fs'" and ok: "tree_ok fs"
  then obtain q where q: "walk True max_links fs [] p = Ok q" "node_at fs q \<noteq> Some Directory" "fs' = bt_insert q (RegularFile s) fs"
    by (auto simp: write_file_def and_then_Ok_iff split: if_splits)
  have "reached True fs q" using walk_reached [OF q(1) _ ok] by simp
  moreover have "q \<noteq> []" using q(2) by auto
  ultimately show "tree_step fs fs'"
    using q tree_ok_parent [OF ok] by (auto simp: reached_def intro!: tree_step_insert ok split: option.splits)
qed

lemma remove_file_Ok:
  assumes "remove_file p fs = Ok fs'"
  obtains q node where "entry_path fs p = Ok q" "node_at fs q = Some node" "node \<noteq> Directory" "fs' = bt_remove q fs"
  using assms unfolding remove_file_def and_then_Ok_iff
  by (elim exE conjE) (auto split: option.split_asm fs_node.split_asm)

lemma rename_file_Ok:
  assumes "rename_file p q fs = Ok fs'"
  obtains a b node where "entry_path fs p = Ok a" "entry_path fs q = Ok b" "node_at fs a = Some node"
      "node \<noteq> Directory" "node_at fs b \<noteq> Some Directory" "fs' = bt_insert b node (bt_remove a fs)"
  using assms unfolding rename_file_def and_then_Ok_iff
  by (elim exE conjE) (auto split: option.split_asm fs_node.split_asm if_split_asm)

lemma remove_file_step: "remove_file p fs = Ok fs' \<Longrightarrow> tree_step fs fs'"
  by (erule remove_file_Ok) (simp add: tree_step_remove)

lemma rename_file_step: "rename_file p q fs = Ok fs' \<Longrightarrow> tree_step fs fs'"
proof (rule tree_stepI)
  assume "rename_file p q fs = Ok fs'" and ok: "tree_ok fs"
  then obtain a b node where e: "entry_path fs p = Ok a" "entry_path fs q = Ok b" "node_at fs a = Some node"
      "node \<noteq> Directory" "node_at fs b \<noteq> Some Directory" "fs' = bt_insert b node (bt_remove a fs)"
    by (elim rename_file_Ok)
  have step: "tree_step fs (bt_remove a fs)" using e(3,4) by (simp add: tree_step_remove)
  have "b \<noteq> []" using e(5) by auto
  then have "node_at (bt_remove a fs) (butlast b) = Some Directory"
    using tree_step_dir [OF step ok] entry_path_reached [OF ok e(2)] by blast
  moreover have "node_at (bt_remove a fs) b \<noteq> Some Directory" using e(5) by (auto simp: node_at_def)
  ultimately have "tree_step (bt_remove a fs) fs'"
    unfolding e(6) using \<open>b \<noteq> []\<close> entry_path_reached [OF ok e(2)] tree_step_ok [OF step ok]
    by (intro tree_step_insert) auto
  then show "tree_step fs fs'" using step by (rule tree_step_trans [rotated])
qed

section \<open>Paths without links\<close>

text \<open>A path that spells the entry it names: no \<^verbatim>\<open>..\<close>, and no link on the way.\<close>

definition sound_path :: "file_system \<Rightarrow> path \<Rightarrow> bool" where
  "sound_path fs p \<longleftrightarrow> plain p \<and> (\<forall>q t. prefix q p \<longrightarrow> bt_get fs q \<noteq> Some (Symlink t))"

lemma sound_path_prefix: "sound_path fs p \<Longrightarrow> prefix q p \<Longrightarrow> sound_path fs q"
  unfolding sound_path_def plain_def by (meson prefix_order.trans set_mono_prefix subsetD)

lemma sound_path_butlast: "sound_path fs p \<Longrightarrow> sound_path fs (butlast p)"
  by (rule sound_path_prefix) (auto simp: prefixeq_butlast)

lemma walk_sound:
  "walk create k fs at rest = Ok q \<Longrightarrow> plain rest \<Longrightarrow>
   (\<And>r t. r \<noteq> [] \<Longrightarrow> prefix r rest \<Longrightarrow> bt_get fs (at @ r) \<noteq> Some (Symlink t)) \<Longrightarrow> q = at @ rest"
proof (induction rest arbitrary: at)
  case (Cons c rest)
  have head: "bt_get fs (at @ [c]) \<noteq> Some (Symlink t)" for t using Cons.prems(3) [of "[c]"] by simp
  have tail: "bt_get fs ((at @ [c]) @ r) \<noteq> Some (Symlink t)" if "prefix r rest" "r \<noteq> []" for r t
    using Cons.prems(3) [of "c # r" t] that by simp
  then show ?case
    using Cons.IH [of "at @ [c]"] Cons.prems(1,2) head
    by (auto split: option.split_asm fs_node.split_asm if_split_asm)
qed simp

lemma walk_dirs:
  "plain rest \<Longrightarrow> rest \<noteq> [] \<Longrightarrow> (\<And>r. r \<noteq> [] \<Longrightarrow> strict_prefix r rest \<Longrightarrow> bt_get fs (at @ r) = Some Directory) \<Longrightarrow>
   (case bt_get fs (at @ rest) of None \<Rightarrow> create | Some (Symlink _) \<Rightarrow> False | Some _ \<Rightarrow> True) \<Longrightarrow>
   walk create k fs at rest = Ok (at @ rest)"
proof (induction rest arbitrary: at)
  case (Cons c rest)
  show ?case
  proof (cases "rest = []")
    case True
    then show ?thesis using Cons.prems by (auto split: option.splits fs_node.splits)
  next
    case False
    have "bt_get fs (at @ [c]) = Some Directory" using Cons.prems(3) [of "[c]"] False by (simp add: strict_prefix_def)
    moreover have "walk create k fs (at @ [c]) rest = Ok ((at @ [c]) @ rest)"
      using Cons.prems False Cons.prems(3) [of "c # _"] by (intro Cons.IH) (auto simp: strict_prefix_def)
    ultimately show ?thesis using Cons.prems(1) by simp
  qed
qed simp

lemma canonical_sound:
  assumes "tree_ok fs" and "canonicalize fs p = Ok q"
  shows "sound_path fs q" and "node_at fs q \<noteq> None"
proof -
  have reached: "reached False fs q" using canonical_reached assms by blast
  then show node: "node_at fs q \<noteq> None" by (auto simp: reached_def split: option.splits)
  have "bt_get fs r \<noteq> Some (Symlink t)" if "prefix r q" for r t
  proof (cases "r = q")
    case True
    then show ?thesis using reached tree_ok_root [OF assms(1)]
      by (cases "q = []") (auto simp: reached_def node_at_nonempty)
  next
    case False
    then have "node_at fs r = Some Directory" using tree_ok_ancestor [OF assms(1) node] that by (simp add: strict_prefix_def)
    then show ?thesis using tree_ok_root [OF assms(1)] by (cases "r = []") (auto simp: node_at_nonempty)
  qed
  then show "sound_path fs q" using reached by (simp add: sound_path_def reached_def)
qed

lemma canonicalize_soundD: "sound_path fs p \<Longrightarrow> canonicalize fs p = Ok q \<Longrightarrow> q = p"
  unfolding canonicalize_def by (drule walk_sound) (auto simp: sound_path_def)

lemma sound_exists:
  assumes "tree_ok fs" and "sound_path fs p" and "node_at fs p \<noteq> None"
  shows "canonicalize fs p = Ok p"
proof (cases "p = []")
  case False
  have "bt_get fs r = Some Directory" if "r \<noteq> []" "strict_prefix r p" for r
    using tree_ok_ancestor [OF assms(1,3) that(2)] that(1) by (simp add: node_at_nonempty)
  moreover have "bt_get fs p \<noteq> Some (Symlink t)" for t using assms(2) by (simp add: sound_path_def)
  ultimately show ?thesis
    using assms(2,3) False walk_dirs [of p fs "[]" False max_links]
    by (auto simp: canonicalize_def sound_path_def node_at_nonempty split: option.splits fs_node.splits)
qed (simp add: canonicalize_def)

lemma sound_missing:
  assumes "tree_ok fs" and "sound_path fs p" and "node_at fs p = None"
  shows "canonicalize fs p \<noteq> Ok q"
  using canonicalize_soundD [OF assms(2)] canonical_sound(2) [OF assms(1)] assms(3) by metis

lemma is_dir_sound: "tree_ok fs \<Longrightarrow> sound_path fs p \<Longrightarrow> is_dir fs p \<longleftrightarrow> node_at fs p = Some Directory"
  using sound_exists [of fs p] sound_missing [of fs p]
  by (cases "node_at fs p") (auto simp: is_dir_def split: sum.splits)

lemma is_file_sound: "tree_ok fs \<Longrightarrow> sound_path fs p \<Longrightarrow> is_file fs p \<longleftrightarrow> (\<exists>s. node_at fs p = Some (RegularFile s))"
  using sound_exists [of fs p] sound_missing [of fs p]
  by (cases "node_at fs p") (auto simp: is_file_def split: sum.splits fs_node.splits)

lemma entry_path_soundD: "sound_path fs p \<Longrightarrow> entry_path fs p = Ok q \<Longrightarrow> q = p"
  using canonicalize_soundD [of fs p] canonicalize_soundD [OF sound_path_butlast, of fs p]
  by (auto simp: entry_path_def and_then_Ok_iff split: if_splits)

lemma entry_path_sound:
  assumes "tree_ok fs" and "sound_path fs p" and "p \<noteq> []" and "node_at fs (butlast p) = Some Directory"
  shows "entry_path fs p = Ok p"
proof -
  have "canonicalize fs (butlast p) = Ok (butlast p)"
    using sound_exists [OF assms(1) sound_path_butlast [OF assms(2)]] assms(4) by simp
  moreover have "last p \<noteq> ''..''" using assms(2,3) by (metis last_in_set plain_def sound_path_def)
  ultimately show ?thesis using assms(3,4) by (simp add: entry_path_def)
qed

section \<open>The operations on such paths\<close>

lemma write_file_soundD:
  "sound_path fs p \<Longrightarrow> write_file p s fs = Ok fs' \<Longrightarrow> fs' = bt_insert p (RegularFile s) fs"
  unfolding write_file_def and_then_Ok_iff
  by (elim exE conjE, drule walk_sound) (auto simp: sound_path_def split: if_splits)

lemma write_file_sound:
  assumes "tree_ok fs" and "sound_path fs p" and "node_at fs (butlast p) = Some Directory"
    and "node_at fs p \<noteq> Some Directory"
  shows "write_file p s fs = Ok (bt_insert p (RegularFile s) fs)"
proof -
  have "p \<noteq> []" using assms(4) by auto
  have "bt_get fs r = Some Directory" if "r \<noteq> []" "strict_prefix r p" for r
  proof (cases "r = butlast p")
    case False
    then have "strict_prefix r (butlast p)"
      using that(2) \<open>p \<noteq> []\<close> by (metis append_butlast_last_id prefix_order.le_less prefix_snoc strict_prefix_def)
    then show ?thesis
      using tree_ok_ancestor [OF assms(1), of "butlast p" r] assms(3) that(1) by (simp add: node_at_nonempty)
  qed (use assms(3) that in \<open>simp add: node_at_nonempty\<close>)
  moreover have "bt_get fs p \<noteq> Some (Symlink t)" for t using assms(2) by (simp add: sound_path_def)
  ultimately have "walk True max_links fs [] p = Ok p"
    using assms(2) \<open>p \<noteq> []\<close> walk_dirs [of p fs "[]" True max_links]
    by (auto simp: sound_path_def split: option.splits fs_node.splits)
  then show ?thesis using assms(4) by (simp add: write_file_def)
qed

lemma remove_file_soundD:
  "sound_path fs p \<Longrightarrow> remove_file p fs = Ok fs' \<Longrightarrow> fs' = bt_remove p fs"
  by (erule remove_file_Ok) (blast dest: entry_path_soundD)

lemma rename_file_soundD:
  assumes "sound_path fs p" "sound_path fs q" and "tree_ok fs" and "rename_file p q fs = Ok fs'"
  obtains s where "bt_get fs p = Some (RegularFile s)" "fs' = bt_insert q (RegularFile s) (bt_remove p fs)"
  using assms(4)
proof (rule rename_file_Ok)
  fix a b node assume e: "entry_path fs p = Ok a" "entry_path fs q = Ok b" "node_at fs a = Some node"
    "node \<noteq> Directory" "fs' = bt_insert b node (bt_remove a fs)"
  have ab: "a = p" "b = q" using entry_path_soundD assms(1,2) e(1,2) by blast+
  have "p \<noteq> []" using e(3,4) ab by auto
  moreover have "bt_get fs p \<noteq> Some (Symlink t)" for t using assms(1) by (simp add: sound_path_def)
  ultimately obtain s where "node = RegularFile s"
    using e(3,4) ab by (cases node) (auto simp: node_at_nonempty)
  then show thesis using that e ab \<open>p \<noteq> []\<close> by (simp add: node_at_nonempty)
qed

text \<open>Creating directories adds directories among the prefixes of the path.\<close>

definition dirs_added :: "path \<Rightarrow> file_system \<Rightarrow> file_system \<Rightarrow> bool" where
  "dirs_added p fs fs' \<longleftrightarrow>
     (\<forall>q. bt_get fs' q \<noteq> bt_get fs q \<longrightarrow> prefix q p \<and> q \<noteq> [] \<and> bt_get fs q = None \<and> bt_get fs' q = Some Directory)"

lemma dirs_added_refl [simp]: "dirs_added p fs fs"
  by (simp add: dirs_added_def)

lemma dirs_added_trans:
  assumes "dirs_added p fs fs1" and "dirs_added p fs1 fs2"
  shows "dirs_added p fs fs2"
  unfolding dirs_added_def
proof (intro allI impI)
  fix q assume "bt_get fs2 q \<noteq> bt_get fs q"
  then show "prefix q p \<and> q \<noteq> [] \<and> bt_get fs q = None \<and> bt_get fs2 q = Some Directory"
    using assms unfolding dirs_added_def by (cases "bt_get fs1 q = bt_get fs q") metis+
qed

lemma dirs_added_mono: "dirs_added p fs fs' \<Longrightarrow> prefix p p' \<Longrightarrow> dirs_added p' fs fs'"
  unfolding dirs_added_def by (blast intro: prefix_order.trans)

lemma dirs_added_entry: "dirs_added p fs fs' \<Longrightarrow> bt_get fs' q = bt_get fs q \<or> bt_get fs' q = Some Directory"
  by (auto simp: dirs_added_def)

lemma dirs_added_other: "dirs_added p fs fs' \<Longrightarrow> \<not> prefix q p \<Longrightarrow> bt_get fs' q = bt_get fs q"
  unfolding dirs_added_def by blast

lemma dirs_added_sound:
  assumes "dirs_added p fs fs'" and "sound_path fs q"
  shows "sound_path fs' q"
proof -
  have "bt_get fs' r \<noteq> Some (Symlink t)" if "prefix r q" for r t
    using dirs_added_entry [OF assms(1), of r] assms(2) that by (auto simp: sound_path_def)
  then show ?thesis using assms(2) by (simp add: sound_path_def)
qed

lemma mkdir_or_dir_added:
  assumes "sound_path fs p"
  shows "dirs_added p fs (snd (mkdir_or_dir p fs))"
proof (cases "mkdir p fs")
  case (Inr fs')
  then obtain q where "entry_path fs p = Ok q" "node_at fs q = None" "fs' = bt_insert q Directory fs"
    by (auto simp: mkdir_def and_then_Ok_iff split: if_splits)
  moreover from this(1) have "q = p" using entry_path_soundD assms by blast
  ultimately show ?thesis using Inr
    by (cases "p = []") (auto simp: mkdir_or_dir_def dirs_added_def node_at_nonempty)
qed (simp add: mkdir_or_dir_def)

lemma create_dir_all_added: "sound_path fs p \<Longrightarrow> dirs_added p fs (snd (create_dir_all p fs))"
proof (induction p fs rule: create_dir_all.induct)
  case (1 p fs)
  show ?case
  proof (cases "p \<noteq> [] \<and> mkdir p fs = Err NotFound")
    case True
    obtain r fs1 where parent: "create_dir_all (butlast p) fs = (r, fs1)" by fastforce
    have "dirs_added (butlast p) fs fs1" using "1.IH" [OF True sound_path_butlast] 1 parent by simp
    then have added: "dirs_added p fs fs1" by (rule dirs_added_mono) (simp add: prefixeq_butlast)
    then have "dirs_added p fs1 (snd (mkdir_or_dir p fs1))" using mkdir_or_dir_added dirs_added_sound "1.prems" by blast
    then show ?thesis
      using True parent added by (cases r) (auto simp: create_dir_all.simps [of p fs] intro: dirs_added_trans)
  qed (auto simp: create_dir_all.simps [of p fs] mkdir_or_dir_added "1.prems")
qed

text \<open>They can be created when no prefix is a file.\<close>

definition dir_able :: "file_system \<Rightarrow> path \<Rightarrow> bool" where
  "dir_able fs p \<longleftrightarrow> (\<forall>q s. prefix q p \<longrightarrow> bt_get fs q \<noteq> Some (RegularFile s))"

lemma walk_dir_able:
  "plain rest \<Longrightarrow> (\<And>r. prefix r rest \<Longrightarrow> r \<noteq> [] \<Longrightarrow> bt_get fs (at @ r) \<in> {None, Some Directory}) \<Longrightarrow>
   walk False k fs at rest = Err e \<Longrightarrow> e = NotFound"
proof (induction rest arbitrary: at)
  case (Cons c rest)
  have "bt_get fs (at @ [c]) \<in> {None, Some Directory}" using Cons.prems(2) [of "[c]"] by simp
  moreover have "bt_get fs ((at @ [c]) @ r) \<in> {None, Some Directory}" if "prefix r rest" "r \<noteq> []" for r
    using Cons.prems(2) [of "c # r"] that by simp
  ultimately show ?case using Cons.IH [of "at @ [c]"] Cons.prems(1,3) by auto
qed simp

lemma dir_able_missing:
  assumes "tree_ok fs" "sound_path fs p" "dir_able fs p" "node_at fs p \<noteq> Some Directory"
  shows "canonicalize fs p = Err NotFound"
proof -
  have entry: "bt_get fs r \<in> {None, Some Directory}" if "prefix r p" for r
    using assms(2,3) that unfolding sound_path_def dir_able_def by (cases "bt_get fs r") (metis fs_node.exhaust insertCI)+
  then have "node_at fs p = None" using assms(4) entry [of p] by (cases "p = []") (auto simp: node_at_nonempty)
  then obtain e where e: "canonicalize fs p = Err e"
    using sound_missing [OF assms(1,2)] by (cases "canonicalize fs p") auto
  then have "e = NotFound"
    using walk_dir_able [of p fs "[]" max_links e] entry assms(2) by (auto simp: canonicalize_def sound_path_def)
  then show ?thesis using e by simp
qed

lemma create_dir_all_existing:
  assumes "tree_ok fs" and "node_at fs p = Some Directory"
  shows "create_dir_all p fs = (Ok (), fs)"
proof -
  have here: "canonicalize fs p = Ok p" and sound: "sound_path fs p"
  proof -
    have "plain p" using tree_ok_plain assms by blast
    moreover have "bt_get fs q \<noteq> Some (Symlink t)" if "prefix q p" for q t
    proof -
      have "node_at fs q = Some Directory"
        using tree_ok_ancestor [OF assms(1), of p q] assms(2) that by (cases "q = p") (auto simp: strict_prefix_def)
      then show ?thesis using tree_ok_root [OF assms(1)] by (cases "q = []") (auto simp: node_at_nonempty)
    qed
    ultimately show "sound_path fs p" by (simp add: sound_path_def)
    then show "canonicalize fs p = Ok p" using sound_exists assms by simp
  qed
  have "entry_path fs p = Ok p"
    using entry_path_sound [OF assms(1) sound] parent_of_dir [OF assms] here by (cases "p = []") (auto simp: entry_path_def)
  then have "mkdir p fs = Err AlreadyExists" using assms(2) by (simp add: mkdir_def)
  then show ?thesis
    using assms(2) is_dir_sound [OF assms(1) sound] by (simp add: create_dir_all.simps [of p fs] mkdir_or_dir_def)
qed

lemma create_dir_all_sound:
  "tree_ok fs \<Longrightarrow> sound_path fs p \<Longrightarrow> dir_able fs p \<Longrightarrow>
   fst (create_dir_all p fs) = Ok () \<and> node_at (snd (create_dir_all p fs)) p = Some Directory"
proof (induction p fs rule: create_dir_all.induct)
  case (1 p fs)
  note ok = "1.prems"(1) and sound = "1.prems"(2)
  show ?case
  proof (cases "node_at fs p = Some Directory")
    case True
    then show ?thesis using create_dir_all_existing [OF ok] by simp
  next
    case False
    then have p: "p \<noteq> []" by auto
    have able: "dir_able fs (butlast p)" using "1.prems"(3) unfolding dir_able_def
      by (meson prefix_order.trans prefixeq_butlast)
    have missing: "node_at fs p = None"
      using sound_exists [OF ok sound] dir_able_missing [OF ok sound "1.prems"(3) False] by (cases "node_at fs p") auto
    show ?thesis
    proof (cases "node_at fs (butlast p) = Some Directory")
      case True
      then have "mkdir p fs = Ok (bt_insert p Directory fs)"
        using entry_path_sound [OF ok sound p True] missing by (simp add: mkdir_def)
      then show ?thesis using p by (simp add: create_dir_all.simps [of p fs] mkdir_or_dir_def node_at_nonempty)
    next
      case False
      have "last p \<noteq> ''..''" using sound p by (metis last_in_set plain_def sound_path_def)
      then have nf: "p \<noteq> [] \<and> mkdir p fs = Err NotFound"
        using p dir_able_missing [OF ok sound_path_butlast [OF sound] able False] by (simp add: mkdir_def entry_path_def)
      obtain r fs1 where parent: "create_dir_all (butlast p) fs = (r, fs1)" by fastforce
      have fs1: "r = Ok ()" "node_at fs1 (butlast p) = Some Directory"
        using "1.IH" [OF nf ok sound_path_butlast [OF sound] able] parent by auto
      have added: "dirs_added (butlast p) fs fs1"
        using create_dir_all_added [OF sound_path_butlast [OF sound]] parent by (metis snd_conv)
      have ok1: "tree_ok fs1" using tree_step_ok [OF create_dir_all_step ok, of "butlast p"] parent by simp
      have "\<not> prefix p (butlast p)" using p by (metis append_butlast_last_id append_self_conv length_butlast
            less_numeral_extra(3) not_Cons_self2 prefix_length_le prefix_order.antisym prefixeq_butlast)
      then have "node_at fs1 p = None" using dirs_added_other [OF added] missing p by (simp add: node_at_nonempty)
      then have "mkdir p fs1 = Ok (bt_insert p Directory fs1)"
        using entry_path_sound [OF ok1 dirs_added_sound [OF added sound] p fs1(2)] by (simp add: mkdir_def)
      then show ?thesis
        using nf parent fs1(1) p by (simp add: create_dir_all.simps [of p fs] mkdir_or_dir_def node_at_nonempty)
    qed
  qed
qed

end
