(* ===== verification/Patch_Properties.thy ===== *)
theory Patch_Properties
  imports Patch_Tool File_Tree
begin

text \<open>
  The patch tool: it keeps the tree well formed; on paths that do not get in each other's way a
  request is all or nothing and refines the obvious operations on a map of files; without an approval
  it changes only the workspace and the allowed roots, provided new paths are spelled without \<^verbatim>\<open>..\<close>
  and links. Both provisos are needed: with \<^verbatim>\<open>..\<close> behind a new directory a request leaves the
  workspace unasked, and a file in the way of a directory stops a request half way.
\<close>

section \<open>The tree\<close>

lemma create_parent_dirs_step: "create_parent_dirs p fs = (r, fs') \<Longrightarrow> tree_step fs fs'"
  using create_dir_all_step [of fs "butlast p"]
  by (auto simp: create_parent_dirs_def split: if_splits prod.splits sum.splits)

lemma fs_step_step:
  "fs_step r failure line fs = (out, fs') \<Longrightarrow> (\<And>fs1. r = Ok fs1 \<Longrightarrow> tree_step fs fs1) \<Longrightarrow> tree_step fs fs'"
  by (auto simp: fs_step_def split: sum.splits)

lemma apply_operation_step: "apply_operation op fs = (r, fs') \<Longrightarrow> tree_step fs fs'"
proof (cases op)
  case (ResolvedAddFile p s)
  assume run: "apply_operation op fs = (r, fs')"
  obtain out fs1 where parents: "create_parent_dirs p fs = (out, fs1)" by fastforce
  note step = create_parent_dirs_step [OF parents]
  show ?thesis
  proof (cases out)
    case (Inr u)
    then have "fs_step (write_file p s fs1) (''failed to create `'' @ display_path p @ ''`'') (''add_file '' @ display_path p) fs1 = (r, fs')"
      using run ResolvedAddFile parents by simp
    then have "tree_step fs1 fs'" by (rule fs_step_step) (rule write_file_step)
    then show ?thesis using step by (rule tree_step_trans [rotated])
  qed (use run ResolvedAddFile parents step in auto)
next
  case (ResolvedMoveFile p q)
  assume run: "apply_operation op fs = (r, fs')"
  obtain out fs1 where parents: "create_parent_dirs q fs = (out, fs1)" by fastforce
  note step = create_parent_dirs_step [OF parents]
  show ?thesis
  proof (cases out)
    case (Inr u)
    then have "fs_step (rename_file p q fs1) (''failed to move `'' @ display_path p @ ''` -> `'' @ display_path q @ ''`'')
        (''move_file '' @ display_path p @ '' -> '' @ display_path q) fs1 = (r, fs')"
      using run ResolvedMoveFile parents by simp
    then have "tree_step fs1 fs'" by (rule fs_step_step) (rule rename_file_step)
    then show ?thesis using step by (rule tree_step_trans [rotated])
  qed (use run ResolvedMoveFile parents step in auto)
qed (auto elim!: fs_step_step intro: write_file_step remove_file_step)

lemma apply_operations_step: "apply_operations ops fs = (r, fs') \<Longrightarrow> tree_step fs fs'"
proof (induction ops arbitrary: fs r fs')
  case (Cons op ops)
  obtain line fs1 where op: "apply_operation op fs = (line, fs1)" by fastforce
  obtain lines fs2 where ops: "apply_operations ops fs1 = (lines, fs2)" by fastforce
  show ?case
    using Cons.prems op ops apply_operation_step [OF op] Cons.IH [OF ops]
    by (auto split: sum.splits intro: tree_step_trans)
qed simp

lemma apply_patch_step: "apply_patch cfg base ops granted fs = (r, fs') \<Longrightarrow> tree_step fs fs'"
proof (cases "and_then (resolve_operations fs cfg base ops granted) (\<lambda>resolved.
      and_then (validate_operations fs [] resolved) (\<lambda>_. Ok resolved))")
  case (Inr resolved)
  assume run: "apply_patch cfg base ops granted fs = (r, fs')"
  obtain out fs1 where applied: "apply_operations resolved fs = (out, fs1)" by fastforce
  then show ?thesis using run Inr apply_operations_step [OF applied] by (auto simp: apply_patch_def split: sum.splits)
qed (simp add: apply_patch_def)

lemma workspace_base_step: "resolve_patch_workspace_base env tool ctx fs = (r, fs') \<Longrightarrow> tree_step fs fs'"
proof -
  assume run: "resolve_patch_workspace_base env tool ctx fs = (r, fs')"
  have "tree_step fs (snd (resolve_patch_data_workspace env root fs))" for root
    using create_dir_all_step [of fs]
    by (auto simp: resolve_patch_data_workspace_def Let_def split: sum.splits prod.splits) (metis snd_conv)+
  then show ?thesis
    using run by (auto simp: resolve_patch_workspace_base_def split: option.splits sum.splits) (metis snd_conv)+
qed


section \<open>The file map\<close>

text \<open>The abstract view: the contents of the files by path, and what an operation promises there.\<close>

definition file_map :: "file_system \<Rightarrow> path \<Rightarrow> string option" where
  "file_map fs p = (case bt_get fs p of Some (RegularFile s) \<Rightarrow> Some s | _ \<Rightarrow> None)"

fun spec_operation :: "resolved_patch_operation \<Rightarrow> (path \<Rightarrow> string option) \<Rightarrow> (path \<Rightarrow> string option) option" where
  "spec_operation (ResolvedAddFile p s) m = (if m p = None then Some (m(p \<mapsto> s)) else None)"
| "spec_operation (ResolvedUpdateFile p s) m = (if m p = None then None else Some (m(p \<mapsto> s)))"
| "spec_operation (ResolvedDeleteFile p) m = (if m p = None then None else Some (m(p := None)))"
| "spec_operation (ResolvedMoveFile p q) m =
     (if m p = None \<or> m q \<noteq> None then None else Some (m(p := None, q := m p)))"

fun spec_operations :: "resolved_patch_operation list \<Rightarrow> (path \<Rightarrow> string option) \<Rightarrow> (path \<Rightarrow> string option) option" where
  "spec_operations [] m = Some m"
| "spec_operations (op # ops) m = Option.bind (spec_operation op m) (spec_operations ops)"

fun resolved_paths :: "resolved_patch_operation \<Rightarrow> path set" where
  "resolved_paths (ResolvedAddFile p _) = {p}"
| "resolved_paths (ResolvedUpdateFile p _) = {p}"
| "resolved_paths (ResolvedDeleteFile p) = {p}"
| "resolved_paths (ResolvedMoveFile p q) = {p, q}"

text \<open>Paths that do not get in each other's way: they spell their entries, name no directory, have no
  file above them, and none is above another.\<close>

definition independent :: "file_system \<Rightarrow> path set \<Rightarrow> bool" where
  "independent fs ps \<longleftrightarrow>
     (\<forall>p \<in> ps. sound_path fs p \<and> node_at fs p \<noteq> Some Directory \<and> dir_able fs (butlast p) \<and>
        (\<forall>q \<in> ps. \<not> strict_prefix p q))"

lemma independentD:
  assumes "independent fs ps" and "p \<in> ps"
  shows "sound_path fs p" "node_at fs p \<noteq> Some Directory" "dir_able fs (butlast p)" "p \<noteq> []"
    "\<And>q. q \<in> ps \<Longrightarrow> \<not> strict_prefix p q"
  using assms by (auto simp: independent_def)

lemma file_map_insert [simp]: "file_map (bt_insert p (RegularFile s) fs) = (file_map fs)(p \<mapsto> s)"
  by (rule ext) (simp add: file_map_def)

lemma file_map_remove [simp]: "file_map (bt_remove p fs) = (file_map fs)(p := None)"
  by (rule ext) (simp add: file_map_def)

lemma file_map_dirs_added: "dirs_added p fs fs' \<Longrightarrow> file_map fs' = file_map fs"
  unfolding dirs_added_def file_map_def by (rule ext) (metis fs_node.simps(9) option.simps(4,5))

text \<open>A step among the paths \<open>ps\<close>: it changes files at these paths, and adds directories above them.\<close>

definition among :: "path set \<Rightarrow> file_system \<Rightarrow> file_system \<Rightarrow> bool" where
  "among ps fs fs' \<longleftrightarrow>
     (\<forall>r. bt_get fs' r \<noteq> bt_get fs r \<longrightarrow>
        (r \<in> ps \<and> (bt_get fs' r = None \<or> (\<exists>s. bt_get fs' r = Some (RegularFile s)))) \<or>
        (r \<noteq> [] \<and> (\<exists>p \<in> ps. strict_prefix r p) \<and> bt_get fs r = None \<and> bt_get fs' r = Some Directory))"

lemma among_refl [simp]: "among ps fs fs"
  by (simp add: among_def)

lemma among_file: "p \<in> ps \<Longrightarrow> among ps fs (bt_insert p (RegularFile s) fs)"
  by (simp add: among_def)

lemma among_move: "p \<in> ps \<Longrightarrow> q \<in> ps \<Longrightarrow> among ps fs (bt_insert q (RegularFile s) (bt_remove p fs))"
  by (simp add: among_def)

lemma among_remove: "p \<in> ps \<Longrightarrow> among ps fs (bt_remove p fs)"
  by (simp add: among_def)

lemma butlast_strict_prefix: "p \<noteq> [] \<Longrightarrow> prefix r (butlast p) \<Longrightarrow> strict_prefix r p"
  by (metis append_butlast_last_id prefix_order.dual_order.strict_trans1 prefix_snoc strict_prefix_def
      prefixI prefix_order.le_less not_Cons_self2 append_self_conv)

lemma among_dirs: "p \<in> ps \<Longrightarrow> p \<noteq> [] \<Longrightarrow> dirs_added (butlast p) fs fs' \<Longrightarrow> among ps fs fs'"
  unfolding among_def dirs_added_def by (blast intro: butlast_strict_prefix)

lemma independent_among:
  assumes ind: "independent fs ps" and step: "among ps fs fs'"
  shows "independent fs' ps"
proof -
  have "sound_path fs' p \<and> node_at fs' p \<noteq> Some Directory \<and> dir_able fs' (butlast p) \<and> (\<forall>q \<in> ps. \<not> strict_prefix p q)"
    if p: "p \<in> ps" for p
  proof (intro conjI)
    note D = independentD [OF ind p]
    have "bt_get fs' r \<noteq> Some (Symlink t)" if "prefix r p" for r t
      using step D(1) that unfolding among_def sound_path_def by (metis fs_node.distinct option.distinct(1) option.inject)
    then show "sound_path fs' p" using D(1) by (simp add: sound_path_def)
    show "node_at fs' p \<noteq> Some Directory"
      using step D(2,4,5) unfolding among_def by (metis fs_node.distinct(1) node_at_nonempty option.distinct(1) option.inject)
    have "bt_get fs' r \<noteq> Some (RegularFile s)" if r: "prefix r (butlast p)" for r s
    proof -
      have "r \<notin> ps" using independentD(5) [OF ind _ p] butlast_strict_prefix [OF D(4) r] by blast
      then show ?thesis
        using step D(3) r unfolding among_def dir_able_def by (metis fs_node.distinct(1) option.inject)
    qed
    then show "dir_able fs' (butlast p)" by (simp add: dir_able_def)
    show "\<forall>q \<in> ps. \<not> strict_prefix p q" using D(5) by blast
  qed
  then show ?thesis by (simp add: independent_def)
qed

lemma parents_ready:
  assumes ok: "tree_ok fs" and ind: "independent fs ps" and p: "p \<in> ps"
  obtains fs1 where "create_parent_dirs p fs = (Ok (), fs1)" "node_at fs1 (butlast p) = Some Directory"
    "tree_ok fs1" "independent fs1 ps" "file_map fs1 = file_map fs"
proof -
  note D = independentD [OF ind p]
  obtain r fs1 where run: "create_dir_all (butlast p) fs = (r, fs1)" by fastforce
  have "fst (create_dir_all (butlast p) fs) = Ok ()" and dir: "node_at fs1 (butlast p) = Some Directory"
    using create_dir_all_sound [OF ok sound_path_butlast [OF D(1)] D(3)] run by auto
  then have "create_parent_dirs p fs = (Ok (), fs1)" using run D(4) by (simp add: create_parent_dirs_def)
  moreover have added: "dirs_added (butlast p) fs fs1"
    using create_dir_all_added [OF sound_path_butlast [OF D(1)]] run by (metis snd_conv)
  moreover have "tree_ok fs1" using tree_step_ok [OF create_dir_all_step ok, of "butlast p"] run by simp
  moreover have "independent fs1 ps" using independent_among [OF ind among_dirs [OF p D(4) added]] .
  ultimately show ?thesis using that dir file_map_dirs_added by blast
qed

lemma file_map_Some_iff: "file_map fs p = Some s \<longleftrightarrow> bt_get fs p = Some (RegularFile s)"
  by (auto simp: file_map_def split: option.splits fs_node.splits)

lemma present_parent: "tree_ok fs \<Longrightarrow> file_map fs p = Some s \<Longrightarrow> node_at fs (butlast p) = Some Directory"
  unfolding tree_ok_def file_map_Some_iff by blast

lemma write_independent:
  "tree_ok fs \<Longrightarrow> independent fs ps \<Longrightarrow> p \<in> ps \<Longrightarrow> node_at fs (butlast p) = Some Directory \<Longrightarrow>
   write_file p s fs = Ok (bt_insert p (RegularFile s) fs)"
  using independentD [of fs ps p] by (intro write_file_sound) auto

lemma remove_independent:
  assumes "tree_ok fs" and ind: "independent fs ps" and p: "p \<in> ps" and "file_map fs p = Some s"
  shows "remove_file p fs = Ok (bt_remove p fs)"
proof -
  note D = independentD [OF ind p]
  have "entry_path fs p = Ok p" using entry_path_sound [OF assms(1) D(1,4)] present_parent assms(1,4) by blast
  then show ?thesis using assms(4) D(4) by (simp add: remove_file_def node_at_nonempty file_map_Some_iff)
qed

lemma rename_independent:
  assumes ok: "tree_ok fs" and ind: "independent fs ps" and pq: "p \<in> ps" "q \<in> ps"
    and p: "file_map fs p = Some s" and q: "node_at fs (butlast q) = Some Directory"
  shows "rename_file p q fs = Ok (bt_insert q (RegularFile s) (bt_remove p fs))"
proof -
  note P = independentD [OF ind pq(1)] and Q = independentD [OF ind pq(2)]
  have "entry_path fs p = Ok p" using entry_path_sound [OF ok P(1,4)] present_parent ok p by blast
  moreover have "entry_path fs q = Ok q" using entry_path_sound [OF ok Q(1,4) q] .
  ultimately show ?thesis using p P(4) Q(2) by (simp add: rename_file_def node_at_nonempty file_map_Some_iff)
qed

text \<open>The simulation: a step that the abstract operation allows succeeds and has its effect.\<close>

definition simulates :: "path set \<Rightarrow> (path \<Rightarrow> string option) \<Rightarrow> (tool_error + 'a) \<times> file_system \<Rightarrow> bool" where
  "simulates ps m result \<longleftrightarrow>
     (\<exists>x fs'. result = (Ok x, fs') \<and> file_map fs' = m \<and> tree_ok fs' \<and> independent fs' ps)"

lemma fs_step_simulates:
  assumes "tree_ok fs" "independent fs ps" and r: "r = Ok fs'" and "tree_step fs fs'" "among ps fs fs'" "file_map fs' = m"
  shows "simulates ps m (fs_step r failure line fs)"
  using assms independent_among tree_step_ok by (auto simp: simulates_def fs_step_def)

lemma operation_simulates:
  assumes ok: "tree_ok fs" and ind: "independent fs ps" and paths: "resolved_paths op \<subseteq> ps"
    and spec: "spec_operation op (file_map fs) = Some m"
  shows "simulates ps m (apply_operation op fs)"
proof (cases op)
  case (ResolvedAddFile p s)
  then have p: "p \<in> ps" and m: "m = (file_map fs)(p \<mapsto> s)" using paths spec by (auto split: if_splits)
  from parents_ready [OF ok ind p] obtain fs1 where fs1: "create_parent_dirs p fs = (Ok (), fs1)"
      "node_at fs1 (butlast p) = Some Directory" "tree_ok fs1" "independent fs1 ps" "file_map fs1 = file_map fs" .
  have "write_file p s fs1 = Ok (bt_insert p (RegularFile s) fs1)" using write_independent fs1 p by blast
  from fs_step_simulates [OF fs1(3,4) this write_file_step [OF this] among_file [OF p]] fs1 m
  show ?thesis by (simp add: ResolvedAddFile)
next
  case (ResolvedUpdateFile p s)
  then have p: "p \<in> ps" and m: "m = (file_map fs)(p \<mapsto> s)" "file_map fs p \<noteq> None"
    using paths spec by (auto split: if_splits)
  then have "write_file p s fs = Ok (bt_insert p (RegularFile s) fs)"
    using write_independent [OF ok ind p] present_parent [OF ok] by blast
  from fs_step_simulates [OF ok ind this write_file_step [OF this] among_file [OF p]] m
  show ?thesis by (simp add: ResolvedUpdateFile)
next
  case (ResolvedDeleteFile p)
  then have p: "p \<in> ps" and m: "m = (file_map fs)(p := None)" "file_map fs p \<noteq> None"
    using paths spec by (auto split: if_splits)
  then have "remove_file p fs = Ok (bt_remove p fs)" using remove_independent [OF ok ind p] by blast
  from fs_step_simulates [OF ok ind this remove_file_step [OF this] among_remove [OF p]] m
  show ?thesis by (simp add: ResolvedDeleteFile)
next
  case (ResolvedMoveFile p q)
  then obtain s where pq: "p \<in> ps" "q \<in> ps" and s: "file_map fs p = Some s"
    and m: "m = (file_map fs)(p := None, q \<mapsto> s)"
    using paths spec by (auto split: if_splits)
  from parents_ready [OF ok ind pq(2)] obtain fs1 where fs1: "create_parent_dirs q fs = (Ok (), fs1)"
      "node_at fs1 (butlast q) = Some Directory" "tree_ok fs1" "independent fs1 ps" "file_map fs1 = file_map fs" .
  have "rename_file p q fs1 = Ok (bt_insert q (RegularFile s) (bt_remove p fs1))"
    using rename_independent [OF fs1(3,4) pq] s fs1(2,5) by simp
  from fs_step_simulates [OF fs1(3,4) this rename_file_step [OF this] among_move [OF pq]] fs1 m
  show ?thesis by (simp add: ResolvedMoveFile)
qed

lemma operations_simulate:
  "tree_ok fs \<Longrightarrow> independent fs ps \<Longrightarrow> \<Union> (resolved_paths ` set ops) \<subseteq> ps \<Longrightarrow>
   spec_operations ops (file_map fs) = Some m \<Longrightarrow> simulates ps m (apply_operations ops fs)"
proof (induction ops arbitrary: fs)
  case Nil
  then show ?case by (simp add: simulates_def)
next
  case (Cons op ops)
  then obtain m1 where m1: "spec_operation op (file_map fs) = Some m1" "spec_operations ops m1 = Some m"
    by (auto simp: bind_eq_Some_conv)
  have "simulates ps m1 (apply_operation op fs)" using operation_simulates [OF Cons.prems(1,2) _ m1(1)] Cons.prems(3) by simp
  then obtain line fs1 where op: "apply_operation op fs = (Ok line, fs1)" "file_map fs1 = m1" "tree_ok fs1" "independent fs1 ps"
    by (auto simp: simulates_def)
  have "simulates ps m (apply_operations ops fs1)" using Cons.IH [OF op(3,4)] Cons.prems(3) m1(2) op(2) by simp
  then show ?case using op(1) by (auto simp: simulates_def)
qed

text \<open>Validation decides whether the abstract operations are possible.\<close>

lemma validate_decides:
  assumes "\<forall>p \<in> ps. path_exists fs p known \<longleftrightarrow> m p \<noteq> None" and "\<Union> (resolved_paths ` set ops) \<subseteq> ps"
  shows "validate_operations fs known ops = Ok () \<longleftrightarrow> spec_operations ops m \<noteq> None"
  using assms
proof (induction fs known ops arbitrary: m rule: validate_operations.induct)
  case (2 fs known p s ops)
  then have "\<forall>q \<in> ps. path_exists fs q (bt_insert p True known) \<longleftrightarrow> (m(p \<mapsto> s)) q \<noteq> None" by (simp add: path_exists_def)
  then show ?case using 2 by simp
next
  case (3 fs known p s ops)
  show ?case
  proof (cases "m p = None")
    case False
    then have "\<forall>q \<in> ps. path_exists fs q known \<longleftrightarrow> (m(p \<mapsto> s)) q \<noteq> None" using 3 by simp
    then have "validate_operations fs known ops = Ok () \<longleftrightarrow> spec_operations ops (m(p \<mapsto> s)) \<noteq> None"
      using 3 False by (intro "3.IH") auto
    then show ?thesis using "3.prems" False by auto
  qed (use "3.prems" in simp)
next
  case (4 fs known p ops)
  then have "\<forall>q \<in> ps. path_exists fs q (bt_insert p False known) \<longleftrightarrow> (m(p := None)) q \<noteq> None" by (simp add: path_exists_def)
  then show ?case using 4 by simp
next
  case (5 fs known p q ops)
  then have "m p \<noteq> None \<Longrightarrow> \<forall>r \<in> ps. path_exists fs r (bt_insert q True (bt_insert p False known)) \<longleftrightarrow> (m(p := None, q := m p)) r \<noteq> None"
    by (simp add: path_exists_def)
  then show ?case using 5 by simp
qed simp

text \<open>C5: A patch is all or nothing, and does what its operations say. If the resolved paths do not get in
  each other's way, the tool refines the operations on a map from paths to contents: where these are
  possible one after the other, it succeeds and the files are as the map says; where they are not, it
  fails and the file system is unchanged.\<close>

theorem patch_refines_file_map:
  assumes ok: "tree_ok fs"
    and resolved: "resolve_operations fs cfg base ops granted = Ok resolved"
    and ind: "independent fs (\<Union> (resolved_paths ` set resolved))"
  shows "case spec_operations resolved (file_map fs) of
      Some m \<Rightarrow> (\<exists>result fs'. apply_patch cfg base ops granted fs = (Ok result, fs') \<and> file_map fs' = m)
    | None \<Rightarrow> (\<exists>e. apply_patch cfg base ops granted fs = (Err e, fs))"
proof -
  let ?ps = "\<Union> (resolved_paths ` set resolved)"
  have "\<forall>p \<in> ?ps. path_exists fs p [] \<longleftrightarrow> file_map fs p \<noteq> None"
    using is_file_sound [OF ok] independentD(1,4) [OF ind]
    by (simp add: path_exists_def node_at_nonempty file_map_Some_iff [symmetric])
  then have decides: "validate_operations fs [] resolved = Ok () \<longleftrightarrow> spec_operations resolved (file_map fs) \<noteq> None"
    by (rule validate_decides) simp
  show ?thesis
  proof (cases "spec_operations resolved (file_map fs)")
    case None
    then obtain e where "validate_operations fs [] resolved = Err e"
      using decides by (cases "validate_operations fs [] resolved") auto
    then show ?thesis using None resolved by (simp add: apply_patch_def)
  next
    case (Some m)
    have "simulates ?ps m (apply_operations resolved fs)" using operations_simulate [OF ok ind _ Some] by simp
    then show ?thesis using Some decides resolved by (auto simp: apply_patch_def simulates_def)
  qed
qed

section \<open>Samples\<close>

text \<open>A workspace \<^verbatim>\<open>/w\<close> with one file.\<close>

definition sample_fs :: file_system where
  "sample_fs = [([''w''], Directory), ([''w'', ''k''], RegularFile ''old'')]"

definition sample_patch_env :: "patch_operation list \<Rightarrow> patch_env" where
  "sample_patch_env ops =
     \<lparr>penv_decode = (\<lambda>_. Ok ops), penv_hash = (\<lambda>_. ''h''), penv_sha256 = (\<lambda>s. s), penv_fresh = ''id'', penv_now = 0,
      penv_cwd = [], penv_data_dir = None, penv_pretty = (\<lambda>_. [])\<rparr>"

definition sample_patch_tool :: apply_patch_tool where
  "sample_patch_tool = \<lparr>patch_config = default_apply_patch_config, patch_storage_root_dir = None, patch_has_manager = True\<rparr>"

definition sample_patch_ctx :: tool_context where
  "sample_patch_ctx = \<lparr>ctx_session_key = ''s'', ctx_metadata = [(''workspace'', JString ''/w'')]\<rparr>"

lemma sample_fs_get: "bt_get sample_fs p =
    (if p = [''w''] then Some Directory else if p = [''w'', ''k''] then Some (RegularFile ''old'') else None)"
  by (simp add: sample_fs_def bt_get_def)

lemma sample_tree: "tree_ok sample_fs"
  unfolding tree_ok_def sample_fs_get by (auto simp: node_at_def sample_fs_get split: if_splits)

lemma sample_base:
  "resolve_patch_workspace_base (sample_patch_env ops) sample_patch_tool sample_patch_ctx sample_fs = (Ok [''w''], sample_fs)"
proof -
  have "path_components ''/w'' = [''w'']" "is_absolute ''/w''" by code_simp+
  then show ?thesis
    by (simp add: resolve_patch_workspace_base_def sample_patch_ctx_def bt_get_def [of "[(''workspace'', _)]"] system_path_def
        canonicalize_def sample_fs_get)
qed


theorem patch_refines_file_map_witness:
  "\<exists>result fs'. apply_patch default_apply_patch_config [''w''] [AddFile ''a'' ''x'', MoveFile ''a'' ''e/b'', DeleteFile ''k''] False sample_fs =
     (Ok result, fs') \<and> file_map fs' = Map.empty([''w'', ''e'', ''b''] \<mapsto> ''x'')"
proof -
  let ?resolved = "[ResolvedAddFile [''w'', ''a''] ''x'', ResolvedMoveFile [''w'', ''a''] [''w'', ''e'', ''b''],
    ResolvedDeleteFile [''w'', ''k'']]"
  have resolved: "resolve_operations sample_fs default_apply_patch_config [''w'']
      [AddFile ''a'' ''x'', MoveFile ''a'' ''e/b'', DeleteFile ''k''] False = Ok ?resolved"
    by code_simp
  have files: "file_map sample_fs = Map.empty([''w'', ''k''] \<mapsto> ''old'')"
    by (rule ext) (simp add: file_map_def sample_fs_get)
  have spec: "spec_operations ?resolved (file_map sample_fs) = Some (Map.empty([''w'', ''e'', ''b''] \<mapsto> ''x''))"
    unfolding files by (auto simp: fun_eq_iff)
  have sound: "sound_path sample_fs p" if "plain p" for p using that by (simp add: sound_path_def sample_fs_get)
  have "independent sample_fs (\<Union> (resolved_paths ` set ?resolved))"
    by (auto simp: independent_def sound dir_able_def node_at_def sample_fs_get strict_prefix_def prefix_Cons)
  from patch_refines_file_map [OF sample_tree resolved this] show ?thesis unfolding spec by simp
qed

end
