(* ===== verification/File_Confinement.thy ===== *)
theory File_Confinement
  imports File_Tree
begin

text \<open>
  Where operations on files write: what a sequence of operations touches, when it stays below a set of
  directories, and how paths are resolved through existing directories.
\<close>

section \<open>What an operation touches\<close>

definition touches :: "path set \<Rightarrow> file_system \<Rightarrow> file_system \<Rightarrow> bool" where
  "touches ps fs fs' \<longleftrightarrow>
     (\<forall>q. bt_get fs' q \<noteq> bt_get fs q \<longrightarrow> (\<forall>t. bt_get fs' q \<noteq> Some (Symlink t)) \<and>
        (q \<in> ps \<or> (q \<noteq> [] \<and> bt_get fs q = None \<and> (\<exists>p \<in> ps. prefix q p))))"

lemma touches_refl [simp]: "touches ps fs fs"
  by (simp add: touches_def)

lemma touches_dirs: "dirs_added (butlast p) fs fs' \<Longrightarrow> p \<in> ps \<Longrightarrow> touches ps fs fs'"
  unfolding touches_def dirs_added_def
  by (metis fs_node.distinct(3) option.inject prefix_order.trans prefixeq_butlast)

lemma touches_sound:
  assumes "touches ps fs fs'" and "sound_path fs p"
  shows "sound_path fs' p"
proof -
  have "bt_get fs' r \<noteq> Some (Symlink t)" if "prefix r p" for r t
    using assms that unfolding touches_def sound_path_def by metis
  then show ?thesis using assms(2) by (simp add: sound_path_def)
qed

section \<open>Staying inside\<close>

definition confined :: "path set \<Rightarrow> file_system \<Rightarrow> file_system \<Rightarrow> bool" where
  "confined roots fs fs' \<longleftrightarrow> (\<forall>q. bt_get fs' q \<noteq> bt_get fs q \<longrightarrow> (\<exists>root \<in> roots. prefix root q))"

lemma confined_refl [simp]: "confined roots fs fs"
  by (simp add: confined_def)

lemma confined_trans: "confined roots fs fs1 \<Longrightarrow> confined roots fs1 fs2 \<Longrightarrow> confined roots fs fs2"
  unfolding confined_def by metis

text \<open>The directories above the roots exist.\<close>

definition rooted :: "path set \<Rightarrow> file_system \<Rightarrow> bool" where
  "rooted roots fs \<longleftrightarrow> (\<forall>root \<in> roots. \<forall>q. strict_prefix q root \<longrightarrow> node_at fs q = Some Directory)"

lemma rooted_step: "tree_step fs fs' \<Longrightarrow> tree_ok fs \<Longrightarrow> rooted roots fs \<Longrightarrow> rooted roots fs'"
  unfolding rooted_def by (blast intro: tree_step_dir)

lemma touches_confined:
  assumes "touches ps fs fs'" and "rooted roots fs" and inside: "\<forall>p \<in> ps. \<exists>root \<in> roots. prefix root p"
  shows "confined roots fs fs'"
  unfolding confined_def
proof (intro allI impI)
  fix q assume "bt_get fs' q \<noteq> bt_get fs q"
  then consider "q \<in> ps" | p where "q \<noteq> []" "bt_get fs q = None" "p \<in> ps" "prefix q p"
    using assms(1) unfolding touches_def by blast
  then show "\<exists>root \<in> roots. prefix root q"
  proof cases
    case 2
    then obtain root where root: "root \<in> roots" "prefix root p" using inside by blast
    have "\<not> strict_prefix q root" using assms(2) root(1) 2(1,2) by (metis node_at_nonempty option.distinct(1) rooted_def)
    then have "prefix root q" using prefix_same_cases [OF root(2) 2(4)] by (auto simp: strict_prefix_def)
    then show ?thesis using root(1) by blast
  qed (use inside in blast)
qed

lemma write_touches: "write_file p s fs = Ok fs' \<Longrightarrow> sound_path fs p \<Longrightarrow> p \<in> ps \<Longrightarrow> touches ps fs fs'"
  by (drule write_file_soundD [rotated]) (simp_all add: touches_def)

lemma remove_touches: "remove_file p fs = Ok fs' \<Longrightarrow> sound_path fs p \<Longrightarrow> p \<in> ps \<Longrightarrow> touches ps fs fs'"
  by (drule remove_file_soundD [rotated]) (simp_all add: touches_def)

lemma rename_touches:
  "rename_file p q fs = Ok fs' \<Longrightarrow> tree_ok fs \<Longrightarrow> sound_path fs p \<Longrightarrow> sound_path fs q \<Longrightarrow> p \<in> ps \<Longrightarrow> q \<in> ps \<Longrightarrow>
   touches ps fs fs'"
  by (rule rename_file_soundD [of fs p q fs']) (simp_all add: touches_def)

text \<open>An operation whose paths are sound and inside the roots stays inside.\<close>

definition inside :: "path set \<Rightarrow> file_system \<Rightarrow> path set \<Rightarrow> bool" where
  "inside roots fs ps \<longleftrightarrow> tree_ok fs \<and> rooted roots fs \<and>
     (\<forall>p \<in> ps. sound_path fs p \<and> (\<exists>root \<in> roots. prefix root p))"

definition stays_inside :: "path set \<Rightarrow> path set \<Rightarrow> file_system \<Rightarrow> file_system \<Rightarrow> bool" where
  "stays_inside roots ps fs fs' \<longleftrightarrow> inside roots fs' ps \<and> confined roots fs fs'"

lemma stays_insideI:
  "inside roots fs ps \<Longrightarrow> tree_step fs fs' \<Longrightarrow> touches ps fs fs' \<Longrightarrow> stays_inside roots ps fs fs'"
  unfolding inside_def stays_inside_def
  by (blast intro: touches_confined touches_sound rooted_step tree_step_ok)

lemma stays_inside_trans:
  "stays_inside roots ps fs fs1 \<Longrightarrow> stays_inside roots ps fs1 fs2 \<Longrightarrow> stays_inside roots ps fs fs2"
  unfolding stays_inside_def by (blast intro: confined_trans)

section \<open>Through existing directories\<close>

lemma walk_through:
  "plain p \<Longrightarrow> (\<And>r. r \<noteq> [] \<Longrightarrow> prefix r p \<Longrightarrow> bt_get fs (at @ r) = Some Directory) \<Longrightarrow>
   walk create k fs at (p @ rest) = walk create k fs (at @ p) rest"
proof (induction p arbitrary: at)
  case (Cons c p)
  have "bt_get fs (at @ [c]) = Some Directory" using Cons.prems(2) [of "[c]"] by simp
  moreover have "bt_get fs ((at @ [c]) @ r) = Some Directory" if "r \<noteq> []" "prefix r p" for r
    using Cons.prems(2) [of "c # r"] that by simp
  ultimately show ?case using Cons.IH [of "at @ [c]"] Cons.prems(1) by simp
qed simp

lemma walk_from_dir:
  assumes "tree_ok fs" and "node_at fs p = Some Directory"
  shows "walk create k fs [] (p @ rest) = walk create k fs p rest"
proof -
  have "bt_get fs r = Some Directory" if "r \<noteq> []" "prefix r p" for r
  proof -
    have "node_at fs r = Some Directory"
      using tree_ok_ancestor [OF assms(1), of p r] assms(2) that(2) by (cases "r = p") (auto simp: strict_prefix_def)
    then show ?thesis using that(1) by (simp add: node_at_nonempty)
  qed
  then show ?thesis using walk_through [of p fs "[]"] tree_ok_plain [OF assms] by simp
qed

section \<open>Directories without links\<close>

definition linkless :: "path \<Rightarrow> file_system \<Rightarrow> bool" where
  "linkless base fs \<longleftrightarrow> tree_ok fs \<and> node_at fs base = Some Directory \<and>
     (\<forall>q t. prefix base q \<longrightarrow> bt_get fs q \<noteq> Some (Symlink t))"

lemma linkless_sound:
  assumes "linkless base fs" "plain q"
  shows "sound_path fs (base @ q)"
proof -
  have ok: "tree_ok fs" and dir: "node_at fs base = Some Directory" using assms(1) by (simp_all add: linkless_def)
  have "bt_get fs r \<noteq> Some (Symlink t)" if "prefix r (base @ q)" for r t
  proof (cases "prefix base r")
    case False
    then have "strict_prefix r base" using that by (metis prefix_append prefix_order.less_le prefixI)
    then have "node_at fs r = Some Directory" using tree_ok_ancestor [OF ok, of base r] dir by simp
    then show ?thesis using tree_ok_root [OF ok] by (cases "r = []") (auto simp: node_at_nonempty)
  qed (use assms(1) in \<open>simp add: linkless_def\<close>)
  then show ?thesis using tree_ok_plain [OF ok dir] assms(2) by (simp add: sound_path_def)
qed

lemma linkless_inside:
  assumes "linkless base fs" "\<And>p. p \<in> ps \<Longrightarrow> \<exists>q. p = base @ q \<and> plain q"
  shows "inside {base} fs ps"
proof -
  have ok: "tree_ok fs" and dir: "node_at fs base = Some Directory" using assms(1) by (simp_all add: linkless_def)
  have "rooted {base} fs" using tree_ok_ancestor [OF ok, of base] dir by (simp add: rooted_def)
  moreover have "sound_path fs p \<and> prefix base p" if "p \<in> ps" for p
    using assms(2) [OF that] linkless_sound [OF assms(1)] by auto
  ultimately show ?thesis using ok by (simp add: inside_def)
qed

lemma remove_quietly_inside:
  assumes "inside roots fs ps" "p \<in> ps"
  shows "stays_inside roots ps fs (remove_quietly p fs)"
proof -
  have "tree_step fs (remove_quietly p fs)" "touches ps fs (remove_quietly p fs)"
    using assms remove_file_step remove_touches by (auto simp: remove_quietly_def inside_def split: sum.split)
  then show ?thesis by (rule stays_insideI [OF assms(1)])
qed

lemma stays_inside_refl: "inside roots fs ps \<Longrightarrow> stays_inside roots ps fs fs"
  by (simp add: stays_inside_def)

end
