(* ===== verification/Patch_Confinement.thy ===== *)
theory Patch_Confinement
  imports Patch_Properties File_Confinement
begin

text \<open>
  Where the patch tool writes: without an approval only below the workspace and the allowed roots, as
  long as the new part of a path is spelled without \<^verbatim>\<open>..\<close> and meets no link; and how a request leaves
  the workspace, or stops half way, when that fails.
\<close>

section \<open>Operations of the tool\<close>

lemma parents_touch:
  assumes "create_parent_dirs p fs = (r, fs')" and "sound_path fs p" and "p \<in> ps"
  shows "touches ps fs fs'"
proof -
  have "fs' = fs \<or> fs' = snd (create_dir_all (butlast p) fs)"
    using assms(1) by (auto simp: create_parent_dirs_def split: if_splits prod.splits sum.splits)
  then show ?thesis
    using create_dir_all_added [OF sound_path_butlast [OF assms(2)]] touches_dirs assms(3) by auto
qed

lemma fs_step_inside:
  assumes "fs_step r failure line fs = (out, fs')" and "inside roots fs ps"
    and "\<And>fs1. r = Ok fs1 \<Longrightarrow> tree_step fs fs1 \<and> touches ps fs fs1"
  shows "stays_inside roots ps fs fs'"
  using assms stays_insideI [OF assms(2)]
  by (auto simp: fs_step_def split: sum.splits)

lemma parents_inside:
  "create_parent_dirs p fs = (r, fs') \<Longrightarrow> inside roots fs ps \<Longrightarrow> p \<in> ps \<Longrightarrow> stays_inside roots ps fs fs'"
  using create_parent_dirs_step parents_touch stays_insideI by (metis inside_def)

lemma apply_operation_inside:
  assumes run: "apply_operation op fs = (r, fs')" and ins: "inside roots fs ps" and ps: "resolved_paths op \<subseteq> ps"
  shows "stays_inside roots ps fs fs'"
proof (cases op)
  case (ResolvedAddFile p s)
  obtain out fs1 where parents: "create_parent_dirs p fs = (out, fs1)" by fastforce
  have p: "p \<in> ps" using ps ResolvedAddFile by simp
  note first = parents_inside [OF parents ins p]
  show ?thesis
  proof (cases out)
    case (Inr u)
    have "fs_step (write_file p s fs1) (''failed to create `'' @ display_path p @ ''`'') (''add_file '' @ display_path p) fs1 = (r, fs')"
      using run ResolvedAddFile parents Inr by simp
    then have "stays_inside roots ps fs1 fs'"
      by (rule fs_step_inside) (use first p in \<open>auto simp: stays_inside_def inside_def intro: write_file_step write_touches\<close>)
    then show ?thesis using first by (rule stays_inside_trans [rotated])
  qed (use run ResolvedAddFile parents first in auto)
next
  case (ResolvedUpdateFile p s)
  have "fs_step (write_file p s fs) (''failed to update `'' @ display_path p @ ''`'') (''update_file '' @ display_path p) fs = (r, fs')"
    using run ResolvedUpdateFile by simp
  then show ?thesis
    by (rule fs_step_inside) (use ins ps ResolvedUpdateFile in \<open>auto simp: inside_def intro: write_file_step write_touches\<close>)
next
  case (ResolvedDeleteFile p)
  have "fs_step (remove_file p fs) (''failed to delete `'' @ display_path p @ ''`'') (''delete_file '' @ display_path p) fs = (r, fs')"
    using run ResolvedDeleteFile by simp
  then show ?thesis
    by (rule fs_step_inside) (use ins ps ResolvedDeleteFile in \<open>auto simp: inside_def intro: remove_file_step remove_touches\<close>)
next
  case (ResolvedMoveFile p q)
  obtain out fs1 where parents: "create_parent_dirs q fs = (out, fs1)" by fastforce
  have pq: "p \<in> ps" "q \<in> ps" using ps ResolvedMoveFile by simp_all
  note first = parents_inside [OF parents ins pq(2)]
  show ?thesis
  proof (cases out)
    case (Inr u)
    have "fs_step (rename_file p q fs1) (''failed to move `'' @ display_path p @ ''` -> `'' @ display_path q @ ''`'')
        (''move_file '' @ display_path p @ '' -> '' @ display_path q) fs1 = (r, fs')"
      using run ResolvedMoveFile parents Inr by simp
    then have "stays_inside roots ps fs1 fs'"
      by (rule fs_step_inside) (use first pq in \<open>auto simp: stays_inside_def inside_def intro: rename_file_step rename_touches\<close>)
    then show ?thesis using first by (rule stays_inside_trans [rotated])
  qed (use run ResolvedMoveFile parents first in auto)
qed

lemma apply_operations_inside:
  "apply_operations ops fs = (r, fs') \<Longrightarrow> inside roots fs ps \<Longrightarrow> \<Union> (resolved_paths ` set ops) \<subseteq> ps \<Longrightarrow>
   stays_inside roots ps fs fs'"
proof (induction ops arbitrary: fs r fs')
  case Nil
  then show ?case by (simp add: stays_inside_def)
next
  case (Cons op ops)
  obtain line fs1 where op: "apply_operation op fs = (line, fs1)" by fastforce
  have first: "stays_inside roots ps fs fs1" using apply_operation_inside [OF op Cons.prems(2)] Cons.prems(3) by simp
  obtain lines fs2 where ops: "apply_operations ops fs1 = (lines, fs2)" by fastforce
  have "stays_inside roots ps fs1 fs2" using Cons.IH [OF ops] first Cons.prems(3) by (simp add: stays_inside_def)
  then have "stays_inside roots ps fs fs2" using first by (rule stays_inside_trans [rotated])
  then show ?case using Cons.prems(1) op ops first by (auto split: sum.splits)
qed

section \<open>Which paths are allowed\<close>

definition permitted_roots :: "file_system \<Rightarrow> apply_patch_config \<Rightarrow> path \<Rightarrow> path set" where
  "permitted_roots fs cfg base =
     insert base {p. \<exists>root \<in> set (allowed_roots cfg). resolve_allowed_root fs base root = Ok p}"

lemma in_allowed_roots_True:
  "in_allowed_roots fs base roots p = Ok True \<Longrightarrow>
   \<exists>root \<in> set roots. \<exists>allowed. resolve_allowed_root fs base root = Ok allowed \<and> prefix allowed p"
  by (induction roots) (auto simp: and_then_Ok_iff path_starts_with_prefix split: if_splits)

lemma is_allowed_path_True:
  "is_allowed_path fs cfg base p = Ok True \<Longrightarrow> \<not> allow_absolute_paths cfg \<Longrightarrow>
   \<exists>root \<in> permitted_roots fs cfg base. prefix root p"
  using in_allowed_roots_True [of fs base "allowed_roots cfg" p]
  by (auto simp: is_allowed_path_def permitted_roots_def path_starts_with_prefix split: if_splits)

lemma permitted_rooted:
  assumes "tree_ok fs" and "node_at fs base \<noteq> None"
  shows "rooted (permitted_roots fs cfg base) fs"
proof -
  have "node_at fs p \<noteq> None" if "resolve_allowed_root fs base root = Ok p" for root p
    using that canonical_sound(2) [OF assms(1), of "candidate_path base root"]
    by (cases "canonicalize fs (candidate_path base root)") (simp_all add: resolve_allowed_root_def Let_def)
  then have "node_at fs root \<noteq> None" if "root \<in> permitted_roots fs cfg base" for root
    using that assms(2) by (auto simp: permitted_roots_def)
  then show ?thesis unfolding rooted_def using tree_ok_ancestor [OF assms(1)] by blast
qed

text \<open>A path that does not exist yet is spelled without \<^verbatim>\<open>..\<close> and meets no link.\<close>

definition new_path_sound :: "file_system \<Rightarrow> path \<Rightarrow> string \<Rightarrow> bool" where
  "new_path_sound fs base raw \<longleftrightarrow>
     path_exists_in fs (candidate_path base raw) \<or>
     (\<forall>p. resolve_candidate_path fs base raw = Ok p \<longrightarrow> sound_path fs p)"

lemma resolved_sound:
  assumes "tree_ok fs" and "resolve_candidate_path fs base raw = Ok p" and "new_path_sound fs base raw"
  shows "sound_path fs p"
  using assms canonical_sound(1) [OF assms(1)]
  by (auto simp: resolve_candidate_path_def new_path_sound_def path_exists_in_def Let_def split: sum.splits option.splits)

lemma resolve_workspace_path_Ok:
  "resolve_workspace_path fs cfg base False raw = Ok p \<Longrightarrow>
   resolve_candidate_path fs base raw = Ok p \<and> is_allowed_path fs cfg base p = Ok True"
  by (auto simp: resolve_workspace_path_def and_then_Ok_iff split: if_splits)

lemma resolve_operation_Ok:
  "resolve_operation fs cfg base granted op = Ok rop \<Longrightarrow> p \<in> resolved_paths rop \<Longrightarrow>
   \<exists>raw \<in> set (operation_paths op). resolve_workspace_path fs cfg base granted raw = Ok p"
  by (cases op) (auto simp: and_then_Ok_iff)

lemma resolve_operations_Ok:
  assumes "resolve_operations fs cfg base ops granted = Ok resolved" and "p \<in> \<Union> (resolved_paths ` set resolved)"
  shows "\<exists>op \<in> set ops. \<exists>raw \<in> set (operation_paths op). resolve_workspace_path fs cfg base granted raw = Ok p"
proof -
  obtain rop where rop: "rop \<in> set resolved" "p \<in> resolved_paths rop" using assms(2) by blast
  have "map (resolve_operation fs cfg base granted) ops = map Ok resolved"
    using assms(1) by (simp add: resolve_operations_def collect_results_Ok_iff)
  then obtain op where "op \<in> set ops" "resolve_operation fs cfg base granted op = Ok rop"
    using rop(1) by (metis (no_types, lifting) ex_map_conv list.set_map imageE image_eqI)
  then show ?thesis using resolve_operation_Ok rop(2) by blast
qed

lemma apply_patch_confined:
  assumes ok: "tree_ok fs" and base: "node_at fs base \<noteq> None" and abs: "\<not> allow_absolute_paths cfg"
    and new: "\<forall>op \<in> set ops. \<forall>raw \<in> set (operation_paths op). new_path_sound fs base raw"
    and run: "apply_patch cfg base ops False fs = (r, fs')"
  shows "confined (permitted_roots fs cfg base) fs fs'"
proof (cases "and_then (resolve_operations fs cfg base ops False) (\<lambda>resolved.
      and_then (validate_operations fs [] resolved) (\<lambda>_. Ok resolved))")
  case (Inr resolved)
  then have res: "resolve_operations fs cfg base ops False = Ok resolved" by (auto simp: and_then_Ok_iff)
  let ?ps = "\<Union> (resolved_paths ` set resolved)" and ?roots = "permitted_roots fs cfg base"
  have "sound_path fs p \<and> (\<exists>root \<in> ?roots. prefix root p)" if p: "p \<in> ?ps" for p
  proof -
    obtain op raw where raw: "op \<in> set ops" "raw \<in> set (operation_paths op)" "resolve_workspace_path fs cfg base False raw = Ok p"
      using resolve_operations_Ok [OF res p] by blast
    note R = resolve_workspace_path_Ok [OF raw(3)]
    show ?thesis using resolved_sound [OF ok] is_allowed_path_True abs R new raw(1,2) by blast
  qed
  then have ins: "inside ?roots fs ?ps" using ok permitted_rooted [OF ok base] by (simp add: inside_def)
  obtain out fs1 where apply1: "apply_operations resolved fs = (out, fs1)" by fastforce
  then have "confined ?roots fs fs1" using apply_operations_inside [OF apply1 ins] by (simp add: stays_inside_def)
  then show ?thesis using run Inr apply1 by (auto simp: apply_patch_def split: sum.splits)
qed (use run in \<open>simp add: apply_patch_def\<close>)

section \<open>Approvals\<close>

definition spends :: "string \<Rightarrow> string \<Rightarrow> string \<Rightarrow> int \<Rightarrow> approval_table \<Rightarrow> approval_table \<Rightarrow> bool" where
  "spends tool session hash now t t' \<longleftrightarrow>
     (\<exists>i r. bt_get t i = Some r \<and> consumable tool session hash now r \<and> t' = bt_insert i (consumed_row now r) t)"

lemma consume_command_spends:
  "consume_approved_tool_command i tool session hash now t = (b, t') \<Longrightarrow>
   if b then spends tool session hash now t t' else t' = t"
  by (auto simp: consume_approved_tool_command_def spends_def split: option.splits if_splits)

lemma trim_apply_patch: "trim ''apply_patch'' = ''apply_patch''"
  by code_simp

lemma consume_named_patch_spends:
  assumes "consume_named_patch named session hash now t = (res, t')"
  shows "if res = Ok True then spends ''apply_patch'' (trim session) (trim hash) now t t' else t' = t"
proof (cases named)
  case (Some i)
  have "if fst r = Ok True then spends ''apply_patch'' (trim session) (trim hash) now t (snd r) else snd r = t"
    if "r = consume_tool_approval i ''apply_patch'' session hash now t" for r
    using that consume_command_spends [of "trim i" "''apply_patch''" "trim session" "trim hash" now t]
    unfolding consume_tool_approval_def normalize_non_empty_def trim_apply_patch
    by (cases "trim i = []"; cases "trim session = []"; cases "trim hash = []") (auto split: prod.splits if_splits)
  from this [OF refl] show ?thesis
    using assms Some by (auto simp: consume_named_patch_def split: prod.splits sum.splits if_splits)
qed (use assms in \<open>auto simp: consume_named_patch_def\<close>)

lemma consume_any_patch_spends:
  assumes "consume_any_patch session hash now t = (res, t')"
  shows "if res = Ok True then spends ''apply_patch'' (trim session) (trim hash) now t t' else t' = t"
proof -
  have "if fst r = Ok True then spends ''apply_patch'' (trim session) (trim hash) now t (snd r) else snd r = t"
    if "r = consume_latest_tool_approval ''apply_patch'' session hash now t" for r
    using that consume_command_spends [of _ "''apply_patch''" "trim session" "trim hash" now t]
    unfolding consume_latest_tool_approval_def normalize_non_empty_def trim_apply_patch consume_latest_approved_tool_command_def
    by (cases "trim session = []"; cases "trim hash = []") (auto split: prod.splits if_splits option.splits)
  from this [OF refl] show ?thesis
    using assms by (auto simp: consume_any_patch_def split: prod.splits sum.splits if_splits)
qed

lemma check_patch_approval_granted:
  assumes "check_patch_approval env tool fs base ops ctx t = (Ok True, t')" and "\<not> patch_approved_via_flag (ctx_metadata ctx)"
  shows "spends ''apply_patch'' (trim (ctx_session_key ctx)) (trim (penv_hash env ops)) (penv_now env) t t'"
proof -
  let ?named = "Option.bind (bt_get (ctx_metadata ctx) ''apply_patch.approval_id'') as_str" and ?s = "ctx_session_key ctx"
    and ?h = "penv_hash env ops"
  obtain r1 t1 where c1: "consume_named_patch ?named ?s ?h (penv_now env) t = (r1, t1)" by fastforce
  obtain r2 t2 where c2: "consume_any_patch ?s ?h (penv_now env) t1 = (r2, t2)" by fastforce
  have "(r1 = Ok True \<and> t' = t1) \<or> (r1 = Ok False \<and> r2 = Ok True \<and> t' = t2)"
    using assms c1 c2
    by (auto simp: check_patch_approval_def Let_def case_prod_unfold split: sum.splits if_splits bool.splits)
  then show ?thesis using consume_named_patch_spends [OF c1] consume_any_patch_spends [OF c2] by auto
qed


section \<open>Leaving the workspace unasked\<close>

text \<open>The path \<^verbatim>\<open>d/../../f\<close> in a workspace \<open>W @ [w]\<close> without an entry \<open>d\<close>: it does not exist, because \<open>d\<close>
  does not, so it is taken as new below the workspace; creating its parents creates \<open>d\<close>, and then
  it names \<open>f\<close> beside the workspace.\<close>

definition escaping :: "file_system \<Rightarrow> path \<Rightarrow> string \<Rightarrow> string \<Rightarrow> string \<Rightarrow> bool" where
  "escaping fs W w d f \<longleftrightarrow> tree_ok fs \<and> bt_get fs (W @ [w]) = Some Directory \<and> bt_get fs (W @ [w, d]) = None \<and>
     bt_get fs (W @ [f]) = None \<and> d \<noteq> ''..'' \<and> f \<noteq> ''..''"

definition with_dir :: "file_system \<Rightarrow> path \<Rightarrow> string \<Rightarrow> string \<Rightarrow> file_system" where
  "with_dir fs W w d = bt_insert (W @ [w, d]) Directory fs"

lemma escaping_before:
  assumes "escaping fs W w d f"
  shows "node_at fs W = Some Directory" and "canonicalize fs (W @ [w]) = Ok (W @ [w])"
    and "canonicalize fs (W @ w # d # rest) = Err NotFound" and "w \<noteq> ''..''" and "\<not> prefix (W @ [w]) (W @ [f])"
proof -
  have tree: "tree_ok fs" and dir: "node_at fs (W @ [w]) = Some Directory" using assms by (simp_all add: escaping_def)
  note walk = walk_from_dir [OF tree dir, of False max_links]
  show "node_at fs W = Some Directory" using tree_ok_parent [OF tree, of "W @ [w]"] dir by simp
  show "canonicalize fs (W @ [w]) = Ok (W @ [w])" using walk [of "[]"] by (simp add: canonicalize_def)
  show "canonicalize fs (W @ w # d # rest) = Err NotFound"
    using walk [of "d # rest"] assms by (simp add: canonicalize_def escaping_def)
  show "w \<noteq> ''..''" using tree_ok_plain [OF tree dir] by simp
  show "\<not> prefix (W @ [w]) (W @ [f])" using assms by (auto simp: escaping_def)
qed

lemma escaping_resolved:
  assumes esc: "escaping fs W w d f" and raw: "candidate_path (W @ [w]) raw = W @ [w, d, ''..'', ''..'', f]"
  shows "resolve_candidate_path fs (W @ [w]) raw = Ok (W @ [w, d, ''..'', ''..'', f])"
proof -
  note before = escaping_before [OF esc]
  have "existing_ancestor fs (W @ [w, d, ''..'', ''..'', f]) = Some (W @ [w])"
    by (simp add: existing_ancestor.simps path_exists_in_def before(2,3) butlast_append)
  then show ?thesis by (simp add: resolve_candidate_path_def raw path_exists_in_def before(2,3) Let_def)
qed

lemma escaping_after:
  assumes esc: "escaping fs W w d f"
  shows "canonicalize (with_dir fs W w d) (W @ [w, d, ''..'']) = Ok (W @ [w])"
    and "canonicalize (with_dir fs W w d) (W @ [w, d, ''..'', ''..'']) = Ok W"
    and "walk True max_links (with_dir fs W w d) [] (W @ [w, d, ''..'', ''..'', f]) = Ok (W @ [f])"
    and "node_at (with_dir fs W w d) W = Some Directory" and "bt_get (with_dir fs W w d) (W @ [w]) = Some Directory"
proof -
  let ?fs = "with_dir fs W w d"
  have tree: "tree_ok fs" and dir: "node_at fs (W @ [w]) = Some Directory" and names: "d \<noteq> ''..''" "f \<noteq> ''..''"
    and entries: "bt_get ?fs (W @ [w, d]) = Some Directory" "bt_get ?fs (W @ [f]) = None"
    using esc by (simp_all add: escaping_def with_dir_def)
  have step: "tree_step fs ?fs"
    unfolding with_dir_def using tree_ok_plain [OF tree dir] esc
    by (intro tree_step_insert [OF tree]) (auto simp: escaping_def butlast_append node_at_nonempty)
  note after = tree_step_ok [OF step tree] tree_step_dir [OF step tree escaping_before(1) [OF esc]]
    tree_step_dir [OF step tree dir]
  note walk = walk_from_dir [OF after(1,3)]
  show "canonicalize ?fs (W @ [w, d, ''..'']) = Ok (W @ [w])"
    "canonicalize ?fs (W @ [w, d, ''..'', ''..'']) = Ok W"
    "walk True max_links ?fs [] (W @ [w, d, ''..'', ''..'', f]) = Ok (W @ [f])"
    using walk [of False max_links "[d, ''..'']"] walk [of False max_links "[d, ''..'', ''..'']"]
      walk [of True max_links "[d, ''..'', ''..'', f]"] names entries
    by (simp_all add: canonicalize_def butlast_append)
  show "node_at ?fs W = Some Directory" "bt_get ?fs (W @ [w]) = Some Directory" using after by simp_all
qed

lemma escaping_parents:
  assumes esc: "escaping fs W w d f"
  shows "create_dir_all (W @ [w, d, ''..'', ''..'']) fs = (Ok (), with_dir fs W w d)"
proof -
  note before = escaping_before [OF esc] and after = escaping_after [OF esc]
  have names: "d \<noteq> ''..''" and free: "bt_get fs (W @ [w, d]) = None" and dir: "bt_get fs (W @ [w]) = Some Directory"
    using esc by (simp_all add: escaping_def)
  have "mkdir (W @ [w, d]) fs = Ok (with_dir fs W w d)"
    using names free dir before(2) by (simp add: mkdir_def entry_path_def butlast_append node_at_nonempty with_dir_def)
  then have d: "create_dir_all (W @ [w, d]) fs = (Ok (), with_dir fs W w d)"
    by (simp add: create_dir_all.simps mkdir_or_dir_def)
  have missing: "mkdir (W @ w # d # rest @ [''..'']) fs = Err NotFound" for rest
    using before(3) [of "rest @ [''..'']"] by (simp add: mkdir_def entry_path_def)
  have exists: "mkdir_or_dir (W @ [w, d, ''..'']) (with_dir fs W w d) = (Ok (), with_dir fs W w d)"
    "mkdir_or_dir (W @ [w, d, ''..'', ''..'']) (with_dir fs W w d) = (Ok (), with_dir fs W w d)"
    using after by (simp_all add: mkdir_or_dir_def mkdir_def entry_path_def is_dir_def)
  have up: "create_dir_all (W @ [w, d, ''..'']) fs = (Ok (), with_dir fs W w d)"
    using d missing [of "[]"] exists(1) by (simp add: create_dir_all.simps [of "W @ [w, d, ''..'']"] butlast_append)
  then show ?thesis
    using missing [of "[''..'']"] exists(2) by (simp add: create_dir_all.simps [of "W @ [w, d, ''..'', ''..'']"] butlast_append)
qed

lemma escaping_patch:
  assumes esc: "escaping fs W w d f" and raw: "candidate_path (W @ [w]) raw = W @ [w, d, ''..'', ''..'', f]"
  shows "collect_unauthorized_paths fs cfg (W @ [w]) [AddFile raw s] = Ok []"
    and "\<exists>result. apply_patch cfg (W @ [w]) [AddFile raw s] granted fs =
      (Ok result, bt_insert (W @ [f]) (RegularFile s) (with_dir fs W w d))"
proof -
  note res = escaping_resolved [OF esc raw]
  have allowed: "is_allowed_path fs cfg (W @ [w]) (W @ [w, d, ''..'', ''..'', f]) = Ok True"
    by (simp add: is_allowed_path_def path_starts_with_def)
  show "collect_unauthorized_paths fs cfg (W @ [w]) [AddFile raw s] = Ok []"
    by (simp add: collect_unauthorized_paths_def res allowed)
  have "resolve_operations fs cfg (W @ [w]) [AddFile raw s] granted = Ok [ResolvedAddFile (W @ [w, d, ''..'', ''..'', f]) s]"
    by (simp add: resolve_operations_def resolve_workspace_path_def res allowed)
  moreover have "create_parent_dirs (W @ [w, d, ''..'', ''..'', f]) fs = (Ok (), with_dir fs W w d)"
    using escaping_parents [OF esc] by (simp add: create_parent_dirs_def butlast_append)
  moreover have "node_at (with_dir fs W w d) (W @ [f]) \<noteq> Some Directory" using esc by (simp add: escaping_def with_dir_def)
  then have "write_file (W @ [w, d, ''..'', ''..'', f]) s (with_dir fs W w d) = Ok (bt_insert (W @ [f]) (RegularFile s) (with_dir fs W w d))"
    using escaping_after(3) [OF esc] by (simp add: write_file_def)
  ultimately show "\<exists>result. apply_patch cfg (W @ [w]) [AddFile raw s] granted fs =
      (Ok result, bt_insert (W @ [f]) (RegularFile s) (with_dir fs W w d))"
    by (simp add: apply_patch_def path_exists_def is_file_def escaping_before(3) [OF esc] fs_step_def)
qed

text \<open>C6: A request can leave the workspace without an approval. In every workspace \<open>W @ [w]\<close>, with every
  configuration, adding the file \<^verbatim>\<open>d/../../f\<close>, where \<open>d\<close> is not there yet, needs no approval and writes
  the file \<open>f\<close> beside the workspace.\<close>

theorem patch_leaves_the_workspace_unasked:
  assumes esc: "escaping fs W w d f" and raw: "candidate_path (W @ [w]) raw = W @ [w, d, ''..'', ''..'', f]"
    and request: "parse_patch_request env args = Ok [AddFile raw s]"
    and base: "resolve_patch_workspace_base env tool ctx fs = (Ok (W @ [w]), fs)"
  shows "\<exists>out fs'. patch_execute env tool args ctx (t, fs) = (Ok out, t, fs') \<and>
    bt_get fs' (W @ [f]) = Some (RegularFile s) \<and> \<not> prefix (W @ [w]) (W @ [f])"
proof -
  have "check_patch_approval env tool fs (W @ [w]) [AddFile raw s] ctx t = (Ok False, t)"
    by (simp add: check_patch_approval_def escaping_patch(1) [OF esc raw])
  moreover obtain result where "apply_patch (patch_config tool) (W @ [w]) [AddFile raw s] False fs =
      (Ok result, bt_insert (W @ [f]) (RegularFile s) (with_dir fs W w d))"
    using escaping_patch(2) [OF esc raw] by blast
  ultimately show ?thesis
    using request base escaping_before(5) [OF esc] by (simp add: patch_execute_def Let_def)
qed

section \<open>Stopping half way\<close>

lemma new_path_resolved:
  assumes ok: "tree_ok fs" and base: "node_at fs base = Some Directory" and new: "bt_get fs (base @ [a]) = None" "plain (a # rest)"
    and raw: "candidate_path base raw = base @ a # rest"
  shows "resolve_candidate_path fs base raw = Ok (base @ a # rest)" and "\<not> is_file fs (base @ a # rest)"
proof -
  have missing: "canonicalize fs (base @ a # r) = Err NotFound" for r
    using walk_from_dir [OF ok base, of False max_links "a # r"] new by (simp add: canonicalize_def)
  have here: "canonicalize fs base = Ok base"
    using walk_from_dir [OF ok base, of False max_links "[]"] by (simp add: canonicalize_def)
  have "existing_ancestor fs (base @ a # r) = Some base" for r
  proof (induction r rule: rev_induct)
    case Nil
    then show ?case by (simp add: existing_ancestor.simps path_exists_in_def missing here butlast_append)
  next
    case (snoc c r)
    then show ?case
      using existing_ancestor.simps [of fs "base @ a # r @ [c]"] by (simp add: path_exists_in_def missing butlast_append)
  qed
  then show "resolve_candidate_path fs base raw = Ok (base @ a # rest)"
    by (simp add: resolve_candidate_path_def raw path_exists_in_def missing here Let_def)
  show "\<not> is_file fs (base @ a # rest)" by (simp add: is_file_def missing)
qed

text \<open>A request that passed all checks can stop half way. Adding the files \<^verbatim>\<open>a\<close> and \<^verbatim>\<open>a/b\<close>, neither of
  which exists, passes the validation of the batch; the first is written, the second fails because
  its parent is now a file, and the first stays.\<close>

theorem patch_stops_half_way:
  assumes ok: "tree_ok fs" and base: "node_at fs base = Some Directory" and new: "bt_get fs (base @ [a]) = None"
    and names: "a \<noteq> ''..''" "b \<noteq> ''..''"
    and raws: "candidate_path base raw1 = base @ [a]" "candidate_path base raw2 = base @ [a, b]"
  shows "\<exists>e fs'. apply_patch cfg base [AddFile raw1 s1, AddFile raw2 s2] granted fs = (Err e, fs') \<and>
    bt_get fs' (base @ [a]) = Some (RegularFile s1)"
proof -
  let ?fs1 = "bt_insert (base @ [a]) (RegularFile s1) fs"
  note one = new_path_resolved [OF ok base new, of "[]"] and two = new_path_resolved [OF ok base new, of "[b]"]
  have allowed: "is_allowed_path fs cfg base (base @ r) = Ok True" for r
    by (simp add: is_allowed_path_def path_starts_with_def)
  have res: "resolve_operations fs cfg base [AddFile raw1 s1, AddFile raw2 s2] granted =
      Ok [ResolvedAddFile (base @ [a]) s1, ResolvedAddFile (base @ [a, b]) s2]"
    using one(1) [OF _ raws(1)] two(1) [OF _ raws(2)] names allowed
    by (simp add: resolve_operations_def resolve_workspace_path_def)
  have valid: "validate_operations fs [] [ResolvedAddFile (base @ [a]) s1, ResolvedAddFile (base @ [a, b]) s2] = Ok ()"
    using one(2) [OF _ raws(1)] two(2) [OF _ raws(2)] names by (simp add: path_exists_def bt_get_def)
  have "walk True max_links fs [] (base @ [a]) = Ok (base @ [a])"
    using walk_from_dir [OF ok base, of True max_links "[a]"] names new by simp
  then have written: "write_file (base @ [a]) s1 fs = Ok ?fs1" using new by (simp add: write_file_def)
  have first: "apply_operation (ResolvedAddFile (base @ [a]) s1) fs = (Ok (''add_file '' @ display_path (base @ [a])), ?fs1)"
    using create_dir_all_existing [OF ok base] written by (simp add: create_parent_dirs_def fs_step_def)
  have step: "tree_step fs ?fs1" using write_file_step [OF written] .
  note after = tree_step_ok [OF step ok] tree_step_dir [OF step ok base]
  note walk = walk_from_dir [OF after]
  have "entry_path ?fs1 (base @ [a]) = Ok (base @ [a])"
    using walk [of False max_links "[]"] names after(2) by (simp add: entry_path_def canonicalize_def)
  moreover have "\<not> is_dir ?fs1 (base @ [a])"
    using walk [of False max_links "[a]"] names by (simp add: is_dir_def canonicalize_def)
  ultimately have "create_dir_all (base @ [a]) ?fs1 = (Err AlreadyExists, ?fs1)"
    by (simp add: create_dir_all.simps [of "base @ [a]"] mkdir_or_dir_def mkdir_def)
  then have "\<exists>e. apply_operation (ResolvedAddFile (base @ [a, b]) s2) ?fs1 = (Err e, ?fs1)"
    by (simp add: create_parent_dirs_def butlast_append)
  then show ?thesis using res valid first by (auto simp: apply_patch_def)
qed

section \<open>Witnesses\<close>

theorem patch_leaves_the_workspace_unasked_witness:
  "\<exists>out fs'. patch_execute (sample_patch_env [AddFile ''d/../../f'' ''x'']) sample_patch_tool JNull sample_patch_ctx ([], sample_fs) =
     (Ok out, [], fs') \<and> bt_get fs' [''f''] = Some (RegularFile ''x'')"
proof -
  have "escaping sample_fs [] ''w'' ''d'' ''f''" using sample_tree by (simp add: escaping_def sample_fs_get)
  moreover have "candidate_path [''w''] ''d/../../f'' = [''w'', ''d'', ''..'', ''..'', ''f'']" by code_simp
  moreover have "parse_patch_request (sample_patch_env [AddFile ''d/../../f'' ''x'']) JNull = Ok [AddFile ''d/../../f'' ''x'']"
  proof -
    have "trim ''d/../../f'' = ''d/../../f''" "str_len ''x'' = 1" by code_simp+
    then show ?thesis
      by (simp add: parse_patch_request_def sample_patch_env_def MAX_PATCH_OPERATIONS_def validate_relative_path_def
          validate_content_size_def MAX_CONTENT_BYTES_def)
  qed
  ultimately show ?thesis
    using patch_leaves_the_workspace_unasked [of sample_fs "[]" "''w''" "''d''" "''f''" "''d/../../f''" _ JNull "''x''"
        sample_patch_tool sample_patch_ctx "[]"] sample_base
    by auto
qed

theorem patch_stops_half_way_witness:
  "\<exists>e fs'. apply_patch default_apply_patch_config [''w''] [AddFile ''a'' ''x'', AddFile ''a/b'' ''y''] False sample_fs = (Err e, fs') \<and>
     bt_get fs' [''w'', ''a''] = Some (RegularFile ''x'')"
proof -
  have "candidate_path [''w''] ''a'' = [''w'', ''a'']" "candidate_path [''w''] ''a/b'' = [''w'', ''a'', ''b'']" by code_simp+
  then show ?thesis
    using patch_stops_half_way [OF sample_tree, of "[''w'']" "''a''" "''b''" "''a''" "''a/b''"]
    by (simp add: node_at_def sample_fs_get)
qed


end
