(* ===== verification/Channel_Attachment.thy ===== *)
theory Channel_Attachment
  imports File_Tree Agent_Loop
begin

text \<open>
  Files that the agent sends to a chat. The tool of \<^verbatim>\<open>klaw-tool/src/channel_attachment.rs\<close> checks a file
  and puts an attachment into its signals; the agent loop copies it into the metadata of the reply,
  from where the runtime (\<^verbatim>\<open>parse_outbound_attachments\<close> in \<^verbatim>\<open>klaw-runtime/src/lib.rs\<close>) and the channels read
  it, and \<^verbatim>\<open>klaw-channel/src/outbound.rs\<close> opens the file, with the same checks once more. The limits come
  from the configuration (\<^verbatim>\<open>validate_local_attachments\<close> in \<^verbatim>\<open>klaw-config/src/validate.rs\<close>).

  The archive is used through its trait, the record \<open>archive_service\<close> of operations on a world.
\<close>

section \<open>Configuration and policy\<close>

record local_attachment_config =
  la_allowlist :: "string list"
  la_max_bytes :: u64

definition require_non_empty :: "string \<Rightarrow> string \<Rightarrow> string + unit" where
  "require_non_empty v field_name = (if trim v = [] then Err (field_name @ '' cannot be empty'') else Ok ())"

definition validate_allowlist_entry :: "string \<Rightarrow> string \<Rightarrow> string + unit" where
  "validate_allowlist_entry field_prefix entry =
     and_then (require_non_empty entry (field_prefix @ ''.allowlist'')) (\<lambda>_.
       if starts_with (trim entry) ''/'' then Ok ()
       else Err (field_prefix @ ''.allowlist entry '' @ [quote] @ trim entry @ [quote] @ '' must be an absolute path''))"

definition validate_local_attachments :: "local_attachment_config \<Rightarrow> string \<Rightarrow> string + unit" where
  "validate_local_attachments cfg field_prefix =
     (if la_max_bytes cfg = 0 then Err (field_prefix @ ''.max_bytes must be greater than 0'')
      else and_then (collect_results (map (validate_allowlist_entry field_prefix) (la_allowlist cfg))) (\<lambda>_. Ok ()))"

text \<open>An entry of the allowlist is a path that need not be absolute.\<close>

record local_attachment_policy =
  pol_workspace_root :: path
  pol_allowlist :: "string list"
  pol_max_bytes :: u64

definition policy_of :: "path \<Rightarrow> local_attachment_config \<Rightarrow> local_attachment_policy" where
  "policy_of workspace cfg =
     \<lparr>pol_workspace_root = workspace, pol_allowlist = map trim (la_allowlist cfg), pol_max_bytes = la_max_bytes cfg\<rparr>"

text \<open>\<^verbatim>\<open>Path::starts_with\<close> of an absolute path compares components; the empty path has none, and no other
  relative path has the root as its first.\<close>

definition absolute_starts_with :: "path \<Rightarrow> string \<Rightarrow> bool" where
  "absolute_starts_with p entry \<longleftrightarrow>
     (if is_absolute entry then path_starts_with p (path_components entry) else entry = [])"

definition path_allowed :: "path \<Rightarrow> local_attachment_policy \<Rightarrow> bool" where
  "path_allowed p policy \<longleftrightarrow>
     path_starts_with p (pol_workspace_root policy) \<or>
     list_ex (absolute_starts_with p) (pol_allowlist policy)"

section \<open>The archive\<close>

datatype archive_source_kind = UserUpload | ChannelInbound | ModelGenerated
datatype archive_media_kind = ArchivePdf | ArchiveImage | ArchiveVideo | ArchiveAudio | ArchiveOther

record archive_record =
  arc_id :: string
  arc_source_kind :: archive_source_kind
  arc_media_kind :: archive_media_kind
  arc_mime_type :: "string option"
  arc_extension :: "string option"
  arc_original_filename :: "string option"
  arc_content_sha256 :: string
  arc_size_bytes :: int
  arc_storage_rel_path :: string
  arc_session_key :: "string option"
  arc_channel :: "string option"
  arc_chat_id :: "string option"
  arc_message_id :: "string option"
  arc_metadata_json :: string
  arc_created_at_ms :: int

record archive_ingest_input =
  ain_source_kind :: archive_source_kind
  ain_filename :: "string option"
  ain_declared_mime_type :: "string option"
  ain_session_key :: "string option"
  ain_channel :: "string option"
  ain_chat_id :: "string option"
  ain_message_id :: "string option"
  ain_metadata :: json

text \<open>The three operations that are called, with their errors as text.\<close>

record 'w archive_service =
  archive_get :: "string \<Rightarrow> 'w \<Rightarrow> (string + archive_record) \<times> 'w"
  archive_open_download :: "string \<Rightarrow> 'w \<Rightarrow> (string + archive_record \<times> string) \<times> 'w"
  archive_ingest_bytes :: "archive_ingest_input \<Rightarrow> string \<Rightarrow> 'w \<Rightarrow> (string + archive_record) \<times> 'w"

section \<open>Resolving an attachment\<close>

datatype attachment_kind = ImageAttachment | FileAttachment
datatype attachment_source = ArchiveId string | LocalPath string

record outbound_attachment =
  att_source :: attachment_source
  att_kind :: attachment_kind
  att_filename :: "string option"
  att_caption :: "string option"

record resolved_attachment =
  res_source_label :: string
  res_kind :: attachment_kind
  res_filename :: string
  res_mime_type :: "string option"
  res_caption :: "string option"
  res_bytes :: string

definition resolve_filename :: "string option \<Rightarrow> string option \<Rightarrow> string option \<Rightarrow> string" where
  "resolve_filename requested fallback default_stem =
     unwrap_or (or_else (nonempty_trimmed requested) (nonempty_trimmed fallback))
       (unwrap_or default_stem ''attachment.bin'')"

definition resolve_archive_attachment :: "'w archive_service \<Rightarrow> outbound_attachment \<Rightarrow> string \<Rightarrow> 'w \<Rightarrow>
    (string + resolved_attachment) \<times> 'w" where
  "resolve_archive_attachment S att raw w =
     (let i = trim raw
      in case archive_open_download S i w of
           (Inl e, w') \<Rightarrow> (Err e, w')
         | (Inr (rec, bytes), w') \<Rightarrow>
             (if bytes = [] then Err (''archive attachment '' @ i @ '' has no content'')
              else Ok \<lparr>res_source_label = i, res_kind = att_kind att,
                       res_filename = resolve_filename (att_filename att) (arc_original_filename rec) (Some i),
                       res_mime_type = arc_mime_type rec, res_caption = nonempty_trimmed (att_caption att),
                       res_bytes = bytes\<rparr>, w'))"

text \<open>\<^verbatim>\<open>Path::file_name\<close> of a canonical path.\<close>

definition path_file_name :: "path \<Rightarrow> string option" where
  "path_file_name p = (if p = [] then None else Some (last p))"

text \<open>The checks on a local file that the tool and the resolver share; \<open>None\<close> when all pass.\<close>

datatype attachment_refusal = NotAFile | NoContent | TooLarge nat | OutsidePolicy

definition refused_file :: "local_attachment_policy \<Rightarrow> path \<Rightarrow> file_system \<Rightarrow> attachment_refusal option" where
  "refused_file policy q fs =
     (case node_at fs q of
        Some (RegularFile s) \<Rightarrow>
          (if str_len s = 0 then Some NoContent
           else if unat (pol_max_bytes policy) < str_len s then Some (TooLarge (str_len s))
           else if \<not> path_allowed q policy then Some OutsidePolicy
           else None)
      | _ \<Rightarrow> Some NotAFile)"

fun refusal_message :: "local_attachment_policy \<Rightarrow> path \<Rightarrow> attachment_refusal \<Rightarrow> string" where
  "refusal_message policy q NotAFile =
     ''local attachment path '' @ [quote] @ display_path q @ [quote] @ '' must be a file''"
| "refusal_message policy q NoContent =
     ''local attachment path '' @ [quote] @ display_path q @ [quote] @ '' has no content''"
| "refusal_message policy q (TooLarge n) =
     ''local attachment '' @ [quote] @ display_path q @ [quote] @ '' exceeds max_bytes limit ('' @ show_nat n
     @ '' > '' @ show_nat (unat (pol_max_bytes policy)) @ '')''"
| "refusal_message policy q OutsidePolicy =
     ''local attachment '' @ [quote] @ display_path q @ [quote] @ '' is outside the workspace and channel allowlist''"

text \<open>\<^verbatim>\<open>fs::read\<close>.\<close>

definition read_bytes :: "file_system \<Rightarrow> path \<Rightarrow> string" where
  "read_bytes fs q = (case node_at fs q of Some (RegularFile s) \<Rightarrow> s | _ \<Rightarrow> [])"

definition resolve_local_attachment :: "local_attachment_policy \<Rightarrow> outbound_attachment \<Rightarrow> string \<Rightarrow> file_system \<Rightarrow>
    string + resolved_attachment" where
  "resolve_local_attachment policy att p fs =
     (let requested = trim p
      in if \<not> is_absolute requested
         then Err (''local attachment path '' @ [quote] @ p @ [quote] @ '' must be absolute'')
         else case canonicalize fs (path_components requested) of
                Inl e \<Rightarrow> Err (''failed to resolve local attachment path '' @ [quote] @ requested @ [quote] @ '': '' @ io_error_to_string e)
              | Inr q \<Rightarrow>
                  (case refused_file policy q fs of
                     Some r \<Rightarrow> Err (refusal_message policy q r)
                   | None \<Rightarrow>
                       Ok \<lparr>res_source_label = display_path q, res_kind = att_kind att,
                           res_filename = resolve_filename (att_filename att) (path_file_name q) (path_file_name q),
                           res_mime_type = None, res_caption = nonempty_trimmed (att_caption att),
                           res_bytes = read_bytes fs q\<rparr>))"

definition resolve_outbound_attachment :: "'w archive_service \<Rightarrow> local_attachment_policy \<Rightarrow> outbound_attachment \<Rightarrow>
    file_system \<Rightarrow> 'w \<Rightarrow> (string + resolved_attachment) \<times> 'w" where
  "resolve_outbound_attachment S policy att fs w =
     (case att_source att of
        ArchiveId i \<Rightarrow> resolve_archive_attachment S att i w
      | LocalPath p \<Rightarrow> (resolve_local_attachment policy att p fs, w))"

section \<open>Attachments in the metadata of a reply\<close>

text \<open>What serde reads: a unit variant is its name, or an object of the name and null; the source is the
  first alternative whose field is a string, the other fields may be missing.\<close>

fun variant_name :: "json \<Rightarrow> string option" where
  "variant_name (JString s) = Some s"
| "variant_name (JObject [(k, JNull)]) = Some k"
| "variant_name _ = None"

definition attachment_kind_of :: "json \<Rightarrow> attachment_kind option" where
  "attachment_kind_of v =
     (if variant_name v = Some ''image'' then Some ImageAttachment
      else if variant_name v = Some ''file'' then Some FileAttachment else None)"

definition opt_string_field :: "json_map \<Rightarrow> string \<Rightarrow> string option option" where
  "opt_string_field m k =
     (case bt_get m k of None \<Rightarrow> Some None | Some JNull \<Rightarrow> Some None | Some (JString s) \<Rightarrow> Some (Some s) | _ \<Rightarrow> None)"

definition attachment_source_of :: "json_map \<Rightarrow> attachment_source option" where
  "attachment_source_of m =
     or_else (map_option ArchiveId (Option.bind (bt_get m ''archive_id'') as_str))
       (map_option LocalPath (Option.bind (bt_get m ''path'') as_str))"

definition attachment_of_json :: "json \<Rightarrow> outbound_attachment option" where
  "attachment_of_json v =
     Option.bind (as_object v) (\<lambda>m.
     Option.bind (Option.bind (bt_get m ''kind'') attachment_kind_of) (\<lambda>kind.
     Option.bind (opt_string_field m ''filename'') (\<lambda>name.
     Option.bind (opt_string_field m ''caption'') (\<lambda>cap.
     map_option (\<lambda>src. \<lparr>att_source = src, att_kind = kind, att_filename = name, att_caption = cap\<rparr>)
       (attachment_source_of m)))))"

fun collect_options :: "'a option list \<Rightarrow> 'a list option" where
  "collect_options [] = Some []"
| "collect_options (x # xs) = Option.bind x (\<lambda>y. map_option (Cons y) (collect_options xs))"

definition clean_attachment :: "outbound_attachment \<Rightarrow> outbound_attachment option" where
  "clean_attachment att =
     map_option (\<lambda>src. att\<lparr>att_source := src, att_filename := nonempty_trimmed (att_filename att),
                           att_caption := nonempty_trimmed (att_caption att)\<rparr>)
       (case att_source att of
          ArchiveId i \<Rightarrow> if trim i = [] then None else Some (ArchiveId (trim i))
        | LocalPath p \<Rightarrow> if trim p = [] then None else Some (LocalPath (trim p)))"

definition parse_outbound_attachments :: "json_map \<Rightarrow> outbound_attachment list" where
  "parse_outbound_attachments m =
     unwrap_or
       (map_option (List.map_filter clean_attachment)
         (Option.bind (Option.bind (bt_get m ''channel.attachments'') as_array)
            (\<lambda>vs. collect_options (map attachment_of_json vs)))) []"

section \<open>The tool\<close>

datatype request_kind = AutoKind | ImageKind | FileKind

record attachment_request =
  areq_kind :: request_kind
  areq_filename :: "string option"
  areq_caption :: "string option"

record channel_attachment_tool =
  cat_local_attachments :: local_attachment_config
  cat_workspace_root :: path

text \<open>Outside the sources: the decoding of the request by serde, the printing of JSON, and the opening
  of the archive in the data directory.\<close>

record 'w attachment_env =
  aenv_decode :: "json_map \<Rightarrow> string + attachment_request"
  aenv_show :: "json \<Rightarrow> string"
  aenv_open_archive :: "'w \<Rightarrow> (string + 'w archive_service) \<times> 'w"

definition parse_archive_id_value :: "'w attachment_env \<Rightarrow> json \<Rightarrow> tool_error + string" where
  "parse_archive_id_value env v =
     (case v of
        JString s \<Rightarrow>
          if trim s = [] then Err (InvalidArgs ''`archive_id` cannot be empty; pass the exact archive id string from the attachment context'')
          else Ok (trim s)
      | JNumber n \<Rightarrow> Err (InvalidArgs (''`archive_id` must be the exact archive id string like `arch_123`, not an attachment number such as `''
                           @ aenv_show env v @ ''`''))
      | _ \<Rightarrow> Err (InvalidArgs (''`archive_id` must be a string like `arch_123`, got '' @ aenv_show env v)))"

definition parse_local_path_value :: "'w attachment_env \<Rightarrow> json \<Rightarrow> tool_error + string" where
  "parse_local_path_value env v =
     (case v of
        JString s \<Rightarrow>
          if trim s = [] then Err (InvalidArgs ''`path` cannot be empty'')
          else if \<not> starts_with (trim s) ''/'' then Err (InvalidArgs ''`path` must be an absolute filesystem path'')
          else Ok (trim s)
      | _ \<Rightarrow> Err (InvalidArgs (''`path` must be an absolute filesystem path string, got '' @ aenv_show env v)))"

definition parse_source :: "'w attachment_env \<Rightarrow> json_map \<Rightarrow> tool_error + attachment_source \<times> json_map" where
  "parse_source env m =
     (let rest = bt_remove ''path'' (bt_remove ''archive_id'' m)
      in case (bt_get m ''archive_id'', bt_get m ''path'') of
           (Some v, None) \<Rightarrow>
             and_then (parse_archive_id_value env v) (\<lambda>i. Ok (ArchiveId i, bt_insert ''archive_id'' (JString i) rest))
         | (None, Some v) \<Rightarrow>
             and_then (parse_local_path_value env v) (\<lambda>p. Ok (LocalPath p, bt_insert ''path'' (JString p) rest))
         | (Some _, Some _) \<Rightarrow> Err (InvalidArgs ''exactly one of `archive_id` or `path` must be provided'')
         | (None, None) \<Rightarrow> Err (InvalidArgs ''missing attachment source: provide either `archive_id` or `path`''))"

definition parse_attachment_request :: "'w attachment_env \<Rightarrow> json \<Rightarrow> tool_error + attachment_source \<times> attachment_request" where
  "parse_attachment_request env args =
     (case args of
        JObject m \<Rightarrow>
          and_then (parse_source env m) (\<lambda>(src, m').
            case aenv_decode env m' of
              Inl e \<Rightarrow> Err (InvalidArgs (''invalid request: '' @ e))
            | Inr req \<Rightarrow> Ok (src, req))
      | _ \<Rightarrow> Err (InvalidArgs ''request must be an object''))"

fun normalize_attachment_kind :: "request_kind \<Rightarrow> archive_media_kind \<Rightarrow> string" where
  "normalize_attachment_kind AutoKind ArchiveImage = ''image''"
| "normalize_attachment_kind AutoKind _ = ''file''"
| "normalize_attachment_kind ImageKind _ = ''image''"
| "normalize_attachment_kind FileKind _ = ''file''"

fun local_kind :: "request_kind \<Rightarrow> string" where
  "local_kind AutoKind = ''file''"
| "local_kind ImageKind = ''image''"
| "local_kind FileKind = ''file''"

text \<open>\<^verbatim>\<open>split(':')\<close> gives at least one segment.\<close>

definition parse_session_channel :: "string \<Rightarrow> (string \<times> string) option" where
  "parse_session_channel key =
     (case split_char (CHR '':'') key of
        chan # account # _ \<Rightarrow> if trim chan \<noteq> [] \<and> trim account \<noteq> [] then Some (trim chan, trim account) else None
      | _ \<Rightarrow> None)"

definition local_policy_for_session :: "channel_attachment_tool \<Rightarrow> string \<Rightarrow> tool_error + local_attachment_policy" where
  "local_policy_for_session tool key =
     (if parse_session_channel key = None
      then Err (ExecutionFailed (''failed to resolve channel attachment policy from session_key `'' @ key @ ''`''))
      else Ok (policy_of (cat_workspace_root tool) (cat_local_attachments tool)))"

fun tool_refusal :: "local_attachment_policy \<Rightarrow> path \<Rightarrow> attachment_refusal \<Rightarrow> string" where
  "tool_refusal policy q NotAFile = ''`path` must point to a file, not `'' @ display_path q @ ''`''"
| "tool_refusal policy q NoContent = ''local attachment `'' @ display_path q @ ''` has no content''"
| "tool_refusal policy q (TooLarge n) =
     ''local attachment `'' @ display_path q @ ''` exceeds the configured max_bytes limit ('' @ show_nat n @ '' > ''
     @ show_nat (unat (pol_max_bytes policy)) @ '')''"
| "tool_refusal policy q OutsidePolicy =
     ''local attachment `'' @ display_path q @ ''` is outside the workspace and the configured allowlist''"

definition attachment_output :: "string \<Rightarrow> string option \<Rightarrow> string option \<Rightarrow> string \<Rightarrow> attachment_request \<Rightarrow> tool_output" where
  "attachment_output kind i p display req =
     \<lparr>output_for_model = ''Queued attachment for channel delivery: ''
        @ (case i of Some a \<Rightarrow> ''archive_id='' @ a | None \<Rightarrow> ''path='' @ unwrap_or p [])
        @ ''; kind='' @ kind @ ''; filename='' @ display,
      output_for_user = None, output_media = [],
      output_signals = [channel_attachment_signal kind i p (areq_filename req) (areq_caption req)]\<rparr>"

definition attach_archived :: "'w attachment_env \<Rightarrow> string \<Rightarrow> attachment_request \<Rightarrow> 'w \<Rightarrow> (tool_error + tool_output) \<times> 'w" where
  "attach_archived env i req w =
     (case aenv_open_archive env w of
        (Inl e, w1) \<Rightarrow> (Err (ExecutionFailed (''failed to open archive service: '' @ e)), w1)
      | (Inr S, w1) \<Rightarrow>
          (case archive_get S i w1 of
             (Inl e, w2) \<Rightarrow> (Err (ExecutionFailed (''failed to load archive record: '' @ e)), w2)
           | (Inr rec, w2) \<Rightarrow>
               (Ok (attachment_output (normalize_attachment_kind (areq_kind req) (arc_media_kind rec)) (Some i) None
                  (unwrap_or (or_else (areq_filename req) (arc_original_filename rec)) i) req), w2)))"

definition attach_local :: "channel_attachment_tool \<Rightarrow> string \<Rightarrow> string \<Rightarrow> attachment_request \<Rightarrow> file_system \<Rightarrow>
    tool_error + tool_output" where
  "attach_local tool key p req fs =
     and_then (local_policy_for_session tool key) (\<lambda>policy.
       case canonicalize fs (path_components p) of
         Inl e \<Rightarrow> Err (ExecutionFailed (''failed to resolve local attachment path `'' @ p @ ''`: '' @ io_error_to_string e))
       | Inr q \<Rightarrow>
           (case refused_file policy q fs of
              Some r \<Rightarrow> Err (InvalidArgs (tool_refusal policy q r))
            | None \<Rightarrow>
                Ok (attachment_output (local_kind (areq_kind req)) None (Some (display_path q))
                   (unwrap_or (or_else (areq_filename req) (path_file_name q)) (display_path q)) req)))"

definition attachment_execute :: "'w attachment_env \<Rightarrow> channel_attachment_tool \<Rightarrow> json \<Rightarrow> tool_context \<Rightarrow> file_system \<Rightarrow> 'w \<Rightarrow>
    (tool_error + tool_output) \<times> 'w" where
  "attachment_execute env tool args ctx fs w =
     (case parse_attachment_request env args of
        Inl e \<Rightarrow> (Err e, w)
      | Inr (src, raw) \<Rightarrow>
          (let req = raw\<lparr>areq_filename := nonempty_trimmed (areq_filename raw),
                         areq_caption := nonempty_trimmed (areq_caption raw)\<rparr>
           in case src of
                ArchiveId i \<Rightarrow> attach_archived env i req w
              | LocalPath p \<Rightarrow> (attach_local tool (ctx_session_key ctx) p req fs, w)))"

end
