(* ===== verification/Attachment_Properties.thy ===== *)
theory Attachment_Properties
  imports Channel_Attachment
begin

text \<open>
  What can be sent to a chat: a file is opened for a channel only if it lies in the workspace or below
  an entry of the allowlist, with every link resolved, whoever wrote the metadata; and a file that the
  tool accepted is the file that is sent.
\<close>

section \<open>Displayed paths\<close>

definition good_name :: "string \<Rightarrow> bool" where
  "good_name c \<longleftrightarrow> c \<noteq> [] \<and> c \<noteq> ''.'' \<and> CHR ''/'' \<notin> set c"

text \<open>No entry of a file system has a separator in its name.\<close>

definition names_ok :: "file_system \<Rightarrow> bool" where
  "names_ok fs \<longleftrightarrow> (\<forall>p node. bt_get fs p = Some node \<longrightarrow> list_all good_name p)"

lemma names_ok_node: "names_ok fs \<Longrightarrow> node_at fs q \<noteq> None \<Longrightarrow> list_all good_name q"
  by (cases "q = []") (auto simp: names_ok_def node_at_nonempty)

lemma split_display:
  "list_all good_name p \<Longrightarrow> split_char (CHR ''/'') (concat (map (\<lambda>c. CHR ''/'' # c) p)) = [] # p"
proof (induction p)
  case (Cons c p)
  have c: "CHR ''/'' \<notin> set c" using Cons.prems by (simp add: good_name_def)
  show ?case
  proof (cases p)
    case Nil
    then show ?thesis using split_char_no_sep [OF c] by simp
  next
    case (Cons d p')
    then show ?thesis
      using split_char_append [OF c, of "d @ concat (map (\<lambda>c. CHR ''/'' # c) p')"] Cons.IH Cons.prems by simp
  qed
qed simp

lemma path_components_display:
  assumes "list_all good_name p"
  shows "path_components (display_path p) = p"
proof (cases "p = []")
  case True
  have "path_components ''/'' = []" by code_simp
  then show ?thesis using True by (simp add: display_path_def)
next
  case False
  then have "path_components (display_path p) = filter (\<lambda>c. c \<noteq> [] \<and> c \<noteq> ''.'') p"
    using split_display [OF assms] by (simp add: path_components_def display_path_def)
  also have "\<dots> = p" using assms by (intro filter_True) (auto simp: list_all_iff good_name_def)
  finally show ?thesis .
qed

lemma display_path_absolute: "is_absolute (display_path p)"
  by (cases p) (simp_all add: display_path_def is_absolute_def starts_with_def)

lemma nonempty_trimmed_idem: "nonempty_trimmed (nonempty_trimmed x) = nonempty_trimmed x"
  by (cases x) (simp_all add: nonempty_trimmed_def option_filter_def)

section \<open>The checks\<close>

lemma refused_file_None:
  "refused_file policy q fs = None \<longleftrightarrow>
   (\<exists>s. node_at fs q = Some (RegularFile s) \<and> 0 < str_len s \<and> str_len s \<le> unat (pol_max_bytes policy) \<and>
        path_allowed q policy)"
  by (auto simp: refused_file_def not_less split: option.split fs_node.split)

lemma validate_allowlist_entry_Ok:
  "validate_allowlist_entry pre e = Ok u \<longleftrightarrow> trim e \<noteq> [] \<and> is_absolute (trim e)"
  by (auto simp: validate_allowlist_entry_def require_non_empty_def and_then_Ok_iff is_absolute_def)

lemma validated_entries:
  assumes "validate_local_attachments cfg pre = Ok u" and "e \<in> set (la_allowlist cfg)"
  shows "is_absolute (trim e)"
proof -
  obtain us where "collect_results (map (validate_allowlist_entry pre) (la_allowlist cfg)) = Ok us"
    using assms(1) by (auto simp: validate_local_attachments_def and_then_Ok_iff split: if_splits)
  then have eq: "map (validate_allowlist_entry pre) (la_allowlist cfg) = map Inr us"
    by (simp add: collect_results_Ok_iff)
  have "validate_allowlist_entry pre e \<in> set (map Inr us)" unfolding eq [symmetric] using assms(2) by simp
  then show ?thesis using validate_allowlist_entry_Ok by auto
qed

definition inside_policy :: "path \<Rightarrow> local_attachment_config \<Rightarrow> path \<Rightarrow> bool" where
  "inside_policy ws cfg q \<longleftrightarrow>
     prefix ws q \<or> (\<exists>e \<in> set (la_allowlist cfg). is_absolute (trim e) \<and> prefix (path_components (trim e)) q)"

lemma path_allowed_inside:
  assumes "validate_local_attachments cfg pre = Ok u"
  shows "path_allowed q (policy_of ws cfg) \<longleftrightarrow> inside_policy ws cfg q"
  using validated_entries [OF assms]
  by (auto simp: path_allowed_def policy_of_def inside_policy_def absolute_starts_with_def path_starts_with_prefix
      list_ex_iff)

lemma resolve_local_attachment_Ok:
  assumes "resolve_local_attachment policy att p fs = Ok res"
  obtains q s where "canonicalize fs (path_components (trim p)) = Ok q" "node_at fs q = Some (RegularFile s)"
    "refused_file policy q fs = None" "res_bytes res = s" "res_source_label res = display_path q"
proof -
  obtain q where q: "canonicalize fs (path_components (trim p)) = Ok q" "refused_file policy q fs = None"
      "res_bytes res = read_bytes fs q" "res_source_label res = display_path q"
    using assms by (auto simp: resolve_local_attachment_def Let_def split: if_splits sum.splits option.splits)
  obtain s where "node_at fs q = Some (RegularFile s)" using q(2) by (auto simp: refused_file_None)
  then show thesis using that q by (simp add: read_bytes_def)
qed

text \<open>C10: With a validated configuration, a local file is opened for a channel only if its real path, with
  all links followed, lies in the workspace or below an absolute entry of the allowlist; it is a
  regular file reached through directories only, is not empty and not larger than the limit, and
  what is sent is its content. This holds for every attachment, also for one that the tool never checked.\<close>

theorem attachment_stays_inside:
  assumes "validate_local_attachments cfg field_prefix = Ok ()" and "tree_ok fs"
    and "resolve_outbound_attachment S (policy_of ws cfg) att fs w = (Ok res, w')" and "att_source att = LocalPath p"
  shows "\<exists>q. canonicalize fs (path_components (trim p)) = Ok q \<and> node_at fs q = Some (RegularFile (res_bytes res)) \<and>
    (\<forall>d. strict_prefix d q \<longrightarrow> node_at fs d = Some Directory) \<and> inside_policy ws cfg q \<and>
    0 < str_len (res_bytes res) \<and> str_len (res_bytes res) \<le> unat (la_max_bytes cfg)"
proof -
  have "resolve_local_attachment (policy_of ws cfg) att p fs = Ok res"
    using assms(3,4) by (simp add: resolve_outbound_attachment_def)
  then obtain q s where q: "canonicalize fs (path_components (trim p)) = Ok q" "node_at fs q = Some (RegularFile s)"
      "refused_file (policy_of ws cfg) q fs = None" "res_bytes res = s"
    by (rule resolve_local_attachment_Ok)
  have "0 < str_len s \<and> str_len s \<le> unat (la_max_bytes cfg) \<and> path_allowed q (policy_of ws cfg)"
    using q(2,3) by (auto simp: refused_file_None policy_of_def)
  moreover have "node_at fs d = Some Directory" if "strict_prefix d q" for d
    using tree_ok_ancestor [OF assms(2) _ that] q(2) by simp
  ultimately show ?thesis using q path_allowed_inside [OF assms(1)] by auto
qed

section \<open>From the tool to the channel\<close>

lemma opt_string_set_if_nonblank:
  "nonempty_trimmed v = v \<Longrightarrow> bt_get m k = None \<Longrightarrow> opt_string_field (set_if_nonblank k v m) k = Some v"
  by (cases v) (auto simp: opt_string_field_def set_if_nonblank_def nonempty_trimmed_Some_iff)

lemma bt_get_set_if_nonblank: "k' \<noteq> k \<Longrightarrow> bt_get (set_if_nonblank k v m) k' = bt_get m k'"
  by (simp add: set_if_nonblank_def split: option.split)

definition kind_name :: "attachment_kind \<Rightarrow> string" where
  "kind_name k = (case k of ImageAttachment \<Rightarrow> ''image'' | FileAttachment \<Rightarrow> ''file'')"

lemma attachment_kind_of_name: "attachment_kind_of (JString (kind_name k)) = Some k"
  by (cases k) (simp_all add: attachment_kind_of_def kind_name_def)

lemma trim_kind_name: "trim (kind_name k) = kind_name k"
proof -
  have "trim ''image'' = ''image''" "trim ''file'' = ''file''" by code_simp+
  then show ?thesis by (cases k) (simp_all add: kind_name_def)
qed

lemma local_kind_name: "\<exists>k. local_kind r = kind_name k"
  by (cases r) (auto simp: kind_name_def split: attachment_kind.splits)

lemma attachment_of_signal:
  assumes "nonempty_trimmed file = file" "nonempty_trimmed cap = cap" "trim p = p" "p \<noteq> []"
  shows "attachment_of_json (sig_payload (channel_attachment_signal (kind_name k) None (Some p) file cap)) =
    Some \<lparr>att_source = LocalPath p, att_kind = k, att_filename = file, att_caption = cap\<rparr>"
proof -
  let ?m0 = "object_of [(''kind'', JString (kind_name k))]"
  let ?m1 = "set_if_nonblank ''path'' (Some p) (set_if_nonblank ''archive_id'' None ?m0)"
  let ?m2 = "set_if_nonblank ''filename'' file ?m1"
  let ?m3 = "set_if_nonblank ''caption'' cap ?m2"
  have m0: "bt_get ?m0 key = (if key = ''kind'' then Some (JString (kind_name k)) else None)" for key
    by (simp add: object_of_def bt_extend_def bt_get_def)
  have p: "nonempty_trimmed (Some p) = Some p" using assms(3,4) by (simp add: nonempty_trimmed_Some_iff)
  have m1: "bt_get ?m1 key = (if key = ''path'' then Some (JString p) else bt_get ?m0 key)" for key
    unfolding set_if_nonblank_def p by (simp add: nonempty_trimmed_def)
  have m3: "bt_get ?m3 key = bt_get ?m1 key" if "key \<noteq> ''caption''" "key \<noteq> ''filename''" for key
    using that by (simp add: bt_get_set_if_nonblank)
  have file_field: "opt_string_field ?m3 ''filename'' = Some file"
    using opt_string_set_if_nonblank [OF assms(1), of ?m1 "''filename''"] m1 m0
    by (simp add: opt_string_field_def bt_get_set_if_nonblank)
  have cap_field: "opt_string_field ?m3 ''caption'' = Some cap"
    using opt_string_set_if_nonblank [OF assms(2), of ?m2 "''caption''"] m1 m0 by (simp add: bt_get_set_if_nonblank)
  show ?thesis
    unfolding channel_attachment_signal_def trim_kind_name attachment_of_json_def
    using file_field cap_field m0 m1 m3
    by (simp add: attachment_source_of_def attachment_kind_of_name or_else_def)
qed

lemma bt_get_attachments:
  assumes "sigs = [channel_attachment_signal kind i p file cap]"
  shows "bt_get (signal_metadata sigs c m) ''channel.attachments'' = Some (JArray (map sig_payload sigs))"
  using assms by (simp add: signal_metadata_def channel_attachment_signal_def Let_def)

text \<open>C12: A file that the tool accepts is the file the channel sends: the signal of the tool, copied into the
  metadata of the reply and read back from there, is one attachment, and it resolves to the content
  of the file at the path that was asked for, under the name and caption of the request. (The name of the
  file must not end in white space, which the signal drops.)\<close>

theorem queued_attachment_is_delivered:
  assumes "tree_ok fs" and "names_ok fs"
    and "parse_attachment_request env args = Ok (LocalPath p, req)" and "trim p = p"
    and "attachment_execute env tool args ctx fs w = (Ok out, w')"
    and "canonicalize fs (path_components p) = Ok q" and "trim (display_path q) = display_path q"
  shows "\<exists>att res s. parse_outbound_attachments (signal_metadata (output_signals out) c m) = [att] \<and>
    resolve_outbound_attachment S (policy_of (cat_workspace_root tool) (cat_local_attachments tool)) att fs w = (Ok res, w) \<and>
    node_at fs q = Some (RegularFile s) \<and> res_bytes res = s \<and> res_caption res = nonempty_trimmed (areq_caption req) \<and>
    res_filename res = resolve_filename (areq_filename req) (Some (last q)) (Some (last q))"
proof -
  let ?policy = "policy_of (cat_workspace_root tool) (cat_local_attachments tool)"
  let ?file = "nonempty_trimmed (areq_filename req)" and ?cap = "nonempty_trimmed (areq_caption req)"
  note idem = nonempty_trimmed_idem
  have run: "attach_local tool (ctx_session_key ctx) p (req\<lparr>areq_filename := ?file, areq_caption := ?cap\<rparr>) fs = Ok out"
    using assms(3,5) by (simp add: attachment_execute_def Let_def)
  then have free: "refused_file ?policy q fs = None"
    and out: "output_signals out =
      [channel_attachment_signal (local_kind (areq_kind req)) None (Some (display_path q)) ?file ?cap]"
    using assms(6)
    by (auto simp: attach_local_def and_then_Ok_iff local_policy_for_session_def attachment_output_def
        split: if_splits option.splits)
  obtain k where k: "local_kind (areq_kind req) = kind_name k" using local_kind_name by blast
  obtain s where s: "node_at fs q = Some (RegularFile s)" using free by (auto simp: refused_file_None)
  have q: "canonicalize fs (path_components (display_path q)) = Ok q"
    using path_components_display [OF names_ok_node [OF assms(2)], of q] s
      sound_exists [OF assms(1) canonical_sound [OF assms(1,6)]] by simp
  have nonempty: "display_path q \<noteq> []" by (simp add: display_path_def)
  define att where "att = \<lparr>att_source = LocalPath (display_path q), att_kind = k, att_filename = ?file, att_caption = ?cap\<rparr>"
  have entry: "bt_get (signal_metadata (output_signals out) c m) ''channel.attachments'' =
      Some (JArray [sig_payload (channel_attachment_signal (kind_name k) None (Some (display_path q)) ?file ?cap)])"
    unfolding bt_get_attachments [OF out] using out k by simp
  have "parse_outbound_attachments (signal_metadata (output_signals out) c m) = [att]"
    unfolding parse_outbound_attachments_def entry
    using attachment_of_signal [OF idem idem assms(7) nonempty] assms(7) nonempty idem
    by (simp add: clean_attachment_def List.map_filter_def att_def)
  moreover have "q \<noteq> []" using s by auto
  then have "resolve_outbound_attachment S ?policy att fs w =
      (Ok \<lparr>res_source_label = display_path q, res_kind = k,
           res_filename = resolve_filename (areq_filename req) (Some (last q)) (Some (last q)),
           res_mime_type = None, res_caption = ?cap, res_bytes = s\<rparr>, w)"
    using q free s display_path_absolute [of q] assms(7)
    by (simp add: resolve_outbound_attachment_def resolve_local_attachment_def att_def idem path_file_name_def
        resolve_filename_def read_bytes_def Let_def)
  ultimately show ?thesis using s by auto
qed

section \<open>Instances\<close>

definition sample_tree :: file_system where
  "sample_tree = [([''w''], Directory), ([''w'', ''a''], RegularFile ''x'')]"

definition sample_attachment_config :: local_attachment_config where
  "sample_attachment_config = \<lparr>la_allowlist = [''/srv''], la_max_bytes = 10\<rparr>"

definition sample_attachment_tool :: channel_attachment_tool where
  "sample_attachment_tool = \<lparr>cat_local_attachments = sample_attachment_config, cat_workspace_root = [''w'']\<rparr>"

definition sample_attachment_env :: "unit attachment_env" where
  "sample_attachment_env = \<lparr>aenv_decode = (\<lambda>_. Ok \<lparr>areq_kind = AutoKind, areq_filename = None, areq_caption = Some '' hi ''\<rparr>),
     aenv_show = (\<lambda>_. []), aenv_open_archive = (\<lambda>w. (Err ''closed'', w))\<rparr>"

definition sample_attachment :: outbound_attachment where
  "sample_attachment = \<lparr>att_source = LocalPath ''/w/a'', att_kind = FileAttachment, att_filename = None, att_caption = None\<rparr>"

lemma bt_get_sample_tree:
  "bt_get sample_tree p = (if p = [''w''] then Some Directory else if p = [''w'', ''a''] then Some (RegularFile ''x'') else None)"
  by (simp add: sample_tree_def bt_get_def)

lemma sample_tree_ok: "tree_ok sample_tree" and sample_names_ok: "names_ok sample_tree"
  by (auto simp: tree_ok_def names_ok_def bt_get_sample_tree good_name_def node_at_nonempty split: if_splits)

lemma sample_canonical: "canonicalize sample_tree (path_components ''/w/a'') = Ok [''w'', ''a'']"
  by code_simp

theorem attachment_stays_inside_witness:
  "\<exists>res :: resolved_attachment. inside_policy [''w''] sample_attachment_config [''w'', ''a''] \<and> res_bytes res = ''x'' \<and>
     0 < str_len (res_bytes res)"
proof -
  define S where "S = (undefined :: unit archive_service)"
  obtain res where res: "resolve_local_attachment (policy_of [''w''] sample_attachment_config) sample_attachment ''/w/a'' sample_tree = Ok res"
    "res_bytes res = ''x''"
  proof -
    have "(case resolve_local_attachment (policy_of [''w''] sample_attachment_config) sample_attachment ''/w/a'' sample_tree of
        Inr r \<Rightarrow> res_bytes r = ''x'' | Inl _ \<Rightarrow> False)" by code_simp
    then show ?thesis using that by (auto split: sum.splits)
  qed
  have "resolve_outbound_attachment S (policy_of [''w''] sample_attachment_config) sample_attachment sample_tree () = (Ok res, ())"
    using res by (simp add: resolve_outbound_attachment_def sample_attachment_def)
  moreover have "validate_local_attachments sample_attachment_config ''a'' = Ok ()" by code_simp
  moreover have "trim ''/w/a'' = ''/w/a''" by code_simp
  ultimately show ?thesis
    using attachment_stays_inside [of sample_attachment_config "''a''" sample_tree S "[''w'']" sample_attachment "()" res "()" "''/w/a''"]
      sample_tree_ok sample_canonical res(2)
    by (auto simp: sample_attachment_def)
qed

theorem queued_attachment_is_delivered_witness:
  "\<exists>att out. attachment_execute sample_attachment_env sample_attachment_tool (JObject [(''path'', JString ''/w/a'')])
       \<lparr>ctx_session_key = ''cli:me'', ctx_metadata = []\<rparr> sample_tree () = (Ok out, ()) \<and>
     parse_outbound_attachments (signal_metadata (output_signals out) [] []) = [att]"
proof -
  let ?args = "JObject [(''path'', JString ''/w/a'')]" and ?ctx = "\<lparr>ctx_session_key = ''cli:me'', ctx_metadata = []\<rparr>"
  have parsed: "parse_attachment_request sample_attachment_env ?args =
      Ok (LocalPath ''/w/a'', \<lparr>areq_kind = AutoKind, areq_filename = None, areq_caption = Some '' hi ''\<rparr>)" by code_simp
  have "case fst (attachment_execute sample_attachment_env sample_attachment_tool ?args ?ctx sample_tree ()) of
      Inl _ \<Rightarrow> False | Inr _ \<Rightarrow> True" by code_simp
  then obtain out where out: "attachment_execute sample_attachment_env sample_attachment_tool ?args ?ctx sample_tree () = (Ok out, ())"
    by (auto simp: prod_eq_iff split: sum.splits)
  have "trim ''/w/a'' = ''/w/a''" "display_path [''w'', ''a''] = ''/w/a''" by code_simp+
  then show ?thesis
    using queued_attachment_is_delivered
      [OF sample_tree_ok sample_names_ok parsed _ out sample_canonical, where c = "[]" and m = "[]"] out
    by auto
qed

end
