(* ===== verification/Context_Compression.thy ===== *)
theory Context_Compression
  imports Heartbeat Agent_Execution
begin

text \<open>
  \<^verbatim>\<open>klaw-agent/src/context_compression.rs\<close> and the history functions of \<^verbatim>\<open>klaw-runtime/src/lib.rs\<close>: a long
  conversation is sent to the model as its most recent records behind a summary of the earlier ones.
  The summary is written by a model, which is asked for a JSON object but may wrap it in other text.
  The JSON codec of the summary is the record \<open>summary_codec\<close>.
\<close>

section \<open>Summaries\<close>

record conversation_summary =
  sum_goal :: string
  sum_progress :: "string list"
  sum_pending :: "string list"
  sum_decisions :: "string list"
  sum_notes :: "string list"

definition default_summary :: conversation_summary where
  "default_summary = \<lparr>sum_goal = [], sum_progress = [], sum_pending = [], sum_decisions = [], sum_notes = []\<rparr>"

record summary_codec =
  summary_from_str :: "string \<Rightarrow> conversation_summary option"
  summary_to_string :: "conversation_summary \<Rightarrow> string option"
  summary_to_string_pretty :: "conversation_summary \<Rightarrow> string option"

definition render_messages :: "conversation_message list \<Rightarrow> string" where
  "render_messages ms =
     (if ms = [] then ''(empty)''
      else join [newline] (map (\<lambda>m. conv_role m @ '': '' @ conv_content m) ms))"

definition build_compression_prompt :: "summary_codec \<Rightarrow> conversation_summary option \<Rightarrow>
    conversation_message list \<Rightarrow> string" where
  \<open>build_compression_prompt C old ms =
     join [newline]
       [''You are a conversation context compressor. Output a stable, machine-readable JSON summary.'',
        [],
        ''Objectives:'',
        ''1) Preserve user goal (goal)'',
        ''2) Preserve completed steps (progress)'',
        ''3) Preserve pending tasks (pending)'',
        ''4) Preserve key decisions (decisions)'',
        ''5) Remove chitchat, pleasantries, and repetitive expressions'',
        [],
        ''Field semantic constraints:'',
        ''- goal: Single string describing the current stage's core goal; use empty string if unknown.'',
        ''- progress: Completed items, briefly stated in chronological order (one sentence each).'',
        ''- pending: Unfinished and still-valid tasks; completed items must be moved from pending to progress.'',
        ''- decisions: Confirmed technical/product decisions; if overturned by new information, keep only the latest decision and remove old ones.'',
        ''- notes: Key context (constraints, dependencies, risks, conventions), no chitchat.'',
        [],
        ''Quality requirements:'',
        ''- Merge duplicate content, delete outdated information.'',
        ''- Prioritize factual and actionable information, avoid vague wording.'',
        ''- Do not output markdown, explanatory text, or code blocks.'',
        ''- Output only one complete JSON object.'',
        [],
        ''Output JSON structure (key names must match exactly):'',
        ''{'',
        ''  "goal": "",'',
        ''  "progress": [],'',
        ''  "pending": [],'',
        ''  "decisions": [],'',
        ''  "notes": []'',
        ''}'',
        [],
        ''Existing summary:'',
        unwrap_or (Option.bind old (summary_to_string_pretty C)) ''{}'',
        [],
        ''New messages:'',
        render_messages ms,
        [],
        ''Based on "existing summary + new messages", output the new complete JSON.'']\<close>

section \<open>Reading the model's answer\<close>

definition extract_fenced_json :: "string \<Rightarrow> string option" where
  "extract_fenced_json input =
     (if \<not> starts_with input ''```'' then None
      else Option.bind (split_once newline (drop 3 input)) (\<lambda>(_, rest).
           map_option (\<lambda>i. trim (take i rest)) (str_rfind rest ''```'')))"

definition extract_first_json_object :: "string \<Rightarrow> string option" where
  "extract_first_json_object input =
     Option.bind (find_char (CHR ''{'') input) (\<lambda>start.
     Option.bind (rfind_char (CHR ''}'') input) (\<lambda>stop.
       if stop \<le> start then None else Some (trim (take (stop + 1 - start) (drop start input)))))"

definition parse_conversation_summary :: "summary_codec \<Rightarrow> string \<Rightarrow> conversation_summary option" where
  "parse_conversation_summary C output =
     (let direct = trim output
      in case summary_from_str C direct of
           Some s \<Rightarrow> Some s
         | None \<Rightarrow>
             (case Option.bind (extract_fenced_json direct) (summary_from_str C) of
                Some s \<Rightarrow> Some s
              | None \<Rightarrow> Option.bind (extract_first_json_object direct) (summary_from_str C)))"

definition merge_or_reset_summary :: "summary_codec \<Rightarrow> conversation_summary option \<Rightarrow> string \<Rightarrow>
    conversation_summary" where
  "merge_or_reset_summary C old output =
     unwrap_or (or_else (parse_conversation_summary C output) old) default_summary"

section \<open>The window of recent records\<close>

definition rt_trim_conversation_history :: "chat_record list \<Rightarrow> nat \<Rightarrow> chat_record list" where
  "rt_trim_conversation_history hist limit =
     (if limit = 0 \<or> length hist \<le> limit then hist else drop (length hist - limit) hist)"

definition compression_trigger_interval :: "nat \<Rightarrow> nat" where
  "compression_trigger_interval limit = max (limit div 2) 1"

definition should_trigger_compression :: "nat \<Rightarrow> nat \<Rightarrow> nat \<Rightarrow> bool" where
  "should_trigger_compression last_len len limit =
     (if limit = 0 then False else compression_trigger_interval limit \<le> len - last_len)"

definition to_conversation_messages :: "chat_record list \<Rightarrow> conversation_message list" where
  "to_conversation_messages records =
     map (\<lambda>r. \<lparr>conv_role = chat_role r, conv_content = chat_content r, conv_tool_calls = None, conv_tool_call_id = None\<rparr>)
       records"

definition summary_record :: "summary_codec \<Rightarrow> int \<Rightarrow> conversation_summary \<Rightarrow> chat_record" where
  "summary_record C now s =
     \<lparr>ts_ms = now, chat_role = ''system'',
      chat_content = ''Conversation Summary (JSON): '' @ unwrap_or (summary_to_string C s) ''{}'',
      metadata_json = None, chat_message_id = None\<rparr>"

text \<open>The time of the summary record is the argument \<open>now\<close>; the model never sees it.\<close>

definition rt_build_history_for_model :: "'w heartbeat_env \<Rightarrow> summary_codec \<Rightarrow> int \<Rightarrow> chat_record list \<Rightarrow> nat \<Rightarrow>
    conversation_summary option \<Rightarrow> chat_record list" where
  "rt_build_history_for_model env C now full limit summary =
     (let trimmed = rt_trim_conversation_history (filter (\<lambda>r. \<not> should_exclude_chat_record_from_context env r) full) limit
      in case summary of
           None \<Rightarrow> trimmed
         | Some s \<Rightarrow>
             summary_record C now s #
             (if 0 < limit \<and> limit \<le> length trimmed then rt_trim_conversation_history trimmed (limit - 1)
              else trimmed))"

end
