(* ===== verification/Turn_Records.thy ===== *)
theory Turn_Records
  imports Channel_Attachment Context_Compression Memory_Prompt
begin

text \<open>
  \<^verbatim>\<open>klaw-runtime/src/lib.rs\<close>: what a turn of the conversation leaves behind. The runtime bundle holds the agent
  loop beside the stores; this theory has the writers of the records of a turn: the chat record of the
  reply with its metadata, the token usage (\<^verbatim>\<open>append_llm_usage\<close> of the session store), the audit queues,
  the delivery metadata of the session and the archived attachments.

  The agent loop runs on the whole state, so tools may change any of the stores during a run.
\<close>

section \<open>The state\<close>

datatype llm_usage_source_kind = UsageReported | UsageEstimated

fun parse_usage_source :: "string \<Rightarrow> llm_usage_source_kind option" where
  "parse_usage_source s =
     (if s = ''provider_reported'' then Some UsageReported
      else if s = ''estimated_local'' then Some UsageEstimated else None)"

record llm_usage_row =
  ur_id :: string
  ur_session_key :: string
  ur_chat_id :: string
  ur_turn_index :: int
  ur_request_seq :: int
  ur_provider :: string
  ur_model :: string
  ur_wire_api :: string
  ur_input_tokens :: int
  ur_output_tokens :: int
  ur_total_tokens :: int
  ur_cached_input_tokens :: "int option"
  ur_reasoning_tokens :: "int option"
  ur_source :: llm_usage_source_kind
  ur_provider_request_id :: "string option"
  ur_provider_response_id :: "string option"
  ur_created_at_ms :: int

record new_llm_audit_record =
  la_id :: string
  la_session_key :: string
  la_chat_id :: string
  la_turn_index :: int
  la_request_seq :: int
  la_provider :: string
  la_model :: string
  la_wire_api :: string
  la_status :: llm_audit_status
  la_error_code :: "string option"
  la_error_message :: "string option"
  la_provider_request_id :: "string option"
  la_provider_response_id :: "string option"
  la_request_body_json :: string
  la_response_body_json :: "string option"
  la_metadata_json :: "string option"
  la_requested_at_ms :: int
  la_responded_at_ms :: "int option"

record new_tool_audit_record =
  ta_id :: string
  ta_session_key :: string
  ta_chat_id :: string
  ta_turn_index :: int
  ta_request_seq :: int
  ta_tool_call_seq :: int
  ta_tool_name :: string
  ta_success :: bool
  ta_error_code :: "string option"
  ta_error_message :: "string option"
  ta_retryable :: "bool option"
  ta_approval_required :: bool
  ta_arguments_json :: string
  ta_result_content :: string
  ta_error_details_json :: "string option"
  ta_signals_json :: "string option"
  ta_metadata_json :: "string option"
  ta_started_at_ms :: int
  ta_finished_at_ms :: int

text \<open>A \<^verbatim>\<open>sync_channel\<close>: its bound, whether the receiver still exists, and what it has not taken yet.\<close>

record 'a bounded_queue =
  q_bound :: nat
  q_connected :: bool
  q_items :: "'a list"

definition try_send :: "'a \<Rightarrow> 'a bounded_queue \<Rightarrow> 'a bounded_queue" where
  "try_send x q = (if q_connected q \<and> length (q_items q) < q_bound q then q\<lparr>q_items := q_items q @ [x]\<rparr> else q)"

record 'w runtime_state =
  rt_sessions :: session_table
  rt_files :: file_map
  rt_usage :: "(string, llm_usage_row) btree_map"
  rt_memory :: "memory_table option"
  rt_fs :: file_system
  rt_llm_audits :: "new_llm_audit_record bounded_queue"
  rt_tool_audits :: "new_tool_audit_record bounded_queue"
  rt_world :: 'w

text \<open>The bundle: the parts of \<^verbatim>\<open>RuntimeBundle\<close> that a turn uses, the paths of the store, and the JSON
  codecs that the sources take from \<^verbatim>\<open>serde_json\<close>.\<close>

record 'w runtime_bundle =
  rb_runtime :: "'w runtime_state agent_loop"
  rb_base_system_prompt :: "string option"
  rb_archive_service :: "'w runtime_state archive_service option"
  rb_local_attachments :: local_attachment_config
  rb_conversation_history_limit :: nat
  rb_host :: "'w runtime_state host"
  rb_heartbeat :: "'w runtime_state heartbeat_env"
  rb_codec :: summary_codec
  rb_record_to_json :: "chat_record \<Rightarrow> string"
  rb_value_from_str :: "string \<Rightarrow> json option"
  rb_paths :: storage_paths
  rb_data_dir :: "path option"

definition rt_now :: "'w runtime_bundle \<Rightarrow> 'w runtime_state \<Rightarrow> int \<times> 'w runtime_state" where
  "rt_now b st = host_now_ms (rb_host b) st"

definition to_json_string :: "'w runtime_bundle \<Rightarrow> json \<Rightarrow> string option" where
  "to_json_string b v = host_json_to_string (rb_host b) v"

definition serialize_json_string :: "'w runtime_bundle \<Rightarrow> json \<Rightarrow> string" where
  "serialize_json_string b v = unwrap_or (to_json_string b v) ''null''"

definition new_chat_record :: "'w runtime_bundle \<Rightarrow> string \<Rightarrow> string \<Rightarrow> string option \<Rightarrow> 'w runtime_state \<Rightarrow>
    chat_record \<times> 'w runtime_state" where
  "new_chat_record b who c i st =
     (let (now, st') = rt_now b st
      in (\<lparr>ts_ms = now, chat_role = who, chat_content = c, metadata_json = None, chat_message_id = i\<rparr>, st'))"

section \<open>Calls of the session store\<close>

definition rt_read_chat_records :: "'w runtime_bundle \<Rightarrow> string \<Rightarrow> 'w runtime_state \<Rightarrow> storage_error + chat_record list" where
  "rt_read_chat_records b key st =
     read_chat_records (henv_record_from_json (rb_heartbeat b)) (sessions_dir (rb_paths b)) key (rt_files st)"

definition rt_append_chat_record :: "'w runtime_bundle \<Rightarrow> string \<Rightarrow> chat_record \<Rightarrow> 'w runtime_state \<Rightarrow> 'w runtime_state" where
  "rt_append_chat_record b key rec st =
     st\<lparr>rt_files := append_chat_record (rb_record_to_json b) (sessions_dir (rb_paths b)) key rec (rt_files st)\<rparr>"

definition rt_touch_session :: "'w runtime_bundle \<Rightarrow> string \<Rightarrow> string \<Rightarrow> string \<Rightarrow> 'w runtime_state \<Rightarrow>
    (storage_error + session_index) \<times> 'w runtime_state" where
  "rt_touch_session b key cid chan st =
     (let (now, st1) = rt_now b st;
          (r, t) = touch_session (rb_paths b) now key cid chan (rt_sessions st1)
      in (r, st1\<lparr>rt_sessions := t\<rparr>))"

definition rt_complete_turn :: "'w runtime_bundle \<Rightarrow> string \<Rightarrow> string \<Rightarrow> string \<Rightarrow> 'w runtime_state \<Rightarrow>
    (storage_error + session_index) \<times> 'w runtime_state" where
  "rt_complete_turn b key cid chan st =
     (let (now, st1) = rt_now b st;
          (r, t) = complete_turn (rb_paths b) now key cid chan (rt_sessions st1)
      in (r, st1\<lparr>rt_sessions := t\<rparr>))"

definition rt_set_delivery_metadata :: "'w runtime_bundle \<Rightarrow> string \<Rightarrow> string \<Rightarrow> string \<Rightarrow> string option \<Rightarrow>
    'w runtime_state \<Rightarrow> (storage_error + session_index) \<times> 'w runtime_state" where
  "rt_set_delivery_metadata b key cid chan meta st =
     (let (now, st1) = rt_now b st;
          (r, t) = set_delivery_metadata now key cid chan meta (rt_sessions st1)
      in (r, st1\<lparr>rt_sessions := t\<rparr>))"

section \<open>Delivery metadata\<close>

definition delivery_keys :: "string list" where
  "delivery_keys =
     [''channel.base_session_key'', ''channel.delivery_session_key'', ''channel.dingtalk.session_webhook'',
      ''channel.dingtalk.bot_title'', ''webhook.delivery_session_key'', ''webhook.delivery_channel'',
      ''webhook.delivery_chat_id'']"

definition persistable_session_delivery_metadata_json :: "'w runtime_bundle \<Rightarrow> json_map \<Rightarrow> string option" where
  "persistable_session_delivery_metadata_json b m =
     (let d = filter (\<lambda>(k, _). k \<in> set delivery_keys) m
      in if d = [] then None else to_json_string b (JObject d))"

definition persist_session_delivery_metadata :: "'w runtime_bundle \<Rightarrow> string \<Rightarrow> string \<Rightarrow> string \<Rightarrow> json_map \<Rightarrow>
    'w runtime_state \<Rightarrow> (storage_error + unit) \<times> 'w runtime_state" where
  "persist_session_delivery_metadata b key cid chan m st =
     (case persistable_session_delivery_metadata_json b m of
        None \<Rightarrow> (Ok (), st)
      | Some j \<Rightarrow>
          (let (r, st') = rt_set_delivery_metadata b key cid chan (Some j) st
           in (and_then r (\<lambda>_. Ok ()), st')))"

section \<open>Metadata of the reply\<close>

definition should_persist_chat_record_metadata_key :: "string \<Rightarrow> bool" where
  "should_persist_chat_record_metadata_key k \<longleftrightarrow>
     k \<notin> set [''agent.conversation_history'', ''llm.usage.records'', ''llm.audit.records'']"

definition chat_record_metadata_json :: "'w runtime_bundle \<Rightarrow> json_map \<Rightarrow> string option" where
  "chat_record_metadata_json b m =
     (let kept = filter (\<lambda>(k, _). should_persist_chat_record_metadata_key k) m
      in if kept = [] then None else to_json_string b (JObject kept))"

definition kind_label_of :: "attachment_kind \<Rightarrow> string" where
  "kind_label_of k = (case k of ImageAttachment \<Rightarrow> ''image'' | FileAttachment \<Rightarrow> ''file'')"

text \<open>\<^verbatim>\<open>persisted_resource_from_archive_record\<close> and the JSON of its result.\<close>

definition persisted_resource_from_archive_record :: "outbound_attachment \<Rightarrow> archive_record \<Rightarrow> json" where
  "persisted_resource_from_archive_record att rec =
     JObject (object_of
       [(''archive_id'', JString (arc_id rec)),
        (''filename'', json_opt JString (or_else (att_filename att) (arc_original_filename rec))),
        (''mime_type'', json_opt JString (arc_mime_type rec)),
        (''size_bytes'', json_of_i64 (arc_size_bytes rec)),
        (''kind'', JString (kind_label_of (att_kind att))),
        (''caption'', json_opt JString (att_caption att))])"

definition runtime_local_attachment_policy :: "'w runtime_bundle \<Rightarrow> 'w runtime_state \<Rightarrow>
    (string + local_attachment_policy) \<times> 'w runtime_state" where
  "runtime_local_attachment_policy b st =
     (case rb_data_dir b of
        None \<Rightarrow> (Err ''failed to resolve home dir'', st)
      | Some root \<Rightarrow>
          (let workspace = root @ [''workspace'']
           in case create_dir_all workspace (rt_fs st) of
                (Inl e, fs) \<Rightarrow> (Err (io_error_to_string e), st\<lparr>rt_fs := fs\<rparr>)
              | (Inr _, fs) \<Rightarrow>
                  (case canonicalize fs workspace of
                     Inl e \<Rightarrow> (Err (io_error_to_string e), st\<lparr>rt_fs := fs\<rparr>)
                   | Inr ws \<Rightarrow> (Ok (policy_of ws (rb_local_attachments b)), st\<lparr>rt_fs := fs\<rparr>))))"

definition ingest_input_for :: "string \<Rightarrow> string \<Rightarrow> string \<Rightarrow> resolved_attachment \<Rightarrow> archive_ingest_input" where
  "ingest_input_for key chan cid res =
     \<lparr>ain_source_kind = ModelGenerated, ain_filename = Some (res_filename res), ain_declared_mime_type = res_mime_type res,
      ain_session_key = Some key, ain_channel = Some chan, ain_chat_id = Some cid, ain_message_id = None,
      ain_metadata = JObject (object_of
        [(''source'', JString ''channel_attachment''), (''source_label'', JString (res_source_label res)),
         (''caption'', json_opt JString (res_caption res))])\<rparr>"

text \<open>The resource of one attachment, if it can be had, and the policy, which is computed once.\<close>

definition archived_resource :: "'w runtime_bundle \<Rightarrow> 'w runtime_state archive_service \<Rightarrow> string \<Rightarrow> string \<Rightarrow> string \<Rightarrow>
    outbound_attachment \<Rightarrow> local_attachment_policy option \<Rightarrow> 'w runtime_state \<Rightarrow>
    json option \<times> local_attachment_policy option \<times> 'w runtime_state" where
  "archived_resource b S key chan cid att known st =
     (case att_source att of
        ArchiveId i \<Rightarrow>
          (case archive_get S i st of
             (Inr rec, st1) \<Rightarrow> (Some (persisted_resource_from_archive_record att rec), known, st1)
           | (Inl _, st1) \<Rightarrow> (None, known, st1))
      | LocalPath _ \<Rightarrow>
          (let (r, st1) = (case known of Some p \<Rightarrow> (Ok p, st) | None \<Rightarrow> runtime_local_attachment_policy b st)
           in case r of
                Inl _ \<Rightarrow> (None, None, st1)
              | Inr policy \<Rightarrow>
                  (case resolve_outbound_attachment S policy att (rt_fs st1) st1 of
                     (Inl _, st2) \<Rightarrow> (None, Some policy, st2)
                   | (Inr res, st2) \<Rightarrow>
                       (case archive_ingest_bytes S (ingest_input_for key chan cid res) (res_bytes res) st2 of
                          (Inr rec, st3) \<Rightarrow> (Some (persisted_resource_from_archive_record att rec), Some policy, st3)
                        | (Inl _, st3) \<Rightarrow> (None, Some policy, st3)))))"

fun archived_resources :: "'w runtime_bundle \<Rightarrow> 'w runtime_state archive_service \<Rightarrow> string \<Rightarrow> string \<Rightarrow> string \<Rightarrow>
    outbound_attachment list \<Rightarrow> local_attachment_policy option \<Rightarrow> 'w runtime_state \<Rightarrow> json list \<times> 'w runtime_state" where
  "archived_resources b S key chan cid [] known st = ([], st)"
| "archived_resources b S key chan cid (att # atts) known st =
     (let (r, known', st1) = archived_resource b S key chan cid att known st;
          (rs, st2) = archived_resources b S key chan cid atts known' st1
      in (case r of None \<Rightarrow> rs | Some v \<Rightarrow> v # rs, st2))"

definition enrich_persistable_response_metadata :: "'w runtime_bundle \<Rightarrow> string \<Rightarrow> string \<Rightarrow> string \<Rightarrow> json_map \<Rightarrow>
    'w runtime_state \<Rightarrow> json_map \<times> 'w runtime_state" where
  "enrich_persistable_response_metadata b key chan cid m st =
     (if bt_contains m ''archive.resources'' then (m, st)
      else if parse_outbound_attachments m = [] then (m, st)
      else case rb_archive_service b of
             None \<Rightarrow> (m, st)
           | Some S \<Rightarrow>
               (let (rs, st') = archived_resources b S key chan cid (parse_outbound_attachments m) None st
                in (if rs = [] then m else bt_insert ''archive.resources'' (JArray rs) m, st')))"

section \<open>Token usage\<close>

record persisted_usage =
  pu_request_seq :: int
  pu_provider :: string
  pu_model :: string
  pu_wire_api :: string
  pu_input_tokens :: int
  pu_output_tokens :: int
  pu_total_tokens :: int
  pu_cached_input_tokens :: "int option"
  pu_reasoning_tokens :: "int option"
  pu_source :: string
  pu_provider_request_id :: "string option"
  pu_provider_response_id :: "string option"

text \<open>The derived decoder reads an object by names, or an array by positions with missing fields at its
  end.\<close>

definition struct_field :: "string list \<Rightarrow> json \<Rightarrow> string \<Rightarrow> json option" where
  "struct_field names v k =
     (case v of
        JObject m \<Rightarrow> bt_get m k
      | JArray xs \<Rightarrow> (let i = length (takeWhile (\<lambda>n. n \<noteq> k) names) in if i < length xs then Some (xs ! i) else None)
      | _ \<Rightarrow> None)"

definition usage_fields :: "string list" where
  "usage_fields =
     [''request_seq'', ''provider'', ''model'', ''wire_api'', ''input_tokens'', ''output_tokens'', ''total_tokens'',
      ''cached_input_tokens'', ''reasoning_tokens'', ''source'', ''provider_request_id'', ''provider_response_id'']"

definition struct_shape :: "json \<Rightarrow> bool" where
  "struct_shape v = (case v of JObject _ \<Rightarrow> True | JArray xs \<Rightarrow> length xs \<le> length usage_fields | _ \<Rightarrow> False)"

definition optional_of :: "(json \<Rightarrow> 'a option) \<Rightarrow> json option \<Rightarrow> 'a option option" where
  "optional_of f x = (case x of None \<Rightarrow> Some None | Some JNull \<Rightarrow> Some None | Some v \<Rightarrow> map_option Some (f v))"

definition usage_of_json :: "json \<Rightarrow> persisted_usage option" where
  "usage_of_json v =
     (let get = struct_field usage_fields v;
          int_of = (\<lambda>k. Option.bind (get k) as_i64);
          str_of = (\<lambda>k. Option.bind (get k) as_str)
      in if \<not> struct_shape v then None
         else
     Option.bind (int_of ''request_seq'') (\<lambda>seq.
     Option.bind (str_of ''provider'') (\<lambda>prov.
     Option.bind (str_of ''model'') (\<lambda>mdl.
     Option.bind (str_of ''wire_api'') (\<lambda>wire.
     Option.bind (int_of ''input_tokens'') (\<lambda>inp.
     Option.bind (int_of ''output_tokens'') (\<lambda>outp.
     Option.bind (int_of ''total_tokens'') (\<lambda>tot.
     Option.bind (optional_of as_i64 (get ''cached_input_tokens'')) (\<lambda>cached.
     Option.bind (optional_of as_i64 (get ''reasoning_tokens'')) (\<lambda>reas.
     Option.bind (str_of ''source'') (\<lambda>src.
     Option.bind (optional_of as_str (get ''provider_request_id'')) (\<lambda>rid.
     Option.bind (optional_of as_str (get ''provider_response_id'')) (\<lambda>pid.
       Some \<lparr>pu_request_seq = seq, pu_provider = prov, pu_model = mdl, pu_wire_api = wire, pu_input_tokens = inp,
             pu_output_tokens = outp, pu_total_tokens = tot, pu_cached_input_tokens = cached,
             pu_reasoning_tokens = reas, pu_source = src, pu_provider_request_id = rid,
             pu_provider_response_id = pid\<rparr>)))))))))))))"

definition extract_llm_usage_records :: "json_map \<Rightarrow> persisted_usage list" where
  "extract_llm_usage_records m =
     unwrap_or (Option.bind (Option.bind (bt_get m ''llm.usage.records'') as_array)
                  (\<lambda>vs. collect_options (map usage_of_json vs))) []"

text \<open>\<^verbatim>\<open>append_llm_usage\<close>: the statement fails when the identifier exists.\<close>

definition append_llm_usage :: "'w runtime_bundle \<Rightarrow> llm_usage_row \<Rightarrow> 'w runtime_state \<Rightarrow>
    (storage_error + llm_usage_row) \<times> 'w runtime_state" where
  "append_llm_usage b input st =
     (let (now, st1) = rt_now b st; row = input\<lparr>ur_created_at_ms := now\<rparr>
      in if bt_contains (rt_usage st1) (ur_id row)
         then (Err (Backend ''UNIQUE constraint failed: llm_usage.id''), st1)
         else (Ok row, st1\<lparr>rt_usage := bt_insert (ur_id row) row (rt_usage st1)\<rparr>))"

definition usage_row :: "string \<Rightarrow> string \<Rightarrow> int \<Rightarrow> uuid \<Rightarrow> llm_usage_source_kind \<Rightarrow> persisted_usage \<Rightarrow> llm_usage_row" where
  "usage_row key cid turn mid src r =
     \<lparr>ur_id = mid @ '':'' @ show_int (pu_request_seq r), ur_session_key = key, ur_chat_id = cid, ur_turn_index = turn,
      ur_request_seq = pu_request_seq r, ur_provider = pu_provider r, ur_model = pu_model r, ur_wire_api = pu_wire_api r,
      ur_input_tokens = pu_input_tokens r, ur_output_tokens = pu_output_tokens r, ur_total_tokens = pu_total_tokens r,
      ur_cached_input_tokens = pu_cached_input_tokens r, ur_reasoning_tokens = pu_reasoning_tokens r, ur_source = src,
      ur_provider_request_id = pu_provider_request_id r, ur_provider_response_id = pu_provider_response_id r,
      ur_created_at_ms = 0\<rparr>"

text \<open>The rows up to the first one that fails; the caller only logs the failure.\<close>

fun append_usage_records :: "'w runtime_bundle \<Rightarrow> string \<Rightarrow> string \<Rightarrow> int \<Rightarrow> uuid \<Rightarrow> persisted_usage list \<Rightarrow>
    'w runtime_state \<Rightarrow> 'w runtime_state" where
  "append_usage_records b key cid turn mid [] st = st"
| "append_usage_records b key cid turn mid (r # rs) st =
     (case parse_usage_source (pu_source r) of
        None \<Rightarrow> st
      | Some src \<Rightarrow>
          (case append_llm_usage b (usage_row key cid turn mid src r) st of
             (Inl _, st') \<Rightarrow> st'
           | (Inr _, st') \<Rightarrow> append_usage_records b key cid turn mid rs st'))"

definition persist_llm_usage_records :: "'w runtime_bundle \<Rightarrow> string \<Rightarrow> string \<Rightarrow> int \<Rightarrow> uuid \<Rightarrow> json_map \<Rightarrow>
    'w runtime_state \<Rightarrow> 'w runtime_state" where
  "persist_llm_usage_records b key cid turn mid m st =
     append_usage_records b key cid turn mid (extract_llm_usage_records m) st"

section \<open>Audit queues\<close>

definition llm_audit_record :: "'w runtime_bundle \<Rightarrow> string \<Rightarrow> string \<Rightarrow> int \<Rightarrow> string \<Rightarrow> string option \<Rightarrow> nat \<Rightarrow>
    llm_audit_payload \<Rightarrow> new_llm_audit_record" where
  "llm_audit_record b key cid turn id_prefix meta i p =
     \<lparr>la_id = id_prefix @ '':audit:'' @ show_nat (i + 1), la_session_key = key, la_chat_id = cid, la_turn_index = turn,
      la_request_seq = int i + 1, la_provider = aud_provider p, la_model = aud_model p, la_wire_api = aud_wire_api p,
      la_status = aud_status p, la_error_code = aud_error_code p, la_error_message = aud_error_message p,
      la_provider_request_id = aud_provider_request_id p, la_provider_response_id = aud_provider_response_id p,
      la_request_body_json = serialize_json_string b (request_body p),
      la_response_body_json = map_option (serialize_json_string b) (response_body p), la_metadata_json = meta,
      la_requested_at_ms = requested_at_ms p, la_responded_at_ms = responded_at_ms p\<rparr>"

definition enqueue_llm_audit_records :: "'w runtime_bundle \<Rightarrow> string \<Rightarrow> string \<Rightarrow> int \<Rightarrow> string \<Rightarrow> llm_audit_payload list \<Rightarrow>
    string option \<Rightarrow> 'w runtime_state \<Rightarrow> 'w runtime_state" where
  "enqueue_llm_audit_records b key cid turn id_prefix audits meta st =
     st\<lparr>rt_llm_audits :=
        fold (\<lambda>(i, p). try_send (llm_audit_record b key cid turn id_prefix meta i p)) (enumerate 0 audits) (rt_llm_audits st)\<rparr>"

definition merge_tool_audit_metadata :: "'w runtime_bundle \<Rightarrow> string option \<Rightarrow> string option \<Rightarrow> string option" where
  "merge_tool_audit_metadata b meta call =
     (if meta = None \<and> call = None then None
      else
        (let base = unwrap_or (Option.bind (Option.bind meta (rb_value_from_str b)) as_object) [];
             m = (case call of None \<Rightarrow> base | Some i \<Rightarrow> bt_insert ''tool_call_id'' (JString i) base)
         in to_json_string b (JObject m)))"

definition tool_audit_record :: "'w runtime_bundle \<Rightarrow> string \<Rightarrow> string \<Rightarrow> int \<Rightarrow> string \<Rightarrow> string option \<Rightarrow>
    agent_tool_audit \<Rightarrow> new_tool_audit_record" where
  "tool_audit_record b key cid turn id_prefix meta a =
     (let r = audit_result a
      in \<lparr>ta_id = id_prefix @ '':tool:'' @ show_int (request_seq a) @ '':'' @ show_int (tool_call_seq a),
          ta_session_key = key, ta_chat_id = cid, ta_turn_index = turn, ta_request_seq = request_seq a,
          ta_tool_call_seq = tool_call_seq a, ta_tool_name = audit_tool_name a, ta_success = ok r,
          ta_error_code = error_code r,
          ta_error_message = map_option (\<lambda>code. if code = ''approval_required'' then ''approval requested''
                                                 else content_for_model r) (error_code r),
          ta_retryable = retryable r,
          ta_approval_required = list_ex (\<lambda>s. sig_kind s = ''approval_required'') (signals r),
          ta_arguments_json = serialize_json_string b (audit_arguments a), ta_result_content = content_for_model r,
          ta_error_details_json = map_option (serialize_json_string b) (error_details r),
          ta_signals_json = (if signals r = [] then None
             else Some (unwrap_or (to_json_string b (JArray (map signal_to_json (signals r)))) ''[]'')),
          ta_metadata_json = merge_tool_audit_metadata b meta (audit_tool_call_id a),
          ta_started_at_ms = started_at_ms a, ta_finished_at_ms = finished_at_ms a\<rparr>)"

definition enqueue_tool_audit_records :: "'w runtime_bundle \<Rightarrow> string \<Rightarrow> string \<Rightarrow> int \<Rightarrow> string \<Rightarrow> agent_tool_audit list \<Rightarrow>
    string option \<Rightarrow> 'w runtime_state \<Rightarrow> 'w runtime_state" where
  "enqueue_tool_audit_records b key cid turn id_prefix audits meta st =
     st\<lparr>rt_tool_audits :=
        fold (\<lambda>a. try_send (tool_audit_record b key cid turn id_prefix meta a)) audits (rt_tool_audits st)\<rparr>"

definition enqueue_llm_audit_records_from_outcome :: "'w runtime_bundle \<Rightarrow> int \<Rightarrow> process_outcome \<Rightarrow> 'w runtime_state \<Rightarrow>
    'w runtime_state" where
  "enqueue_llm_audit_records_from_outcome b turn outcome st =
     (case (audit_message_id outcome, audit_session_key outcome, audit_chat_id outcome) of
        (Some mid, Some key, Some cid) \<Rightarrow>
          enqueue_tool_audit_records b key cid turn mid (outcome_tool_audits outcome) None
            (enqueue_llm_audit_records b key cid turn mid (llm_audits outcome) None st)
      | _ \<Rightarrow> st)"

section \<open>The reply\<close>

definition persist_assistant_response_state :: "'w runtime_bundle \<Rightarrow> string \<Rightarrow> string \<Rightarrow> string \<Rightarrow> int \<Rightarrow> uuid \<Rightarrow> json_map \<Rightarrow>
    chat_record \<Rightarrow> 'w runtime_state \<Rightarrow> 'w runtime_state" where
  "persist_assistant_response_state b key cid chan turn mid m rec st =
     snd (rt_complete_turn b key cid chan
       (rt_append_chat_record b key rec (persist_llm_usage_records b key cid turn mid m st)))"

end
