(* ===== verification/Conversation_Turn.thy ===== *)
theory Conversation_Turn
  imports Turn_Records Agent_Runtime
begin

text \<open>
  \<^verbatim>\<open>klaw-runtime/src/lib.rs\<close>: the turns of a conversation. A turn reads the history of the session, has a long
  one summarised, records the message of the user, runs the agent loop with the recent conversation, and
  records the reply. Messages of the background services come through the queue instead
  (\<^verbatim>\<open>drain_runtime_queue\<close>). A turn is \<open>None\<close> when the agent loop never returns.

  The variants of a turn that stream their output are left out: when the receiver of the stream fails
  they stop the agent loop in the middle of its work.
\<close>

section \<open>Compression\<close>

definition compression_options :: chat_options where
  "compression_options =
     \<lparr>temperature = 0, max_tokens = None, max_output_tokens = None, previous_response_id = None, instructions = None,
      opt_metadata = None, opt_include = None, store = None, parallel_tool_calls = None, opt_tool_choice = None,
      opt_text = None, opt_reasoning = None, truncation = None, opt_user = None, service_tier = None\<rparr>"

definition compression_request :: "summary_codec \<Rightarrow> string \<Rightarrow> conversation_summary option \<Rightarrow> conversation_message list \<Rightarrow>
    chat_request" where
  "compression_request C mdl old ms =
     \<lparr>req_messages = [\<lparr>role = ''user'', content = build_compression_prompt C old ms, media = [], tool_calls = None,
                       tool_call_id = None\<rparr>],
      req_tools = [], req_model = Some mdl, req_options = compression_options\<rparr>"

definition run_structured_compression :: "summary_codec \<Rightarrow> 's llm_provider \<Rightarrow> string \<Rightarrow> conversation_summary option \<Rightarrow>
    conversation_message list \<Rightarrow> 's \<Rightarrow> string option \<times> 's" where
  "run_structured_compression C prov mdl old ms st =
     (case chat prov (compression_request C mdl old ms) st of
        (Inr resp, st') \<Rightarrow> (Some (resp_content resp), st')
      | (Inl _, st') \<Rightarrow> (None, st'))"

definition compression_provider :: "'w runtime_bundle \<Rightarrow> string \<Rightarrow> 'w runtime_state llm_provider" where
  "compression_provider b prov =
     (let rt = provider_runtime (rb_runtime b)
      in unwrap_or (bt_get (provider_registry rt) prov) (default_provider rt))"

definition persisted_compression :: "string \<Rightarrow> session_table \<Rightarrow> session_compression_state" where
  "persisted_compression key t =
     unwrap_or (get_session_compression_state key t) \<lparr>last_compressed_len = 0, summary_json = None\<rparr>"

definition latest_summary_of :: "summary_codec \<Rightarrow> string \<Rightarrow> session_table \<Rightarrow> conversation_summary option" where
  "latest_summary_of C key t = Option.bind (summary_json (persisted_compression key t)) (parse_conversation_summary C)"

definition last_compressed_of :: "string \<Rightarrow> session_table \<Rightarrow> nat" where
  "last_compressed_of key t = nat (max (last_compressed_len (persisted_compression key t)) 0)"

definition maybe_refresh_summary :: "'w runtime_bundle \<Rightarrow> string \<Rightarrow> string \<Rightarrow> string \<Rightarrow> chat_record list \<Rightarrow>
    'w runtime_state \<Rightarrow> conversation_summary option \<times> 'w runtime_state" where
  "maybe_refresh_summary b key prov mdl full st =
     (let C = rb_codec b; limit = rb_conversation_history_limit b
      in if limit = 0 \<or> full = [] then (None, st)
         else
           (let last_len = last_compressed_of key (rt_sessions st);
                latest = latest_summary_of C key (rt_sessions st);
                new_messages = to_conversation_messages (drop (min last_len (length full)) full)
            in if \<not> should_trigger_compression last_len (length full) limit then (latest, st)
               else if new_messages = [] then (latest, st)
               else
                 (let (output, st1) = run_structured_compression C (compression_provider b prov) mdl latest new_messages st;
                      next_summary = or_else (map_option (merge_or_reset_summary C latest) output) latest;
                      (now, st2) = rt_now b st1;
                      (_, t) = set_session_compression_state now key
                        \<lparr>last_compressed_len = int (length full),
                         summary_json = Option.bind next_summary (summary_to_string C)\<rparr> (rt_sessions st2)
                  in (next_summary, st2\<lparr>rt_sessions := t\<rparr>))))"

section \<open>The message to the agent\<close>

definition tool_call_json :: "tool_call \<Rightarrow> json" where
  "tool_call_json c =
     JObject (object_of ((case call_id c of None \<Rightarrow> [] | Some i \<Rightarrow> [(''id'', JString i)])
       @ [(''name'', JString (call_name c)), (''arguments'', call_arguments c)]))"

definition conversation_message_json :: "conversation_message \<Rightarrow> json" where
  "conversation_message_json m =
     JObject (object_of ([(''role'', JString (conv_role m)), (''content'', JString (conv_content m))]
       @ (case conv_tool_calls m of None \<Rightarrow> [] | Some cs \<Rightarrow> [(''tool_calls'', JArray (map tool_call_json cs))])
       @ (case conv_tool_call_id m of None \<Rightarrow> [] | Some i \<Rightarrow> [(''tool_call_id'', JString i)])))"

definition serialize_conversation_history :: "conversation_message list \<Rightarrow> json" where
  "serialize_conversation_history ms = JArray (map conversation_message_json ms)"

record turn_request =
  tr_channel :: string
  tr_session_key :: string
  tr_chat_id :: string
  tr_sender_id :: string
  tr_provider :: string
  tr_model :: string
  tr_media :: "media_reference list"
  tr_metadata :: json_map

definition routed_metadata :: "json \<Rightarrow> (string \<times> json) list \<Rightarrow> string \<Rightarrow> string \<Rightarrow> json_map \<Rightarrow> json_map" where
  "routed_metadata hist extra prov mdl m =
     bt_extend m ([(''agent.conversation_history'', hist)] @ extra
       @ [(''agent.provider_id'', JString prov), (''agent.model'', JString mdl)])"

definition inbound_envelope :: "envelope_header \<Rightarrow> turn_request \<Rightarrow> string \<Rightarrow> json_map \<Rightarrow> inbound_message envelope" where
  "inbound_envelope hdr tr input m =
     \<lparr>header = hdr, env_metadata = [],
      payload = \<lparr>in_channel = tr_channel tr, sender_id = tr_sender_id tr, in_chat_id = tr_chat_id tr,
                 in_session_key = tr_session_key tr, in_content = input, media_references = tr_media tr,
                 in_metadata = m\<rparr>\<rparr>"

definition fresh_header :: "'w runtime_bundle \<Rightarrow> string \<Rightarrow> 'w runtime_state \<Rightarrow> envelope_header \<times> 'w runtime_state" where
  "fresh_header b key st =
     (let (mid, st1) = host_new_uuid (rb_host b) st;
          (tid, st2) = host_new_uuid (rb_host b) st1;
          (now, st3) = rt_now b st2
      in (new_header mid tid now key, st3))"

section \<open>The system prompt\<close>

definition cli_prompt_options :: long_term_memory_prompt_options where
  "cli_prompt_options = \<lparr>max_items = 12, max_chars = 1200, max_item_chars = 240\<rparr>"

definition render_long_term_memory_prompt :: "memory_table \<Rightarrow> string option" where
  "render_long_term_memory_prompt t =
     map_option (\<lambda>c. ''## Memory'' @ [newline, newline] @ c)
       (render_long_term_memory_section (list_scope_records ''long_term'' t) cli_prompt_options)"

definition compose_system_prompt :: "string option \<Rightarrow> string option \<Rightarrow> string option" where
  "compose_system_prompt base memory =
     (case (base, memory) of
        (Some x, Some y) \<Rightarrow> Some (x @ [newline, newline] @ ''--------------------------------'' @ [newline, newline] @ y)
      | (Some x, None) \<Rightarrow> Some x
      | (None, Some y) \<Rightarrow> Some y
      | (None, None) \<Rightarrow> None)"

definition refresh_runtime_system_prompt :: "'w runtime_bundle \<Rightarrow> 'w runtime_state \<Rightarrow> 'w runtime_state agent_loop" where
  "refresh_runtime_system_prompt b st =
     set_system_prompt
       (compose_system_prompt (rb_base_system_prompt b) (Option.bind (rt_memory st) render_long_term_memory_prompt))
       (rb_runtime b)"

section \<open>Recording the reply\<close>

record assistant_output =
  ao_content :: string
  ao_reasoning :: "string option"
  ao_metadata :: json_map

definition should_emit_outbound :: "outbound_message envelope \<Rightarrow> bool" where
  "should_emit_outbound msg \<longleftrightarrow> \<not> should_suppress_output (out_content (payload msg)) (out_metadata (payload msg))"

definition record_reply :: "'w runtime_bundle \<Rightarrow> string \<Rightarrow> string \<Rightarrow> int \<Rightarrow> outbound_message envelope \<Rightarrow> 'w runtime_state \<Rightarrow>
    assistant_output \<times> 'w runtime_state" where
  "record_reply b chan cid turn msg st =
     (let key = hdr_session_key (header msg); mid = message_id (header msg);
          (m, st1) = enrich_persistable_response_metadata b key chan cid (out_metadata (payload msg)) st;
          (rec, st2) = new_chat_record b ''assistant'' (out_content (payload msg)) (Some mid) st1;
          st3 = persist_assistant_response_state b key cid chan turn mid m
                  (rec\<lparr>metadata_json := chat_record_metadata_json b m\<rparr>) st2
      in (\<lparr>ao_content = out_content (payload msg),
           ao_reasoning = option_filter (\<lambda>v. trim v \<noteq> [])
             (Option.bind (bt_get (out_metadata (payload msg)) ''reasoning'') as_str),
           ao_metadata = m\<rparr>, st3))"

definition finish_turn :: "'w runtime_bundle \<Rightarrow> (outbound_message envelope \<Rightarrow> string \<times> string) \<Rightarrow> int \<Rightarrow> process_outcome \<Rightarrow>
    'w runtime_state \<Rightarrow> assistant_output option \<times> 'w runtime_state" where
  "finish_turn b where_to turn outcome st =
     (let st1 = enqueue_llm_audit_records_from_outcome b turn outcome st
      in case option_filter should_emit_outbound (final_response outcome) of
           None \<Rightarrow> (None, st1)
         | Some msg \<Rightarrow>
             (let (chan, cid) = where_to msg; (out, st2) = record_reply b chan cid turn msg st1 in (Some out, st2)))"

definition reply_address :: "outbound_message envelope \<Rightarrow> string \<times> string" where
  "reply_address msg = (out_channel (payload msg), out_chat_id (payload msg))"

section \<open>Turns\<close>

datatype runtime_error = RtStorage storage_error | RtTransport transport_error

text \<open>The part of a turn after its message is recorded and the session touched.\<close>

definition run_turn :: "'w runtime_bundle \<Rightarrow> int \<Rightarrow> inbound_message envelope \<Rightarrow> 'w runtime_state \<Rightarrow>
    ((runtime_error + assistant_output option) \<times> 'w runtime_state) option" where
  "run_turn b turn msg st =
     map_option (\<lambda>(outcome, st1). let (out, st2) = finish_turn b reply_address turn outcome st1 in (Ok out, st2))
       (process_message (refresh_runtime_system_prompt b st) (rb_host b) msg st)"

text \<open>\<^verbatim>\<open>touch_session\<close> and the delivery metadata, with their errors.\<close>

definition open_session :: "'w runtime_bundle \<Rightarrow> turn_request \<Rightarrow> json_map \<Rightarrow> 'w runtime_state \<Rightarrow>
    (storage_error + session_index) \<times> 'w runtime_state" where
  "open_session b tr m st =
     (case rt_touch_session b (tr_session_key tr) (tr_chat_id tr) (tr_channel tr) st of
        (Inl e, st1) \<Rightarrow> (Err e, st1)
      | (Inr s, st1) \<Rightarrow>
          (case persist_session_delivery_metadata b (tr_session_key tr) (tr_chat_id tr) (tr_channel tr) m st1 of
             (Inl e, st2) \<Rightarrow> (Err e, st2)
           | (Inr _, st2) \<Rightarrow> (Ok s, st2)))"

definition submit_and_get_turn_outcome :: "'w runtime_bundle \<Rightarrow> turn_request \<Rightarrow> string \<Rightarrow> 'w runtime_state \<Rightarrow>
    ((runtime_error + assistant_output option) \<times> 'w runtime_state) option" where
  "submit_and_get_turn_outcome b tr input st =
     (let key = tr_session_key tr
      in case rt_read_chat_records b key st of
           Inl e \<Rightarrow> Some (Err (RtStorage e), st)
         | Inr full \<Rightarrow>
             (let (summary, st1) = maybe_refresh_summary b key (tr_provider tr) (tr_model tr) full st;
                  (now, st2) = (if summary = None then (0, st1) else rt_now b st1);
                  hist = to_conversation_messages (rt_build_history_for_model (rb_heartbeat b) (rb_codec b) now full
                           (rb_conversation_history_limit b) summary);
                  (hdr, st3) = fresh_header b key st2;
                  (user, st4) = new_chat_record b ''user'' input (Some (message_id hdr)) st3;
                  st5 = rt_append_chat_record b key user st4
              in case open_session b tr (tr_metadata tr) st5 of
                   (Inl e, st6) \<Rightarrow> Some (Err (RtStorage e), st6)
                 | (Inr s, st6) \<Rightarrow>
                     run_turn b (turn_count s)
                       (inbound_envelope hdr tr input
                         (routed_metadata (serialize_conversation_history hist) [] (tr_provider tr) (tr_model tr) (tr_metadata tr)))
                       st6))"

text \<open>\<^verbatim>\<open>submit_and_get_output\<close> returns the output of that turn.\<close>

definition submit_and_get_output :: "'w runtime_bundle \<Rightarrow> turn_request \<Rightarrow> string \<Rightarrow> 'w runtime_state \<Rightarrow>
    ((runtime_error + assistant_output option) \<times> 'w runtime_state) option" where
  "submit_and_get_output b tr input st = submit_and_get_turn_outcome b tr input st"

text \<open>A turn on a history that the caller gives, without a message of the user.\<close>

definition submit_history_only_turn_outcome :: "'w runtime_bundle \<Rightarrow> turn_request \<Rightarrow> conversation_message list \<Rightarrow>
    'w runtime_state \<Rightarrow> ((runtime_error + assistant_output option) \<times> 'w runtime_state) option" where
  "submit_history_only_turn_outcome b tr hist st =
     (case open_session b tr (tr_metadata tr) st of
        (Inl e, st1) \<Rightarrow> Some (Err (RtStorage e), st1)
      | (Inr s, st1) \<Rightarrow>
          (let (hdr, st2) = fresh_header b (tr_session_key tr) st1
           in run_turn b (turn_count s)
                (inbound_envelope hdr tr []
                  (routed_metadata (serialize_conversation_history hist) [(''agent.resume_turn'', JBool True)]
                    (tr_provider tr) (tr_model tr) (tr_metadata tr))) st2))"

text \<open>A turn without history.\<close>

definition submit_isolated_turn :: "'w runtime_bundle \<Rightarrow> turn_request \<Rightarrow> string \<Rightarrow> 'w runtime_state \<Rightarrow>
    ((runtime_error + assistant_output option) \<times> 'w runtime_state) option" where
  "submit_isolated_turn b tr input st =
     (let key = tr_session_key tr;
          (hdr, st1) = fresh_header b key st;
          (user, st2) = new_chat_record b ''user'' input (Some (message_id hdr)) st1;
          st3 = rt_append_chat_record b key user st2;
          m = routed_metadata (JArray []) [] (tr_provider tr) (tr_model tr) (tr_metadata tr)
      in case open_session b tr m st3 of
           (Inl e, st4) \<Rightarrow> Some (Err (RtStorage e), st4)
         | (Inr s, st4) \<Rightarrow>
             map_option (\<lambda>(outcome, st5).
                 let (out, st6) = finish_turn b (\<lambda>_. (tr_channel tr, tr_chat_id tr)) (turn_count s) outcome st5
                 in (Ok out, st6))
               (process_message (refresh_runtime_system_prompt b st4) (rb_host b) (inbound_envelope hdr tr input m) st4))"

section \<open>The queue of the background services\<close>

fun is_queue_empty_error :: "transport_error \<Rightarrow> bool" where
  "is_queue_empty_error (ConsumeFailed m) = str_contains m ''queue empty''"
| "is_queue_empty_error _ = False"

definition idle_outcome :: process_outcome where
  "idle_outcome =
     \<lparr>final_response = None, outcome_error = None, final_state = Completed, llm_audits = [], outcome_tool_audits = [],
      audit_message_id = None, audit_session_key = None, audit_chat_id = None\<rparr>"

record 'w runtime_queue =
  rq_ports :: "'w runtime_state ports"
  rq_subscription :: subscription
  rq_retry :: "string \<Rightarrow> u32 \<Rightarrow> retry_decision"
  rq_dead_letter :: dead_letter_policy

definition run_runtime_once :: "'w runtime_bundle \<Rightarrow> 'w runtime_queue \<Rightarrow> 'w runtime_state \<Rightarrow>
    ((runtime_error + process_outcome) \<times> 'w runtime_state) option" where
  "run_runtime_once b Q st =
     map_option (\<lambda>(r, p).
         (case r of
            Inr outcome \<Rightarrow> Ok outcome
          | Inl e \<Rightarrow> if is_queue_empty_error e then Ok idle_outcome else Err (RtTransport e), pump_world p))
       (run_once_reliable (refresh_runtime_system_prompt b st) (rb_host b) (rq_ports Q) (rq_subscription Q)
          (rq_retry Q) (rq_dead_letter Q) \<lparr>pump_world = st, trace = []\<rparr>)"

definition turn_index_of :: "string option \<Rightarrow> 'w runtime_state \<Rightarrow> int" where
  "turn_index_of key st =
     (case key of
        None \<Rightarrow> 0
      | Some k \<Rightarrow> (case get_session k (rt_sessions st) of Inl _ \<Rightarrow> 0 | Inr s \<Rightarrow> turn_count s))"

text \<open>The result of one round: go on, or stop.\<close>

definition drain_step :: "'w runtime_bundle \<Rightarrow> 'w runtime_queue \<Rightarrow> 'w runtime_state \<Rightarrow>
    ((runtime_error + bool) \<times> 'w runtime_state) option" where
  "drain_step b Q st =
     (case run_runtime_once b Q st of
        None \<Rightarrow> None
      | Some (Inl e, st1) \<Rightarrow> Some (Err e, st1)
      | Some (Inr outcome, st1) \<Rightarrow>
          Some (case final_response outcome of
            None \<Rightarrow>
              (Ok False, enqueue_llm_audit_records_from_outcome b (turn_index_of (audit_session_key outcome) st1) outcome st1)
          | Some msg \<Rightarrow>
              (let turn = turn_index_of (Some (hdr_session_key (header msg))) st1;
                   (_, st2) = finish_turn b reply_address turn outcome st1
               in (Ok True, st2))))"

fun drain_rounds :: "'w runtime_bundle \<Rightarrow> 'w runtime_queue \<Rightarrow> nat \<Rightarrow> nat \<Rightarrow> 'w runtime_state \<Rightarrow>
    ((runtime_error + nat) \<times> 'w runtime_state) option" where
  "drain_rounds b Q 0 drained st = Some (Ok drained, st)"
| "drain_rounds b Q (Suc n) drained st =
     (case drain_step b Q st of
        None \<Rightarrow> None
      | Some (Inl e, st') \<Rightarrow> Some (Err e, st')
      | Some (Inr True, st') \<Rightarrow> drain_rounds b Q n (drained + 1) st'
      | Some (Inr False, st') \<Rightarrow> Some (Ok drained, st'))"

definition drain_runtime_queue :: "'w runtime_bundle \<Rightarrow> 'w runtime_queue \<Rightarrow> nat \<Rightarrow> 'w runtime_state \<Rightarrow>
    ((runtime_error + nat) \<times> 'w runtime_state) option" where
  "drain_runtime_queue b Q max_iterations st = drain_rounds b Q (max max_iterations 1) 0 st"

end
