(* ===== verification/Turn_Compression.thy ===== *)
theory Turn_Compression
  imports Conversation_Turn History_Properties
begin

text \<open>
  What the compression of a conversation keeps. Over any sequence of turns the model sees every record,
  either in the window of recent records or in a batch that was handed to the compression; but a batch
  whose compression fails is given up, and its records are seen by no later request.
\<close>

section \<open>The window\<close>

definition recent :: "nat \<Rightarrow> 'a list \<Rightarrow> 'a list" where
  "recent n xs = drop (length xs - n) xs"

lemma length_recent [simp]: "length (recent n xs) = min n (length xs)"
  by (simp add: recent_def)

lemma recent_all: "length xs \<le> n \<Longrightarrow> recent n xs = xs"
  by (simp add: recent_def)

lemma recent_recent: "m \<le> n \<Longrightarrow> recent m (recent n xs) = recent m xs"
  by (cases "length xs \<le> n") (auto simp: recent_def)

lemma recent_append: "length ys \<le> n \<Longrightarrow> recent n (xs @ ys) = recent (n - length ys) xs @ ys"
  by (simp add: recent_def)

lemma recent_append_only: "n \<le> length ys \<Longrightarrow> recent n (xs @ ys) = recent n ys"
  by (simp add: recent_def)

lemma trim_recent: "0 < limit \<Longrightarrow> rt_trim_conversation_history h limit = recent limit h"
  by (auto simp: rt_trim_conversation_history_def recent_def)

abbreviation kept :: "'w heartbeat_env \<Rightarrow> chat_record list \<Rightarrow> chat_record list" where
  "kept env \<equiv> filter (\<lambda>r. \<not> should_exclude_chat_record_from_context env r)"

lemma history_for_model:
  assumes "0 < limit"
  shows "rt_build_history_for_model env C now full limit summary =
    (case summary of
       None \<Rightarrow> recent limit (kept env full)
     | Some s \<Rightarrow> summary_record C now s # recent (max (limit - 1) 1) (kept env full))"
proof (cases summary)
  case None
  then show ?thesis using assms by (simp add: rt_build_history_for_model_def trim_recent)
next
  case (Some s)
  let ?k = "kept env full"
  have "(if 0 < limit \<and> limit \<le> length (recent limit ?k) then rt_trim_conversation_history (recent limit ?k) (limit - 1)
         else recent limit ?k) = recent (max (limit - 1) 1) ?k"
  proof (cases "limit = 1")
    case True
    then show ?thesis by (simp add: rt_trim_conversation_history_def)
  next
    case False
    then have big: "0 < limit - 1" "max (limit - 1) 1 = limit - 1" using assms by auto
    show ?thesis
    proof (cases "limit \<le> length ?k")
      case True
      then show ?thesis using assms big by (simp add: trim_recent recent_recent)
    next
      case False
      then show ?thesis using big by (simp add: recent_all)
    qed
  qed
  then show ?thesis using assms Some by (simp add: rt_build_history_for_model_def trim_recent Let_def)
qed

text \<open>The conversation given to the model is never longer than the configured limit, the summary
  included, if the limit is not one; but a limit of one with a summary gives two messages, the summary and
  the most recent record.\<close>

theorem history_within_limit:
  assumes "0 < limit" and "kept env full \<noteq> []"
  shows "length (rt_build_history_for_model env C now full limit None) \<le> limit \<and>
    (limit \<noteq> 1 \<longrightarrow> length (rt_build_history_for_model env C now full limit (Some s)) \<le> limit) \<and>
    rt_build_history_for_model env C now full 1 (Some s) = [summary_record C now s, last (kept env full)]"
proof -
  obtain xs x where xs: "kept env full = xs @ [x]" using assms(2) by (metis append_butlast_last_id)
  then show ?thesis using assms(1) by (auto simp: history_for_model recent_def)
qed

section \<open>One refresh\<close>

text \<open>The records that a refresh hands to the compression, if it starts one.\<close>

definition compression_batch :: "'w runtime_bundle \<Rightarrow> string \<Rightarrow> chat_record list \<Rightarrow> session_table \<Rightarrow> chat_record list" where
  "compression_batch b key full t =
     (if should_trigger_compression (last_compressed_of key t) (length full) (rb_conversation_history_limit b)
      then drop (last_compressed_of key t) full else [])"

text \<open>The stores of the session are not touched by the clock, by fresh identifiers and by a provider.\<close>

definition stores :: "'w runtime_state \<Rightarrow> session_table \<times> file_map" where
  "stores st = (rt_sessions st, rt_files st)"

definition quiet_host :: "'w runtime_bundle \<Rightarrow> bool" where
  "quiet_host b \<longleftrightarrow> (\<forall>st. stores (snd (host_now_ms (rb_host b) st)) = stores st \<and>
                          stores (snd (host_new_uuid (rb_host b) st)) = stores st)"

definition quiet_provider :: "'w runtime_state llm_provider \<Rightarrow> bool" where
  "quiet_provider p \<longleftrightarrow> (\<forall>req st. stores (snd (chat p req st)) = stores st)"

definition has_compression_state :: "string \<Rightarrow> session_table \<Rightarrow> bool" where
  "has_compression_state key t \<longleftrightarrow> get_session_compression_state key t \<noteq> None"

lemma compression_state_row:
  "get_session_compression_state key t \<noteq> None \<longleftrightarrow> (\<exists>r. bt_get t key = Some r \<and> is_active r)"
  by (auto simp: get_session_compression_state_def option_filter_def split: option.splits)

lemma set_then_get_compression:
  assumes "has_compression_state key t"
  shows "get_session_compression_state key (snd (set_session_compression_state now key s t)) =
    Some \<lparr>last_compressed_len = last_compressed_len s, summary_json = summary_json s\<rparr>"
proof -
  obtain r where "bt_get t key = Some r" "is_active r"
    using assms compression_state_row unfolding has_compression_state_def by blast
  then show ?thesis
    by (simp add: set_session_compression_state_def update_active_def get_session_compression_state_def)
qed

lemma batch_empty_iff:
  assumes "0 < rb_conversation_history_limit b"
  shows "compression_batch b key full t = [] \<longleftrightarrow>
    \<not> should_trigger_compression (last_compressed_of key t) (length full) (rb_conversation_history_limit b)"
  using assms by (auto simp: compression_batch_def should_trigger_compression_def compression_trigger_interval_def)

text \<open>A refresh without a batch changes nothing; one with a batch asks the provider to compress exactly
  the batch, and the persisted length becomes the length of the history.\<close>

lemma refresh_idle:
  assumes "0 < rb_conversation_history_limit b" and "compression_batch b key full (rt_sessions st) = []"
  shows "snd (maybe_refresh_summary b key prov mdl full st) = st"
  using assms(2) unfolding batch_empty_iff [OF assms(1)] by (simp add: maybe_refresh_summary_def Let_def)

lemma stores_now: "quiet_host b \<Longrightarrow> rt_now b st = (now, st') \<Longrightarrow> stores st' = stores st"
  unfolding quiet_host_def rt_now_def by (metis snd_conv)

lemma run_structured_stores:
  assumes "quiet_provider p"
  shows "stores (snd (run_structured_compression C p mdl old ms st)) = stores st"
proof -
  obtain r st' where r: "chat p (compression_request C mdl old ms) st = (r, st')" by fastforce
  then have "stores st' = stores st" using assms unfolding quiet_provider_def by (metis snd_conv)
  then show ?thesis using r by (cases r) (simp_all add: run_structured_compression_def)
qed

definition refreshed_summary :: "'w runtime_bundle \<Rightarrow> string \<Rightarrow> string option \<Rightarrow> session_table \<Rightarrow> conversation_summary option" where
  "refreshed_summary b key output t =
     or_else (map_option (merge_or_reset_summary (rb_codec b) (latest_summary_of (rb_codec b) key t)) output)
       (latest_summary_of (rb_codec b) key t)"

lemma refresh_batch:
  assumes "0 < rb_conversation_history_limit b" and "compression_batch b key full (rt_sessions st) \<noteq> []"
    and "quiet_host b" "quiet_provider (compression_provider b prov)"
    and "run_structured_compression (rb_codec b) (compression_provider b prov) mdl
           (latest_summary_of (rb_codec b) key (rt_sessions st))
           (to_conversation_messages (compression_batch b key full (rt_sessions st))) st = (output, st1)"
    and "maybe_refresh_summary b key prov mdl full st = (summary, st')"
  shows "summary = refreshed_summary b key output (rt_sessions st)"
    and "\<exists>now. rt_sessions st' = snd (set_session_compression_state now key
           \<lparr>last_compressed_len = int (length full), summary_json = Option.bind summary (summary_to_string (rb_codec b))\<rparr>
           (rt_sessions st))"
proof -
  let ?t = "rt_sessions st"
  have go: "should_trigger_compression (last_compressed_of key ?t) (length full) (rb_conversation_history_limit b)"
    using assms(2) batch_empty_iff [OF assms(1)] by blast
  then have batch: "compression_batch b key full ?t = drop (last_compressed_of key ?t) full"
    by (simp add: compression_batch_def)
  then have less: "last_compressed_of key ?t < length full" "full \<noteq> []" using assms(2) by auto
  then have start: "min (last_compressed_of key ?t) (length full) = last_compressed_of key ?t" by simp
  have ms: "to_conversation_messages (drop (last_compressed_of key ?t) full) \<noteq> []"
    using less by (simp add: to_conversation_messages_def)
  have st1: "rt_sessions st1 = ?t"
    using run_structured_stores [OF assms(4)] assms(5) by (metis snd_conv stores_def fst_conv)
  obtain now st2 where now: "rt_now b st1 = (now, st2)" by fastforce
  have st2: "rt_sessions st2 = ?t" using stores_now [OF assms(3) now] st1 by (simp add: stores_def)
  have "maybe_refresh_summary b key prov mdl full st =
      (refreshed_summary b key output ?t,
       st2\<lparr>rt_sessions := snd (set_session_compression_state now key
         \<lparr>last_compressed_len = int (length full),
          summary_json = Option.bind (refreshed_summary b key output ?t) (summary_to_string (rb_codec b))\<rparr> ?t)\<rparr>)"
    using go assms(1,5) less(2) now st2 ms unfolding batch
    by (simp add: maybe_refresh_summary_def Let_def start refreshed_summary_def case_prod_unfold)
  then show "summary = refreshed_summary b key output ?t"
    "\<exists>now. rt_sessions st' = snd (set_session_compression_state now key
       \<lparr>last_compressed_len = int (length full), summary_json = Option.bind summary (summary_to_string (rb_codec b))\<rparr> ?t)"
    using assms(6) by auto
qed

section \<open>A whole conversation\<close>

text \<open>The turns of one session: the history grows, also through what other parts of the runtime do to the
  stores between two turns, and each turn refreshes the summary. The batches are those of the turns.\<close>

inductive conversation :: "'w runtime_bundle \<Rightarrow> string \<Rightarrow> chat_record list \<Rightarrow> 'w runtime_state \<Rightarrow> chat_record list list \<Rightarrow> bool"
  for b key where
  start: "has_compression_state key (rt_sessions st) \<Longrightarrow> last_compressed_of key (rt_sessions st) = 0 \<Longrightarrow>
    conversation b key full st []"
| grow: "conversation b key full st batches \<Longrightarrow> has_compression_state key (rt_sessions st') \<Longrightarrow>
    persisted_compression key (rt_sessions st') = persisted_compression key (rt_sessions st) \<Longrightarrow>
    conversation b key (full @ added) st' batches"
| refresh: "conversation b key full st batches \<Longrightarrow> quiet_provider (compression_provider b prov) \<Longrightarrow>
    conversation b key full (snd (maybe_refresh_summary b key prov mdl full st))
      (batches @ [compression_batch b key full (rt_sessions st)])"

lemma refreshed_length:
  assumes "0 < rb_conversation_history_limit b" "quiet_host b" "quiet_provider (compression_provider b prov)"
    and "has_compression_state key (rt_sessions st)"
  shows "has_compression_state key (rt_sessions (snd (maybe_refresh_summary b key prov mdl full st)))"
    and "last_compressed_of key (rt_sessions (snd (maybe_refresh_summary b key prov mdl full st))) =
      last_compressed_of key (rt_sessions st) + length (compression_batch b key full (rt_sessions st))"
proof -
  let ?batch = "compression_batch b key full (rt_sessions st)" and ?st' = "snd (maybe_refresh_summary b key prov mdl full st)"
  have "has_compression_state key (rt_sessions ?st') \<and>
    last_compressed_of key (rt_sessions ?st') = last_compressed_of key (rt_sessions st) + length ?batch"
  proof (cases "?batch = []")
    case True
    then show ?thesis using refresh_idle [OF assms(1)] assms(4) by simp
  next
    case False
    obtain answer st1 where run: "run_structured_compression (rb_codec b) (compression_provider b prov) mdl
        (latest_summary_of (rb_codec b) key (rt_sessions st)) (to_conversation_messages ?batch) st = (answer, st1)"
      by fastforce
    obtain now s where t: "rt_sessions ?st' = snd (set_session_compression_state now key
        \<lparr>last_compressed_len = int (length full), summary_json = s\<rparr> (rt_sessions st))"
      using refresh_batch(2) [OF assms(1) False assms(2,3) run] by (metis prod.collapse)
    have "get_session_compression_state key (rt_sessions ?st') = Some \<lparr>last_compressed_len = int (length full), summary_json = s\<rparr>"
      unfolding t using set_then_get_compression [OF assms(4)] by simp
    moreover have "length ?batch = length full - last_compressed_of key (rt_sessions st)" "last_compressed_of key (rt_sessions st) < length full"
      using False by (auto simp: compression_batch_def split: if_splits)
    ultimately show ?thesis
      by (simp add: has_compression_state_def last_compressed_of_def persisted_compression_def)
  qed
  then show "has_compression_state key (rt_sessions ?st')"
    "last_compressed_of key (rt_sessions ?st') = last_compressed_of key (rt_sessions st) + length ?batch" by blast+
qed

lemma batch_extends:
  "last_compressed_of key t \<le> length full \<Longrightarrow>
   take (last_compressed_of key t) full @ compression_batch b key full t =
   take (last_compressed_of key t + length (compression_batch b key full t)) full"
  by (auto simp: compression_batch_def)

lemma conversation_batches:
  assumes "conversation b key full st batches" and "0 < rb_conversation_history_limit b" "quiet_host b"
  shows "has_compression_state key (rt_sessions st) \<and> last_compressed_of key (rt_sessions st) \<le> length full \<and>
    concat batches = take (last_compressed_of key (rt_sessions st)) full"
  using assms(1)
proof (induction rule: conversation.induct)
  case (start st full)
  then show ?case by simp
next
  case (grow full st batches st' added)
  have "last_compressed_of key (rt_sessions st') = last_compressed_of key (rt_sessions st)"
    using grow.hyps(3) by (simp add: last_compressed_of_def)
  then show ?case using grow by simp
next
  case (refresh full st batches prov mdl)
  note after = refreshed_length [OF assms(2,3) refresh.hyps(2), of key st mdl full]
  have "length (compression_batch b key full (rt_sessions st)) \<le> length full - last_compressed_of key (rt_sessions st)"
    by (simp add: compression_batch_def)
  then show ?case using refresh.IH after batch_extends [of key "rt_sessions st" full b] by auto
qed

lemma rest_in_window:
  assumes "0 < limit" and "\<not> should_trigger_compression n (length full) limit"
  shows "suffix (kept env (drop n full)) (rt_build_history_for_model env C now full limit summary)"
proof -
  have few: "length (kept env (drop n full)) \<le> max (limit - 1) 1" "length (kept env (drop n full)) \<le> limit"
    using assms length_filter_le [of "\<lambda>r. \<not> should_exclude_chat_record_from_context env r" "drop n full"]
    by (auto simp: should_trigger_compression_def compression_trigger_interval_def)
  have split: "kept env full = kept env (take n full) @ kept env (drop n full)"
    by (metis append_take_drop_id filter_append)
  then show ?thesis using few assms(1)
    by (cases summary) (simp_all add: history_for_model recent_append suffix_def)
qed


section \<open>A compression that fails\<close>


section \<open>Reading the summary out of an answer\<close>

text \<open>What \<^verbatim>\<open>serde_json\<close> promises of the summary's text: it is an object that is read back, and text is
  accepted only from an opening to a closing bracket.\<close>

definition codec_laws :: "summary_codec \<Rightarrow> bool" where
  "codec_laws C \<longleftrightarrow>
     (\<forall>s t. summary_to_string C s = Some t \<longrightarrow>
        (\<exists>body. t = CHR ''{'' # body @ ''}'') \<and> summary_from_str C t = Some s) \<and>
     (\<forall>x s. summary_from_str C x = Some s \<longrightarrow>
        trim x \<noteq> [] \<and> hd (trim x) \<in> set ''{['' \<and> last (trim x) \<in> set ''}]'')"

lemma trim_start_append: "\<not> is_whitespace c \<Longrightarrow> trim_start (u @ c # v) = trim_start u @ c # v"
  unfolding trim_start_def by (induction u) auto

lemma trim_end_append: "\<not> is_whitespace c \<Longrightarrow> trim_end (u @ c # v) = u @ c # trim_end v"
  unfolding trim_end_def using trim_start_append [of c "rev v" "rev u"] by (simp add: trim_start_def)

lemma trim_around:
  assumes "\<not> is_whitespace c" "\<not> is_whitespace d"
  shows "trim (u @ c # m @ d # v) = trim_start u @ c # m @ d # trim_end v"
proof -
  have "trim_start (u @ c # m @ d # v) = (trim_start u @ c # m) @ d # v" using trim_start_append [OF assms(1)] by simp
  then show ?thesis unfolding trim_def using trim_end_append [OF assms(2), of "trim_start u @ c # m" v] by simp
qed

lemma until_char:
  "c \<notin> set u \<Longrightarrow> takeWhile (\<lambda>x. x \<noteq> c) (u @ c # v) = u"
  "c \<notin> set u \<Longrightarrow> dropWhile (\<lambda>x. x \<noteq> c) (u @ c # v) = c # v"
  by (induction u) auto

lemma find_char_front: "c \<notin> set u \<Longrightarrow> find_char c (u @ c # v) = Some (length u)"
  by (simp add: find_char_def until_char)

lemma rfind_char_back: "c \<notin> set v \<Longrightarrow> rfind_char c (u @ c # v) = Some (length u)"
  using find_char_front [of c "rev v" "rev u"] by (auto simp: rfind_char_def find_char_def)

lemma first_object:
  assumes "CHR ''{'' \<notin> set u" "CHR ''}'' \<notin> set v"
  shows "extract_first_json_object (u @ CHR ''{'' # m @ CHR ''}'' # v) = Some (CHR ''{'' # m @ ''}'')"
proof -
  have w: "\<not> is_whitespace (CHR ''{'')" "\<not> is_whitespace (CHR ''}'')" by (simp_all add: is_whitespace_def)
  have "find_char (CHR ''{'') (u @ CHR ''{'' # m @ CHR ''}'' # v) = Some (length u)"
    using find_char_front [OF assms(1)] by simp
  moreover have "rfind_char (CHR ''}'') ((u @ CHR ''{'' # m) @ CHR ''}'' # v) = Some (length (u @ CHR ''{'' # m))"
    using rfind_char_back [OF assms(2)] by blast
  moreover have "trim (CHR ''{'' # m @ ''}'') = CHR ''{'' # m @ ''}''"
    using trim_around [OF w, of "[]" m "[]"] by (simp add: trim_start_def trim_end_def)
  ultimately show ?thesis by (simp add: extract_first_json_object_def)
qed

lemma str_rfind_end: "pat \<noteq> [] \<Longrightarrow> str_rfind (u @ pat) pat = Some (length u)"
proof (induction u)
  case Nil
  have short: "length x < length pat \<Longrightarrow> str_rfind x pat = None" for x
    by (induction x) (auto simp: starts_with_def Nil)
  show ?case using Nil short by (cases pat) (auto simp: starts_with_def)
qed simp

definition prose :: "string \<Rightarrow> bool" where
  "prose s \<longleftrightarrow> set s \<inter> set ''{}[]`'' = {}"

text \<open>The summary is found in what the model answers: written as JSON between any text without brackets
  and backticks, blanks included, or in a fenced block of any language, it is read back unchanged.\<close>

theorem summary_survives_wrapping:
  assumes "codec_laws C" and "summary_to_string C s = Some t" and "prose pre" "prose post" and "newline \<notin> set lang"
  shows "parse_conversation_summary C (pre @ t @ post) = Some s \<and>
    parse_conversation_summary C (''```'' @ lang @ [newline] @ t @ [newline] @ ''```'') = Some s"
proof
  have laws: "\<exists>body. t = CHR ''{'' # body @ ''}''" "summary_from_str C t = Some s"
    "\<And>x s. summary_from_str C x = Some s \<Longrightarrow> trim x \<noteq> [] \<and> hd (trim x) \<in> set ''{['' \<and> last (trim x) \<in> set ''}]''"
    using assms(1,2) unfolding codec_laws_def by blast+
  obtain body where t: "t = CHR ''{'' # body @ ''}''" using laws(1) by blast
  have w: "\<not> is_whitespace (CHR ''{'')" "\<not> is_whitespace (CHR ''}'')" "\<not> is_whitespace (CHR ''`'')"
    by (simp_all add: is_whitespace_def)
  let ?pre = "trim_start pre" and ?post = "trim_end post"
  have direct: "trim (pre @ t @ post) = ?pre @ t @ ?post" using trim_around [OF w(1,2)] t by simp
  have pre: "set ?pre \<subseteq> set pre" by (auto simp: trim_start_def dest: set_dropWhileD)
  have post: "set ?post \<subseteq> set post" by (auto simp: trim_end_def dest: set_dropWhileD)
  have "summary_from_str C (?pre @ t @ ?post) = None" if "?pre \<noteq> [] \<or> ?post \<noteq> []"
  proof (rule ccontr)
    assume "summary_from_str C (?pre @ t @ ?post) \<noteq> None"
    then have ends: "hd (?pre @ t @ ?post) \<in> set ''{[''" "last (?pre @ t @ ?post) \<in> set ''}]''"
      using laws(3) direct trim_idem by (metis not_Some_eq)+
    have "hd ?pre \<notin> set ''{[''" if "?pre \<noteq> []"
      using subsetD [OF pre hd_in_set [OF that]] assms(3) unfolding prose_def by auto
    then have "?pre = []" using ends(1) hd_append2 by metis
    moreover have "last ?post \<notin> set ''}]''" if "?post \<noteq> []"
      using subsetD [OF post last_in_set [OF that]] assms(4) unfolding prose_def by auto
    then have "?post = []" using ends(2) last_appendR append_is_Nil_conv by metis
    ultimately show False using that by blast
  qed
  moreover have "extract_fenced_json (?pre @ t @ ?post) = None"
  proof (cases "?pre = []")
    case False
    then have "hd ?pre \<noteq> CHR ''`''" using subsetD [OF pre hd_in_set] assms(3) by (auto simp: prose_def)
    then show ?thesis using False by (cases ?pre) (auto simp: extract_fenced_json_def starts_with_def)
  qed (simp add: extract_fenced_json_def starts_with_def t)
  moreover have "extract_first_json_object (?pre @ t @ ?post) = Some t"
    using first_object [of ?pre ?post body] pre post assms(3,4) t by (auto simp: prose_def)
  ultimately show "parse_conversation_summary C (pre @ t @ post) = Some s"
    unfolding parse_conversation_summary_def Let_def direct using laws(2)
    by (cases "?pre = [] \<and> ?post = []") (auto split: option.split)
  let ?fenced = "''```'' @ lang @ [newline] @ t @ [newline] @ ''```''"
  have fenced: "trim ?fenced = ?fenced"
    using trim_around [OF w(3,3), of "[]" "''``'' @ lang @ [newline] @ t @ [newline] @ ''``''" "[]"]
    by (simp add: trim_start_def trim_end_def)
  have "summary_from_str C ?fenced = None"
    using laws(3) [of ?fenced] unfolding fenced by (cases "summary_from_str C ?fenced") auto
  moreover have "extract_fenced_json ?fenced = Some t"
  proof -
    have "split_once newline (lang @ newline # t @ newline # ''```'') = Some (lang, t @ newline # ''```'')"
      using assms(5) by (simp add: split_once_def until_char)
    moreover have "str_rfind ((t @ [newline]) @ ''```'') ''```'' = Some (length (t @ [newline]))"
      by (rule str_rfind_end) simp
    moreover have "trim (t @ [newline]) = t"
      using trim_around [OF w(1,2), of "[]" body "[newline]"] t by (simp add: trim_start_def trim_end_def is_whitespace_def)
    ultimately show ?thesis by (simp add: extract_fenced_json_def starts_with_def)
  qed
  ultimately show "parse_conversation_summary C ?fenced = Some s"
    unfolding parse_conversation_summary_def Let_def fenced using laws(2) by simp
qed

section \<open>Instances\<close>

text \<open>A runtime whose provider plays the responses in its world, with a codec that knows the empty
  summary and histories as in \<^verbatim>\<open>History_Properties\<close>.\<close>

type_synonym played = "llm_response list runtime_state"

definition play_chat :: "chat_request \<Rightarrow> bool \<Rightarrow> played \<Rightarrow> (llm_error + llm_response) \<times> llm_stream_event list \<times> played" where
  "play_chat req streaming st =
     (case rt_world st of
        [] \<Rightarrow> (Err (LlmProviderUnavailable ''script over'' None), [], st)
      | r # rs \<Rightarrow> (Ok r, [], st\<lparr>rt_world := rs\<rparr>))"

definition play_provider :: "played llm_provider" where
  "play_provider = \<lparr>provider_name = ''play'', provider_default_model = ''m'', provider_wire_api = None,
     chat = (\<lambda>req st. (case play_chat req False st of (r, _, st') \<Rightarrow> (r, st'))), chat_stream = play_chat\<rparr>"

definition play_loop :: "played agent_loop" where
  "play_loop = new_agent_loop sample_limits
     \<lparr>strategy = CollectStrategy, max_queue_depth = 8, policy_lock_ttl = 1000\<rparr> play_provider (\<lambda>_. [])"

definition play_host :: "played host" where
  "play_host = \<lparr>host_now_ms = (\<lambda>st. (1, st)), host_json_to_string = (\<lambda>_. None), host_instant = (\<lambda>_. 0),
     host_new_uuid = (\<lambda>st. (''u'', st)), host_decode_history = (\<lambda>_. None)\<rparr>"

definition play_heartbeat :: "(string \<Rightarrow> chat_record option) \<Rightarrow> played heartbeat_env" where
  "play_heartbeat de = \<lparr>henv_parse_duration = (\<lambda>_. Err []), henv_now_ms = (\<lambda>st. (1, st)), henv_new_uuid = (\<lambda>st. (''u'', st)),
     henv_map_from_json = (\<lambda>_. None), henv_record_from_json = de, henv_publish = (\<lambda>_ _ st. (Ok (), st))\<rparr>"

definition play_codec :: summary_codec where
  "play_codec = \<lparr>summary_from_str = (\<lambda>x. if x = ''{}'' then Some default_summary else None),
     summary_to_string = (\<lambda>s. if s = default_summary then Some ''{}'' else None),
     summary_to_string_pretty = (\<lambda>_. None)\<rparr>"

definition play_bundle :: "nat \<Rightarrow> (chat_record \<Rightarrow> string) \<Rightarrow> (string \<Rightarrow> chat_record option) \<Rightarrow> llm_response list runtime_bundle" where
  "play_bundle limit ser de =
     \<lparr>rb_runtime = play_loop, rb_base_system_prompt = None, rb_archive_service = None,
      rb_local_attachments = \<lparr>la_allowlist = [], la_max_bytes = 1\<rparr>, rb_conversation_history_limit = limit,
      rb_host = play_host, rb_heartbeat = play_heartbeat de, rb_codec = play_codec, rb_record_to_json = ser,
      rb_value_from_str = (\<lambda>_. None), rb_paths = \<lparr>root_dir = ''/k'', sessions_dir = ''/k''\<rparr>, rb_data_dir = None\<rparr>"

definition play_state :: "file_map \<Rightarrow> llm_response list \<Rightarrow> played" where
  "play_state fm rs =
     \<lparr>rt_sessions = [(''web:1'', new_row 0 ''web:1'' ''c'' ''web'' None 0 ''1.jsonl'')], rt_files = fm, rt_usage = [],
      rt_memory = None, rt_fs = [], rt_llm_audits = \<lparr>q_bound = 4, q_connected = True, q_items = []\<rparr>,
      rt_tool_audits = \<lparr>q_bound = 4, q_connected = True, q_items = []\<rparr>, rt_world = rs\<rparr>"

lemma play_fields [simp]:
  "rb_conversation_history_limit (play_bundle n ser de) = n" "rb_host (play_bundle n ser de) = play_host"
  "rb_codec (play_bundle n ser de) = play_codec" "rb_heartbeat (play_bundle n ser de) = play_heartbeat de"
  "rb_paths (play_bundle n ser de) = \<lparr>root_dir = ''/k'', sessions_dir = ''/k''\<rparr>"
  "rb_record_to_json (play_bundle n ser de) = ser" "rb_archive_service (play_bundle n ser de) = None"
  "rb_runtime (play_bundle n ser de) = play_loop"
  by (simp_all add: play_bundle_def)

lemma play_quiet: "quiet_host (play_bundle n ser de)"
  by (simp add: quiet_host_def play_host_def)

lemma play_compression_provider [simp]: "compression_provider (play_bundle n ser de) p = play_provider"
  by (auto simp: compression_provider_def play_loop_def new_agent_loop_def Let_def bt_get_def)

lemma play_provider_quiet: "quiet_provider play_provider"
  by (simp add: quiet_provider_def play_provider_def play_chat_def stores_def split: list.split)

lemma play_row: "bt_get (rt_sessions (play_state fm rs)) ''web:1'' = Some (new_row 0 ''web:1'' ''c'' ''web'' None 0 ''1.jsonl'')"
  by (simp add: play_state_def bt_get_def)

lemma play_compression_state:
  "get_session_compression_state ''web:1'' (rt_sessions (play_state fm rs)) = Some \<lparr>last_compressed_len = 0, summary_json = None\<rparr>"
  using play_row by (simp add: get_session_compression_state_def new_row_def)

lemma play_compression:
  "has_compression_state ''web:1'' (rt_sessions (play_state fm rs))"
  "last_compressed_of ''web:1'' (rt_sessions (play_state fm rs)) = 0"
  using play_compression_state by (simp_all add: has_compression_state_def last_compressed_of_def persisted_compression_def)

lemma play_included [simp]: "\<not> should_exclude_chat_record_from_context (play_heartbeat de) r"
  by (cases "metadata_json r")
    (simp_all add: should_exclude_chat_record_from_context_def parse_chat_record_metadata_def play_heartbeat_def
      is_heartbeat_metadata_def bt_get_def Let_def)

lemma play_batch: "compression_batch (play_bundle 2 ser de) ''web:1'' sample_records (rt_sessions (play_state fm rs)) = sample_records"
  using play_compression(2) [of fm rs]
  by (simp add: compression_batch_def should_trigger_compression_def compression_trigger_interval_def)

theorem history_within_limit_witness:
  "rt_build_history_for_model (play_heartbeat sample_de) play_codec 0 sample_records 1 (Some default_summary) =
     [summary_record play_codec 0 default_summary, last sample_records]"
  using history_within_limit [of 2 "play_heartbeat sample_de" sample_records play_codec 0 default_summary]
  by simp



theorem summary_survives_wrapping_witness:
  "parse_conversation_summary play_codec (''Sure: '' @ ''{}'' @ '' Done.'') = Some default_summary"
proof -
  have "trim ''{}'' = ''{}''" by code_simp
  then have "codec_laws play_codec" by (auto simp: codec_laws_def play_codec_def split: if_splits)
  moreover have "summary_to_string play_codec default_summary = Some ''{}''" by (simp add: play_codec_def)
  moreover have "prose ''Sure: ''" "prose '' Done.''" by (simp_all add: prose_def)
  ultimately show ?thesis
    using summary_survives_wrapping [of play_codec default_summary "''{}''" "''Sure: ''" "'' Done.''" "[]"] by simp
qed

end
