(* ===== verification/World_Frame.thy ===== *)
theory World_Frame
  imports Message_Processing
begin

text \<open>
  The frame of a run: processing a message touches the world only through the provider, the tools, the
  clock, fresh identifiers and telemetry. Whatever these keep, the run keeps, however many iterations
  it takes.
\<close>

section \<open>The tool loop\<close>

definition env_keeps :: "('w \<Rightarrow> bool) \<Rightarrow> 'w agent_env \<Rightarrow> bool" where
  "env_keeps I env \<longleftrightarrow>
     (\<forall>req streaming w. I w \<longrightarrow> I (snd (snd (chat_stream (env_provider env) req streaming w)))) \<and>
     (\<forall>name args key meta w. I w \<longrightarrow> I (snd (executor_execute (env_tools env) name args key meta w))) \<and>
     (\<forall>w. I w \<longrightarrow> I (snd (env_now_ms env w)))"

lemma tool_call_keeps:
  assumes "env_keeps I env" "I (world st)"
  shows "I (world (snd (apply_tool_call env skey meta rseq i call st)))"
  using assms unfolding env_keeps_def by (simp add: apply_tool_call_def case_prod_unfold Let_def)

lemma tool_calls_keep:
  "env_keeps I env \<Longrightarrow> I (world st) \<Longrightarrow> I (world (snd (apply_tool_calls env skey meta n rseq i calls st)))"
proof (induction calls arbitrary: i st)
  case (Cons call calls)
  let ?st = "st\<lparr>tool_calls_used := tool_calls_used st + 1\<rparr>"
  have "I (world (snd (apply_tool_call env skey meta rseq i call ?st)))"
    using tool_call_keeps [OF Cons.prems(1), of ?st] Cons.prems(2) by simp
  then show ?case using Cons.IH [OF Cons.prems(1)] Cons.prems(2) by (simp add: case_prod_unfold Let_def)
qed simp

fun step_world :: "('r \<times> 'w exec_state, 'w exec_state) loop_step \<Rightarrow> 'w" where
  "step_world (Return (_, st)) = world st"
| "step_world (Continue st) = world st"

lemma handle_response_keeps:
  assumes "env_keeps I env" "I (world st)"
  shows "I (step_world (handle_response env inp lim streaming resp st))"
proof -
  let ?st = "push_assistant streaming resp (record_audit resp (record_usage resp st))"
  let ?calls = "apply_tool_calls env (session_key inp) (merged_tool_metadata (execution_context inp)) (max_tool_calls lim)
     (int (unat (iteration st))) 0 (resp_tool_calls resp) ?st"
  have "I (world (snd ?calls))" using tool_calls_keep [OF assms(1), of ?st] assms(2) by simp
  then show ?thesis using assms(2)
    by (cases ?calls) (auto simp: handle_response_def Let_def split: sum.split option.split)
qed

lemma iteration_keeps:
  assumes "env_keeps I env" "I (world st)"
  shows "I (step_world (agent_iteration env defs inp lim streaming st))"
proof -
  let ?req = "\<lparr>req_messages = messages_for_request (max_tool_iterations lim) (sat_add (iteration st) 1) (llm_messages st),
     req_tools = defs, req_model = resolved_model (execution_context inp),
     req_options = chat_options_for (tool_choice (execution_context inp))\<rparr>"
  obtain r evs w where ans: "chat_stream (env_provider env) ?req streaming (world st) = (r, evs, w)"
    by (cases "chat_stream (env_provider env) ?req streaming (world st)") auto
  then have "I w" using assms unfolding env_keeps_def by (metis snd_conv)
  then show ?thesis using ans assms handle_response_keeps [OF assms(1)]
    by (cases r) (simp_all add: agent_iteration_def Let_def)
qed

lemma steps_keep: "agent_steps env defs inp lim streaming st st' \<Longrightarrow> env_keeps I env \<Longrightarrow> I (world st) \<Longrightarrow> I (world st')"
proof (induction rule: agent_steps.induct)
  case (again st st' st'')
  then show ?case using iteration_keeps [of I env st' defs inp lim streaming] by simp
qed

lemma agent_run_keeps:
  assumes "run_agent_execution env inp lim streaming w = Some (r, st)" "env_keeps I env" "I w"
  shows "I (world st)"
proof -
  obtain st' where "agent_steps env (executor_definitions (env_tools env) w) inp lim streaming (init_state inp w) st'"
      "agent_iteration env (executor_definitions (env_tools env) w) inp lim streaming st' = Return (r, st)"
    using agent_loop_Some assms(1) unfolding run_agent_execution_def by metis
  then show ?thesis
    using steps_keep [OF _ assms(2)] iteration_keeps [OF assms(2)] assms(3)
    by (metis exec_state.select_convs(10) init_state_def step_world.simps(1))
qed

section \<open>Processing a message\<close>

definition telemetry_keeps :: "('w \<Rightarrow> bool) \<Rightarrow> 'w agent_loop \<Rightarrow> bool" where
  "telemetry_keeps I a \<longleftrightarrow> (\<forall>f e w. telemetry a = Some f \<longrightarrow> I w \<longrightarrow> I (f e w))"

definition host_keeps :: "('w \<Rightarrow> bool) \<Rightarrow> 'w host \<Rightarrow> bool" where
  "host_keeps I h \<longleftrightarrow> (\<forall>w. I w \<longrightarrow> I (snd (host_now_ms h w)) \<and> I (snd (host_new_uuid h w)))"

definition tools_keep :: "('w \<Rightarrow> bool) \<Rightarrow> 'w agent_loop \<Rightarrow> bool" where
  "tools_keep I a \<longleftrightarrow> (\<forall>w name t args ctx w'. registry_get (tools a w) name = Some t \<longrightarrow> I w' \<longrightarrow> I (snd (tool_execute t args ctx w')))"

definition provider_keeps :: "('w \<Rightarrow> bool) \<Rightarrow> 'w llm_provider \<Rightarrow> bool" where
  "provider_keeps I p \<longleftrightarrow> (\<forall>req streaming w. I w \<longrightarrow> I (snd (snd (chat_stream p req streaming w))))"

lemma emit_keeps: "telemetry_keeps I a \<Longrightarrow> I w \<Longrightarrow> I (emit (telemetry a) es w)"
proof (cases "telemetry a")
  case (Some f)
  assume "telemetry_keeps I a" "I w"
  then have "I (fold f es w)" using Some by (induction es arbitrary: w) (auto simp: telemetry_keeps_def)
  then show ?thesis using Some by simp
qed simp

lemma emit_timed_keeps: "telemetry_keeps I a \<Longrightarrow> I w \<Longrightarrow> I (emit_timed h (telemetry a) start es w)"
proof (cases "telemetry a")
  case (Some f)
  assume "telemetry_keeps I a" "I w"
  then have "I (fold (\<lambda>ev w. f (ev (elapsed h start w)) w) es w)"
    using Some by (induction es arbitrary: w) (auto simp: telemetry_keeps_def)
  then show ?thesis using Some by (simp add: emit_timed_def)
qed simp

lemma emit_fresh_keeps:
  "telemetry_keeps I a \<Longrightarrow> host_keeps I h \<Longrightarrow> I w \<Longrightarrow> I (emit_fresh h (telemetry a) ev w)"
  by (auto simp: emit_fresh_def telemetry_keeps_def host_keeps_def case_prod_unfold Let_def split: option.split)

lemma registry_execute_keeps:
  assumes "telemetry_keeps I a" "host_keeps I h" "tools_keep I a" "I w"
  shows "I (snd (registry_execute a h name args skey meta w))"
proof (cases "registry_get (tools a w) name")
  case (Some t)
  let ?w = "emit_fresh h (telemetry a) (\<lambda>u. EmitAuditEvent ''tool_called'' u
      (JObject (object_of [(''tool_name'', JString name), (''session_key'', JString skey)]))) w"
  obtain r w2 where run: "tool_execute t args \<lparr>ctx_session_key = skey, ctx_metadata = meta\<rparr> ?w = (r, w2)" by fastforce
  have "I w2" using assms(3) Some emit_fresh_keeps [OF assms(1,2,4)] run unfolding tools_keep_def by (metis snd_conv)
  then show ?thesis using run Some emit_timed_keeps [OF assms(1)] emit_fresh_keeps [OF assms(1,2)]
    by (cases r) (simp_all add: registry_execute_def Let_def)
qed (simp add: registry_execute_def assms(4))

lemma execution_env_keeps:
  "telemetry_keeps I a \<Longrightarrow> host_keeps I h \<Longrightarrow> tools_keep I a \<Longrightarrow> provider_keeps I p \<Longrightarrow> env_keeps I (execution_env a h p)"
  unfolding env_keeps_def
  by (auto simp: execution_env_def registry_executor_def provider_keeps_def host_keeps_def intro: registry_execute_keeps)

lemma finish_message_keeps:
  assumes "telemetry_keeps I a" "I w"
  shows "I (snd (finish_message a h start msg r w))"
  using emit_keeps [OF assms] emit_timed_keeps [OF assms]
  by (simp add: finish_message_def case_prod_unfold Let_def split: sum.split agent_execution_error.split)

lemma process_inner_keeps:
  assumes "process_message_inner a h msg streaming w = Some (outcome, evs, w')" and "I w"
    and "provider_keeps I (snd (resolve_provider (provider_runtime a) (in_metadata (payload msg))))"
    and "tools_keep I a" and "host_keeps I h" and "telemetry_keeps I a"
  shows "I w'"
  using assms(1)
proof (cases rule: process_message_inner_cases)
  case rejected
  then show ?thesis using emit_keeps [OF assms(6,2)] by simp
next
  case (ran r st)
  have "I (world st)"
    using agent_run_keeps [OF ran(2) execution_env_keeps [OF assms(6,5,4,3)]] emit_keeps [OF assms(6,2)] by blast
  then show ?thesis using finish_message_keeps [OF assms(6)] ran(3) by (metis snd_conv)
qed

lemma process_message_keeps:
  assumes "process_message a h msg w = Some (outcome, w')" and "I w"
    and "provider_keeps I (snd (resolve_provider (provider_runtime a) (in_metadata (payload msg))))"
    and "tools_keep I a" and "host_keeps I h" and "telemetry_keeps I a"
  shows "I w'"
  using assms process_inner_keeps [of a h msg False w outcome _ w' I] unfolding process_message_def by auto

text \<open>A run touches the world only through its ports: any property of the world that the resolved
  provider, every tool of the registry, the clock, the source of identifiers and telemetry keep holds after
  the message is processed, if it held before, however many iterations the run takes and whether or not
  it streams.\<close>

theorem message_keeps_what_its_ports_keep:
  assumes "I w" and "provider_keeps I (snd (resolve_provider (provider_runtime a) (in_metadata (payload msg))))"
    and "tools_keep I a" and "host_keeps I h" and "telemetry_keeps I a"
  shows "(\<forall>outcome w'. process_message a h msg w = Some (outcome, w') \<longrightarrow> I w') \<and>
    (\<forall>outcome evs w'. process_message_streaming a h msg w = Some (outcome, evs, w') \<longrightarrow> I w')"
  using process_message_keeps [OF _ assms(1-5)] process_inner_keeps [OF _ assms(1-5)]
  unfolding process_message_streaming_def by blast

theorem message_keeps_what_its_ports_keep_witness:
  "\<exists>outcome rs t. process_message sample_loop sample_host (sample_inbound ''hi'') script_two = Some (outcome, rs, t) \<and>
     length rs \<le> 2"
proof -
  let ?I = "\<lambda>w :: script. length (fst w) \<le> 2"
  obtain outcome evs rs t where run: "process_message_inner sample_loop sample_host (sample_inbound ''hi'') False script_two = Some (outcome, evs, rs, t)"
    using sample_run_two by auto
  have "?I script_two" by (simp add: script_two_def)
  moreover have "provider_keeps ?I (snd (resolve_provider (provider_runtime sample_loop) (in_metadata (payload (sample_inbound ''hi'')))))"
    by (auto simp: provider_keeps_def script_env_def script_chat_def split: prod.splits list.splits)
  moreover have "tools_keep ?I sample_loop"
    by (auto simp: tools_keep_def registry_get_def bt_get_def echo_tool_def ask_tool_def split: if_splits)
  moreover have "host_keeps ?I sample_host" by (auto simp: host_keeps_def sample_host_def split: prod.splits)
  moreover have "telemetry_keeps ?I sample_loop" by (simp add: telemetry_keeps_def)
  ultimately have keeps: "\<forall>outcome w'. process_message sample_loop sample_host (sample_inbound ''hi'') script_two = Some (outcome, w') \<longrightarrow> ?I w'"
    by (rule message_keeps_what_its_ports_keep [THEN conjunct1])
  have "process_message sample_loop sample_host (sample_inbound ''hi'') script_two = Some (outcome, rs, t)"
    unfolding process_message_def run by simp
  then show ?thesis using keeps by auto
qed

end
