(* ===== verification/Turn_Properties.thy ===== *)
theory Turn_Properties
  imports Turn_Compression World_Frame
begin

text \<open>
  What a turn leaves in the session: the message of the user and then the reply, read back as they were
  written; and what follows from both records having the same message id, which the pages of the history
  use as their cursor.
\<close>

section \<open>Parts of a turn that leave the stores alone\<close>

lemma stores_append: "stores (rt_append_chat_record b key rec st) =
    (rt_sessions st, append_chat_record (rb_record_to_json b) (sessions_dir (rb_paths b)) key rec (rt_files st))"
  by (simp add: stores_def rt_append_chat_record_def)

lemma stores_uuid: "quiet_host b \<Longrightarrow> host_new_uuid (rb_host b) st = (i, st') \<Longrightarrow> stores st' = stores st"
  unfolding quiet_host_def by (metis snd_conv)

lemma stores_fresh_header:
  "quiet_host b \<Longrightarrow> fresh_header b key st = (hdr, st') \<Longrightarrow> stores st' = stores st \<and> hdr_session_key hdr = key"
  by (auto simp: fresh_header_def new_header_def Let_def split: prod.splits) (metis stores_uuid stores_now)

lemma stores_new_record:
  assumes "quiet_host b" "new_chat_record b who c i st = (rec, st')"
  shows "stores st' = stores st \<and> chat_role rec = who \<and> chat_content rec = c \<and> chat_message_id rec = i"
  using assms by (auto simp: new_chat_record_def Let_def split: prod.splits dest!: stores_now)

lemma stores_enqueue [simp]: "stores (enqueue_llm_audit_records_from_outcome b turn outcome st) = stores st"
  by (simp add: stores_def enqueue_llm_audit_records_from_outcome_def enqueue_llm_audit_records_def
      enqueue_tool_audit_records_def split: option.split)

lemma stores_append_usage: "quiet_host b \<Longrightarrow> stores (snd (append_llm_usage b row st)) = stores st"
  by (cases "rt_now b st") (auto simp: append_llm_usage_def Let_def stores_def dest!: stores_now)

lemma stores_usage_records: "quiet_host b \<Longrightarrow> stores (append_usage_records b key cid turn mid rs st) = stores st"
proof (induction rs arbitrary: st)
  case (Cons r rs)
  show ?case
  proof (cases "parse_usage_source (pu_source r)")
    case (Some src)
    obtain res st1 where step: "append_llm_usage b (usage_row key cid turn mid src r) st = (res, st1)" by fastforce
    then have "stores st1 = stores st" using stores_append_usage [OF Cons.prems] by (metis snd_conv)
    then show ?thesis using Cons step Some by (cases res) (simp_all del: parse_usage_source.simps)
  qed (simp del: parse_usage_source.simps)
qed simp

lemma enrich_without_archive:
  "rb_archive_service b = None \<Longrightarrow> enrich_persistable_response_metadata b key chan cid m st = (m, st)"
  by (simp add: enrich_persistable_response_metadata_def)

section \<open>Turn counts\<close>

definition turns :: "session_table \<Rightarrow> string \<Rightarrow> int" where
  "turns t key = (case bt_get t key of None \<Rightarrow> 0 | Some r \<Rightarrow> turn_count r)"

definition active_row :: "session_table \<Rightarrow> string \<Rightarrow> bool" where
  "active_row t key \<longleftrightarrow> (\<exists>r. bt_get t key = Some r \<and> is_active r)"

lemma get_session_active: "get_session key t = Ok s \<Longrightarrow> active_row t key"
  by (auto simp: get_session_def ok_or_def active_row_def option_filter_def split: option.splits if_splits)

lemma touch_session_turns:
  "touch_session paths now key cid chan t = (Ok s, t') \<Longrightarrow> turns t' key = turns t key \<and> active_row t' key"
  by (auto simp: touch_session_def Let_def turns_def new_row_def dest!: get_session_active split: option.splits if_splits)

lemma update_active_turns:
  "(\<And>r. turn_count (f r) = turn_count r) \<Longrightarrow> turns (snd (update_active key f t)) key = turns t key"
  by (simp add: update_active_def turns_def split: option.split)

lemma delivery_turns:
  assumes "set_delivery_metadata now key cid chan m t = (Ok s, t')"
  shows "turns t' key = turns t key \<and> active_row t' key"
proof -
  let ?f = "\<lambda>r :: session_row. r\<lparr>chat_id := cid, channel := chan, updated_at_ms := now, delivery_metadata_json := m\<rparr>"
  obtain n where up: "update_active key ?f t = (n, t')" and ok: "get_session key t' = Ok s"
    using assms by (auto simp: set_delivery_metadata_def update_or_fail_def Let_def split: prod.splits if_splits)
  have "turns (snd (update_active key ?f t)) key = turns t key" by (rule update_active_turns) simp
  then show ?thesis using up get_session_active [OF ok] by simp
qed

lemma compression_turns:
  "turns (snd (set_session_compression_state now key s t)) key = turns t key"
  using update_active_turns [of "\<lambda>r. r\<lparr>compression_last_len := last_compressed_len s,
      compression_summary_json := summary_json s, updated_at_ms := now\<rparr>" key t]
  by (simp add: set_session_compression_state_def case_prod_unfold Let_def)

lemma complete_turn_turns:
  "active_row t key \<Longrightarrow> turns (snd (complete_turn paths now key cid chan t)) key = turns t key + 1"
  by (auto simp: active_row_def complete_turn_def update_active_def turns_def Let_def)

section \<open>The steps of a turn\<close>

definition history_file :: "'w runtime_bundle \<Rightarrow> string \<Rightarrow> 'w runtime_state \<Rightarrow> string" where
  "history_file b key st = unwrap_or (bt_get (rt_files st) (session_jsonl_path (sessions_dir (rb_paths b)) key)) []"

lemma history_file_append [simp]:
  "history_file b key (rt_append_chat_record b key rec st) = history_file b key st @ rb_record_to_json b rec @ [newline]"
  by (simp add: history_file_def rt_append_chat_record_def append_chat_record_def Let_def)

text \<open>What a later step sees of the session.\<close>

definition seen_of :: "'w runtime_bundle \<Rightarrow> string \<Rightarrow> 'w runtime_state \<Rightarrow> string \<times> int" where
  "seen_of b key st = (history_file b key st, turns (rt_sessions st) key)"

lemma seen_of_stores: "stores st = stores st' \<Longrightarrow> seen_of b key st = seen_of b key st'"
  by (simp add: seen_of_def history_file_def stores_def)

lemma active_stores: "stores st = stores st' \<Longrightarrow> active_row (rt_sessions st) key = active_row (rt_sessions st') key"
  by (simp add: stores_def)

lemma refresh_seen:
  assumes "quiet_host b" "quiet_provider (compression_provider b prov)"
    and "maybe_refresh_summary b key prov mdl full st = (summary, st')"
  shows "seen_of b key st' = seen_of b key st"
proof -
  let ?latest = "latest_summary_of (rb_codec b) key (rt_sessions st)"
    and ?ms = "to_conversation_messages (drop (min (last_compressed_of key (rt_sessions st)) (length full)) full)"
  let ?run = "run_structured_compression (rb_codec b) (compression_provider b prov) mdl ?latest ?ms st"
  obtain answer st1 where run: "?run = (answer, st1)" by fastforce
  obtain now st2 where now: "rt_now b st1 = (now, st2)" by fastforce
  have st2: "stores st2 = stores st"
    using stores_now [OF assms(1) now] run_structured_stores [OF assms(2)] run by (metis snd_conv)
  consider "st' = st"
    | s where "st' = st2\<lparr>rt_sessions := snd (set_session_compression_state now key s (rt_sessions st2))\<rparr>"
    using assms(3) run now
    by (simp add: maybe_refresh_summary_def Let_def case_prod_unfold split: if_splits) blast
  then show ?thesis
  proof cases
    case 2
    then have "seen_of b key st' = seen_of b key st2" by (simp add: seen_of_def history_file_def compression_turns)
    then show ?thesis using seen_of_stores [OF st2] by simp
  qed simp
qed

lemma open_session_seen:
  assumes "quiet_host b" "open_session b tr m st = (Ok s, st')"
  shows "seen_of b (tr_session_key tr) st' = seen_of b (tr_session_key tr) st \<and> active_row (rt_sessions st') (tr_session_key tr)"
proof -
  let ?key = "tr_session_key tr"
  obtain s1 st1 where t: "rt_touch_session b ?key (tr_chat_id tr) (tr_channel tr) st = (Ok s1, st1)"
    and d: "persist_session_delivery_metadata b ?key (tr_chat_id tr) (tr_channel tr) m st1 = (Ok (), st')"
    using assms(2) by (auto simp: open_session_def split: prod.splits sum.splits)
  obtain now sta where now: "rt_now b st = (now, sta)" by fastforce
  obtain t1 where t1: "touch_session (rb_paths b) now ?key (tr_chat_id tr) (tr_channel tr) (rt_sessions sta) = (Ok s1, t1)"
      "st1 = sta\<lparr>rt_sessions := t1\<rparr>"
    using t now by (auto simp: rt_touch_session_def split: prod.splits)
  have st1: "seen_of b ?key st1 = seen_of b ?key st" "active_row (rt_sessions st1) ?key"
    using touch_session_turns [OF t1(1)] seen_of_stores [OF stores_now [OF assms(1) now]] t1(2)
    by (auto simp: seen_of_def history_file_def)
  show ?thesis
  proof (cases "persistable_session_delivery_metadata_json b m")
    case None
    then show ?thesis using d st1 by (simp add: persist_session_delivery_metadata_def)
  next
    case (Some j)
    obtain now2 stb where now2: "rt_now b st1 = (now2, stb)" by fastforce
    obtain s2 t2 where t2: "set_delivery_metadata now2 ?key (tr_chat_id tr) (tr_channel tr) (Some j) (rt_sessions stb) = (Ok s2, t2)"
        "st' = stb\<lparr>rt_sessions := t2\<rparr>"
      using d Some now2
      by (auto simp: persist_session_delivery_metadata_def rt_set_delivery_metadata_def and_then_Ok_iff split: prod.splits)
    have "seen_of b ?key st' = seen_of b ?key stb \<and> active_row (rt_sessions st') ?key"
      using delivery_turns [OF t2(1)] t2(2) by (simp add: seen_of_def history_file_def)
    then show ?thesis using seen_of_stores [OF stores_now [OF assms(1) now2]] st1(1) by simp
  qed
qed

text \<open>The agent leaves the session's stores alone: none of its ports changes them.\<close>

definition quiet_agent :: "'w runtime_bundle \<Rightarrow> bool" where
  "quiet_agent b \<longleftrightarrow>
     (\<forall>s. let I = (\<lambda>st. stores st = s); a = rb_runtime b
      in (\<forall>meta. provider_keeps I (snd (resolve_provider (provider_runtime a) meta))) \<and> tools_keep I a \<and>
         host_keeps I (rb_host b) \<and> telemetry_keeps I a)"

lemma refreshed_fields [simp]:
  "provider_runtime (refresh_runtime_system_prompt b st) = provider_runtime (rb_runtime b)"
  "tools (refresh_runtime_system_prompt b st) = tools (rb_runtime b)"
  "telemetry (refresh_runtime_system_prompt b st) = telemetry (rb_runtime b)"
  by (simp_all add: refresh_runtime_system_prompt_def set_system_prompt_def)

lemma agent_stores:
  assumes "quiet_agent b" "process_message (refresh_runtime_system_prompt b st0) (rb_host b) msg st = Some (outcome, st')"
  shows "stores st' = stores st"
proof -
  note quiet = assms(1) [unfolded quiet_agent_def Let_def, THEN spec, of "stores st"]
  show ?thesis
    by (rule process_message_keeps [OF assms(2), where I = "\<lambda>x. stores x = stores st"])
      (use quiet in \<open>auto simp: tools_keep_def telemetry_keeps_def\<close>)
qed

lemma record_reply_seen:
  assumes "quiet_host b" "rb_archive_service b = None" "record_reply b chan cid turn msg st = (out, st')"
    and "active_row (rt_sessions st) key" "hdr_session_key (header msg) = key"
  shows "\<exists>rec. chat_role rec = ''assistant'' \<and> chat_content rec = ao_content out \<and>
    chat_message_id rec = Some (message_id (header msg)) \<and>
    seen_of b key st' = (history_file b key st @ rb_record_to_json b rec @ [newline], turns (rt_sessions st) key + 1)"
proof -
  let ?m = "out_metadata (payload msg)"
  obtain raw st2 where raw: "new_chat_record b ''assistant'' (out_content (payload msg)) (Some (message_id (header msg))) st = (raw, st2)"
    by fastforce
  let ?rec = "raw\<lparr>metadata_json := chat_record_metadata_json b ?m\<rparr>"
  let ?st3 = "persist_llm_usage_records b key cid turn (message_id (header msg)) ?m st2"
  obtain now st4 where now: "rt_now b (rt_append_chat_record b key ?rec ?st3) = (now, st4)" by fastforce
  have out: "ao_content out = out_content (payload msg)" and st': "st' = snd (rt_complete_turn b key cid chan (rt_append_chat_record b key ?rec ?st3))"
    using assms(3,5) raw
    by (auto simp: record_reply_def Let_def enrich_without_archive [OF assms(2)] persist_assistant_response_state_def)
  have st3: "stores ?st3 = stores st"
    using stores_usage_records [OF assms(1)] stores_new_record [OF assms(1) raw] by (simp add: persist_llm_usage_records_def)
  have files4: "rt_files st4 = rt_files (rt_append_chat_record b key ?rec ?st3)" and t4: "rt_sessions st4 = rt_sessions st"
    using stores_now [OF assms(1) now] st3 by (simp_all add: stores_def rt_append_chat_record_def)
  have "history_file b key st' = history_file b key ?st3 @ rb_record_to_json b ?rec @ [newline]"
    using st' now files4 history_file_append [of b key ?rec ?st3]
    by (simp add: rt_complete_turn_def case_prod_unfold Let_def history_file_def)
  moreover have "turns (rt_sessions st') key = turns (rt_sessions st) key + 1"
    using st' now t4 complete_turn_turns [OF assms(4)] by (simp add: rt_complete_turn_def case_prod_unfold Let_def)
  moreover have "history_file b key ?st3 = history_file b key st" using seen_of_stores [OF st3] by (simp add: seen_of_def)
  ultimately show ?thesis
    using stores_new_record [OF assms(1) raw] out by (intro exI [of _ ?rec]) (simp add: seen_of_def)
qed

section \<open>The history after a turn\<close>

lemma reply_header:
  assumes "process_message a h msg w = Some (outcome, w')" "final_response outcome = Some answer"
  shows "header answer = header msg"
proof -
  obtain evs where run: "process_message_inner a h msg False w = Some (outcome, evs, w')"
    using assms(1) by (auto simp: process_message_def)
  show ?thesis using run
  proof (cases rule: process_message_inner_cases)
    case rejected
    then show ?thesis using assms(2) by (simp add: outcome_of_def)
  next
    case (ran r st)
    obtain pid prov where "resolve_provider (provider_runtime a) (in_metadata (payload msg)) = (pid, prov)" by fastforce
    from finish_message_outcome [OF ran(3) this refl] assms(2) show ?thesis
      by (auto simp: success_outcome_def exhausted_outcome_def outcome_of_def reply_envelope_def
          split: sum.splits agent_execution_error.splits)
  qed
qed

text \<open>The records a turn appends, as its output tells.\<close>

definition turn_records :: "string \<Rightarrow> assistant_output option \<Rightarrow> chat_record \<Rightarrow> chat_record list \<Rightarrow> bool" where
  "turn_records input out user replies \<longleftrightarrow>
     chat_role user = ''user'' \<and> chat_content user = input \<and> chat_message_id user \<noteq> None \<and>
     (case out of
        None \<Rightarrow> replies = []
      | Some o' \<Rightarrow> (\<exists>r. replies = [r] \<and> chat_role r = ''assistant'' \<and> chat_content r = ao_content o' \<and>
                       chat_message_id r = chat_message_id user))"

lemma run_turn_seen:
  assumes "quiet_host b" "quiet_agent b" "rb_archive_service b = None"
    and "run_turn b turn msg st = Some (Ok out, st')"
    and "active_row (rt_sessions st) key" "hdr_session_key (header msg) = key"
    and "chat_role user = ''user''" "chat_content user = input" "chat_message_id user = Some (message_id (header msg))"
  shows "\<exists>replies. turn_records input out user replies \<and>
    seen_of b key st' = (history_file b key st @ history_bytes (rb_record_to_json b) replies,
      turns (rt_sessions st) key + int (length replies))"
proof -
  obtain outcome st1 where run: "process_message (refresh_runtime_system_prompt b st) (rb_host b) msg st = Some (outcome, st1)"
    and fin: "finish_turn b reply_address turn outcome st1 = (out, st')"
    using assms(4) by (auto simp: run_turn_def case_prod_unfold Let_def)
  let ?st2 = "enqueue_llm_audit_records_from_outcome b turn outcome st1"
  have st2: "stores ?st2 = stores st" using agent_stores [OF assms(2) run] by simp
  show ?thesis
  proof (cases "option_filter should_emit_outbound (final_response outcome)")
    case None
    then have "out = None" "st' = ?st2" using fin by (auto simp: finish_turn_def Let_def)
    then show ?thesis using seen_of_stores [OF st2, of b key] assms(7-9)
      by (auto simp: turn_records_def seen_of_def intro: exI [of _ "[]"])
  next
    case (Some answer)
    then have hdr: "header answer = header msg"
      using reply_header [OF run] by (auto simp: option_filter_def split: option.splits if_splits)
    obtain chan cid o' where rec: "record_reply b chan cid turn answer ?st2 = (o', st')" and out: "out = Some o'"
      using fin Some by (auto simp: finish_turn_def Let_def reply_address_def split: prod.splits)
    have "active_row (rt_sessions ?st2) key" using active_stores [OF st2] assms(5) by simp
    then obtain r where r: "chat_role r = ''assistant''" "chat_content r = ao_content o'"
        "chat_message_id r = Some (message_id (header answer))"
        "seen_of b key st' = (history_file b key ?st2 @ rb_record_to_json b r @ [newline], turns (rt_sessions ?st2) key + 1)"
      using record_reply_seen [OF assms(1,3) rec] hdr assms(6) by auto
    then show ?thesis using seen_of_stores [OF st2, of b key] hdr out assms(7-9)
      by (intro exI [of _ "[r]"]) (simp add: turn_records_def seen_of_def)
  qed
qed

lemma turn_seen:
  assumes "quiet_host b" "quiet_provider (compression_provider b (tr_provider tr))" "quiet_agent b"
    and "rb_archive_service b = None" and "submit_and_get_turn_outcome b tr input st = Some (Ok out, st')"
  shows "\<exists>user replies. turn_records input out user replies \<and>
    seen_of b (tr_session_key tr) st' =
      (history_file b (tr_session_key tr) st @ history_bytes (rb_record_to_json b) (user # replies),
       turns (rt_sessions st) (tr_session_key tr) + int (length replies))"
proof -
  let ?key = "tr_session_key tr"
  obtain full where full: "rt_read_chat_records b ?key st = Ok full"
    using assms(5) by (auto simp: submit_and_get_turn_outcome_def Let_def split: sum.splits)
  obtain summary st1 where refresh: "maybe_refresh_summary b ?key (tr_provider tr) (tr_model tr) full st = (summary, st1)" by fastforce
  obtain now st2 where now: "(if summary = None then (0, st1) else rt_now b st1) = (now, st2)" by fastforce
  obtain hdr st3 where hdr: "fresh_header b ?key st2 = (hdr, st3)" by fastforce
  obtain user st4 where user: "new_chat_record b ''user'' input (Some (message_id hdr)) st3 = (user, st4)" by fastforce
  let ?st5 = "rt_append_chat_record b ?key user st4"
  obtain s st6 msg where opened: "open_session b tr (tr_metadata tr) ?st5 = (Ok s, st6)"
    and run: "run_turn b (turn_count s) msg st6 = Some (Ok out, st')" and msg: "header msg = hdr"
    using assms(5) full refresh now hdr user
    by (auto simp: submit_and_get_turn_outcome_def Let_def inbound_envelope_def split: prod.splits sum.splits)
  have "stores st2 = stores st1" using now stores_now [OF assms(1)] by (auto split: if_splits)
  then have "stores st4 = stores st1"
    using stores_fresh_header [OF assms(1) hdr] stores_new_record [OF assms(1) user] by simp
  then have st4: "seen_of b ?key st4 = seen_of b ?key st"
    using seen_of_stores refresh_seen [OF assms(1,2) refresh] by metis
  have "rt_sessions ?st5 = rt_sessions st4" by (simp add: rt_append_chat_record_def)
  then have st6: "seen_of b ?key st6 = (history_file b ?key st @ rb_record_to_json b user @ [newline], turns (rt_sessions st) ?key)"
      "active_row (rt_sessions st6) ?key"
    using open_session_seen [OF assms(1) opened] st4 by (auto simp: seen_of_def)
  have "\<exists>replies. turn_records input out user replies \<and>
      seen_of b ?key st' = (history_file b ?key st6 @ history_bytes (rb_record_to_json b) replies,
        turns (rt_sessions st6) ?key + int (length replies))"
    using run_turn_seen [OF assms(1,3,4) run st6(2)] msg stores_fresh_header [OF assms(1) hdr] stores_new_record [OF assms(1) user]
    by blast
  then show ?thesis using st6(1) by (auto simp: seen_of_def)
qed

lemma turn_history_file:
  assumes "quiet_host b" "quiet_provider (compression_provider b (tr_provider tr))" "quiet_agent b"
    and "rb_archive_service b = None" and "submit_and_get_turn_outcome b tr input st = Some (Ok out, st')"
    and "history_file b (tr_session_key tr) st = history_bytes (rb_record_to_json b) hist"
  shows "\<exists>user replies. turn_records input out user replies \<and>
    bt_get (rt_files st') (session_jsonl_path (sessions_dir (rb_paths b)) (tr_session_key tr)) =
      Some (history_bytes (rb_record_to_json b) (hist @ user # replies)) \<and>
    turns (rt_sessions st') (tr_session_key tr) = turns (rt_sessions st) (tr_session_key tr) + int (length replies)"
proof -
  obtain user replies where t: "turn_records input out user replies"
      "seen_of b (tr_session_key tr) st' = (history_bytes (rb_record_to_json b) (hist @ user # replies),
         turns (rt_sessions st) (tr_session_key tr) + int (length replies))"
    using turn_seen [OF assms(1-5)] assms(6) by (auto simp: history_bytes_def)
  then have "history_file b (tr_session_key tr) st' \<noteq> []" by (simp add: seen_of_def history_bytes_def)
  then show ?thesis using t
    by (intro exI [of _ user] exI [of _ replies]) (auto simp: seen_of_def history_file_def unwrap_or_def split: option.splits)
qed


text \<open>C11: The two records of a turn have the same message id, and a page of the history is asked for by the
  oldest message id that is already there. So the page before a reply is found where the reply stands, not where
  the message of the user stands: it repeats that message, and with pages of one record its cursor
  is again the same, so that older records are never reached.\<close>

theorem turn_stalls_paging:
  assumes "quiet_host b" "quiet_provider (compression_provider b (tr_provider tr))" "quiet_agent b"
    and "rb_archive_service b = None" and "submit_and_get_turn_outcome b tr input st = Some (Ok (Some out), st')"
    and "history_file b (tr_session_key tr) st = history_bytes (rb_record_to_json b) hist"
  shows "\<exists>user answer mid. turn_records input (Some out) user [answer] \<and> chat_message_id user = Some mid \<and>
    ((\<forall>r \<in> set (hist @ [user, answer]). jsonl_faithful (rb_record_to_json b) de r) \<longrightarrow>
      read_chat_records_page de (sessions_dir (rb_paths b)) (tr_session_key tr) (Some mid) n (rt_files st') = Ok (page_of n (hist @ [user])) \<and>
      read_chat_records_page de (sessions_dir (rb_paths b)) (tr_session_key tr) (Some mid) 1 (rt_files st') =
        Ok \<lparr>page_records = [user], page_has_more = (hist \<noteq> []), oldest_message_id = Some mid\<rparr>)"
proof -
  obtain user replies where t: "turn_records input (Some out) user replies"
      "bt_get (rt_files st') (session_jsonl_path (sessions_dir (rb_paths b)) (tr_session_key tr)) =
        Some (history_bytes (rb_record_to_json b) (hist @ user # replies))"
    using turn_history_file [OF assms] by blast
  then obtain r mid where r: "replies = [r]" "chat_message_id r = Some mid" and u: "chat_message_id user = Some mid"
    by (auto simp: turn_records_def)
  have page: "read_chat_records_page de (sessions_dir (rb_paths b)) (tr_session_key tr) (Some mid) k (rt_files st') =
      Ok (page_of k (hist @ [user]))"
    if "\<forall>x \<in> set (hist @ [user, r]). jsonl_faithful (rb_record_to_json b) de x" for k
    using page_of_history [OF t(2)] that before_cursor_snoc [of "hist @ [user]" r mid] r by (simp add: history_page_def)
  have "page_of 1 (hist @ [user]) = \<lparr>page_records = [user], page_has_more = (hist \<noteq> []), oldest_message_id = Some mid\<rparr>"
    using u by (cases hist) (simp_all add: page_of_def)
  then show ?thesis using page t(1) r(1) u by (intro exI [of _ user] exI [of _ r] exI [of _ mid]) simp
qed

section \<open>The queue\<close>

lemma drain_rounds_returns:
  assumes "\<And>st. run_runtime_once b Q st \<noteq> None"
  shows "\<exists>r st'. drain_rounds b Q n drained st = Some (r, st') \<and> (\<forall>k. r = Ok k \<longrightarrow> k \<le> drained + n)"
proof (induction n arbitrary: drained st)
  case (Suc n)
  have "drain_step b Q st \<noteq> None"
    using assms [of st] by (auto simp: drain_step_def split: option.splits sum.splits)
  then obtain r st1 where step: "drain_step b Q st = Some (r, st1)" by auto
  show ?case
  proof (cases r)
    case (Inr go)
    then show ?thesis using step Suc [of "drained + 1" st1] by (cases go) auto
  qed (use step in simp)
qed simp

text \<open>If every message that is consumed is processed to its end, draining the queue returns after at most
  the given number of messages, and at least one is tried.\<close>

theorem drain_returns:
  assumes "\<And>st. run_runtime_once b Q st \<noteq> None"
  shows "\<exists>r st'. drain_runtime_queue b Q n st = Some (r, st') \<and> (\<forall>k. r = Ok k \<longrightarrow> k \<le> max n 1)"
  using drain_rounds_returns [OF assms] unfolding drain_runtime_queue_def by (metis add_0)

section \<open>Instances\<close>

definition play_request :: turn_request where
  "play_request = \<lparr>tr_channel = ''web'', tr_session_key = ''web:1'', tr_chat_id = ''c'', tr_sender_id = ''me'',
     tr_provider = ''default'', tr_model = ''m'', tr_media = [], tr_metadata = []\<rparr>"

definition play_record :: "string \<Rightarrow> string \<Rightarrow> chat_record" where
  "play_record who c = \<lparr>ts_ms = 1, chat_role = who, chat_content = c, metadata_json = None, chat_message_id = Some ''u''\<rparr>"

definition play_de :: "string \<Rightarrow> chat_record option" where
  "play_de l = (if l = ''{hi}'' then Some (play_record ''user'' ''hi'')
     else if l = ''{done}'' then Some (play_record ''assistant'' ''done'') else None)"

lemma play_agent_quiet: "quiet_agent (play_bundle n ser de)"
proof -
  have "snd (resolve_provider (provider_runtime play_loop) meta) = play_provider" for meta
    by (simp add: resolve_provider_def play_loop_def new_agent_loop_def Let_def bt_get_def)
  then show ?thesis
    by (simp add: quiet_agent_def Let_def provider_keeps_def play_provider_def play_chat_def stores_def tools_keep_def
        registry_get_def play_loop_def new_agent_loop_def bt_get_def host_keeps_def play_host_def telemetry_keeps_def
        split: list.split)
qed

lemma play_run:
  assumes "rt_world st = [reply ''done'' [] 7]"
  shows "\<exists>est. run_agent_execution (execution_env a play_host play_provider) inp (execution_limits_of sample_limits) False st =
      Some (Ok (finish ''done'' None FinalMessage est), est) \<and> world est = st\<lparr>rt_world := []\<rparr> \<and> tool_signals est = []"
  using assms
  by (simp add: run_agent_execution_def init_state_def Agent_Execution.agent_loop.simps agent_iteration_def execution_env_def
      play_provider_def play_chat_def handle_response_def reply_def record_usage_def record_audit_def budget_exceeded_def
      execution_limits_of_def sample_limits_def unat_sat_add word_less_nat_alt word_le_nat_alt Let_def)

lemma play_process:
  assumes "rt_world st = [reply ''done'' [] 7]" "in_content (payload msg) = ''hi''"
  shows "\<exists>outcome m. process_message (refresh_runtime_system_prompt (play_bundle n ser de) st0) play_host msg st = Some (outcome, st\<lparr>rt_world := []\<rparr>) \<and>
    final_response outcome = Some (reply_envelope msg ''done'' m) \<and>
    bt_get m ''trigger.kind'' = bt_get (heartbeat_response_metadata (in_metadata (payload msg))) ''trigger.kind''"
proof -
  let ?a = "refresh_runtime_system_prompt (play_bundle n ser de) st0"
  have a: "limits ?a = sample_limits" "telemetry ?a = None"
    by (simp_all add: refresh_runtime_system_prompt_def set_system_prompt_def play_loop_def new_agent_loop_def)
  obtain pid where prov: "resolve_provider (provider_runtime ?a) (in_metadata (payload msg)) = (pid, play_provider)"
    by (auto simp: play_loop_def new_agent_loop_def resolve_provider_def Let_def bt_get_def)
  have ne: "\<not> empty_content_rejected (payload msg)" using assms(2) by (simp add: empty_content_rejected_def trim_empty_iff is_whitespace_def)
  obtain est where est: "run_agent_execution (execution_env ?a play_host play_provider) (execution_input_for ?a play_host msg)
      (execution_limits_of sample_limits) False st = Some (Ok (finish ''done'' None FinalMessage est), est)"
      "world est = st\<lparr>rt_world := []\<rparr>" "tool_signals est = []"
    using play_run [OF assms(1)] by blast
  have "telemetry play_loop = None" using a(2) by simp
  then show ?thesis
    unfolding process_message_def process_message_inner_def a prov
    using ne est
    by (simp add: Let_def finish_message_def prov case_prod_unfold success_outcome_def outcome_of_def finish_def a
        response_metadata_def signal_metadata_def reply_envelope_def)
qed

lemma play_run_turn:
  assumes "rt_world st = [reply ''done'' [] 7]" "in_content (payload msg) = ''hi''"
    "bt_get (heartbeat_response_metadata (in_metadata (payload msg))) ''trigger.kind'' = None"
  shows "\<exists>out st'. run_turn (play_bundle n ser de) turn msg st = Some (Ok (Some out), st')"
proof -
  obtain outcome m where run: "process_message (refresh_runtime_system_prompt (play_bundle n ser de) st) play_host msg st = Some (outcome, st\<lparr>rt_world := []\<rparr>)"
    "final_response outcome = Some (reply_envelope msg ''done'' m)" "bt_get m ''trigger.kind'' = None"
    using play_process [OF assms(1,2)] assms(3) by metis
  have "should_emit_outbound (reply_envelope msg ''done'' m)"
    using run(3) by (simp add: should_emit_outbound_def should_suppress_output_def is_heartbeat_metadata_def reply_envelope_def)
  then show ?thesis using run(1,2) by (simp add: run_turn_def finish_turn_def Let_def case_prod_unfold)
qed

lemma message_id_new_header: "message_id (new_header mid tid now key) = mid"
  by (simp add: new_header_def)

lemma play_turn:
  "\<exists>out st'. submit_and_get_turn_outcome (play_bundle n sample_ser play_de) play_request ''hi'' (play_state [] [reply ''done'' [] 7]) =
     Some (Ok (Some out), st')"
proof -
  let ?b = "play_bundle n sample_ser play_de" and ?st = "play_state [] [reply ''done'' [] 7]"
  have read: "rt_read_chat_records ?b ''web:1'' ?st = Ok []"
    by (simp add: rt_read_chat_records_def read_chat_records_def play_state_def bt_get_def)
  let ?st5 = "rt_append_chat_record ?b ''web:1'' (play_record ''user'' ''hi'') ?st"
  have world5: "rt_world ?st5 = [reply ''done'' [] 7]" "rt_sessions ?st5 = rt_sessions ?st"
    by (simp_all add: rt_append_chat_record_def play_state_def)
  obtain s st6 where opened: "open_session ?b play_request [] ?st5 = (Ok s, st6)" "rt_world st6 = [reply ''done'' [] 7]"
    using world5 play_row [of "[]" "[reply ''done'' [] 7]"]
    by (auto simp: open_session_def play_request_def rt_touch_session_def rt_now_def play_host_def touch_session_def
        get_session_def new_row_def Let_def persist_session_delivery_metadata_def persistable_session_delivery_metadata_json_def)
  let ?msg = "inbound_envelope (new_header ''u'' ''u'' 1 ''web:1'') play_request ''hi''
      (routed_metadata (serialize_conversation_history []) [] ''default'' ''m'' [])"
  have "submit_and_get_turn_outcome ?b play_request ''hi'' ?st = run_turn ?b (turn_count s) ?msg st6"
    using read opened(1)
    by (simp add: submit_and_get_turn_outcome_def play_request_def maybe_refresh_summary_def fresh_header_def new_chat_record_def
        rt_now_def play_host_def play_record_def rt_build_history_for_model_def rt_trim_conversation_history_def
        to_conversation_messages_def message_id_new_header Let_def)
  moreover have "in_content (payload ?msg) = ''hi''" by (simp add: inbound_envelope_def)
  moreover have "bt_get (heartbeat_response_metadata (in_metadata (payload ?msg))) ''trigger.kind'' = None"
    by (simp add: inbound_envelope_def routed_metadata_def bt_extend_def heartbeat_response_metadata_def starts_with_def bt_get_def)
  ultimately show ?thesis using play_run_turn [OF opened(2)] by metis
qed


theorem turn_stalls_paging_witness:
  "\<exists>out st' user answer. submit_and_get_turn_outcome (play_bundle 2 sample_ser play_de) play_request ''hi''
      (play_state [] [reply ''done'' [] 7]) = Some (Ok (Some out), st') \<and> turn_records ''hi'' (Some out) user [answer]"
proof -
  obtain out st' where run: "submit_and_get_turn_outcome (play_bundle 2 sample_ser play_de) play_request ''hi''
      (play_state [] [reply ''done'' [] 7]) = Some (Ok (Some out), st')" using play_turn by blast
  have "quiet_provider (compression_provider (play_bundle 2 sample_ser play_de) (tr_provider play_request))"
    using play_provider_quiet by simp
  moreover have "history_file (play_bundle 2 sample_ser play_de) (tr_session_key play_request) (play_state [] [reply ''done'' [] 7]) =
      history_bytes (rb_record_to_json (play_bundle 2 sample_ser play_de)) []"
    by (simp add: history_file_def play_state_def bt_get_def)
  ultimately show ?thesis
    using turn_stalls_paging [OF play_quiet _ play_agent_quiet _ run, where hist = "[]" and de = play_de and n = 1] run by auto
qed

end
