(* ===== verification/Byte_Text.thy ===== *)
theory Byte_Text
  imports File_System
begin

text \<open>
  Byte offsets into strings. Rust indexes a \<^verbatim>\<open>str\<close> by the bytes of its UTF-8 encoding, and slicing at
  an offset inside a character panics; here a slice is an option, and \<open>None\<close> is the panic. Characters
  up to U+007F take one byte and the others of the model two.
\<close>

definition char_width :: "char \<Rightarrow> nat" where
  "char_width c = (if (of_char c :: nat) \<ge> 128 then 2 else 1)"

lemma char_width_pos [simp]: "0 < char_width c" "char_width c \<noteq> 0" "char_width c \<le> 2"
  by (simp_all add: char_width_def)

lemma str_len_simps [simp]:
  "str_len [] = 0"
  "str_len (c # s) = char_width c + str_len s"
  "str_len (s @ t) = str_len s + str_len t"
  by (simp_all add: str_len_def char_width_def)

lemma str_len_zero_iff [simp]: "str_len s = 0 \<longleftrightarrow> s = []" "0 < str_len s \<longleftrightarrow> s \<noteq> []"
  by (auto simp: str_len_def)

lemma length_le_str_len: "length s \<le> str_len s"
  by (simp add: str_len_def)

text \<open>The two parts of a string at a byte offset.\<close>

fun split_at_byte :: "nat \<Rightarrow> string \<Rightarrow> (string \<times> string) option" where
  "split_at_byte k [] = (if k = 0 then Some ([], []) else None)"
| "split_at_byte k (c # s) =
     (if k = 0 then Some ([], c # s)
      else if k < char_width c then None
      else map_option (\<lambda>(u, v). (c # u, v)) (split_at_byte (k - char_width c) s))"

lemma split_at_byte_Some_iff: "split_at_byte k s = Some (u, v) \<longleftrightarrow> s = u @ v \<and> str_len u = k"
proof (induction s arbitrary: k u)
  case (Cons c s)
  show ?case
  proof (cases u)
    case Nil
    then show ?thesis by (auto split: if_splits)
  next
    case u: (Cons d w)
    have "split_at_byte k (c # s) = Some (d # w, v) \<longleftrightarrow>
        char_width c \<le> k \<and> d = c \<and> split_at_byte (k - char_width c) s = Some (w, v)"
      by (auto simp: not_less)
    also have "\<dots> \<longleftrightarrow> c # s = u @ v \<and> str_len u = k" unfolding Cons.IH u by auto
    finally show ?thesis unfolding u .
  qed
qed (auto split: if_splits)

definition is_char_boundary :: "string \<Rightarrow> nat \<Rightarrow> bool" where
  "is_char_boundary s k \<longleftrightarrow> split_at_byte k s \<noteq> None"

lemma is_char_boundary_iff: "is_char_boundary s k \<longleftrightarrow> (\<exists>u v. s = u @ v \<and> str_len u = k)"
  by (simp add: is_char_boundary_def split_at_byte_Some_iff)

lemma boundary_ends [simp]: "is_char_boundary s 0" "is_char_boundary s (str_len s)"
proof -
  show "is_char_boundary s 0" by (cases s) (simp_all add: is_char_boundary_def)
  show "is_char_boundary s (str_len s)" unfolding is_char_boundary_iff
    by (rule exI [of _ s], rule exI [of _ "[]"]) simp
qed

lemma boundary_le: "is_char_boundary s k \<Longrightarrow> k \<le> str_len s"
  by (auto simp: is_char_boundary_iff)

text \<open>The slices \<^verbatim>\<open>s[a..]\<close> and \<^verbatim>\<open>s[a..b]\<close>.\<close>

definition str_from :: "string \<Rightarrow> nat \<Rightarrow> string option" where
  "str_from s a = map_option snd (split_at_byte a s)"

definition str_slice :: "string \<Rightarrow> nat \<Rightarrow> nat \<Rightarrow> string option" where
  "str_slice s a b = Option.bind (split_at_byte b s) (\<lambda>(u, _). map_option snd (split_at_byte a u))"

lemma str_from_Some_iff: "str_from s a = Some t \<longleftrightarrow> (\<exists>u. s = u @ t \<and> str_len u = a)"
  by (auto simp: str_from_def split_at_byte_Some_iff)

lemma str_slice_Some_iff:
  "str_slice s a b = Some t \<longleftrightarrow> (\<exists>u v. s = u @ t @ v \<and> str_len u = a \<and> str_len u + str_len t = b)"
proof
  assume "str_slice s a b = Some t"
  then obtain w v u where "split_at_byte b s = Some (w, v)" "split_at_byte a w = Some (u, t)"
    by (auto simp: str_slice_def bind_eq_Some_conv)
  then show "\<exists>u v. s = u @ t @ v \<and> str_len u = a \<and> str_len u + str_len t = b"
    unfolding split_at_byte_Some_iff by (metis append.assoc str_len_simps(3))
next
  assume "\<exists>u v. s = u @ t @ v \<and> str_len u = a \<and> str_len u + str_len t = b"
  then obtain u v where "s = (u @ t) @ v" "str_len (u @ t) = b" and u: "str_len u = a" by auto
  then have "split_at_byte b s = Some (u @ t, v)" by (simp add: split_at_byte_Some_iff)
  moreover have "split_at_byte a (u @ t) = Some (u, t)" using u by (simp add: split_at_byte_Some_iff)
  ultimately show "str_slice s a b = Some t" by (simp add: str_slice_def)
qed

lemma str_from_boundary: "is_char_boundary s a \<Longrightarrow> \<exists>t. str_from s a = Some t"
  by (auto simp: is_char_boundary_def str_from_def)

text \<open>Slicing between two boundaries never panics.\<close>

lemma boundary_between:
  assumes "s = u @ v" "str_len u = b" "is_char_boundary s a" "a \<le> b"
  shows "is_char_boundary u a"
proof -
  obtain x y where xy: "s = x @ y" "str_len x = a" using assms(3) by (auto simp: is_char_boundary_iff)
  then have "x @ y = u @ v" using assms(1) by simp
  then obtain w where "x = u @ w \<and> w @ y = v \<or> x @ w = u \<and> y = w @ v"
    by (auto simp: append_eq_append_conv2)
  then show ?thesis
  proof
    assume x: "x = u @ w \<and> w @ y = v"
    then have "str_len u + str_len w \<le> str_len u" using xy(2) assms(2,4) by simp
    then have "w = []" by (metis add_le_same_cancel1 le_zero_eq str_len_zero_iff(1))
    then have "x = u" using x by simp
    then show ?thesis using xy(2) by auto
  next
    assume "x @ w = u \<and> y = w @ v"
    then show ?thesis using xy(2) by (auto simp: is_char_boundary_iff)
  qed
qed

lemma str_slice_boundaries:
  assumes "is_char_boundary s a" "is_char_boundary s b" "a \<le> b"
  shows "\<exists>t. str_slice s a b = Some t"
proof -
  obtain u v where uv: "s = u @ v" "str_len u = b" using assms(2) by (auto simp: is_char_boundary_iff)
  have "is_char_boundary u a" by (rule boundary_between [OF uv assms(1,3)])
  moreover have "split_at_byte b s = Some (u, v)" using uv by (simp add: split_at_byte_Some_iff)
  ultimately show ?thesis by (auto simp: str_slice_def is_char_boundary_def)
qed

text \<open>What trimming takes away is white space, at both ends.\<close>

lemma trim_parts:
  "\<exists>w w'. s = w @ trim s @ w' \<and> (\<forall>c \<in> set w. is_whitespace c) \<and> (\<forall>c \<in> set w'. is_whitespace c)"
proof -
  obtain w' where w': "trim_start s = trim s @ w'" "\<forall>c \<in> set w'. is_whitespace c"
    using trim_end_prefix [of "trim_start s"] by (auto simp: trim_def)
  have "s = takeWhile is_whitespace s @ trim_start s" by (simp add: trim_start_def)
  then have "s = takeWhile is_whitespace s @ trim s @ w'" using w' by simp
  moreover have "\<forall>c \<in> set (takeWhile is_whitespace s). is_whitespace c" by (meson set_takeWhileD)
  ultimately show ?thesis using w'(2) by blast
qed

lemma str_len_trim_le: "str_len (trim s) \<le> str_len s"
  using trim_parts [of s] by (metis le_add2 le_trans le_add1 str_len_simps(3))

text \<open>On ASCII text every offset is a boundary, and bytes are characters.\<close>

definition is_ascii :: "string \<Rightarrow> bool" where
  "is_ascii s \<longleftrightarrow> (\<forall>c \<in> set s. (of_char c :: nat) < 128)"

lemma str_len_ascii: "is_ascii s \<Longrightarrow> str_len s = length s"
  unfolding is_ascii_def by (induction s) (auto simp: char_width_def)

lemma split_at_byte_ascii: "is_ascii s \<Longrightarrow> k \<le> length s \<Longrightarrow> split_at_byte k s = Some (take k s, drop k s)"
proof -
  assume a: "is_ascii s" "k \<le> length s"
  then have "is_ascii (take k s)" unfolding is_ascii_def by (meson in_set_takeD)
  then show ?thesis using a by (simp add: split_at_byte_Some_iff str_len_ascii)
qed

text \<open>\<^verbatim>\<open>str::as_bytes\<close>.\<close>

definition char_bytes :: "char \<Rightarrow> string" where
  "char_bytes c = (let n = (of_char c :: nat) in if n < 128 then [c] else [char_of (192 + n div 64), char_of (128 + n mod 64)])"

definition as_bytes :: "string \<Rightarrow> string" where
  "as_bytes s = concat (map char_bytes s)"

lemma length_as_bytes [simp]: "length (as_bytes s) = str_len s"
  by (induction s) (auto simp: as_bytes_def char_bytes_def char_width_def Let_def)

lemma char_width_lower: "char_width (ascii_lower c) = char_width c"
  by (cases c) (auto simp: char_width_def of_char_Char)

lemma str_len_lower [simp]: "str_len (to_ascii_lowercase s) = str_len s"
  by (induction s) (simp_all add: to_ascii_lowercase_code char_width_lower)

lemma lower_append: "to_ascii_lowercase (s @ t) = to_ascii_lowercase s @ to_ascii_lowercase t"
  by (simp add: to_ascii_lowercase_def)

lemma boundary_lower: "is_char_boundary (to_ascii_lowercase s) k \<longleftrightarrow> is_char_boundary s k"
proof
  assume "is_char_boundary s k"
  then show "is_char_boundary (to_ascii_lowercase s) k"
    unfolding is_char_boundary_iff by (metis lower_append str_len_lower)
next
  assume "is_char_boundary (to_ascii_lowercase s) k"
  then obtain u v where uv: "to_ascii_lowercase s = u @ v" "str_len u = k" by (auto simp: is_char_boundary_iff)
  have "s = take (length u) s @ drop (length u) s" by simp
  moreover have "to_ascii_lowercase (take (length u) s) = u"
    using arg_cong [OF uv(1), of "take (length u)"] by (simp add: to_ascii_lowercase_def take_map)
  ultimately show "is_char_boundary s k" unfolding is_char_boundary_iff by (metis uv(2) str_len_lower)
qed

end
