(* ===== verification/Note_Parser.thy ===== *)
theory Note_Parser
  imports Byte_Text
begin

text \<open>
  The reader of Markdown notes (\<^verbatim>\<open>src/klaw-knowledge/src/obsidian/parser.rs\<close>): front matter, title,
  tags, aliases, wikilinks and inline tags. The two regular expressions are translated to the matchers
  they denote: after each of their character classes comes a character outside the class, so the greedy
  match is the only one. Whether a date has the format \<^verbatim>\<open>[year]-[month]-[day]\<close> is decided by the crate
  \<^verbatim>\<open>time\<close> and is a parameter.
\<close>

definition strip_prefix_str :: "string \<Rightarrow> string \<Rightarrow> string option" where
  "strip_prefix_str s p = (if starts_with s p then Some (drop (length p) s) else None)"

definition trim_char :: "char \<Rightarrow> string \<Rightarrow> string" where
  "trim_char q s = rev (dropWhile (\<lambda>c. c = q) (rev (dropWhile (\<lambda>c. c = q) s)))"

text \<open>\<^verbatim>\<open>trim_matches('"').trim_matches('\'')\<close>.\<close>

definition unquoted :: "string \<Rightarrow> string" where
  "unquoted s = trim_char (CHR 0x27) (trim_char (CHR 0x22) s)"

record parsed_note =
  pn_title :: "string option"
  pn_tags :: "string list"
  pn_aliases :: "string list"
  pn_wikilinks :: "string list"
  pn_inline_tags :: "string list"
  pn_note_date :: "string option"
  pn_body :: string

definition split_frontmatter :: "string \<Rightarrow> string option \<times> string" where
  "split_frontmatter content =
     (let trimmed = trim_start content
      in if \<not> starts_with trimmed ''---'' then (None, content)
         else let after_open = unwrap_or (strip_prefix_str (drop 3 trimmed) [newline]) (drop 3 trimmed)
              in case str_find after_open (newline # ''---'') of
                   Some i \<Rightarrow> (let rest = drop (i + 4) after_open
                             in (Some (take i after_open), unwrap_or (strip_prefix_str rest [newline]) rest))
                 | None \<Rightarrow> (None, content))"

text \<open>The items of a block list: lines that start with a dash, blank lines between them.\<close>

fun block_items :: "string list \<Rightarrow> string list" where
  "block_items [] = []"
| "block_items (line # rest) =
     (let next' = trim line
      in case strip_prefix_str next' ''- '' of
           Some value \<Rightarrow> unquoted (trim value) # block_items rest
         | None \<Rightarrow> if next' = [] then block_items rest else [])"

fun list_field_from :: "string \<Rightarrow> string list \<Rightarrow> string list" where
  "list_field_from key [] = []"
| "list_field_from key (line # rest) =
     (case strip_prefix_str (trim line) (key @ '':'') of
        None \<Rightarrow> list_field_from key rest
      | Some value \<Rightarrow>
          (let r = trim value
           in if starts_with r ''['' \<and> ends_with r '']''
              then filter (\<lambda>item. item \<noteq> [])
                     (map (\<lambda>item. unquoted (trim item)) (split_char (CHR '','') (drop 1 (butlast r))))
              else if r \<noteq> [] then [unquoted r] else block_items rest))"

definition parse_list_field :: "string option \<Rightarrow> string \<Rightarrow> string list" where
  "parse_list_field frontmatter key =
     (case frontmatter of None \<Rightarrow> [] | Some f \<Rightarrow> list_field_from key (str_lines f))"

fun find_map :: "('a \<Rightarrow> 'b option) \<Rightarrow> 'a list \<Rightarrow> 'b option" where
  "find_map f [] = None"
| "find_map f (x # xs) = (case f x of Some y \<Rightarrow> Some y | None \<Rightarrow> find_map f xs)"

definition parse_scalar_field :: "string option \<Rightarrow> string \<Rightarrow> string option" where
  "parse_scalar_field frontmatter key =
     Option.bind frontmatter (\<lambda>f. find_map (\<lambda>line.
       map_option unquoted (nonempty_trimmed (strip_prefix_str (trim line) (key @ '':'')))) (str_lines f))"

text \<open>The expression \<^verbatim>\<open>[[\<close>, a target without \<^verbatim>\<open>]\<close>, \<^verbatim>\<open>|\<close> and \<^verbatim>\<open>#\<close>, an optional heading, an
  optional display text, \<^verbatim>\<open>]]\<close>; the target and what follows the match.\<close>

definition closed_link :: "string \<Rightarrow> string \<Rightarrow> (string \<times> string) option" where
  "closed_link target s = map_option (\<lambda>rest. (target, rest)) (strip_prefix_str s '']]'')"

definition link_display :: "string \<Rightarrow> string \<Rightarrow> (string \<times> string) option" where
  "link_display target s =
     (case s of
        c # t \<Rightarrow>
          if c = CHR ''|'' then
            (let d = takeWhile (\<lambda>x. x \<noteq> CHR '']'') t
             in if d = [] then None else closed_link target (drop (length d) t))
          else closed_link target s
      | [] \<Rightarrow> None)"

definition link_heading :: "string \<Rightarrow> string \<Rightarrow> (string \<times> string) option" where
  "link_heading target s =
     (case s of
        c # t \<Rightarrow>
          if c = CHR ''#'' then
            (let h = takeWhile (\<lambda>x. x \<notin> set '']|'') t
             in if h = [] then None else link_display target (drop (length h) t))
          else link_display target s
      | [] \<Rightarrow> None)"

definition wikilink_at :: "string \<Rightarrow> (string \<times> string) option" where
  "wikilink_at s =
     Option.bind (strip_prefix_str s ''[['') (\<lambda>t.
       let target = takeWhile (\<lambda>c. c \<notin> set '']|#'') t
       in if target = [] then None else link_heading target (drop (length target) t))"

lemma strip_prefix_Some_iff: "strip_prefix_str s p = Some r \<longleftrightarrow> s = p @ r"
  by (auto simp: strip_prefix_str_def starts_with_def) (metis append_take_drop_id)

lemma closed_link_shorter:
  assumes "closed_link t s = Some (t', rest)"
  shows "length rest < length s"
proof -
  have "s = '']]'' @ rest" using assms by (auto simp: closed_link_def strip_prefix_Some_iff)
  then show ?thesis by simp
qed

lemma link_display_shorter: "link_display t s = Some (t', rest) \<Longrightarrow> length rest < length s"
  using closed_link_shorter by (fastforce simp: link_display_def Let_def split: list.splits if_splits)

lemma link_heading_shorter: "link_heading t s = Some (t', rest) \<Longrightarrow> length rest < length s"
  using link_display_shorter by (fastforce simp: link_heading_def Let_def split: list.splits if_splits)

lemma wikilink_at_shorter: "wikilink_at s = Some (t, rest) \<Longrightarrow> length rest < length s"
  using link_heading_shorter
  by (fastforce simp: wikilink_at_def Let_def bind_eq_Some_conv strip_prefix_Some_iff split: if_splits)

text \<open>\<^verbatim>\<open>captures_iter\<close>: the matches from left to right, without overlaps.\<close>

function wikilinks_from :: "string \<Rightarrow> string list" where
  "wikilinks_from [] = []"
| "wikilinks_from (c # s) =
     (case wikilink_at (c # s) of
        Some (target, rest) \<Rightarrow> trim target # wikilinks_from rest
      | None \<Rightarrow> wikilinks_from s)"
  by pat_completeness auto
termination by (relation "measure length") (auto dest: wikilink_at_shorter)

definition parse_wikilinks :: "string \<Rightarrow> string list" where
  "parse_wikilinks body = wikilinks_from body"

definition is_tag_char :: "char \<Rightarrow> bool" where
  "is_tag_char c \<longleftrightarrow>
     CHR ''A'' \<le> c \<and> c \<le> CHR ''Z'' \<or> CHR ''a'' \<le> c \<and> c \<le> CHR ''z'' \<or> CHR ''0'' \<le> c \<and> c \<le> CHR ''9''
     \<or> c \<in> set ''_-/''"

function inline_tags_from :: "string \<Rightarrow> string list" where
  "inline_tags_from [] = []"
| "inline_tags_from (c # s) =
     (let tag = takeWhile is_tag_char s
      in if c = CHR ''#'' \<and> tag \<noteq> [] then tag # inline_tags_from (drop (length tag) s)
         else inline_tags_from s)"
  by pat_completeness auto
termination by (relation "measure length") auto

definition parse_inline_tags :: "string \<Rightarrow> string list" where
  "parse_inline_tags body = inline_tags_from body"

definition first_heading_title :: "string \<Rightarrow> string option" where
  "first_heading_title body =
     find_map (\<lambda>line. nonempty_trimmed (strip_prefix_str (trim line) ''# '')) (str_lines body)"

definition parse_note :: "(string \<Rightarrow> bool) \<Rightarrow> string \<Rightarrow> parsed_note" where
  "parse_note is_date content =
     (let (frontmatter, body) = split_frontmatter content
      in \<lparr>pn_title = or_else (parse_scalar_field frontmatter ''title'') (first_heading_title body),
          pn_tags = parse_list_field frontmatter ''tags'',
          pn_aliases = parse_list_field frontmatter ''aliases'',
          pn_wikilinks = parse_wikilinks body,
          pn_inline_tags = parse_inline_tags body,
          pn_note_date = option_filter is_date (parse_scalar_field frontmatter ''date''),
          pn_body = trim body\<rparr>)"

end
