(* ===== verification/Note_Chunker.thy ===== *)
theory Note_Chunker
  imports Note_Parser Complex_Main
begin

text \<open>
  The division of a note into chunks (\<^verbatim>\<open>src/klaw-knowledge/src/obsidian/chunker.rs\<close>). Offsets are in
  bytes, and the result is \<open>None\<close> where the code would slice inside a character and panic. The scores
  of break points are \<^verbatim>\<open>f64\<close> in the code and exact rationals here: their rounding is not modelled.
\<close>

section \<open>Chunks and break points\<close>

record chunk =
  ck_heading :: "string option"
  ck_text :: string
  ck_snippet :: string

record parsed_markdown =
  md_tags :: "string list"
  md_aliases :: "string list"
  md_chunks :: "chunk list"

record break_point =
  bp_byte_offset :: nat
  bp_line_number :: nat
  bp_score :: nat
  bp_inside_code_fence :: bool

definition is_code_fence :: "string \<Rightarrow> bool" where
  "is_code_fence trimmed \<longleftrightarrow> starts_with trimmed ''```'' \<or> starts_with trimmed ''~~~''"

definition is_thematic_break :: "string \<Rightarrow> bool" where
  "is_thematic_break trimmed \<longleftrightarrow>
     3 \<le> str_len trimmed \<and>
     (case trimmed of
        [] \<Rightarrow> False
      | first # _ \<Rightarrow> first \<in> set ''-*_'' \<and> (\<forall>ch \<in> set trimmed. ch = first \<or> ch = CHR 0x20)
          \<and> 3 \<le> length (filter (\<lambda>ch. ch = first) trimmed))"

definition is_list_item :: "string \<Rightarrow> bool" where
  "is_list_item trimmed \<longleftrightarrow>
     starts_with trimmed ''- '' \<or> starts_with trimmed ''* '' \<or>
     (trimmed \<noteq> [] \<and> is_ascii_digit (hd trimmed) \<and>
      (case dropWhile is_ascii_digit (tl trimmed) of [] \<Rightarrow> False | ch # _ \<Rightarrow> ch = CHR ''.'' \<or> ch = CHR '')''))"

definition break_point_score :: "string \<Rightarrow> nat" where
  "break_point_score trimmed =
     (if starts_with trimmed ''# '' then 100
      else if starts_with trimmed ''## '' then 90
      else if starts_with trimmed ''### '' then 80
      else if starts_with trimmed ''#### '' then 70
      else if starts_with trimmed ''##### '' then 60
      else if starts_with trimmed ''###### '' then 50
      else if is_thematic_break trimmed then 60
      else if trimmed = [] then 20
      else if is_list_item trimmed then 5
      else 1)"

text \<open>The offset behind a line, with one byte for its terminator.\<close>

definition line_end :: "nat \<Rightarrow> nat \<Rightarrow> string \<Rightarrow> nat" where
  "line_end len off line = off + str_len line + (if off + str_len line < len then 1 else 0)"

fun break_points_from :: "nat \<Rightarrow> nat \<Rightarrow> bool \<Rightarrow> nat \<Rightarrow> string list \<Rightarrow> break_point list" where
  "break_points_from len n inside off [] = []"
| "break_points_from len n inside off (line # rest) =
     (let trimmed = trim line; line_stop = line_end len off line
      in if is_code_fence trimmed
         then \<lparr>bp_byte_offset = (if inside then line_stop else off), bp_line_number = n, bp_score = 80,
               bp_inside_code_fence = False\<rparr>
              # break_points_from len (Suc n) (\<not> inside) line_stop rest
         else if inside
         then \<lparr>bp_byte_offset = off, bp_line_number = n, bp_score = 1, bp_inside_code_fence = True\<rparr>
              # break_points_from len (Suc n) inside line_stop rest
         else (if 1 < break_point_score trimmed
               then [\<lparr>bp_byte_offset = off, bp_line_number = n, bp_score = break_point_score trimmed,
                      bp_inside_code_fence = inside\<rparr>]
               else [])
              @ break_points_from len (Suc n) inside line_stop rest)"

definition find_break_points :: "string \<Rightarrow> break_point list" where
  "find_break_points content = break_points_from (str_len content) 0 False 0 (str_lines content)"

section \<open>Offsets\<close>

definition approx_tokens :: "string \<Rightarrow> nat" where
  "approx_tokens s = (str_len s + 3) div 4"

definition weighted_score :: "nat \<Rightarrow> break_point \<Rightarrow> rat" where
  "weighted_score ideal_offset point =
     (let distance = \<bar>of_nat (bp_byte_offset point) - of_nat ideal_offset\<bar>
      in of_nat (bp_score point) * (1 / (1 + distance / 500)))"

text \<open>\<^verbatim>\<open>Iterator::max_by\<close>: the last of the greatest elements.\<close>

fun max_by :: "('a \<Rightarrow> 'b::linorder) \<Rightarrow> 'a list \<Rightarrow> 'a option" where
  "max_by f [] = None"
| "max_by f (x # xs) = Some (fold (\<lambda>y best. if f y < f best then best else y) xs x)"

function snap_from :: "string \<Rightarrow> nat \<Rightarrow> nat" where
  "snap_from content offset =
     (if offset < str_len content \<and> \<not> is_char_boundary content offset then snap_from content (offset + 1)
      else offset)"
  by pat_completeness auto
termination by (relation "measure (\<lambda>(content, offset). str_len content - offset)") auto

declare snap_from.simps [simp del]

definition snap_to_char_boundary :: "string \<Rightarrow> nat \<Rightarrow> nat" where
  "snap_to_char_boundary content offset = snap_from content (min offset (str_len content))"

definition fallback_cut_offset :: "string \<Rightarrow> nat \<Rightarrow> nat \<Rightarrow> nat option" where
  "fallback_cut_offset content start_offset target_chars =
     (let stop = snap_to_char_boundary content (min (start_offset + target_chars) (str_len content))
      in map_option (\<lambda>t.
           min (max (unwrap_or
                      (option_filter (\<lambda>offset. start_offset < offset)
                        (map_option (\<lambda>position. start_offset + str_len (take position t) + 1) (rfind_char newline t)))
                      stop)
                    (start_offset + 1))
               (str_len content)) (str_slice content start_offset stop))"

fun fence_state_at :: "nat \<Rightarrow> nat \<Rightarrow> bool \<Rightarrow> nat \<Rightarrow> string list \<Rightarrow> bool" where
  "fence_state_at len offset inside off [] = inside"
| "fence_state_at len offset inside off (line # rest) =
     (if offset \<le> off then inside
      else fence_state_at len offset (if is_code_fence (trim line) then \<not> inside else inside)
             (line_end len off line) rest)"

definition is_inside_code_fence_at :: "string \<Rightarrow> nat \<Rightarrow> bool" where
  "is_inside_code_fence_at content offset = fence_state_at (str_len content) offset False 0 (str_lines content)"

definition next_start_offset :: "string \<Rightarrow> nat \<Rightarrow> nat \<Rightarrow> nat \<Rightarrow> nat" where
  "next_start_offset content start_offset cut_offset overlap_chars =
     (if overlap_chars = 0 \<or> cut_offset \<le> overlap_chars then cut_offset
      else let candidate = max (snap_to_char_boundary content (cut_offset - overlap_chars)) (start_offset + 1)
           in if is_inside_code_fence_at content candidate then cut_offset else candidate)"

section \<open>Chunking\<close>

definition extract_heading :: "string \<Rightarrow> string option" where
  "extract_heading s = find (\<lambda>line. starts_with (trim line) ''#'') (str_lines s)"

definition make_snippet :: "string \<Rightarrow> string" where
  "make_snippet s = (if 200 < length s then take 200 s @ ''...'' else s)"

definition make_chunk :: "string \<Rightarrow> chunk" where
  "make_chunk s = \<lparr>ck_heading = extract_heading s, ck_text = s, ck_snippet = make_snippet s\<rparr>"

definition cut_offset_at :: "string \<Rightarrow> break_point list \<Rightarrow> nat \<Rightarrow> nat \<Rightarrow> nat option" where
  "cut_offset_at content break_points target_chars start_offset =
     map_option (\<lambda>stop. min (max (snap_to_char_boundary content stop) (start_offset + 1)) (str_len content))
       (case max_by (weighted_score (start_offset + target_chars))
               (filter (\<lambda>point. start_offset < bp_byte_offset point \<and>
                                bp_byte_offset point \<le> start_offset + target_chars * 2 \<and>
                                \<not> bp_inside_code_fence point) break_points) of
          Some point \<Rightarrow> Some (bp_byte_offset point)
        | None \<Rightarrow> fallback_cut_offset content start_offset target_chars)"

definition chunk_of :: "string \<Rightarrow> chunk list" where
  "chunk_of s = (if trim s = [] then [] else [make_chunk (trim s)])"

lemma snap_from_ge: "offset \<le> snap_from content offset"
  by (induction content offset rule: snap_from.induct) (subst snap_from.simps, auto)

lemma snap_ge: "offset \<le> str_len content \<Longrightarrow> offset \<le> snap_to_char_boundary content offset"
  using snap_from_ge [of offset content] by (simp add: snap_to_char_boundary_def min_def)

lemma cut_offset_progress:
  "cut_offset_at content bps tc start = Some stop \<Longrightarrow> stop < str_len content \<Longrightarrow> start < stop"
  by (auto simp: cut_offset_at_def)

lemma next_start_progress: "start < stop \<Longrightarrow> start < next_start_offset content start stop ov"
  by (auto simp: next_start_offset_def Let_def)

function chunk_loop :: "string \<Rightarrow> nat \<Rightarrow> break_point list \<Rightarrow> nat \<Rightarrow> nat \<Rightarrow> chunk list option" where
  "chunk_loop content target_tokens break_points overlap_chars start =
     (if start < str_len content then
        (let start_offset = snap_to_char_boundary content start
         in Option.bind (str_from content start_offset) (\<lambda>remaining.
              if trim remaining = [] then Some []
              else if approx_tokens remaining \<le> target_tokens then Some [make_chunk (trim remaining)]
              else Option.bind (cut_offset_at content break_points (target_tokens * 4) start_offset) (\<lambda>stop.
                   Option.bind (str_slice content start_offset stop) (\<lambda>s.
                     if str_len content \<le> stop then Some (chunk_of s)
                     else map_option (\<lambda>rest. chunk_of s @ rest)
                       (chunk_loop content target_tokens break_points overlap_chars
                         (next_start_offset content start_offset stop overlap_chars))))))
      else Some [])"
  by pat_completeness auto
termination
proof (relation "measure (\<lambda>(content, _, _, _, start). str_len content - start)", simp)
  fix content target_tokens break_points overlap_chars start start_offset remaining stop s
  assume "start < str_len content" and so: "start_offset = snap_to_char_boundary content start"
    and c: "cut_offset_at content break_points (target_tokens * 4) start_offset = Some stop"
    and l: "\<not> str_len content \<le> stop"
  have "start_offset < stop" using cut_offset_progress [OF c] l by simp
  then have "start_offset < next_start_offset content start_offset stop overlap_chars"
    by (rule next_start_progress)
  moreover have "start \<le> start_offset" unfolding so using \<open>start < str_len content\<close> by (intro snap_ge) simp
  ultimately show "((content, target_tokens, break_points, overlap_chars,
        next_start_offset content start_offset stop overlap_chars),
      content, target_tokens, break_points, overlap_chars, start)
      \<in> measure (\<lambda>(content, _, _, _, start). str_len content - start)"
    using \<open>start < str_len content\<close> by simp
qed

declare chunk_loop.simps [simp del]

definition smart_chunk :: "string \<Rightarrow> nat \<Rightarrow> nat \<Rightarrow> chunk list option" where
  "smart_chunk content target_tokens overlap_pct =
     (if trim content = [] then Some []
      else if target_tokens = 0 \<or> approx_tokens content \<le> target_tokens then Some [make_chunk (trim content)]
      else chunk_loop content target_tokens (find_break_points content) (target_tokens * 4 * overlap_pct div 100) 0)"

definition chunk_markdown :: "(string \<Rightarrow> bool) \<Rightarrow> string \<Rightarrow> parsed_markdown option" where
  "chunk_markdown is_date content =
     (let note = parse_note is_date content
      in map_option (\<lambda>cs. \<lparr>md_tags = pn_tags note, md_aliases = pn_aliases note, md_chunks = cs\<rparr>)
           (smart_chunk (pn_body note) 512 15))"

section \<open>Splitting oversized chunks\<close>

fun sentence_segments :: "string \<Rightarrow> string \<Rightarrow> string list" where
  "sentence_segments current [] = (if current = [] then [] else [current])"
| "sentence_segments current (c # cs) =
     (if c = newline then (current @ [c]) # sentence_segments [] cs
      else if c = CHR ''.'' \<and> cs \<noteq> [] \<and> hd cs = CHR 0x20
      then (current @ [c, CHR 0x20]) # sentence_segments [] (tl cs)
      else sentence_segments (current @ [c]) cs)"

definition split_sentence_segments :: "string \<Rightarrow> string list" where
  "split_sentence_segments s = sentence_segments [] s"

fun overlap_words :: "(string \<Rightarrow> nat) \<Rightarrow> nat \<Rightarrow> string \<Rightarrow> string list \<Rightarrow> string" where
  "overlap_words token_count limit overlap [] = overlap"
| "overlap_words token_count limit overlap (word # rest) =
     (let candidate = (if overlap = [] then word else word @ '' '' @ overlap)
      in if limit < token_count candidate then overlap
         else overlap_words token_count limit candidate rest)"

definition build_token_overlap :: "string \<Rightarrow> (string \<Rightarrow> nat) \<Rightarrow> nat \<Rightarrow> string" where
  "build_token_overlap s token_count overlap_tokens =
     (if overlap_tokens = 0 then []
      else let overlap = overlap_words token_count overlap_tokens [] (rev (split_whitespace s))
           in if overlap = [] then overlap else overlap @ '' '')"

fun pack_segments :: "(string \<Rightarrow> nat) \<Rightarrow> nat \<Rightarrow> nat \<Rightarrow> string \<Rightarrow> string list \<Rightarrow> string list" where
  "pack_segments token_count max_tokens overlap_tokens current [] = (if trim current = [] then [] else [current])"
| "pack_segments token_count max_tokens overlap_tokens current (segment # rest) =
     (if current \<noteq> [] \<and> max_tokens < token_count (current @ segment)
      then current # pack_segments token_count max_tokens overlap_tokens
             (build_token_overlap current token_count overlap_tokens @ segment) rest
      else pack_segments token_count max_tokens overlap_tokens (current @ segment) rest)"

definition split_oversized_chunk :: "chunk \<Rightarrow> (string \<Rightarrow> nat) \<Rightarrow> nat \<Rightarrow> nat \<Rightarrow> chunk list" where
  "split_oversized_chunk chunk token_count max_tokens overlap_tokens =
     map (\<lambda>(index, s).
            \<lparr>ck_heading = (if index = 0 then ck_heading chunk
                           else map_option (\<lambda>heading. heading @ '' (cont.)'') (ck_heading chunk)),
             ck_text = trim s, ck_snippet = make_snippet (trim s)\<rparr>)
       (enumerate 0 (pack_segments token_count max_tokens overlap_tokens [] (split_sentence_segments (ck_text chunk))))"

definition split_oversized_chunks :: "chunk list \<Rightarrow> (string \<Rightarrow> nat) \<Rightarrow> nat \<Rightarrow> nat \<Rightarrow> chunk list" where
  "split_oversized_chunks chunks token_count max_tokens overlap_tokens =
     concat (map (\<lambda>chunk.
       if token_count (ck_text chunk) \<le> max_tokens then [chunk]
       else split_oversized_chunk chunk token_count max_tokens overlap_tokens) chunks)"

end
