(* ===== verification/Note_Links.thy ===== *)
theory Note_Links
  imports Note_Chunker "HOL-Library.Product_Lexorder"
begin

text \<open>
  The discovery of links between notes (\<^verbatim>\<open>src/klaw-knowledge/src/obsidian/links.rs\<close>): the index of names,
  the regions of a note that are left alone, and the three passes over exact names and aliases, similar
  names, and first names. Offsets are in bytes. A slice inside a character, which panics, and a loop that
  does not end are both \<open>None\<close>. The similarity of two strings is the function of the crate \<^verbatim>\<open>strsim\<close> and a
  parameter, with exact rationals for \<^verbatim>\<open>f64\<close>.
\<close>

section \<open>Names\<close>

datatype link_match_type = ExactName | Alias | FuzzyName nat | FirstName nat

fun match_type_str :: "link_match_type \<Rightarrow> string" where
  "match_type_str ExactName = ''exact_name''"
| "match_type_str Alias = ''alias''"
| "match_type_str (FuzzyName _) = ''fuzzy_name''"
| "match_type_str (FirstName _) = ''first_name''"

fun match_priority :: "link_match_type \<Rightarrow> nat" where
  "match_priority ExactName = 0"
| "match_priority Alias = 1"
| "match_priority (FuzzyName _) = 2"
| "match_priority (FirstName _) = 3"

fun match_confidence_bp :: "link_match_type \<Rightarrow> nat option" where
  "match_confidence_bp (FuzzyName bp) = Some bp"
| "match_confidence_bp (FirstName bp) = Some bp"
| "match_confidence_bp _ = None"

record note_link_target =
  nt_path :: string
  nt_title :: string
  nt_aliases :: "string list"

record discovered_link =
  dl_matched_text :: string
  dl_target_path :: string
  dl_target_title :: string
  dl_display :: "string option"
  dl_match_type :: link_match_type

record name_entry =
  ne_name :: string
  ne_name_lower :: string
  ne_path :: string
  ne_title :: string
  ne_match_type :: link_match_type

type_synonym seen_name = "string \<times> string \<times> string"
type_synonym region = "nat \<times> nat"

definition push_name_entry :: "string \<Rightarrow> note_link_target \<Rightarrow> link_match_type \<Rightarrow> nat \<Rightarrow>
    name_entry list \<times> seen_name list \<Rightarrow> name_entry list \<times> seen_name list" where
  "push_name_entry raw target match_type min_len = (\<lambda>(entries, seen).
     let name = trim raw; key = (nt_path target, to_ascii_lowercase name, match_type_str match_type)
     in if length name < min_len \<or> key \<in> set seen then (entries, seen)
        else (entries @ [\<lparr>ne_name = name, ne_name_lower = to_ascii_lowercase name, ne_path = nt_path target,
                          ne_title = nt_title target, ne_match_type = match_type\<rparr>], key # seen))"

text \<open>\<^verbatim>\<open>trim_end_matches(".md")\<close>: the suffix is removed as often as it is there.\<close>

function trim_end_md :: "string \<Rightarrow> string" where
  "trim_end_md s = (case strip_suffix s ''.md'' of Some t \<Rightarrow> trim_end_md t | None \<Rightarrow> s)"
  by pat_completeness auto
termination by (relation "measure length") (auto simp: strip_suffix_Some_iff)

declare trim_end_md.simps [simp del]

definition push_target_names :: "note_link_target \<Rightarrow> name_entry list \<times> seen_name list \<Rightarrow> name_entry list \<times> seen_name list" where
  "push_target_names target st =
     fold (\<lambda>alias. push_name_entry alias target Alias 2) (nt_aliases target)
       (push_name_entry (nt_title target) target ExactName 3
         (push_name_entry (trim_end_md (last (split_char (CHR ''/'') (nt_path target)))) target ExactName 3 st))"

definition build_name_index :: "note_link_target list \<Rightarrow> name_entry list" where
  "build_name_index targets =
     sort_key (\<lambda>entry. - int (str_len (ne_name entry))) (fst (fold push_target_names targets ([], [])))"

section \<open>Regions\<close>

definition line_after :: "string \<Rightarrow> nat \<Rightarrow> nat" where
  "line_after bytes i = (case find_char newline (drop i bytes) of Some p \<Rightarrow> i + p + 1 | None \<Rightarrow> length bytes)"

lemma line_after_greater: "i < length bytes \<Longrightarrow> i < line_after bytes i"
  by (simp add: line_after_def split: option.split)

definition fence_at :: "string \<Rightarrow> nat \<Rightarrow> char \<Rightarrow> bool" where
  "fence_at bytes i fence \<longleftrightarrow>
     i + 2 < length bytes \<and> bytes ! i = fence \<and> bytes ! (i + 1) = fence \<and> bytes ! (i + 2) = fence"

text \<open>The end of the line that closes a fenced block.\<close>

function fence_close :: "string \<Rightarrow> char \<Rightarrow> nat \<Rightarrow> nat option" where
  "fence_close bytes fence scan =
     (if scan < length bytes then
        if (scan = 0 \<or> bytes ! (scan - 1) = newline) \<and> fence_at bytes scan fence then Some (line_after bytes scan)
        else fence_close bytes fence (line_after bytes scan)
      else None)"
  by pat_completeness auto
termination
  by (relation "measure (\<lambda>(bytes, _, scan). length bytes - scan)") (auto intro: diff_less_mono2 line_after_greater)

declare fence_close.simps [simp del]

lemma fence_close_greater: "fence_close bytes fence scan = Some stop \<Longrightarrow> scan < stop"
proof (induction bytes fence scan rule: fence_close.induct)
  case (1 bytes fence scan)
  have more: "scan < length bytes \<Longrightarrow> scan < line_after bytes scan" by (rule line_after_greater)
  show ?case using 1 more
    by (subst (asm) (2) fence_close.simps) (force split: if_splits)
qed

text \<open>Inline code: the position behind the closing backtick, or where the line or the note ends.\<close>

datatype inline_end = Closed nat | Unclosed nat

function inline_code_end :: "string \<Rightarrow> nat \<Rightarrow> inline_end" where
  "inline_code_end bytes i =
     (if i < length bytes then
        if bytes ! i = CHR 0x60 then Closed (i + 1)
        else if bytes ! i = newline then Unclosed i
        else inline_code_end bytes (i + 1)
      else Unclosed i)"
  by pat_completeness auto
termination by (relation "measure (\<lambda>(bytes, i). length bytes - i)") auto

declare inline_code_end.simps [simp del]

lemma inline_code_end_ge:
  "(case inline_code_end bytes i of Closed k \<Rightarrow> i < k | Unclosed k \<Rightarrow> i \<le> k)"
proof (induction bytes i rule: inline_code_end.induct)
  case (1 bytes i)
  then show ?case by (subst inline_code_end.simps) (auto split: inline_end.splits)
qed

function protected_from :: "string \<Rightarrow> nat \<Rightarrow> nat \<Rightarrow> region list" where
  "protected_from bytes body_start i =
     (if i < length bytes then
        if (i = body_start \<or> (0 < i \<and> bytes ! (i - 1) = newline)) \<and>
           (fence_at bytes i (CHR 0x60) \<or> fence_at bytes i (CHR ''~''))
        then (case fence_close bytes (bytes ! i) (line_after bytes i) of
                Some close_end \<Rightarrow> (i, close_end) # protected_from bytes body_start close_end
              | None \<Rightarrow> [(i, length bytes)])
        else if bytes ! i = CHR 0x60
        then (case inline_code_end bytes (i + 1) of
                Closed k \<Rightarrow> (i, k) # protected_from bytes body_start k
              | Unclosed k \<Rightarrow> protected_from bytes body_start k)
        else protected_from bytes body_start (i + 1)
      else [])"
  by pat_completeness auto
termination
proof (relation "measure (\<lambda>(bytes, _, i). length bytes - i)")
  fix bytes :: string and body_start i close_end
  assume "i < length bytes" "fence_close bytes (bytes ! i) (line_after bytes i) = Some close_end"
  then have "i < close_end" using fence_close_greater line_after_greater less_trans by blast
  then show "((bytes, body_start, close_end), bytes, body_start, i) \<in> measure (\<lambda>(bytes, _, i). length bytes - i)"
    using \<open>i < length bytes\<close> by simp
next
  fix bytes :: string and body_start i k
  assume "i < length bytes" "inline_code_end bytes (i + 1) = Closed k"
  then show "((bytes, body_start, k), bytes, body_start, i) \<in> measure (\<lambda>(bytes, _, i). length bytes - i)"
    using inline_code_end_ge [where bytes = bytes and i = "i + 1"] by simp
next
  fix bytes :: string and body_start i k
  assume "i < length bytes" "inline_code_end bytes (i + 1) = Unclosed k"
  then show "((bytes, body_start, k), bytes, body_start, i) \<in> measure (\<lambda>(bytes, _, i). length bytes - i)"
    using inline_code_end_ge [where bytes = bytes and i = "i + 1"] by simp
qed auto

declare protected_from.simps [simp del]

definition frontmatter_end :: "string \<Rightarrow> nat option" where
  "frontmatter_end bytes =
     (if starts_with bytes (''---'' @ [newline]) \<or> starts_with bytes (''---'' @ [CHR 0x0D, newline]) then
        (let after_open = (if bytes ! 3 = newline then 4 else 5); rest = drop after_open bytes
         in case str_find rest ([newline] @ ''---'' @ [newline]) of
              Some p \<Rightarrow> Some (after_open + p + 5)
            | None \<Rightarrow>
               (case str_find rest ([newline] @ ''---'' @ [CHR 0x0D, newline]) of
                  Some p \<Rightarrow> Some (after_open + p + 6)
                | None \<Rightarrow> if ends_with rest ([newline] @ ''---'') then Some (length bytes) else None))
      else None)"

definition find_protected_regions :: "string \<Rightarrow> region list" where
  "find_protected_regions content =
     (let bytes = as_bytes content
      in case frontmatter_end bytes of
           Some close_end \<Rightarrow> (0, close_end) # protected_from bytes close_end close_end
         | None \<Rightarrow> protected_from bytes 0 0)"

function brackets_close :: "string \<Rightarrow> nat \<Rightarrow> nat option" where
  "brackets_close bytes scan =
     (if scan + 1 < length bytes then
        if bytes ! scan = CHR '']'' \<and> bytes ! (scan + 1) = CHR '']'' then Some scan
        else brackets_close bytes (scan + 1)
      else None)"
  by pat_completeness auto
termination by (relation "measure (\<lambda>(bytes, scan). length bytes - scan)") auto

declare brackets_close.simps [simp del]

lemma brackets_close_ge: "brackets_close bytes scan = Some k \<Longrightarrow> scan \<le> k"
proof (induction bytes scan rule: brackets_close.induct)
  case (1 bytes scan)
  then show ?case by (subst (asm) (2) brackets_close.simps) (auto split: if_splits)
qed

function wikilink_regions_from :: "string \<Rightarrow> nat \<Rightarrow> region list" where
  "wikilink_regions_from bytes i =
     (if i + 1 < length bytes then
        if bytes ! i = CHR ''['' \<and> bytes ! (i + 1) = CHR ''[''
        then (case brackets_close bytes (i + 2) of
                Some scan \<Rightarrow> (i, scan + 2) # wikilink_regions_from bytes (scan + 2)
              | None \<Rightarrow> wikilink_regions_from bytes (i + 2))
        else wikilink_regions_from bytes (i + 1)
      else [])"
  by pat_completeness auto
termination
  by (relation "measure (\<lambda>(bytes, i). length bytes - i)") (auto dest: brackets_close_ge)

declare wikilink_regions_from.simps [simp del]

definition find_wikilink_regions :: "string \<Rightarrow> region list" where
  "find_wikilink_regions content = wikilink_regions_from (as_bytes content) 0"

section \<open>Tests on a match\<close>

definition inside_region :: "nat \<Rightarrow> nat \<Rightarrow> region list \<Rightarrow> bool" where
  "inside_region pos stop regions \<longleftrightarrow> (\<exists>(a, b) \<in> set regions. a \<le> pos \<and> stop \<le> b)"

definition overlaps_claimed :: "nat \<Rightarrow> nat \<Rightarrow> region list \<Rightarrow> bool" where
  "overlaps_claimed pos stop claimed \<longleftrightarrow> (\<exists>(a, b) \<in> set claimed. pos < b \<and> a < stop)"

definition is_word_boundary :: "string \<Rightarrow> nat \<Rightarrow> bool" where
  "is_word_boundary bytes pos \<longleftrightarrow>
     pos = 0 \<or> \<not> is_ascii_alphanumeric (bytes ! (pos - 1)) \<and> bytes ! (pos - 1) \<noteq> CHR ''_''"

definition is_word_boundary_after :: "string \<Rightarrow> nat \<Rightarrow> bool" where
  "is_word_boundary_after bytes stop \<longleftrightarrow>
     length bytes \<le> stop \<or> \<not> is_ascii_alphanumeric (bytes ! stop) \<and> bytes ! stop \<noteq> CHR ''_''"

definition followed_by_file_extension :: "string \<Rightarrow> nat \<Rightarrow> bool" where
  "followed_by_file_extension bytes stop \<longleftrightarrow>
     stop < length bytes \<and> bytes ! stop = CHR ''.'' \<and>
     length (takeWhile is_ascii_alphanumeric (drop (stop + 1) bytes)) \<in> {1..6}"

definition is_date_pattern :: "string \<Rightarrow> bool" where
  "is_date_pattern s \<longleftrightarrow>
     (let bytes = as_bytes (trim s)
      in length bytes = 10 \<and> list_all is_ascii_digit (take 4 bytes) \<and> bytes ! 4 = CHR ''-'' \<and>
         list_all is_ascii_digit (take 2 (drop 5 bytes)) \<and> bytes ! 7 = CHR ''-'' \<and>
         list_all is_ascii_digit (take 2 (drop 8 bytes)))"

definition should_skip_match :: "string \<Rightarrow> nat \<Rightarrow> nat \<Rightarrow> region list \<Rightarrow> region list \<Rightarrow> region list \<Rightarrow> bool option" where
  "should_skip_match content pos stop wikilinks protected claimed =
     (if inside_region pos stop wikilinks \<or> inside_region pos stop protected \<or> overlaps_claimed pos stop claimed \<or>
         \<not> is_word_boundary (as_bytes content) pos \<or> \<not> is_word_boundary_after (as_bytes content) stop \<or>
         followed_by_file_extension (as_bytes content) stop
      then Some True
      else map_option is_date_pattern (str_slice content pos stop))"

definition path_in_folder :: "string \<Rightarrow> string \<Rightarrow> bool" where
  "path_in_folder path raw \<longleftrightarrow>
     (let folder = trim_char (CHR ''/'') raw
      in path = folder \<or>
         (case strip_prefix_str path folder of Some rest \<Rightarrow> starts_with rest ''/'' | None \<Rightarrow> False) \<or>
         str_contains path (''/'' @ folder @ ''/''))"

section \<open>Exact names and aliases\<close>

record link_scan =
  ls_links :: "discovered_link list"
  ls_claimed :: "region list"
  ls_paths :: "string list"

definition exact_link :: "name_entry \<Rightarrow> string \<Rightarrow> discovered_link" where
  "exact_link entry m =
     \<lparr>dl_matched_text = m, dl_target_path = ne_path entry, dl_target_title = ne_title entry,
      dl_display = (if ne_match_type entry = ExactName then None else Some m), dl_match_type = ne_match_type entry\<rparr>"

definition claim_match :: "name_entry \<Rightarrow> nat \<Rightarrow> nat \<Rightarrow> string \<Rightarrow> link_scan \<Rightarrow> link_scan" where
  "claim_match entry pos stop m st =
     \<lparr>ls_links = ls_links st @ [exact_link entry m], ls_claimed = ls_claimed st @ [(pos, stop)],
      ls_paths = List.insert (ne_path entry) (ls_paths st)\<rparr>"

partial_function (option) name_matches :: "string \<Rightarrow> region list \<Rightarrow> region list \<Rightarrow> name_entry \<Rightarrow> nat \<Rightarrow> link_scan \<Rightarrow> link_scan option" where
  "name_matches content wikilinks protected entry search_from st =
     Option.bind (str_from (to_ascii_lowercase content) search_from) (\<lambda>rest.
       case str_find rest (ne_name_lower entry) of
         None \<Rightarrow> Some st
       | Some i \<Rightarrow>
          (let pos = search_from + str_len (take i rest); stop = pos + str_len (ne_name_lower entry)
           in Option.bind (should_skip_match content pos stop wikilinks protected (ls_claimed st)) (\<lambda>skip.
                if skip then name_matches content wikilinks protected entry stop st
                else Option.bind (str_slice content pos stop) (\<lambda>m.
                       name_matches content wikilinks protected entry stop (claim_match entry pos stop m st)))))"

declare name_matches.simps [code]

fun index_matches :: "string \<Rightarrow> region list \<Rightarrow> region list \<Rightarrow> name_entry list \<Rightarrow> link_scan \<Rightarrow> link_scan option" where
  "index_matches content wikilinks protected [] st = Some st"
| "index_matches content wikilinks protected (entry # rest) st =
     (if ne_match_type entry \<noteq> ExactName \<and> ne_match_type entry \<noteq> Alias
      then index_matches content wikilinks protected rest st
      else Option.bind (name_matches content wikilinks protected entry 0 st)
             (index_matches content wikilinks protected rest))"

section \<open>Similar names and first names\<close>

text \<open>A word is made of ASCII characters, whose bytes are the characters themselves.\<close>

definition byte_slice :: "string \<Rightarrow> nat \<Rightarrow> nat \<Rightarrow> string" where
  "byte_slice bytes a b = take (b - a) (drop a bytes)"

function word_end :: "string \<Rightarrow> nat \<Rightarrow> nat" where
  "word_end bytes i =
     (if i < length bytes \<and>
         (is_ascii_alphanumeric (bytes ! i) \<or>
          bytes ! i = quote \<and> i + 1 < length bytes \<and> is_ascii_alphanumeric (bytes ! (i + 1)))
      then word_end bytes (i + 1) else i)"
  by pat_completeness auto
termination by (relation "measure (\<lambda>(bytes, i). length bytes - i)") auto

declare word_end.simps [simp del]

lemma word_end_ge: "i \<le> word_end bytes i"
proof (induction bytes i rule: word_end.induct)
  case (1 bytes i)
  then show ?case by (subst word_end.simps) auto
qed

lemma word_end_greater: "i < length bytes \<Longrightarrow> is_ascii_alphanumeric (bytes ! i) \<Longrightarrow> i < word_end bytes i"
  using word_end_ge [of "i + 1" bytes] by (subst word_end.simps) simp

definition strip_possessive :: "string \<Rightarrow> string" where
  "strip_possessive word =
     (if ends_with word [quote, CHR ''s''] \<or> ends_with word [quote, CHR ''S''] then take (length word - 2) word
      else word)"

function word_spans_from :: "string \<Rightarrow> nat \<Rightarrow> (nat \<times> nat \<times> string) list" where
  "word_spans_from bytes i =
     (if i < length bytes then
        if \<not> is_ascii_alphanumeric (bytes ! i) then word_spans_from bytes (i + 1)
        else let stop = word_end bytes i; word = strip_possessive (byte_slice bytes i stop)
             in (if word = [] then [] else [(i, stop, word)]) @ word_spans_from bytes stop
      else [])"
  by pat_completeness auto
termination
  by (relation "measure (\<lambda>(bytes, i). length bytes - i)") (auto intro: diff_less_mono2 word_end_greater)

declare word_spans_from.simps [simp del]

definition word_spans :: "string \<Rightarrow> (nat \<times> nat \<times> string) list" where
  "word_spans s = word_spans_from (as_bytes s) 0"

text \<open>\<^verbatim>\<open>(similarity * 1000.0) as u16\<close>.\<close>

definition confidence_of :: "rat \<Rightarrow> nat" where
  "confidence_of x = min (nat \<lfloor>x * 1000\<rfloor>) 65535"

definition in_people :: "string option \<Rightarrow> string \<Rightarrow> bool" where
  "in_people people_folder path = (case people_folder of Some folder \<Rightarrow> path_in_folder path folder | None \<Rightarrow> False)"

definition fuzzy_window :: "(string \<Rightarrow> string \<Rightarrow> rat) \<Rightarrow> name_entry \<Rightarrow> region list \<Rightarrow>
    (nat \<times> nat \<times> string) list \<Rightarrow> (nat \<times> nat \<times> link_match_type) option" where
  "fuzzy_window similarity entry existing window =
     (let byte_start = fst (hd window); byte_end = fst (snd (last window));
          confidence = confidence_of (similarity
            (join '' '' (map (\<lambda>(_, _, word). to_ascii_lowercase word) window)) (ne_name_lower entry))
      in if overlaps_claimed byte_start byte_end existing \<or> confidence < 920 then None
         else Some (byte_start, byte_end, FuzzyName confidence))"

definition fuzzy_hit :: "(string \<Rightarrow> string \<Rightarrow> rat) \<Rightarrow> (nat \<times> nat \<times> string) list \<Rightarrow> region list \<Rightarrow> string option \<Rightarrow>
    name_entry \<Rightarrow> (name_entry \<times> nat \<times> nat \<times> link_match_type) option" where
  "fuzzy_hit similarity spans existing people_folder entry =
     (let word_count = length (split_whitespace (ne_name entry))
      in if word_count \<le> 1 \<and> \<not> in_people people_folder (ne_path entry) then None
         else if length spans < word_count \<or> word_count = 0 then None
         else map_option (Pair entry)
                (find_map (\<lambda>i. fuzzy_window similarity entry existing (take word_count (drop i spans)))
                  [0..<length spans - word_count + 1]))"

definition shown_link :: "string \<Rightarrow> name_entry \<times> nat \<times> nat \<times> link_match_type \<Rightarrow> discovered_link option" where
  "shown_link content = (\<lambda>(entry, start, stop, match_type).
     map_option (\<lambda>m. \<lparr>dl_matched_text = m, dl_target_path = ne_path entry, dl_target_title = ne_title entry,
                       dl_display = Some m, dl_match_type = match_type\<rparr>) (str_slice content start stop))"

definition find_fuzzy_matches :: "(string \<Rightarrow> string \<Rightarrow> rat) \<Rightarrow> string \<Rightarrow> name_entry list \<Rightarrow> region list \<Rightarrow>
    string option \<Rightarrow> discovered_link list option" where
  "find_fuzzy_matches similarity content eligible_names existing people_folder =
     those (map (shown_link content)
       (List.map_filter (fuzzy_hit similarity (word_spans content) existing people_folder) eligible_names))"

definition is_first_name_of :: "string \<Rightarrow> name_entry \<Rightarrow> bool" where
  "is_first_name_of word_lower entry \<longleftrightarrow>
     starts_with (ne_name_lower entry) word_lower \<and> str_len word_lower < str_len (ne_name_lower entry) \<and>
     as_bytes (ne_name_lower entry) ! str_len word_lower = CHR 0x20"

definition first_name_hit :: "name_entry list \<Rightarrow> nat \<times> nat \<times> string \<Rightarrow> (name_entry \<times> nat \<times> nat \<times> link_match_type) option" where
  "first_name_hit people_names = (\<lambda>(start, stop, word).
     case filter (is_first_name_of (to_ascii_lowercase word)) people_names of
       [entry] \<Rightarrow> Some (entry, start, stop, FirstName 650)
     | _ \<Rightarrow> None)"

definition find_first_name_matches :: "string \<Rightarrow> name_entry list \<Rightarrow> region list \<Rightarrow> discovered_link list option" where
  "find_first_name_matches content people_names existing =
     those (map (shown_link content)
       (List.map_filter (first_name_hit people_names)
         (filter (\<lambda>(start, stop, _). \<not> overlaps_claimed start stop existing) (word_spans content))))"

section \<open>Discovery\<close>

definition fuzzy_eligible :: "name_entry list \<Rightarrow> string list \<Rightarrow> string option \<Rightarrow> name_entry list" where
  "fuzzy_eligible name_index matched_paths people_folder =
     filter (\<lambda>entry.
       ne_match_type entry = ExactName \<and> ne_path entry \<notin> set matched_paths \<and>
       (2 \<le> length (split_whitespace (ne_name entry)) \<or>
        in_people people_folder (ne_path entry) \<and> 3 \<le> length (ne_name entry))) name_index"

text \<open>The region a similar name is taken to be at: the first occurrence of its text.\<close>

definition fuzzy_regions :: "string \<Rightarrow> discovered_link list \<Rightarrow> region list" where
  "fuzzy_regions content links =
     List.map_filter (\<lambda>link.
       map_option (\<lambda>i. let pos = str_len (take i (to_ascii_lowercase content)) in (pos, pos + str_len (dl_matched_text link)))
         (str_find (to_ascii_lowercase content) (to_ascii_lowercase (dl_matched_text link)))) links"

definition link_order :: "discovered_link \<Rightarrow> nat \<times> int" where
  "link_order link =
     (match_priority (dl_match_type link), - int (unwrap_or (match_confidence_bp (dl_match_type link)) 1000))"

definition people_entries :: "name_entry list \<Rightarrow> string list \<Rightarrow> string \<Rightarrow> name_entry list" where
  "people_entries name_index matched_paths folder =
     filter (\<lambda>entry. path_in_folder (ne_path entry) folder \<and> ne_match_type entry = ExactName \<and>
                      ne_path entry \<notin> set matched_paths) name_index"

definition empty_scan :: link_scan where
  "empty_scan = \<lparr>ls_links = [], ls_claimed = [], ls_paths = []\<rparr>"

definition exact_pass :: "string \<Rightarrow> name_entry list \<Rightarrow> link_scan option" where
  "exact_pass content name_index =
     index_matches content (find_wikilink_regions content) (find_protected_regions content) name_index empty_scan"

definition discover_links :: "(string \<Rightarrow> string \<Rightarrow> rat) \<Rightarrow> string \<Rightarrow> name_entry list \<Rightarrow> string option \<Rightarrow>
    discovered_link list option" where
  "discover_links similarity content name_index people_folder =
     Option.bind (exact_pass content name_index) (\<lambda>st.
       let excluded = ls_claimed st @ find_wikilink_regions content @ find_protected_regions content
       in Option.bind (find_fuzzy_matches similarity content
              (fuzzy_eligible name_index (ls_paths st) people_folder) excluded people_folder) (\<lambda>fuzzy.
          map_option (\<lambda>first. sort_key link_order (ls_links st @ fuzzy @ first))
            (case people_folder of
               None \<Rightarrow> Some []
             | Some folder \<Rightarrow> find_first_name_matches content (people_entries name_index (ls_paths st) folder)
                 (excluded @ fuzzy_regions content fuzzy))))"

end
