(* ===== verification/Note_Index.thy ===== *)
theory Note_Index
  imports Note_Links Json_Value
begin

text \<open>
  The index of a vault (\<^verbatim>\<open>src/klaw-knowledge/src/obsidian/indexer.rs\<close>): the tables of the knowledge
  database, the rows of a note, the links between notes, and the passes over a vault. A note is known by its
  path below the vault, with slashes. The file walker is the crate \<^verbatim>\<open>ignore\<close>, dates of files, the
  embedding model and the vector index of the database are parameters; an embedding is stored as its
  numbers. The schema is taken as present; rebuilding the table for a vector column keeps its rows.
  \<open>None\<close> means a panic or no return, as in the chunker and the discovery of links.
\<close>

section \<open>Tables\<close>

datatype knowledge_error =
    InvalidConfig string | InvalidQuery string | InvalidNotePath string | NoteAlreadyExists string
  | ProviderError string | SourceUnavailable string

record entry_row =
  er_id :: string
  er_title :: string
  er_uri :: string
  er_tags_json :: string
  er_aliases_json :: string
  er_metadata_json :: string
  er_content :: string
  er_note_date :: "string option"
  er_created_at_ms :: int
  er_updated_at_ms :: int

record chunk_row =
  cr_id :: string
  cr_entry_id :: string
  cr_heading :: "string option"
  cr_content :: string
  cr_snippet :: string
  cr_embedding :: "rat list option"

record indexed_link =
  il_target_entry_id :: "string option"
  il_target_title :: string
  il_matched_text :: "string option"
  il_match_type :: string
  il_confidence_bp :: "nat option"

record link_row =
  lr_source_entry_id :: string
  lr_link :: indexed_link

record fts_row =
  ft_chunk_id :: string
  ft_entry_id :: string
  ft_title :: string
  ft_aliases :: string
  ft_tags :: string
  ft_content :: string

record 'w knowledge_db =
  kd_entries :: "entry_row list"
  kd_chunks :: "chunk_row list"
  kd_links :: "link_row list"
  kd_fts :: "fts_row list"
  kd_metadata :: "(string, string) btree_map"
  kd_vector_index :: bool
  kd_world :: 'w

record 'w vault_env =
  ve_vault_root :: path
  ve_exclude_folders :: "string list"
  ve_max_excerpt_length :: nat
  ve_embedder :: "(string \<Rightarrow> 'w \<Rightarrow> (knowledge_error + rat list) \<times> 'w) option"
  ve_is_date :: "string \<Rightarrow> bool"
  ve_similarity :: "string \<Rightarrow> string \<Rightarrow> rat"
  ve_json_to_string :: "json \<Rightarrow> string"
  ve_walk :: "file_system \<Rightarrow> path \<Rightarrow> string + path list"
  ve_mtime_ms :: "file_system \<Rightarrow> path \<Rightarrow> int"
  ve_create_vector_index :: "string + unit"

definition delete_entry :: "string \<Rightarrow> 'w knowledge_db \<Rightarrow> 'w knowledge_db" where
  "delete_entry i db =
     db\<lparr>kd_fts := filter (\<lambda>r. ft_entry_id r \<noteq> i) (kd_fts db),
        kd_links := filter (\<lambda>r. lr_source_entry_id r \<noteq> i) (kd_links db),
        kd_chunks := filter (\<lambda>r. cr_entry_id r \<noteq> i) (kd_chunks db),
        kd_entries := filter (\<lambda>r. er_id r \<noteq> i) (kd_entries db)\<rparr>"

text \<open>The insertion of an entry, with its primary key and its unique \<^verbatim>\<open>uri\<close>.\<close>

definition insert_entry :: "entry_row \<Rightarrow> 'w knowledge_db \<Rightarrow> (knowledge_error + unit) \<times> 'w knowledge_db" where
  "insert_entry row db =
     (if \<exists>r \<in> set (kd_entries db). er_id r = er_id row
      then (Err (ProviderError ''UNIQUE constraint failed: knowledge_entries.id''), db)
      else if \<exists>r \<in> set (kd_entries db). er_uri r = er_uri row
      then (Err (ProviderError ''UNIQUE constraint failed: knowledge_entries.uri''), db)
      else (Ok (), db\<lparr>kd_entries := kd_entries db @ [row]\<rparr>))"

definition is_entry_up_to_date :: "'w knowledge_db \<Rightarrow> string \<Rightarrow> int \<Rightarrow> bool" where
  "is_entry_up_to_date db uri updated_at_ms =
     (map_option er_updated_at_ms (find (\<lambda>r. er_uri r = uri) (kd_entries db)) = Some updated_at_ms)"

definition has_indexed_entries :: "'w knowledge_db \<Rightarrow> bool" where
  "has_indexed_entries db \<longleftrightarrow> kd_entries db \<noteq> []"

section \<open>The vector index\<close>

text \<open>\<^verbatim>\<open>usize::from_str\<close> with the messages of \<^verbatim>\<open>ParseIntError\<close>.\<close>

definition parse_usize :: "string \<Rightarrow> string + nat" where
  "parse_usize s =
     (let d = (case s of c # r \<Rightarrow> if c = CHR ''+'' \<and> r \<noteq> [] then r else s | [] \<Rightarrow> [])
      in if d = [] then Err ''cannot parse integer from empty string''
         else if \<not> list_all is_ascii_digit d then Err ''invalid digit found in string''
         else if 2 ^ 64 \<le> read_digits 0 d then Err ''number too large to fit in target type''
         else Ok (read_digits 0 d))"

definition embedding_dimensions :: "'w knowledge_db \<Rightarrow> knowledge_error + nat option" where
  "embedding_dimensions db =
     (case bt_get (kd_metadata db) ''knowledge_embedding_dimensions'' of
        None \<Rightarrow> Ok None
      | Some v \<Rightarrow> (case parse_usize v of
                    Inr n \<Rightarrow> Ok (Some n)
                  | Inl err \<Rightarrow> Err (ProviderError (''invalid embedding dimension metadata: '' @ err))))"

definition set_metadata_value :: "string \<Rightarrow> string \<Rightarrow> 'w knowledge_db \<Rightarrow> 'w knowledge_db" where
  "set_metadata_value key v db = db\<lparr>kd_metadata := bt_insert key v (kd_metadata db)\<rparr>"

definition is_vector_capability_error :: "string \<Rightarrow> bool" where
  "is_vector_capability_error message =
     list_ex (str_contains (to_ascii_lowercase message))
       [''no such function'', ''no such module'', ''unknown function'', ''invalid expression in create index'']"

definition ensure_vector_index :: "string + unit \<Rightarrow> nat \<Rightarrow> 'w knowledge_db \<Rightarrow> (knowledge_error + bool) \<times> 'w knowledge_db" where
  "ensure_vector_index create_index dimensions db =
     (if dimensions = 0 then (Err (ProviderError ''knowledge embedding vectors cannot be empty''), db)
      else case embedding_dimensions db of
             Inl e \<Rightarrow> (Err e, db)
           | Inr existing \<Rightarrow>
               if existing \<noteq> None \<and> existing \<noteq> Some dimensions
               then (Err (ProviderError (''knowledge embedding dimension changed from '' @ show_nat (the existing) @ '' to ''
                       @ show_nat dimensions @ ''; delete knowledge.db and re-sync'')), db)
               else let db1 = set_metadata_value ''knowledge_embedding_dimensions'' (show_nat dimensions) db
                    in case create_index of
                         Inr _ \<Rightarrow> (Ok True, set_metadata_value ''knowledge_vector_index_enabled'' ''true'' (db1\<lparr>kd_vector_index := True\<rparr>))
                       | Inl message \<Rightarrow>
                           if is_vector_capability_error message
                           then (Ok False, set_metadata_value ''knowledge_vector_index_enabled'' ''false'' db1)
                           else (Err (ProviderError message), db1))"

section \<open>Chunks of a note\<close>

definition trim_chars :: "string \<Rightarrow> nat \<Rightarrow> string" where
  "trim_chars s max_chars = take (max max_chars 1) s"

text \<open>The embedding of a text, with the vector index that has to exist for it.\<close>

definition embed_text :: "'w vault_env \<Rightarrow> (string \<Rightarrow> 'w \<Rightarrow> (knowledge_error + rat list) \<times> 'w) \<Rightarrow> string \<Rightarrow> 'w knowledge_db \<Rightarrow>
    (knowledge_error + rat list) \<times> 'w knowledge_db" where
  "embed_text env embedder s db =
     (case embedder s (kd_world db) of
        (Inl e, w) \<Rightarrow> (Err e, db\<lparr>kd_world := w\<rparr>)
      | (Inr v, w) \<Rightarrow>
          (case ensure_vector_index (ve_create_vector_index env) (length v) (db\<lparr>kd_world := w\<rparr>) of
             (Inl e, db') \<Rightarrow> (Err e, db')
           | (Inr _, db') \<Rightarrow> (Ok v, db')))"

definition chunk_embedding :: "'w vault_env \<Rightarrow> string \<Rightarrow> chunk \<Rightarrow> 'w knowledge_db \<Rightarrow>
    (knowledge_error + rat list option) \<times> 'w knowledge_db" where
  "chunk_embedding env title chunk db =
     (case ve_embedder env of
        None \<Rightarrow> (Ok None, db)
      | Some embedder \<Rightarrow>
          (case embed_text env embedder (unwrap_or (ck_heading chunk) title @ [newline, newline] @ ck_text chunk) db of
             (Inl e, db') \<Rightarrow> (Err e, db')
           | (Inr v, db') \<Rightarrow> (Ok (Some v), db')))"

definition chunk_id :: "string \<Rightarrow> nat \<Rightarrow> string" where
  "chunk_id entry_id n = entry_id @ ''#'' @ show_nat n"

definition insert_chunk :: "'w vault_env \<Rightarrow> string \<Rightarrow> string \<Rightarrow> string list \<Rightarrow> string list \<Rightarrow> nat \<Rightarrow> chunk \<Rightarrow> 'w knowledge_db \<Rightarrow>
    (knowledge_error + unit) \<times> 'w knowledge_db" where
  "insert_chunk env entry_id title aliases tags n chunk db =
     (case chunk_embedding env title chunk db of
        (Inl e, db1) \<Rightarrow> (Err e, db1)
      | (Inr embedding, db1) \<Rightarrow>
          (let i = chunk_id entry_id n
           in if \<exists>r \<in> set (kd_chunks db1). cr_id r = i
              then (Err (ProviderError ''UNIQUE constraint failed: knowledge_chunks.id''), db1)
              else (Ok (), db1\<lparr>
                kd_chunks := kd_chunks db1 @ [\<lparr>cr_id = i, cr_entry_id = entry_id, cr_heading = ck_heading chunk,
                  cr_content = ck_text chunk, cr_snippet = trim_chars (ck_snippet chunk) (ve_max_excerpt_length env),
                  cr_embedding = embedding\<rparr>],
                kd_fts := kd_fts db1 @ [\<lparr>ft_chunk_id = i, ft_entry_id = entry_id, ft_title = title,
                  ft_aliases = join '' '' aliases, ft_tags = join '' '' tags, ft_content = ck_text chunk\<rparr>]\<rparr>)))"

fun insert_chunks :: "'w vault_env \<Rightarrow> string \<Rightarrow> string \<Rightarrow> string list \<Rightarrow> string list \<Rightarrow> nat \<Rightarrow> chunk list \<Rightarrow> 'w knowledge_db \<Rightarrow>
    (knowledge_error + unit) \<times> 'w knowledge_db" where
  "insert_chunks env entry_id title aliases tags n [] db = (Ok (), db)"
| "insert_chunks env entry_id title aliases tags n (chunk # chunks) db =
     (case insert_chunk env entry_id title aliases tags n chunk db of
        (Inl e, db') \<Rightarrow> (Err e, db')
      | (Inr _, db') \<Rightarrow> insert_chunks env entry_id title aliases tags (Suc n) chunks db')"

section \<open>Links of a note\<close>

definition resolve_wikilink_target :: "string \<Rightarrow> name_entry list \<Rightarrow> name_entry option" where
  "resolve_wikilink_target wikilink name_index =
     (let normalized = to_ascii_lowercase (trim_end_md (trim wikilink))
      in find (\<lambda>entry. (ne_match_type entry = ExactName \<or> ne_match_type entry = Alias) \<and>
            (ne_name_lower entry = normalized \<or>
             to_ascii_lowercase (trim_end_md (ne_path entry)) = to_ascii_lowercase wikilink)) name_index)"

type_synonym link_identity = "string option \<times> string \<times> string \<times> string"

definition link_key :: "indexed_link \<Rightarrow> link_identity" where
  "link_key link = (il_target_entry_id link, il_target_title link, unwrap_or (il_matched_text link) [], il_match_type link)"

definition push_indexed_link :: "string \<Rightarrow> indexed_link \<Rightarrow> indexed_link list \<times> link_identity list \<Rightarrow> indexed_link list \<times> link_identity list" where
  "push_indexed_link entry_id link = (\<lambda>(links, seen).
     if il_target_entry_id link = Some entry_id \<or> link_key link \<in> set seen then (links, seen)
     else (links @ [link], link_key link # seen))"

definition wikilink_link :: "name_entry list \<Rightarrow> string \<Rightarrow> indexed_link" where
  "wikilink_link name_index wikilink =
     (let (target_entry_id, target_title) = (case resolve_wikilink_target wikilink name_index of
            Some entry \<Rightarrow> (Some (ne_path entry), ne_title entry)
          | None \<Rightarrow> (None, wikilink))
      in \<lparr>il_target_entry_id = target_entry_id, il_target_title = target_title, il_matched_text = Some wikilink,
          il_match_type = ''wikilink'', il_confidence_bp = None\<rparr>)"

definition discovered_indexed_link :: "discovered_link \<Rightarrow> indexed_link" where
  "discovered_indexed_link d =
     \<lparr>il_target_entry_id = Some (dl_target_path d), il_target_title = dl_target_title d,
      il_matched_text = Some (dl_matched_text d), il_match_type = match_type_str (dl_match_type d),
      il_confidence_bp = match_confidence_bp (dl_match_type d)\<rparr>"

definition links_for_note :: "'w vault_env \<Rightarrow> string \<Rightarrow> parsed_note \<Rightarrow> string \<Rightarrow> name_entry list \<Rightarrow> indexed_link list option" where
  "links_for_note env content parsed entry_id name_index =
     map_option (\<lambda>discovered.
       fst (fold (push_indexed_link entry_id)
              (map (wikilink_link name_index) (pn_wikilinks parsed) @ map discovered_indexed_link discovered) ([], [])))
       (discover_links (ve_similarity env) content name_index (Some ''People''))"

definition insert_links :: "string \<Rightarrow> indexed_link list \<Rightarrow> 'w knowledge_db \<Rightarrow> 'w knowledge_db" where
  "insert_links entry_id links db =
     db\<lparr>kd_links := kd_links db @ map (\<lambda>l. \<lparr>lr_source_entry_id = entry_id, lr_link = l\<rparr>) links\<rparr>"

section \<open>A note\<close>

text \<open>\<^verbatim>\<open>Path::file_stem\<close> and \<^verbatim>\<open>Path::extension\<close> of a file name.\<close>

definition split_extension :: "string \<Rightarrow> string \<times> string option" where
  "split_extension name =
     (case rfind_char (CHR ''.'') name of
        Some i \<Rightarrow> if i = 0 then (name, None) else (take i name, Some (drop (i + 1) name))
      | None \<Rightarrow> (name, None))"

text \<open>\<^verbatim>\<open>Path::file_name\<close> and \<^verbatim>\<open>Path::strip_prefix\<close>.\<close>

definition last_component :: "path \<Rightarrow> string option" where
  "last_component p = (if p = [] \<or> last p = ''..'' then None else Some (last p))"

definition strip_prefix :: "path \<Rightarrow> path \<Rightarrow> path option" where
  "strip_prefix vault_root p = (if path_starts_with p vault_root then Some (drop (length vault_root) p) else None)"

definition default_title_from_path :: "path \<Rightarrow> string" where
  "default_title_from_path p = unwrap_or (map_option (\<lambda>name. fst (split_extension name)) (last_component p)) ''untitled''"

definition forward_slashes :: "string \<Rightarrow> string" where
  "forward_slashes s = map (\<lambda>c. if c = char_of (92 :: nat) then CHR ''/'' else c) s"

definition relative_display_path :: "path \<Rightarrow> path \<Rightarrow> knowledge_error + string" where
  "relative_display_path vault_root p =
     (case strip_prefix vault_root p of
        Some q \<Rightarrow> Ok (forward_slashes (join ''/'' q))
      | None \<Rightarrow> Err (ProviderError ''strip prefix failed: prefix not found''))"

definition read_note :: "file_system \<Rightarrow> path \<Rightarrow> knowledge_error + string" where
  "read_note fs p =
     (case canonicalize fs p of
        Inl e \<Rightarrow> Err (ProviderError (''read note failed: '' @ io_error_to_string e))
      | Inr q \<Rightarrow> (case node_at fs q of
                   Some (RegularFile s) \<Rightarrow> Ok s
                 | _ \<Rightarrow> Err (ProviderError (''read note failed: '' @ io_error_to_string IsADirectory))))"

definition string_array_json :: "string list \<Rightarrow> json" where
  "string_array_json xs = JArray (map JString xs)"

definition note_metadata :: "parsed_note \<Rightarrow> json" where
  "note_metadata parsed = JObject
     [(''inline_tags'', string_array_json (pn_inline_tags parsed)),
      (''note_date'', (case pn_note_date parsed of Some d \<Rightarrow> JString d | None \<Rightarrow> JNull)),
      (''wikilinks'', string_array_json (pn_wikilinks parsed))]"

definition note_title :: "parsed_note \<Rightarrow> path \<Rightarrow> string" where
  "note_title parsed p = unwrap_or (pn_title parsed) (default_title_from_path p)"

definition note_row :: "'w vault_env \<Rightarrow> path \<Rightarrow> string \<Rightarrow> string \<Rightarrow> int \<Rightarrow> entry_row" where
  "note_row env p rel content updated_at_ms =
     (let parsed = parse_note (ve_is_date env) content
      in \<lparr>er_id = rel, er_title = note_title parsed p, er_uri = rel,
          er_tags_json = ve_json_to_string env (string_array_json (pn_tags parsed)),
          er_aliases_json = ve_json_to_string env (string_array_json (pn_aliases parsed)),
          er_metadata_json = ve_json_to_string env (note_metadata parsed), er_content = content,
          er_note_date = pn_note_date parsed, er_created_at_ms = updated_at_ms, er_updated_at_ms = updated_at_ms\<rparr>)"

definition index_note_path_with_links :: "'w vault_env \<Rightarrow> file_system \<Rightarrow> name_entry list \<Rightarrow> path \<Rightarrow> 'w knowledge_db \<Rightarrow>
    ((knowledge_error + bool) \<times> 'w knowledge_db) option" where
  "index_note_path_with_links env fs name_index p db =
     (case and_then (read_note fs p) (\<lambda>content. and_then (relative_display_path (ve_vault_root env) p) (\<lambda>rel. Ok (content, rel))) of
        Inl e \<Rightarrow> Some (Err e, db)
      | Inr (content, rel) \<Rightarrow>
          (let updated_at_ms = ve_mtime_ms env fs p
           in if is_entry_up_to_date db rel updated_at_ms then Some (Ok False, db)
              else let parsed = parse_note (ve_is_date env) content
                   in Option.bind (chunk_markdown (ve_is_date env) content) (\<lambda>md.
                        case insert_entry (note_row env p rel content updated_at_ms) (delete_entry rel db) of
                          (Inl e, db1) \<Rightarrow> Some (Err e, db1)
                        | (Inr _, db1) \<Rightarrow>
                            (case insert_chunks env rel (note_title parsed p) (pn_aliases parsed) (pn_tags parsed) 0
                                    (md_chunks md) db1 of
                               (Inl e, db2) \<Rightarrow> Some (Err e, db2)
                             | (Inr _, db2) \<Rightarrow>
                                 map_option (\<lambda>links. (Ok True, insert_links rel links db2))
                                   (links_for_note env content parsed rel name_index)))))"

section \<open>A vault\<close>

definition is_excluded :: "path \<Rightarrow> string list \<Rightarrow> bool" where
  "is_excluded p exclude_folders =
     list_ex (\<lambda>name. list_ex (\<lambda>exclude. trim_char (CHR ''/'') exclude = name) exclude_folders) p"

definition is_markdown :: "path \<Rightarrow> bool" where
  "is_markdown p = (Option.bind (last_component p) (\<lambda>name. snd (split_extension name)) = Some ''md'')"

fun select_markdown :: "path \<Rightarrow> string list \<Rightarrow> path list \<Rightarrow> knowledge_error + path list" where
  "select_markdown vault_root exclude_folders [] = Ok []"
| "select_markdown vault_root exclude_folders (p # ps) =
     (if \<not> is_markdown p then select_markdown vault_root exclude_folders ps
      else case strip_prefix vault_root p of
             None \<Rightarrow> Err (ProviderError ''prefix not found'')
           | Some relative \<Rightarrow>
               if is_excluded relative exclude_folders then select_markdown vault_root exclude_folders ps
               else and_then (select_markdown vault_root exclude_folders ps) (\<lambda>files. Ok (p # files)))"

definition collect_markdown_files :: "'w vault_env \<Rightarrow> string list \<Rightarrow> file_system \<Rightarrow> knowledge_error + path list" where
  "collect_markdown_files env exclude_folders fs =
     (case ve_walk env fs (ve_vault_root env) of
        Inl message \<Rightarrow> Err (ProviderError message)
      | Inr ps \<Rightarrow> select_markdown (ve_vault_root env) exclude_folders ps)"

definition link_target_of :: "'w vault_env \<Rightarrow> file_system \<Rightarrow> path \<Rightarrow> knowledge_error + note_link_target" where
  "link_target_of env fs p =
     and_then (read_note fs p) (\<lambda>content.
       let parsed = parse_note (ve_is_date env) content
       in and_then (relative_display_path (ve_vault_root env) p) (\<lambda>rel.
            Ok \<lparr>nt_path = rel, nt_title = note_title parsed p, nt_aliases = pn_aliases parsed\<rparr>))"

definition build_vault_name_index :: "'w vault_env \<Rightarrow> file_system \<Rightarrow> path list \<Rightarrow> knowledge_error + name_entry list" where
  "build_vault_name_index env fs files =
     and_then (collect_results (map (link_target_of env fs) files)) (\<lambda>targets. Ok (build_name_index targets))"

definition index_note_path :: "'w vault_env \<Rightarrow> file_system \<Rightarrow> path \<Rightarrow> 'w knowledge_db \<Rightarrow>
    ((knowledge_error + bool) \<times> 'w knowledge_db) option" where
  "index_note_path env fs p db =
     (case and_then (collect_markdown_files env [] fs) (build_vault_name_index env fs) of
        Inl e \<Rightarrow> Some (Err e, db)
      | Inr name_index \<Rightarrow> index_note_path_with_links env fs name_index p db)"

definition remove_missing_entries :: "path \<Rightarrow> path list \<Rightarrow> 'w knowledge_db \<Rightarrow> 'w knowledge_db" where
  "remove_missing_entries vault_root files db =
     fold delete_entry (filter (\<lambda>i. Ok i \<notin> set (map (relative_display_path vault_root) files)) (map er_id (kd_entries db))) db"

fun index_files :: "'w vault_env \<Rightarrow> file_system \<Rightarrow> name_entry list \<Rightarrow> nat \<Rightarrow> path list \<Rightarrow> 'w knowledge_db \<Rightarrow>
    ((knowledge_error + nat) \<times> 'w knowledge_db) option" where
  "index_files env fs name_index indexed [] db = Some (Ok indexed, db)"
| "index_files env fs name_index indexed (p # files) db =
     Option.bind (index_note_path_with_links env fs name_index p db) (\<lambda>(r, db').
       case r of
         Inl e \<Rightarrow> Some (Err e, db')
       | Inr fresh \<Rightarrow> index_files env fs name_index (indexed + (if fresh then 1 else 0)) files db')"

definition index_vault :: "'w vault_env \<Rightarrow> file_system \<Rightarrow> 'w knowledge_db \<Rightarrow> ((knowledge_error + nat) \<times> 'w knowledge_db) option" where
  "index_vault env fs db =
     (case collect_markdown_files env (ve_exclude_folders env) fs of
        Inl e \<Rightarrow> Some (Err e, db)
      | Inr files \<Rightarrow>
          (case build_vault_name_index env fs files of
             Inl e \<Rightarrow> Some (Err e, db)
           | Inr name_index \<Rightarrow> index_files env fs name_index 0 files (remove_missing_entries (ve_vault_root env) files db)))"

section \<open>Missing embeddings\<close>

definition set_embedding :: "string \<Rightarrow> rat list \<Rightarrow> 'w knowledge_db \<Rightarrow> 'w knowledge_db" where
  "set_embedding i v db =
     db\<lparr>kd_chunks := map (\<lambda>r. if cr_id r = i then r\<lparr>cr_embedding := Some v\<rparr> else r) (kd_chunks db)\<rparr>"

definition missing_embeddings :: "'w knowledge_db \<Rightarrow> (chunk_row \<times> entry_row) list" where
  "missing_embeddings db =
     concat (map (\<lambda>c. map (Pair c) (filter (\<lambda>e. er_id e = cr_entry_id c) (kd_entries db)))
       (filter (\<lambda>c. cr_embedding c = None) (kd_chunks db)))"

fun embed_rows :: "'w vault_env \<Rightarrow> (string \<Rightarrow> 'w \<Rightarrow> (knowledge_error + rat list) \<times> 'w) \<Rightarrow> nat \<Rightarrow> (chunk_row \<times> entry_row) list \<Rightarrow>
    'w knowledge_db \<Rightarrow> (knowledge_error + nat) \<times> 'w knowledge_db" where
  "embed_rows env embedder embedded [] db = (Ok embedded, db)"
| "embed_rows env embedder embedded ((c, e) # rows) db =
     (case embed_text env embedder (unwrap_or (cr_heading c) (er_title e) @ [newline, newline] @ cr_content c) db of
        (Inl err, db') \<Rightarrow> (Err err, db')
      | (Inr v, db') \<Rightarrow> embed_rows env embedder (Suc embedded) rows (set_embedding (cr_id c) v db'))"

definition embed_missing_chunks :: "'w vault_env \<Rightarrow> 'w knowledge_db \<Rightarrow> (knowledge_error + nat) \<times> 'w knowledge_db" where
  "embed_missing_chunks env db =
     (case ve_embedder env of
        None \<Rightarrow> (Ok 0, db)
      | Some embedder \<Rightarrow> embed_rows env embedder 0 (missing_embeddings db) db)"

end
