(* ===== verification/Knowledge_Vault.thy ===== *)
theory Knowledge_Vault
  imports Note_Index
begin

text \<open>
  The vault provider (\<^verbatim>\<open>src/klaw-knowledge/src/obsidian/provider.rs\<close>) over a file system and the tables:
  indexing, the creation and retrieval of notes, and the events of the file watcher
  (\<^verbatim>\<open>obsidian/watcher.rs\<close>) with what the consumer of events does for each. The state is shared: other
  programs may change the file system between two operations. The identifier of a temporary file and
  the parser of JSON are parameters. Threads, channels and the debouncer are not modelled.
\<close>

section \<open>Provider\<close>

record 'w vault_state =
  vs_fs :: file_system
  vs_db :: "'w knowledge_db"
  vs_vector_index_enabled :: bool

fun knowledge_error_to_string :: "knowledge_error \<Rightarrow> string" where
  "knowledge_error_to_string (InvalidConfig m) = ''invalid config: '' @ m"
| "knowledge_error_to_string (InvalidQuery m) = ''invalid query: '' @ m"
| "knowledge_error_to_string (InvalidNotePath m) = ''invalid note path: '' @ m"
| "knowledge_error_to_string (NoteAlreadyExists m) = ''note already exists: '' @ m"
| "knowledge_error_to_string (ProviderError m) = ''provider error: '' @ m"
| "knowledge_error_to_string (SourceUnavailable m) = ''source unavailable: '' @ m"

definition refresh_vector_index_enabled :: "'w vault_state \<Rightarrow> 'w vault_state" where
  "refresh_vector_index_enabled st = st\<lparr>vs_vector_index_enabled := kd_vector_index (vs_db st)\<rparr>"

text \<open>The tables after an operation of the indexer; the flag is refreshed only when it succeeds.\<close>

definition after_index :: "'w vault_state \<Rightarrow> (knowledge_error + 'a) \<times> 'w knowledge_db \<Rightarrow> (knowledge_error + 'a) \<times> 'w vault_state" where
  "after_index st = (\<lambda>(r, db).
     (r, case r of Inl _ \<Rightarrow> st\<lparr>vs_db := db\<rparr> | Inr _ \<Rightarrow> refresh_vector_index_enabled (st\<lparr>vs_db := db\<rparr>)))"

definition reindex :: "'w vault_env \<Rightarrow> 'w vault_state \<Rightarrow> ((knowledge_error + nat) \<times> 'w vault_state) option" where
  "reindex env st = map_option (after_index st) (index_vault env (vs_fs st) (vs_db st))"

definition index_path :: "'w vault_env \<Rightarrow> path \<Rightarrow> 'w vault_state \<Rightarrow> ((knowledge_error + bool) \<times> 'w vault_state) option" where
  "index_path env p st = map_option (after_index st) (index_note_path env (vs_fs st) p (vs_db st))"

definition remove_path :: "string \<Rightarrow> 'w vault_state \<Rightarrow> 'w vault_state" where
  "remove_path rel st = st\<lparr>vs_db := delete_entry rel (vs_db st)\<rparr>"

definition reconcile_existing_index :: "'w vault_env \<Rightarrow> 'w vault_state \<Rightarrow> ((knowledge_error + nat) \<times> 'w vault_state) option" where
  "reconcile_existing_index env st =
     (if \<not> has_indexed_entries (vs_db st) then Some (Ok 0, st) else reindex env st)"

definition provider_embed_missing_chunks :: "'w vault_env \<Rightarrow> 'w vault_state \<Rightarrow> (knowledge_error + nat) \<times> 'w vault_state" where
  "provider_embed_missing_chunks env st =
     (if ve_embedder env = None then (Ok 0, st) else after_index st (embed_missing_chunks env (vs_db st)))"

section \<open>Entries and counts\<close>

record knowledge_entry =
  ke_id :: string
  ke_title :: string
  ke_content :: string
  ke_tags :: "string list"
  ke_uri :: string
  ke_source :: string
  ke_metadata :: json
  ke_created_at_ms :: int
  ke_updated_at_ms :: int

text \<open>\<^verbatim>\<open>serde_json::from_str\<close> of a list of strings, or the empty list.\<close>

definition tags_of_json :: "(string \<Rightarrow> json option) \<Rightarrow> string \<Rightarrow> string list" where
  "tags_of_json json_from_str s =
     (case json_from_str s of
        Some (JArray xs) \<Rightarrow> (let tags = map as_str xs in if None \<in> set tags then [] else map the tags)
      | _ \<Rightarrow> [])"

definition get_entry :: "(string \<Rightarrow> json option) \<Rightarrow> string \<Rightarrow> 'w knowledge_db \<Rightarrow> knowledge_entry option" where
  "get_entry json_from_str i db =
     map_option (\<lambda>r. \<lparr>ke_id = er_id r, ke_title = er_title r, ke_content = er_content r,
         ke_tags = tags_of_json json_from_str (er_tags_json r), ke_uri = er_uri r, ke_source = ''obsidian'',
         ke_metadata = unwrap_or (json_from_str (er_metadata_json r)) (JObject []),
         ke_created_at_ms = er_created_at_ms r, ke_updated_at_ms = er_updated_at_ms r\<rparr>)
       (find (\<lambda>r. er_id r = i \<or> er_uri r = i) (kd_entries db))"

record knowledge_status =
  ks_enabled :: bool
  ks_provider :: string
  ks_source_name :: string
  ks_vault_path :: "string option"
  ks_entry_count :: nat
  ks_chunk_count :: nat
  ks_embedded_chunk_count :: nat
  ks_missing_embedding_count :: nat

definition count_embedded_chunks :: "'w knowledge_db \<Rightarrow> nat" where
  "count_embedded_chunks db = length (filter (\<lambda>c. cr_embedding c \<noteq> None) (kd_chunks db))"

definition vault_status :: "'w vault_env \<Rightarrow> string \<Rightarrow> bool \<Rightarrow> 'w knowledge_db \<Rightarrow> knowledge_status" where
  "vault_status env source_name enabled db =
     (let entry_count = length (kd_entries db); chunk_count = length (kd_chunks db); embedded_chunk_count = count_embedded_chunks db
      in \<lparr>ks_enabled = enabled, ks_provider = ''obsidian'', ks_source_name = source_name,
          ks_vault_path = Some (display_path (ve_vault_root env)), ks_entry_count = entry_count,
          ks_chunk_count = chunk_count, ks_embedded_chunk_count = embedded_chunk_count,
          ks_missing_embedding_count = chunk_count - embedded_chunk_count\<rparr>)"

section \<open>New notes\<close>

definition normalize_note_path :: "string \<Rightarrow> knowledge_error + string" where
  "normalize_note_path raw =
     (let trimmed = trim raw
      in if trimmed = [] then Err (InvalidNotePath ''note path cannot be empty'')
         else if starts_with trimmed ''/'' \<or> is_absolute trimmed
         then Err (InvalidNotePath ''note path must be relative to the vault root'')
         else if \<not> ends_with trimmed ''.md'' then Err (InvalidNotePath ''note path must end with `.md`'')
         else if ''..'' \<in> set (path_components trimmed)
         then Err (InvalidNotePath ''note path cannot escape the vault root'')
         else let normalized = forward_slashes (join ''/'' (path_components trimmed))
              in if normalized = [] then Err (InvalidNotePath ''note path must include a file name'')
                 else Ok normalized)"

text \<open>\<^verbatim>\<open>Path::join\<close> below the vault, and \<^verbatim>\<open>Path::with_file_name\<close>.\<close>

definition vault_join :: "path \<Rightarrow> string \<Rightarrow> path" where
  "vault_join vault_root rel = (if is_absolute rel then path_components rel else vault_root @ path_components rel)"

definition temp_note_path :: "string \<Rightarrow> path \<Rightarrow> path" where
  "temp_note_path uuid p =
     (let file_name = unwrap_or (last_component p) ''note.md''
      in (if last_component p = None then p else butlast p) @ [file_name @ ''.'' @ uuid @ ''.tmp''])"

text \<open>The file of a note: its directory, a temporary file, and the rename to its name.\<close>

definition write_note :: "string \<Rightarrow> path \<Rightarrow> string \<Rightarrow> file_system \<Rightarrow> (knowledge_error + unit) \<times> file_system" where
  "write_note uuid p content fs =
     (case create_dir_all (butlast p) fs of
        (Inl e, fs1) \<Rightarrow> (Err (ProviderError (''create note parent failed: '' @ io_error_to_string e)), fs1)
      | (Inr _, fs1) \<Rightarrow>
          (let temp = temp_note_path uuid p
           in case write_file temp content fs1 of
                Inl e \<Rightarrow> (Err (ProviderError (''write note failed: '' @ io_error_to_string e)), fs1)
              | Inr fs2 \<Rightarrow>
                  (case rename_file temp p fs2 of
                     Inl e \<Rightarrow> (Err (ProviderError (''finalize note failed: '' @ io_error_to_string e)), remove_quietly temp fs2)
                   | Inr fs3 \<Rightarrow> (Ok (), fs3))))"

definition create_note :: "'w vault_env \<Rightarrow> (string \<Rightarrow> json option) \<Rightarrow> string \<Rightarrow> string \<Rightarrow> string \<Rightarrow> 'w vault_state \<Rightarrow>
    ((knowledge_error + knowledge_entry) \<times> 'w vault_state) option" where
  "create_note env json_from_str uuid raw content st =
     (case normalize_note_path raw of
        Inl e \<Rightarrow> Some (Err e, st)
      | Inr rel \<Rightarrow>
          (let p = vault_join (ve_vault_root env) rel
           in if path_exists_in (vs_fs st) p then Some (Err (NoteAlreadyExists rel), st)
              else if p = [] then Some (Err (InvalidNotePath ''note path must include a file name''), st)
              else case write_note uuid p content (vs_fs st) of
                     (Inl e, fs') \<Rightarrow> Some (Err e, st\<lparr>vs_fs := fs'\<rparr>)
                   | (Inr _, fs') \<Rightarrow>
                       map_option (\<lambda>(r, st').
                         case r of
                           Inl e \<Rightarrow> (Err (ProviderError (''reindex after note creation failed: '' @ knowledge_error_to_string e)),
                                     st'\<lparr>vs_fs := remove_quietly p (vs_fs st')\<rparr>)
                         | Inr _ \<Rightarrow>
                             (case get_entry json_from_str rel (vs_db st') of
                                Some entry \<Rightarrow> (Ok entry, st')
                              | None \<Rightarrow> (Err (ProviderError (''created note missing from knowledge index: '' @ rel)), st')))
                         (index_path env p (st\<lparr>vs_fs := fs'\<rparr>))))"

section \<open>Watcher\<close>

datatype rename_mode = RenameAny | RenameTo | RenameFrom | RenameBoth | RenameOther

datatype event_kind = EventAny | EventAccess | EventCreate | EventModifyName rename_mode | EventModify | EventRemove | EventOther

record notify_event =
  ev_kind :: event_kind
  ev_paths :: "path list"

datatype watch_event = Changed path | Deleted path | Moved path path | FullRescan

definition is_indexable_markdown_path :: "path \<Rightarrow> path \<Rightarrow> string list \<Rightarrow> bool" where
  "is_indexable_markdown_path p vault_root exclude_folders \<longleftrightarrow>
     is_markdown p \<and> \<not> is_excluded (unwrap_or (strip_prefix vault_root p) p) exclude_folders"

definition rename_pair_to_watch_events :: "path \<Rightarrow> path \<Rightarrow> path \<Rightarrow> string list \<Rightarrow> watch_event list" where
  "rename_pair_to_watch_events p q vault_root exclude_folders =
     (case (is_indexable_markdown_path p vault_root exclude_folders, is_indexable_markdown_path q vault_root exclude_folders) of
        (True, True) \<Rightarrow> [Moved p q]
      | (True, False) \<Rightarrow> [Deleted p]
      | (False, True) \<Rightarrow> [Changed q]
      | (False, False) \<Rightarrow> [])"

definition notify_to_watch_events :: "file_system \<Rightarrow> notify_event \<Rightarrow> path \<Rightarrow> string list \<Rightarrow> watch_event list" where
  "notify_to_watch_events fs event vault_root exclude_folders =
     (let ps = filter (\<lambda>p. is_indexable_markdown_path p vault_root exclude_folders) (ev_paths event)
      in case ev_kind event of
           EventCreate \<Rightarrow> map Changed ps
         | EventModifyName RenameBoth \<Rightarrow>
             (case ev_paths event of
                p # q # _ \<Rightarrow> rename_pair_to_watch_events p q vault_root exclude_folders
              | _ \<Rightarrow> [])
         | EventModifyName RenameFrom \<Rightarrow> map Deleted ps
         | EventModifyName RenameTo \<Rightarrow> map Changed ps
         | EventModifyName RenameAny \<Rightarrow> map (\<lambda>p. if path_exists_in fs p then Changed p else Deleted p) ps
         | EventModifyName RenameOther \<Rightarrow> [FullRescan]
         | EventModify \<Rightarrow> map Changed ps
         | EventRemove \<Rightarrow> map Deleted ps
         | EventOther \<Rightarrow> [FullRescan]
         | _ \<Rightarrow> [])"

definition debounced_to_watch_events :: "file_system \<Rightarrow> notify_event list \<Rightarrow> path \<Rightarrow> string list \<Rightarrow> watch_event list" where
  "debounced_to_watch_events fs events vault_root exclude_folders =
     concat (map (\<lambda>event. notify_to_watch_events fs event vault_root exclude_folders) events)"

definition index_if_exists :: "'w vault_env \<Rightarrow> path \<Rightarrow> 'w vault_state \<Rightarrow> ((knowledge_error + unit) \<times> 'w vault_state) option" where
  "index_if_exists env p st =
     (if path_exists_in (vs_fs st) p
      then map_option (\<lambda>(r, st'). (and_then r (\<lambda>_. Ok ()), st')) (index_path env p st)
      else Some (Ok (), st))"

fun handle_event :: "'w vault_env \<Rightarrow> watch_event \<Rightarrow> 'w vault_state \<Rightarrow> ((knowledge_error + unit) \<times> 'w vault_state) option" where
  "handle_event env (Changed p) st = index_if_exists env p st"
| "handle_event env (Deleted p) st =
     (case relative_display_path (ve_vault_root env) p of
        Inl e \<Rightarrow> Some (Err e, st)
      | Inr rel \<Rightarrow> Some (Ok (), remove_path rel st))"
| "handle_event env (Moved p q) st =
     (case relative_display_path (ve_vault_root env) p of
        Inl e \<Rightarrow> Some (Err e, st)
      | Inr rel \<Rightarrow> index_if_exists env q (remove_path rel st))"
| "handle_event env FullRescan st = map_option (\<lambda>(r, st'). (and_then r (\<lambda>_. Ok ()), st')) (reconcile_existing_index env st)"

text \<open>The consumer: reconciliation at the start, then the events of each batch; errors are logged only.\<close>

fun handle_events :: "'w vault_env \<Rightarrow> watch_event list \<Rightarrow> 'w vault_state \<Rightarrow> 'w vault_state option" where
  "handle_events env [] st = Some st"
| "handle_events env (event # events) st = Option.bind (handle_event env event st) (\<lambda>(_, st'). handle_events env events st')"

definition run_consumer :: "'w vault_env \<Rightarrow> watch_event list list \<Rightarrow> 'w vault_state \<Rightarrow> 'w vault_state option" where
  "run_consumer env batches st =
     Option.bind (reconcile_existing_index env st) (\<lambda>(_, st'). handle_events env (concat batches) st')"

text \<open>A vault in use: files change, events are handled, notes are created and indexed.\<close>

inductive vault_step :: "'w vault_env \<Rightarrow> 'w vault_state \<Rightarrow> 'w vault_state \<Rightarrow> bool" for env where
  files_change: "vault_step env st (st\<lparr>vs_fs := fs\<rparr>)"
| watched: "handle_event env event st = Some (r, st') \<Longrightarrow> vault_step env st st'"
| created: "create_note env json_from_str uuid raw content st = Some (r, st') \<Longrightarrow> vault_step env st st'"
| reindexed: "reindex env st = Some (r, st') \<Longrightarrow> vault_step env st st'"
| embedded: "provider_embed_missing_chunks env st = (r, st') \<Longrightarrow> vault_step env st st'"

end
