(* ===== verification/Chunk_Properties.thy ===== *)
theory Chunk_Properties
  imports Note_Chunker
begin

text \<open>
  What the chunker guarantees: it never slices inside a character, it ends, every character of a note
  that is not white space is in some chunk, and chunks are bounded. And what it does too often: behind
  a break point it starts again at every byte of the overlap.
\<close>

section \<open>Boundaries\<close>

lemma boundary_Cons: "char_width c \<le> k \<Longrightarrow> is_char_boundary s (k - char_width c) \<Longrightarrow> is_char_boundary (c # s) k"
  by (auto simp: is_char_boundary_def)

lemma boundary_gap: "k \<le> str_len s \<Longrightarrow> is_char_boundary s k \<or> is_char_boundary s (Suc k)"
proof (induction s arbitrary: k)
  case (Cons c s)
  show ?case
  proof (cases "char_width c \<le> k")
    case True
    then have "is_char_boundary s (k - char_width c) \<or> is_char_boundary s (Suc k - char_width c)"
      using Cons.IH [of "k - char_width c"] Cons.prems by (auto simp: Suc_diff_le)
    then show ?thesis using True boundary_Cons [of c k s] boundary_Cons [of c "Suc k" s] by auto
  next
    case False
    then have "k = 0 \<or> Suc k = char_width c" using char_width_pos(3) [of c] by linarith
    then show ?thesis using boundary_Cons [of c "Suc k" s] by auto
  qed
qed simp

lemma snap_from_spec:
  "k \<le> str_len s \<Longrightarrow>
   k \<le> snap_from s k \<and> is_char_boundary s (snap_from s k) \<and> snap_from s k \<le> Suc k \<and>
   (\<forall>b. k \<le> b \<longrightarrow> is_char_boundary s b \<longrightarrow> snap_from s k \<le> b)"
proof (cases "is_char_boundary s k")
  case True
  then have "snap_from s k = k" by (simp add: snap_from.simps)
  then show ?thesis using True by simp
next
  case False
  assume k: "k \<le> str_len s"
  then have lt: "k < str_len s" using False by (metis boundary_ends(2) le_neq_implies_less)
  have next_ok: "is_char_boundary s (Suc k)" using boundary_gap [OF k] False by simp
  then have "snap_from s (Suc k) = Suc k" by (simp add: snap_from.simps [of s "Suc k"])
  then have eq: "snap_from s k = Suc k" using False lt by (subst snap_from.simps) simp
  have "Suc k \<le> b" if "k \<le> b" "is_char_boundary s b" for b
    using that False by (cases "k = b") auto
  then show ?thesis unfolding eq using next_ok by simp
qed

lemma snap_spec:
  "is_char_boundary s (snap_to_char_boundary s k)"
  "snap_to_char_boundary s k \<le> Suc k"
  "min k (str_len s) \<le> snap_to_char_boundary s k"
  using snap_from_spec [of "min k (str_len s)" s] by (auto simp: snap_to_char_boundary_def)

lemma snap_le_len: "snap_to_char_boundary s k \<le> str_len s"
  by (rule boundary_le) (rule snap_spec)

lemma snap_least: "k \<le> b \<Longrightarrow> is_char_boundary s b \<Longrightarrow> snap_to_char_boundary s k \<le> b"
proof -
  assume kb: "k \<le> b" "is_char_boundary s b"
  then have "b \<le> str_len s" by (simp add: boundary_le)
  then show ?thesis using kb snap_from_spec [of "min k (str_len s)" s] by (simp add: snap_to_char_boundary_def)
qed

lemma snap_boundary: "is_char_boundary s k \<Longrightarrow> snap_to_char_boundary s k = k"
proof (rule antisym)
  assume b: "is_char_boundary s k"
  then show "snap_to_char_boundary s k \<le> k" by (intro snap_least) simp_all
  show "k \<le> snap_to_char_boundary s k" using snap_spec(3) [where k = k and s = s] boundary_le [OF b] by simp
qed

section \<open>Cuts\<close>

lemma fold_best_in: "fold (\<lambda>y best. if P y best then best else y) xs x \<in> insert x (set xs)"
proof (induction xs arbitrary: x)
  case (Cons a xs)
  show ?case using Cons.IH [of x] Cons.IH [of a] by auto
qed simp

lemma max_by_Some_in: "max_by f xs = Some y \<Longrightarrow> y \<in> set xs"
  using fold_best_in [of "\<lambda>y best. f y < f best" "tl xs" "hd xs"] by (cases xs) auto

lemma rfind_char_Some:
  assumes "rfind_char c s = Some i"
  shows "i < length s"
proof -
  have "c \<in> set s" and i: "i = length s - 1 - length (takeWhile (\<lambda>x. x \<noteq> c) (rev s))"
    using assms by (auto simp: rfind_char_def split: if_splits)
  then have "0 < length s" by (auto intro: length_pos_if_in_set)
  then show ?thesis unfolding i by linarith
qed

lemma str_len_take_less: "i < length s \<Longrightarrow> str_len (take i s) < str_len s"
proof -
  assume "i < length s"
  then have "drop i s \<noteq> []" by simp
  then have "0 < str_len (drop i s)" by simp
  moreover have "str_len s = str_len (take i s) + str_len (drop i s)"
    by (metis append_take_drop_id str_len_simps(3))
  ultimately show ?thesis by simp
qed

lemma fallback_cut_spec:
  assumes "is_char_boundary s start" "start < str_len s" "0 < tc"
  shows "\<exists>x. fallback_cut_offset s start tc = Some x \<and> start < x \<and> x \<le> str_len s \<and> x \<le> start + tc + 1"
proof -
  define b where "b = snap_to_char_boundary s (min (start + tc) (str_len s))"
  have b: "is_char_boundary s b" "b \<le> str_len s" "b \<le> start + tc + 1" "start < b"
    using snap_spec [where s = s and k = "min (start + tc) (str_len s)"] snap_le_len [of s "min (start + tc) (str_len s)"] assms(2,3)
    unfolding b_def by (auto simp: min_def split: if_splits)
  obtain t where t: "str_slice s start b = Some t"
    using str_slice_boundaries [OF assms(1) b(1)] b(4) by auto
  then have len: "start + str_len t = b" by (auto simp: str_slice_Some_iff)
  define y where "y = unwrap_or (option_filter (\<lambda>offset. start < offset)
      (map_option (\<lambda>position. start + str_len (take position t) + 1) (rfind_char newline t))) b"
  have y: "start < y \<and> y \<le> b"
  proof (cases "rfind_char newline t")
    case None
    then show ?thesis using b(4) by (simp add: y_def)
  next
    case (Some i)
    then show ?thesis using str_len_take_less [OF rfind_char_Some [OF Some]] len by (simp add: y_def)
  qed
  have "fallback_cut_offset s start tc = Some (min (max y (start + 1)) (str_len s))"
    unfolding fallback_cut_offset_def Let_def b_def [symmetric] t y_def by simp
  moreover have "min (max y (start + 1)) (str_len s) = y" using y b(2) by simp
  ultimately show ?thesis using y b by auto
qed

lemma cut_offset_spec:
  assumes "is_char_boundary s start" "start < str_len s" "0 < tc"
  shows "\<exists>x. cut_offset_at s bps tc start = Some x \<and> start < x \<and> x \<le> str_len s \<and>
    x \<le> start + 2 * tc + 1 \<and> is_char_boundary s x"
proof -
  let ?best = "max_by (weighted_score (start + tc)) (filter (\<lambda>point. start < bp_byte_offset point \<and>
      bp_byte_offset point \<le> start + tc * 2 \<and> \<not> bp_inside_code_fence point) bps)"
  have "\<exists>y. (case ?best of Some point \<Rightarrow> Some (bp_byte_offset point) | None \<Rightarrow> fallback_cut_offset s start tc) = Some y
      \<and> start < y \<and> y \<le> start + 2 * tc"
  proof (cases ?best)
    case None
    then show ?thesis using fallback_cut_spec [OF assms] assms(3) by auto
  next
    case (Some p)
    then show ?thesis using max_by_Some_in [OF Some] by auto
  qed
  then obtain y where y: "(case ?best of Some point \<Rightarrow> Some (bp_byte_offset point)
      | None \<Rightarrow> fallback_cut_offset s start tc) = Some y" "start < y" "y \<le> start + 2 * tc" by blast
  have "start < snap_to_char_boundary s y" using snap_spec(3) [where k = y and s = s] y(2) assms(2) by simp
  then have "min (max (snap_to_char_boundary s y) (start + 1)) (str_len s) = snap_to_char_boundary s y"
    using snap_le_len [of s y] by simp
  then have "cut_offset_at s bps tc start = Some (snap_to_char_boundary s y)"
    using y(1) by (simp add: cut_offset_at_def)
  then show ?thesis
    using snap_spec [where s = s and k = y] snap_le_len [of s y] y(3) \<open>start < snap_to_char_boundary s y\<close> by auto
qed

lemma next_start_le: 
  assumes "is_char_boundary s stop" "start < stop"
  shows "next_start_offset s start stop ov \<le> stop"
proof -
  have "snap_to_char_boundary s (stop - ov) \<le> stop" by (rule snap_least) (simp_all add: assms)
  then show ?thesis using assms(2) by (auto simp: next_start_offset_def Let_def)
qed

section \<open>Coverage\<close>

text \<open>The character at position \<open>j\<close> is inside an occurrence of a chunk.\<close>

definition covers :: "string \<Rightarrow> chunk list \<Rightarrow> nat \<Rightarrow> bool" where
  "covers content cs j \<longleftrightarrow>
     (\<exists>c \<in> set cs. \<exists>u v. content = u @ ck_text c @ v \<and> length u \<le> j \<and> j < length u + length (ck_text c))"

definition chunk_ok :: "nat \<Rightarrow> chunk \<Rightarrow> bool" where
  "chunk_ok n c \<longleftrightarrow> ck_text c \<noteq> [] \<and> trim (ck_text c) = ck_text c \<and> c = make_chunk (ck_text c) \<and> str_len (ck_text c) \<le> n"

lemma covers_append: "covers content cs j \<Longrightarrow> covers content (cs @ ds) j" "covers content ds j \<Longrightarrow> covers content (cs @ ds) j"
  by (auto simp: covers_def)

lemma chunk_of_ok: "str_len s \<le> n \<Longrightarrow> c \<in> set (chunk_of s) \<Longrightarrow> chunk_ok n c"
  using str_len_trim_le [of s] by (auto simp: chunk_of_def chunk_ok_def make_chunk_def split: if_splits)

lemma chunk_of_covers:
  assumes content: "content = u @ s @ v" and j: "length u \<le> j" "j < length u + length s"
    and ink: "\<not> is_whitespace (content ! j)"
  shows "covers content (chunk_of s) j"
proof -
  obtain w w' where parts: "s = w @ trim s @ w'" "\<forall>c \<in> set w. is_whitespace c" "\<forall>c \<in> set w'. is_whitespace c"
    using trim_parts by blast
  define i where "i = j - length u"
  have i: "i < length s" "content ! j = s ! i" using j unfolding content i_def by (auto simp: nth_append)
  have low: "length w \<le> i"
  proof (rule ccontr)
    assume "\<not> length w \<le> i"
    then have "s ! i \<in> set w" by (subst parts(1)) (simp add: nth_append)
    then show False using parts(2) ink i(2) by simp
  qed
  have high: "i < length w + length (trim s)"
  proof (rule ccontr)
    assume h: "\<not> i < length w + length (trim s)"
    then have "s ! i = w' ! (i - length w - length (trim s))"
      using low by (subst parts(1)) (auto simp: nth_append)
    moreover have "i - length w - length (trim s) < length w'"
      using i(1) h low arg_cong [OF parts(1), of length] by simp
    ultimately have "s ! i \<in> set w'" by simp
    then show False using parts(3) ink i(2) by simp
  qed
  have "trim s \<noteq> []" using low high by auto
  then have "make_chunk (trim s) \<in> set (chunk_of s)" by (simp add: chunk_of_def)
  moreover have "content = (u @ w) @ ck_text (make_chunk (trim s)) @ (w' @ v)"
    unfolding content by (subst parts(1)) (simp add: make_chunk_def)
  moreover have "length (u @ w) \<le> j" "j < length (u @ w) + length (ck_text (make_chunk (trim s)))"
    using low high j unfolding i_def by (auto simp: make_chunk_def)
  ultimately show ?thesis unfolding covers_def by blast
qed

lemma boundary_prefix_length:
  assumes "s = u @ r" "s = u' @ r'" "str_len u \<le> str_len u'"
  shows "length u \<le> length u'"
proof -
  obtain w where "u = u' @ w \<or> u @ w = u'" using assms(1,2) by (metis append_eq_append_conv2)
  then show ?thesis
  proof
    assume "u = u' @ w"
    then show ?thesis using assms(3) by (metis add_le_same_cancel1 append_Nil2 le_zero_eq order_refl str_len_simps(3) str_len_zero_iff(1))
  qed auto
qed

text \<open>From the snapped offset on, the loop covers everything.\<close>

definition covers_from :: "string \<Rightarrow> chunk list \<Rightarrow> nat \<Rightarrow> bool" where
  "covers_from content cs k \<longleftrightarrow>
     (\<forall>u r j. content = u @ r \<longrightarrow> str_len u = k \<longrightarrow> length u \<le> j \<longrightarrow> j < length content \<longrightarrow>
        \<not> is_whitespace (content ! j) \<longrightarrow> covers content cs j)"

lemma covers_from_step:
  assumes slice: "str_slice content start stop = Some s"
    and rest: "covers_from content cs k" "k \<le> stop" "is_char_boundary content k"
  shows "covers_from content (chunk_of s @ cs) start"
  unfolding covers_from_def
proof (intro allI impI)
  fix u r j
  assume u: "content = u @ r" "str_len u = start" and j: "length u \<le> j" "j < length content"
    and ink: "\<not> is_whitespace (content ! j)"
  obtain x y where xy: "content = x @ s @ y" "str_len x = start" "str_len x + str_len s = stop"
    using slice by (auto simp: str_slice_Some_iff)
  have "split_at_byte start content = Some (x, s @ y)" "split_at_byte start content = Some (u, r)"
    using xy u by (simp_all add: split_at_byte_Some_iff)
  then have x: "x = u" by simp
  show "covers content (chunk_of s @ cs) j"
  proof (cases "j < length x + length s")
    case True
    then show ?thesis using chunk_of_covers [OF xy(1)] j ink x covers_append(1) by simp
  next
    case False
    obtain u' r' where u': "content = u' @ r'" "str_len u' = k"
      using rest(3) by (auto simp: is_char_boundary_iff)
    have c2: "content = (x @ s) @ y" using xy(1) by simp
    have "length u' \<le> length (x @ s)"
      by (rule boundary_prefix_length [OF u'(1) c2]) (use u'(2) rest(2) xy(3) in simp)
    then have "covers content cs j" using rest(1) u' False j ink unfolding covers_from_def by auto
    then show ?thesis by (rule covers_append(2))
  qed
qed

lemma covers_from_end: "covers_from content [] (str_len content)"
  unfolding covers_from_def
proof (intro allI impI)
  fix u r j assume *: "content = u @ r" "str_len u = str_len content" "length u \<le> j" "j < length content"
  then have "r = []" by (metis add_cancel_right_right str_len_simps(3) str_len_zero_iff(1))
  then show "covers content [] j" using * by simp
qed

lemma covers_from_rest: "content = u @ r \<Longrightarrow> covers_from content (chunk_of r) (str_len u)"
proof -
  assume c: "content = u @ r"
  then have "content = u @ r @ []" "str_len u + str_len r = str_len content" by simp_all
  then have "str_slice content (str_len u) (str_len content) = Some r" unfolding str_slice_Some_iff by blast
  from covers_from_step [OF this covers_from_end] show ?thesis by simp
qed

text \<open>A round of the loop that does not end it.\<close>

lemma chunk_loop_round:
  assumes "is_char_boundary content k" "k < str_len content" "0 < t"
  shows "\<exists>stop s. cut_offset_at content bps (t * 4) k = Some stop \<and> k < stop \<and> stop \<le> str_len content \<and>
    is_char_boundary content stop \<and> str_slice content k stop = Some s \<and>
    (\<forall>c \<in> set (chunk_of s). chunk_ok (8 * t + 3) c)"
proof -
  obtain stop where stop: "cut_offset_at content bps (t * 4) k = Some stop" "k < stop" "stop \<le> str_len content"
      "stop \<le> k + 2 * (t * 4) + 1" "is_char_boundary content stop"
    using cut_offset_spec [OF assms(1,2), of "t * 4" bps] assms(3) by auto
  obtain s where s: "str_slice content k stop = Some s"
    using str_slice_boundaries [OF assms(1) stop(5)] stop(2) by auto
  then have "str_len s \<le> 8 * t + 3" using stop(4) by (auto simp: str_slice_Some_iff)
  then show ?thesis using stop s chunk_of_ok by blast
qed

lemma chunk_loop_covers:
  assumes "0 < t"
  shows "\<exists>cs. chunk_loop content t bps ov start = Some cs \<and> (\<forall>c \<in> set cs. chunk_ok (8 * t + 3) c) \<and>
    covers_from content cs (snap_to_char_boundary content start)"
proof (induction "str_len content - start" arbitrary: start rule: less_induct)
  case less
  define k where "k = snap_to_char_boundary content start"
  have k: "is_char_boundary content k" "k \<le> str_len content" unfolding k_def by (rule snap_spec, rule snap_le_len)
  obtain r where r: "str_from content k = Some r" using str_from_boundary [OF k(1)] by blast
  then obtain u where u: "content = u @ r" "str_len u = k" by (auto simp: str_from_Some_iff)
  note whole = covers_from_rest [OF u(1), unfolded u(2)]
  show ?case
  proof (cases "start < str_len content")
    case False
    then have "k = str_len content"
      using snap_spec(3) [where k = start and s = content] k(2) unfolding k_def by simp
    then have "covers_from content [] k" using covers_from_end by simp
    then show ?thesis using False unfolding k_def by (subst chunk_loop.simps) simp
  next
    case True
    note unfold = chunk_loop.simps [of content t bps ov start] Let_def k_def [symmetric] r
    show ?thesis
    proof (cases "approx_tokens r \<le> t \<or> trim r = []")
      case small: True
      have "\<forall>c \<in> set (chunk_of r). chunk_ok (8 * t + 3) c"
      proof (cases "trim r = []")
        case False
        then have "str_len r \<le> 8 * t + 3" using small by (simp add: approx_tokens_def)
        then show ?thesis using chunk_of_ok by blast
      qed (simp add: chunk_of_def)
      then show ?thesis using small True whole unfolding k_def [symmetric] by (auto simp: unfold chunk_of_def)
    next
      case big: False
      then have "k \<noteq> str_len content" using u by (auto simp: approx_tokens_def)
      then obtain stop s where stop: "cut_offset_at content bps (t * 4) k = Some stop" "k < stop"
          "stop \<le> str_len content" "is_char_boundary content stop"
        and s: "str_slice content k stop = Some s" "\<forall>c \<in> set (chunk_of s). chunk_ok (8 * t + 3) c"
        using chunk_loop_round [OF k(1) _ assms, of bps] k(2) by auto
      show ?thesis
      proof (cases "str_len content \<le> stop")
        case end_reached: True
        have "covers_from content (chunk_of s @ []) k"
          by (rule covers_from_step [OF s(1) covers_from_end]) (use end_reached in simp_all)
        then show ?thesis using big True stop s end_reached unfolding k_def [symmetric] by (simp add: unfold)
      next
        case False
        define n where "n = next_start_offset content k stop ov"
        have "start \<le> k" unfolding k_def using True by (intro snap_ge) simp
        then have "str_len content - n < str_len content - start"
          using next_start_progress [OF stop(2), of content ov] True unfolding n_def by linarith
        from less.hyps [OF this] obtain cs where cs: "chunk_loop content t bps ov n = Some cs"
          "\<forall>c \<in> set cs. chunk_ok (8 * t + 3) c" "covers_from content cs (snap_to_char_boundary content n)" by blast
        have "snap_to_char_boundary content n \<le> stop"
          using next_start_le [OF stop(4,2)] stop(4) unfolding n_def by (rule snap_least)
        then have "covers_from content (chunk_of s @ cs) k"
          by (rule covers_from_step [OF s(1) cs(3)]) (rule snap_spec)
        moreover have "chunk_loop content t bps ov start = Some (chunk_of s @ cs)"
          using big True stop s False cs(1) unfolding n_def by (simp add: unfold)
        ultimately show ?thesis using s(2) cs(2) unfolding k_def [symmetric] by auto
      qed
    qed
  qed
qed

lemma chunk_markdown_returns: "\<exists>md. chunk_markdown is_date content = Some md"
  using chunk_loop_covers [of 512 "pn_body (parse_note is_date content)"]
  by (simp add: chunk_markdown_def Let_def smart_chunk_def) blast



section \<open>Repeated chunks\<close>

lemma str_from_ascii: "is_ascii s \<Longrightarrow> k \<le> length s \<Longrightarrow> str_from s k = Some (drop k s)"
  by (simp add: str_from_def split_at_byte_ascii)

lemma str_slice_ascii:
  assumes "is_ascii s" "a \<le> b" "b \<le> length s"
  shows "str_slice s a b = Some (take (b - a) (drop a s))"
proof -
  have "is_ascii (take b s)" using assms(1) unfolding is_ascii_def by (meson in_set_takeD)
  then show ?thesis using assms by (simp add: str_slice_def split_at_byte_ascii drop_take)
qed

lemma boundary_ascii: "is_ascii s \<Longrightarrow> k \<le> length s \<Longrightarrow> is_char_boundary s k"
  by (simp add: is_char_boundary_def split_at_byte_ascii)

lemma is_ascii_drop: "is_ascii s \<Longrightarrow> is_ascii (drop k s)"
  unfolding is_ascii_def by (meson in_set_dropD)

lemma trim_append_nonblank: "trim (u @ v) = [] \<Longrightarrow> trim v = []"
  by (simp add: trim_empty_iff)

text \<open>Before a break point, a round ends at it and starts again one byte later.\<close>

lemma round_before_break_point:
  assumes ascii: "is_ascii content" and room: "P + 4 * t < str_len content" "trim (drop P content) \<noteq> []"
    and s: "P - ov \<le> s" "s < P" "ov < P"
    and cut: "cut_offset_at content bps (t * 4) s = Some P"
    and fence: "\<not> is_inside_code_fence_at content (Suc s)"
  shows "chunk_loop content t bps ov s =
    map_option (\<lambda>rest. chunk_of (take (P - s) (drop s content)) @ rest) (chunk_loop content t bps ov (Suc s))"
proof -
  have len: "str_len content = length content" using ascii by (rule str_len_ascii)
  have snap: "k \<le> length content \<Longrightarrow> snap_to_char_boundary content k = k" for k
    using ascii by (intro snap_boundary boundary_ascii)
  have rest: "str_from content s = Some (drop s content)" using ascii room s len by (intro str_from_ascii) auto
  have "drop s content = take (P - s) (drop s content) @ drop P content"
    by (metis append_take_drop_id drop_drop le_add_diff_inverse2 less_imp_le s(2))
  then have ink: "trim (drop s content) \<noteq> []" using room(2) trim_append_nonblank by metis
  have big: "\<not> approx_tokens (drop s content) \<le> t"
    using room(1) s(2) len by (simp add: approx_tokens_def str_len_ascii [OF is_ascii_drop [OF ascii]])
  have slice: "str_slice content s P = Some (take (P - s) (drop s content))"
    using ascii room s len by (intro str_slice_ascii) auto
  have nxt: "next_start_offset content s P ov = Suc s"
  proof (cases "ov = 0")
    case True
    then show ?thesis using s by simp
  next
    case False
    have "snap_to_char_boundary content (P - ov) = P - ov" using room len by (intro snap) simp
    then have "max (snap_to_char_boundary content (P - ov)) (s + 1) = Suc s" using s by simp
    then show ?thesis using False s fence by (simp add: next_start_offset_def Let_def)
  qed
  show ?thesis
    using room s len snap [of s] rest ink big cut slice nxt by (subst chunk_loop.simps) (simp add: Let_def)
qed

text \<open>C24: When the chunker cuts at a break point \<open>P\<close> and goes back by the overlap, \<open>P\<close> is still ahead. As
  long as it is the best break point ahead, every round ends at \<open>P\<close> and the next one starts a single
  byte later: the end of the same passage is stored once for each byte of the overlap.\<close>

theorem chunker_repeats_the_overlap:
  assumes "is_ascii content" "P + 4 * t < str_len content" "trim (drop P content) \<noteq> []" "ov < P"
    and "\<forall>s. P - ov \<le> s \<longrightarrow> s < P \<longrightarrow> cut_offset_at content bps (t * 4) s = Some P"
    and "\<forall>s. P - ov < s \<longrightarrow> s \<le> P \<longrightarrow> \<not> is_inside_code_fence_at content s"
  shows "chunk_loop content t bps ov (P - ov) =
    map_option (\<lambda>rest. concat (map (\<lambda>s. chunk_of (take (P - s) (drop s content))) [P - ov..<P]) @ rest)
      (chunk_loop content t bps ov P)"
proof -
  have "chunk_loop content t bps ov (P - n) =
      map_option (\<lambda>rest. concat (map (\<lambda>s. chunk_of (take (P - s) (drop s content))) [P - n..<P]) @ rest)
        (chunk_loop content t bps ov P)" if "n \<le> ov" for n
    using that
  proof (induction n)
    case 0
    show ?case by (simp add: option.map_ident)
  next
    case (Suc n)
    then have step: "Suc (P - Suc n) = P - n" and less: "P - Suc n < P" using assms(4) by auto
    have "chunk_loop content t bps ov (P - Suc n) =
        map_option (\<lambda>rest. chunk_of (take (P - (P - Suc n)) (drop (P - Suc n) content)) @ rest)
          (chunk_loop content t bps ov (Suc (P - Suc n)))"
      by (rule round_before_break_point) (use assms Suc.prems less step in auto)
    moreover have "[P - Suc n..<P] = (P - Suc n) # [P - n..<P]" using less by (simp add: upt_conv_Cons step)
    ultimately show ?case using Suc by (simp add: step option.map_comp comp_def)
  qed
  then show ?thesis by simp
qed

definition repeated_note :: string where
  "repeated_note = ''aaaaaaaaaaaaaaaaaaa'' @ [newline] @ ''# T'' @ [newline] @ ''bbbbbbbbbbbbbbbbbbbbbbbbbbbbbbbbbbb''"

theorem chunker_repeats_the_overlap_witness:
  "chunk_loop repeated_note 4 (find_break_points repeated_note) 8 12 =
    map_option (\<lambda>rest. concat (map (\<lambda>s. chunk_of (take (20 - s) (drop s repeated_note))) [12..<20]) @ rest)
      (chunk_loop repeated_note 4 (find_break_points repeated_note) 8 20) \<and>
   length (concat (map (\<lambda>s. chunk_of (take (20 - s) (drop s repeated_note))) [12..<20])) = 7"
proof
  have cut: "list_all (\<lambda>s. cut_offset_at repeated_note (find_break_points repeated_note) (4 * 4) s = Some 20) [12..<20]"
    by code_simp
  have fence: "list_all (\<lambda>s. \<not> is_inside_code_fence_at repeated_note s) [13..<21]" by code_simp
  have "is_ascii repeated_note" "20 + 4 * 4 < str_len repeated_note" "trim (drop 20 repeated_note) \<noteq> []" by code_simp+
  then have "chunk_loop repeated_note 4 (find_break_points repeated_note) 8 (20 - 8) =
    map_option (\<lambda>rest. concat (map (\<lambda>s. chunk_of (take (20 - s) (drop s repeated_note))) [20 - 8..<20]) @ rest)
      (chunk_loop repeated_note 4 (find_break_points repeated_note) 8 20)"
  proof (rule chunker_repeats_the_overlap)
    show "\<forall>s. 20 - 8 \<le> s \<longrightarrow> s < 20 \<longrightarrow>
        cut_offset_at repeated_note (find_break_points repeated_note) (4 * 4) s = Some 20"
      using cut unfolding list_all_iff set_upt by auto
    show "\<forall>s. 20 - 8 < s \<longrightarrow> s \<le> 20 \<longrightarrow> \<not> is_inside_code_fence_at repeated_note s"
      using fence unfolding list_all_iff set_upt by auto
  qed simp
  then show "chunk_loop repeated_note 4 (find_break_points repeated_note) 8 12 =
    map_option (\<lambda>rest. concat (map (\<lambda>s. chunk_of (take (20 - s) (drop s repeated_note))) [12..<20]) @ rest)
      (chunk_loop repeated_note 4 (find_break_points repeated_note) 8 20)"
    by simp
  show "length (concat (map (\<lambda>s. chunk_of (take (20 - s) (drop s repeated_note))) [12..<20])) = 7" by code_simp
qed

section \<open>Splitting oversized chunks\<close>

lemma concat_sentence_segments: "concat (sentence_segments current s) = current @ s"
proof (induction current s rule: sentence_segments.induct)
  case (2 current c cs)
  then show ?case by (cases cs) auto
qed simp

text \<open>Without overlap the pieces of an oversized chunk, one after the other, are its text, up to white
  space at the end.\<close>

theorem splitting_keeps_the_text:
  "\<exists>w. (\<forall>c \<in> set w. is_whitespace c) \<and>
     concat (pack_segments token_count max_tokens 0 [] (split_sentence_segments s)) @ w = s"
proof -
  have "\<exists>w. (\<forall>c \<in> set w. is_whitespace c) \<and> concat (pack_segments token_count max_tokens 0 current segs) @ w = current @ concat segs"
    for current segs
  proof (induction segs arbitrary: current)
    case Nil
    then show ?case by (auto simp: trim_empty_iff intro: exI [of _ "[]"] exI [of _ current])
  next
    case (Cons a segs)
    show ?case using Cons.IH [of a] Cons.IH [of "current @ a"] by (auto simp: build_token_overlap_def)
  qed
  from this [of "[]" "split_sentence_segments s"] show ?thesis
    by (simp add: split_sentence_segments_def concat_sentence_segments)
qed

end
