(* ===== verification/Link_Properties.thy ===== *)
theory Link_Properties
  imports Note_Links Chunk_Properties
begin

text \<open>
  The discovery of links returns for every note and every index built from notes, and the names it finds
  are places of the note that do not overlap and lie outside code, front matter and links.
\<close>

section \<open>Searching\<close>

lemma starts_with_append: "starts_with s p \<longleftrightarrow> (\<exists>r. s = p @ r)"
  by (auto simp: starts_with_def) (metis append_take_drop_id)

lemma str_find_Some:
  "str_find s p = Some i \<Longrightarrow> \<exists>r. s = take i s @ p @ r"
proof (induction s arbitrary: i)
  case Nil
  then show ?case by (auto split: if_splits)
next
  case (Cons c s)
  show ?case
  proof (cases "starts_with (c # s) p")
    case True
    then show ?thesis using Cons.prems by (auto simp: starts_with_append)
  next
    case False
    then obtain k where k: "str_find s p = Some k" "i = Suc k" using Cons.prems by auto
    from Cons.IH [OF k(1)] obtain r where "s = take k s @ p @ r" by blast
    then have "c # s = take i (c # s) @ p @ r" unfolding k(2) by simp
    then show ?thesis by blast
  qed
qed

text \<open>A match in the lower-case text is a slice of the text itself.\<close>

lemma lower_slice:
  assumes "to_ascii_lowercase content = u @ x @ v"
  shows "\<exists>m. str_slice content (str_len u) (str_len u + str_len x) = Some m \<and> to_ascii_lowercase m = x"
proof -
  define u' m v' where "u' = take (length u) content" and "m = take (length x) (drop (length u) content)"
    and "v' = drop (length u + length x) content"
  have content: "content = u' @ m @ v'"
    unfolding u'_def m_def v'_def by (metis add.commute append_take_drop_id drop_drop)
  have u: "to_ascii_lowercase u' = u" and m: "to_ascii_lowercase m = x"
    using arg_cong [OF assms, of "take (length u)"] arg_cong [OF assms, of "\<lambda>s. take (length x) (drop (length u) s)"]
    unfolding u'_def m_def to_ascii_lowercase_def by (simp_all add: take_map drop_map)
  have "str_len u' = str_len u" "str_len m = str_len x" using u m by (metis str_len_lower)+
  then show ?thesis using content m unfolding str_slice_Some_iff by metis
qed

section \<open>Exact names\<close>

definition disjoint_regions :: "region \<Rightarrow> region \<Rightarrow> bool" where
  "disjoint_regions x y \<longleftrightarrow> snd x \<le> fst y \<or> snd y \<le> fst x"

text \<open>A link together with the region it was found at.\<close>

definition link_at :: "string \<Rightarrow> name_entry list \<Rightarrow> discovered_link \<Rightarrow> region \<Rightarrow> bool" where
  "link_at content index link place \<longleftrightarrow>
     fst place < snd place \<and> str_slice content (fst place) (snd place) = Some (dl_matched_text link) \<and>
     (\<exists>entry \<in> set index. link = exact_link entry (dl_matched_text link) \<and>
        to_ascii_lowercase (dl_matched_text link) = ne_name_lower entry) \<and>
     \<not> inside_region (fst place) (snd place) (find_wikilink_regions content) \<and>
     \<not> inside_region (fst place) (snd place) (find_protected_regions content) \<and>
     is_word_boundary (as_bytes content) (fst place) \<and> is_word_boundary_after (as_bytes content) (snd place)"

definition scan_ok :: "string \<Rightarrow> name_entry list \<Rightarrow> link_scan \<Rightarrow> bool" where
  "scan_ok content index st \<longleftrightarrow>
     list_all2 (link_at content index) (ls_links st) (ls_claimed st) \<and>
     sorted_wrt disjoint_regions (ls_claimed st) \<and> set (ls_paths st) = set (map dl_target_path (ls_links st))"

lemma claim_ok:
  assumes ok: "scan_ok content index st" and "entry \<in> set index" "a < b"
    and slice: "str_slice content a b = Some m" "to_ascii_lowercase m = ne_name_lower entry"
    and keep: "should_skip_match content a b (find_wikilink_regions content) (find_protected_regions content) (ls_claimed st)
      = Some False"
  shows "scan_ok content index (claim_match entry a b m st)"
proof -
  have free: "\<not> inside_region a b (find_wikilink_regions content)" "\<not> inside_region a b (find_protected_regions content)"
      "\<not> overlaps_claimed a b (ls_claimed st)"
      "is_word_boundary (as_bytes content) a" "is_word_boundary_after (as_bytes content) b"
    using keep by (auto simp: should_skip_match_def split: if_splits)
  have "link_at content index (exact_link entry m) (a, b)"
    unfolding link_at_def using assms(2,3) slice free by (auto simp: exact_link_def)
  moreover have "\<forall>x \<in> set (ls_claimed st). disjoint_regions x (a, b)"
    using free(3) by (auto simp: overlaps_claimed_def disjoint_regions_def not_less)
  ultimately show ?thesis using ok
    by (auto simp: scan_ok_def claim_match_def sorted_wrt_append exact_link_def list_all2_appendI)
qed

lemma name_matches_returns:
  assumes entry: "entry \<in> set index" "ne_name_lower entry \<noteq> []"
  shows "is_char_boundary content from \<Longrightarrow> scan_ok content index st \<Longrightarrow>
    \<exists>st'. name_matches content (find_wikilink_regions content) (find_protected_regions content) entry from st = Some st'
      \<and> scan_ok content index st'"
proof (induction "str_len content - from" arbitrary: "from" st rule: less_induct)
  case less
  let ?go = "name_matches content (find_wikilink_regions content) (find_protected_regions content) entry"
  have "is_char_boundary (to_ascii_lowercase content) from" using less.prems(1) by (simp add: boundary_lower)
  then obtain rest where rest: "str_from (to_ascii_lowercase content) from = Some rest" using str_from_boundary by blast
  then obtain u where u: "to_ascii_lowercase content = u @ rest" "str_len u = from" by (auto simp: str_from_Some_iff)
  show ?case
  proof (cases "str_find rest (ne_name_lower entry)")
    case None
    then show ?thesis using rest less.prems(2) by (subst name_matches.simps) simp
  next
    case (Some i)
    define a where "a = from + str_len (take i rest)"
    define b where "b = a + str_len (ne_name_lower entry)"
    obtain r where r: "rest = take i rest @ ne_name_lower entry @ r" using str_find_Some [OF Some] by blast
    have split: "to_ascii_lowercase content = (u @ take i rest) @ ne_name_lower entry @ r"
      using u(1) r by (metis append.assoc)
    have ua: "str_len (u @ take i rest) = a" using u(2) by (simp add: a_def)
    obtain m where m: "str_slice content a b = Some m" "to_ascii_lowercase m = ne_name_lower entry"
      using lower_slice [OF split] ua unfolding b_def by auto
    have "is_char_boundary (to_ascii_lowercase content) b"
      unfolding is_char_boundary_iff
      by (rule exI [of _ "(u @ take i rest) @ ne_name_lower entry"], rule exI [of _ r]) (use split ua b_def in simp)
    then have bb: "is_char_boundary content b" by (simp add: boundary_lower)
    have ab: "a < b" using entry(2) by (simp add: b_def)
    have "b \<le> str_len content" using bb by (rule boundary_le)
    then have smaller: "str_len content - b < str_len content - from" using ab by (simp add: a_def)
    have "\<exists>skip. should_skip_match content a b (find_wikilink_regions content) (find_protected_regions content)
        (ls_claimed st) = Some skip" unfolding should_skip_match_def using m(1) by auto
    then obtain skip where skip: "should_skip_match content a b (find_wikilink_regions content)
        (find_protected_regions content) (ls_claimed st) = Some skip" by blast
    have step: "?go from st = (if skip then ?go b st else ?go b (claim_match entry a b m st))"
      using rest Some skip m(1) by (subst name_matches.simps) (simp add: Let_def a_def [symmetric] b_def [symmetric])
    have "scan_ok content index (if skip then st else claim_match entry a b m st)"
      using less.prems(2) claim_ok [OF less.prems(2) entry(1) ab m] skip by auto
    from less.hyps [OF smaller bb this] show ?thesis unfolding step by (cases skip) auto
  qed
qed

lemma index_matches_returns:
  assumes "\<forall>entry \<in> set entries. entry \<in> set index \<and> ne_name_lower entry \<noteq> []" "scan_ok content index st"
  shows "\<exists>st'. index_matches content (find_wikilink_regions content) (find_protected_regions content) entries st = Some st'
      \<and> scan_ok content index st'"
  using assms
proof (induction entries arbitrary: st)
  case (Cons e es)
  show ?case
  proof (cases "ne_match_type e \<noteq> ExactName \<and> ne_match_type e \<noteq> Alias")
    case True
    then show ?thesis using Cons by simp
  next
    case False
    obtain st1 where "name_matches content (find_wikilink_regions content) (find_protected_regions content) e 0 st = Some st1"
      "scan_ok content index st1" using name_matches_returns [of e index content 0 st] Cons.prems by auto
    then show ?thesis using False Cons by auto
  qed
qed simp

section \<open>The index of names\<close>

lemma fold_keeps: "P st \<Longrightarrow> (\<And>x st. P st \<Longrightarrow> P (f x st)) \<Longrightarrow> P (fold f xs st)"
  by (induction xs arbitrary: st) auto

definition names_nonempty :: "name_entry list \<times> seen_name list \<Rightarrow> bool" where
  "names_nonempty st \<longleftrightarrow> (\<forall>entry \<in> set (fst st). ne_name_lower entry \<noteq> [])"

lemma push_name_entry_nonempty: "names_nonempty st \<Longrightarrow> 0 < n \<Longrightarrow> names_nonempty (push_name_entry raw target ty n st)"
  by (cases st) (auto simp: names_nonempty_def push_name_entry_def Let_def to_ascii_lowercase_def)

lemma build_name_index_nonempty: "\<forall>entry \<in> set (build_name_index targets). ne_name_lower entry \<noteq> []"
proof -
  have "names_nonempty (push_target_names target st)" if "names_nonempty st" for target st
    unfolding push_target_names_def
    by (rule fold_keeps [where P = names_nonempty]) (simp_all add: push_name_entry_nonempty that)
  then have "names_nonempty (fold push_target_names targets ([], []))"
    by (intro fold_keeps [where P = names_nonempty]) (simp_all add: names_nonempty_def)
  then show ?thesis by (simp add: build_name_index_def names_nonempty_def)
qed

section \<open>Words\<close>

lemma ascii_byte_boundary:
  "i < str_len s \<Longrightarrow> (of_char (as_bytes s ! i) :: nat) < 128 \<Longrightarrow> is_char_boundary s i \<and> is_char_boundary s (Suc i)"
proof (induction s arbitrary: i)
  case (Cons c s)
  have bytes: "as_bytes (c # s) = char_bytes c @ as_bytes s" by (simp add: as_bytes_def)
  have w: "length (char_bytes c) = char_width c" by (simp add: char_bytes_def char_width_def Let_def)
  show ?case
  proof (cases "i < char_width c")
    case True
    have "(of_char c :: nat) < 128"
    proof (rule ccontr)
      assume big: "\<not> (of_char c :: nat) < 128"
      have "(of_char c :: nat) < 4 * 64" using nat_of_char_less_256 [of c] by simp
      then have "(of_char c :: nat) div 64 < 4" by (rule less_mult_imp_div_less)
      moreover have "i = 0 \<or> i = 1" using True big by (auto simp: char_width_def)
      ultimately have "128 \<le> (of_char (as_bytes (c # s) ! i) :: nat)"
        using big unfolding bytes by (auto simp: char_bytes_def Let_def)
      then show False using Cons.prems(2) by simp
    qed
    then have "char_width c = 1" by (simp add: char_width_def)
    then show ?thesis using True boundary_Cons [of c 1 s] by simp
  next
    case False
    then have "as_bytes (c # s) ! i = as_bytes s ! (i - char_width c)" unfolding bytes by (simp add: nth_append w)
    then have "is_char_boundary s (i - char_width c) \<and> is_char_boundary s (Suc (i - char_width c))"
      using Cons.IH [of "i - char_width c"] Cons.prems False by simp
    then show ?thesis using False boundary_Cons [of c i s] boundary_Cons [of c "Suc i" s] by (simp add: Suc_diff_le)
  qed
qed simp

lemma alphanumeric_ascii: "is_ascii_alphanumeric c \<Longrightarrow> (of_char c :: nat) < 128"
  by (auto simp: is_ascii_alphanumeric_def is_ascii_digit_def less_eq_char_def)

lemma word_end_boundary: "is_char_boundary s i \<Longrightarrow> is_char_boundary s (word_end (as_bytes s) i)"
proof (induction "str_len s - i" arbitrary: i rule: less_induct)
  case less
  show ?case
  proof (cases "i < str_len s \<and> (is_ascii_alphanumeric (as_bytes s ! i) \<or> as_bytes s ! i = quote)")
    case True
    then have "(of_char (as_bytes s ! i) :: nat) < 128" using alphanumeric_ascii by auto
    then have "is_char_boundary s (i + 1)" using ascii_byte_boundary True by simp
    then have "is_char_boundary s (word_end (as_bytes s) (i + 1))" using True by (intro less.hyps) auto
    then show ?thesis using less.prems by (subst word_end.simps) auto
  next
    case False
    then show ?thesis using less.prems by (subst word_end.simps) auto
  qed
qed

definition spans_ok :: "string \<Rightarrow> (nat \<times> nat \<times> string) list \<Rightarrow> bool" where
  "spans_ok s spans \<longleftrightarrow>
     (\<forall>(a, b, _) \<in> set spans. is_char_boundary s a \<and> is_char_boundary s b \<and> a < b) \<and>
     sorted_wrt (\<lambda>(_, b, _) (a, _, _). b \<le> a) spans"

lemma word_spans_from_ok:
  "spans_ok s (word_spans_from (as_bytes s) i) \<and> (\<forall>(a, _, _) \<in> set (word_spans_from (as_bytes s) i). i \<le> a)"
proof (induction "str_len s - i" arbitrary: i rule: less_induct)
  case less
  show ?case
  proof (cases "i < str_len s")
    case False
    then show ?thesis by (subst (1 2) word_spans_from.simps) (simp add: spans_ok_def)
  next
    case True
    show ?thesis
    proof (cases "is_ascii_alphanumeric (as_bytes s ! i)")
      case False
      have "\<forall>(a, _, _) \<in> set (word_spans_from (as_bytes s) (i + 1)). i \<le> a"
        and "spans_ok s (word_spans_from (as_bytes s) (i + 1))"
        using less.hyps [of "i + 1"] True by fastforce+
      then show ?thesis using False True by (subst (1 2) word_spans_from.simps) auto
    next
      case word: True
      define b where "b = word_end (as_bytes s) i"
      have ib: "i < b" unfolding b_def using word True by (intro word_end_greater) simp_all
      have bounds: "is_char_boundary s i" "is_char_boundary s b"
        using ascii_byte_boundary [OF True alphanumeric_ascii [OF word]] unfolding b_def
        by (auto intro: word_end_boundary)
      have "spans_ok s (word_spans_from (as_bytes s) b) \<and> (\<forall>(a, _, _) \<in> set (word_spans_from (as_bytes s) b). b \<le> a)"
        using ib True by (intro less.hyps) simp
      then show ?thesis using True word ib bounds
        by (subst (1 2) word_spans_from.simps) (auto simp: Let_def b_def [symmetric] spans_ok_def)
    qed
  qed
qed

lemma word_spans_ok: "spans_ok s (word_spans s)"
  using word_spans_from_ok by (simp add: word_spans_def)

lemma spans_ok_sub: "spans_ok s (take n (drop k spans))" if "spans_ok s spans"
proof -
  have "set (take n (drop k spans)) \<subseteq> set spans" by (meson in_set_dropD in_set_takeD subsetI)
  then show ?thesis using that unfolding spans_ok_def by (auto simp: sorted_wrt_take sorted_wrt_drop)
qed

lemma window_order:
  assumes "spans_ok s w" "w \<noteq> []"
  shows "is_char_boundary s (fst (hd w)) \<and> is_char_boundary s (fst (snd (last w))) \<and> fst (hd w) \<le> fst (snd (last w))"
proof (cases w)
  case (Cons x xs)
  have ends: "\<forall>(a, b, _) \<in> set w. is_char_boundary s a \<and> is_char_boundary s b \<and> a < b"
    using assms(1) by (simp add: spans_ok_def)
  obtain a b c where x: "x = (a, b, c)" by (cases x)
  show ?thesis
  proof (cases "xs = []")
    case True
    then show ?thesis using ends Cons x by auto
  next
    case False
    obtain a' b' c' where l: "last xs = (a', b', c')" by (cases "last xs")
    then have in_xs: "(a', b', c') \<in> set xs" using False last_in_set by metis
    then have "b \<le> a'" using assms(1) Cons x by (auto simp: spans_ok_def)
    moreover have "a < b" "a' < b'" "is_char_boundary s a" "is_char_boundary s b'" using ends in_xs Cons x by auto
    ultimately show ?thesis using Cons x l False by simp
  qed
qed (use assms in simp)

lemma those_Some: "\<forall>x \<in> set xs. \<exists>y. f x = Some y \<Longrightarrow> \<exists>ys. those (map f xs) = Some ys"
  by (induction xs) auto

lemma find_map_Some: "find_map f xs = Some y \<Longrightarrow> \<exists>x \<in> set xs. f x = Some y"
  by (induction xs) (auto split: option.splits)

lemma shown_link_returns:
  "is_char_boundary content a \<Longrightarrow> is_char_boundary content b \<Longrightarrow> a \<le> b \<Longrightarrow> \<exists>l. shown_link content (entry, a, b, ty) = Some l"
  using str_slice_boundaries [of content a b] by (auto simp: shown_link_def)

lemma fuzzy_returns: "\<exists>ls. find_fuzzy_matches similarity content names existing people = Some ls"
  unfolding find_fuzzy_matches_def
proof (rule those_Some, rule ballI)
  fix x assume "x \<in> set (List.map_filter (fuzzy_hit similarity (word_spans content) existing people) names)"
  then obtain e where e: "fuzzy_hit similarity (word_spans content) existing people e = Some x"
    by (auto simp: List.map_filter_def)
  define n where "n = length (split_whitespace (ne_name e))"
  from e have n: "0 < n" "n \<le> length (word_spans content)"
    by (auto simp: fuzzy_hit_def Let_def n_def [symmetric] split: if_splits)
  from e obtain h where h: "x = (e, h)" "find_map (\<lambda>i. fuzzy_window similarity e existing (take n (drop i (word_spans content))))
      [0..<length (word_spans content) - n + 1] = Some h"
    by (auto simp: fuzzy_hit_def Let_def n_def [symmetric] split: if_splits)
  from find_map_Some [OF h(2)] obtain i where i: "i < length (word_spans content) - n + 1"
    "fuzzy_window similarity e existing (take n (drop i (word_spans content))) = Some h"
    unfolding set_upt by (metis atLeastLessThan_iff)
  define w where "w = take n (drop i (word_spans content))"
  have "w \<noteq> []" using n i(1) by (auto simp: w_def)
  moreover have "spans_ok content w" unfolding w_def by (rule spans_ok_sub [OF word_spans_ok])
  ultimately have "is_char_boundary content (fst (hd w)) \<and> is_char_boundary content (fst (snd (last w))) \<and> fst (hd w) \<le> fst (snd (last w))"
    by (intro window_order)
  moreover obtain ty where "h = (fst (hd w), fst (snd (last w)), ty)"
    using i(2) unfolding w_def [symmetric] by (auto simp: fuzzy_window_def Let_def split: if_splits)
  ultimately show "\<exists>y. shown_link content x = Some y" unfolding h(1) by (auto intro: shown_link_returns)
qed

lemma first_names_return: "\<exists>ls. find_first_name_matches content names existing = Some ls"
  unfolding find_first_name_matches_def
proof (rule those_Some, rule ballI)
  fix x assume "x \<in> set (List.map_filter (first_name_hit names)
      (filter (\<lambda>(start, stop, _). \<not> overlaps_claimed start stop existing) (word_spans content)))"
  then obtain a b w where abw: "(a, b, w) \<in> set (word_spans content)" "first_name_hit names (a, b, w) = Some x"
    by (auto simp: List.map_filter_def)
  then obtain e where "x = (e, a, b, FirstName 650)"
    by (auto simp: first_name_hit_def split: list.splits)
  moreover have "is_char_boundary content a" "is_char_boundary content b" "a \<le> b"
    using word_spans_ok [of content] abw(1) by (auto simp: spans_ok_def dest!: bspec)
  ultimately show "\<exists>y. shown_link content x = Some y" by (auto intro: shown_link_returns)
qed

lemma exact_pass_ok:
  "\<exists>st. exact_pass content (build_name_index targets) = Some st \<and> scan_ok content (build_name_index targets) st"
proof -
  have "scan_ok content (build_name_index targets) empty_scan" by (simp add: scan_ok_def empty_scan_def)
  then show ?thesis
    using index_matches_returns [of "build_name_index targets" "build_name_index targets" content empty_scan]
      build_name_index_nonempty by (auto simp: exact_pass_def)
qed

lemma discover_returns:
  assumes "exact_pass content index = Some st"
  shows "\<exists>links. discover_links similarity content index people = Some links \<and> set (ls_links st) \<subseteq> set links"
proof -
  define ex where "ex = ls_claimed st @ find_wikilink_regions content @ find_protected_regions content"
  obtain fuzzy where fuzzy: "find_fuzzy_matches similarity content (fuzzy_eligible index (ls_paths st) people) ex people = Some fuzzy"
    using fuzzy_returns by blast
  have "\<exists>first. (case people of None \<Rightarrow> Some [] | Some folder \<Rightarrow>
      find_first_name_matches content (people_entries index (ls_paths st) folder) (ex @ fuzzy_regions content fuzzy)) = Some first"
    using first_names_return by (cases people) auto
  then obtain first where "(case people of None \<Rightarrow> Some [] | Some folder \<Rightarrow>
      find_first_name_matches content (people_entries index (ls_paths st) folder) (ex @ fuzzy_regions content fuzzy)) = Some first"
    by blast
  then have "discover_links similarity content index people = Some (sort_key link_order (ls_links st @ fuzzy @ first))"
    using assms fuzzy unfolding ex_def by (simp add: discover_links_def Let_def)
  then show ?thesis by auto
qed

text \<open>C19: Discovering the links of a note returns, without slicing inside a character, for every index
  built from notes. The names and aliases it finds are at places of the note that do not overlap each
  other, begin and end at word boundaries, are not inside a wikilink, code or the front matter, and agree
  with the name of their target up to ASCII case.\<close>

theorem discovered_links_are_apart:
  "\<exists>st links. exact_pass content (build_name_index targets) = Some st \<and>
     list_all2 (link_at content (build_name_index targets)) (ls_links st) (ls_claimed st) \<and>
     sorted_wrt disjoint_regions (ls_claimed st) \<and>
     discover_links similarity content (build_name_index targets) people = Some links \<and>
     set (ls_links st) \<subseteq> set links"
  using exact_pass_ok [of content targets] discover_returns [of content "build_name_index targets"] by (fastforce simp: scan_ok_def)

end
