(* ===== verification/Index_Properties.thy ===== *)
theory Index_Properties
  imports Note_Index Link_Properties
begin

text \<open>
  The tables of the knowledge database stay consistent, indexing a note replaces exactly its rows, and a
  note whose indexing was interrupted is never completed, because its entry already carries the time of
  the file.
\<close>

section \<open>Identifiers of chunks\<close>

lemma show_nat_digits: "c \<in> set (show_nat n) \<Longrightarrow> CHR ''0'' \<le> c \<and> c \<le> CHR ''9''"
proof (induction n rule: show_nat.induct)
  case (1 n)
  have digit: "CHR ''0'' \<le> digit_char d \<and> digit_char d \<le> CHR ''9''" if "d < 10" for d
    using of_char_digit [OF that] that by (simp add: less_eq_char_def)
  show ?case
  proof (cases "n < 10")
    case True
    then show ?thesis using 1 digit by (simp add: show_nat.simps [of n])
  next
    case False
    then have "c \<in> set (show_nat (n div 10)) \<or> c = digit_char (n mod 10)"
      using 1(2) by (subst (asm) show_nat.simps) auto
    then show ?thesis using 1(1) [OF False] digit [of "n mod 10"] by auto
  qed
qed

lemma hash_not_digit: "CHR ''#'' \<notin> set (show_nat n)"
proof
  assume "CHR ''#'' \<in> set (show_nat n)"
  then have "CHR ''0'' \<le> CHR ''#''" using show_nat_digits by blast
  then show False by (simp add: less_eq_char_def)
qed

lemma append_sep_eq:
  "xs @ c # ys = xs' @ c # ys' \<Longrightarrow> c \<notin> set ys \<Longrightarrow> c \<notin> set ys' \<Longrightarrow> xs = xs' \<and> ys = ys'"
proof (induction xs arbitrary: xs')
  case Nil
  then show ?case by (cases xs') auto
next
  case (Cons x xs)
  then show ?case by (cases xs') auto
qed

lemma chunk_id_inject: "chunk_id i m = chunk_id j n \<longleftrightarrow> i = j \<and> m = n"
proof
  assume "chunk_id i m = chunk_id j n"
  then have "i @ CHR ''#'' # show_nat m = j @ CHR ''#'' # show_nat n" by (simp add: chunk_id_def)
  from append_sep_eq [OF this hash_not_digit hash_not_digit] show "i = j \<and> m = n" by (metis read_show_nat)
qed simp

section \<open>Consistency\<close>

definition fts_mirror :: "'w knowledge_db \<Rightarrow> bool" where
  "fts_mirror db \<longleftrightarrow>
     map (\<lambda>r. (ft_chunk_id r, ft_entry_id r, ft_content r)) (kd_fts db) =
     map (\<lambda>r. (cr_id r, cr_entry_id r, cr_content r)) (kd_chunks db)"

definition index_ok :: "'w knowledge_db \<Rightarrow> bool" where
  "index_ok db \<longleftrightarrow>
     distinct (map er_id (kd_entries db)) \<and> (\<forall>r \<in> set (kd_entries db). er_uri r = er_id r) \<and>
     distinct (map cr_id (kd_chunks db)) \<and>
     (\<forall>c \<in> set (kd_chunks db). (\<exists>n. cr_id c = chunk_id (cr_entry_id c) n) \<and> cr_entry_id c \<in> er_id ` set (kd_entries db)) \<and>
     (\<forall>l \<in> set (kd_links db). lr_source_entry_id l \<in> er_id ` set (kd_entries db)) \<and> fts_mirror db"

text \<open>The rows of all tables are the same.\<close>

definition same_rows :: "'w knowledge_db \<Rightarrow> 'w knowledge_db \<Rightarrow> bool" where
  "same_rows db db' \<longleftrightarrow>
     kd_entries db' = kd_entries db \<and> kd_chunks db' = kd_chunks db \<and> kd_links db' = kd_links db \<and> kd_fts db' = kd_fts db"

lemma same_rows_refl [simp]: "same_rows db db"
  by (simp add: same_rows_def)

lemma index_ok_same_rows: "same_rows db db' \<Longrightarrow> index_ok db' = index_ok db"
  by (simp add: same_rows_def index_ok_def fts_mirror_def)

lemma ensure_vector_index_rows: "ensure_vector_index c n db = (r, db') \<Longrightarrow> same_rows db db'"
  by (auto simp: ensure_vector_index_def same_rows_def set_metadata_value_def Let_def split: if_splits sum.splits)

lemma embed_text_rows:
  assumes "embed_text env emb s db = (r, db')"
  shows "same_rows db db'"
proof -
  obtain x w where x: "emb s (kd_world db) = (x, w)" by (cases "emb s (kd_world db)")
  show ?thesis
  proof (cases x)
    case (Inl e)
    then show ?thesis using assms x by (auto simp: embed_text_def same_rows_def)
  next
    case (Inr v)
    obtain y db1 where y: "ensure_vector_index (ve_create_vector_index env) (length v) (db\<lparr>kd_world := w\<rparr>) = (y, db1)"
      by (cases "ensure_vector_index (ve_create_vector_index env) (length v) (db\<lparr>kd_world := w\<rparr>)")
    then have "db' = db1" using assms x Inr by (cases y) (auto simp: embed_text_def)
    then show ?thesis using ensure_vector_index_rows [OF y] by (simp add: same_rows_def)
  qed
qed

lemma chunk_embedding_rows: "chunk_embedding env title c db = (r, db') \<Longrightarrow> same_rows db db'"
  by (auto simp: chunk_embedding_def split: option.splits prod.splits sum.splits dest: embed_text_rows)

lemma index_ok_delete: "index_ok db \<Longrightarrow> index_ok (delete_entry i db)"
proof -
  assume ok: "index_ok db"
  have mirror: "map (\<lambda>r. (ft_chunk_id r, ft_entry_id r, ft_content r)) (filter (\<lambda>r. ft_entry_id r \<noteq> i) fs) =
      map (\<lambda>r. (cr_id r, cr_entry_id r, cr_content r)) (filter (\<lambda>r. cr_entry_id r \<noteq> i) cs)"
    if "map (\<lambda>r. (ft_chunk_id r, ft_entry_id r, ft_content r)) fs = map (\<lambda>r. (cr_id r, cr_entry_id r, cr_content r)) cs" for fs cs
    using that by (induction fs arbitrary: cs) (auto simp: Cons_eq_map_conv)
  show ?thesis using ok mirror [of "kd_fts db" "kd_chunks db"]
    by (auto simp: index_ok_def delete_entry_def fts_mirror_def distinct_map inj_on_def)
qed

section \<open>The rows of a note\<close>

definition plain_row :: "chunk_row \<Rightarrow> chunk_row" where
  "plain_row r = r\<lparr>cr_embedding := None\<rparr>"

definition chunk_row_of :: "'w vault_env \<Rightarrow> string \<Rightarrow> nat \<times> chunk \<Rightarrow> chunk_row" where
  "chunk_row_of env i = (\<lambda>(n, c).
     \<lparr>cr_id = chunk_id i n, cr_entry_id = i, cr_heading = ck_heading c, cr_content = ck_text c,
      cr_snippet = trim_chars (ck_snippet c) (ve_max_excerpt_length env), cr_embedding = None\<rparr>)"

definition fts_row_of :: "string \<Rightarrow> string \<Rightarrow> string list \<Rightarrow> string list \<Rightarrow> nat \<times> chunk \<Rightarrow> fts_row" where
  "fts_row_of i title aliases tags = (\<lambda>(n, c).
     \<lparr>ft_chunk_id = chunk_id i n, ft_entry_id = i, ft_title = title, ft_aliases = join '' '' aliases,
      ft_tags = join '' '' tags, ft_content = ck_text c\<rparr>)"

text \<open>Inserting chunks appends the rows of the first of them, and of all unless it fails.\<close>

lemma insert_chunks_rows:
  assumes "insert_chunks env i title aliases tags n cs db = (r, db')"
  shows "\<exists>k rows. k \<le> length cs \<and> (r = Ok () \<longrightarrow> k = length cs) \<and>
    kd_entries db' = kd_entries db \<and> kd_links db' = kd_links db \<and>
    kd_chunks db' = kd_chunks db @ rows \<and> map plain_row rows = map (chunk_row_of env i) (enumerate n (take k cs)) \<and>
    kd_fts db' = kd_fts db @ map (fts_row_of i title aliases tags) (enumerate n (take k cs)) \<and>
    (distinct (map cr_id (kd_chunks db)) \<longrightarrow> distinct (map cr_id (kd_chunks db')))"
  using assms
proof (induction cs arbitrary: n db)
  case Nil
  then show ?case by (auto intro!: exI [of _ "[]"])
next
  case (Cons c cs)
  obtain x db1 where x: "chunk_embedding env title c db = (x, db1)" by (cases "chunk_embedding env title c db")
  note rows = chunk_embedding_rows [OF x, unfolded same_rows_def]
  show ?case
  proof (cases "x")
    case (Inl e)
    then have "r = Err e" "db' = db1" using Cons.prems x by (auto simp: insert_chunk_def)
    then show ?thesis using rows by (auto intro!: exI [of _ 0] exI [of _ "[]"])
  next
    case (Inr emb)
    show ?thesis
    proof (cases "\<exists>r \<in> set (kd_chunks db1). cr_id r = chunk_id i n")
      case True
      then have "r \<noteq> Ok ()" "db' = db1" using Cons.prems x Inr by (auto simp: insert_chunk_def Let_def)
      then show ?thesis using rows by (auto intro!: exI [of _ 0] exI [of _ "[]"])
    next
      case False
      define row where "row = \<lparr>cr_id = chunk_id i n, cr_entry_id = i, cr_heading = ck_heading c,
        cr_content = ck_text c, cr_snippet = trim_chars (ck_snippet c) (ve_max_excerpt_length env), cr_embedding = emb\<rparr>"
      define db2 where "db2 = db1\<lparr>kd_chunks := kd_chunks db1 @ [row], kd_fts := kd_fts db1 @ [fts_row_of i title aliases tags (n, c)]\<rparr>"
      have "insert_chunk env i title aliases tags n c db = (Ok (), db2)"
        using x Inr False by (simp add: insert_chunk_def Let_def row_def db2_def fts_row_of_def)
      then have "insert_chunks env i title aliases tags (Suc n) cs db2 = (r, db')" using Cons.prems by simp
      from Cons.IH [OF this] obtain k rs where k: "k \<le> length cs" "r = Ok () \<longrightarrow> k = length cs"
          "kd_entries db' = kd_entries db2" "kd_links db' = kd_links db2" "kd_chunks db' = kd_chunks db2 @ rs"
          "map plain_row rs = map (chunk_row_of env i) (enumerate (Suc n) (take k cs))"
          "kd_fts db' = kd_fts db2 @ map (fts_row_of i title aliases tags) (enumerate (Suc n) (take k cs))"
          "distinct (map cr_id (kd_chunks db2)) \<longrightarrow> distinct (map cr_id (kd_chunks db'))" by blast
      have "plain_row row = chunk_row_of env i (n, c)" by (simp add: plain_row_def row_def chunk_row_of_def)
      moreover have "distinct (map cr_id (kd_chunks db)) \<longrightarrow> distinct (map cr_id (kd_chunks db2))"
        using False rows by (auto simp: db2_def row_def)
      ultimately show ?thesis using k rows
        by (intro exI [of _ "Suc k"] exI [of _ "row # rs"]) (auto simp: db2_def)
    qed
  qed
qed

section \<open>Indexing a note\<close>

lemma insert_after_delete:
  assumes "index_ok db" "er_id row = i" "er_uri row = i"
  shows "insert_entry row (delete_entry i db) = (Ok (), (delete_entry i db)\<lparr>kd_entries := filter (\<lambda>r. er_id r \<noteq> i) (kd_entries db) @ [row]\<rparr>)"
  using assms by (auto simp: insert_entry_def delete_entry_def index_ok_def)

text \<open>The tables after a note that was read and not up to date: old rows are gone, the new entry is there,
  with the first of its chunks.\<close>

definition note_rows :: "'w vault_env \<Rightarrow> path \<Rightarrow> string \<Rightarrow> string \<Rightarrow> int \<Rightarrow> nat \<Rightarrow> chunk list \<Rightarrow> indexed_link list \<Rightarrow>
    'w knowledge_db \<Rightarrow> 'w knowledge_db \<Rightarrow> bool" where
  "note_rows env p rel content t k cs links db db' \<longleftrightarrow>
     k \<le> length cs \<and>
     kd_entries db' = filter (\<lambda>r. er_id r \<noteq> rel) (kd_entries db) @ [note_row env p rel content t] \<and>
     (\<exists>rows. kd_chunks db' = filter (\<lambda>r. cr_entry_id r \<noteq> rel) (kd_chunks db) @ rows \<and>
        map plain_row rows = map (chunk_row_of env rel) (enumerate 0 (take k cs))) \<and>
     kd_fts db' = filter (\<lambda>r. ft_entry_id r \<noteq> rel) (kd_fts db) @
       map (fts_row_of rel (note_title (parse_note (ve_is_date env) content) p) (pn_aliases (parse_note (ve_is_date env) content))
         (pn_tags (parse_note (ve_is_date env) content))) (enumerate 0 (take k cs)) \<and>
     kd_links db' = filter (\<lambda>r. lr_source_entry_id r \<noteq> rel) (kd_links db) @ map (\<lambda>l. \<lparr>lr_source_entry_id = rel, lr_link = l\<rparr>) links \<and>
     distinct (map cr_id (kd_chunks db'))"

lemma note_row_keys [simp]: "er_id (note_row env p rel content t) = rel" "er_uri (note_row env p rel content t) = rel"
  "er_updated_at_ms (note_row env p rel content t) = t"
  by (simp_all add: note_row_def Let_def)

lemma index_note_result:
  assumes ok: "index_ok db" and content: "read_note fs p = Ok content" "relative_display_path (ve_vault_root env) p = Ok rel"
    and stale: "\<not> is_entry_up_to_date db rel (ve_mtime_ms env fs p)"
    and run: "index_note_path_with_links env fs ni p db = Some (r, db')"
  shows "\<exists>md k links. chunk_markdown (ve_is_date env) content = Some md \<and>
    note_rows env p rel content (ve_mtime_ms env fs p) k (md_chunks md) links db db' \<and>
    (r = Ok True \<and> k = length (md_chunks md) \<and>
       links_for_note env content (parse_note (ve_is_date env) content) rel ni = Some links \<or> (\<exists>e. r = Err e))"
proof -
  let ?t = "ve_mtime_ms env fs p" and ?q = "parse_note (ve_is_date env) content"
  obtain md where md: "chunk_markdown (ve_is_date env) content = Some md"
    using run content stale by (auto simp: index_note_path_with_links_def Let_def bind_eq_Some_conv)
  define db1 where "db1 = (delete_entry rel db)\<lparr>kd_entries := filter (\<lambda>r. er_id r \<noteq> rel) (kd_entries db) @ [note_row env p rel content ?t]\<rparr>"
  have ins: "insert_entry (note_row env p rel content ?t) (delete_entry rel db) = (Ok (), db1)"
    unfolding db1_def by (rule insert_after_delete [OF ok]) simp_all
  obtain x db2 where x: "insert_chunks env rel (note_title ?q p) (pn_aliases ?q) (pn_tags ?q) 0 (md_chunks md) db1 = (x, db2)"
    by (cases "insert_chunks env rel (note_title ?q p) (pn_aliases ?q) (pn_tags ?q) 0 (md_chunks md) db1")
  have "distinct (map cr_id (kd_chunks db1))"
    using index_ok_delete [OF ok, of rel] by (simp add: index_ok_def db1_def)
  then obtain k where k: "x = Ok () \<longrightarrow> k = length (md_chunks md)" "note_rows env p rel content ?t k (md_chunks md) [] db db2"
    using insert_chunks_rows [OF x] unfolding note_rows_def by (auto simp: db1_def delete_entry_def)
  have step: "index_note_path_with_links env fs ni p db =
      (case x of Inl e \<Rightarrow> Some (Err e, db2)
       | Inr _ \<Rightarrow> map_option (\<lambda>links. (Ok True, insert_links rel links db2)) (links_for_note env content ?q rel ni))"
    using content stale md ins x by (simp add: index_note_path_with_links_def Let_def)
  show ?thesis
  proof (cases x)
    case (Inl e)
    then show ?thesis using run step md k(2) by auto
  next
    case (Inr u)
    then obtain links where "links_for_note env content ?q rel ni = Some links" "r = Ok True" "db' = insert_links rel links db2"
      using run step by auto
    moreover from this have "note_rows env p rel content ?t k (md_chunks md) links db db'"
      using k(2) by (simp add: note_rows_def insert_links_def)
    ultimately show ?thesis using md k(1) Inr by auto
  qed
qed

lemma find_after_none: "find P xs = None \<Longrightarrow> find P (xs @ ys) = find P ys"
  by (induction xs) (auto split: if_splits)

lemma note_rows_up_to_date:
  assumes "index_ok db" "note_rows env p rel content t k cs links db db'"
  shows "is_entry_up_to_date db' rel t"
proof -
  have "find (\<lambda>r. er_uri r = rel) (filter (\<lambda>r. er_id r \<noteq> rel) (kd_entries db)) = None"
    using assms(1) by (auto simp: find_None_iff index_ok_def)
  then show ?thesis using assms(2) by (simp add: is_entry_up_to_date_def note_rows_def find_after_none)
qed

lemma chunk_rows_entry:
  assumes "map plain_row rs = map (chunk_row_of env rel) xs" "r \<in> set rs"
  shows "cr_entry_id r = rel \<and> (\<exists>n. cr_id r = chunk_id rel n)"
proof -
  have "plain_row r \<in> set (map plain_row rs)" using assms(2) by simp
  then obtain x where "plain_row r = chunk_row_of env rel x" unfolding assms(1) by auto
  then have "cr_entry_id (plain_row r) = rel" "cr_id (plain_row r) = chunk_id rel (fst x)"
    by (simp_all add: chunk_row_of_def case_prod_unfold)
  then show ?thesis by (auto simp: plain_row_def)
qed

lemma note_rows_ok:
  assumes ok: "index_ok db" and rows: "note_rows env p rel content t k cs links db db'"
  shows "index_ok db'"
proof -
  obtain rs where rs: "kd_chunks db' = filter (\<lambda>r. cr_entry_id r \<noteq> rel) (kd_chunks db) @ rs"
    "map plain_row rs = map (chunk_row_of env rel) (enumerate 0 (take k cs))" using rows by (auto simp: note_rows_def)
  note row = chunk_rows_entry [OF rs(2)]
  have keys: "map (\<lambda>r. (cr_id r, cr_entry_id r, cr_content r)) rs =
      map (\<lambda>(n, c). (chunk_id rel n, rel, ck_text c)) (enumerate 0 (take k cs))"
  proof -
    have "map (\<lambda>r. (cr_id r, cr_entry_id r, cr_content r)) rs = map (\<lambda>r. (cr_id r, cr_entry_id r, cr_content r)) (map plain_row rs)"
      by (simp add: plain_row_def)
    then show ?thesis unfolding rs(2) by (simp add: chunk_row_of_def case_prod_unfold)
  qed
  have "index_ok (delete_entry rel db)" using ok by (rule index_ok_delete)
  then show ?thesis using rows row rs(1) keys
    unfolding index_ok_def fts_mirror_def note_rows_def
    by (auto simp: delete_entry_def fts_row_of_def case_prod_unfold comp_def)
qed

section \<open>Indexing a vault\<close>

lemma index_note_returns: "\<exists>r db'. index_note_path_with_links env fs (build_name_index targets) p db = Some (r, db')"
proof -
  have links: "\<exists>links. links_for_note env content parsed rel (build_name_index targets) = Some links" for content parsed rel
    using exact_pass_ok [of content targets] discover_returns by (fastforce simp: links_for_note_def)
  let ?in = "and_then (read_note fs p) (\<lambda>content. and_then (relative_display_path (ve_vault_root env) p) (\<lambda>rel. Ok (content, rel)))"
  show ?thesis
  proof (cases ?in)
    case (Inr x)
    obtain content rel where x: "x = (content, rel)" by (cases x)
    obtain md where md: "chunk_markdown (ve_is_date env) content = Some md" using chunk_markdown_returns by blast
    obtain ls where "links_for_note env content (parse_note (ve_is_date env) content) rel (build_name_index targets) = Some ls"
      using links by blast
    then show ?thesis using Inr md x
      by (auto simp: index_note_path_with_links_def Let_def split: sum.split prod.split)
  qed (simp add: index_note_path_with_links_def)
qed

definition entry_ids :: "'w knowledge_db \<Rightarrow> string set" where
  "entry_ids db = er_id ` set (kd_entries db)"

lemma index_note_cases:
  assumes "index_note_path_with_links env fs ni p db = Some (r, db')"
  obtains e where "r = Err e" "db' = db"
  | content rel where "read_note fs p = Ok content" "relative_display_path (ve_vault_root env) p = Ok rel"
  using assms by (cases "read_note fs p"; cases "relative_display_path (ve_vault_root env) p")
    (auto simp: index_note_path_with_links_def)

lemma index_note_step:
  assumes ok: "index_ok db" and run: "index_note_path_with_links env fs ni p db = Some (r, db')"
  shows "index_ok db' \<and> entry_ids db \<subseteq> entry_ids db' \<and>
    (\<forall>i \<in> entry_ids db' - entry_ids db. relative_display_path (ve_vault_root env) p = Ok i) \<and>
    ((\<exists>b. r = Ok b) \<longrightarrow> relative_display_path (ve_vault_root env) p \<in> Inr ` entry_ids db')"
  using run
proof (cases rule: index_note_cases)
  case (1 e)
  then show ?thesis using ok by simp
next
  case (2 content rel)
  let ?t = "ve_mtime_ms env fs p"
  show ?thesis
  proof (cases "is_entry_up_to_date db rel ?t")
    case True
    then have "db' = db" using run 2 by (simp add: index_note_path_with_links_def Let_def)
    moreover have "rel \<in> entry_ids db"
      using True ok by (auto simp: is_entry_up_to_date_def find_Some_iff entry_ids_def index_ok_def)
    ultimately show ?thesis using ok 2 by simp
  next
    case False
    from index_note_result [OF ok 2 False run] obtain md k links where "chunk_markdown (ve_is_date env) content = Some md"
      "note_rows env p rel content ?t k (md_chunks md) links db db'" by auto
    then have "index_ok db'" "kd_entries db' = filter (\<lambda>r. er_id r \<noteq> rel) (kd_entries db) @ [note_row env p rel content ?t]"
      using note_rows_ok [OF ok] by (blast, simp add: note_rows_def)
    then show ?thesis using 2 by (auto simp: entry_ids_def)
  qed
qed

text \<open>The names of files below a directory.\<close>

definition names_of :: "'w vault_env \<Rightarrow> path list \<Rightarrow> string set" where
  "names_of env files = {i. Ok i \<in> relative_display_path (ve_vault_root env) ` set files}"

lemma index_files_step:
  assumes "index_ok db" "entry_ids db \<subseteq> names_of env S" "set files \<subseteq> set S"
  shows "\<exists>r db'. index_files env fs (build_name_index targets) n files db = Some (r, db') \<and> index_ok db' \<and>
    entry_ids db \<subseteq> entry_ids db' \<and> entry_ids db' \<subseteq> names_of env S \<and> ((\<exists>m. r = Ok m) \<longrightarrow> names_of env files \<subseteq> entry_ids db')"
  using assms
proof (induction files arbitrary: n db)
  case Nil
  then show ?case by (simp add: names_of_def)
next
  case (Cons p files)
  obtain r1 db1 where r1: "index_note_path_with_links env fs (build_name_index targets) p db = Some (r1, db1)"
    using index_note_returns by blast
  note step = index_note_step [OF Cons.prems(1) r1]
  have "i \<in> names_of env S" if "relative_display_path (ve_vault_root env) p = Ok i" for i
    using that Cons.prems(3) unfolding names_of_def by (metis (mono_tags) image_eqI list.set_intros(1) mem_Collect_eq subsetD)
  then have sub: "entry_ids db \<subseteq> entry_ids db1" "entry_ids db1 \<subseteq> names_of env S" using step Cons.prems(2) by blast+
  show ?case
  proof (cases r1)
    case (Inl e)
    then show ?thesis using r1 step sub by simp
  next
    case (Inr fresh)
    then obtain i where i: "relative_display_path (ve_vault_root env) p = Ok i" "i \<in> entry_ids db1" using step by auto
    obtain r db' where "index_files env fs (build_name_index targets) (n + (if fresh then 1 else 0)) files db1 = Some (r, db')"
      "index_ok db'" "entry_ids db1 \<subseteq> entry_ids db'" "entry_ids db' \<subseteq> names_of env S" "(\<exists>m. r = Ok m) \<longrightarrow> names_of env files \<subseteq> entry_ids db'"
      using Cons.IH [of db1 "n + (if fresh then 1 else 0)"] step sub(2) Cons.prems(3) by auto
    moreover have "names_of env (p # files) = insert i (names_of env files)" using i(1) by (auto simp: names_of_def)
    ultimately show ?thesis using r1 Inr sub(1) i(2) by (auto simp del: One_nat_def)
  qed
qed

lemma delete_entries:
  "index_ok db \<Longrightarrow> index_ok (fold delete_entry is db) \<and> entry_ids (fold delete_entry is db) = entry_ids db - set is"
proof (induction "is" arbitrary: db)
  case (Cons i "is")
  have "entry_ids (delete_entry i db) = entry_ids db - {i}" by (auto simp: entry_ids_def delete_entry_def)
  then show ?case using Cons.IH [OF index_ok_delete [OF Cons.prems, of i]] by auto
qed simp

lemma selected_names:
  "select_markdown vault ex ps = Ok files \<Longrightarrow> p \<in> set files \<Longrightarrow> \<exists>i. relative_display_path vault p = Ok i"
proof (induction ps arbitrary: files)
  case (Cons q ps)
  then show ?case by (fastforce simp: relative_display_path_def and_then_Ok_iff split: if_splits option.splits)
qed simp

lemma collected_names:
  assumes "collect_markdown_files env ex fs = Ok files"
  shows "\<forall>p \<in> set files. \<exists>i. relative_display_path (ve_vault_root env) p = Ok i"
  using assms selected_names by (auto simp: collect_markdown_files_def split: sum.splits)

lemma index_vault_result:
  assumes "index_ok db"
  shows "\<exists>r db'. index_vault env fs db = Some (r, db') \<and> index_ok db' \<and>
    (\<forall>n files. r = Ok n \<longrightarrow> collect_markdown_files env (ve_exclude_folders env) fs = Ok files \<longrightarrow>
       Inr ` er_id ` set (kd_entries db') = relative_display_path (ve_vault_root env) ` set files)"
proof (cases "collect_markdown_files env (ve_exclude_folders env) fs")
  case (Inl e)
  then show ?thesis using assms by (simp add: index_vault_def)
next
  case (Inr files)
  show ?thesis
  proof (cases "build_vault_name_index env fs files")
    case (Inl e)
    then show ?thesis using assms Inr by (simp add: index_vault_def)
  next
    case ni: (Inr ni)
    then obtain targets where targets: "ni = build_name_index targets"
      by (auto simp: build_vault_name_index_def and_then_Ok_iff)
    define db0 where "db0 = remove_missing_entries (ve_vault_root env) files db"
    have "index_ok db0" "entry_ids db0 \<subseteq> names_of env files"
      using delete_entries [OF assms] unfolding db0_def remove_missing_entries_def by (auto simp: entry_ids_def names_of_def)
    from index_files_step [OF this subset_refl, of fs targets 0] obtain r db' where
      "index_files env fs ni 0 files db0 = Some (r, db')" "index_ok db'" "entry_ids db' \<subseteq> names_of env files"
      "(\<exists>m. r = Ok m) \<longrightarrow> names_of env files \<subseteq> entry_ids db'" unfolding targets by blast
    moreover have "Inr ` names_of env files = relative_display_path (ve_vault_root env) ` set files"
      using collected_names [OF Inr] unfolding names_of_def by (auto simp: image_iff) metis
    ultimately show ?thesis using Inr ni unfolding entry_ids_def by (auto simp: index_vault_def db0_def)
  qed
qed

text \<open>C14: Indexing a vault returns and keeps the tables consistent: identifiers of entries and chunks are
  unique, every chunk and link belongs to an entry, and the full-text table mirrors the chunks. When it
  succeeds, the entries are exactly the notes of the vault.\<close>

theorem index_vault_is_complete:
  assumes "index_ok db"
  shows "\<exists>r db'. index_vault env fs db = Some (r, db') \<and> index_ok db' \<and>
    (\<forall>n files. r = Ok n \<longrightarrow> collect_markdown_files env (ve_exclude_folders env) fs = Ok files \<longrightarrow>
       Inr ` er_id ` set (kd_entries db') = relative_display_path (ve_vault_root env) ` set files)"
  using assms by (rule index_vault_result)

text \<open>Indexing a note that is not up to date replaces exactly the rows of this note: its entry, a row for
  each chunk of its text and its links; the rows of all other notes stay as they are.\<close>

theorem indexed_note_replaces_its_rows:
  assumes "index_ok db" "read_note fs p = Ok content" "relative_display_path (ve_vault_root env) p = Ok rel"
    and "\<not> is_entry_up_to_date db rel (ve_mtime_ms env fs p)"
    and "index_note_path_with_links env fs ni p db = Some (Ok True, db')"
  shows "filter (\<lambda>r. er_id r = rel) (kd_entries db') = [note_row env p rel content (ve_mtime_ms env fs p)] \<and>
    map_option (\<lambda>md. map (chunk_row_of env rel) (enumerate 0 (md_chunks md))) (chunk_markdown (ve_is_date env) content) =
      Some (map plain_row (filter (\<lambda>r. cr_entry_id r = rel) (kd_chunks db'))) \<and>
    links_for_note env content (parse_note (ve_is_date env) content) rel ni =
      Some (map lr_link (filter (\<lambda>r. lr_source_entry_id r = rel) (kd_links db'))) \<and>
    filter (\<lambda>r. er_id r \<noteq> rel) (kd_entries db') = filter (\<lambda>r. er_id r \<noteq> rel) (kd_entries db) \<and>
    filter (\<lambda>r. cr_entry_id r \<noteq> rel) (kd_chunks db') = filter (\<lambda>r. cr_entry_id r \<noteq> rel) (kd_chunks db) \<and>
    filter (\<lambda>r. lr_source_entry_id r \<noteq> rel) (kd_links db') = filter (\<lambda>r. lr_source_entry_id r \<noteq> rel) (kd_links db) \<and>
    index_ok db'"
proof -
  let ?t = "ve_mtime_ms env fs p"
  from index_note_result [OF assms] obtain md links where md: "chunk_markdown (ve_is_date env) content = Some md"
    and rows: "note_rows env p rel content ?t (length (md_chunks md)) (md_chunks md) links db db'"
    and links: "links_for_note env content (parse_note (ve_is_date env) content) rel ni = Some links" by auto
  obtain rs where rs: "kd_chunks db' = filter (\<lambda>r. cr_entry_id r \<noteq> rel) (kd_chunks db) @ rs"
    "map plain_row rs = map (chunk_row_of env rel) (enumerate 0 (md_chunks md))" using rows by (auto simp: note_rows_def)
  have split: "filter (\<lambda>r. cr_entry_id r = rel) rs = rs" "filter (\<lambda>r. cr_entry_id r \<noteq> rel) rs = []"
    using chunk_rows_entry [OF rs(2)] by (auto simp: filter_id_conv filter_empty_conv)
  show ?thesis using rows md links rs split note_rows_ok [OF assms(1) rows]
    unfolding note_rows_def by (auto simp: filter_empty_conv comp_def filter_map)
qed

text \<open>C23: When indexing a note fails after it was read, for instance because the embedding model fails, the
  entry is already stored with the time of the file: every later attempt on the unchanged file reports the
  note as up to date and changes nothing, so that its missing chunks and links stay missing.\<close>

theorem interrupted_index_is_final:
  assumes "index_ok db" "read_note fs p = Ok content" "relative_display_path (ve_vault_root env) p = Ok rel"
    and "index_note_path_with_links env fs ni p db = Some (Err e, db')"
    and "read_note fs' p' = Ok content'" "relative_display_path (ve_vault_root env') p' = Ok rel"
    and "ve_mtime_ms env' fs' p' = ve_mtime_ms env fs p"
  shows "index_note_path_with_links env' fs' ni' p' db' = Some (Ok False, db')"
proof -
  have "\<not> is_entry_up_to_date db rel (ve_mtime_ms env fs p)"
    using assms(2-4) by (auto simp: index_note_path_with_links_def Let_def)
  from index_note_result [OF assms(1-3) this assms(4)] obtain md k links where "chunk_markdown (ve_is_date env) content = Some md"
    "note_rows env p rel content (ve_mtime_ms env fs p) k (md_chunks md) links db db'" by auto
  then have "is_entry_up_to_date db' rel (ve_mtime_ms env fs p)"
    using note_rows_up_to_date [OF assms(1)] by blast
  then show ?thesis using assms(5-7) by (simp add: index_note_path_with_links_def Let_def)
qed

section \<open>A small vault\<close>

definition small_fs :: file_system where
  "small_fs = bt_insert [''v''] Directory (bt_insert [''v'', ''a.md''] (RegularFile ''[[Bob]]'') [])"

definition small_env :: "(string \<Rightarrow> unit \<Rightarrow> (knowledge_error + rat list) \<times> unit) option \<Rightarrow> unit vault_env" where
  "small_env embedder =
     \<lparr>ve_vault_root = [''v''], ve_exclude_folders = [], ve_max_excerpt_length = 40, ve_embedder = embedder,
      ve_is_date = (\<lambda>_. False), ve_similarity = (\<lambda>_ _. 0), ve_json_to_string = (\<lambda>_. []),
      ve_walk = (\<lambda>_ _. Ok [[''v'', ''a.md'']]), ve_mtime_ms = (\<lambda>_ _. 7), ve_create_vector_index = Ok ()\<rparr>"

definition empty_db :: "unit knowledge_db" where
  "empty_db = \<lparr>kd_entries = [], kd_chunks = [], kd_links = [], kd_fts = [], kd_metadata = [], kd_vector_index = False, kd_world = ()\<rparr>"

lemma empty_db_ok: "index_ok empty_db"
  by (simp add: index_ok_def empty_db_def fts_mirror_def)

definition small_name_index :: "name_entry list" where
  "small_name_index = build_name_index [\<lparr>nt_path = ''Bob.md'', nt_title = ''Bob'', nt_aliases = []\<rparr>]"

lemma small_read: "read_note small_fs [''v'', ''a.md''] = Ok ''[[Bob]]''"
  by code_simp

lemma small_rel: "relative_display_path (ve_vault_root (small_env embedder)) [''v'', ''a.md''] = Ok ''a.md''"
  by code_simp

theorem index_vault_is_complete_witness:
  "\<exists>db'. index_vault (small_env None) small_fs empty_db = Some (Ok 1, db') \<and> index_ok db' \<and>
     er_id ` set (kd_entries db') = {''a.md''}"
proof -
  have run: "map_option fst (index_vault (small_env None) small_fs empty_db) = Some (Ok 1)" by code_simp
  have fl: "collect_markdown_files (small_env None) (ve_exclude_folders (small_env None)) small_fs = Ok [[''v'', ''a.md'']]"
    by code_simp
  from index_vault_is_complete [OF empty_db_ok, of "small_env None" small_fs] obtain r db' where
    db': "index_vault (small_env None) small_fs empty_db = Some (r, db')" "index_ok db'"
    and ids: "\<And>n files. r = Ok n \<Longrightarrow> collect_markdown_files (small_env None) (ve_exclude_folders (small_env None)) small_fs = Ok files \<Longrightarrow>
       Inr ` er_id ` set (kd_entries db') = relative_display_path (ve_vault_root (small_env None)) ` set files" by blast
  have "r = Ok 1" using run db'(1) by simp
  then have "(Inr :: string \<Rightarrow> knowledge_error + string) ` er_id ` set (kd_entries db') = Inr ` {''a.md''}"
    using ids [OF _ fl] small_rel by simp
  then have "er_id ` set (kd_entries db') = {''a.md''}" by (simp only: inj_image_eq_iff inj_Inr)
  then show ?thesis using db' \<open>r = Ok 1\<close> by simp
qed

theorem indexed_note_replaces_its_rows_witness:
  "\<exists>db'. index_note_path_with_links (small_env None) small_fs small_name_index [''v'', ''a.md''] empty_db = Some (Ok True, db') \<and>
     map plain_row (filter (\<lambda>r. cr_entry_id r = ''a.md'') (kd_chunks db')) \<noteq> [] \<and>
     map lr_link (filter (\<lambda>r. lr_source_entry_id r = ''a.md'') (kd_links db')) =
       [\<lparr>il_target_entry_id = Some ''Bob.md'', il_target_title = ''Bob'', il_matched_text = Some ''Bob'',
         il_match_type = ''wikilink'', il_confidence_bp = None\<rparr>]"
proof -
  have run: "map_option fst (index_note_path_with_links (small_env None) small_fs small_name_index [''v'', ''a.md''] empty_db) = Some (Ok True)"
    by code_simp
  then obtain db' where db': "index_note_path_with_links (small_env None) small_fs small_name_index [''v'', ''a.md''] empty_db = Some (Ok True, db')"
    by auto
  have chunks: "map_option (\<lambda>md. map (chunk_row_of (small_env None) ''a.md'') (enumerate 0 (md_chunks md)) \<noteq> [])
      (chunk_markdown (ve_is_date (small_env None)) ''[[Bob]]'') = Some True" by code_simp
  have links: "links_for_note (small_env None) ''[[Bob]]''
      (parse_note (ve_is_date (small_env None)) ''[[Bob]]'') ''a.md'' small_name_index =
      Some [\<lparr>il_target_entry_id = Some ''Bob.md'', il_target_title = ''Bob'', il_matched_text = Some ''Bob'',
         il_match_type = ''wikilink'', il_confidence_bp = None\<rparr>]" by code_simp
  have "\<not> is_entry_up_to_date empty_db ''a.md'' (ve_mtime_ms (small_env None) small_fs [''v'', ''a.md''])"
    by code_simp
  from indexed_note_replaces_its_rows [OF empty_db_ok small_read small_rel this db'] show ?thesis
    using db' chunks links by (auto simp: option.map_comp)
qed

theorem interrupted_index_is_final_witness:
  "\<exists>e db'. index_note_path_with_links (small_env (Some (\<lambda>_ w. (Err (ProviderError ''offline''), w)))) small_fs small_name_index
       [''v'', ''a.md''] empty_db = Some (Err e, db') \<and> kd_chunks db' = [] \<and>
     index_note_path_with_links (small_env None) small_fs small_name_index [''v'', ''a.md''] db' = Some (Ok False, db')"
proof -
  let ?env = "small_env (Some (\<lambda>_ w. (Err (ProviderError ''offline''), w)))"
  have "map_option (\<lambda>(r, db). (r, kd_chunks db)) (index_note_path_with_links ?env small_fs small_name_index [''v'', ''a.md''] empty_db) =
      Some (Err (ProviderError ''offline''), [])" by code_simp
  then obtain db' where db': "index_note_path_with_links ?env small_fs small_name_index [''v'', ''a.md''] empty_db =
      Some (Err (ProviderError ''offline''), db')" "kd_chunks db' = []" by auto
  have "ve_mtime_ms (small_env None) small_fs [''v'', ''a.md''] =
      ve_mtime_ms ?env small_fs [''v'', ''a.md'']" by (simp add: small_env_def)
  from interrupted_index_is_final [OF empty_db_ok small_read small_rel db'(1) small_read small_rel this] show ?thesis
    using db' by blast
qed

end
