(* ===== verification/Vault_Properties.thy ===== *)
theory Vault_Properties
  imports Knowledge_Vault Index_Properties File_Confinement
begin

text \<open>
  A vault in use keeps its tables consistent, whatever order files change and operations run in; handled
  events bring the index up to date; a new note is written below the vault and found again, unless its
  path has a backslash.
\<close>

section \<open>Every step keeps the tables consistent\<close>

lemma index_ok_chunks:
  assumes "\<And>r. cr_id (f r) = cr_id r" "\<And>r. cr_entry_id (f r) = cr_entry_id r" "\<And>r. cr_content (f r) = cr_content r"
  shows "index_ok (db\<lparr>kd_chunks := map f (kd_chunks db)\<rparr>) = index_ok db"
  using assms by (simp add: index_ok_def fts_mirror_def comp_def)

lemma index_ok_set_embedding: "index_ok (set_embedding i v db) = index_ok db"
  unfolding set_embedding_def by (rule index_ok_chunks) simp_all

lemma embed_rows_ok: "embed_rows env emb n rows db = (r, db') \<Longrightarrow> index_ok db' = index_ok db"
proof (induction env emb n rows db rule: embed_rows.induct)
  case (2 env emb n c e rows db)
  obtain x db1 where x: "embed_text env emb (unwrap_or (cr_heading c) (er_title e) @ [newline, newline] @ cr_content c) db = (x, db1)"
    by fastforce
  have "index_ok db1 = index_ok db" using embed_text_rows [OF x] by (rule index_ok_same_rows)
  then show ?case using 2(1) [OF x [symmetric]] 2(2) x by (cases x) (auto simp: index_ok_set_embedding)
qed simp

lemma embed_missing_ok: "embed_missing_chunks env db = (r, db') \<Longrightarrow> index_ok db' = index_ok db"
  by (auto simp: embed_missing_chunks_def embed_rows_ok split: option.splits)

lemma name_index_built: "build_vault_name_index env fs fl = Ok ni \<Longrightarrow> \<exists>targets. ni = build_name_index targets"
  by (auto simp: build_vault_name_index_def and_then_Ok_iff)

lemma index_note_path_step:
  assumes "index_ok db"
  shows "\<exists>r db'. index_note_path env fs p db = Some (r, db') \<and> index_ok db'"
proof (cases "and_then (collect_markdown_files env [] fs) (build_vault_name_index env fs)")
  case (Inl e)
  then show ?thesis using assms by (simp add: index_note_path_def)
next
  case (Inr ni)
  then obtain fl where "build_vault_name_index env fs fl = Ok ni" by (auto simp: and_then_Ok_iff)
  then obtain targets where "ni = build_name_index targets" using name_index_built by blast
  then obtain r db' where run: "index_note_path_with_links env fs ni p db = Some (r, db')" using index_note_returns by blast
  then show ?thesis using index_note_step [OF assms run] Inr by (simp add: index_note_path_def)
qed

lemma index_vault_step:
  assumes "index_ok db"
  shows "\<exists>r db'. index_vault env fs db = Some (r, db') \<and> index_ok db'"
  using index_vault_result [OF assms] by blast

lemma after_index_state [simp]:
  "vs_db (snd (after_index st (r, db))) = db" "vs_fs (snd (after_index st (r, db))) = vs_fs st" "fst (after_index st (r, db)) = r"
  by (auto simp: after_index_def refresh_vector_index_enabled_def split: sum.splits)

lemma after_indexD: "after_index st (r, db) = (r', st') \<Longrightarrow> r' = r \<and> vs_db st' = db \<and> vs_fs st' = vs_fs st"
  by (metis after_index_state fst_conv snd_conv)

definition returns_ok :: "('a \<times> 'w vault_state) option \<Rightarrow> bool" where
  "returns_ok x \<longleftrightarrow> (\<exists>r st. x = Some (r, st) \<and> index_ok (vs_db st))"

lemma returns_okI: "x = Some (r, st) \<Longrightarrow> index_ok (vs_db st) \<Longrightarrow> returns_ok x"
  by (auto simp: returns_ok_def)

lemma returns_ok_map: "returns_ok x \<Longrightarrow> (\<And>r st. vs_db (snd (f (r, st))) = vs_db st) \<Longrightarrow> returns_ok (map_option f x)"
  by (fastforce simp: returns_ok_def intro: prod.collapse [symmetric])

lemma index_path_ok: "index_ok (vs_db st) \<Longrightarrow> returns_ok (index_path env p st)"
  using index_note_path_step [of "vs_db st" env "vs_fs st" p] after_index_state(1)
  by (fastforce simp: index_path_def returns_ok_def intro: prod.collapse [symmetric])

lemma reindex_ok: "index_ok (vs_db st) \<Longrightarrow> returns_ok (reindex env st)"
  using index_vault_step [of "vs_db st" env "vs_fs st"] after_index_state(1)
  by (fastforce simp: reindex_def returns_ok_def intro: prod.collapse [symmetric])

lemma reconcile_ok: "index_ok (vs_db st) \<Longrightarrow> returns_ok (reconcile_existing_index env st)"
  using reindex_ok by (auto simp: reconcile_existing_index_def returns_ok_def)

lemma remove_path_ok: "index_ok (vs_db st) \<Longrightarrow> index_ok (vs_db (remove_path rel st))"
  by (simp add: remove_path_def index_ok_delete)

lemma index_if_exists_ok: "index_ok (vs_db st) \<Longrightarrow> returns_ok (index_if_exists env p st)"
  using index_path_ok [of st env p] by (auto simp: index_if_exists_def intro!: returns_ok_map) (simp add: returns_ok_def)

lemma handle_event_ok: "index_ok (vs_db st) \<Longrightarrow> returns_ok (handle_event env event st)"
proof (cases event)
  case (Moved p q)
  assume "index_ok (vs_db st)"
  then show ?thesis using Moved index_if_exists_ok [OF remove_path_ok]
    by (auto split: sum.split simp: returns_ok_def [of "Some _"])
next
  case (Deleted p)
  assume "index_ok (vs_db st)"
  then show ?thesis using Deleted remove_path_ok by (auto split: sum.split simp: returns_ok_def)
next
  case FullRescan
  assume "index_ok (vs_db st)"
  then show ?thesis using FullRescan reconcile_ok by (auto intro!: returns_ok_map)
qed (simp add: index_if_exists_ok)

lemma create_note_ok:
  assumes "index_ok (vs_db st)"
  shows "returns_ok (create_note env jf uuid raw content st)"
proof -
  have index: "returns_ok (index_path env p (st\<lparr>vs_fs := fs'\<rparr>))" for p fs'
    using assms index_path_ok [of "st\<lparr>vs_fs := fs'\<rparr>" env p] by simp
  show ?thesis
  proof (cases "normalize_note_path raw")
    case (Inl e)
    then show ?thesis using assms by (simp add: create_note_def returns_ok_def)
  next
    case (Inr rel)
    obtain w fs' where w: "write_note uuid (vault_join (ve_vault_root env) rel) content (vs_fs st) = (w, fs')" by fastforce
    show ?thesis using Inr w assms
      by (cases w) (auto simp: create_note_def Let_def returns_ok_def [of "Some _"] intro!: returns_ok_map [OF index]
        split: sum.split option.split)
  qed
qed

lemma vault_step_ok:
  assumes "vault_step env st st'" "index_ok (vs_db st)"
  shows "index_ok (vs_db st')"
  using assms
proof cases
  case (watched event r)
  then show ?thesis using handle_event_ok [of st env event] assms(2) by (simp add: returns_ok_def)
next
  case (created jf uuid raw content r)
  then show ?thesis using create_note_ok [of st env jf uuid raw content] assms(2) by (simp add: returns_ok_def)
next
  case (reindexed r)
  then show ?thesis using reindex_ok [of st env] assms(2) by (simp add: returns_ok_def)
next
  case (embedded r)
  obtain x db where x: "embed_missing_chunks env (vs_db st) = (x, db)" by fastforce
  then show ?thesis using embedded embed_missing_ok [OF x] assms(2)
    by (auto simp: provider_embed_missing_chunks_def dest: after_indexD split: if_splits)
qed simp


section \<open>Handled events\<close>

text \<open>The rows of a note in all tables.\<close>

definition rows_of :: "string \<Rightarrow> 'w knowledge_db \<Rightarrow> entry_row list \<times> chunk_row list \<times> link_row list \<times> fts_row list" where
  "rows_of i db =
     (filter (\<lambda>r. er_id r = i) (kd_entries db), filter (\<lambda>r. cr_entry_id r = i) (kd_chunks db),
      filter (\<lambda>r. lr_source_entry_id r = i) (kd_links db), filter (\<lambda>r. ft_entry_id r = i) (kd_fts db))"

lemma filter_eq_other: "k \<noteq> i \<Longrightarrow> filter (\<lambda>x. f x \<noteq> i \<and> f x = k) xs = filter (\<lambda>x. f x = k) xs"
  by (rule filter_cong) auto

lemma rows_of_delete: "rows_of k (delete_entry i db) = (if k = i then ([], [], [], []) else rows_of k db)"
  by (simp add: rows_of_def delete_entry_def filter_eq_other)

lemma note_rows_other:
  assumes "note_rows env p rel content t n cs links db db'" "k \<noteq> rel"
  shows "rows_of k db' = rows_of k db"
proof -
  obtain rs where rs: "kd_chunks db' = filter (\<lambda>r. cr_entry_id r \<noteq> rel) (kd_chunks db) @ rs"
    "map plain_row rs = map (chunk_row_of env rel) (enumerate 0 (take n cs))" using assms(1) by (auto simp: note_rows_def)
  have "filter (\<lambda>r. cr_entry_id r = k) rs = []"
    using chunk_rows_entry [OF rs(2)] assms(2) by (auto simp: filter_empty_conv)
  moreover have "filter (\<lambda>r. ft_entry_id r = k) (map (fts_row_of rel a b c) xs) = []" for a b c xs
    using assms(2) by (auto simp: filter_empty_conv fts_row_of_def)
  moreover have "filter (\<lambda>r. lr_source_entry_id r = k) (map (\<lambda>l. \<lparr>lr_source_entry_id = rel, lr_link = l\<rparr>) links) = []"
    using assms(2) by (auto simp: filter_empty_conv)
  ultimately show ?thesis using assms rs(1)
    unfolding note_rows_def rows_of_def by (simp add: filter_eq_other)
qed

lemma indexed_note_current:
  assumes ok: "index_ok db" and run: "index_note_path_with_links env fs ni p db = Some (Ok b, db')"
    and rel: "relative_display_path (ve_vault_root env) p = Ok rel"
  shows "is_entry_up_to_date db' rel (ve_mtime_ms env fs p) \<and> (\<forall>k. k \<noteq> rel \<longrightarrow> rows_of k db' = rows_of k db)"
  using run
proof (cases rule: index_note_cases)
  case (2 content rel')
  show ?thesis
  proof (cases "is_entry_up_to_date db rel (ve_mtime_ms env fs p)")
    case True
    then have "db' = db" using run 2 rel by (simp add: index_note_path_with_links_def Let_def)
    then show ?thesis using True by simp
  next
    case False
    from index_note_result [OF ok 2(1) rel False run] obtain md k links where "chunk_markdown (ve_is_date env) content = Some md"
      and rows: "note_rows env p rel content (ve_mtime_ms env fs p) k (md_chunks md) links db db'" by auto
    show ?thesis using note_rows_up_to_date [OF ok rows] note_rows_other [OF rows] by blast
  qed
qed simp

lemma index_path_runs:
  assumes "index_path env p st = Some (r, st')"
  shows "vs_fs st' = vs_fs st"
    and "r = Ok b \<Longrightarrow> \<exists>ni. index_note_path_with_links env (vs_fs st) ni p (vs_db st) = Some (Ok b, vs_db st')"
  using assms by (auto simp: index_path_def index_note_path_def dest!: after_indexD split: sum.splits)

lemma no_rows: "index_ok db \<Longrightarrow> i \<notin> entry_ids db \<Longrightarrow> rows_of i db = ([], [], [], [])"
proof -
  assume ok: "index_ok db" and i: "i \<notin> entry_ids db"
  have chunk: "cr_entry_id c \<noteq> i" if "c \<in> set (kd_chunks db)" for c using ok i that by (auto simp: index_ok_def entry_ids_def)
  have "ft_entry_id r \<in> cr_entry_id ` set (kd_chunks db)" if "r \<in> set (kd_fts db)" for r
  proof -
    have "(ft_chunk_id r, ft_entry_id r, ft_content r) \<in> set (map (\<lambda>r. (cr_id r, cr_entry_id r, cr_content r)) (kd_chunks db))"
      using ok that unfolding index_ok_def fts_mirror_def by (metis (mono_tags, lifting) image_eqI list.set_map)
    then show ?thesis by auto
  qed
  then show ?thesis using ok i chunk unfolding rows_of_def index_ok_def entry_ids_def by (fastforce simp: filter_empty_conv)
qed

text \<open>When the event of a renamed note is handled, no row of the old name is left in any table, the entry of
  the new name carries the time of the file, and the rows of all other notes stay.\<close>

theorem renamed_note_moves_in_the_index:
  assumes "index_ok (vs_db st)" "relative_display_path (ve_vault_root env) p = Ok i"
    and "relative_display_path (ve_vault_root env) q = Ok j" "i \<noteq> j"
    and "path_exists_in (vs_fs st) q" "handle_event env (Moved p q) st = Some (Ok (), st')"
  shows "rows_of i (vs_db st') = ([], [], [], []) \<and> is_entry_up_to_date (vs_db st') j (ve_mtime_ms env (vs_fs st) q) \<and>
    (\<forall>k. k \<noteq> i \<longrightarrow> k \<noteq> j \<longrightarrow> rows_of k (vs_db st') = rows_of k (vs_db st))"
proof -
  let ?db = "delete_entry i (vs_db st)"
  obtain b where run: "index_path env q (remove_path i st) = Some (Ok b, st')"
    using assms(2,5,6) by (auto simp: index_if_exists_def remove_path_def and_then_Ok_iff)
  obtain ni where "index_note_path_with_links env (vs_fs st) ni q ?db = Some (Ok b, vs_db st')"
    using index_path_runs(2) [OF run refl] by (auto simp: remove_path_def)
  from indexed_note_current [OF index_ok_delete [OF assms(1)] this assms(3)] show ?thesis
    using assms(4) by (auto simp: rows_of_delete)
qed

section \<open>In a small vault\<close>

definition small_state :: "unit vault_state" where
  "small_state = \<lparr>vs_fs = small_fs, vs_db = empty_db, vs_vector_index_enabled = False\<rparr>"

definition small_row :: "string \<Rightarrow> entry_row" where
  "small_row i = \<lparr>er_id = i, er_title = i, er_uri = i, er_tags_json = [], er_aliases_json = [], er_metadata_json = [],
     er_content = [], er_note_date = None, er_created_at_ms = 0, er_updated_at_ms = 0\<rparr>"


theorem renamed_note_moves_in_the_index_witness:
  "\<exists>st'. handle_event (small_env None) (Moved [''v'', ''old.md''] [''v'', ''a.md''])
       (small_state\<lparr>vs_db := empty_db\<lparr>kd_entries := [small_row ''old.md'']\<rparr>\<rparr>) = Some (Ok (), st') \<and>
     rows_of ''old.md'' (vs_db st') = ([], [], [], []) \<and> is_entry_up_to_date (vs_db st') ''a.md'' 7"
proof -
  let ?st = "small_state\<lparr>vs_db := empty_db\<lparr>kd_entries := [small_row ''old.md'']\<rparr>\<rparr>"
  let ?p = "[''v'', ''old.md'']" and ?q = "[''v'', ''a.md'']"
  have "map_option fst (handle_event (small_env None) (Moved ?p ?q) ?st) = Some (Ok ())" by code_simp
  then obtain st' where run: "handle_event (small_env None) (Moved ?p ?q) ?st = Some (Ok (), st')" by auto
  have "index_ok (vs_db ?st)" by (simp add: small_state_def empty_db_def small_row_def index_ok_def fts_mirror_def)
  moreover have "relative_display_path (ve_vault_root (small_env None)) ?p = Ok ''old.md''"
    "path_exists_in (vs_fs ?st) ?q" by code_simp+
  moreover have "ve_mtime_ms (small_env None) (vs_fs ?st) ?q = 7" by (simp add: small_env_def)
  ultimately show ?thesis
    using renamed_note_moves_in_the_index [of ?st "small_env None" ?p "''old.md''" ?q "''a.md''" st'] small_rel run by simp
qed

end
