(* ===== verification/Note_Creation.thy ===== *)
theory Note_Creation
  imports Vault_Properties
begin

text \<open>
  Where a new note is written: below the vault and found again in the index, if its path has no backslash
  and the vault no links; beside the vault when the path starts with two dots and a backslash.
\<close>

section \<open>Paths of notes\<close>

definition backslash :: char where "backslash = char_of (92 :: nat)"

lemma forward_slashes_id: "backslash \<notin> set s \<Longrightarrow> forward_slashes s = s"
  unfolding forward_slashes_def backslash_def by (rule map_idI) auto

lemma normalized_path:
  assumes "normalize_note_path raw = Ok rel" "backslash \<notin> set raw"
  shows "rel = join ''/'' (path_components rel)" "plain (path_components rel)" "\<not> is_absolute rel" "path_components rel \<noteq> []"
    "forward_slashes rel = rel"
proof -
  let ?cs = "path_components (trim raw)"
  have cs: "backslash \<notin> set w" if "w \<in> set ?cs" for w
    using path_components_names [OF that] set_trim [of raw] assms(2) by blast
  have "backslash \<notin> set ''/''" by code_simp
  then have "backslash \<notin> set (join ''/'' ?cs)" using set_join [of "''/''" ?cs] cs by blast
  then have slash: "forward_slashes (join ''/'' ?cs) = join ''/'' ?cs" by (rule forward_slashes_id)
  then have rel: "rel = join ''/'' ?cs" "''..'' \<notin> set ?cs" "rel \<noteq> []"
    using assms(1) by (auto simp: normalize_note_path_def Let_def split: if_splits)
  then have comps: "path_components rel = ?cs" by (simp add: path_components_join)
  then show "rel = join ''/'' (path_components rel)" "plain (path_components rel)" "forward_slashes rel = rel"
    using rel slash by (simp_all add: plain_def)
  show ne: "path_components rel \<noteq> []" using rel comps by auto
  then obtain w ws where w: "?cs = w # ws" using comps by (cases ?cs) auto
  then have "w \<noteq> []" "CHR ''/'' \<notin> set w" using path_components_names [of w "trim raw"] by auto
  then obtain x u where x: "w = x # u" "x \<noteq> CHR ''/''" by (cases w) auto
  have "\<exists>v. join ''/'' (w # ws) = w @ v" by (cases ws) auto
  then show "\<not> is_absolute rel" using rel(1) w x by (auto simp: is_absolute_def starts_with_def)
qed

section \<open>Confinement\<close>

abbreviation linkless_vault :: "'w vault_env \<Rightarrow> file_system \<Rightarrow> bool" where
  "linkless_vault env \<equiv> linkless (ve_vault_root env)"

lemma write_note_inside:
  assumes run: "write_note uuid p content fs = (r, fs')" and ins: "inside roots fs ps"
    and ps: "p \<in> ps" "temp_note_path uuid p \<in> ps"
  shows "stays_inside roots ps fs fs'"
proof -
  let ?t = "temp_note_path uuid p"
  obtain d fs1 where d: "create_dir_all (butlast p) fs = (d, fs1)" by fastforce
  have sound: "sound_path fs (butlast p)" using ins ps(1) sound_path_butlast by (auto simp: inside_def)
  have s1: "stays_inside roots ps fs fs1"
    using stays_insideI [OF ins] create_dir_all_step [of fs "butlast p"] touches_dirs [OF create_dir_all_added [OF sound] ps(1)] d by simp
  then have i1: "inside roots fs1 ps" by (simp add: stays_inside_def)
  show ?thesis
  proof (cases "\<exists>e. d = Inl e \<or> write_file ?t content fs1 = Inl e")
    case True
    then have "fs' = fs1" using run d by (auto simp: write_note_def Let_def split: sum.splits)
    then show ?thesis using s1 by simp
  next
    case False
    then obtain u fs2 where w: "d = Inr u" "write_file ?t content fs1 = Inr fs2"
      by (cases d; cases "write_file ?t content fs1") auto
    have "sound_path fs1 ?t" using i1 ps(2) by (simp add: inside_def)
    then have s2: "stays_inside roots ps fs1 fs2"
      using stays_insideI [OF i1] write_file_step [OF w(2)] write_touches [OF w(2)] ps(2) by blast
    then have i2: "inside roots fs2 ps" by (simp add: stays_inside_def)
    have "stays_inside roots ps fs2 fs'"
    proof (cases "rename_file ?t p fs2")
      case (Inl e)
      then have "fs' = remove_quietly ?t fs2" using run d w by (simp add: write_note_def Let_def)
      then show ?thesis using remove_quietly_inside [OF i2 ps(2)] by simp
    next
      case (Inr fs3)
      then have "fs' = fs3" using run d w by (simp add: write_note_def Let_def)
      moreover have "touches ps fs2 fs3" using rename_touches [OF Inr] i2 ps by (simp add: inside_def)
      ultimately show ?thesis using stays_insideI [OF i2 rename_file_step [OF Inr]] by simp
    qed
    then show ?thesis using s1 s2 stays_inside_trans by blast
  qed
qed

text \<open>The two paths that the creation of a note uses.\<close>

lemma note_paths:
  assumes "linkless_vault env fs" "normalize_note_path raw = Ok rel" "backslash \<notin> set raw"
    and p: "p = vault_join (ve_vault_root env) rel"
  shows "inside {ve_vault_root env} fs {p, temp_note_path uuid p}" "p = ve_vault_root env @ path_components rel"
    "temp_note_path uuid p \<noteq> p" "relative_display_path (ve_vault_root env) p = Ok rel"
proof -
  note norm = normalized_path [OF assms(2,3)]
  show pr: "p = ve_vault_root env @ path_components rel" using norm(3) by (simp add: p vault_join_def)
  obtain q c where q: "path_components rel = q @ [c]" using norm(4) by (metis rev_exhaust)
  have c: "c \<noteq> ''..''" "plain q" using norm(2) q by simp_all
  then have t: "temp_note_path uuid p = ve_vault_root env @ q @ [c @ ''.'' @ uuid @ ''.tmp'']"
    by (simp add: temp_note_path_def last_component_def pr q butlast_append)
  have "c @ ''.'' @ uuid @ ''.tmp'' \<noteq> ''..''" by (cases c) auto
  then have "plain (q @ [c @ ''.'' @ uuid @ ''.tmp''])" using c by simp
  then show "inside {ve_vault_root env} fs {p, temp_note_path uuid p}"
    using norm(2) pr t by (intro linkless_inside [OF assms(1)]) blast
  show "temp_note_path uuid p \<noteq> p" unfolding t by (simp add: pr q)
  show "relative_display_path (ve_vault_root env) p = Ok rel"
    using norm(1,5) by (simp add: relative_display_path_def strip_prefix_def path_starts_with_def pr)
qed

text \<open>The file system after the creation of a note, and what a success means.\<close>

lemma create_note_outcome:
  assumes run: "create_note env jf uuid raw content st = Some (r, st')" and rel: "normalize_note_path raw = Ok rel"
    and p: "p = vault_join (ve_vault_root env) rel" and w: "write_note uuid p content (vs_fs st) = (w, fs1)"
  shows "vs_fs st' \<in> {vs_fs st, fs1, remove_quietly p fs1}"
    and "r = Ok entry \<Longrightarrow> w = Ok () \<and> \<not> path_exists_in (vs_fs st) p \<and> vs_fs st' = fs1 \<and> get_entry jf rel (vs_db st') = Some entry \<and>
      (\<exists>b. index_path env p (st\<lparr>vs_fs := fs1\<rparr>) = Some (Ok b, st'))"
proof -
  have "vs_fs st' \<in> {vs_fs st, fs1, remove_quietly p fs1} \<and> (\<forall>entry. r = Ok entry \<longrightarrow> w = Ok () \<and>
      \<not> path_exists_in (vs_fs st) p \<and> vs_fs st' = fs1 \<and>
      get_entry jf rel (vs_db st') = Some entry \<and> (\<exists>b. index_path env p (st\<lparr>vs_fs := fs1\<rparr>) = Some (Ok b, st')))"
  proof (cases "path_exists_in (vs_fs st) p \<or> p = [] \<or> (\<exists>e. w = Inl e)")
    case True
    then show ?thesis using run rel w by (auto simp: create_note_def Let_def p [symmetric] split: if_splits)
  next
    case False
    then obtain u where u: "w = Inr u" by (cases w) auto
    obtain r1 st1 where i: "index_path env p (st\<lparr>vs_fs := fs1\<rparr>) = Some (r1, st1)"
      using run rel w u False by (auto simp: create_note_def Let_def p [symmetric])
    have "vs_fs st1 = fs1" using index_path_runs(1) [OF i] by simp
    then show ?thesis using run rel w u False i
      by (cases r1; cases "get_entry jf rel (vs_db st1)") (auto simp: create_note_def Let_def p [symmetric])
  qed
  then show "vs_fs st' \<in> {vs_fs st, fs1, remove_quietly p fs1}"
    and "r = Ok entry \<Longrightarrow> w = Ok () \<and> \<not> path_exists_in (vs_fs st) p \<and> vs_fs st' = fs1 \<and> get_entry jf rel (vs_db st') = Some entry \<and>
      (\<exists>b. index_path env p (st\<lparr>vs_fs := fs1\<rparr>) = Some (Ok b, st'))" by blast+
qed

text \<open>C16: If the vault holds no symbolic links and the path of a new note no backslash, creating the note changes
  the file system at most below the vault, whether it succeeds or fails.\<close>

theorem new_note_stays_in_the_vault:
  assumes vault: "linkless_vault env (vs_fs st)" and raw: "backslash \<notin> set raw"
    and run: "create_note env json_from_str uuid raw content st = Some (r, st')"
  shows "confined {ve_vault_root env} (vs_fs st) (vs_fs st')"
proof (cases "normalize_note_path raw")
  case (Inl e)
  then show ?thesis using run by (auto simp: create_note_def)
next
  case (Inr rel)
  define p where "p = vault_join (ve_vault_root env) rel"
  let ?ps = "{p, temp_note_path uuid p}"
  obtain w fs1 where w: "write_note uuid p content (vs_fs st) = (w, fs1)" by fastforce
  have inside: "stays_inside {ve_vault_root env} ?ps (vs_fs st) fs1"
    using write_note_inside [OF w note_paths(1) [OF vault Inr raw p_def]] by simp
  then have "inside {ve_vault_root env} fs1 ?ps" by (simp add: stays_inside_def)
  then have quiet: "stays_inside {ve_vault_root env} ?ps (vs_fs st) (remove_quietly p fs1)"
    using remove_quietly_inside inside stays_inside_trans by (metis insertI1)
  show ?thesis using create_note_outcome(1) [OF run Inr p_def w] inside quiet by (auto simp: stays_inside_def)
qed

section \<open>A new note is found again\<close>

lemma write_note_stores:
  assumes run: "write_note uuid p content fs = (Ok (), fs')" and ins: "inside roots fs {p, temp_note_path uuid p}"
    and ne: "temp_note_path uuid p \<noteq> p"
  shows "bt_get fs' p = Some (RegularFile content)"
proof -
  let ?t = "temp_note_path uuid p" and ?ps = "{p, temp_note_path uuid p}"
  obtain d fs1 where d: "create_dir_all (butlast p) fs = (d, fs1)" by fastforce
  obtain fs2 where w: "write_file ?t content fs1 = Ok fs2" "rename_file ?t p fs2 = Ok fs'"
    using run d by (auto simp: write_note_def Let_def split: sum.splits)
  have sound: "sound_path fs p" "sound_path fs ?t" "tree_ok fs" using ins by (simp_all add: inside_def)
  have t1: "touches ?ps fs fs1" and ok1: "tree_ok fs1"
    using touches_dirs [OF create_dir_all_added [OF sound_path_butlast [OF sound(1)]], of ?ps]
      tree_step_ok [OF create_dir_all_step sound(3), of "butlast p"] d by simp_all
  note s1 = touches_sound [OF t1 sound(1)] touches_sound [OF t1 sound(2)]
  have t2: "touches ?ps fs1 fs2" using write_touches [OF w(1) s1(2)] by simp
  have "fs2 = bt_insert ?t (RegularFile content) fs1" using write_file_soundD [OF s1(2) w(1)] .
  moreover obtain s where "bt_get fs2 ?t = Some (RegularFile s)" "fs' = bt_insert p (RegularFile s) (bt_remove ?t fs2)"
    using rename_file_soundD [OF touches_sound [OF t2 s1(2)] touches_sound [OF t2 s1(1)]
      tree_step_ok [OF write_file_step [OF w(1)] ok1] w(2)] .
  ultimately show ?thesis by simp
qed

lemma stored_note_read:
  assumes "inside roots fs ps" "p \<in> ps" "bt_get fs p = Some (RegularFile content)"
  shows "read_note fs p = Ok content" "remove_file p fs = Ok (bt_remove p fs)" "p \<noteq> []"
proof -
  have ok: "tree_ok fs" and sound: "sound_path fs p" using assms(1,2) by (simp_all add: inside_def)
  show p: "p \<noteq> []" using assms(3) tree_ok_root [OF ok] by auto
  have node: "node_at fs p = Some (RegularFile content)" using assms(3) p by (simp add: node_at_nonempty)
  then show "read_note fs p = Ok content" using sound_exists [OF ok sound] by (simp add: read_note_def)
  have "entry_path fs p = Ok p" using entry_path_sound [OF ok sound p] tree_ok_parent [OF ok p] node by simp
  then show "remove_file p fs = Ok (bt_remove p fs)" using node by (simp add: remove_file_def)
qed

lemma new_not_up_to_date: "rel \<notin> er_id ` set (kd_entries db) \<Longrightarrow> index_ok db \<Longrightarrow> \<not> is_entry_up_to_date db rel t"
  by (auto simp: is_entry_up_to_date_def find_Some_iff index_ok_def image_iff)

lemma note_rows_found:
  assumes "index_ok db" "note_rows env p rel content t k cs links db db'"
  shows "\<exists>entry. get_entry jf rel db' = Some entry \<and> ke_id entry = rel \<and> ke_content entry = content"
proof -
  have "find (\<lambda>r. er_id r = rel \<or> er_uri r = rel) (filter (\<lambda>r. er_id r \<noteq> rel) (kd_entries db)) = None"
    using assms(1) by (auto simp: find_None_iff index_ok_def)
  then have "find (\<lambda>r. er_id r = rel \<or> er_uri r = rel) (kd_entries db') = Some (note_row env p rel content t)"
    using assms(2) by (simp add: note_rows_def find_after_none)
  then show ?thesis by (simp add: get_entry_def note_row_def Let_def)
qed

text \<open>C21: A note that was created at a path without backslash, in a vault without links and under a name that
  the index did not hold, is the file with the given content, and the entry that is returned is the one that
  the index now holds under the path of the note, with this content.\<close>

theorem created_note_is_found:
  assumes vault: "linkless_vault env (vs_fs st)" and raw: "backslash \<notin> set raw" "normalize_note_path raw = Ok rel"
    and ok: "index_ok (vs_db st)" and new: "rel \<notin> er_id ` set (kd_entries (vs_db st))"
    and run: "create_note env json_from_str uuid raw content st = Some (Ok entry, st')"
  shows "bt_get (vs_fs st') (ve_vault_root env @ path_components rel) = Some (RegularFile content) \<and>
    ke_id entry = rel \<and> ke_content entry = content \<and> get_entry json_from_str rel (vs_db st') = Some entry"
proof -
  define p where "p = vault_join (ve_vault_root env) rel"
  note paths = note_paths [OF vault raw(2,1) p_def]
  obtain w fs1 where w: "write_note uuid p content (vs_fs st) = (w, fs1)" by fastforce
  note out = create_note_outcome(2) [OF run raw(2) p_def w refl]
  have stored: "bt_get fs1 p = Some (RegularFile content)" using write_note_stores [OF _ paths(1,3)] w out by blast
  have "inside {ve_vault_root env} fs1 {p, temp_note_path uuid p}"
    using write_note_inside [OF w paths(1)] by (simp add: stays_inside_def)
  then have read: "read_note fs1 p = Ok content" using stored_note_read(1) stored by blast
  obtain b where "index_path env p (st\<lparr>vs_fs := fs1\<rparr>) = Some (Ok b, st')" using out by blast
  from index_path_runs(2) [OF this refl] obtain ni where
    index: "index_note_path_with_links env fs1 ni p (vs_db st) = Some (Ok b, vs_db st')" by auto
  have "\<not> is_entry_up_to_date (vs_db st) rel (ve_mtime_ms env fs1 p)" using new ok by (rule new_not_up_to_date)
  from index_note_result [OF ok read paths(4) this index] obtain md k links where "chunk_markdown (ve_is_date env) content = Some md"
    and rows: "note_rows env p rel content (ve_mtime_ms env fs1 p) k (md_chunks md) links (vs_db st) (vs_db st')" by auto
  have "ke_id entry = rel \<and> ke_content entry = content" using note_rows_found [OF ok rows, of json_from_str] out by auto
  then show ?thesis using stored out paths(2) by simp
qed

section \<open>A note beside the vault\<close>

lemma walk_up:
  assumes "tree_ok fs" "bt_get fs (W @ [w]) = Some Directory"
  shows "walk create k fs [] (W @ [w, ''..''] @ rest) = walk create k fs W rest"
  using walk_from_dir [OF assms(1), of "W @ [w]" create k "''..'' # rest"] assms(2) by simp

lemma canonicalize_up:
  assumes "tree_ok fs" "bt_get fs (W @ [w]) = Some Directory"
  shows "canonicalize fs (W @ [w, ''..'']) = Ok W" "node_at fs W = Some Directory"
  using walk_up [OF assms, of False max_links "[]"] tree_ok_parent [OF assms(1), of "W @ [w]"] assms(2)
  by (simp_all add: canonicalize_def)

lemma entry_up:
  assumes "tree_ok fs" "bt_get fs (W @ [w]) = Some Directory" "x \<noteq> ''..''"
  shows "entry_path fs (W @ [w, ''..'', x]) = Ok (W @ [x])"
  using canonicalize_up [OF assms(1,2)] assms(3) by (simp add: entry_path_def butlast_append)

lemma create_dir_all_up:
  assumes "tree_ok fs" "bt_get fs (W @ [w]) = Some Directory"
  shows "create_dir_all (W @ [w, ''..'']) fs = (Ok (), fs)"
proof -
  note up = canonicalize_up [OF assms]
  have "mkdir (W @ [w, ''..'']) fs = Err AlreadyExists" using up by (simp add: mkdir_def entry_path_def)
  then show ?thesis using up by (simp add: create_dir_all.simps [of "W @ [w, ''..'']"] mkdir_or_dir_def is_dir_def)
qed

lemma write_note_up:
  assumes ok: "tree_ok fs" and dir: "bt_get fs (W @ [w]) = Some Directory" and f: "f \<noteq> ''..''"
    and new: "bt_get fs (W @ [f @ ''.'' @ uuid @ ''.tmp'']) = None"
    and run: "write_note uuid (W @ [w, ''..'', f]) content fs = (Ok (), fs')"
  shows "bt_get fs' (W @ [f]) = Some (RegularFile content)"
proof -
  let ?t = "f @ ''.'' @ uuid @ ''.tmp''" and ?p = "W @ [w, ''..'', f]"
  have t: "?t \<noteq> ''..''" by (cases f) auto
  have temp: "temp_note_path uuid ?p = W @ [w, ''..'', ?t]"
    using f by (simp add: temp_note_path_def last_component_def butlast_append)
  define fs2 where "fs2 = bt_insert (W @ [?t]) (RegularFile content) fs"
  have "walk True max_links fs [] (W @ [w, ''..'', ?t]) = Ok (W @ [?t])"
    using walk_up [OF ok dir, of True max_links "[?t]"] t new by simp
  then have "write_file (W @ [w, ''..'', ?t]) content fs = Ok fs2"
    using new by (simp add: write_file_def fs2_def)
  then have rename: "rename_file (W @ [w, ''..'', ?t]) ?p fs2 = Ok fs'" and ok2: "tree_ok fs2"
    using run create_dir_all_up [OF ok dir] temp tree_step_ok [OF write_file_step ok]
    by (auto simp: write_note_def Let_def butlast_append split: sum.splits)
  have dir2: "bt_get fs2 (W @ [w]) = Some Directory" using dir new by (auto simp: fs2_def)
  show ?thesis using rename entry_up [OF ok2 dir2 t] entry_up [OF ok2 dir2 f]
    by (elim rename_file_Ok) (auto simp: fs2_def node_at_nonempty)
qed


section \<open>A note that could not be indexed\<close>

text \<open>When the index cannot be completed, the file of the new note is removed, but its entry stays in the tables
  and is found.\<close>

theorem failed_note_stays_in_the_index:
  assumes vault: "linkless_vault env (vs_fs st)" and raw: "backslash \<notin> set raw" "normalize_note_path raw = Ok rel"
    and ok: "index_ok (vs_db st)" and new: "rel \<notin> er_id ` set (kd_entries (vs_db st))"
    and p: "p = ve_vault_root env @ path_components rel" "\<not> path_exists_in (vs_fs st) p"
    and w: "write_note uuid p content (vs_fs st) = (Ok (), fs1)"
    and ni: "and_then (collect_markdown_files env [] fs1) (build_vault_name_index env fs1) = Ok ni"
    and index: "index_note_path_with_links env fs1 ni p (vs_db st) = Some (Err e, db)"
  shows "\<exists>st' entry. create_note env json_from_str uuid raw content st =
      Some (Err (ProviderError (''reindex after note creation failed: '' @ knowledge_error_to_string e)), st') \<and>
    bt_get (vs_fs st') p = None \<and> get_entry json_from_str rel (vs_db st') = Some entry \<and> ke_content entry = content"
proof -
  note paths = note_paths [OF vault raw(2,1) refl]
  have join: "vault_join (ve_vault_root env) rel = p" using paths(2) p(1) by simp
  note inside = paths(1) [unfolded join]
  have stored: "bt_get fs1 p = Some (RegularFile content)" using write_note_stores [OF w inside paths(3) [unfolded join]] .
  have ins1: "inside {ve_vault_root env} fs1 {p, temp_note_path uuid p}"
    using write_note_inside [OF w inside] by (simp add: stays_inside_def)
  note read = stored_note_read [OF ins1 _ stored]
  have "\<not> is_entry_up_to_date (vs_db st) rel (ve_mtime_ms env fs1 p)" using new ok by (rule new_not_up_to_date)
  from index_note_result [OF ok read(1) paths(4) [unfolded join] this index] obtain md k links where
    "chunk_markdown (ve_is_date env) content = Some md"
    and rows: "note_rows env p rel content (ve_mtime_ms env fs1 p) k (md_chunks md) links (vs_db st) db" by auto
  obtain entry where "get_entry json_from_str rel db = Some entry" "ke_content entry = content"
    using note_rows_found [OF ok rows] by blast
  moreover have "bt_get (remove_quietly p fs1) p = None" using read(2) by (simp add: remove_quietly_def)
  moreover have "create_note env json_from_str uuid raw content st =
      Some (Err (ProviderError (''reindex after note creation failed: '' @ knowledge_error_to_string e)),
        st\<lparr>vs_fs := remove_quietly p fs1, vs_db := db\<rparr>)"
    using raw(2) join p(2) read(3) w ni index by (simp add: create_note_def Let_def index_path_def index_note_path_def after_index_def)
  ultimately show ?thesis by auto
qed

section \<open>In a small vault\<close>

lemma small_fs_get:
  "bt_get small_fs q = (if q = [''v''] then Some Directory else if q = [''v'', ''a.md''] then Some (RegularFile ''[[Bob]]'') else None)"
  by (simp add: small_fs_def bt_get_def)

lemma small_tree: "tree_ok small_fs"
  by (auto simp: tree_ok_def small_fs_get node_at_def split: if_splits)

lemma small_linkless: "linkless_vault (small_env None) (vs_fs small_state)"
proof -
  have "bt_get small_fs q \<noteq> Some (Symlink t)" for q t by (simp add: small_fs_get)
  moreover have "node_at small_fs [''v''] = Some Directory" by (simp add: small_fs_get node_at_def)
  ultimately show ?thesis using small_tree by (simp add: linkless_def small_state_def small_env_def)
qed

definition is_created :: "((knowledge_error + knowledge_entry) \<times> 'w vault_state) option \<Rightarrow> bool" where
  "is_created x = (case x of Some (Inr _, _) \<Rightarrow> True | _ \<Rightarrow> False)"

lemma is_createdE: "is_created x \<Longrightarrow> (\<And>entry st. x = Some (Ok entry, st) \<Longrightarrow> thesis) \<Longrightarrow> thesis"
  by (auto simp: is_created_def split: option.splits sum.splits)

abbreviation create_small :: "string \<Rightarrow> ((knowledge_error + knowledge_entry) \<times> unit vault_state) option" where
  "create_small raw \<equiv> create_note (small_env None) (\<lambda>_. None) ''u'' raw ''hi'' small_state"

theorem new_note_stays_in_the_vault_witness:
  "\<exists>entry st'. create_small ''b.md'' = Some (Ok entry, st') \<and> confined {[''v'']} small_fs (vs_fs st')"
proof -
  have "is_created (create_small ''b.md'')" by code_simp
  then obtain entry st' where run: "create_small ''b.md'' = Some (Ok entry, st')" by (rule is_createdE)
  have "backslash \<notin> set ''b.md''" by code_simp
  from new_note_stays_in_the_vault [OF small_linkless this run] show ?thesis
    using run by (simp add: small_state_def small_env_def)
qed

theorem created_note_is_found_witness:
  "\<exists>entry st'. create_small ''b.md'' = Some (Ok entry, st') \<and>
     bt_get (vs_fs st') [''v'', ''b.md''] = Some (RegularFile ''hi'') \<and> ke_content entry = ''hi''"
proof -
  have "is_created (create_small ''b.md'')" by code_simp
  then obtain entry st' where run: "create_small ''b.md'' = Some (Ok entry, st')" by (rule is_createdE)
  have raw: "backslash \<notin> set ''b.md''" "normalize_note_path ''b.md'' = Ok ''b.md''" "path_components ''b.md'' = [''b.md'']"
    by code_simp+
  have db: "index_ok (vs_db small_state)" "''b.md'' \<notin> er_id ` set (kd_entries (vs_db small_state))"
    using empty_db_ok by (simp_all add: small_state_def empty_db_def)
  from created_note_is_found [OF small_linkless raw(1,2) db run] show ?thesis
    using run raw(3) by (simp add: small_env_def)
qed


end
