(* ===== verification/Knowledge_Ranking.thy ===== *)
theory Knowledge_Ranking
  imports Byte_Text Json_Value Complex_Main "HOL-Library.Multiset" "HOL-Library.Product_Lexorder"
begin

text \<open>
  The ranking of search hits (\<^verbatim>\<open>src/klaw-knowledge/src/retrieval/fusion.rs\<close>, the helpers of
  \<^verbatim>\<open>obsidian/provider.rs\<close>) and the bundle of excerpts made from them (\<^verbatim>\<open>context.rs\<close>). Scores are exact
  rationals for \<^verbatim>\<open>f64\<close>. The order in which a \<^verbatim>\<open>HashMap\<close> hands out its values is a parameter, a permutation.
\<close>

section \<open>Hits\<close>

record ranked_hit =
  rh_id :: string
  rh_title :: string
  rh_score :: rat
  rh_excerpt :: string

record fused_hit =
  fh_id :: string
  fh_title :: string
  fh_score :: rat
  fh_excerpt :: string
  fh_lanes :: "string list"

type_synonym lane = "string \<times> ranked_hit list \<times> rat"

definition fuse_hit :: "string \<Rightarrow> rat \<Rightarrow> nat \<Rightarrow> nat \<times> ranked_hit \<Rightarrow> (string, fused_hit) btree_map \<Rightarrow> (string, fused_hit) btree_map" where
  "fuse_hit lane_name weight k = (\<lambda>(idx, hit) by_id.
     let lane_score = weight / (of_nat k + of_nat idx + 1);
         fused = (case bt_get by_id (rh_id hit) of
             Some f \<Rightarrow> f
           | None \<Rightarrow> \<lparr>fh_id = rh_id hit, fh_title = rh_title hit, fh_score = 0, fh_excerpt = rh_excerpt hit, fh_lanes = []\<rparr>)
     in bt_insert (rh_id hit)
          (fused\<lparr>fh_score := fh_score fused + lane_score,
                 fh_lanes := (if lane_name \<in> set (fh_lanes fused) then fh_lanes fused else fh_lanes fused @ [lane_name])\<rparr>)
          by_id)"

definition fuse_lane :: "nat \<Rightarrow> lane \<Rightarrow> (string, fused_hit) btree_map \<Rightarrow> (string, fused_hit) btree_map" where
  "fuse_lane k = (\<lambda>(lane_name, hits, weight) by_id.
     if weight \<le> 0 then by_id else fold (fuse_hit lane_name weight k) (enumerate 0 hits) by_id)"

definition weighted_reciprocal_rank_fuse :: "(fused_hit list \<Rightarrow> fused_hit list) \<Rightarrow> lane list \<Rightarrow> nat \<Rightarrow> fused_hit list" where
  "weighted_reciprocal_rank_fuse hash_order lanes k =
     sort_key (\<lambda>h. (- fh_score h, fh_title h)) (hash_order (map snd (fold (fuse_lane k) lanes [])))"

definition reciprocal_rank_fuse :: "(fused_hit list \<Rightarrow> fused_hit list) \<Rightarrow> (string \<times> ranked_hit list) list \<Rightarrow> nat \<Rightarrow> fused_hit list" where
  "reciprocal_rank_fuse hash_order lanes k =
     weighted_reciprocal_rank_fuse hash_order (map (\<lambda>(name, hits). (name, hits, 1)) lanes) k"

text \<open>The best hit of each entry.\<close>

definition keep_better :: "ranked_hit \<Rightarrow> (string, ranked_hit) btree_map \<Rightarrow> (string, ranked_hit) btree_map" where
  "keep_better hit by_id =
     (case bt_get by_id (rh_id hit) of
        Some existing \<Rightarrow> if rh_score existing < rh_score hit then bt_insert (rh_id hit) hit by_id else by_id
      | None \<Rightarrow> bt_insert (rh_id hit) hit by_id)"

definition hit_order :: "ranked_hit \<Rightarrow> rat \<times> string" where
  "hit_order h = (- rh_score h, rh_title h)"

definition dedup_ranked_hits_from_vec :: "ranked_hit list \<Rightarrow> ranked_hit list" where
  "dedup_ranked_hits_from_vec hits = sort_key hit_order (map snd (fold keep_better hits []))"

definition merge_seed_hits :: "ranked_hit list \<Rightarrow> ranked_hit list \<Rightarrow> ranked_hit list" where
  "merge_seed_hits primary secondary = dedup_ranked_hits_from_vec (primary @ secondary)"

section \<open>Weights and patterns\<close>

datatype query_intent = IntentTemporal | IntentRelationship | IntentExact | IntentConceptual | IntentExploratory

record lane_weights =
  lw_semantic :: rat
  lw_fts :: rat
  lw_graph :: rat
  lw_temporal :: rat
  lw_rerank :: rat

fun lane_weights_for_intent :: "query_intent \<Rightarrow> lane_weights" where
  "lane_weights_for_intent IntentTemporal =
     \<lparr>lw_semantic = 11 / 10, lw_fts = 1, lw_graph = 8 / 10, lw_temporal = 16 / 10, lw_rerank = 4\<rparr>"
| "lane_weights_for_intent IntentRelationship =
     \<lparr>lw_semantic = 9 / 10, lw_fts = 9 / 10, lw_graph = 16 / 10, lw_temporal = 5 / 10, lw_rerank = 4\<rparr>"
| "lane_weights_for_intent IntentExact =
     \<lparr>lw_semantic = 8 / 10, lw_fts = 16 / 10, lw_graph = 8 / 10, lw_temporal = 5 / 10, lw_rerank = 4\<rparr>"
| "lane_weights_for_intent IntentConceptual =
     \<lparr>lw_semantic = 15 / 10, lw_fts = 9 / 10, lw_graph = 11 / 10, lw_temporal = 5 / 10, lw_rerank = 4\<rparr>"
| "lane_weights_for_intent IntentExploratory =
     \<lparr>lw_semantic = 14 / 10, lw_fts = 11 / 10, lw_graph = 9 / 10, lw_temporal = 5 / 10, lw_rerank = 4\<rparr>"

definition is_date_like :: "string \<Rightarrow> bool" where
  "is_date_like v \<longleftrightarrow>
     (case split_char (CHR ''-'') v of
        [y, m] \<Rightarrow> str_len y = 4 \<and> str_len m = 2
      | [y, m, d] \<Rightarrow> str_len y = 4 \<and> str_len m = 2 \<and> str_len d = 2
      | _ \<Rightarrow> False)"

text \<open>From every character on, the next ten and the next seven bytes.\<close>

definition date_prefix :: "string \<Rightarrow> string option" where
  "date_prefix s =
     (case map_option fst (split_at_byte 10 s) of
        Some c \<Rightarrow> if is_date_like c then Some c
                  else option_filter is_date_like (map_option fst (split_at_byte 7 s))
      | None \<Rightarrow> option_filter is_date_like (map_option fst (split_at_byte 7 s)))"

fun first_date :: "string \<Rightarrow> string option" where
  "first_date [] = None"
| "first_date (c # s) = (case date_prefix (c # s) of Some d \<Rightarrow> Some d | None \<Rightarrow> first_date s)"

definition temporal_pattern :: "string \<Rightarrow> string option" where
  "temporal_pattern raw =
     (let query = to_ascii_lowercase (trim raw)
      in if str_contains query ''recent'' \<or> str_contains query ''latest'' \<or> str_contains query ''today'' then Some ''%''
         else map_option (\<lambda>d. d @ ''%'') (first_date query))"

definition tokenize_query :: "string \<Rightarrow> string list" where
  "tokenize_query query =
     filter (\<lambda>t. t \<noteq> []) (map (\<lambda>t. to_ascii_lowercase (trim t)) (split_whitespace query))"

definition is_vector_query_capability_error :: "string \<Rightarrow> bool" where
  "is_vector_query_capability_error message =
     list_ex (str_contains (to_ascii_lowercase message))
       [''vector_top_k'', ''libsql_vector_idx'', ''no such function'', ''no such module'']"

section \<open>Context bundles\<close>

record knowledge_hit =
  kh_id :: string
  kh_title :: string
  kh_excerpt :: string
  kh_score :: rat
  kh_tags :: "string list"
  kh_uri :: string
  kh_source :: string
  kh_metadata :: json

record context_section =
  cs_label :: string
  cs_title :: string
  cs_uri :: string
  cs_content :: string
  cs_relevance :: string

record context_bundle =
  cb_topic :: string
  cb_sections :: "context_section list"
  cb_total_chars :: nat
  cb_budget_chars :: nat
  cb_truncated :: bool

definition section_overhead :: nat where "section_overhead = 80"

definition truncate_excerpt :: "string \<Rightarrow> nat \<Rightarrow> string" where
  "truncate_excerpt input max_chars = take max_chars input"

definition section_content :: "nat \<Rightarrow> string \<Rightarrow> string" where
  "section_content available excerpt =
     (if available < length excerpt then truncate_excerpt excerpt (available - 14) @ ''... [truncated]'' else excerpt)"

fun bundle_sections :: "(rat \<Rightarrow> string) \<Rightarrow> nat \<Rightarrow> context_section list \<Rightarrow> nat \<Rightarrow> bool \<Rightarrow> knowledge_hit list \<Rightarrow>
    context_section list \<times> nat \<times> bool" where
  "bundle_sections two_digits budget sections total_chars truncated [] = (sections, total_chars, truncated)"
| "bundle_sections two_digits budget sections total_chars truncated (hit # hits) =
     (let available = budget - (total_chars + section_overhead)
      in if budget \<le> total_chars \<or> available = 0 then (sections, total_chars, True)
         else let content = section_content available (kh_excerpt hit)
              in bundle_sections two_digits budget
                   (sections @ [\<lparr>cs_label = ''Direct match'', cs_title = kh_title hit, cs_uri = kh_uri hit,
                                 cs_content = content, cs_relevance = ''score '' @ two_digits (kh_score hit)\<rparr>])
                   (total_chars + (str_len content + section_overhead))
                   (truncated \<or> available < length (kh_excerpt hit)) hits)"

definition assemble_context_bundle :: "(rat \<Rightarrow> string) \<Rightarrow> string \<Rightarrow> knowledge_hit list \<Rightarrow> nat \<Rightarrow> context_bundle" where
  "assemble_context_bundle two_digits topic hits budget_chars =
     (let budget = max budget_chars 1; (sections, total_chars, truncated) = bundle_sections two_digits budget [] 0 False hits
      in \<lparr>cb_topic = topic, cb_sections = sections, cb_total_chars = total_chars, cb_budget_chars = budget,
          cb_truncated = truncated\<rparr>)"

section \<open>What the fusion computes\<close>

text \<open>The sum of the reciprocal ranks of an entry over the lanes that count.\<close>

definition lane_rank_score :: "nat \<Rightarrow> lane \<Rightarrow> string \<Rightarrow> rat" where
  "lane_rank_score k = (\<lambda>(_, hits, weight) i.
     if weight \<le> 0 then 0
     else sum_list (map (\<lambda>(idx, hit). if rh_id hit = i then weight / (of_nat k + of_nat idx + 1) else 0) (enumerate 0 hits)))"

definition rank_score :: "nat \<Rightarrow> lane list \<Rightarrow> string \<Rightarrow> rat" where
  "rank_score k lanes i = sum_list (map (\<lambda>lane. lane_rank_score k lane i) lanes)"

definition ranked_ids :: "lane list \<Rightarrow> string set" where
  "ranked_ids lanes = {rh_id hit |hit name hits weight. (name, hits, weight) \<in> set lanes \<and> 0 < weight \<and> hit \<in> set hits}"

definition score_of :: "(string, fused_hit) btree_map \<Rightarrow> string \<Rightarrow> rat" where
  "score_of m i = (case bt_get m i of Some f \<Rightarrow> fh_score f | None \<Rightarrow> 0)"

end
