(* ===== verification/Knowledge_Search.thy ===== *)
theory Knowledge_Search
  imports Knowledge_Vault Knowledge_Ranking Sql_Text
begin

text \<open>
  The search of a vault (\<^verbatim>\<open>search\<close> and the lanes of \<^verbatim>\<open>src/klaw-knowledge/src/obsidian/provider.rs\<close>): the plan of the
  orchestrator, the semantic, full-text, graph and temporal lanes over the tables, the two fusions with the
  lane of the reranker between them, and the hits with their metadata. Parameters are the models, the
  full-text and vector functions of the database, the square root of \<^verbatim>\<open>f64\<close>, the order of a hash map and
  the parser of JSON. Queries without an order return rows in the order of the tables. \<open>None\<close> is the panic of indexing a
  JSON value that is no object. Sizes are far below the width of \<^verbatim>\<open>usize\<close>.
\<close>

section \<open>Surroundings\<close>

type_synonym distance_row = "string \<times> string \<times> string \<times> rat"

record 'w search_env =
  se_vault :: "'w vault_env"
  se_fts_virtual :: bool
  se_fts_match :: "'w knowledge_db \<Rightarrow> string \<Rightarrow> nat \<Rightarrow> string + distance_row list"
  se_vector_top_k :: "'w knowledge_db \<Rightarrow> rat list \<Rightarrow> nat \<Rightarrow> string + distance_row list"
  se_sql_distance :: "'w knowledge_db \<Rightarrow> rat list \<Rightarrow> nat \<Rightarrow> string + distance_row list"
  se_orchestrator :: "(string \<Rightarrow> 'w \<Rightarrow> (knowledge_error + query_intent \<times> string list) \<times> 'w) option"
  se_reranker :: "(string \<Rightarrow> string list \<Rightarrow> 'w \<Rightarrow> (knowledge_error + rat list) \<times> 'w) option"
  se_sqrt :: "rat \<Rightarrow> rat"
  se_hash_order :: "fused_hit list \<Rightarrow> fused_hit list"
  se_json_from_str :: "string \<Rightarrow> json option"

text \<open>The operator \<^verbatim>\<open>?\<close> on operations that change the state.\<close>

definition try_st :: "('e + 'a) \<times> 's \<Rightarrow> ('a \<Rightarrow> 's \<Rightarrow> ('e + 'b) \<times> 's) \<Rightarrow> ('e + 'b) \<times> 's" where
  "try_st x f = (case x of (Inl e, s) \<Rightarrow> (Err e, s) | (Inr v, s) \<Rightarrow> f v s)"

text \<open>A call of a model: the world of the database moves on.\<close>

definition call_model :: "('w \<Rightarrow> (knowledge_error + 'a) \<times> 'w) \<Rightarrow> 'w vault_state \<Rightarrow> (knowledge_error + 'a) \<times> 'w vault_state" where
  "call_model f st = (case f (kd_world (vs_db st)) of (r, w) \<Rightarrow> (r, st\<lparr>vs_db := (vs_db st)\<lparr>kd_world := w\<rparr>\<rparr>))"

definition provider_result :: "string + 'a \<Rightarrow> knowledge_error + 'a" where
  "provider_result r = (case r of Inl m \<Rightarrow> Err (ProviderError m) | Inr v \<Rightarrow> Ok v)"

section \<open>Lanes\<close>

definition distance_hit :: "distance_row \<Rightarrow> ranked_hit" where
  "distance_hit = (\<lambda>(i, title, snippet, d). \<lparr>rh_id = i, rh_title = title, rh_score = 1 - d, rh_excerpt = snippet\<rparr>)"

definition fts_hit :: "distance_row \<Rightarrow> ranked_hit" where
  "fts_hit = (\<lambda>(i, title, snippet, rank). \<lparr>rh_id = i, rh_title = title, rh_score = 1 / (\<bar>rank\<bar> + 1), rh_excerpt = snippet\<rparr>)"

text \<open>Entries joined with their chunks.\<close>

definition chunk_entries :: "'w knowledge_db \<Rightarrow> (chunk_row \<times> entry_row) list" where
  "chunk_entries db =
     concat (map (\<lambda>c. map (Pair c) (filter (\<lambda>e. er_id e = cr_entry_id c) (kd_entries db))) (kd_chunks db))"

definition fts_rows :: "'w knowledge_db \<Rightarrow> (entry_row \<times> chunk_row) list" where
  "fts_rows db =
     concat (map (\<lambda>f. concat (map (\<lambda>e. map (Pair e) (filter (\<lambda>c. cr_id c = ft_chunk_id f) (kd_chunks db)))
       (filter (\<lambda>e. er_id e = ft_entry_id f) (kd_entries db)))) (kd_fts db))"

definition token_hit :: "string list \<Rightarrow> entry_row \<times> chunk_row \<Rightarrow> ranked_hit option" where
  "token_hit tokens = (\<lambda>(e, c).
     let haystack = to_ascii_lowercase (er_title e @ '' '' @ cr_snippet c);
         matches = length (filter (str_contains haystack) tokens)
     in if 0 < matches
        then Some \<lparr>rh_id = er_id e, rh_title = er_title e, rh_score = of_nat matches, rh_excerpt = cr_snippet c\<rparr>
        else None)"

definition fts_lane :: "'w search_env \<Rightarrow> string \<Rightarrow> nat \<Rightarrow> 'w knowledge_db \<Rightarrow> knowledge_error + ranked_hit list" where
  "fts_lane env query limit db =
     (if se_fts_virtual env
      then and_then (provider_result (se_fts_match env db query limit)) (\<lambda>rows.
             Ok (dedup_ranked_hits_from_vec (map fts_hit rows)))
      else Ok (dedup_ranked_hits_from_vec (List.map_filter (token_hit (tokenize_query query)) (take (limit * 20) (fts_rows db)))))"

definition links_to :: "link_row \<Rightarrow> entry_row \<Rightarrow> bool" where
  "links_to l e \<longleftrightarrow>
     (il_target_entry_id (lr_link l) = Some (er_id e) \<or>
      il_target_entry_id (lr_link l) = None \<and> to_ascii_lowercase (er_title e) = to_ascii_lowercase (il_target_title (lr_link l))) \<and>
     er_id e \<noteq> lr_source_entry_id l"

definition entry_hit :: "rat \<Rightarrow> string \<times> string \<times> string \<Rightarrow> ranked_hit" where
  "entry_hit score = (\<lambda>(i, title, excerpt). \<lparr>rh_id = i, rh_title = title, rh_score = score, rh_excerpt = excerpt\<rparr>)"

definition entry_columns :: "entry_row \<Rightarrow> string \<times> string \<times> string" where
  "entry_columns e = (er_id e, er_title e, take 400 (er_content e))"

definition distinct_rows :: "'a list \<Rightarrow> 'a list" where
  "distinct_rows xs = rev (remdups (rev xs))"

definition outgoing_rows :: "'w knowledge_db \<Rightarrow> string \<Rightarrow> nat \<Rightarrow> (string \<times> string \<times> string) list" where
  "outgoing_rows db source limit =
     take limit (distinct_rows (concat (map (\<lambda>l. map entry_columns (filter (links_to l) (kd_entries db)))
       (filter (\<lambda>l. lr_source_entry_id l = source) (kd_links db)))))"

definition graph_lane :: "ranked_hit list \<Rightarrow> nat \<Rightarrow> 'w knowledge_db \<Rightarrow> ranked_hit list" where
  "graph_lane seeds limit db =
     dedup_ranked_hits_from_vec (concat (map (\<lambda>seed. map (entry_hit (1 / 2)) (outgoing_rows db (rh_id seed) limit)) (take limit seeds)))"

definition temporal_lane :: "string \<Rightarrow> nat \<Rightarrow> 'w knowledge_db \<Rightarrow> ranked_hit list" where
  "temporal_lane query limit db =
     (case temporal_pattern query of
        None \<Rightarrow> []
      | Some pattern \<Rightarrow>
          dedup_ranked_hits_from_vec (map (entry_hit (2 / 5) \<circ> entry_columns)
            (take limit (sort_key (\<lambda>e. - er_updated_at_ms e)
              (filter (\<lambda>e. case er_note_date e of Some d \<Rightarrow> sql_like pattern d | None \<Rightarrow> False) (kd_entries db))))))"

section \<open>Semantic lane\<close>

definition cosine_similarity :: "(rat \<Rightarrow> rat) \<Rightarrow> rat list \<Rightarrow> rat list \<Rightarrow> rat" where
  "cosine_similarity sqrt_f64 left right =
     (if length left \<noteq> length right \<or> left = [] then 0
      else let dot = sum_list (map (\<lambda>(l, r). l * r) (zip left right));
               left_norm = sum_list (map (\<lambda>l. l * l) left); right_norm = sum_list (map (\<lambda>r. r * r) right)
           in if left_norm = 0 \<or> right_norm = 0 then 0 else dot / (sqrt_f64 left_norm * sqrt_f64 right_norm))"

definition semantic_lane_fallback :: "'w search_env \<Rightarrow> rat list \<Rightarrow> nat \<Rightarrow> 'w knowledge_db \<Rightarrow> ranked_hit list" where
  "semantic_lane_fallback env query_vector limit db =
     dedup_ranked_hits_from_vec (take limit (sort_key hit_order
       (List.map_filter (\<lambda>(c, e). map_option (\<lambda>v. \<lparr>rh_id = er_id e, rh_title = er_title e,
            rh_score = cosine_similarity (se_sqrt env) query_vector v, rh_excerpt = cr_snippet c\<rparr>) (cr_embedding c))
         (chunk_entries db))))"

definition semantic_lane_rows :: "string + distance_row list \<Rightarrow> knowledge_error + ranked_hit list" where
  "semantic_lane_rows rows = and_then (provider_result rows) (\<lambda>rows. Ok (dedup_ranked_hits_from_vec (map distance_hit rows)))"

definition is_capability_error :: "knowledge_error + 'a \<Rightarrow> bool" where
  "is_capability_error r = (case r of Inl e \<Rightarrow> is_vector_query_capability_error (knowledge_error_to_string e) | Inr _ \<Rightarrow> False)"

definition semantic_lane_distance :: "'w search_env \<Rightarrow> rat list \<Rightarrow> nat \<Rightarrow> 'w knowledge_db \<Rightarrow> knowledge_error + ranked_hit list" where
  "semantic_lane_distance env v limit db =
     (let r = semantic_lane_rows (se_sql_distance env db v limit)
      in if is_capability_error r then Ok (semantic_lane_fallback env v limit db) else r)"

definition enable_vector_index :: "'w search_env \<Rightarrow> nat \<Rightarrow> 'w vault_state \<Rightarrow> (knowledge_error + unit) \<times> 'w vault_state" where
  "enable_vector_index env dimensions st =
     (if vs_vector_index_enabled st then (Ok (), st)
      else case ensure_vector_index (ve_create_vector_index (se_vault env)) dimensions (vs_db st) of
             (Inl e, db) \<Rightarrow> (Err e, st\<lparr>vs_db := db\<rparr>)
           | (Inr enabled, db) \<Rightarrow> (Ok (), st\<lparr>vs_db := db, vs_vector_index_enabled := enabled\<rparr>))"

definition semantic_lane_vector :: "'w search_env \<Rightarrow> rat list \<Rightarrow> nat \<Rightarrow> 'w vault_state \<Rightarrow>
    (knowledge_error + ranked_hit list) \<times> 'w vault_state" where
  "semantic_lane_vector env v limit st =
     (if vs_vector_index_enabled st
      then let r = semantic_lane_rows (se_vector_top_k env (vs_db st) v limit)
           in if is_capability_error r
              then (semantic_lane_distance env v limit (vs_db st), st\<lparr>vs_vector_index_enabled := False\<rparr>)
              else (r, st)
      else (semantic_lane_distance env v limit (vs_db st), st))"

definition semantic_lane :: "'w search_env \<Rightarrow> nat \<Rightarrow> string \<Rightarrow> 'w vault_state \<Rightarrow>
    (knowledge_error + ranked_hit list) \<times> 'w vault_state" where
  "semantic_lane env limit query st =
     (case ve_embedder (se_vault env) of
        None \<Rightarrow> (Ok [], st)
      | Some embedder \<Rightarrow>
          try_st (call_model (embedder query) st) (\<lambda>v st1.
            if v = [] then (Ok [], st1)
            else try_st (enable_vector_index env (length v) st1) (\<lambda>_ st2. semantic_lane_vector env v limit st2)))"

section \<open>Search\<close>

text \<open>A lane for each expansion in turn, until one fails.\<close>

fun each_expansion :: "(string \<Rightarrow> 's \<Rightarrow> ('e + 'a list) \<times> 's) \<Rightarrow> 'a list \<Rightarrow> string list \<Rightarrow> 's \<Rightarrow> ('e + 'a list) \<times> 's" where
  "each_expansion lane combined [] st = (Ok combined, st)"
| "each_expansion lane combined (x # xs) st = try_st (lane x st) (\<lambda>hits st'. each_expansion lane (combined @ hits) xs st')"

definition expanded_lane :: "(string \<Rightarrow> 's \<Rightarrow> ('e + ranked_hit list) \<times> 's) \<Rightarrow> string list \<Rightarrow> 's \<Rightarrow> ('e + ranked_hit list) \<times> 's" where
  "expanded_lane lane expansions st =
     try_st (each_expansion lane [] expansions st) (\<lambda>hits st'. (Ok (dedup_ranked_hits_from_vec hits), st'))"

definition orchestration_plan :: "'w search_env \<Rightarrow> string \<Rightarrow> 'w vault_state \<Rightarrow>
    (knowledge_error + query_intent \<times> string list) \<times> 'w vault_state" where
  "orchestration_plan env query st =
     (case se_orchestrator env of
        None \<Rightarrow> (Ok (IntentExploratory, [query]), st)
      | Some orchestrator \<Rightarrow>
          try_st (call_model (orchestrator query) st) (\<lambda>(intent, expansions) st1.
            let e1 = (if expansions = [] then [query] else expansions);
                e2 = (if hd e1 \<noteq> query then query # e1 else e1)
            in (Ok (intent, remdups_adj e2), st1)))"

definition rerank_lane :: "'w search_env \<Rightarrow> string \<Rightarrow> fused_hit list \<Rightarrow> nat \<Rightarrow> 'w vault_state \<Rightarrow>
    (knowledge_error + ranked_hit list) \<times> 'w vault_state" where
  "rerank_lane env query fused_hits limit st =
     (case se_reranker env of
        None \<Rightarrow> (Ok [], st)
      | Some reranker \<Rightarrow>
          (let candidates = take limit fused_hits
           in if candidates = [] then (Ok [], st)
              else try_st (call_model (reranker query (map fh_excerpt candidates)) st) (\<lambda>scores st1.
                (Ok (sort_key hit_order (map (\<lambda>(c, score). \<lparr>rh_id = fh_id c, rh_title = fh_title c, rh_score = score,
                   rh_excerpt = fh_excerpt c\<rparr>) (zip candidates scores))), st1))))"

definition merge_lane_metadata :: "(string \<Rightarrow> json option) \<Rightarrow> string \<Rightarrow> string list \<Rightarrow> json option" where
  "merge_lane_metadata json_from_str metadata_json lanes =
     (case unwrap_or (json_from_str metadata_json) (JObject []) of
        JObject obj \<Rightarrow> Some (JObject (bt_insert ''lanes'' (string_array_json lanes) obj))
      | JNull \<Rightarrow> Some (JObject [(''lanes'', string_array_json lanes)])
      | _ \<Rightarrow> None)"

definition load_entry_metadata :: "string \<Rightarrow> 'w knowledge_db \<Rightarrow> string \<times> string \<times> string" where
  "load_entry_metadata i db =
     (case find (\<lambda>e. er_id e = i) (kd_entries db) of
        Some e \<Rightarrow> (er_uri e, er_tags_json e, er_metadata_json e)
      | None \<Rightarrow> ([], ''[]'', ''{}''))"

definition knowledge_hit_of :: "(string \<Rightarrow> json option) \<Rightarrow> 'w knowledge_db \<Rightarrow> fused_hit \<Rightarrow> knowledge_hit option" where
  "knowledge_hit_of json_from_str db hit =
     (let (uri, tags_json, metadata_json) = load_entry_metadata (fh_id hit) db
      in map_option (\<lambda>metadata. \<lparr>kh_id = fh_id hit, kh_title = fh_title hit, kh_excerpt = fh_excerpt hit, kh_score = fh_score hit,
           kh_tags = tags_of_json json_from_str tags_json, kh_uri = uri, kh_source = ''obsidian'', kh_metadata = metadata\<rparr>)
         (merge_lane_metadata json_from_str metadata_json (fh_lanes hit)))"

definition ranked_lanes :: "lane_weights \<Rightarrow> ranked_hit list \<Rightarrow> ranked_hit list \<Rightarrow> ranked_hit list \<Rightarrow> ranked_hit list \<Rightarrow> lane list" where
  "ranked_lanes weights semantic fts graph temporal =
     [(''semantic'', semantic, lw_semantic weights), (''fts'', fts, lw_fts weights),
      (''graph'', graph, lw_graph weights), (''temporal'', temporal, lw_temporal weights)]"

definition fused_search :: "'w search_env \<Rightarrow> string \<Rightarrow> nat \<Rightarrow> 'w vault_state \<Rightarrow> (knowledge_error + fused_hit list) \<times> 'w vault_state" where
  "fused_search env query limit st =
     try_st (orchestration_plan env query st) (\<lambda>(intent, expansions) st1.
     try_st (expanded_lane (semantic_lane env (limit * 4)) expansions st1) (\<lambda>semantic st2.
     try_st (expanded_lane (\<lambda>x st. (fts_lane env x (limit * 3) (vs_db st), st)) expansions st2) (\<lambda>fts st3.
       let graph = graph_lane (merge_seed_hits semantic fts) limit (vs_db st3);
           temporal = temporal_lane query limit (vs_db st3);
           weights = lane_weights_for_intent intent;
           lanes = ranked_lanes weights semantic fts graph temporal;
           pass1 = weighted_reciprocal_rank_fuse (se_hash_order env) lanes 60
       in try_st (rerank_lane env query pass1 (limit * 4) st3) (\<lambda>rerank st4.
            (Ok (take limit (weighted_reciprocal_rank_fuse (se_hash_order env)
               (lanes @ [(''rerank'', rerank, lw_rerank weights)]) 60)), st4)))))"

definition search_vault :: "'w search_env \<Rightarrow> string \<Rightarrow> nat \<Rightarrow> 'w vault_state \<Rightarrow>
    ((knowledge_error + knowledge_hit list) \<times> 'w vault_state) option" where
  "search_vault env query limit st =
     (if trim query = [] then Some (Err (InvalidQuery ''knowledge search text cannot be empty''), st)
      else case fused_search env query (max limit 1) st of
             (Inl e, st') \<Rightarrow> Some (Err e, st')
           | (Inr fused, st') \<Rightarrow>
               map_option (\<lambda>hits. (Ok hits, st')) (those (map (knowledge_hit_of (se_json_from_str env) (vs_db st')) fused)))"

end
