(* ===== verification/Ranking_Properties.thy ===== *)
theory Ranking_Properties
  imports Knowledge_Ranking
begin

text \<open>
  The fusion of ranked lanes computes sums of reciprocal ranks, independently of the order of the hash
  map; removing duplicates keeps the best hit of each entry; a context bundle stays within a small
  excess of its budget.
\<close>

section \<open>Fusion\<close>

lemma bt_get_fuse_hit:
  "bt_get (fuse_hit name w k (idx, hit) m) i =
     (if i = rh_id hit then
        Some (let f = (case bt_get m i of Some f \<Rightarrow> f
                | None \<Rightarrow> \<lparr>fh_id = rh_id hit, fh_title = rh_title hit, fh_score = 0, fh_excerpt = rh_excerpt hit, fh_lanes = []\<rparr>)
              in f\<lparr>fh_score := fh_score f + w / (of_nat k + of_nat idx + 1),
                   fh_lanes := (if name \<in> set (fh_lanes f) then fh_lanes f else fh_lanes f @ [name])\<rparr>)
      else bt_get m i)"
  by (simp add: fuse_hit_def Let_def)

lemma score_of_fuse_hit:
  "score_of (fuse_hit name w k (idx, hit) m) i =
     score_of m i + (if rh_id hit = i then w / (of_nat k + of_nat idx + 1) else 0)"
  unfolding score_of_def bt_get_fuse_hit by (auto simp: Let_def split: option.splits)

lemma score_of_fuse_hits:
  "score_of (fold (fuse_hit name w k) xs m) i =
     score_of m i + sum_list (map (\<lambda>(idx, hit). if rh_id hit = i then w / (of_nat k + of_nat idx + 1) else 0) xs)"
  by (induction xs arbitrary: m) (auto simp: score_of_fuse_hit)

lemma score_of_fuse_lane: "score_of (fuse_lane k lane m) i = score_of m i + lane_rank_score k lane i"
  by (cases lane) (simp add: fuse_lane_def lane_rank_score_def score_of_fuse_hits)

lemma score_of_fuse_lanes: "score_of (fold (fuse_lane k) lanes m) i = score_of m i + rank_score k lanes i"
  by (induction lanes arbitrary: m) (simp_all add: rank_score_def score_of_fuse_lane)

text \<open>The names of the lanes in which an entry appears.\<close>

definition lanes_of :: "(string, fused_hit) btree_map \<Rightarrow> string \<Rightarrow> string list" where
  "lanes_of m i = (case bt_get m i of Some f \<Rightarrow> fh_lanes f | None \<Rightarrow> [])"

definition lane_names :: "lane list \<Rightarrow> string \<Rightarrow> string set" where
  "lane_names lanes i = {name. \<exists>hits weight. (name, hits, weight) \<in> set lanes \<and> 0 < weight \<and> i \<in> rh_id ` set hits}"

lemma lanes_of_fuse_hit:
  "lanes_of (fuse_hit name w k (idx, hit) m) i =
     (if rh_id hit = i \<and> name \<notin> set (lanes_of m i) then lanes_of m i @ [name] else lanes_of m i)"
  unfolding lanes_of_def bt_get_fuse_hit by (auto simp: Let_def split: option.splits)

lemma lanes_of_fuse_hits:
  "set (lanes_of (fold (fuse_hit name w k) xs m) i) =
     set (lanes_of m i) \<union> (if i \<in> rh_id ` snd ` set xs then {name} else {})"
  "distinct (lanes_of m i) \<Longrightarrow> distinct (lanes_of (fold (fuse_hit name w k) xs m) i)"
proof (induction xs arbitrary: m)
  case (Cons x xs)
  have one: "set (lanes_of (fuse_hit name w k x m) i) = set (lanes_of m i) \<union> (if i = rh_id (snd x) then {name} else {})"
    and dist: "distinct (lanes_of m i) \<Longrightarrow> distinct (lanes_of (fuse_hit name w k x m) i)" for m
    by (cases x; auto simp: lanes_of_fuse_hit)+
  { case 1
    have "set (lanes_of (fold (fuse_hit name w k) (x # xs) m) i) =
        set (lanes_of (fuse_hit name w k x m) i) \<union> (if i \<in> rh_id ` snd ` set xs then {name} else {})"
      using Cons.IH(1) by simp
    then show ?case unfolding one by auto }
  { case 2 show ?case using Cons.IH(2) [of "fuse_hit name w k x m"] dist 2 by simp }
qed simp_all

lemma set_snd_enumerate: "snd ` set (enumerate n xs) = set xs"
  by (metis list.set_map map_snd_enumerate)

lemma lanes_of_fuse_lanes:
  "set (lanes_of (fold (fuse_lane k) lanes m) i) = set (lanes_of m i) \<union> lane_names lanes i"
  "distinct (lanes_of m i) \<Longrightarrow> distinct (lanes_of (fold (fuse_lane k) lanes m) i)"
proof (induction lanes arbitrary: m)
  case (Cons lane lanes)
  obtain name hits w where lane: "lane = (name, hits, w)" by (cases lane)
  have names: "lane_names (lane # lanes) i = (if 0 < w \<and> i \<in> rh_id ` set hits then {name} else {}) \<union> lane_names lanes i"
    unfolding lane lane_names_def by auto
  { case 1
    show ?case using Cons.IH(1) [of "fuse_lane k lane m"] unfolding names
      by (auto simp: lane fuse_lane_def lanes_of_fuse_hits(1) set_snd_enumerate split: if_splits) }
  { case 2
    then have "distinct (lanes_of (fuse_lane k lane m) i)"
      by (simp add: lane fuse_lane_def lanes_of_fuse_hits(2))
    then show ?case using Cons.IH(2) by simp }
qed (simp_all add: lane_names_def)

lemma fuse_hit_keyed: "keyed_by fh_id m \<Longrightarrow> keyed_by fh_id (fuse_hit name w k x m)"
proof -
  assume m: "keyed_by fh_id m"
  obtain idx hit where x: "x = (idx, hit)" by (cases x)
  show ?thesis unfolding x fuse_hit_def Let_def prod.case
    using keyed_by_get [OF m] by (intro keyed_by_insert [OF m]) (auto split: option.splits)
qed

lemma fuse_lanes_keyed: "keyed_by fh_id m \<Longrightarrow> keyed_by fh_id (fold (fuse_lane k) lanes m)"
proof (induction lanes arbitrary: m)
  case (Cons lane lanes)
  have "keyed_by fh_id (fold (fuse_hit name w k) xs m)" for name w xs
    using Cons.prems by (induction xs arbitrary: m) (auto simp: fuse_hit_keyed)
  then have "keyed_by fh_id (fuse_lane k lane m)" using Cons.prems by (cases lane) (simp add: fuse_lane_def)
  then show ?case using Cons.IH by simp
qed simp

definition lanes_listed :: "(string, fused_hit) btree_map \<Rightarrow> bool" where
  "lanes_listed m \<longleftrightarrow> (\<forall>i f. bt_get m i = Some f \<longrightarrow> fh_lanes f \<noteq> [])"

lemma lanes_listed_hit:
  assumes "lanes_listed m"
  shows "lanes_listed (fuse_hit name w k (idx, hit) m)"
  unfolding lanes_listed_def
proof (intro allI impI)
  fix i f assume f: "bt_get (fuse_hit name w k (idx, hit) m) i = Some f"
  have listed: "(if name \<in> set M then M else M @ [name]) \<noteq> []" for M by (cases M) auto
  show "fh_lanes f \<noteq> []"
  proof (cases "i = rh_id hit")
    case True
    then obtain g where "f = g\<lparr>fh_score := fh_score g + w / (of_nat k + of_nat idx + 1),
        fh_lanes := (if name \<in> set (fh_lanes g) then fh_lanes g else fh_lanes g @ [name])\<rparr>"
      using f unfolding bt_get_fuse_hit Let_def by auto
    then show ?thesis using listed by simp
  next
    case False
    then show ?thesis using f assms unfolding bt_get_fuse_hit lanes_listed_def by simp
  qed
qed

lemma lanes_listed_lanes: "lanes_listed m \<Longrightarrow> lanes_listed (fold (fuse_lane k) lanes m)"
proof (induction lanes arbitrary: m)
  case (Cons lane lanes)
  have "lanes_listed (fold (fuse_hit name w k) xs m)" for name w xs
    using Cons.prems by (induction xs arbitrary: m) (auto simp: lanes_listed_hit)
  then have "lanes_listed (fuse_lane k lane m)" using Cons.prems by (cases lane) (simp add: fuse_lane_def)
  then show ?case using Cons.IH by simp
qed simp

lemma ranked_ids_iff: "i \<in> ranked_ids lanes \<longleftrightarrow> lane_names lanes i \<noteq> {}"
  by (auto simp: ranked_ids_def lane_names_def)

lemma fuse_lanes_domain: "bt_get (fold (fuse_lane k) lanes []) i \<noteq> None \<longleftrightarrow> i \<in> ranked_ids lanes"
proof -
  let ?m = "fold (fuse_lane k) lanes []"
  have "set (lanes_of ?m i) = lane_names lanes i" by (simp add: lanes_of_fuse_lanes(1)) (simp add: lanes_of_def)
  moreover have "lanes_of ?m i \<noteq> [] \<longleftrightarrow> bt_get ?m i \<noteq> None"
    using lanes_listed_lanes [of "[]" k lanes] by (auto simp: lanes_listed_def lanes_of_def split: option.splits)
  ultimately show ?thesis unfolding ranked_ids_iff by (metis set_empty)
qed

lemma fusion_result:
  assumes "\<And>xs. mset (hash_order xs) = mset xs"
  shows "distinct (map fh_id (weighted_reciprocal_rank_fuse hash_order lanes k)) \<and>
    fh_id ` set (weighted_reciprocal_rank_fuse hash_order lanes k) = ranked_ids lanes \<and>
    (\<forall>h \<in> set (weighted_reciprocal_rank_fuse hash_order lanes k).
       fh_score h = rank_score k lanes (fh_id h) \<and> distinct (fh_lanes h) \<and> set (fh_lanes h) = lane_names lanes (fh_id h)) \<and>
    sorted_wrt (\<lambda>a b. fh_score b < fh_score a \<or> fh_score a = fh_score b \<and> fh_title a \<le> fh_title b)
      (weighted_reciprocal_rank_fuse hash_order lanes k)"
proof -
  define m where "m = fold (fuse_lane k) lanes []"
  define R where "R = weighted_reciprocal_rank_fuse hash_order lanes k"
  have keyed: "keyed_by fh_id m" unfolding m_def by (rule fuse_lanes_keyed) (simp add: keyed_by_def)
  have "mset R = mset (map snd m)" unfolding R_def m_def weighted_reciprocal_rank_fuse_def by (simp add: assms)
  then have set_R: "set R = set (map snd m)" and ids: "mset (map fh_id R) = mset (map fh_id (map snd m))"
    by (metis set_mset_mset, metis mset_map)
  have get: "h \<in> set R \<Longrightarrow> bt_get m (fh_id h) = Some h" for h
    using keyed_by_row [OF keyed] unfolding set_R .
  have fst: "map fh_id (map snd m) = map fst m" using keyed by (auto simp: keyed_by_def)
  have "distinct (map fst m)" using keyed by (simp add: keyed_by_def sorted_map_distinct)
  then have dist: "distinct (map fh_id R)" using ids unfolding fst by (metis mset_eq_imp_distinct_iff)
  have "fh_id ` set R = ranked_ids lanes"
  proof -
    have "fh_id ` set R = {i. bt_get m i \<noteq> None}"
      using get keyed_by_get [OF keyed] bt_get_in_set [of m] unfolding set_R
      by (auto simp: image_iff) (metis snd_conv)
    then show ?thesis using fuse_lanes_domain [of k lanes] unfolding m_def by auto
  qed
  moreover have "fh_score h = rank_score k lanes (fh_id h) \<and> distinct (fh_lanes h) \<and> set (fh_lanes h) = lane_names lanes (fh_id h)"
    if "h \<in> set R" for h
  proof -
    have "score_of m (fh_id h) = rank_score k lanes (fh_id h)"
      unfolding m_def score_of_fuse_lanes by (simp add: score_of_def)
    moreover have "set (lanes_of m (fh_id h)) = lane_names lanes (fh_id h)" "distinct (lanes_of m (fh_id h))"
      unfolding m_def using lanes_of_fuse_lanes [where m = "[]"] by (simp_all add: lanes_of_def)
    ultimately show ?thesis using get [OF that] by (simp add: score_of_def lanes_of_def)
  qed
  moreover have "sorted_wrt (\<lambda>a b. fh_score b < fh_score a \<or> fh_score a = fh_score b \<and> fh_title a \<le> fh_title b) R"
  proof -
    have "sorted (map (\<lambda>h. (- fh_score h, fh_title h)) R)"
      unfolding R_def weighted_reciprocal_rank_fuse_def by simp
    then show ?thesis unfolding sorted_map by (rule sorted_wrt_mono_rel [rotated]) (auto simp: less_eq_prod_def)
  qed
  ultimately show ?thesis using dist unfolding R_def by blast
qed

text \<open>C22: The fusion of search lanes returns every entry of a lane with positive weight exactly once, with
  the sum of its weighted reciprocal ranks as score and exactly the lanes it appears in, by descending
  score and then by title, in whatever order the hash map hands out its values.\<close>

theorem fusion_sums_reciprocal_ranks:
  assumes "\<And>xs. mset (hash_order xs) = mset xs"
  shows "distinct (map fh_id (weighted_reciprocal_rank_fuse hash_order lanes k)) \<and>
    fh_id ` set (weighted_reciprocal_rank_fuse hash_order lanes k) = ranked_ids lanes \<and>
    (\<forall>h \<in> set (weighted_reciprocal_rank_fuse hash_order lanes k).
       fh_score h = rank_score k lanes (fh_id h) \<and> distinct (fh_lanes h) \<and> set (fh_lanes h) = lane_names lanes (fh_id h)) \<and>
    sorted_wrt (\<lambda>a b. fh_score b < fh_score a \<or> fh_score a = fh_score b \<and> fh_title a \<le> fh_title b)
      (weighted_reciprocal_rank_fuse hash_order lanes k)"
  using assms by (rule fusion_result)

definition sample_hit :: "string \<Rightarrow> ranked_hit" where
  "sample_hit i = \<lparr>rh_id = i, rh_title = i, rh_score = 0, rh_excerpt = []\<rparr>"

theorem fusion_sums_reciprocal_ranks_witness:
  "fh_id ` set (weighted_reciprocal_rank_fuse rev [(''fts'', [sample_hit ''a'', sample_hit ''b''], 1), (''graph'', [sample_hit ''b''], 2)] 60)
     = {''a'', ''b''} \<and>
   (\<exists>h \<in> set (weighted_reciprocal_rank_fuse rev [(''fts'', [sample_hit ''a'', sample_hit ''b''], 1), (''graph'', [sample_hit ''b''], 2)] 60).
      fh_id h = ''b'' \<and> fh_score h = 1 / 62 + 2 / 61)"
proof -
  let ?lanes = "[(''fts'', [sample_hit ''a'', sample_hit ''b''], 1), (''graph'', [sample_hit ''b''], 2)]"
  have "mset (rev xs) = mset xs" for xs :: "fused_hit list" by simp
  note F = fusion_sums_reciprocal_ranks [OF this, of ?lanes 60]
  have ids: "fh_id ` set (weighted_reciprocal_rank_fuse rev ?lanes 60) = {''a'', ''b''}" by code_simp
  have "''b'' \<in> fh_id ` set (weighted_reciprocal_rank_fuse rev ?lanes 60)" unfolding ids by blast
  then obtain h where h: "''b'' = fh_id h" "h \<in> set (weighted_reciprocal_rank_fuse rev ?lanes 60)" by (rule imageE)
  have "fh_score h = rank_score 60 ?lanes (fh_id h)" using F h(2) by blast
  also have "\<dots> = rank_score 60 ?lanes ''b''" by (simp only: h(1))
  also have "\<dots> = 1 / 62 + 2 / 61"
    by (simp add: rank_score_def lane_rank_score_def sample_hit_def)
  finally show ?thesis using ids h(2) h(1) [symmetric] by blast
qed

section \<open>Duplicates\<close>

definition best_of :: "ranked_hit list \<Rightarrow> string \<Rightarrow> ranked_hit \<Rightarrow> bool" where
  "best_of hits i h \<longleftrightarrow> h \<in> set hits \<and> rh_id h = i \<and> (\<forall>g \<in> set hits. rh_id g = i \<longrightarrow> rh_score g \<le> rh_score h)"

lemma keep_better_best:
  "(\<forall>i h. bt_get m i = Some h \<longrightarrow> best_of seen i h) \<Longrightarrow> (\<forall>g \<in> set seen. bt_get m (rh_id g) \<noteq> None) \<Longrightarrow> sorted_map m \<Longrightarrow>
   (\<forall>i h. bt_get (fold keep_better hits m) i = Some h \<longrightarrow> best_of (seen @ hits) i h) \<and>
   (\<forall>g \<in> set (seen @ hits). bt_get (fold keep_better hits m) (rh_id g) \<noteq> None) \<and> sorted_map (fold keep_better hits m)"
proof (induction hits arbitrary: m seen)
  case (Cons x hits)
  have "\<forall>i h. bt_get (keep_better x m) i = Some h \<longrightarrow> best_of (seen @ [x]) i h"
    using Cons.prems(1,2) by (fastforce simp: keep_better_def best_of_def split: option.splits if_splits)
  moreover have "\<forall>g \<in> set (seen @ [x]). bt_get (keep_better x m) (rh_id g) \<noteq> None"
    using Cons.prems(2) by (auto simp: keep_better_def split: option.splits)
  moreover have "sorted_map (keep_better x m)" using Cons.prems(3) by (auto simp: keep_better_def split: option.splits)
  ultimately have "(\<forall>i h. bt_get (fold keep_better hits (keep_better x m)) i = Some h \<longrightarrow> best_of ((seen @ [x]) @ hits) i h) \<and>
      (\<forall>g \<in> set ((seen @ [x]) @ hits). bt_get (fold keep_better hits (keep_better x m)) (rh_id g) \<noteq> None) \<and>
      sorted_map (fold keep_better hits (keep_better x m))"
    by (rule Cons.IH)
  then show ?case by simp
qed simp

text \<open>Removing duplicates keeps exactly one hit of each entry, one with its best score.\<close>

theorem dedup_keeps_the_best:
  "distinct (map rh_id (dedup_ranked_hits_from_vec hits)) \<and>
   rh_id ` set (dedup_ranked_hits_from_vec hits) = rh_id ` set hits \<and>
   (\<forall>h \<in> set (dedup_ranked_hits_from_vec hits). best_of hits (rh_id h) h)"
proof -
  define m where "m = fold keep_better hits []"
  have best: "\<forall>i h. bt_get m i = Some h \<longrightarrow> best_of hits i h" and dom: "\<forall>g \<in> set hits. bt_get m (rh_id g) \<noteq> None"
    and sm: "sorted_map m"
    using keep_better_best [of "[]" "[]" hits] unfolding m_def by (simp_all add: best_of_def)
  have keyed: "keyed_by rh_id m"
    unfolding keyed_by_def using sm best in_set_bt_get [OF sm] by (auto simp: best_of_def)
  have R: "set (dedup_ranked_hits_from_vec hits) = set (map snd m)"
    "mset (map rh_id (dedup_ranked_hits_from_vec hits)) = mset (map rh_id (map snd m))"
    by (simp_all add: dedup_ranked_hits_from_vec_def m_def flip: multiset.map_comp)
  have "map rh_id (map snd m) = map fst m" using keyed by (auto simp: keyed_by_def)
  then have "distinct (map rh_id (dedup_ranked_hits_from_vec hits))"
    using R(2) sorted_map_distinct [OF sm] by (metis mset_eq_imp_distinct_iff)
  moreover have all_best: "\<forall>h \<in> set (map snd m). best_of hits (rh_id h) h"
    using keyed_by_row [OF keyed] best by blast
  moreover have "rh_id ` set (map snd m) \<subseteq> rh_id ` set hits" using all_best by (auto simp: best_of_def)
  moreover have "rh_id ` set hits \<subseteq> rh_id ` set (map snd m)"
  proof
    fix i assume "i \<in> rh_id ` set hits"
    then obtain h where "bt_get m i = Some h" using dom by auto
    then show "i \<in> rh_id ` set (map snd m)"
      using keyed_by_get [OF keyed] bt_get_in_set by (metis image_eqI list.set_map snd_conv)
  qed
  ultimately show ?thesis unfolding R(1) by blast
qed

section \<open>Context bundles\<close>

lemma section_content_ascii:
  assumes "is_ascii excerpt" "0 < available"
  shows "str_len (section_content available excerpt) \<le> available + 14"
proof -
  have "is_ascii (section_content available excerpt)"
    using assms(1) by (auto simp: section_content_def truncate_excerpt_def is_ascii_def dest: in_set_takeD)
  then have "str_len (section_content available excerpt) = length (section_content available excerpt)"
    by (rule str_len_ascii)
  also have "\<dots> \<le> available + 14" using assms(2) by (auto simp: section_content_def truncate_excerpt_def)
  finally show ?thesis .
qed

lemma bundle_sections_bound:
  assumes "bundle_sections two_digits budget sections n truncated hits = (sections', n', truncated')"
    "\<forall>h \<in> set hits. is_ascii (kh_excerpt h)" "n \<le> budget + 14"
    "n = sum_list (map (\<lambda>s. str_len (cs_content s) + section_overhead) sections)"
  shows "n' \<le> budget + 14 \<and> n' = sum_list (map (\<lambda>s. str_len (cs_content s) + section_overhead) sections')"
  using assms
proof (induction two_digits budget sections n truncated hits rule: bundle_sections.induct)
  case (2 two_digits budget sections n truncated hit hits)
  show ?case
  proof (cases "budget \<le> n \<or> budget - (n + section_overhead) = 0")
    case True
    then show ?thesis using 2 by (auto simp: Let_def)
  next
    case False
    then have "str_len (section_content (budget - (n + section_overhead)) (kh_excerpt hit)) \<le> budget - (n + section_overhead) + 14"
      using 2(3) by (intro section_content_ascii) auto
    then have "n + (str_len (section_content (budget - (n + section_overhead)) (kh_excerpt hit)) + section_overhead) \<le> budget + 14"
      using False by linarith
    then show ?thesis using 2(1) [OF refl False refl] 2(2-5) False by (simp add: Let_def)
  qed
qed simp

text \<open>With ASCII excerpts the size a context bundle reports is that of its sections with their overhead,
  and it exceeds the budget by at most fourteen characters; the marker of a truncated excerpt can make it
  exceed the budget.\<close>

theorem context_bundle_bounded:
  assumes "\<forall>h \<in> set hits. is_ascii (kh_excerpt h)"
  shows "cb_total_chars (assemble_context_bundle two_digits topic hits budget) \<le> max budget 1 + 14 \<and>
    cb_total_chars (assemble_context_bundle two_digits topic hits budget) =
      sum_list (map (\<lambda>s. str_len (cs_content s) + section_overhead)
        (cb_sections (assemble_context_bundle two_digits topic hits budget)))"
proof -
  obtain ss n t where b: "bundle_sections two_digits (max budget 1) [] 0 False hits = (ss, n, t)" by (cases rule: prod_cases3)
  from bundle_sections_bound [OF b assms] have "n \<le> max budget 1 + 14"
    "n = sum_list (map (\<lambda>s. str_len (cs_content s) + section_overhead) ss)" by simp_all
  then show ?thesis unfolding assemble_context_bundle_def Let_def b by simp
qed

definition sample_excerpt :: knowledge_hit where
  "sample_excerpt = \<lparr>kh_id = ''a'', kh_title = ''a'', kh_excerpt = ''ab'', kh_score = 0, kh_tags = [], kh_uri = [],
     kh_source = ''obsidian'', kh_metadata = JNull\<rparr>"

theorem context_bundle_bounded_witness:
  "cb_total_chars (assemble_context_bundle (\<lambda>_. []) ''t'' [sample_excerpt] 81) = 81 + 14 \<and>
   cb_total_chars (assemble_context_bundle (\<lambda>_. []) ''t'' [sample_excerpt] 81) =
     sum_list (map (\<lambda>s. str_len (cs_content s) + section_overhead)
       (cb_sections (assemble_context_bundle (\<lambda>_. []) ''t'' [sample_excerpt] 81)))"
proof -
  have "\<forall>h \<in> set [sample_excerpt]. is_ascii (kh_excerpt h)" by code_simp
  moreover have "cb_total_chars (assemble_context_bundle (\<lambda>_. []) ''t'' [sample_excerpt] 81) = 81 + 14" by code_simp
  ultimately show ?thesis using context_bundle_bounded [of "[sample_excerpt]"] by blast
qed

end
