(* ===== verification/Search_Properties.thy ===== *)
theory Search_Properties
  imports Knowledge_Search Ranking_Properties Vault_Properties
begin

text \<open>
  A search returns and leaves the rows of the tables alone; its hits are entries of the index, each once, by
  descending score, and not more than asked for.
\<close>

section \<open>Operations that keep the rows\<close>

text \<open>The rows are those of \<open>db\<close>, and a result satisfies \<open>P\<close>.\<close>

definition keeps :: "'w knowledge_db \<Rightarrow> ('a \<Rightarrow> bool) \<Rightarrow> (knowledge_error + 'a) \<times> 'w vault_state \<Rightarrow> bool" where
  "keeps db P x \<longleftrightarrow> same_rows db (vs_db (snd x)) \<and> (\<forall>v. fst x = Ok v \<longrightarrow> P v)"

lemma keeps_Ok [simp]: "keeps db P (Inr v, st) \<longleftrightarrow> same_rows db (vs_db st) \<and> P v"
  by (auto simp: keeps_def)

lemma keeps_Err [simp]: "keeps db P (Inl e, st) \<longleftrightarrow> same_rows db (vs_db st)"
  by (auto simp: keeps_def)

lemma keeps_try:
  "keeps db P x \<Longrightarrow> (\<And>v st. P v \<Longrightarrow> same_rows db (vs_db st) \<Longrightarrow> keeps db Q (f v st)) \<Longrightarrow> keeps db Q (try_st x f)"
  by (auto simp: keeps_def try_st_def split: prod.splits sum.splits)

lemma keeps_mono: "keeps db P x \<Longrightarrow> (\<And>v. P v \<Longrightarrow> Q v) \<Longrightarrow> keeps db Q x"
  by (auto simp: keeps_def)

lemma keeps_call: "same_rows db (vs_db st) \<Longrightarrow> keeps db (\<lambda>_. True) (call_model f st)"
  by (auto simp: keeps_def call_model_def same_rows_def split: prod.splits)

lemma same_rows_trans: "same_rows db db1 \<Longrightarrow> same_rows db1 db2 \<Longrightarrow> same_rows db db2"
  by (simp add: same_rows_def)

section \<open>Hits are entries\<close>

definition known :: "'w knowledge_db \<Rightarrow> ranked_hit list \<Rightarrow> bool" where
  "known db hits \<longleftrightarrow> rh_id ` set hits \<subseteq> entry_ids db"

definition known_rows :: "'w knowledge_db \<Rightarrow> string + distance_row list \<Rightarrow> bool" where
  "known_rows db r \<longleftrightarrow> (\<forall>rows. r = Ok rows \<longrightarrow> fst ` set rows \<subseteq> entry_ids db)"

text \<open>The queries of the database join the entries.\<close>

definition queries_join_entries :: "'w search_env \<Rightarrow> bool" where
  "queries_join_entries env \<longleftrightarrow>
     (\<forall>db q v n. known_rows db (se_fts_match env db q n) \<and> known_rows db (se_vector_top_k env db v n) \<and>
        known_rows db (se_sql_distance env db v n))"

lemma known_same: "same_rows db db' \<Longrightarrow> known db' hits = known db hits"
  by (simp add: known_def entry_ids_def same_rows_def)

lemma known_dedup [simp]: "known db (dedup_ranked_hits_from_vec hits) = known db hits"
  using dedup_keeps_the_best [of hits] by (simp add: known_def)

lemma known_append [simp]: "known db (xs @ ys) \<longleftrightarrow> known db xs \<and> known db ys"
  by (auto simp: known_def)

lemma known_take: "known db xs \<Longrightarrow> known db (take n xs)"
  by (auto simp: known_def dest: in_set_takeD)

lemma known_entry_hits: "set rows \<subseteq> entry_columns ` set (kd_entries db) \<Longrightarrow> known db (map (entry_hit s) rows)"
  by (auto simp: known_def entry_ids_def entry_hit_def entry_columns_def)

lemma known_rows_hits:
  assumes "known_rows db r" "and_then (provider_result r) (\<lambda>rows. Ok (dedup_ranked_hits_from_vec (map f rows))) = Ok hits"
    and "\<And>row. rh_id (f row) = fst row"
  shows "known db hits"
proof -
  obtain rows where rows: "r = Ok rows" "hits = dedup_ranked_hits_from_vec (map f rows)"
    using assms(2) by (cases r) (auto simp: provider_result_def)
  then show ?thesis using assms(1,3) by (auto simp: known_rows_def known_def [of db "map _ _"])
qed

lemma fts_lane_known:
  assumes "queries_join_entries env" "fts_lane env q n db = Ok hits"
  shows "known db hits"
proof (cases "se_fts_virtual env")
  case True
  then show ?thesis using assms known_rows_hits [of db "se_fts_match env db q n" fts_hit hits]
    by (auto simp: fts_lane_def queries_join_entries_def fts_hit_def)
next
  case False
  have rows: "e \<in> set (kd_entries db)" if "(e, c) \<in> set (fts_rows db)" for e c using that by (auto simp: fts_rows_def)
  have "rh_id h \<in> entry_ids db" if "token_hit tokens x = Some h" "x \<in> set (fts_rows db)" for tokens x h
    using that rows by (cases x) (fastforce simp: token_hit_def entry_ids_def Let_def split: if_splits)
  then have "known db (List.map_filter (token_hit (tokenize_query q)) (take (n * 20) (fts_rows db)))"
    by (auto simp: known_def map_filter_def dest!: in_set_takeD)
  then show ?thesis using assms(2) False by (auto simp: fts_lane_def)
qed

lemma graph_lane_known: "known db (graph_lane seeds n db)"
proof -
  have "known db (map (entry_hit s) (outgoing_rows db i n))" for s i
    by (rule known_entry_hits) (auto simp: outgoing_rows_def distinct_rows_def dest!: in_set_takeD)
  then show ?thesis unfolding graph_lane_def known_dedup by (fastforce simp: known_def)
qed

lemma temporal_lane_known: "known db (temporal_lane q n db)"
proof (cases "temporal_pattern q")
  case (Some pattern)
  let ?es = "take n (sort_key (\<lambda>e. - er_updated_at_ms e)
    (filter (\<lambda>e. case er_note_date e of Some d \<Rightarrow> sql_like pattern d | None \<Rightarrow> False) (kd_entries db)))"
  have "known db (map (entry_hit (2 / 5)) (map entry_columns ?es))"
    by (rule known_entry_hits) (auto dest!: in_set_takeD)
  then show ?thesis using Some by (simp add: temporal_lane_def)
qed (simp add: temporal_lane_def known_def)

lemma semantic_fallback_known: "known db (semantic_lane_fallback env v n db)"
proof -
  have rows: "e \<in> set (kd_entries db)" if "(c, e) \<in> set (chunk_entries db)" for c e using that by (auto simp: chunk_entries_def)
  have "known db (List.map_filter (\<lambda>(c, e). map_option (\<lambda>w. \<lparr>rh_id = er_id e, rh_title = er_title e,
      rh_score = cosine_similarity (se_sqrt env) v w, rh_excerpt = cr_snippet c\<rparr>) (cr_embedding c)) (chunk_entries db))"
    using rows by (fastforce simp: known_def map_filter_def entry_ids_def)
  then show ?thesis unfolding semantic_lane_fallback_def known_dedup by (intro known_take) (simp add: known_def)
qed

lemma semantic_rows_known: "known_rows db r \<Longrightarrow> semantic_lane_rows r = Ok hits \<Longrightarrow> known db hits"
  by (erule known_rows_hits [of db r distance_hit]) (auto simp: semantic_lane_rows_def distance_hit_def)

lemma semantic_distance_known:
  "queries_join_entries env \<Longrightarrow> semantic_lane_distance env v n db = Ok hits \<Longrightarrow> known db hits"
  using semantic_rows_known [of db "se_sql_distance env db v n" hits]
  by (auto simp: semantic_lane_distance_def Let_def queries_join_entries_def semantic_fallback_known split: if_splits)

section \<open>The lanes keep the rows\<close>

lemma semantic_vector_keeps:
  assumes "queries_join_entries env" "same_rows db (vs_db st)"
  shows "keeps db (known db) (semantic_lane_vector env v n st)"
  using assms known_same [OF assms(2)] semantic_distance_known [OF assms(1), of v n "vs_db st"]
    semantic_rows_known [of "vs_db st" "se_vector_top_k env (vs_db st) v n"]
  by (auto simp: keeps_def semantic_lane_vector_def Let_def queries_join_entries_def)

lemma enable_vector_keeps: "same_rows db (vs_db st) \<Longrightarrow> keeps db (\<lambda>_. True) (enable_vector_index env n st)"
  using ensure_vector_index_rows same_rows_trans
  by (fastforce simp: keeps_def enable_vector_index_def split: prod.splits sum.splits)

lemma semantic_lane_keeps:
  assumes q: "queries_join_entries env" and st: "same_rows db (vs_db st)"
  shows "keeps db (known db) (semantic_lane env n x st)"
proof (cases "ve_embedder (se_vault env)")
  case None
  then show ?thesis using st by (simp add: semantic_lane_def known_def)
next
  case (Some emb)
  show ?thesis unfolding semantic_lane_def Some option.case
  proof (rule keeps_try [OF keeps_call [OF st]])
    fix v and st1 :: "'a vault_state" assume st1: "same_rows db (vs_db st1)"
    have "keeps db (known db) (try_st (enable_vector_index env (length v) st1) (\<lambda>_ st2. semantic_lane_vector env v n st2))"
      by (rule keeps_try [OF enable_vector_keeps [OF st1]]) (rule semantic_vector_keeps [OF q])
    then show "keeps db (known db) (if v = [] then (Ok [], st1)
        else try_st (enable_vector_index env (length v) st1) (\<lambda>_ st2. semantic_lane_vector env v n st2))"
      using st1 by (simp add: known_def)
  qed
qed

lemma each_expansion_keeps:
  assumes lane: "\<And>x st. same_rows db (vs_db st) \<Longrightarrow> keeps db (known db) (lane x st)"
  shows "known db hits \<Longrightarrow> same_rows db (vs_db st) \<Longrightarrow> keeps db (known db) (each_expansion lane hits xs st)"
proof (induction xs arbitrary: hits st)
  case (Cons x xs)
  show ?case unfolding each_expansion.simps
    by (rule keeps_try [OF lane [OF Cons.prems(2)]]) (use Cons in simp)
qed simp

lemma expanded_lane_keeps:
  assumes "\<And>x st. same_rows db (vs_db st) \<Longrightarrow> keeps db (known db) (lane x st)" "same_rows db (vs_db st)"
  shows "keeps db (known db) (expanded_lane lane xs st)"
  unfolding expanded_lane_def
  by (rule keeps_try [OF each_expansion_keeps [OF assms(1)]]) (use assms(2) in \<open>simp_all add: known_def [of _ "[]"]\<close>)

lemma orchestration_keeps: "same_rows db (vs_db st) \<Longrightarrow> keeps db (\<lambda>_. True) (orchestration_plan env q st)"
  unfolding orchestration_plan_def
  by (auto split: option.split intro!: keeps_try [OF keeps_call] simp: Let_def)

lemma rerank_keeps:
  assumes "same_rows db (vs_db st)" "fh_id ` set fused \<subseteq> entry_ids db"
  shows "keeps db (known db) (rerank_lane env q fused n st)"
proof (cases "se_reranker env")
  case None
  then show ?thesis using assms(1) by (simp add: rerank_lane_def known_def)
next
  case (Some r)
  have known: "fh_id c \<in> entry_ids db" if "(c, s) \<in> set (zip (take n fused) scores)" for c s and scores :: "rat list"
    using assms(2) set_zip_leftD [OF that] in_set_takeD by fast
  show ?thesis
  proof (cases "take n fused = []")
    case True
    then show ?thesis unfolding rerank_lane_def Some option.case Let_def True using assms(1) by (simp add: known_def)
  next
    case False
    then show ?thesis unfolding rerank_lane_def Some option.case Let_def if_not_P [OF False]
      by (intro keeps_try [OF keeps_call [OF assms(1)]]) (use known in \<open>auto simp: known_def\<close>)
  qed
qed

section \<open>The search\<close>

lemma known_lanes:
  "(\<forall>(name, hits, w) \<in> set lanes. known db hits) \<Longrightarrow> ranked_ids lanes \<subseteq> entry_ids db"
  by (fastforce simp: ranked_ids_def known_def)

text \<open>What a list of fused hits promises.\<close>

definition ranked_entries :: "'w knowledge_db \<Rightarrow> nat \<Rightarrow> fused_hit list \<Rightarrow> bool" where
  "ranked_entries db limit hits \<longleftrightarrow> length hits \<le> limit \<and> distinct (map fh_id hits) \<and>
     sorted_wrt (\<lambda>a b. fh_score b \<le> fh_score a) hits \<and> fh_id ` set hits \<subseteq> entry_ids db"

lemma fused_ranked:
  assumes "\<And>xs. mset (hash_order xs) = mset xs" "\<forall>(name, hits, w) \<in> set lanes. known db hits"
  shows "ranked_entries db limit (take limit (weighted_reciprocal_rank_fuse hash_order lanes k))"
proof -
  let ?R = "weighted_reciprocal_rank_fuse hash_order lanes k"
  note F = fusion_result [of hash_order lanes k, OF assms(1)]
  have "sorted_wrt (\<lambda>a b. fh_score b \<le> fh_score a) ?R"
    by (rule sorted_wrt_mono_rel [rotated, OF F [THEN conjunct2, THEN conjunct2, THEN conjunct2]]) auto
  moreover have "fh_id ` set ?R \<subseteq> entry_ids db" using F known_lanes [OF assms(2)] by blast
  ultimately show ?thesis using F
    by (auto simp: ranked_entries_def sorted_wrt_take take_map [symmetric] dest: in_set_takeD)
qed

lemma fused_search_keeps:
  assumes hash: "\<And>xs. mset (se_hash_order env xs) = mset xs" and q: "queries_join_entries env" and st: "same_rows db (vs_db st)"
  shows "keeps db (ranked_entries db limit) (fused_search env query limit st)"
proof -
  have fts: "keeps db (known db) (fts_lane env x n (vs_db st), st)" if "same_rows db (vs_db st)" for x n st
    using that fts_lane_known [OF q, of x n "vs_db st"] known_same [OF that] by (auto simp: keeps_def)
  have rest: "keeps db (ranked_entries db limit)
      (let graph = graph_lane (merge_seed_hits semantic fts) limit (vs_db st3);
           temporal = temporal_lane query limit (vs_db st3); weights = lane_weights_for_intent intent;
           lanes = ranked_lanes weights semantic fts graph temporal;
           pass1 = weighted_reciprocal_rank_fuse (se_hash_order env) lanes 60
       in try_st (rerank_lane env query pass1 (limit * 4) st3) (\<lambda>rerank st4.
            (Ok (take limit (weighted_reciprocal_rank_fuse (se_hash_order env)
               (lanes @ [(''rerank'', rerank, lw_rerank weights)]) 60)), st4)))"
    if "known db semantic" "known db fts" and st3: "same_rows db (vs_db st3)" for semantic fts st3 intent
  proof -
    let ?lanes = "ranked_lanes (lane_weights_for_intent intent) semantic fts
      (graph_lane (merge_seed_hits semantic fts) limit (vs_db st3)) (temporal_lane query limit (vs_db st3))"
    have lanes: "\<forall>(name, hits, w) \<in> set ?lanes. known db hits"
      using that graph_lane_known [of "vs_db st3"] temporal_lane_known [of "vs_db st3"] known_same [OF st3]
      by (simp add: ranked_lanes_def)
    have "fh_id ` set (weighted_reciprocal_rank_fuse (se_hash_order env) ?lanes 60) \<subseteq> entry_ids db"
      using fusion_result [of "se_hash_order env" ?lanes 60, OF hash] known_lanes [OF lanes] by blast
    note rerank = rerank_keeps [OF st3 this]
    have "ranked_entries db limit (take limit (weighted_reciprocal_rank_fuse (se_hash_order env) (?lanes @ [(name, hits, w)]) 60))"
      if "known db hits" for name hits w
      using that lanes by (intro fused_ranked [OF hash]) auto
    then show ?thesis unfolding Let_def by (intro keeps_try [OF rerank]) simp
  qed
  show ?thesis unfolding fused_search_def case_prod_unfold
    using rest by (intro keeps_try [OF orchestration_keeps [OF st]] keeps_try [OF expanded_lane_keeps [OF semantic_lane_keeps [OF q]]]
      keeps_try [OF expanded_lane_keeps [OF fts]]) blast+
qed

text \<open>Metadata that can take the names of the lanes.\<close>

definition object_metadata :: "(string \<Rightarrow> json option) \<Rightarrow> string \<Rightarrow> bool" where
  "object_metadata json_from_str s \<longleftrightarrow> (case json_from_str s of Some (JObject _) \<Rightarrow> True | Some JNull \<Rightarrow> True | None \<Rightarrow> True | _ \<Rightarrow> False)"

lemma those_map_Some: "(\<And>x. x \<in> set xs \<Longrightarrow> f x = Some (g x)) \<Longrightarrow> those (map f xs) = Some (map g xs)"
  by (induction xs) auto

lemma merge_metadata_object: "object_metadata jf s \<Longrightarrow> \<exists>j. merge_lane_metadata jf s lanes = Some j"
  by (auto simp: object_metadata_def merge_lane_metadata_def split: option.splits json.splits)

definition hit_of_entry :: "(string \<Rightarrow> json option) \<Rightarrow> 'w knowledge_db \<Rightarrow> fused_hit \<Rightarrow> knowledge_hit \<Rightarrow> bool" where
  "hit_of_entry jf db h k \<longleftrightarrow> knowledge_hit_of jf db h = Some k \<and> kh_id k = fh_id h \<and> kh_score k = fh_score h \<and> kh_uri k = fh_id h \<and>
     (\<exists>entry. get_entry jf (kh_id k) db = Some entry \<and> ke_id entry = kh_id k)"

lemma knowledge_hit_exists:
  assumes "\<forall>e \<in> set (kd_entries db). object_metadata jf (er_metadata_json e)" "fh_id h \<in> entry_ids db" "index_ok db"
  shows "\<exists>k. hit_of_entry jf db h k"
proof -
  have "find (\<lambda>e. er_id e = fh_id h) (kd_entries db) \<noteq> None" using assms(2) by (auto simp: entry_ids_def find_None_iff)
  then obtain e where e: "find (\<lambda>e. er_id e = fh_id h) (kd_entries db) = Some e" by blast
  then have row: "e \<in> set (kd_entries db)" "er_id e = fh_id h" by (auto simp: find_Some_iff)
  have uri: "er_uri r = er_id r" if "r \<in> set (kd_entries db)" for r using assms(3) that by (simp add: index_ok_def)
  have "find (\<lambda>r. er_id r = fh_id h \<or> er_uri r = fh_id h) (kd_entries db) = find (\<lambda>e. er_id e = fh_id h) (kd_entries db)"
    by (rule find_cong) (auto simp: uri)
  then have "get_entry jf (fh_id h) db \<noteq> None" "\<And>x. get_entry jf (fh_id h) db = Some x \<Longrightarrow> ke_id x = fh_id h"
    using e row(2) by (auto simp: get_entry_def)
  moreover obtain j where "merge_lane_metadata jf (er_metadata_json e) (fh_lanes h) = Some j"
    using merge_metadata_object assms(1) row(1) by blast
  ultimately show ?thesis using e row uri by (auto simp: hit_of_entry_def knowledge_hit_of_def load_entry_metadata_def Let_def)
qed

lemma sorted_wrt_map2:
  "sorted_wrt P xs \<Longrightarrow> (\<And>x y. x \<in> set xs \<Longrightarrow> y \<in> set xs \<Longrightarrow> P x y \<Longrightarrow> Q (g x) (g y)) \<Longrightarrow> sorted_wrt Q (map g xs)"
  by (induction xs) auto

text \<open>C20: A search returns and leaves all rows as they are. When it succeeds there are at most as many hits as
  asked for, where a request for none counts as one; no entry is hit twice; the scores descend; and each hit is an entry that can be
  fetched under the identifier of the hit.\<close>

theorem search_returns_ranked_entries:
  assumes "\<And>xs. mset (se_hash_order env xs) = mset xs" "queries_join_entries env" "index_ok (vs_db st)"
    and "\<forall>e \<in> set (kd_entries (vs_db st)). object_metadata (se_json_from_str env) (er_metadata_json e)"
  shows "\<exists>r st'. search_vault env query limit st = Some (r, st') \<and> same_rows (vs_db st) (vs_db st') \<and>
    (\<forall>hits. r = Ok hits \<longrightarrow> length hits \<le> max limit 1 \<and> distinct (map kh_id hits) \<and>
       sorted_wrt (\<lambda>a b. kh_score b \<le> kh_score a) hits \<and>
       (\<forall>h \<in> set hits. kh_uri h = kh_id h \<and>
          (\<exists>entry. get_entry (se_json_from_str env) (kh_id h) (vs_db st') = Some entry \<and> ke_id entry = kh_id h)))"
proof (cases "trim query = []")
  case True
  then show ?thesis by (simp add: search_vault_def)
next
  case False
  obtain x st' where x: "fused_search env query (max limit 1) st = (x, st')" by fastforce
  note keeps = fused_search_keeps [OF assms(1,2) same_rows_refl, of st "max limit 1" query, unfolded x]
  show ?thesis
  proof (cases x)
    case (Inl e)
    then show ?thesis using False x keeps by (simp add: search_vault_def)
  next
    case (Inr fused)
    have rows: "same_rows (vs_db st) (vs_db st')" and ranked: "ranked_entries (vs_db st) (max limit 1) fused"
      using keeps Inr by simp_all
    have db: "index_ok (vs_db st')" "\<forall>e \<in> set (kd_entries (vs_db st')). object_metadata (se_json_from_str env) (er_metadata_json e)"
      "entry_ids (vs_db st') = entry_ids (vs_db st)"
      using assms(3,4) index_ok_same_rows [OF rows] rows by (simp_all add: same_rows_def entry_ids_def)
    have "\<forall>h \<in> set fused. \<exists>k. hit_of_entry (se_json_from_str env) (vs_db st') h k"
      using knowledge_hit_exists [OF db(2) _ db(1)] ranked db(3) by (auto simp: ranked_entries_def)
    then obtain g where hit: "\<forall>h \<in> set fused. hit_of_entry (se_json_from_str env) (vs_db st') h (g h)"
      by (rule bchoice [THEN exE])
    have g: "knowledge_hit_of (se_json_from_str env) (vs_db st') h = Some (g h)" "kh_id (g h) = fh_id h"
        "kh_score (g h) = fh_score h" "kh_uri (g h) = fh_id h"
        "\<exists>entry. get_entry (se_json_from_str env) (kh_id (g h)) (vs_db st') = Some entry \<and> ke_id entry = kh_id (g h)"
      if "h \<in> set fused" for h using bspec [OF hit that] unfolding hit_of_entry_def by blast+
    have "search_vault env query limit st = Some (Ok (map g fused), st')"
      using False x Inr those_map_Some [OF g(1)] by (simp add: search_vault_def)
    moreover have "map kh_id (map g fused) = map fh_id fused" using g(2) by simp
    then have "distinct (map kh_id (map g fused))" using ranked by (simp only: ranked_entries_def)
    moreover have "sorted_wrt (\<lambda>a b. kh_score b \<le> kh_score a) (map g fused)"
      using ranked g(3) by (intro sorted_wrt_map2 [of "\<lambda>a b. fh_score b \<le> fh_score a"]) (auto simp: ranked_entries_def)
    ultimately show ?thesis using rows ranked g(2,4,5) by (auto simp: ranked_entries_def simp del: map_map)
  qed
qed

section \<open>In a small vault\<close>

definition small_search_env :: "unit search_env" where
  "small_search_env = \<lparr>se_vault = small_env None, se_fts_virtual = False, se_fts_match = (\<lambda>_ _ _. Ok []),
     se_vector_top_k = (\<lambda>_ _ _. Ok []), se_sql_distance = (\<lambda>_ _ _. Ok []), se_orchestrator = None, se_reranker = None,
     se_sqrt = id, se_hash_order = rev, se_json_from_str = (\<lambda>_. None)\<rparr>"

definition small_search_db :: "unit knowledge_db" where
  "small_search_db = empty_db\<lparr>kd_entries := [small_row ''a.md'', small_row ''b.md''],
     kd_chunks := [\<lparr>cr_id = ''b.md#0'', cr_entry_id = ''b.md'', cr_heading = None, cr_content = ''on tea'', cr_snippet = ''on tea'',
       cr_embedding = None\<rparr>],
     kd_fts := [\<lparr>ft_chunk_id = ''b.md#0'', ft_entry_id = ''b.md'', ft_title = ''b.md'', ft_aliases = [], ft_tags = [],
       ft_content = ''on tea''\<rparr>]\<rparr>"

lemma small_search_db_ok: "index_ok small_search_db"
proof -
  have "''b.md#0'' = chunk_id ''b.md'' 0" by code_simp
  then show ?thesis by (auto simp: index_ok_def fts_mirror_def small_search_db_def empty_db_def small_row_def)
qed

definition small_hit :: ranked_hit where
  "small_hit = \<lparr>rh_id = ''b.md'', rh_title = ''b.md'', rh_score = 1, rh_excerpt = ''on tea''\<rparr>"

definition small_fused :: fused_hit where
  "small_fused = \<lparr>fh_id = ''b.md'', fh_title = ''b.md'', fh_score = 11 / 610, fh_excerpt = ''on tea'', fh_lanes = [''fts'']\<rparr>"

lemma small_fused_search:
  assumes "vs_db st = small_search_db"
  shows "fused_search small_search_env ''Tea'' 1 st = (Ok [small_fused], st)"
proof -
  let ?w = "lane_weights_for_intent IntentExploratory"
  have fts: "fts_lane small_search_env ''Tea'' 3 small_search_db = Ok [small_hit]"
    and dedup: "dedup_ranked_hits_from_vec [small_hit] = [small_hit]" "dedup_ranked_hits_from_vec [] = []"
    and graph: "graph_lane (merge_seed_hits [] [small_hit]) 1 small_search_db = []"
    and temporal: "temporal_lane ''Tea'' 1 small_search_db = []"
    and fused: "weighted_reciprocal_rank_fuse rev (ranked_lanes ?w [] [small_hit] [] [] @ [(''rerank'', [], lw_rerank ?w)]) 60 = [small_fused]"
    by code_simp+
  have "se_fts_virtual small_search_env = False" "ve_embedder (se_vault small_search_env) = None"
    "se_orchestrator small_search_env = None" "se_reranker small_search_env = None" "se_hash_order small_search_env = rev"
    by (simp_all add: small_search_env_def small_env_def)
  then show ?thesis using assms fts dedup graph temporal fused
    by (simp add: fused_search_def orchestration_plan_def expanded_lane_def semantic_lane_def rerank_lane_def try_st_def Let_def)
qed

theorem search_returns_ranked_entries_witness:
  "\<exists>h st'. search_vault small_search_env ''Tea'' 0 (small_state\<lparr>vs_db := small_search_db\<rparr>) = Some (Ok [h], st') \<and> kh_uri h = ''b.md'' \<and>
     (\<exists>entry. get_entry (\<lambda>_. None) ''b.md'' (vs_db st') = Some entry)"
proof -
  let ?st = "small_state\<lparr>vs_db := small_search_db\<rparr>"
  have "trim ''Tea'' = ''Tea''" "knowledge_hit_of (se_json_from_str small_search_env) small_search_db small_fused \<noteq> None" by code_simp+
  then obtain h0 where "search_vault small_search_env ''Tea'' 0 ?st = Some (Ok [h0], ?st)"
      "knowledge_hit_of (se_json_from_str small_search_env) small_search_db small_fused = Some h0"
    using small_fused_search [of ?st] by (auto simp: search_vault_def)
  then have run: "search_vault small_search_env ''Tea'' 0 ?st = Some (Ok [h0], ?st)" "kh_id h0 = ''b.md''"
    by (auto simp: knowledge_hit_of_def small_fused_def Let_def split: prod.splits)
  have "mset (se_hash_order small_search_env xs) = mset xs" for xs by (simp add: small_search_env_def)
  moreover have "queries_join_entries small_search_env"
    by (simp add: queries_join_entries_def known_rows_def small_search_env_def)
  moreover have "index_ok (vs_db ?st)" using small_search_db_ok by simp
  moreover have "\<forall>e \<in> set (kd_entries (vs_db ?st)). object_metadata (se_json_from_str small_search_env) (er_metadata_json e)"
    by (simp add: object_metadata_def small_search_env_def)
  ultimately obtain r st' where search: "search_vault small_search_env ''Tea'' 0 ?st = Some (r, st')"
    and hits: "\<And>hits h. r = Ok hits \<Longrightarrow> h \<in> set hits \<Longrightarrow> kh_uri h = kh_id h \<and>
      (\<exists>entry. get_entry (se_json_from_str small_search_env) (kh_id h) (vs_db st') = Some entry \<and> ke_id entry = kh_id h)"
    using search_returns_ranked_entries [of small_search_env ?st "''Tea''" 0] by blast
  have "r = Ok [h0]" using run(1) search by simp
  then show ?thesis using search run(2) hits [of "[h0]" h0] by (auto simp: small_search_env_def)
qed

end
