(* ===== verification/Spec2Isabelle.thy ===== *)
theory Spec2Isabelle
  imports Transport Agent_Turn Message_Processing Reliable_Delivery Memory_Prompt Archive_Properties Shell_Properties
    History_Properties Session_Properties Cron_Tick Heartbeat_Sessions Patch_Confinement
    Attachment_Properties Turn_Properties Note_Creation Search_Properties
begin

text \<open>
  \<^bold>\<open>The klaw agent runtime: a verified model.\<close>

  klaw is a personal agent in Rust. Channels turn chat messages into inbound envelopes on a
  transport; the agent loop consumes them, builds a conversation, lets a language model and its
  tools take turns until there is an answer, and publishes a reply. Around this core stand the
  session store with the chat history, the long-term memory, the approvals that guard dangerous
  tool calls, the cron and heartbeat services that send messages to the agent on a schedule, and a
  knowledge base of the user's notes. The
  sources are translated function by function; the names of definitions are those of the code, with a prefix
  or suffix where HOL or another part of the code has the name.

  \<^bold>\<open>Shared vocabulary.\<close> \<^verbatim>\<open>Klaw_Prelude\<close> has results as sums (\<open>Err\<close> and \<open>Ok\<close>, \<open>and_then\<close> is the
  question mark of Rust), the string operations of the standard library, saturating machine
  arithmetic and \<^verbatim>\<open>BTreeMap\<close> as an association list in key order with its interface as the
  locale \<open>ordered_map\<close>. \<^verbatim>\<open>Json_Value\<close> has the JSON values of \<^verbatim>\<open>serde_json\<close>. Tables of the
  database are ordered maps from their primary key to rows, and each SQL statement is one step.

  \<^bold>\<open>Messages and delivery\<close> (\<^verbatim>\<open>src/klaw-core\<close>).
  \<^item> \<^verbatim>\<open>Protocol\<close>: envelopes, topics, error codes, messages (\<^verbatim>\<open>protocol.rs\<close>, \<^verbatim>\<open>domain.rs\<close>,
    \<^verbatim>\<open>media.rs\<close>).
  \<^item> \<^verbatim>\<open>Reliability\<close>: backoff policy, idempotency keys and circuit breaker (\<^verbatim>\<open>reliability.rs\<close>) at
    the widths of the machine, with the exact backoff, the opening of the breaker, and that its
    half-open state is not enforced.
  \<^item> \<^verbatim>\<open>Transport\<close>: the in-memory transport, scheduler and idempotency store (\<^verbatim>\<open>transport.rs\<close>,
    \<^verbatim>\<open>scheduler.rs\<close>, \<^verbatim>\<open>mock.rs\<close>); the traits are the locales \<open>fifo_transport\<close> and the idempotency
    interface, interpreted on the in-memory implementations.

  \<^bold>\<open>The agent\<close> (\<^verbatim>\<open>src/klaw-agent\<close>, \<^verbatim>\<open>src/klaw-core/src/agent_loop.rs\<close>, \<^verbatim>\<open>src/klaw-llm\<close>,
  \<^verbatim>\<open>src/klaw-tool\<close>).
  \<^item> \<^verbatim>\<open>Llm_Types\<close>: requests, responses, errors and the tool registry.
  \<^item> \<^verbatim>\<open>Agent_Execution\<close>: \<^verbatim>\<open>run_agent_execution\<close>, the loop of model and tool calls. It may run
    forever, so it is a \<^theory_text>\<open>partial_function (option)\<close>; there is no fuel anywhere in the development.
    \<^verbatim>\<open>Agent_Turn\<close> proves that it returns once a limit is set, that limits and token budget hold,
    that every tool call is answered once and in order, and what decides its disposition.
  \<^item> \<^verbatim>\<open>Agent_Loop\<close>, \<^verbatim>\<open>Message_Processing\<close>: processing one message, with the run-state machine,
    telemetry and the metadata of the reply.
  \<^item> \<^verbatim>\<open>Agent_Runtime\<close>, \<^verbatim>\<open>Reliable_Delivery\<close>: \<^verbatim>\<open>run_once\<close> and \<^verbatim>\<open>run_once_reliable\<close> over arbitrary
    transports: a message has exactly one fate, attempts are bounded, the loop returns, and a
    redelivery is a duplicate.

  \<^bold>\<open>Memory\<close> (\<^verbatim>\<open>src/klaw-memory\<close>, \<^verbatim>\<open>src/klaw-tool/src/memory.rs\<close>). \<^verbatim>\<open>Memory_Governance\<close> has the
  governed writes and the table, \<^verbatim>\<open>Memory_Properties\<close> that they keep active memories unique,
  \<^verbatim>\<open>Memory_Prompt\<close> the section of the system prompt with its bounds, \<^verbatim>\<open>Memory_Archive\<close> and
  \<^verbatim>\<open>Archive_Properties\<close> the archival and that it loses nothing.

  \<^bold>\<open>Approvals and the shell\<close> (\<^verbatim>\<open>src/klaw-approval\<close>, \<^verbatim>\<open>src/klaw-tool/src/shell.rs\<close>,
  \<^verbatim>\<open>approval.rs\<close>, the table in \<^verbatim>\<open>src/klaw-storage\<close>). \<^verbatim>\<open>Approval\<close> and \<^verbatim>\<open>Approval_Protocol\<close>: the
  manager, and every interleaving of its statements as a step relation, in which an approval is used
  at most once. \<^verbatim>\<open>Shell_Tool\<close> and \<^verbatim>\<open>Shell_Properties\<close>: the shell tool starts a process only past its
  gate.

  \<^bold>\<open>Files and patches\<close> (\<^verbatim>\<open>src/klaw-tool/src/apply_patch.rs\<close>). \<^verbatim>\<open>File_System\<close> has paths and a file
  system of directories, files and symbolic links with the calls the tools make of the standard library
  (\<^verbatim>\<open>canonicalize\<close>, \<^verbatim>\<open>create_dir_all\<close>, \<^verbatim>\<open>write\<close>, \<^verbatim>\<open>remove_file\<close>, \<^verbatim>\<open>rename\<close>); the shell tool uses its paths.
  A displayed path is normalised, a trailing slash behind a link is not kept, and permissions, hard
  links and device failures are left out. \<^verbatim>\<open>File_Tree\<close> shows that the calls keep a well-formed tree
  and which paths they reach, \<^verbatim>\<open>File_Confinement\<close> when a sequence of them stays below given directories. \<^verbatim>\<open>Patch_Tool\<close> parses and applies a patch; \<^verbatim>\<open>Patch_Properties\<close> shows that
  a patch keeps the tree well-formed and refines an update of a map from paths to contents,
  \<^verbatim>\<open>Patch_Confinement\<close> what it may touch without an approval, and that it may stop half way.

  \<^bold>\<open>Sessions and history\<close> (\<^verbatim>\<open>src/klaw-storage/src/turso/session.rs\<close>, \<^verbatim>\<open>mapping.rs\<close>, \<^verbatim>\<open>jsonl.rs\<close>;
  \<^verbatim>\<open>src/klaw-session\<close> only passes calls on).
  \<^item> \<^verbatim>\<open>Chat_History\<close>: the history file of a session and its two readers; \<^verbatim>\<open>History_Properties\<close> shows
    that reading in chunks is a single pass, that what is appended is read back, that pages tile
    the history, and that sessions of different channels may share a file.
  \<^item> \<^verbatim>\<open>Sql_Text\<close>: values in the text of statements, and that they are read back as written.
  \<^item> \<^verbatim>\<open>Session_Store\<close>: every operation on the table \<^verbatim>\<open>sessions\<close> and the cleanup;
    \<^verbatim>\<open>Session_Properties\<close> shows over all sequences of operations that deletion is final and turns
    are counted, and exactly what a cleanup removes.

  \<^bold>\<open>Turns of a conversation\<close> (\<^verbatim>\<open>src/klaw-runtime/src/lib.rs\<close>, \<^verbatim>\<open>src/klaw-agent/src/context_compression.rs\<close>).
  The state of the runtime (sessions, history files, usage rows, memory, files and audit queues) is the
  world of the agent loop, so a turn and the tools it runs act on one state.
  \<^item> \<^verbatim>\<open>Context_Compression\<close>: the history given to the model, when it is compressed, the prompt and the
    reading of its answer. \<^verbatim>\<open>Turn_Records\<close>: the runtime bundle, usage and audit records, archived
    attachments and delivery metadata of a turn. \<^verbatim>\<open>Conversation_Turn\<close>: the turn from the message to the
    stored reply, isolated and history-only turns, and draining the queue.
  \<^item> \<^verbatim>\<open>World_Frame\<close>: processing a message keeps whatever its ports keep of the world. \<^verbatim>\<open>Turn_Properties\<close>: a
    turn appends its records and counts, and its two records share the cursor of the pages.
  \<^item> \<^verbatim>\<open>Turn_Compression\<close>: over any sequence of turns nothing leaves the conversation before it was handed
    to a compression, a failed compression gives its records up, and a summary is read from an answer in
    prose or in a fenced block.

  \<^bold>\<open>Channel attachments\<close> (\<^verbatim>\<open>src/klaw-tool/src/channel_attachment.rs\<close>, \<^verbatim>\<open>src/klaw-channel/src/outbound.rs\<close>).
  \<^verbatim>\<open>Channel_Attachment\<close> has the tool, the policy with its validation, the metadata of the reply, and the
  resolution to bytes by the channel; \<^verbatim>\<open>Attachment_Properties\<close> shows that a file is sent only from the
  workspace or the allowlist, and that what the tool accepted is what the channel sends.

  \<^bold>\<open>Cron\<close> (\<^verbatim>\<open>src/klaw-cron\<close>, \<^verbatim>\<open>src/klaw-storage/src/turso/cron.rs\<close>).
  \<^item> \<^verbatim>\<open>Cron_Store\<close>: jobs, claims and the rows of runs. \<^verbatim>\<open>Cron_Worker\<close>: schedules, the message of a
    run, and the tick.
  \<^item> \<^verbatim>\<open>Cron_Claims\<close>: workers that share a database, as a step relation; a slot is run at most once,
    unless an update overlaps the claim. \<^verbatim>\<open>Cron_Tick\<close>: what a tick changes, when nothing stays due,
    and that a job without a next run stops all jobs.
  \<^item> \<^verbatim>\<open>Slot_Claims\<close> and \<^verbatim>\<open>Run_Journal\<close> are shared with the heartbeats: the claim of a slot as the locale
    \<open>slot_claims\<close>, interpreted on both stores, and the journal of runs that only grows.

  \<^bold>\<open>Heartbeats\<close> (\<^verbatim>\<open>src/klaw-heartbeat\<close>, \<^verbatim>\<open>src/klaw-storage/src/turso/heartbeat.rs\<close>).
  \<^item> \<^verbatim>\<open>Heartbeat_Store\<close>: the tables; \<^verbatim>\<open>Heartbeat\<close>: the manager, the message with the conversation it
    carries, the run and the tick.
  \<^item> \<^verbatim>\<open>Heartbeat_Properties\<close>: a tick runs only jobs that are on time. \<^verbatim>\<open>Heartbeat_Sessions\<close>: a session
    never has two jobs, syncing keeps the configuration, and a silent heartbeat leaves no trace in
    the conversation.

  \<^bold>\<open>Knowledge base\<close> (\<^verbatim>\<open>src/klaw-knowledge\<close>). Notes are Markdown files below a vault, indexed into tables of
  entries, chunks, links and full text, and searched by several lanes whose ranks are fused.
  \<^item> \<^verbatim>\<open>Byte_Text\<close>: offsets and slices of text in bytes. \<^verbatim>\<open>Note_Parser\<close>: front matter, tags and wikilinks
    (\<^verbatim>\<open>obsidian/parser.rs\<close>). \<^verbatim>\<open>Note_Chunker\<close>: the division into chunks (\<^verbatim>\<open>chunker.rs\<close>); \<^verbatim>\<open>Chunk_Properties\<close>
    shows that it returns and covers the note, and that it repeats the overlap at a break point.
  \<^item> \<^verbatim>\<open>Note_Links\<close>: names, protected regions and the passes that find links (\<^verbatim>\<open>links.rs\<close>); the search for a
    name is a loop, shown to return in \<^verbatim>\<open>Link_Properties\<close> together with where links may lie.
  \<^item> \<^verbatim>\<open>Note_Index\<close>: tables and index passes (\<^verbatim>\<open>indexer.rs\<close>). \<^verbatim>\<open>Index_Properties\<close>: the invariant \<open>index_ok\<close> of the
    tables, that a pass makes the entries those of the vault, that a note replaces exactly its rows, and
    that an interrupted note stays incomplete.
  \<^item> \<^verbatim>\<open>Knowledge_Vault\<close>: the provider's indexing, new notes and retrieval, and the events of the file watcher
    (\<^verbatim>\<open>provider.rs\<close>, \<^verbatim>\<open>watcher.rs\<close>), with every interleaving of them and of outside changes to files as the
    step relation \<open>vault_step\<close>. \<^verbatim>\<open>Vault_Properties\<close>: the tables stay consistent in all of them, and a renamed
    note moves. \<^verbatim>\<open>Note_Creation\<close>: where a new note is written, that it is found again, and how a backslash
    leaves the vault.
  \<^item> \<^verbatim>\<open>Knowledge_Ranking\<close>, \<^verbatim>\<open>Ranking_Properties\<close>: fusion of ranks, duplicates, the bundle of excerpts
    (\<^verbatim>\<open>retrieval/fusion.rs\<close>, \<^verbatim>\<open>context.rs\<close>). \<^verbatim>\<open>Knowledge_Search\<close>, \<^verbatim>\<open>Search_Properties\<close>: the lanes and the search as
    a whole, whose hits are entries of the index in the order of their scores.
  A result \<open>None\<close> there is a panic or a loop that does not end; the properties show that there is neither.
  Scores and similarities, \<^verbatim>\<open>f64\<close> in the code, are exact rationals.

  \<^bold>\<open>Parameters.\<close> What is not in the repository is an argument: the language model, tools and
  transports act on an arbitrary outside world; clock readings, fresh identifiers, the JSON text
  codec, SHA-256, \<^verbatim>\<open>shlex\<close>, processes, the directories the shell tool sees, the summary generator, the archive
  service, the models of the knowledge base, the full-text and vector functions of its database, the order of a hash
  map, and the crates \<^verbatim>\<open>ignore\<close>, \<^verbatim>\<open>strsim\<close>, \<^verbatim>\<open>time\<close>, \<^verbatim>\<open>cron\<close>, \<^verbatim>\<open>chrono\<close>, \<^verbatim>\<open>chrono_tz\<close> and \<^verbatim>\<open>humantime\<close>. Where a property relies on one, the
  assumption is a named predicate in its statement (\<open>jsonl_faithful\<close>, \<open>job_advances\<close>, \<open>queries_join_entries\<close>), and its witness
  instantiates the parameter.

  \<^bold>\<open>Names that differ.\<close> \<open>TokenBudgetExceeded\<close> is \<^verbatim>\<open>AgentExecutionError::BudgetExceeded\<close>;
  \<open>EmbeddingFailed\<close>, \<open>StorageFailed\<close> and \<open>SerializationFailed\<close> are \<^verbatim>\<open>MemoryError::Provider\<close>,
  \<^verbatim>\<open>Storage\<close> and \<^verbatim>\<open>Serialization\<close>; \<open>Backend\<close> is \<^verbatim>\<open>StorageError::Backend\<close>.

  \<^bold>\<open>Not modelled.\<close> Log lines; failures of the database and of the file system other than violated
  keys and missing files; foreign keys; how full-text and vector indexes match; the rounding of \<^verbatim>\<open>f64\<close>; the creation of the knowledge
  schema, the threads of the file watcher, the bindings to local models and the tool in front of the
  knowledge base; the order SQL leaves open among
  rows of the same millisecond; the overflow panic of adding two durations in the session lock; the
  second, sqlx-based implementation of the storage traits; the workers that drain the audit queues into
  the database and the listings of usage and audit records; webhook events and pending questions; the
  streaming variants of a turn, which interleave it with a writer to the channel, and webhook turns. The channels, gateway, user interfaces, command line, media and voice services,
  skills, model downloads and the client protocols (MCP, ACP) are input and output
  around this core.

  \<^bold>\<open>Next.\<close> The knowledge tool, webhook turns and the streaming variants of a turn, the tools that manage cron jobs and
  heartbeats, and the rest of the validation of the configuration.
\<close>

end
